(* ===== verification/Prelude.thy ===== *)
theory Prelude
  imports Main "HOL-Library.AList" "HOL-Library.List_Lexorder"
begin

text \<open>
  What every component theory shares: the theorem collections of the development, the
  result type of code that can raise, and the facts about association lists and sorted
  lists that the models of Python dictionaries rest on.

  A Python function that can raise returns \<open>'e + 'a\<close>: \<open>Inl\<close> is the exception, \<open>Inr\<close> the
  value. \<open>bindE\<close> runs one such computation after another and stops at the first
  exception, as a Python frame does.
\<close>

named_theorems py_simps "evaluation rules for the Python value model"
named_theorems wf_intros "introduction rules for well-formedness of values and states"
named_theorems res_simps "rules for computations that can raise"

subsection \<open>Results\<close>

fun bindE :: "'e + 'a \<Rightarrow> ('a \<Rightarrow> 'e + 'b) \<Rightarrow> 'e + 'b" where
  "bindE (Inl e) f = Inl e"
| "bindE (Inr x) f = f x"

definition ensure :: "bool \<Rightarrow> 'e \<Rightarrow> 'e + unit" where
  "ensure b e = (if b then Inr () else Inl e)"

fun mapE :: "('a \<Rightarrow> 'e + 'b) \<Rightarrow> 'a list \<Rightarrow> 'e + 'b list" where
  "mapE f [] = Inr []"
| "mapE f (x # xs) = bindE (f x) (\<lambda>y. bindE (mapE f xs) (\<lambda>ys. Inr (y # ys)))"

text \<open>A Python loop that appends to one list of findings, each step able to raise.\<close>

fun concatE :: "('a \<Rightarrow> 'e + 'b list) \<Rightarrow> 'a list \<Rightarrow> 'e + 'b list" where
  "concatE f [] = Inr []"
| "concatE f (x # xs) = bindE (f x) (\<lambda>y. bindE (concatE f xs) (\<lambda>ys. Inr (y @ ys)))"

text \<open>A sequence of state changes, each able to raise.\<close>

fun foldE :: "('s \<Rightarrow> 'a \<Rightarrow> 'e + 's) \<Rightarrow> 's \<Rightarrow> 'a list \<Rightarrow> 'e + 's" where
  "foldE f s [] = Inr s"
| "foldE f s (x # xs) = bindE (f s x) (\<lambda>s'. foldE f s' xs)"

lemma bindE_eq_Inr [res_simps]:
  "bindE m f = Inr y \<longleftrightarrow> (\<exists>x. m = Inr x \<and> f x = Inr y)"
  by (cases m) auto

lemma bindE_eq_Inl [res_simps]:
  "bindE m f = Inl e \<longleftrightarrow> m = Inl e \<or> (\<exists>x. m = Inr x \<and> f x = Inl e)"
  by (cases m) auto

lemma bindE_assoc: "bindE (bindE m f) g = bindE m (\<lambda>x. bindE (f x) g)"
  by (cases m) auto

lemma bindE_Inr_right [simp]: "bindE m Inr = m"
  by (cases m) auto

lemma ensure_eq_Inr [res_simps]: "ensure b e = Inr x \<longleftrightarrow> b"
  by (simp add: ensure_def)

lemma ensure_eq_Inl [res_simps]: "ensure b e = Inl e' \<longleftrightarrow> \<not> b \<and> e' = e"
  by (auto simp: ensure_def)

lemma ensure_True [simp]: "ensure True e = Inr ()"
  and ensure_False [simp]: "ensure False e = Inl e"
  by (simp_all add: ensure_def)

lemma mapE_Inr_length: "mapE f xs = Inr ys \<Longrightarrow> length ys = length xs"
  by (induction xs arbitrary: ys) (auto simp: res_simps)

lemma foldE_append: "foldE f s (xs @ ys) = bindE (foldE f s xs) (\<lambda>s'. foldE f s' ys)"
  by (induction xs arbitrary: s) (simp_all add: bindE_assoc)

lemma foldE_invariant:
  "foldE f s xs = Inr s' \<Longrightarrow> P s \<Longrightarrow> (\<And>s x t. P s \<Longrightarrow> f s x = Inr t \<Longrightarrow> P t) \<Longrightarrow> P s'"
  by (induction xs arbitrary: s) (auto simp: bindE_eq_Inr)

lemma mapE_total: "(\<And>x. x \<in> set xs \<Longrightarrow> f x = Inr (g x)) \<Longrightarrow> mapE f xs = Inr (map g xs)"
  by (induction xs) auto

lemma concatE_total:
  "(\<And>x. x \<in> set xs \<Longrightarrow> f x = Inr (g x)) \<Longrightarrow> concatE f xs = Inr (concat (map g xs))"
  by (induction xs) auto

lemma concatE_eq_Nil:
  "concatE f xs = Inr [] \<longleftrightarrow> (\<forall>x \<in> set xs. f x = Inr [])"
  by (induction xs) (auto simp: res_simps)

subsection \<open>Association lists\<close>

lemma map_of_update_same [simp]: "map_of (AList.update k v d) k = Some v"
  by (simp add: update_conv)

lemma map_of_update_other [simp]: "k' \<noteq> k \<Longrightarrow> map_of (AList.update k v d) k' = map_of d k'"
  by (simp add: update_conv)

lemma map_of_delete_same [simp]: "map_of (AList.delete k d) k = None"
  by (simp add: delete_conv)

lemma map_of_delete_other [simp]: "k' \<noteq> k \<Longrightarrow> map_of (AList.delete k d) k' = map_of d k'"
  by (simp add: delete_conv)

lemma distinct_fst_update [wf_intros]:
  "distinct (map fst d) \<Longrightarrow> distinct (map fst (AList.update k v d))"
  by (rule distinct_update)

lemma distinct_fst_delete [wf_intros]:
  "distinct (map fst d) \<Longrightarrow> distinct (map fst (AList.delete k d))"
  by (rule distinct_delete)

lemma set_update_subset: "set (AList.update k v d) \<subseteq> insert (k, v) (set d)"
  by (induction d) auto

lemma delete_update_same: "AList.delete k (AList.update k v d) = AList.delete k d"
  by (induction d) (auto simp: AList.delete_eq)

lemma delete_idem_notin: "k \<notin> fst ` set d \<Longrightarrow> AList.delete k d = d"
  by (induction d) (auto simp: AList.delete_eq)

lemma update_notin: "k \<notin> fst ` set d \<Longrightarrow> AList.update k v d = d @ [(k, v)]"
  by (induction d) auto

lemma map_of_eq_None_fst: "map_of d k = None \<longleftrightarrow> k \<notin> fst ` set d"
  by (rule map_of_eq_None_iff)

subsection \<open>Sorting by key\<close>

lemma map_of_insort_key:
  "k \<notin> fst ` set d \<Longrightarrow> map_of (insort_key fst (k, v) d) = (map_of d)(k \<mapsto> v)"
  by (induction d) (auto simp: fun_eq_iff)

lemma map_of_sort_key_fst:
  "distinct (map fst d) \<Longrightarrow> map_of (sort_key fst d) = map_of d"
  by (induction d) (auto simp: map_of_insort_key fun_eq_iff)

lemma distinct_fst_sort_key [simp]:
  "distinct (map fst (sort_key fst d)) = distinct (map fst d)"
  by (induction d) (auto simp: distinct_insort_key)

lemma sort_key_map_snd:
  "sort_key fst (map (\<lambda>(k, v). (k, f v)) d) = map (\<lambda>(k, v). (k, f v)) (sort_key fst d)"
proof (induction d)
  case (Cons p d)
  have "insort_key fst (k, f v) (map (\<lambda>(k, v). (k, f v)) e)
      = map (\<lambda>(k, v). (k, f v)) (insort_key fst (k, v) e)" for k v e
    by (induction e) auto
  with Cons show ?case by (cases p) simp
qed simp

lemma alist_as_map:
  "distinct (map fst d) \<Longrightarrow> map (\<lambda>k. (k, the (map_of d k))) (map fst d) = d"
  unfolding map_map by (rule map_idI) (auto simp: map_of_is_SomeI)

lemma sorted_key_unique:
  assumes "sorted (map fst d)" "sorted (map fst e)"
    and "distinct (map fst d)" "distinct (map fst e)" and "map_of d = map_of e"
  shows "d = e"
proof -
  have "set (map fst d) = set (map fst e)"
    using arg_cong [OF assms(5), of dom] by (simp add: dom_map_of_conv_image_fst)
  then have "map fst d = map fst e"
    using assms by (simp add: sorted_distinct_set_unique)
  with assms(5) have "map (\<lambda>k. (k, the (map_of d k))) (map fst d)
      = map (\<lambda>k. (k, the (map_of e k))) (map fst e)" by simp
  with assms(3,4) show ?thesis by (simp only: alist_as_map)
qed

lemma sort_key_fst_map_of_eq:
  assumes "distinct (map fst d)" and "distinct (map fst e)" and "map_of d = map_of e"
  shows "sort_key fst d = sort_key fst e"
  using assms by (intro sorted_key_unique) (simp_all add: map_of_sort_key_fst)

end
