(* ===== verification/Py_Value.thy ===== *)
theory Py_Value
  imports Prelude
begin

text \<open>
  The values the program computes with. A Python string is the list of its code points
  (\<open>ustr\<close>); \<open>u\<close> embeds an ASCII literal. The records of the program are JSON dictionaries:
  \<open>json\<close> is the type of the values \<open>json.loads\<close> returns and \<open>json.dumps\<close> takes, with a
  dictionary as the association list of its items in insertion order. Floats are left out:
  no schema of the repository has one.

  A message of the program is \<open>Msg template arguments\<close>: the templates are the English
  reading of the Japanese f-strings of the source, the arguments are the values they
  interpolate. \<open>Joined\<close> is \<open>"; ".join\<close>.
\<close>

subsection \<open>Strings\<close>

type_synonym ustr = "nat list"

definition u :: "string \<Rightarrow> ustr" where
  "u s = map of_char s"

lemma u_eq_iff [simp]: "u s = u t \<longleftrightarrow> s = t"
proof
  assume "u s = u t"
  then show "s = t"
    unfolding u_def by (rule map_injective) (auto simp: inj_def)
qed simp

lemma u_Nil [simp]: "u [] = []"
  by (simp add: u_def)

text \<open>As a congruence rule: texts are not taken apart, which makes evaluation over literals several times faster.\<close>

lemma u_cong: "u s = u s"
  by (rule refl)

lemma u_eq_Nil [simp]: "u s = [] \<longleftrightarrow> s = []" "[] = u s \<longleftrightarrow> s = []"
  by (simp_all add: u_def)

lemma length_u [simp]: "length (u s) = length s"
  by (simp add: u_def)

text \<open>A code point of a well-formed string: a Unicode scalar value, not a surrogate.\<close>

definition scalar :: "nat \<Rightarrow> bool" where
  "scalar c \<longleftrightarrow> c < 0xD800 \<or> 0xE000 \<le> c \<and> c < 0x110000"

definition ascii :: "ustr \<Rightarrow> bool" where
  "ascii s \<longleftrightarrow> list_all (\<lambda>c. c < 128) s"

subsection \<open>Values\<close>

datatype json =
    JNull
  | JBool bool
  | JInt int
  | JStr ustr
  | JArr "json list"
  | JObj "(ustr \<times> json) list"

type_synonym obj = "(ustr \<times> json) list"

abbreviation js :: "string \<Rightarrow> json" where
  "js s \<equiv> JStr (u s)"

datatype msg = Msg string "json list" | Joined "msg list" | Within string "json list" msg

text \<open>
  The exceptions the modelled code lets escape. \<open>TypeViolation\<close> marks an argument outside
  the declared type of the source (an id that is not a string used as a dictionary key);
  Python itself would go on with it.
\<close>

datatype exn =
    KeyError json
  | KeyErrorMsg msg
  | TypeError
  | AttributeError
  | ValueError msg
  | IndexError
  | JSONDecodeError
  | OSError
  | UnicodeError
  | TypeViolation

subsection \<open>Truth, type tests\<close>

fun truthy :: "json \<Rightarrow> bool" where
  "truthy JNull = False"
| "truthy (JBool b) = b"
| "truthy (JInt i) = (i \<noteq> 0)"
| "truthy (JStr s) = (s \<noteq> [])"
| "truthy (JArr xs) = (xs \<noteq> [])"
| "truthy (JObj d) = (d \<noteq> [])"

fun is_dict :: "json \<Rightarrow> bool" where
  "is_dict (JObj _) = True"
| "is_dict _ = False"

fun is_list :: "json \<Rightarrow> bool" where
  "is_list (JArr _) = True"
| "is_list _ = False"

fun is_str :: "json \<Rightarrow> bool" where
  "is_str (JStr _) = True"
| "is_str _ = False"

definition is_true :: "json \<Rightarrow> bool" where
  "is_true v \<longleftrightarrow> v = JBool True"

definition is_false :: "json \<Rightarrow> bool" where
  "is_false v \<longleftrightarrow> v = JBool False"

fun hashable :: "json \<Rightarrow> bool" where
  "hashable (JArr _) = False"
| "hashable (JObj _) = False"
| "hashable _ = True"

lemma is_dict_iff: "is_dict v \<longleftrightarrow> (\<exists>d. v = JObj d)"
  by (cases v) auto

lemma is_list_iff: "is_list v \<longleftrightarrow> (\<exists>xs. v = JArr xs)"
  by (cases v) auto

lemma is_str_iff: "is_str v \<longleftrightarrow> (\<exists>s. v = JStr s)"
  by (cases v) auto

subsection \<open>Dictionaries\<close>

text \<open>\<open>d.get("k")\<close>, \<open>d.get("k", default)\<close>, \<open>"k" in d\<close>, \<open>d["k"]\<close>, \<open>d["k"] = v\<close>, \<open>d.pop("k", None)\<close>\<close>

definition dget_or :: "obj \<Rightarrow> string \<Rightarrow> json \<Rightarrow> json" where
  "dget_or d k v = (case map_of d (u k) of None \<Rightarrow> v | Some w \<Rightarrow> w)"

definition dget :: "obj \<Rightarrow> string \<Rightarrow> json" where
  "dget d k = dget_or d k JNull"

definition dhas :: "obj \<Rightarrow> string \<Rightarrow> bool" where
  "dhas d k \<longleftrightarrow> map_of d (u k) \<noteq> None"

definition ditem :: "obj \<Rightarrow> string \<Rightarrow> exn + json" where
  "ditem d k = (case map_of d (u k) of None \<Rightarrow> Inl (KeyError (js k)) | Some w \<Rightarrow> Inr w)"

definition dset :: "obj \<Rightarrow> string \<Rightarrow> json \<Rightarrow> obj" where
  "dset d k v = AList.update (u k) v d"

definition ddel :: "obj \<Rightarrow> string \<Rightarrow> obj" where
  "ddel d k = AList.delete (u k) d"

text \<open>\<open>{f(k): g(v) for k, v in items}\<close>: a later item overwrites the value of an equal key.\<close>

definition dict_of :: "(ustr \<times> 'a) list \<Rightarrow> (ustr \<times> 'a) list" where
  "dict_of items = fold (\<lambda>(k, v) d. AList.update k v d) items []"

text \<open>Indexing any value by a string key: only a dictionary has one.\<close>

fun jitem :: "json \<Rightarrow> string \<Rightarrow> exn + json" where
  "jitem (JObj d) k = ditem d k"
| "jitem _ k = Inl TypeError"

text \<open>\<open>x.get(k)\<close> on any value: only a dictionary has the method.\<close>

fun jget :: "json \<Rightarrow> string \<Rightarrow> exn + json" where
  "jget (JObj d) k = Inr (dget d k)"
| "jget _ k = Inl AttributeError"

text \<open>A dictionary of records keyed by a string, looked up with a key of any type.\<close>

fun hash_lookup :: "(ustr \<times> 'a) list \<Rightarrow> json \<Rightarrow> exn + 'a option" where
  "hash_lookup m (JStr s) = Inr (map_of m s)"
| "hash_lookup m (JArr _) = Inl TypeError"
| "hash_lookup m (JObj _) = Inl TypeError"
| "hash_lookup m _ = Inr None"

fun as_key :: "json \<Rightarrow> exn + ustr" where
  "as_key (JStr s) = Inr s"
| "as_key (JArr _) = Inl TypeError"
| "as_key (JObj _) = Inl TypeError"
| "as_key _ = Inl TypeViolation"

text \<open>A value that the source iterates over or takes a set of.\<close>

fun iter_values :: "json \<Rightarrow> exn + json list" where
  "iter_values (JArr xs) = Inr xs"
| "iter_values (JStr s) = Inr (map (\<lambda>c. JStr [c]) s)"
| "iter_values (JObj d) = Inr (map (\<lambda>(k, _). JStr k) d)"
| "iter_values _ = Inl TypeError"

text \<open>\<open>set(x)\<close>, as the list of its members, and \<open>d[k] = v\<close> on a value of any type.\<close>

definition py_set :: "json \<Rightarrow> exn + json list" where
  "py_set v = bindE (iter_values v) (\<lambda>xs. if list_all hashable xs then Inr xs else Inl TypeError)"

fun jsetitem :: "json \<Rightarrow> ustr \<Rightarrow> json \<Rightarrow> exn + json" where
  "jsetitem (JObj d) k v = Inr (JObj (AList.update k v d))"
| "jsetitem _ k v = Inl TypeError"

lemma dget_or_dset_same [py_simps, simp]: "dget_or (dset d k v) k w = v"
  by (simp add: dget_or_def dset_def)

lemma dget_or_dset_other [py_simps, simp]: "k' \<noteq> k \<Longrightarrow> dget_or (dset d k v) k' w = dget_or d k' w"
  by (simp add: dget_or_def dset_def)

lemma dget_dset_same [py_simps, simp]: "dget (dset d k v) k = v"
  by (simp add: dget_def)

lemma dget_dset_other [py_simps, simp]: "k' \<noteq> k \<Longrightarrow> dget (dset d k v) k' = dget d k'"
  by (simp add: dget_def)

lemma dget_ddel_same [py_simps, simp]: "dget (ddel d k) k = JNull"
  by (simp add: dget_def dget_or_def ddel_def)

lemma dget_ddel_other [py_simps, simp]: "k' \<noteq> k \<Longrightarrow> dget (ddel d k) k' = dget d k'"
  by (simp add: dget_def dget_or_def ddel_def)

lemma dhas_dset [py_simps, simp]: "dhas (dset d k v) k' \<longleftrightarrow> k' = k \<or> dhas d k'"
  by (cases "k' = k") (auto simp: dhas_def dset_def)

lemma dhas_ddel [py_simps, simp]: "dhas (ddel d k) k' \<longleftrightarrow> k' \<noteq> k \<and> dhas d k'"
  by (cases "k' = k") (auto simp: dhas_def ddel_def)

lemma dget_not_dhas: "\<not> dhas d k \<Longrightarrow> dget d k = JNull"
  by (simp add: dhas_def dget_def dget_or_def)

lemma dhas_dget: "dget d k \<noteq> JNull \<Longrightarrow> dhas d k"
  using dget_not_dhas by blast

lemma ditem_eq_Inr [res_simps]: "ditem d k = Inr v \<longleftrightarrow> dhas d k \<and> dget d k = v"
  by (auto simp: ditem_def dhas_def dget_def dget_or_def split: option.splits)

lemma ditem_eq_Inl [res_simps]: "ditem d k = Inl e \<longleftrightarrow> \<not> dhas d k \<and> e = KeyError (js k)"
  by (auto simp: ditem_def dhas_def split: option.splits)

lemma ditem_dhas: "dhas d k \<Longrightarrow> ditem d k = Inr (dget d k)"
  by (auto simp: ditem_def dhas_def dget_def dget_or_def split: option.splits)

lemma dict_of_snoc: "dict_of (xs @ [(k, v)]) = AList.update k v (dict_of xs)"
  by (simp add: dict_of_def)

lemma distinct_dict_of [wf_intros]: "distinct (map fst (dict_of items))"
  by (induction items rule: rev_induct)
    (auto simp: dict_of_snoc distinct_fst_update dict_of_def)

lemma dict_of_subset: "set (dict_of items) \<subseteq> set items"
proof (induction items rule: rev_induct)
  case (snoc p items)
  then show ?case
    using set_update_subset [of "fst p" "snd p" "dict_of items"]
    by (cases p) (auto simp: dict_of_snoc)
qed (simp add: dict_of_def)

lemma fst_dict_of: "fst ` set (dict_of items) = fst ` set items"
proof (induction items rule: rev_induct)
  case (snoc p items)
  then show ?case by (cases p) (simp add: dict_of_snoc dom_update)
qed (simp add: dict_of_def)

lemma dict_of_distinct: "distinct (map fst items) \<Longrightarrow> dict_of items = items"
proof (induction items rule: rev_induct)
  case (snoc p items)
  then show ?case by (cases p) (auto simp: dict_of_snoc update_notin image_def)
qed (simp add: dict_of_def)

lemma hash_lookup_eq_Inr_Some [res_simps]:
  "hash_lookup m k = Inr (Some v) \<longleftrightarrow> (\<exists>s. k = JStr s \<and> map_of m s = Some v)"
  by (cases k) auto

lemma as_key_eq_Inr [res_simps]: "as_key k = Inr s \<longleftrightarrow> k = JStr s"
  by (cases k) auto

subsection \<open>Key order and equality\<close>

text \<open>
  \<open>sort_keys\<close> orders the items of every dictionary by key, as \<open>json.dumps(sort_keys=True)\<close>
  visits them. Python's \<open>==\<close> ignores the insertion order of dictionaries and takes \<open>True\<close>
  for \<open>1\<close> and \<open>False\<close> for \<open>0\<close>.
\<close>

fun sort_keys :: "json \<Rightarrow> json" where
  "sort_keys (JArr xs) = JArr (map sort_keys xs)"
| "sort_keys (JObj d) = JObj (sort_key fst (map (\<lambda>(k, v). (k, sort_keys v)) d))"
| "sort_keys v = v"

fun bools_to_ints :: "json \<Rightarrow> json" where
  "bools_to_ints (JBool b) = JInt (if b then 1 else 0)"
| "bools_to_ints (JArr xs) = JArr (map bools_to_ints xs)"
| "bools_to_ints (JObj d) = JObj (map (\<lambda>(k, v). (k, bools_to_ints v)) d)"
| "bools_to_ints v = v"

definition py_eq :: "json \<Rightarrow> json \<Rightarrow> bool" where
  "py_eq a b \<longleftrightarrow> bools_to_ints (sort_keys a) = bools_to_ints (sort_keys b)"

definition py_in :: "json \<Rightarrow> json list \<Rightarrow> bool" where
  "py_in a xs \<longleftrightarrow> list_ex (py_eq a) xs"

lemma py_eq_refl [simp]: "py_eq a a"
  by (simp add: py_eq_def)

lemma py_eq_sym: "py_eq a b = py_eq b a"
  by (auto simp: py_eq_def)

lemma py_eq_trans: "py_eq a b \<Longrightarrow> py_eq b c \<Longrightarrow> py_eq a c"
  by (simp add: py_eq_def)

lemma py_eq_JStr [simp]: "py_eq a (JStr s) \<longleftrightarrow> a = JStr s" "py_eq (JStr s) a \<longleftrightarrow> a = JStr s"
  by (cases a; auto simp: py_eq_def)+

lemma py_eq_JNull [simp]: "py_eq a JNull \<longleftrightarrow> a = JNull" "py_eq JNull a \<longleftrightarrow> a = JNull"
  by (cases a; auto simp: py_eq_def)+

lemma py_eq_JInt: "py_eq a (JInt i) \<longleftrightarrow> a = JInt i \<or> a = JBool True \<and> i = 1 \<or> a = JBool False \<and> i = 0"
  by (cases a) (auto simp: py_eq_def)

lemma py_eq_JBool: "py_eq a (JBool b) \<longleftrightarrow> a = JBool b \<or> a = JInt (if b then 1 else 0)"
  by (cases a) (auto simp: py_eq_def)

lemma py_in_strs: "py_in a (map JStr ss) \<longleftrightarrow> (\<exists>s \<in> set ss. a = JStr s)"
  by (auto simp: py_in_def list_ex_iff)

text \<open>
  A value that \<open>json.loads\<close> can return from valid UTF-8 text: the keys of every dictionary
  are distinct and every string consists of scalar values.
\<close>

fun wf_json :: "json \<Rightarrow> bool" where
  "wf_json (JStr s) = list_all scalar s"
| "wf_json (JArr xs) = list_all wf_json xs"
| "wf_json (JObj d) = (distinct (map fst d) \<and> list_all (\<lambda>(k, v). list_all scalar k \<and> wf_json v) d)"
| "wf_json v = True"

lemma wf_json_sort_keys [simp]: "wf_json (sort_keys v) = wf_json v"
proof (induction v rule: sort_keys.induct)
  case (2 d)
  have fst: "map fst (map (\<lambda>(k, v). (k, sort_keys v)) d) = map fst d"
    by (induction d) auto
  have "list_all (\<lambda>(k, v). list_all scalar k \<and> wf_json v)
          (sort_key fst (map (\<lambda>(k, v). (k, sort_keys v)) d))
      \<longleftrightarrow> list_all (\<lambda>(k, v). list_all scalar k \<and> wf_json v) d"
    using "2.IH" by (fastforce simp: list_all_iff)
  then show ?case by (simp only: sort_keys.simps wf_json.simps distinct_fst_sort_key fst)
qed (auto simp: list_all_iff)

lemma sort_keys_idem [simp]: "sort_keys (sort_keys v) = sort_keys v"
proof (induction v rule: sort_keys.induct)
  case (2 d)
  have "map (\<lambda>(k, v). (k, sort_keys v)) (sort_key fst (map (\<lambda>(k, v). (k, sort_keys v)) d))
      = sort_key fst (map (\<lambda>(k, v). (k, sort_keys v)) d)"
    using "2.IH" by (intro map_idI) (fastforce simp: image_iff)
  then show ?case
    by (simp add: sort_key_map_snd [symmetric] sort_key_id_if_sorted)
qed auto

lemma sort_keys_JObj_eq:
  assumes "distinct (map fst d)" and "distinct (map fst e)" and "map_of d = map_of e"
  shows "sort_keys (JObj d) = sort_keys (JObj e)"
  using sort_key_fst_map_of_eq [OF assms] by (simp add: sort_key_map_snd)

lemma py_eq_JObj:
  assumes "distinct (map fst d)" and "distinct (map fst e)" and "map_of d = map_of e"
  shows "py_eq (JObj d) (JObj e)"
  using sort_keys_JObj_eq [OF assms] by (simp add: py_eq_def)

lemma sort_keys_JObj_lookup:
  assumes "sort_keys (JObj d) = sort_keys (JObj e)"
    and "distinct (map fst d)" and "distinct (map fst e)"
  shows "map_option sort_keys (map_of d k) = map_option sort_keys (map_of e k)"
proof -
  have fst: "map fst (map (\<lambda>(k, v). (k, sort_keys v)) x) = map fst x" for x
    by (induction x) auto
  have "map_of (map (\<lambda>(k, v). (k, sort_keys v)) d) = map_of (map (\<lambda>(k, v). (k, sort_keys v)) e)"
    using assms map_of_sort_key_fst [of "map (\<lambda>(k, v). (k, sort_keys v)) d"]
      map_of_sort_key_fst [of "map (\<lambda>(k, v). (k, sort_keys v)) e"]
    by (simp only: fst sort_keys.simps json.inject)
  moreover have "map_of (map (\<lambda>(k, v). (k, sort_keys v)) x) k = map_option sort_keys (map_of x k)" for x
    by (induction x) auto
  ultimately show ?thesis by metis
qed

lemma sort_keys_JObj_eq_iff:
  assumes "distinct (map fst d)" and "distinct (map fst e)"
  shows "sort_keys (JObj d) = sort_keys (JObj e) \<longleftrightarrow>
    (\<forall>k. map_option sort_keys (map_of d k) = map_option sort_keys (map_of e k))"
proof
  assume eq: "\<forall>k. map_option sort_keys (map_of d k) = map_option sort_keys (map_of e k)"
  have fst: "map fst (map (\<lambda>(k, v). (k, sort_keys v)) x) = map fst x" for x
    by (induction x) auto
  have m: "map_of (map (\<lambda>(k, v). (k, sort_keys v)) x) k = map_option sort_keys (map_of x k)" for x k
    by (induction x) auto
  have "map_of (map (\<lambda>(k, v). (k, sort_keys v)) d) = map_of (map (\<lambda>(k, v). (k, sort_keys v)) e)"
    by (rule ext) (simp only: m eq)
  then show "sort_keys (JObj d) = sort_keys (JObj e)"
    using assms sort_key_fst_map_of_eq [of "map (\<lambda>(k, v). (k, sort_keys v)) d"
        "map (\<lambda>(k, v). (k, sort_keys v)) e"] by (simp only: fst sort_keys.simps)
qed (use assms sort_keys_JObj_lookup in blast)

lemma sort_keys_eq_hashable: "hashable y \<Longrightarrow> sort_keys x = sort_keys y \<longleftrightarrow> x = y"
  by (cases x; cases y) auto

lemma wf_json_dget: "wf_json (JObj d) \<Longrightarrow> wf_json (dget d k)"
  by (auto simp: dget_def dget_or_def list_all_iff dest!: map_of_SomeD split: option.splits)

lemma wf_json_update [wf_intros]:
  "wf_json (JObj d) \<Longrightarrow> list_all scalar k \<Longrightarrow> wf_json v \<Longrightarrow> wf_json (JObj (AList.update k v d))"
  using set_update_subset [of k v d] by (fastforce simp: list_all_iff distinct_update)

lemma wf_json_delete [wf_intros]: "wf_json (JObj d) \<Longrightarrow> wf_json (JObj (AList.delete k d))"
  using distinct_delete [of d k] by (auto simp: list_all_iff AList.delete_eq)

lemma scalar_of_char [simp]: "scalar (of_char c)"
proof -
  have "(of_char c :: nat) < 256" by (rule nat_of_char_less_256)
  then have "(of_char c :: nat) < 0xD800" by linarith
  then show ?thesis by (simp only: scalar_def simp_thms)
qed

lemma list_all_scalar_u [simp, wf_intros]: "list_all scalar (u s)"
  by (simp add: u_def list_all_iff)

lemma wf_json_dset [wf_intros]: "wf_json (JObj d) \<Longrightarrow> wf_json v \<Longrightarrow> wf_json (JObj (dset d k v))"
  unfolding dset_def by (rule wf_json_update) simp_all

lemma wf_json_ddel [wf_intros]: "wf_json (JObj d) \<Longrightarrow> wf_json (JObj (ddel d k))"
  unfolding ddel_def by (rule wf_json_delete)

end
