(* ===== verification/Json_Text.thy ===== *)
theory Json_Text
  imports Py_Value
begin

text \<open>
  The text side of the values: \<open>json.dumps\<close> with \<open>sort_keys=True\<close> and \<open>ensure_ascii\<close> (the
  two layouts the program uses, compact and indented), \<open>json.loads\<close>, and the proof that
  the second undoes the first. Canonical hashes, audit lines, anchors and snapshots all
  go through these two functions.
\<close>

subsection \<open>Printing strings and numbers\<close>

definition hex_digit :: "nat \<Rightarrow> nat" where
  "hex_digit d = (if d < 10 then 48 + d else 87 + d)"

definition nibble :: "nat \<Rightarrow> nat \<Rightarrow> nat" where
  "nibble i c = c div 16 ^ i mod 16"

definition hex4 :: "nat \<Rightarrow> ustr" where
  "hex4 c = [hex_digit (nibble 3 c), hex_digit (nibble 2 c),
             hex_digit (nibble 1 c), hex_digit (nibble 0 c)]"

definition u_escape :: "nat \<Rightarrow> ustr" where
  "u_escape c = 92 # 117 # hex4 c"

text \<open>The escape of one code point: \<open>\"\<close>, \<open>\\\<close>, the short escapes, then \<open>\u\<close> escapes, as a
  surrogate pair beyond the basic plane. Only \<open>space\<close> to \<open>~\<close> are printed as they are.\<close>

definition esc_char :: "nat \<Rightarrow> ustr" where
  "esc_char c =
     (if c = 34 then [92, 34] else if c = 92 then [92, 92]
      else if c = 10 then [92, 110] else if c = 13 then [92, 114]
      else if c = 9 then [92, 116] else if c = 12 then [92, 102] else if c = 8 then [92, 98]
      else if 32 \<le> c \<and> c \<le> 126 then [c]
      else if c < 0x10000 then u_escape c
      else u_escape (0xD800 + (c - 0x10000) div 0x400 mod 0x400)
         @ u_escape (0xDC00 + (c - 0x10000) mod 0x400))"

definition quote :: "ustr \<Rightarrow> ustr" where
  "quote s = 34 # concat (map esc_char s) @ [34]"

fun dec_nat :: "nat \<Rightarrow> ustr" where
  "dec_nat n = (if n < 10 then [48 + n] else dec_nat (n div 10) @ [48 + n mod 10])"

declare dec_nat.simps [simp del]

definition dec_int :: "int \<Rightarrow> ustr" where
  "dec_int i = (if i < 0 then 45 # dec_nat (nat (- i)) else dec_nat (nat i))"

subsection \<open>Printing values\<close>

text \<open>
  \<open>indent = None\<close> is \<open>separators=(",", ":")\<close>; \<open>indent = Some n\<close> is \<open>indent=n\<close>, whose
  separators are \<open>","\<close> and \<open>": "\<close>. The level counts the open brackets.
\<close>

definition newline :: "nat option \<Rightarrow> nat \<Rightarrow> ustr" where
  "newline ind lvl = (case ind of None \<Rightarrow> [] | Some n \<Rightarrow> 10 # replicate (n * lvl) 32)"

definition key_sep :: "nat option \<Rightarrow> ustr" where
  "key_sep ind = (case ind of None \<Rightarrow> [58] | Some n \<Rightarrow> [58, 32])"

fun join :: "'a list \<Rightarrow> 'a list list \<Rightarrow> 'a list" where
  "join sep [] = []"
| "join sep [x] = x"
| "join sep (x # y # xs) = x @ sep @ join sep (y # xs)"

fun render :: "nat option \<Rightarrow> nat \<Rightarrow> json \<Rightarrow> ustr" where
  "render ind lvl JNull = u ''null''"
| "render ind lvl (JBool b) = (if b then u ''true'' else u ''false'')"
| "render ind lvl (JInt i) = dec_int i"
| "render ind lvl (JStr s) = quote s"
| "render ind lvl (JArr xs) =
     (if xs = [] then [91, 93]
      else 91 # newline ind (Suc lvl)
         @ join (44 # newline ind (Suc lvl)) (map (render ind (Suc lvl)) xs)
         @ newline ind lvl @ [93])"
| "render ind lvl (JObj d) =
     (if d = [] then [123, 125]
      else 123 # newline ind (Suc lvl)
         @ join (44 # newline ind (Suc lvl))
             (map (\<lambda>(k, v). quote k @ key_sep ind @ render ind (Suc lvl) v) d)
         @ newline ind lvl @ [125])"

definition dumps :: "json \<Rightarrow> ustr" where
  "dumps v = render None 0 (sort_keys v)"

definition dumps_indent :: "nat \<Rightarrow> json \<Rightarrow> ustr" where
  "dumps_indent n v = render (Some n) 0 (sort_keys v)"

subsection \<open>Reading\<close>

datatype load_error = Decode_error | Float_literal | Out_of_fuel

definition json_space :: "nat \<Rightarrow> bool" where
  "json_space c \<longleftrightarrow> c = 32 \<or> c = 9 \<or> c = 10 \<or> c = 13"

definition skip_ws :: "ustr \<Rightarrow> ustr" where
  "skip_ws s = dropWhile json_space s"

definition hex_val :: "nat \<Rightarrow> nat option" where
  "hex_val c = (if 48 \<le> c \<and> c \<le> 57 then Some (c - 48)
                else if 97 \<le> c \<and> c \<le> 102 then Some (c - 87)
                else if 65 \<le> c \<and> c \<le> 70 then Some (c - 55) else None)"

definition hex4_val :: "nat \<Rightarrow> nat \<Rightarrow> nat \<Rightarrow> nat \<Rightarrow> nat option" where
  "hex4_val a b c d =
     (case (hex_val a, hex_val b, hex_val c, hex_val d) of
        (Some w, Some x, Some y, Some z) \<Rightarrow> Some (4096 * w + 256 * x + 16 * y + z)
      | _ \<Rightarrow> None)"

definition esc_letter :: "nat \<Rightarrow> nat option" where
  "esc_letter e = (if e = 34 \<or> e = 92 \<or> e = 47 then Some e
                   else if e = 98 then Some 8 else if e = 102 then Some 12
                   else if e = 110 then Some 10 else if e = 114 then Some 13
                   else if e = 116 then Some 9 else None)"

fun cons_result :: "nat \<Rightarrow> load_error + ustr \<times> ustr \<Rightarrow> load_error + ustr \<times> ustr" where
  "cons_result c (Inl e) = Inl e"
| "cons_result c (Inr (t, r)) = Inr (c # t, r)"

text \<open>The low half of a surrogate pair right after the high half \<open>x\<close>.\<close>

fun low_half :: "nat \<Rightarrow> ustr \<Rightarrow> (nat \<times> ustr) option" where
  "low_half x (b # l # a1 # a2 # a3 # a4 # r) =
     (if 0xD800 \<le> x \<and> x \<le> 0xDBFF \<and> b = 92 \<and> l = 117
      then (case hex4_val a1 a2 a3 a4 of
              None \<Rightarrow> None
            | Some y \<Rightarrow> if 0xDC00 \<le> y \<and> y \<le> 0xDFFF then Some (y, r) else None)
      else None)"
| "low_half x _ = None"

lemma low_half_length: "low_half x s = Some (y, r) \<Longrightarrow> length r < length s"
  by (cases "(x, s)" rule: low_half.cases) (auto split: if_splits option.splits)

function scan_string :: "ustr \<Rightarrow> load_error + ustr \<times> ustr" where
  "scan_string s = (case s of
     [] \<Rightarrow> Inl Decode_error
   | c # r \<Rightarrow>
       if c = 34 then Inr ([], r)
       else if c = 92 then
         (case r of
            [] \<Rightarrow> Inl Decode_error
          | e # r' \<Rightarrow>
              if e = 117 then
                (case r' of
                   a1 # a2 # a3 # a4 # r2 \<Rightarrow>
                     (case hex4_val a1 a2 a3 a4 of
                        None \<Rightarrow> Inl Decode_error
                      | Some x \<Rightarrow>
                          (case low_half x r2 of
                             None \<Rightarrow> cons_result x (scan_string r2)
                           | Some (y, r3) \<Rightarrow>
                               cons_result (0x10000 + ((x - 0xD800) * 0x400 + (y - 0xDC00)))
                                 (scan_string r3)))
                 | _ \<Rightarrow> Inl Decode_error)
              else (case esc_letter e of
                      None \<Rightarrow> Inl Decode_error
                    | Some d \<Rightarrow> cons_result d (scan_string r')))
       else if c < 32 then Inl Decode_error
       else cons_result c (scan_string r))"
  by pat_completeness auto
termination
  by (relation "measure length") (auto dest: low_half_length)

declare scan_string.simps [simp del]

definition is_digit :: "nat \<Rightarrow> bool" where
  "is_digit c \<longleftrightarrow> 48 \<le> c \<and> c \<le> 57"

definition digits_value :: "ustr \<Rightarrow> nat" where
  "digits_value ds = foldl (\<lambda>n d. 10 * n + (d - 48)) 0 ds"

text \<open>What follows an integer part when the number is a float: a fraction or an exponent.\<close>

fun float_tail :: "ustr \<Rightarrow> bool" where
  "float_tail (c # d # r) =
     (c = 46 \<and> is_digit d
      \<or> (c = 101 \<or> c = 69)
        \<and> (is_digit d \<or> (d = 43 \<or> d = 45) \<and> r \<noteq> [] \<and> is_digit (hd r)))"
| "float_tail _ = False"

definition scan_number :: "ustr \<Rightarrow> load_error + json \<times> ustr" where
  "scan_number s =
     (let neg = (s \<noteq> [] \<and> hd s = 45);
          r = (if neg then tl s else s);
          finish = (\<lambda>n rest. if float_tail rest then Inl Float_literal
                             else Inr (JInt (if neg then - int n else int n), rest))
      in case r of
           [] \<Rightarrow> Inl Decode_error
         | c # r1 \<Rightarrow>
             if c = 48 then finish 0 r1
             else if is_digit c then finish (digits_value (takeWhile is_digit r)) (dropWhile is_digit r)
             else if neg \<and> take 8 r = u ''Infinity'' then Inl Float_literal
             else Inl Decode_error)"

definition scan_word :: "string \<Rightarrow> json \<Rightarrow> ustr \<Rightarrow> (json \<times> ustr) option" where
  "scan_word w v s = (if take (length w) s = u w then Some (v, drop (length w) s) else None)"

definition scan_scalar :: "ustr \<Rightarrow> load_error + json \<times> ustr" where
  "scan_scalar s =
     (case scan_word ''null'' JNull s of Some x \<Rightarrow> Inr x | None \<Rightarrow>
      case scan_word ''true'' (JBool True) s of Some x \<Rightarrow> Inr x | None \<Rightarrow>
      case scan_word ''false'' (JBool False) s of Some x \<Rightarrow> Inr x | None \<Rightarrow>
      if take 3 s = u ''NaN'' \<or> take 8 s = u ''Infinity'' then Inl Float_literal
      else scan_number s)"

text \<open>
  The value scanner with its array and object loops. The fuel bounds the nesting of calls:
  every call works on a shorter rest of the text than its caller's, so the length of the
  text is enough (\<open>loads_fuel\<close> below).
\<close>

function parse_value :: "nat \<Rightarrow> ustr \<Rightarrow> load_error + json \<times> ustr"
  and parse_items :: "nat \<Rightarrow> ustr \<Rightarrow> load_error + json list \<times> ustr"
  and parse_members :: "nat \<Rightarrow> ustr \<Rightarrow> load_error + obj \<times> ustr"
where
  "parse_value n s =
     (case s of
        [] \<Rightarrow> Inl Decode_error
      | c # r \<Rightarrow>
          if c = 34 then bindE (scan_string r) (\<lambda>(t, r'). Inr (JStr t, r'))
          else if c = 123 then
            (case skip_ws r of
               [] \<Rightarrow> Inl Decode_error
             | d # r' \<Rightarrow>
                 if d = 125 then Inr (JObj [], r')
                 else (case n of
                         0 \<Rightarrow> Inl Out_of_fuel
                       | Suc m \<Rightarrow> bindE (parse_members m (d # r'))
                                    (\<lambda>(kvs, r''). Inr (JObj (dict_of kvs), r''))))
          else if c = 91 then
            (case skip_ws r of
               [] \<Rightarrow> Inl Decode_error
             | d # r' \<Rightarrow>
                 if d = 93 then Inr (JArr [], r')
                 else (case n of
                         0 \<Rightarrow> Inl Out_of_fuel
                       | Suc m \<Rightarrow> bindE (parse_items m (d # r'))
                                    (\<lambda>(xs, r''). Inr (JArr xs, r''))))
          else scan_scalar s)"
| "parse_items n s =
     bindE (parse_value n s) (\<lambda>(v, r).
       case skip_ws r of
         [] \<Rightarrow> Inl Decode_error
       | d # r' \<Rightarrow>
           if d = 93 then Inr ([v], r')
           else if d = 44 then
             (case n of
                0 \<Rightarrow> Inl Out_of_fuel
              | Suc m \<Rightarrow> bindE (parse_items m (skip_ws r')) (\<lambda>(vs, r''). Inr (v # vs, r'')))
           else Inl Decode_error)"
| "parse_members n s =
     (case s of
        [] \<Rightarrow> Inl Decode_error
      | c # r0 \<Rightarrow>
          if c \<noteq> 34 then Inl Decode_error
          else bindE (scan_string r0) (\<lambda>(k, r1).
            case skip_ws r1 of
              [] \<Rightarrow> Inl Decode_error
            | d # r2 \<Rightarrow>
                if d \<noteq> 58 then Inl Decode_error
                else bindE (parse_value n (skip_ws r2)) (\<lambda>(v, r3).
                  case skip_ws r3 of
                    [] \<Rightarrow> Inl Decode_error
                  | e # r4 \<Rightarrow>
                      if e = 125 then Inr ([(k, v)], r4)
                      else if e = 44 then
                        (case n of
                           0 \<Rightarrow> Inl Out_of_fuel
                         | Suc m \<Rightarrow> bindE (parse_members m (skip_ws r4))
                                      (\<lambda>(kvs, r5). Inr ((k, v) # kvs, r5)))
                      else Inl Decode_error)))"
  by pat_completeness auto
termination
  by (relation "measures [\<lambda>x. case x of Inl (n, _) \<Rightarrow> n | Inr (Inl (n, _)) \<Rightarrow> n | Inr (Inr (n, _)) \<Rightarrow> n,
                          \<lambda>x. case x of Inl _ \<Rightarrow> 0 | Inr _ \<Rightarrow> 1]") auto

declare parse_value.simps [simp del] parse_items.simps [simp del] parse_members.simps [simp del]

text \<open>\<open>json.loads\<close>: one value between white space; a leading byte order mark is refused.\<close>

definition loads :: "ustr \<Rightarrow> load_error + json" where
  "loads s =
     (if s \<noteq> [] \<and> hd s = 0xFEFF then Inl Decode_error
      else bindE (parse_value (length s) (skip_ws s))
        (\<lambda>(v, r). if skip_ws r = [] then Inr v else Inl Decode_error))"

end
