(* ===== verification/Json_Roundtrip.thy ===== *)
theory Json_Roundtrip
  imports Json_Text
begin

text \<open>
  \<open>loads\<close> undoes \<open>dumps\<close>: what is written with sorted keys, in either layout, is read back
  as the value with its keys sorted. So \<open>dumps\<close> is injective up to key order on
  well-formed values, which is what makes a canonical hash a commitment to the value.
\<close>

subsection \<open>Strings\<close>

lemma hex_val_hex_digit: "d < 16 \<Longrightarrow> hex_val (hex_digit d) = Some d"
  by (auto simp: hex_val_def hex_digit_def)

lemma nibble_less [simp]: "nibble i c < 16"
  by (simp add: nibble_def)

lemma hex_split:
  assumes "c < 0x10000"
  shows "4096 * nibble 3 c + 256 * nibble 2 c + 16 * nibble (Suc 0) c + nibble 0 c = c"
proof -
  define a b d where "a = c div 16" and "b = a div 16" and "d = b div 16"
  have "nibble 0 c = c mod 16" "nibble (Suc 0) c = a mod 16"
    by (simp_all add: nibble_def a_def)
  moreover have "nibble 2 c = b mod 16"
    by (simp add: nibble_def a_def b_def flip: div_mult2_eq)
  moreover have "nibble 3 c = d"
    using assms by (simp add: nibble_def a_def b_def d_def flip: div_mult2_eq)
  moreover have "c = 16 * a + c mod 16" "a = 16 * b + a mod 16" "b = 16 * d + b mod 16"
    by (simp_all add: a_def b_def d_def)
  ultimately show ?thesis by linarith
qed

lemma hex4_val_hex4:
  assumes "c < 0x10000"
  shows "hex4_val (hex_digit (nibble 3 c)) (hex_digit (nibble 2 c))
           (hex_digit (nibble (Suc 0) c)) (hex_digit (nibble 0 c)) = Some c"
  using hex_split [OF assms] by (simp add: hex4_val_def hex_val_hex_digit)

lemma scan_u_escape:
  assumes "c < 0x10000" and "low_half c r = None"
  shows "scan_string (u_escape c @ r) = cons_result c (scan_string r)"
  using assms by (subst scan_string.simps) (simp add: u_escape_def hex4_def hex4_val_hex4)

lemma low_half_u_escape:
  assumes "0xD800 \<le> x" "x \<le> 0xDBFF" "0xDC00 \<le> y" "y \<le> 0xDFFF"
  shows "low_half x (u_escape y @ r) = Some (y, r)"
  using assms hex4_val_hex4 [of y] by (simp add: u_escape_def hex4_def)

lemma scan_surrogate_pair:
  assumes "0xD800 \<le> x" "x \<le> 0xDBFF" "0xDC00 \<le> y" "y \<le> 0xDFFF"
  shows "scan_string (u_escape x @ u_escape y @ r)
       = cons_result (0x10000 + ((x - 0xD800) * 0x400 + (y - 0xDC00))) (scan_string r)"
  using low_half_u_escape [OF assms, of r] assms
  by (subst scan_string.simps) (simp add: u_escape_def [of x] hex4_def hex4_val_hex4)

lemma low_half_not_high: "\<not> (0xD800 \<le> x \<and> x \<le> 0xDBFF) \<Longrightarrow> low_half x r = None"
  by (cases "(x, r)" rule: low_half.cases) auto

lemma surrogate_combine:
  assumes "0x10000 \<le> c" "c < (0x110000::nat)"
  shows "(c - 0x10000) div 0x400 mod 0x400 * 0x400 + (c - 0x10000) mod 0x400 = c - 0x10000"
  using assms by (subst mod_less) (auto simp: div_mult_mod_eq less_mult_imp_div_less)

lemma scan_astral:
  assumes "0x10000 \<le> c" "c < (0x110000::nat)"
  shows "scan_string (u_escape (0xD800 + (c - 0x10000) div 0x400 mod 0x400)
           @ u_escape (0xDC00 + (c - 0x10000) mod 0x400) @ r) = cons_result c (scan_string r)"
    (is "scan_string (u_escape ?x @ u_escape ?y @ r) = _")
proof -
  have m: "(c - 0x10000) div 0x400 mod 0x400 < 0x400" "(c - 0x10000) mod 0x400 < 0x400"
    by simp_all
  from m have "scan_string (u_escape ?x @ u_escape ?y @ r)
      = cons_result (0x10000 + ((?x - 0xD800) * 0x400 + (?y - 0xDC00))) (scan_string r)"
    by (intro scan_surrogate_pair) linarith+
  moreover have "0x10000 + ((?x - 0xD800) * 0x400 + (?y - 0xDC00)) = c"
    using surrogate_combine [OF assms] assms by simp
  ultimately show ?thesis by simp
qed

lemma scan_letter_escape:
  "e \<noteq> 117 \<Longrightarrow> esc_letter e = Some d \<Longrightarrow> scan_string (92 # e # r) = cons_result d (scan_string r)"
  by (subst scan_string.simps) simp

lemma scan_plain:
  "c \<noteq> 34 \<Longrightarrow> c \<noteq> 92 \<Longrightarrow> 32 \<le> c \<Longrightarrow> scan_string (c # r) = cons_result c (scan_string r)"
  by (subst scan_string.simps) simp

lemma scan_esc_char:
  assumes "scalar c"
  shows "scan_string (esc_char c @ r) = cons_result c (scan_string r)"
proof -
  consider "c \<in> {34, 92, 10, 13, 9, 12, 8}" | "c \<notin> {34, 92, 10, 13, 9, 12, 8}" "32 \<le> c \<and> c \<le> 126"
    | "c \<notin> {34, 92, 10, 13, 9, 12, 8}" "\<not> (32 \<le> c \<and> c \<le> 126)" "c < 0x10000" | "0x10000 \<le> c"
    by linarith
  then show ?thesis
  proof cases
    case 1
    then show ?thesis by (auto simp: esc_char_def scan_letter_escape esc_letter_def)
  next
    case 2
    then show ?thesis by (auto simp: esc_char_def scan_plain)
  next
    case 3
    then have "esc_char c = u_escape c" by (auto simp: esc_char_def)
    moreover have "low_half c r = None"
      using assms by (intro low_half_not_high) (auto simp: scalar_def)
    ultimately show ?thesis using 3 scan_u_escape by simp
  next
    case 4
    then show ?thesis
      using assms scan_astral [of c r] by (simp add: esc_char_def scalar_def)
  qed
qed

lemma scan_string_quoted:
  "list_all scalar s \<Longrightarrow> scan_string (concat (map esc_char s) @ 34 # r) = Inr (s, r)"
proof (induction s)
  case Nil
  show ?case by (subst scan_string.simps) simp
qed (simp add: scan_esc_char)

subsection \<open>Numbers\<close>

lemma is_digit_48: "m < 10 \<Longrightarrow> is_digit (48 + m)"
  by (simp add: is_digit_def)

lemma dec_nat_digits: "list_all is_digit (dec_nat n)"
proof (induction n rule: dec_nat.induct)
  case (1 n)
  then show ?case by (subst dec_nat.simps) (simp add: is_digit_48)
qed

lemma dec_nat_nonempty [simp]: "dec_nat n \<noteq> []"
  by (subst dec_nat.simps) simp

lemma hd_dec_nat: "0 < n \<Longrightarrow> hd (dec_nat n) \<noteq> 48"
proof (induction n rule: dec_nat.induct)
  case (1 n)
  then show ?case by (subst dec_nat.simps) auto
qed

lemma dec_nat_0: "dec_nat 0 = [48]"
  by (subst dec_nat.simps) simp

lemma digits_value_snoc: "digits_value (ds @ [d]) = 10 * digits_value ds + (d - 48)"
  by (simp add: digits_value_def)

lemma digits_value_dec_nat [simp]: "digits_value (dec_nat n) = n"
proof (induction n rule: dec_nat.induct)
  case (1 n)
  then show ?case
    by (subst dec_nat.simps) (auto simp: digits_value_snoc, simp add: digits_value_def)
qed

text \<open>What may follow a printed value: the end of the text, a separator or white space.\<close>

definition ends :: "ustr \<Rightarrow> bool" where
  "ends r \<longleftrightarrow> r = [] \<or> hd r \<in> {44, 93, 125, 32, 10}"

lemma ends_simps [simp]: "ends []" "ends (44 # r)" "ends (93 # r)" "ends (125 # r)" "ends (10 # r)"
  by (simp_all add: ends_def)

lemma ends_float_tail: "ends r \<Longrightarrow> \<not> float_tail r"
  by (cases r rule: float_tail.cases) (auto simp: ends_def)

lemma ends_takeWhile: "ends r \<Longrightarrow> takeWhile is_digit r = []" "ends r \<Longrightarrow> dropWhile is_digit r = r"
  by (cases r; auto simp: ends_def is_digit_def)+

lemma scan_number_dec_nat:
  assumes "ends r"
  shows "scan_number (dec_nat n @ r) = Inr (JInt (int n), r)"
    and "0 < n \<Longrightarrow> scan_number (45 # dec_nat n @ r) = Inr (JInt (- int n), r)"
proof -
  obtain c ds where n: "dec_nat n = c # ds" by (cases "dec_nat n") auto
  have dig: "is_digit c" "\<And>x. x \<in> set ds \<Longrightarrow> is_digit x"
    using dec_nat_digits [of n] by (auto simp: n list_all_iff)
  have c45: "c \<noteq> 45" using dig(1) by (auto simp: is_digit_def)
  have tw: "takeWhile is_digit (dec_nat n @ r) = dec_nat n" "dropWhile is_digit (dec_nat n @ r) = r"
    using dec_nat_digits [of n] ends_takeWhile [OF assms]
    by (simp_all add: list_all_iff takeWhile_append2 dropWhile_append2)
  show "scan_number (dec_nat n @ r) = Inr (JInt (int n), r)"
  proof (cases "n = 0")
    case True
    then show ?thesis using assms by (simp add: scan_number_def dec_nat_0 ends_float_tail)
  next
    case False
    then have "c \<noteq> 48" using hd_dec_nat [of n] by (simp add: n)
    then show ?thesis
      using tw dig c45 ends_float_tail [OF assms] digits_value_dec_nat [of n]
      by (simp add: scan_number_def n)
  qed
  assume "0 < n"
  then have "c \<noteq> 48" using hd_dec_nat [of n] by (simp add: n)
  then show "scan_number (45 # dec_nat n @ r) = Inr (JInt (- int n), r)"
    using tw dig c45 ends_float_tail [OF assms] digits_value_dec_nat [of n]
    by (simp add: scan_number_def n)
qed

lemma scan_number_dec_int: "ends r \<Longrightarrow> scan_number (dec_int i @ r) = Inr (JInt i, r)"
  using scan_number_dec_nat [of r "nat \<bar>i\<bar>"] by (auto simp: dec_int_def)

subsection \<open>Values\<close>

lemma scan_word_self: "scan_word w v (u w @ r) = Some (v, r)"
  by (simp add: scan_word_def)

lemma scan_word_other: "w = c # w' \<Longrightarrow> x \<noteq> of_char c \<Longrightarrow> scan_word w v (x # s) = None"
  by (simp add: scan_word_def u_def)

lemma scan_scalar_words:
  "scan_scalar (u ''null'' @ r) = Inr (JNull, r)"
  "scan_scalar (u ''true'' @ r) = Inr (JBool True, r)"
  "scan_scalar (u ''false'' @ r) = Inr (JBool False, r)"
  by (simp_all add: scan_scalar_def scan_word_def u_def)

lemma dec_int_head: "\<exists>c s. dec_int i = c # s \<and> (is_digit c \<or> c = 45)"
proof (cases "i < 0")
  case False
  then show ?thesis
    using dec_nat_digits [of "nat i"] by (cases "dec_nat (nat i)") (auto simp: dec_int_def)
qed (simp add: dec_int_def)

lemma scan_scalar_dec_int:
  assumes "ends r"
  shows "scan_scalar (dec_int i @ r) = Inr (JInt i, r)"
proof -
  obtain c s where cs: "dec_int i = c # s" and c: "is_digit c \<or> c = 45"
    using dec_int_head [of i] by blast
  then have "c \<noteq> 110" "c \<noteq> 116" "c \<noteq> 102" "c \<noteq> 78" "c \<noteq> 73"
    by (auto simp: is_digit_def)
  moreover from this have "take 3 (c # s @ r) \<noteq> u ''NaN''" "take 8 (c # s @ r) \<noteq> u ''Infinity''"
    by (simp_all add: u_def)
  ultimately show ?thesis
    using scan_number_dec_int [OF assms, of i] by (simp add: scan_scalar_def cs scan_word_other)
qed

lemma dropWhile_spaces: "dropWhile json_space (replicate n 32 @ s) = dropWhile json_space s"
  by (induction n) (simp_all add: json_space_def)

lemma skip_ws_newline: "skip_ws (newline ind lvl @ s) = skip_ws s"
  by (cases ind) (simp_all add: newline_def skip_ws_def json_space_def [of 10] dropWhile_spaces)

lemma skip_ws_key_sep: "key_sep ind @ s = 58 # t \<Longrightarrow> skip_ws t = skip_ws s"
  by (cases ind) (auto simp: key_sep_def skip_ws_def json_space_def)

lemma skip_ws_punct [simp]:
  "skip_ws (34 # s) = 34 # s" "skip_ws (44 # s) = 44 # s" "skip_ws (58 # s) = 58 # s"
  "skip_ws (93 # s) = 93 # s" "skip_ws (125 # s) = 125 # s" "skip_ws (32 # s) = skip_ws s"
  "skip_ws [] = []"
  by (simp_all add: skip_ws_def json_space_def)

lemma skip_ws_id: "s \<noteq> [] \<Longrightarrow> \<not> json_space (hd s) \<Longrightarrow> skip_ws s = s"
  by (cases s) (simp_all add: skip_ws_def)

text \<open>The first character of a printed value tells its kind, and is never white space.\<close>

lemma render_head:
  "\<exists>c s. render ind lvl j = c # s \<and> \<not> json_space c \<and> c \<noteq> 93 \<and> c \<noteq> 125 \<and> c \<noteq> 0xFEFF"
proof (cases j)
  case (JInt i)
  then show ?thesis using dec_int_head [of i] by (auto simp: json_space_def is_digit_def)
qed (auto simp: u_def json_space_def quote_def)

lemma skip_ws_render [simp]: "skip_ws (render ind lvl j @ s) = render ind lvl j @ s"
  using render_head [of ind lvl j] by (auto simp: skip_ws_def)

lemma parse_value_scalar:
  assumes "render ind lvl j = c # s" and "c \<notin> {34, 91, 123}"
  shows "parse_value n (render ind lvl j @ r) = scan_scalar (render ind lvl j @ r)"
  using assms by (subst parse_value.simps) simp

text \<open>
  \<open>parses ind lvl j\<close>: the scanner reads the printed \<open>j\<close> back, with the length of the
  printed text as fuel.
\<close>

definition parses :: "nat option \<Rightarrow> nat \<Rightarrow> json \<Rightarrow> bool" where
  "parses ind lvl j \<longleftrightarrow>
     (\<forall>n r. length (render ind lvl j) \<le> n \<longrightarrow> ends r \<longrightarrow>
        parse_value n (render ind lvl j @ r) = Inr (j, r))"

lemma parsesD:
  "parses ind lvl j \<Longrightarrow> length (render ind lvl j) \<le> n \<Longrightarrow> ends r \<Longrightarrow>
     parse_value n (render ind lvl j @ r) = Inr (j, r)"
  by (simp add: parses_def)

lemma ends_newline: "ends r \<Longrightarrow> ends (newline ind lvl @ r)"
  by (cases ind) (simp_all add: newline_def)

lemma parse_items_render:
  assumes "xs \<noteq> []" and "\<And>x. x \<in> set xs \<Longrightarrow> parses ind lvl x"
    and "length (join (44 # newline ind lvl) (map (render ind lvl) xs)) \<le> n"
  shows "parse_items n (join (44 # newline ind lvl) (map (render ind lvl) xs)
           @ newline ind lvl' @ 93 # r) = Inr (xs, r)"
  using assms
proof (induction xs arbitrary: n)
  case (Cons x xs)
  let ?tail = "newline ind lvl' @ 93 # r"
  show ?case
  proof (cases xs)
    case Nil
    with Cons.prems have "parse_value n (render ind lvl x @ ?tail) = Inr (x, ?tail)"
      by (intro parsesD) (simp_all add: ends_newline)
    then show ?thesis
      using Nil by (subst parse_items.simps) (simp add: skip_ws_newline)
  next
    case (Cons y ys)
    let ?rest = "join (44 # newline ind lvl) (map (render ind lvl) xs)"
    obtain m where n: "n = Suc m"
      using Cons.prems(3) Cons by (cases n) simp_all
    have "parse_value n (render ind lvl x @ 44 # newline ind lvl @ ?rest @ ?tail)
        = Inr (x, 44 # newline ind lvl @ ?rest @ ?tail)"
      using Cons.prems Cons by (intro parsesD) simp_all
    moreover have "parse_items m (?rest @ ?tail) = Inr (xs, r)"
      using Cons.prems Cons n by (intro Cons.IH) simp_all
    moreover have "skip_ws (newline ind lvl @ ?rest @ ?tail) = ?rest @ ?tail"
      using Cons by (cases ys) (simp_all add: skip_ws_newline)
    ultimately show ?thesis
      using Cons n by (subst parse_items.simps) simp
  qed
qed simp

lemma parse_members_render:
  assumes "d \<noteq> []" and "\<And>k v. (k, v) \<in> set d \<Longrightarrow> list_all scalar k \<and> parses ind lvl v"
    and "length (join (44 # newline ind lvl)
           (map (\<lambda>(k, v). quote k @ key_sep ind @ render ind lvl v) d)) \<le> n"
  shows "parse_members n (join (44 # newline ind lvl)
             (map (\<lambda>(k, v). quote k @ key_sep ind @ render ind lvl v) d)
           @ newline ind lvl' @ 125 # r) = Inr (d, r)"
  using assms
proof (induction d arbitrary: n)
  case (Cons p d)
  obtain k v where p: "p = (k, v)" by (cases p)
  let ?R = "\<lambda>(k, v). quote k @ key_sep ind @ render ind lvl v"
  let ?tail = "newline ind lvl' @ 125 # r"
  have k: "list_all scalar k" and v: "parses ind lvl v"
    using Cons.prems(2) [of k v] by (simp_all add: p)
  have mem: "list_all scalar k' \<and> parses ind lvl v'" if "(k', v') \<in> set d" for k' v'
    using Cons.prems(2) [of k' v'] that by simp
  note IH = Cons.IH
  have head: "parse_members n (?R p @ s) =
      bindE (parse_value n (render ind lvl v @ s)) (\<lambda>(v, r3).
        case skip_ws r3 of
          [] \<Rightarrow> Inl Decode_error
        | e # r4 \<Rightarrow>
            if e = 125 then Inr ([(k, v)], r4)
            else if e = 44 then
              (case n of
                 0 \<Rightarrow> Inl Out_of_fuel
               | Suc m \<Rightarrow> bindE (parse_members m (skip_ws r4)) (\<lambda>(kvs, r5). Inr ((k, v) # kvs, r5)))
            else Inl Decode_error)" for s
    using k by (subst parse_members.simps)
      (cases ind; simp add: p quote_def scan_string_quoted key_sep_def)
  show ?case
  proof (cases d)
    case Nil
    with Cons.prems have "parse_value n (render ind lvl v @ ?tail) = Inr (v, ?tail)"
      using v by (intro parsesD) (simp_all add: ends_newline p)
    then show ?thesis
      using Nil head [of ?tail] by (simp add: skip_ws_newline p)
  next
    case (Cons q e)
    let ?rest = "join (44 # newline ind lvl) (map ?R d)"
    obtain m where n: "n = Suc m"
      using Cons.prems(3) Cons by (cases n) simp_all
    have "parse_value n (render ind lvl v @ 44 # newline ind lvl @ ?rest @ ?tail)
        = Inr (v, 44 # newline ind lvl @ ?rest @ ?tail)"
      using Cons.prems(3) Cons v by (intro parsesD) (simp_all add: p)
    moreover have "parse_members m (?rest @ ?tail) = Inr (d, r)"
      using Cons.prems(3) Cons n by (intro IH mem) (simp_all add: p)
    moreover have "skip_ws (newline ind lvl @ ?rest @ ?tail) = ?rest @ ?tail"
      using Cons by (cases q; cases e)
        (simp_all add: skip_ws_newline quote_def)
    ultimately show ?thesis
      using Cons n head [of "44 # newline ind lvl @ ?rest @ ?tail"]
      by (simp add: p)
  qed
qed simp

lemma parse_value_bracket:
  assumes "parse_items m s = Inr (xs, r)" "skip_ws t = s" "s \<noteq> []" "hd s \<noteq> 93"
  shows "parse_value (Suc m) (91 # t) = Inr (JArr xs, r)"
  using assms by (subst parse_value.simps) (cases s; simp)

lemma parse_value_brace:
  assumes "parse_members m s = Inr (d, r)" "skip_ws t = s" "s \<noteq> []" "hd s \<noteq> 125"
  shows "parse_value (Suc m) (123 # t) = Inr (JObj (dict_of d), r)"
  using assms by (subst parse_value.simps) (cases s; simp)

lemma join_head:
  "xs \<noteq> [] \<Longrightarrow> hd xs \<noteq> [] \<Longrightarrow> \<exists>t. join sep xs = hd xs @ t"
  by (cases "(sep, xs)" rule: join.cases) auto

lemma parses_scalar:
  assumes "\<And>r. ends r \<Longrightarrow> scan_scalar (render ind lvl j @ r) = Inr (j, r)"
    and "hd (render ind lvl j) \<notin> {34, 91, 123}"
  shows "parses ind lvl j"
  using assms render_head [of ind lvl j] by (auto simp: parses_def parse_value.simps)

lemma parses_render:
  "wf_json j \<Longrightarrow> parses ind lvl j"
proof (induction j arbitrary: lvl)
  case (JStr s)
  then show ?case
    by (auto simp: parses_def quote_def scan_string_quoted parse_value.simps [of _ "34 # _"])
next
  case (JArr xs)
  show ?case unfolding parses_def
  proof (intro allI impI)
    fix n r assume n: "length (render ind lvl (JArr xs)) \<le> n" and r: "ends r"
    show "parse_value n (render ind lvl (JArr xs) @ r) = Inr (JArr xs, r)"
    proof (cases xs)
      case Nil
      then show ?thesis by (subst parse_value.simps) simp
    next
      case (Cons x ys)
      let ?t = "join (44 # newline ind (Suc lvl)) (map (render ind (Suc lvl)) xs)
          @ newline ind lvl @ 93 # r"
      obtain m where m: "n = Suc m" using n by (cases n) (simp_all add: Cons)
      obtain t where t: "?t = render ind (Suc lvl) x @ t"
        using join_head [of "map (render ind (Suc lvl)) xs" "44 # newline ind (Suc lvl)"]
          render_head [of ind "Suc lvl" x] by (auto simp: Cons)
      have "parse_items m ?t = Inr (xs, r)"
        using JArr n m by (intro parse_items_render) (auto simp: Cons list_all_iff)
      then have "parse_value (Suc m) (91 # newline ind (Suc lvl) @ ?t) = Inr (JArr xs, r)"
        using t render_head [of ind "Suc lvl" x]
        by (intro parse_value_bracket) (auto simp: skip_ws_newline)
      then show ?thesis using Cons m by simp
    qed
  qed
next
  case (JObj d)
  have mem: "list_all scalar k \<and> parses ind (Suc lvl) v" if "(k, v) \<in> set d" for k v
    using that JObj.IH [of "(k, v)" v "Suc lvl"] JObj.prems by (fastforce simp: list_all_iff)
  show ?case unfolding parses_def
  proof (intro allI impI)
    fix n r assume n: "length (render ind lvl (JObj d)) \<le> n" and r: "ends r"
    show "parse_value n (render ind lvl (JObj d) @ r) = Inr (JObj d, r)"
    proof (cases d)
      case Nil
      then show ?thesis by (subst parse_value.simps) simp
    next
      case (Cons p e)
      let ?R = "\<lambda>(k, v). quote k @ key_sep ind @ render ind (Suc lvl) v"
      let ?t = "join (44 # newline ind (Suc lvl)) (map ?R d) @ newline ind lvl @ 125 # r"
      obtain m where m: "n = Suc m" using n by (cases n) (simp_all add: Cons)
      obtain t where t: "?t = 34 # t"
        using join_head [of "map ?R d" "44 # newline ind (Suc lvl)"]
        by (cases p) (auto simp: Cons quote_def)
      have "parse_members m ?t = Inr (d, r)"
        using n m by (intro parse_members_render mem) (simp_all add: Cons)
      then have "parse_value (Suc m) (123 # newline ind (Suc lvl) @ ?t) = Inr (JObj (dict_of d), r)"
        using t by (intro parse_value_brace) (auto simp: skip_ws_newline)
      then show ?thesis using Cons m JObj.prems by (simp add: dict_of_distinct)
    qed
  qed
next
  case JNull
  show ?case by (rule parses_scalar, simp add: scan_scalar_words, simp add: u_def)
next
  case (JBool b)
  show ?case by (rule parses_scalar, simp add: scan_scalar_words, simp add: u_def)
next
  case (JInt i)
  show ?case
    using dec_int_head [of i] by (intro parses_scalar) (auto simp: scan_scalar_dec_int is_digit_def)
qed

lemma loads_render:
  assumes "wf_json j"
  shows "loads (render ind lvl j) = Inr j"
proof -
  obtain c t where c: "render ind lvl j = c # t" "\<not> json_space c" "c \<noteq> 0xFEFF"
    using render_head [of ind lvl j] by auto
  have "parse_value (length (render ind lvl j)) (render ind lvl j @ []) = Inr (j, [])"
    using parses_render [OF assms, of ind lvl] by (intro parsesD) simp_all
  with c show ?thesis by (simp add: loads_def skip_ws_id)
qed

lemma loads_render_space:
  assumes "wf_json j" and "set r \<subseteq> {10, 32}"
  shows "loads (render ind lvl j @ r) = Inr j"
proof -
  obtain c t where c: "render ind lvl j = c # t" "\<not> json_space c" "c \<noteq> 0xFEFF"
    using render_head [of ind lvl j] by auto
  have "ends r" using assms(2) by (cases r) (auto simp: ends_def)
  then have "parse_value (length (render ind lvl j @ r)) (render ind lvl j @ r) = Inr (j, r)"
    using parses_render [OF assms(1), of ind lvl] by (intro parsesD) simp_all
  moreover have "skip_ws r = []"
    using assms(2) by (auto simp: skip_ws_def json_space_def)
  ultimately show ?thesis using c by (simp add: loads_def skip_ws_id)
qed

lemma loads_dumps: "wf_json j \<Longrightarrow> loads (dumps j) = Inr (sort_keys j)"
  by (simp add: dumps_def loads_render)

lemma loads_dumps_indent: "wf_json j \<Longrightarrow> loads (dumps_indent n j) = Inr (sort_keys j)"
  by (simp add: dumps_indent_def loads_render)

lemma dumps_inj:
  assumes "wf_json a" and "wf_json b"
  shows "dumps a = dumps b \<longleftrightarrow> sort_keys a = sort_keys b"
proof
  assume "dumps a = dumps b"
  then have "loads (dumps a) = loads (dumps b)" by (rule arg_cong)
  with assms show "sort_keys a = sort_keys b" by (simp only: loads_dumps sum.inject)
qed (simp add: dumps_def)

subsection \<open>The fuel of the scanner\<close>

text \<open>\<open>shorter n m\<close>: what \<open>m\<close> leaves is shorter than \<open>n\<close>, and no fuel was involved.\<close>

definition shorter :: "nat \<Rightarrow> load_error + 'a \<times> ustr \<Rightarrow> bool" where
  "shorter n m \<longleftrightarrow> (\<forall>t r. m = Inr (t, r) \<longrightarrow> length r < n) \<and> m \<noteq> Inl Out_of_fuel"

lemma shorter_simps [simp]:
  "shorter n (Inr (t, r)) \<longleftrightarrow> length r < n" "shorter n (Inl e) \<longleftrightarrow> e \<noteq> Out_of_fuel"
  by (auto simp: shorter_def)

lemma shorter_cons: "shorter k m \<Longrightarrow> k \<le> n \<Longrightarrow> shorter n (cons_result c m)"
  by (cases m) (auto simp: shorter_def)

lemma scan_string_shorter: "shorter (length s) (scan_string s)"
proof (induction s rule: measure_induct_rule [of length])
  case (less s)
  have step: "shorter n (cons_result c (scan_string t))" if "length t < length s" "length t \<le> n" for c t n
    using less [OF that(1)] that(2) by (rule shorter_cons)
  have low: "length r < n" if "low_half x t = Some (y, r)" "length t < n" for x t y r n
    using low_half_length [OF that(1)] that(2) by simp
  show ?case
    by (subst scan_string.simps) (auto intro!: step intro: low less_imp_le [OF low] split: list.split option.split)
qed

lemma scan_scalar_shorter: "shorter (length s) (scan_scalar s)"
proof -
  have word: "scan_word w x s = Some (v, r) \<Longrightarrow> w \<noteq> [] \<Longrightarrow> length r < length s" for w x v r
    by (cases s) (auto simp: scan_word_def split: if_splits)
  have drop: "length (dropWhile is_digit t) \<le> length t" for t
    by (rule length_dropWhile_le)
  have "shorter (length s) (scan_number s)"
    by (cases s) (auto simp: scan_number_def Let_def neq_Nil_conv less_Suc_eq_le
        split: list.splits if_splits intro: le_trans [OF drop])
  with word show ?thesis
    by (auto simp: scan_scalar_def split: option.splits if_splits)
qed

lemma skip_ws_le: "length (skip_ws s) \<le> length s"
  unfolding skip_ws_def by (rule length_dropWhile_le)

text \<open>\<open>fuelled n s m\<close>: a scanner result that leaves less text, and not for want of fuel.\<close>

definition fuelled :: "nat \<Rightarrow> ustr \<Rightarrow> load_error + 'a \<times> ustr \<Rightarrow> bool" where
  "fuelled n s m \<longleftrightarrow>
     (\<forall>v r. m = Inr (v, r) \<longrightarrow> length r < length s) \<and> (length s \<le> n \<longrightarrow> m \<noteq> Inl Out_of_fuel)"

lemma fuelled_Inl [simp]: "e \<noteq> Out_of_fuel \<Longrightarrow> fuelled n s (Inl e)"
  and fuelled_Inr [simp]: "fuelled n s (Inr (v, r)) \<longleftrightarrow> length r < length s"
  and fuelled_empty: "s \<noteq> [] \<Longrightarrow> fuelled 0 s (Inl Out_of_fuel)"
  by (simp_all add: fuelled_def)

lemma fuelled_bind:
  assumes "fuelled n' s' m" and "length s \<le> n \<Longrightarrow> length s' \<le> n'" and "length s' \<le> length s"
    and "\<And>v r. m = Inr (v, r) \<Longrightarrow> length r < length s' \<Longrightarrow> fuelled n s (f (v, r))"
  shows "fuelled n s (bindE m f)"
proof (cases m)
  case (Inl e)
  then show ?thesis using assms(1,2) by (auto simp: fuelled_def)
next
  case (Inr x)
  then show ?thesis using assms(1,4) by (cases x) (auto simp: fuelled_def)
qed

lemma fuelled_scan: "fuelled n s (scan_string s)" "fuelled n s (scan_scalar s)"
  using scan_string_shorter [of s] scan_scalar_shorter [of s] by (auto simp: fuelled_def shorter_def)

lemma skip_ws_ConsD: "skip_ws s = c # r \<Longrightarrow> length r < length s"
  using skip_ws_le [of s] by simp

lemma parse_fuelled:
  "fuelled n s (parse_value n s)"
  "fuelled n s (parse_items n s)"
  "fuelled n s (parse_members n s)"
proof (induction n s and n s and n s rule: parse_value_parse_items_parse_members.induct)
  case (1 n s)
  show ?case
  proof (cases s)
    case (Cons c r)
    have obj: "fuelled n s (bindE (parse_members m (d # r')) (\<lambda>(kvs, r''). Inr (JObj (dict_of kvs), r'')))"
      if "n = Suc m" "skip_ws r = d # r'" "c = 123" "d \<noteq> 125" for m d r'
      using that skip_ws_le [of r]
      by (intro fuelled_bind [OF "1.IH"(1)]) (auto simp: Cons)
    have arr: "fuelled n s (bindE (parse_items m (d # r')) (\<lambda>(xs, r''). Inr (JArr xs, r'')))"
      if "n = Suc m" "skip_ws r = d # r'" "c = 91" "d \<noteq> 93" for m d r'
      using that skip_ws_le [of r]
      by (intro fuelled_bind [OF "1.IH"(2)]) (auto simp: Cons)
    have str: "fuelled n s (bindE (scan_string r) (\<lambda>(t, r'). Inr (JStr t, r')))"
      by (rule fuelled_bind [OF fuelled_scan(1)]) (auto simp: Cons)
    show ?thesis
      using obj arr str fuelled_scan(2) [of n s] skip_ws_ConsD [of r]
      by (subst parse_value.simps)
        (auto simp: Cons fuelled_empty less_SucI split: list.split nat.split)
  qed (simp add: parse_value.simps)
next
  case (2 n s)
  show ?case
  proof (subst parse_items.simps, rule fuelled_bind [OF "2.IH"(1)], simp_all)
    fix v r assume v: "parse_value n s = Inr (v, r)" and r: "length r < length s"
    have rec: "fuelled n s (bindE (parse_items m (skip_ws r')) (\<lambda>(vs, r''). Inr (v # vs, r'')))"
      if "n = Suc m" "skip_ws r = 44 # r'" for m r'
      using that v r skip_ws_ConsD [of r] skip_ws_le [of r']
      by (intro fuelled_bind [OF "2.IH"(2)]) auto
    show "fuelled n s (case skip_ws r of [] \<Rightarrow> Inl Decode_error
        | d # r' \<Rightarrow> if d = 93 then Inr ([v], r')
            else if d = 44 then (case n of 0 \<Rightarrow> Inl Out_of_fuel
              | Suc m \<Rightarrow> bindE (parse_items m (skip_ws r')) (\<lambda>(vs, r''). Inr (v # vs, r'')))
            else Inl Decode_error)"
      using rec r skip_ws_ConsD [of r] by (fastforce simp: fuelled_def split: list.split nat.split)
  qed
next
  case (3 n s)
  show ?case
  proof (cases "s \<noteq> [] \<and> hd s = 34")
    case False
    then show ?thesis by (subst parse_members.simps) (cases s; simp)
  next
    case True
    then obtain r0 where s: "s = 34 # r0" by (cases s) auto
    have tail: "fuelled n s (case skip_ws r3 of [] \<Rightarrow> Inl Decode_error
        | e # r4 \<Rightarrow> if e = 125 then Inr ([(k, v)], r4)
            else if e = 44 then (case n of 0 \<Rightarrow> Inl Out_of_fuel
              | Suc m \<Rightarrow> bindE (parse_members m (skip_ws r4)) (\<lambda>(kvs, r5). Inr ((k, v) # kvs, r5)))
            else Inl Decode_error)"
      if k: "scan_string r0 = Inr (k, r1)" "skip_ws r1 = 58 # r2" "length r1 < length r0"
        and v: "parse_value n (skip_ws r2) = Inr (v, r3)" "length r3 < length (skip_ws r2)"
      for k v r1 r2 r3
    proof -
      have len: "length r3 < length s"
        using v(2) skip_ws_le [of r2] skip_ws_ConsD [OF k(2)] k(3) by (simp add: s)
      have rec: "fuelled n s (bindE (parse_members m (skip_ws r4)) (\<lambda>(kvs, r5). Inr ((k, v) # kvs, r5)))"
        if "n = Suc m" "skip_ws r3 = 44 # r4" for m r4
        using that k v len skip_ws_ConsD [of r3] skip_ws_le [of r4]
        by (intro fuelled_bind [OF "3.IH"(2)]) (auto simp: s)
      show ?thesis
        using rec len skip_ws_ConsD [of r3] by (fastforce simp: fuelled_def split: list.split nat.split)
    qed
    have val: "fuelled n s (bindE (parse_value n (skip_ws r2)) (\<lambda>(v, r3). case skip_ws r3 of
        [] \<Rightarrow> Inl Decode_error
        | e # r4 \<Rightarrow> if e = 125 then Inr ([(k, v)], r4)
            else if e = 44 then (case n of 0 \<Rightarrow> Inl Out_of_fuel
              | Suc m \<Rightarrow> bindE (parse_members m (skip_ws r4)) (\<lambda>(kvs, r5). Inr ((k, v) # kvs, r5)))
            else Inl Decode_error))"
      if k: "scan_string r0 = Inr (k, r1)" "skip_ws r1 = 58 # r2" "length r1 < length r0" for k r1 r2
      using k skip_ws_le [of r2] skip_ws_ConsD [OF k(2)] tail
      by (intro fuelled_bind [OF "3.IH"(1)]) (auto simp: s)
    show ?thesis
      by (subst parse_members.simps, simp add: s, rule fuelled_bind [OF fuelled_scan(1) [of n]])
        (use val in \<open>auto simp: s split: list.split\<close>)
  qed
qed

text \<open>No text runs out of fuel: \<open>loads\<close> always decides.\<close>

lemma loads_fuel: "loads s \<noteq> Inl Out_of_fuel"
proof -
  have "parse_value (length s) (skip_ws s) \<noteq> Inl Out_of_fuel"
    using parse_fuelled(1) [of "length s" "skip_ws s"] skip_ws_le [of s] by (simp add: fuelled_def)
  then show ?thesis by (auto simp: loads_def res_simps split: if_splits)
qed

subsection \<open>The alphabet of a printed value\<close>

text \<open>Compact text is printable ASCII: it fits on one line of an audit log.\<close>

definition printable :: "ustr \<Rightarrow> bool" where
  "printable s \<longleftrightarrow> list_all (\<lambda>c. 32 \<le> c \<and> c \<le> 126) s"

lemma printable_append [simp]: "printable (s @ t) \<longleftrightarrow> printable s \<and> printable t"
  and printable_Cons: "printable (c # s) \<longleftrightarrow> 32 \<le> c \<and> c \<le> 126 \<and> printable s"
  and printable_Nil [simp]: "printable []"
  by (simp_all add: printable_def)

lemma printable_u_escape: "printable (u_escape c)"
proof -
  have "32 \<le> hex_digit d \<and> hex_digit d \<le> 126" if "d < 16" for d
    using that by (simp add: hex_digit_def)
  then show ?thesis by (simp add: u_escape_def hex4_def printable_Cons)
qed

lemma printable_esc_char: "printable (esc_char c)"
  by (simp add: esc_char_def printable_u_escape printable_Cons)

lemma printable_quote: "printable (quote s)"
  by (induction s) (simp_all add: quote_def printable_Cons printable_esc_char)

lemma printable_join: "printable sep \<Longrightarrow> list_all printable xs \<Longrightarrow> printable (join sep xs)"
  by (induction sep xs rule: join.induct) simp_all

lemma printable_dec_int: "printable (dec_int i)"
proof -
  have "printable (dec_nat n)" for n
    using dec_nat_digits [of n] by (auto simp: printable_def list_all_iff is_digit_def)
  then show ?thesis by (simp add: dec_int_def printable_Cons)
qed

lemma printable_render: "printable (render None lvl j)"
proof (induction j arbitrary: lvl)
  case (JObj d)
  then show ?case
    by (auto simp: newline_def key_sep_def printable_Cons printable_quote list_all_iff
        intro!: printable_join)
qed (auto simp: newline_def printable_Cons printable_quote printable_dec_int u_def list_all_iff
       intro!: printable_join)

lemma printable_dumps: "printable (dumps j)"
  by (simp add: dumps_def printable_render)

text \<open>Indented text has line feeds besides, and no other control character.\<close>

definition text_char :: "nat \<Rightarrow> bool" where
  "text_char c \<longleftrightarrow> c = 10 \<or> 32 \<le> c \<and> c \<le> 126"

lemma text_char_consts [simp]:
  "text_char 10" "text_char 44" "text_char 91" "text_char 93" "text_char 123" "text_char 125"
  by (simp_all add: text_char_def)

lemma text_char_printable: "printable s \<Longrightarrow> list_all text_char s"
  by (auto simp: printable_def list_all_iff text_char_def)

lemma text_char_join: "list_all text_char sep \<Longrightarrow> list_all (list_all text_char) xs \<Longrightarrow> list_all text_char (join sep xs)"
  by (induction sep xs rule: join.induct) simp_all

lemma text_char_layout: "list_all text_char (newline ind lvl)" "list_all text_char (key_sep ind)"
  by (cases ind; simp add: newline_def key_sep_def text_char_def list_all_iff)+

lemma text_char_render: "list_all text_char (render ind lvl j)"
proof (induction j arbitrary: lvl)
  case (JObj d)
  then show ?case
    by (auto simp: text_char_layout list_all_iff [of "list_all text_char"]
        text_char_printable [OF printable_quote] intro!: text_char_join)
next
  case (JArr xs)
  then show ?case
    by (auto simp: text_char_layout list_all_iff [of "list_all text_char"] intro!: text_char_join)
qed (auto simp: u_def text_char_def text_char_printable printable_quote printable_dec_int)

end
