(* ===== verification/Digest.thy ===== *)
theory Digest
  imports Json_Roundtrip "HOL-Library.Word"
begin

unbundle bit_operations_syntax

text \<open>
  The digests of the standard library the program calls: SHA-256 and HMAC-SHA-256 on byte
  lists, the UTF-8 encoding of a string, and the program's own \<open>canonical_hash\<close>
  (\<open>approval_queue.py\<close>, and again in \<open>audit_chain.py\<close>). They are concrete functions, so
  equal hashes mean equal canonical text or a SHA-256 collision that the theorems exhibit.
\<close>

type_synonym byte = "8 word"
type_synonym u32 = "32 word"

subsection \<open>SHA-256\<close>

text \<open>
  The constants are the first 32 bits of the fractional parts of roots: cube roots of the first 64
  primes for the rounds, square roots of the first eight for the initial state. \<open>root_bits\<close> finds
  the integer root bit by bit.
\<close>

primrec root_bits :: "nat \<Rightarrow> nat \<Rightarrow> nat \<Rightarrow> nat \<Rightarrow> nat" where
  "root_bits n r 0 acc = acc"
| "root_bits n r (Suc i) acc =
     root_bits n r i (if (acc + 2 ^ i) ^ r \<le> n then acc + 2 ^ i else acc)"

definition root_fraction :: "nat \<Rightarrow> nat \<Rightarrow> u32" where
  "root_fraction r p = word_of_nat (root_bits (p * 2 ^ (32 * r)) r 40 0 mod 2 ^ 32)"

definition small_primes :: "nat list" where
  "small_primes = filter (\<lambda>n. list_all (\<lambda>d. n mod d \<noteq> 0) [2..<n]) [2..<312]"

definition sha_k :: "u32 list" where
  "sha_k = map (root_fraction 3) small_primes"

type_synonym sha_state = "u32 \<times> u32 \<times> u32 \<times> u32 \<times> u32 \<times> u32 \<times> u32 \<times> u32"

definition sha_init :: sha_state where
  "sha_init =
     (root_fraction 2 2, root_fraction 2 3, root_fraction 2 5, root_fraction 2 7,
      root_fraction 2 11, root_fraction 2 13, root_fraction 2 17, root_fraction 2 19)"

definition sha_small0 :: "u32 \<Rightarrow> u32" where
  "sha_small0 x = word_rotr 7 x XOR word_rotr 18 x XOR drop_bit 3 x"

definition sha_small1 :: "u32 \<Rightarrow> u32" where
  "sha_small1 x = word_rotr 17 x XOR word_rotr 19 x XOR drop_bit 10 x"

definition sha_big0 :: "u32 \<Rightarrow> u32" where
  "sha_big0 x = word_rotr 2 x XOR word_rotr 13 x XOR word_rotr 22 x"

definition sha_big1 :: "u32 \<Rightarrow> u32" where
  "sha_big1 x = word_rotr 6 x XOR word_rotr 11 x XOR word_rotr 25 x"

text \<open>The message schedule, kept newest first.\<close>

primrec sha_schedule :: "nat \<Rightarrow> u32 list \<Rightarrow> u32 list" where
  "sha_schedule 0 ws = ws"
| "sha_schedule (Suc n) ws =
     sha_schedule n
       ((sha_small1 (ws ! 1) + ws ! 6 + sha_small0 (ws ! 14) + ws ! 15) # ws)"

fun sha_round :: "sha_state \<Rightarrow> u32 \<times> u32 \<Rightarrow> sha_state" where
  "sha_round (a, b, c, d, e, f, g, h) (k, w) =
     (let t1 = h + sha_big1 e + ((e AND f) XOR (NOT e AND g)) + k + w;
          t2 = sha_big0 a + ((a AND b) XOR (a AND c) XOR (b AND c))
      in (t1 + t2, a, b, c, d + t1, e, f, g))"

fun sha_add :: "sha_state \<Rightarrow> sha_state \<Rightarrow> sha_state" where
  "sha_add (a, b, c, d, e, f, g, h) (a', b', c', d', e', f', g', h') =
     (a + a', b + b', c + c', d + d', e + e', f + f', g + g', h + h')"

fun words_of_bytes :: "byte list \<Rightarrow> u32 list" where
  "words_of_bytes (a # b # c # d # bs) =
     (push_bit 24 (ucast a) OR push_bit 16 (ucast b) OR push_bit 8 (ucast c) OR ucast d)
       # words_of_bytes bs"
| "words_of_bytes _ = []"

definition bytes_of_word :: "u32 \<Rightarrow> byte list" where
  "bytes_of_word w = [ucast (drop_bit 24 w), ucast (drop_bit 16 w), ucast (drop_bit 8 w), ucast w]"

definition sha_block :: "sha_state \<Rightarrow> byte list \<Rightarrow> sha_state" where
  "sha_block st block =
     sha_add st (foldl sha_round st (zip sha_k (rev (sha_schedule 48 (rev (words_of_bytes block))))))"

function sha_blocks :: "sha_state \<Rightarrow> byte list \<Rightarrow> sha_state" where
  "sha_blocks st bs = (if bs = [] then st else sha_blocks (sha_block st (take 64 bs)) (drop 64 bs))"
  by pat_completeness auto
termination
  by (relation "measure (\<lambda>(_, bs). length bs)") auto

declare sha_blocks.simps [simp del]

definition sha_pad :: "byte list \<Rightarrow> byte list" where
  "sha_pad m =
     (let n = length m; len = 8 * n in
      m @ [0x80] @ replicate ((119 - n mod 64) mod 64) 0
        @ map (\<lambda>i. word_of_nat (len div 256 ^ i)) [7, 6, 5, 4, 3, 2, 1, 0])"

fun sha_output :: "sha_state \<Rightarrow> byte list" where
  "sha_output (a, b, c, d, e, f, g, h) =
     bytes_of_word a @ bytes_of_word b @ bytes_of_word c @ bytes_of_word d
     @ bytes_of_word e @ bytes_of_word f @ bytes_of_word g @ bytes_of_word h"

definition sha256 :: "byte list \<Rightarrow> byte list" where
  "sha256 m = sha_output (sha_blocks sha_init (sha_pad m))"

definition hexdigest :: "byte list \<Rightarrow> ustr" where
  "hexdigest bs = concat (map (\<lambda>b. [hex_digit (unat b div 16), hex_digit (unat b mod 16)]) bs)"

subsection \<open>HMAC\<close>

definition hmac_sha256 :: "byte list \<Rightarrow> byte list \<Rightarrow> byte list" where
  "hmac_sha256 key m =
     (let k0 = (if length key > 64 then sha256 key else key);
          k = k0 @ replicate (64 - length k0) 0
      in sha256 (map (\<lambda>b. b XOR 0x5C) k @ sha256 (map (\<lambda>b. b XOR 0x36) k @ m)))"

subsection \<open>UTF-8 and the canonical hash\<close>

definition utf8_char :: "nat \<Rightarrow> byte list" where
  "utf8_char c =
     (if c < 0x80 then [word_of_nat c]
      else if c < 0x800 then [word_of_nat (0xC0 + c div 0x40), word_of_nat (0x80 + c mod 0x40)]
      else if c < 0x10000
        then [word_of_nat (0xE0 + c div 0x1000), word_of_nat (0x80 + c div 0x40 mod 0x40),
              word_of_nat (0x80 + c mod 0x40)]
      else [word_of_nat (0xF0 + c div 0x40000), word_of_nat (0x80 + c div 0x1000 mod 0x40),
            word_of_nat (0x80 + c div 0x40 mod 0x40), word_of_nat (0x80 + c mod 0x40)])"

definition utf8_encode :: "ustr \<Rightarrow> byte list" where
  "utf8_encode s = concat (map utf8_char s)"

definition sha256_tag :: "byte list \<Rightarrow> ustr" where
  "sha256_tag m = u ''sha256:'' @ hexdigest (sha256 m)"

definition canonical_bytes :: "json \<Rightarrow> byte list" where
  "canonical_bytes payload = utf8_encode (dumps payload)"

definition canonical_hash :: "json \<Rightarrow> ustr" where
  "canonical_hash payload = sha256_tag (canonical_bytes payload)"

text \<open>A collision: two different messages with one digest.\<close>

definition collides :: "byte list \<Rightarrow> byte list \<Rightarrow> bool" where
  "collides x y \<longleftrightarrow> x \<noteq> y \<and> sha256 x = sha256 y"

lemma length_sha256 [simp]: "length (sha256 m) = 32"
  by (cases "sha_blocks sha_init (sha_pad m)" rule: sha_output.cases)
    (simp add: sha256_def bytes_of_word_def)

lemma length_hexdigest [simp]: "length (hexdigest bs) = 2 * length bs"
  by (induction bs) (simp_all add: hexdigest_def)

definition is_lower_hex :: "nat \<Rightarrow> bool" where
  "is_lower_hex c \<longleftrightarrow> 48 \<le> c \<and> c \<le> 57 \<or> 97 \<le> c \<and> c \<le> 102"

lemma hexdigest_chars: "list_all is_lower_hex (hexdigest bs)"
proof -
  have "is_lower_hex (hex_digit (unat b div 16)) \<and> is_lower_hex (hex_digit (unat b mod 16))"
    for b :: byte
  proof -
    have "unat b < 256" using unsigned_less [of b, where ?'a = nat] by simp
    then show ?thesis by (simp add: is_lower_hex_def hex_digit_def) linarith
  qed
  then show ?thesis by (induction bs) (simp_all add: hexdigest_def)
qed

lemma hex_digit_inj: "a < 16 \<Longrightarrow> b < 16 \<Longrightarrow> hex_digit a = hex_digit b \<longleftrightarrow> a = b"
  by (auto simp: hex_digit_def split: if_splits)

lemma hexdigest_inj: "hexdigest xs = hexdigest ys \<Longrightarrow> xs = ys"
proof (induction xs arbitrary: ys)
  case Nil
  then show ?case by (cases ys) (simp_all add: hexdigest_def)
next
  case (Cons x xs)
  then obtain y ys' where ys: "ys = y # ys'" by (cases ys) (simp_all add: hexdigest_def)
  have lt: "unat x div 16 < 16" "unat y div 16 < 16"
    using unsigned_less [of x, where ?'a = nat] unsigned_less [of y, where ?'a = nat] by simp_all
  have "hex_digit (unat x div 16) = hex_digit (unat y div 16)"
    "hex_digit (unat x mod 16) = hex_digit (unat y mod 16)" "hexdigest xs = hexdigest ys'"
    using Cons.prems by (simp_all add: hexdigest_def ys)
  then have "unat x div 16 = unat y div 16" "unat x mod 16 = unat y mod 16" "xs = ys'"
    using lt Cons.IH by (simp_all add: hex_digit_inj)
  moreover from calculation have "unat x = unat y"
    by (metis div_mult_mod_eq)
  ultimately show ?case by (simp add: ys word_unat_eq_iff)
qed

lemma utf8_encode_printable: "printable s \<Longrightarrow> utf8_encode s = map word_of_nat s"
  by (induction s) (simp_all add: utf8_encode_def utf8_char_def printable_Cons)

lemma map_word_of_nat_inj:
  "printable s \<Longrightarrow> printable t \<Longrightarrow> map word_of_nat s = (map word_of_nat t :: byte list) \<longleftrightarrow> s = t"
proof (induction s arbitrary: t)
  case (Cons c s)
  show ?case
  proof (cases t)
    case (Cons d t')
    have "(word_of_nat c :: byte) = word_of_nat d \<longleftrightarrow> c = d" if "c \<le> 126" "d \<le> 126"
      using that by (simp add: word_of_nat_eq_iff take_bit_nat_def)
    with Cons Cons.IH Cons.prems show ?thesis by (auto simp: printable_Cons)
  qed simp
qed auto

lemma canonical_bytes_inj:
  "wf_json a \<Longrightarrow> wf_json b \<Longrightarrow> canonical_bytes a = canonical_bytes b \<longleftrightarrow> sort_keys a = sort_keys b"
  by (simp add: canonical_bytes_def utf8_encode_printable printable_dumps map_word_of_nat_inj dumps_inj)

lemma sha256_tag_eq: "sha256_tag x = sha256_tag y \<longleftrightarrow> sha256 x = sha256 y"
  by (auto simp: sha256_tag_def dest: hexdigest_inj)

lemma canonical_hash_eq:
  assumes "wf_json a" and "wf_json b" and "canonical_hash a = canonical_hash b"
  shows "sort_keys a = sort_keys b \<or> collides (canonical_bytes a) (canonical_bytes b)"
  using assms canonical_bytes_inj [of a b]
  by (auto simp: canonical_hash_def sha256_tag_eq collides_def)

lemma canonical_hash_sort_keys [simp]: "canonical_hash (sort_keys v) = canonical_hash v"
  by (simp add: canonical_hash_def canonical_bytes_def dumps_def)

lemma canonical_hash_cong: "sort_keys a = sort_keys b \<Longrightarrow> canonical_hash a = canonical_hash b"
  by (simp add: canonical_hash_def canonical_bytes_def dumps_def)

lemma canonical_hash_nonempty [simp]: "canonical_hash v \<noteq> []"
  by (simp add: canonical_hash_def sha256_tag_def)

lemma canonical_hash_scalar [simp, wf_intros]: "list_all scalar (canonical_hash v)"
  using hexdigest_chars [of "sha256 (canonical_bytes v)"]
  by (auto simp: canonical_hash_def sha256_tag_def list_all_iff is_lower_hex_def scalar_def u_def)

text \<open>
  The regular expression \<open>^sha256:[a-f0-9]{64}$\<close> under \<open>re.match\<close>: \<open>$\<close> also matches before
  a line feed that ends the string.
\<close>

definition sha256_tag_pattern :: "ustr \<Rightarrow> bool" where
  "sha256_tag_pattern s \<longleftrightarrow>
     (let body = (if s \<noteq> [] \<and> last s = 10 then butlast s else s)
      in take 7 body = u ''sha256:'' \<and> length body = 71 \<and> list_all is_lower_hex (drop 7 body))"

lemma canonical_hash_matches: "sha256_tag_pattern (canonical_hash v)"
proof -
  let ?h = "hexdigest (sha256 (canonical_bytes v))"
  have "\<forall>c \<in> set ?h. is_lower_hex c" "?h \<noteq> []"
    using hexdigest_chars length_hexdigest [of "sha256 (canonical_bytes v)"]
    by (auto simp: list_all_iff simp del: length_hexdigest)
  then have "last ?h \<noteq> 10" by (auto simp: is_lower_hex_def dest!: bspec [OF _ last_in_set])
  with \<open>?h \<noteq> []\<close> hexdigest_chars show ?thesis
    by (simp add: sha256_tag_pattern_def canonical_hash_def sha256_tag_def)
qed

end
