(* ===== verification/Normalization.thy ===== *)
theory Normalization
  imports Digest
begin

text \<open>
  Inbound payload normalisation (\<open>packages/shell_core/normalization.py\<close>,
  \<open>authority_keys.py\<close>): key normalisation, the search for authority claims in keys and
  values, the stripping of authority keys, and the quarantine verdict.

  The Unicode tables behind \<open>unicodedata.normalize("NFKC", _)\<close> and \<open>str.casefold\<close> are the
  parameter \<open>ucd\<close>; \<open>ucd_ok\<close> is what Unicode documents of them on ASCII text. The white space
  of \<open>str.strip\<close> and of \<open>\s\<close> is written out.
\<close>

record ucd =
  nfkc :: "ustr \<Rightarrow> ustr"
  casefold :: "ustr \<Rightarrow> ustr"

definition ascii_lower :: "nat \<Rightarrow> nat" where
  "ascii_lower c = (if 65 \<le> c \<and> c \<le> 90 then c + 32 else c)"

definition ucd_ok :: "ucd \<Rightarrow> bool" where
  "ucd_ok U \<longleftrightarrow> (\<forall>s. ascii s \<longrightarrow> nfkc U s = s \<and> casefold U s = map ascii_lower s)"

definition ascii_ucd :: ucd where
  "ascii_ucd = \<lparr>nfkc = (\<lambda>s. s), casefold = map ascii_lower\<rparr>"

lemma ucd_ok_ascii: "ucd_ok ascii_ucd"
  by (simp add: ucd_ok_def ascii_ucd_def)

subsection \<open>Strings\<close>

definition is_space :: "nat \<Rightarrow> bool" where
  "is_space c \<longleftrightarrow>
     9 \<le> c \<and> c \<le> 13 \<or> 28 \<le> c \<and> c \<le> 32 \<or> 0x2000 \<le> c \<and> c \<le> 0x200A
     \<or> c \<in> {0x85, 0xA0, 0x1680, 0x2028, 0x2029, 0x202F, 0x205F, 0x3000}"

definition strip_where :: "(nat \<Rightarrow> bool) \<Rightarrow> ustr \<Rightarrow> ustr" where
  "strip_where p s = rev (dropWhile p (rev (dropWhile p s)))"

definition strip :: "ustr \<Rightarrow> ustr" where
  "strip s = strip_where is_space s"

definition low_or_digit :: "nat \<Rightarrow> bool" where
  "low_or_digit c \<longleftrightarrow> 97 \<le> c \<and> c \<le> 122 \<or> 48 \<le> c \<and> c \<le> 57"

definition upper_letter :: "nat \<Rightarrow> bool" where
  "upper_letter c \<longleftrightarrow> 65 \<le> c \<and> c \<le> 90"

text \<open>\<open>re.sub(r"(?<=[a-z0-9])(?=[A-Z])", "_", s)\<close>\<close>

fun split_camel :: "ustr \<Rightarrow> ustr" where
  "split_camel (a # b # s) =
     (if low_or_digit a \<and> upper_letter b then a # 95 # split_camel (b # s) else a # split_camel (b # s))"
| "split_camel s = s"

text \<open>\<open>re.sub("C+", "_", s)\<close> for a character class \<open>C\<close>\<close>

function sub_runs :: "(nat \<Rightarrow> bool) \<Rightarrow> ustr \<Rightarrow> ustr" where
  "sub_runs p [] = []"
| "sub_runs p (c # s) = (if p c then 95 # sub_runs p (dropWhile p s) else c # sub_runs p s)"
  by pat_completeness auto
termination
  by (relation "measure (\<lambda>(_, s). length s)") (auto simp: le_imp_less_Suc length_dropWhile_le)

definition zero_width :: "nat \<Rightarrow> bool" where
  "zero_width c \<longleftrightarrow> c \<in> {0x200B, 0x200C, 0x200D, 0xFEFF}"

definition space_or_hyphen :: "nat \<Rightarrow> bool" where
  "space_or_hyphen c \<longleftrightarrow> is_space c \<or> c = 45"

definition underscore :: "nat \<Rightarrow> bool" where
  "underscore c \<longleftrightarrow> c = 95"

subsection \<open>Keys\<close>

definition normalize_key :: "ucd \<Rightarrow> ustr \<Rightarrow> ustr" where
  "normalize_key U key =
     (let normalized = nfkc U key;
          normalized = filter (\<lambda>c. \<not> zero_width c) normalized;
          normalized = strip normalized;
          normalized = split_camel normalized;
          normalized = casefold U normalized;
          normalized = sub_runs space_or_hyphen normalized
      in sub_runs underscore normalized)"

definition AUTHORITY_KEYS :: "ustr list" where
  "AUTHORITY_KEYS = map u
     [''authority'', ''authority_context'', ''authority_trace'', ''approval_state'', ''approved_by'',
      ''permission_grant'', ''permission_override'', ''role'', ''scope_escalation'', ''trust_level'']"

definition AUTHORITY_KEY_ALIASES :: "(ustr \<times> ustr) list" where
  "AUTHORITY_KEY_ALIASES = map (map_prod u u)
     [(''admin_context'', ''authority_context''), (''elevated'', ''scope_escalation''),
      (''grant'', ''permission_grant''), (''grants'', ''permission_grant''),
      (''permission'', ''permission_grant''), (''permissions'', ''permission_grant''),
      (''permissions_granted'', ''permission_grant''), (''privilege'', ''permission_grant''),
      (''privileges'', ''permission_grant''), (''permissiongrant'', ''permission_grant'')]"

definition AUTHORITY_VALUES :: "ustr list" where
  "AUTHORITY_VALUES = map u [''admin'', ''all'', ''approved'', ''elevated'', ''root'']"

definition canonical_authority_key :: "ucd \<Rightarrow> ustr \<Rightarrow> ustr option" where
  "canonical_authority_key U key =
     (let normalized = normalize_key U key in
      if normalized \<in> set AUTHORITY_KEYS then Some normalized
      else map_of AUTHORITY_KEY_ALIASES normalized)"

subsection \<open>Payloads\<close>

fun normalize_payload :: "ucd \<Rightarrow> json \<Rightarrow> json" where
  "normalize_payload U (JObj d) =
     JObj (dict_of (map (\<lambda>(key, item). (normalize_key U key, normalize_payload U item)) d))"
| "normalize_payload U (JArr xs) = JArr (map (normalize_payload U) xs)"
| "normalize_payload U (JStr s) = JStr (strip (nfkc U s))"
| "normalize_payload U v = v"

definition child_path :: "ustr \<Rightarrow> ustr \<Rightarrow> ustr" where
  "child_path path normalized = (if path \<noteq> [] then path @ u ''.'' @ normalized else normalized)"

definition index_path :: "ustr \<Rightarrow> nat \<Rightarrow> ustr" where
  "index_path path index = path @ u ''['' @ dec_nat index @ u '']''"

fun normalization_collisions_in :: "ucd \<Rightarrow> ustr \<Rightarrow> json \<Rightarrow> obj list"
  and collisions_in_items :: "ucd \<Rightarrow> ustr \<Rightarrow> (ustr \<times> ustr) list \<Rightarrow> (ustr \<times> json) list \<Rightarrow> obj list"
  and collisions_in_elems :: "ucd \<Rightarrow> ustr \<Rightarrow> nat \<Rightarrow> json list \<Rightarrow> obj list" where
  "normalization_collisions_in U path (JObj d) = collisions_in_items U path [] d"
| "normalization_collisions_in U path (JArr xs) = collisions_in_elems U path 0 xs"
| "normalization_collisions_in U path _ = []"
| "collisions_in_items U path seen [] = []"
| "collisions_in_items U path seen ((key, item) # d) =
     (let normalized = normalize_key U key;
          child = child_path path normalized;
          below = normalization_collisions_in U child item
      in case map_of seen normalized of
           Some first \<Rightarrow>
             if first \<noteq> key
             then [(u ''path'', JStr child), (u ''normalized_key'', JStr normalized),
                   (u ''first_key'', JStr first), (u ''colliding_key'', JStr key)]
                  # below @ collisions_in_items U path seen d
             else below @ collisions_in_items U path (AList.update normalized key seen) d
         | None \<Rightarrow> below @ collisions_in_items U path (AList.update normalized key seen) d)"
| "collisions_in_elems U path index [] = []"
| "collisions_in_elems U path index (x # xs) =
     normalization_collisions_in U (index_path path index) x @ collisions_in_elems U path (Suc index) xs"

fun authority_keys_in :: "ucd \<Rightarrow> ustr \<Rightarrow> json \<Rightarrow> obj list"
  and authority_keys_in_items :: "ucd \<Rightarrow> ustr \<Rightarrow> (ustr \<times> json) list \<Rightarrow> obj list"
  and authority_keys_in_elems :: "ucd \<Rightarrow> ustr \<Rightarrow> nat \<Rightarrow> json list \<Rightarrow> obj list" where
  "authority_keys_in U path (JObj d) = authority_keys_in_items U path d"
| "authority_keys_in U path (JArr xs) = authority_keys_in_elems U path 0 xs"
| "authority_keys_in U path _ = []"
| "authority_keys_in_items U path [] = []"
| "authority_keys_in_items U path ((key, item) # d) =
     (let child = child_path path (normalize_key U key) in
      (case canonical_authority_key U key of
         None \<Rightarrow> []
       | Some canonical \<Rightarrow>
           [[(u ''path'', JStr child), (u ''key'', JStr key), (u ''canonical_key'', JStr canonical)]])
      @ authority_keys_in U child item @ authority_keys_in_items U path d)"
| "authority_keys_in_elems U path index [] = []"
| "authority_keys_in_elems U path index (x # xs) =
     authority_keys_in U (index_path path index) x @ authority_keys_in_elems U path (Suc index) xs"

fun authority_values_in :: "ucd \<Rightarrow> ustr \<Rightarrow> json \<Rightarrow> obj list"
  and authority_values_in_items :: "ucd \<Rightarrow> ustr \<Rightarrow> (ustr \<times> json) list \<Rightarrow> obj list"
  and authority_values_in_elems :: "ucd \<Rightarrow> ustr \<Rightarrow> nat \<Rightarrow> json list \<Rightarrow> obj list" where
  "authority_values_in U path (JObj d) = authority_values_in_items U path d"
| "authority_values_in U path (JArr xs) = authority_values_in_elems U path 0 xs"
| "authority_values_in U path (JStr s) =
     (let normalized = normalize_key U s in
      if normalized \<in> set AUTHORITY_VALUES
      then [[(u ''path'', JStr path), (u ''value'', JStr s), (u ''canonical_value'', JStr normalized)]]
      else [])"
| "authority_values_in U path _ = []"
| "authority_values_in_items U path [] = []"
| "authority_values_in_items U path ((key, item) # d) =
     authority_values_in U (child_path path (normalize_key U key)) item
       @ authority_values_in_items U path d"
| "authority_values_in_elems U path index [] = []"
| "authority_values_in_elems U path index (x # xs) =
     authority_values_in U (index_path path index) x @ authority_values_in_elems U path (Suc index) xs"

fun strip_authority_keys :: "ucd \<Rightarrow> json \<Rightarrow> json" where
  "strip_authority_keys U (JObj d) =
     JObj (dict_of (map (\<lambda>(key, item). (normalize_key U key, strip_authority_keys U item))
       (filter (\<lambda>(key, item). canonical_authority_key U key = None) d)))"
| "strip_authority_keys U (JArr xs) = JArr (map (strip_authority_keys U) xs)"
| "strip_authority_keys U v = v"

definition normalize_inbound_payload :: "ucd \<Rightarrow> obj \<Rightarrow> obj" where
  "normalize_inbound_payload U payload =
     (let normalized_payload = normalize_payload U (JObj payload);
          stripped_payload = strip_authority_keys U (JObj payload);
          key_findings = authority_keys_in U [] (JObj payload);
          value_findings = authority_values_in U [] stripped_payload;
          collision_findings = normalization_collisions_in U [] (JObj payload);
          quarantined = (key_findings \<noteq> [] \<or> value_findings \<noteq> [] \<or> collision_findings \<noteq> [])
      in [(u ''raw_payload'', JObj payload),
          (u ''normalized_payload'', normalized_payload),
          (u ''stripped_payload'', stripped_payload),
          (u ''quarantined'', JBool quarantined),
          (u ''authority_key_findings'', JArr (map JObj key_findings)),
          (u ''authority_value_findings'', JArr (map JObj value_findings)),
          (u ''normalization_collision_findings'', JArr (map JObj collision_findings)),
          (u ''audit_event'',
            JObj [(u ''event_type'',
                    js (if quarantined then ''normalization.quarantine'' else ''normalization.pass'')),
                  (u ''authority_key_count'', JInt (int (length key_findings))),
                  (u ''authority_value_count'', JInt (int (length value_findings))),
                  (u ''normalization_collision_count'', JInt (int (length collision_findings))),
                  (u ''raw_payload_preserved'', JBool True)])])"

subsection \<open>Shape of a normalised key\<close>

fun no_double :: "ustr \<Rightarrow> bool" where
  "no_double (a # b # s) \<longleftrightarrow> \<not> (a = 95 \<and> b = 95) \<and> no_double (b # s)"
| "no_double s \<longleftrightarrow> True"

lemma set_sub_runs: "set (sub_runs p s) \<subseteq> insert 95 {c \<in> set s. \<not> p c}"
  by (induction p s rule: sub_runs.induct) (auto dest: set_dropWhileD)

lemma sub_runs_id: "list_all (\<lambda>c. \<not> p c) s \<Longrightarrow> sub_runs p s = s"
  by (induction s) auto

lemma hd_sub_runs_underscore:
  "s = [] \<or> hd s \<noteq> 95 \<Longrightarrow> sub_runs underscore s = [] \<or> hd (sub_runs underscore s) \<noteq> 95"
  by (cases s) (auto simp: underscore_def)

lemma no_double_Cons: "no_double (a # s) \<longleftrightarrow> (s = [] \<or> a \<noteq> 95 \<or> hd s \<noteq> 95) \<and> no_double s"
  by (cases s) auto

lemma no_double_sub_runs: "no_double (sub_runs underscore s)"
proof (induction underscore s rule: sub_runs.induct)
  case (2 c s)
  have "dropWhile underscore s = [] \<or> hd (dropWhile underscore s) \<noteq> 95"
    using hd_dropWhile [of underscore s] by (auto simp: underscore_def)
  with 2 show ?case
    using hd_sub_runs_underscore [of "dropWhile underscore s"]
    by (auto simp: no_double_Cons underscore_def)
qed simp

lemma sub_runs_no_double: "no_double s \<Longrightarrow> sub_runs underscore s = s"
proof (induction s)
  case (Cons c s)
  then have "sub_runs underscore s = s" and "s = [] \<or> c \<noteq> 95 \<or> hd s \<noteq> 95"
    by (simp_all add: no_double_Cons)
  moreover from this(2) have "c \<noteq> 95 \<or> dropWhile underscore s = s"
    by (auto simp: dropWhile_eq_self_iff underscore_def)
  moreover have "underscore c \<longleftrightarrow> c = 95"
    by (simp only: underscore_def)
  ultimately show ?case by auto
qed simp

definition key_shape :: "ustr \<Rightarrow> bool" where
  "key_shape s \<longleftrightarrow> list_all (\<lambda>c. \<not> space_or_hyphen c) s \<and> no_double s"

lemma space_or_hyphen_95 [simp]: "\<not> space_or_hyphen 95"
  by (simp add: space_or_hyphen_def is_space_def)

lemma normalize_key_shape: "key_shape (normalize_key U k)"
proof -
  let ?t = "casefold U (split_camel (strip (filter (\<lambda>c. \<not> zero_width c) (nfkc U k))))"
  let ?n = "sub_runs underscore (sub_runs space_or_hyphen ?t)"
  have i: "insert 95 {c. \<not> space_or_hyphen c} = {c. \<not> space_or_hyphen c}"
    by (rule insert_absorb) simp
  have 1: "set (sub_runs space_or_hyphen ?t) \<subseteq> {c. \<not> space_or_hyphen c}"
    using set_sub_runs [of space_or_hyphen ?t] by (subst i [symmetric]) auto
  have "set ?n \<subseteq> insert 95 (set (sub_runs space_or_hyphen ?t))"
    using set_sub_runs [of underscore "sub_runs space_or_hyphen ?t"] by auto
  also have "\<dots> \<subseteq> insert 95 {c. \<not> space_or_hyphen c}"
    using 1 by (rule insert_mono)
  finally have "\<forall>c \<in> set ?n. \<not> space_or_hyphen c"
    unfolding i by auto
  then show ?thesis
    by (simp add: key_shape_def list_all_iff normalize_key_def no_double_sub_runs)
qed

lemma set_split_camel: "set (split_camel s) \<subseteq> insert 95 (set s)"
  by (induction s rule: split_camel.induct) auto

lemma set_strip: "set (strip s) \<subseteq> set s"
  by (auto simp: strip_def strip_where_def dest!: set_dropWhileD)

lemma strip_id: "list_all (\<lambda>c. \<not> is_space c) s \<Longrightarrow> strip s = s"
proof -
  have d: "dropWhile is_space t = t" if "list_all (\<lambda>c. \<not> is_space c) t" for t
    using that hd_in_set [of t] by (auto simp: dropWhile_eq_self_iff list_all_iff)
  then show "list_all (\<lambda>c. \<not> is_space c) s \<Longrightarrow> strip s = s"
    by (simp add: strip_def strip_where_def)
qed

lemma split_camel_id: "list_all (\<lambda>c. \<not> upper_letter c) s \<Longrightarrow> split_camel s = s"
  by (induction s rule: split_camel.induct) auto

definition folded_key :: "ustr \<Rightarrow> bool" where
  "folded_key s \<longleftrightarrow> ascii s \<and> list_all (\<lambda>c. \<not> upper_letter c) s"

lemma ascii_split_strip:
  "ascii k \<Longrightarrow> ascii (split_camel (strip (filter (\<lambda>c. \<not> zero_width c) k)))"
  using set_split_camel [of "strip (filter (\<lambda>c. \<not> zero_width c) k)"]
    set_strip [of "filter (\<lambda>c. \<not> zero_width c) k"]
  by (fastforce simp: ascii_def list_all_iff)

text \<open>On ASCII text the tables do not matter.\<close>

lemma normalize_key_ascii:
  assumes "ucd_ok U" and "ascii k"
  shows "normalize_key U k = sub_runs underscore (sub_runs space_or_hyphen
    (map ascii_lower (split_camel (strip (filter (\<lambda>c. \<not> zero_width c) k)))))"
  using assms ascii_split_strip [OF assms(2)] by (simp add: normalize_key_def ucd_ok_def)

lemma normalize_key_folded:
  assumes U: "ucd_ok U" and k: "ascii k"
  shows "folded_key (normalize_key U k)"
proof -
  let ?r = "split_camel (strip (filter (\<lambda>c. \<not> zero_width c) k))"
  let ?t = "map ascii_lower ?r"
  have lower: "ascii_lower c < 128 \<and> \<not> upper_letter (ascii_lower c)" if "c < 128" for c
    using that by (auto simp: ascii_lower_def upper_letter_def)
  have "ascii ?r" using k by (rule ascii_split_strip)
  have eq: "normalize_key U k = sub_runs underscore (sub_runs space_or_hyphen ?t)"
    using U k by (rule normalize_key_ascii)
  have "set (normalize_key U k) \<subseteq> insert 95 (set ?t)"
    unfolding eq using set_sub_runs [of underscore "sub_runs space_or_hyphen ?t"]
      set_sub_runs [of space_or_hyphen ?t] by auto
  moreover have "\<forall>c \<in> set ?t. c < 128 \<and> \<not> upper_letter c"
    using \<open>ascii ?r\<close> lower by (auto simp: ascii_def list_all_iff)
  ultimately show ?thesis
    by (fastforce simp: folded_key_def ascii_def list_all_iff upper_letter_def)
qed

lemma normalize_key_fixed:
  assumes U: "ucd_ok U" and f: "folded_key k" and s: "key_shape k"
  shows "normalize_key U k = k"
proof -
  have "filter (\<lambda>c. \<not> zero_width c) k = k"
    using f by (auto simp: folded_key_def ascii_def list_all_iff zero_width_def intro!: filter_True)
  moreover have "strip k = k"
    using s by (auto simp: key_shape_def space_or_hyphen_def list_all_iff intro!: strip_id)
  moreover have "split_camel k = k" "map ascii_lower k = k"
    using f by (auto simp: folded_key_def split_camel_id list_all_iff ascii_lower_def
        upper_letter_def intro!: map_idI)
  ultimately show ?thesis
    using assms by (simp add: normalize_key_def ucd_ok_def folded_key_def key_shape_def
        sub_runs_id sub_runs_no_double)
qed

lemma normalize_key_idem:
  "ucd_ok U \<Longrightarrow> ascii k \<Longrightarrow> normalize_key U (normalize_key U k) = normalize_key U k"
  by (simp add: normalize_key_fixed normalize_key_folded normalize_key_shape)

subsection \<open>What the searches find\<close>

text \<open>Every key and every string leaf of a value, in order; and the key sets of its dictionaries.\<close>

fun all_keys :: "json \<Rightarrow> ustr list" where
  "all_keys (JObj d) = concat (map (\<lambda>(k, v). k # all_keys v) d)"
| "all_keys (JArr xs) = concat (map all_keys xs)"
| "all_keys _ = []"

fun all_strs :: "json \<Rightarrow> ustr list" where
  "all_strs (JObj d) = concat (map (\<lambda>(k, v). all_strs v) d)"
| "all_strs (JArr xs) = concat (map all_strs xs)"
| "all_strs (JStr s) = [s]"
| "all_strs _ = []"

fun keys_stay_apart :: "ucd \<Rightarrow> json \<Rightarrow> bool" where
  "keys_stay_apart U (JObj d) \<longleftrightarrow>
     distinct (map (normalize_key U) (map fst d)) \<and> list_all (\<lambda>(k, v). keys_stay_apart U v) d"
| "keys_stay_apart U (JArr xs) \<longleftrightarrow> list_all (keys_stay_apart U) xs"
| "keys_stay_apart U _ \<longleftrightarrow> True"

abbreviation authority_key :: "ucd \<Rightarrow> ustr \<Rightarrow> bool" where
  "authority_key U k \<equiv> canonical_authority_key U k \<noteq> None"

abbreviation authority_value :: "ucd \<Rightarrow> ustr \<Rightarrow> bool" where
  "authority_value U s \<equiv> normalize_key U s \<in> set AUTHORITY_VALUES"

lemma authority_keys_in_report:
  "map (\<lambda>f. (dget f ''key'', dget f ''canonical_key'')) (authority_keys_in U p v)
     = map (\<lambda>k. (JStr k, JStr (the (canonical_authority_key U k)))) (filter (authority_key U) (all_keys v))"
  "map (\<lambda>f. (dget f ''key'', dget f ''canonical_key'')) (authority_keys_in_items U p d)
     = map (\<lambda>k. (JStr k, JStr (the (canonical_authority_key U k))))
         (filter (authority_key U) (all_keys (JObj d)))"
  "map (\<lambda>f. (dget f ''key'', dget f ''canonical_key'')) (authority_keys_in_elems U p i xs)
     = map (\<lambda>k. (JStr k, JStr (the (canonical_authority_key U k))))
         (filter (authority_key U) (all_keys (JArr xs)))"
  by (induction U p v and U p d and U p i xs
      rule: authority_keys_in_authority_keys_in_items_authority_keys_in_elems.induct)
    (simp_all add: Let_def dget_def dget_or_def split: option.splits)

lemma authority_values_in_report:
  "map (\<lambda>f. (dget f ''value'', dget f ''canonical_value'')) (authority_values_in U p v)
     = map (\<lambda>s. (JStr s, JStr (normalize_key U s))) (filter (authority_value U) (all_strs v))"
  "map (\<lambda>f. (dget f ''value'', dget f ''canonical_value'')) (authority_values_in_items U p d)
     = map (\<lambda>s. (JStr s, JStr (normalize_key U s))) (filter (authority_value U) (all_strs (JObj d)))"
  "map (\<lambda>f. (dget f ''value'', dget f ''canonical_value'')) (authority_values_in_elems U p i xs)
     = map (\<lambda>s. (JStr s, JStr (normalize_key U s))) (filter (authority_value U) (all_strs (JArr xs)))"
  by (induction U p v and U p d and U p i xs
      rule: authority_values_in_authority_values_in_items_authority_values_in_elems.induct)
    (simp_all add: Let_def dget_def dget_or_def)

lemma map_eq_map_Nil: "map f xs = map g ys \<Longrightarrow> xs = [] \<longleftrightarrow> ys = []"
  by (cases xs; cases ys) auto

lemma authority_keys_in_Nil:
  "authority_keys_in U p v = [] \<longleftrightarrow> (\<forall>k \<in> set (all_keys v). \<not> authority_key U k)"
  by (rule map_eq_map_Nil [OF authority_keys_in_report(1), unfolded filter_empty_conv])

lemma authority_values_in_Nil:
  "authority_values_in U p v = [] \<longleftrightarrow> (\<forall>s \<in> set (all_strs v). \<not> authority_value U s)"
  by (rule map_eq_map_Nil [OF authority_values_in_report(1), unfolded filter_empty_conv])

text \<open>The dictionary \<open>seen\<close> holds the first key of every normal form met so far.\<close>

lemma collisions_Nil:
  "wf_json v \<Longrightarrow> normalization_collisions_in U p v = [] \<longleftrightarrow> keys_stay_apart U v"
  "distinct (map fst d) \<Longrightarrow> list_all (\<lambda>(k, v). wf_json v) d \<Longrightarrow>
     (\<forall>n k. map_of seen n = Some k \<longrightarrow> k \<notin> fst ` set d) \<Longrightarrow>
     collisions_in_items U p seen d = [] \<longleftrightarrow>
       (\<forall>k \<in> fst ` set d. map_of seen (normalize_key U k) = None)
       \<and> distinct (map (normalize_key U) (map fst d)) \<and> list_all (\<lambda>(k, v). keys_stay_apart U v) d"
  "list_all wf_json xs \<Longrightarrow>
     collisions_in_elems U p i xs = [] \<longleftrightarrow> list_all (keys_stay_apart U) xs"
proof (induction U p v and U p seen d and U p i xs
    rule: normalization_collisions_in_collisions_in_items_collisions_in_elems.induct)
  case (1 U path d)
  then show ?case by (auto simp: list_all_iff)
next
  case (5 U path seen key item d)
  let ?n = "normalize_key U key"
  have other: "\<forall>n k. map_of seen n = Some k \<longrightarrow> k \<noteq> key"
    using "5.prems"(3) by auto
  show ?case
  proof (cases "map_of seen ?n")
    case (Some first)
    with other show ?thesis by (auto simp: Let_def)
  next
    case None
    have seen: "\<forall>n k. map_of (AList.update ?n key seen) n = Some k \<longrightarrow> k \<notin> fst ` set d"
      using "5.prems" by (auto simp: update_conv)
    have "distinct (map fst d)" "list_all (\<lambda>(k, v). wf_json v) d"
      using "5.prems" by simp_all
    note IH = "5.IH"(2) [OF refl refl refl None this seen]
    have "normalization_collisions_in U (child_path path ?n) item = [] \<longleftrightarrow> keys_stay_apart U item"
      using "5.IH"(1) "5.prems" by simp
    moreover have "map_of (AList.update ?n key seen) m = None \<longleftrightarrow> m \<noteq> ?n \<and> map_of seen m = None" for m
      by (simp add: update_conv)
    with IH have "collisions_in_items U path (AList.update ?n key seen) d = [] \<longleftrightarrow>
        (\<forall>k \<in> fst ` set d. normalize_key U k \<noteq> ?n \<and> map_of seen (normalize_key U k) = None)
        \<and> distinct (map (normalize_key U) (map fst d)) \<and> list_all (\<lambda>(k, v). keys_stay_apart U v) d"
      by (simp only:)
    ultimately show ?thesis
      using None by (force simp: Let_def)
  qed
qed (auto simp: Let_def)

subsection \<open>Nothing lost, nothing kept\<close>

definition weight :: "(ustr \<times> json) list \<Rightarrow> nat" where
  "weight d = sum_list (map (\<lambda>(k, v). Suc (length (all_keys v))) d)"

lemma weight_simps [simp]:
  "weight [] = 0" "weight ((k, v) # d) = Suc (length (all_keys v)) + weight d"
  "weight (d @ e) = weight d + weight e"
  by (simp_all add: weight_def)

lemma length_all_keys_JObj: "length (all_keys (JObj d)) = weight d"
  by (induction d) auto

lemma weight_update:
  "weight (AList.update k v d) + (if k \<in> fst ` set d then 1 else 0) \<le> weight d + Suc (length (all_keys v))"
proof (induction d)
  case (Cons p d)
  then show ?case by (cases p) (simp split: if_splits)
qed simp

lemma map_fst_pair: "map fst (map (\<lambda>(k, v). (g k, f v)) d) = map g (map fst d)"
  by auto

lemma weight_dict_of: "weight (dict_of items) \<le> weight items"
  and weight_dict_of_less: "\<not> distinct (map fst items) \<Longrightarrow> weight (dict_of items) < weight items"
proof (induction items rule: rev_induct)
  case (snoc p items)
  obtain k v where p: "p = (k, v)" by (cases p)
  { case 1 from snoc(1) show ?case
      using weight_update [of k v "dict_of items"] by (auto simp: p dict_of_snoc split: if_splits) }
  { case 2 with snoc show ?case
      using weight_update [of k v "dict_of items"]
      by (fastforce simp: p dict_of_snoc fst_dict_of split: if_splits) }
qed (simp_all add: dict_of_def)

lemma weight_map_le:
  "(\<And>k v. (k, v) \<in> set d \<Longrightarrow> length (all_keys (f v)) \<le> length (all_keys v)) \<Longrightarrow>
     weight (map (\<lambda>(k, v). (g k, f v)) d) \<le> weight d"
proof (induction d)
  case (Cons p d)
  obtain k v where p: "p = (k, v)" by (cases p)
  have "length (all_keys (f v)) \<le> length (all_keys v)"
    "weight (map (\<lambda>(k, v). (g k, f v)) d) \<le> weight d"
    using Cons.prems p by (auto intro: Cons.IH)
  then show ?case by (simp add: p)
qed simp

lemma length_all_keys_normalize: "length (all_keys (normalize_payload U v)) \<le> length (all_keys v)"
proof (induction U v rule: normalize_payload.induct)
  case (1 U d)
  let ?items = "map (\<lambda>(key, item). (normalize_key U key, normalize_payload U item)) d"
  have "weight (dict_of ?items) \<le> weight ?items" by (rule weight_dict_of)
  also have "\<dots> \<le> weight d" by (rule weight_map_le) (use 1 in auto)
  finally show ?case by (simp add: length_all_keys_JObj del: all_keys.simps)
next
  case (2 U xs)
  then show ?case by (induction xs) (auto intro!: add_mono)
qed auto

lemma all_keys_normalize:
  "keys_stay_apart U v \<Longrightarrow> all_keys (normalize_payload U v) = map (normalize_key U) (all_keys v)"
proof (induction U v rule: normalize_payload.induct)
  case (1 U d)
  let ?items = "map (\<lambda>(key, item). (normalize_key U key, normalize_payload U item)) d"
  from "1.prems" have "dict_of ?items = ?items"
    by (intro dict_of_distinct) (simp only: map_fst_pair keys_stay_apart.simps)
  moreover have "map (\<lambda>(k, v). k # all_keys v) ?items = map (\<lambda>(k, v). map (normalize_key U) (k # all_keys v)) d"
    using 1 by (auto simp: list_all_iff)
  then have "concat (map (\<lambda>(k, v). k # all_keys v) ?items)
      = map (normalize_key U) (concat (map (\<lambda>(k, v). k # all_keys v) d))"
    by (simp only: map_concat map_map) (simp add: comp_def case_prod_unfold)
  ultimately show ?case by simp
next
  case (2 U xs)
  then show ?case by (induction xs) auto
qed auto

lemma length_all_keys_normalize_less:
  "\<not> keys_stay_apart U v \<Longrightarrow> length (all_keys (normalize_payload U v)) < length (all_keys v)"
proof (induction U v rule: normalize_payload.induct)
  case (1 U d)
  let ?items = "map (\<lambda>(key, item). (normalize_key U key, normalize_payload U item)) d"
  have le: "weight ?items \<le> weight d"
    by (rule weight_map_le) (simp add: length_all_keys_normalize)
  have "weight (dict_of ?items) < weight d"
  proof (cases "distinct (map fst ?items)")
    case False
    from weight_dict_of_less [OF this] le show ?thesis by simp
  next
    case True
    with "1.prems" have "\<not> list_all (\<lambda>(k, v). keys_stay_apart U v) d"
      by (simp only: map_fst_pair keys_stay_apart.simps simp_thms)
    then obtain k v where kv: "(k, v) \<in> set d" "\<not> keys_stay_apart U v"
      by (auto simp: list_all_iff)
    with "1.IH" have less: "length (all_keys (normalize_payload U v)) < length (all_keys v)"
      by blast
    from kv(1) obtain xs ys where d: "d = xs @ (k, v) # ys" by (auto simp: in_set_conv_decomp)
    have "weight (map (\<lambda>(k, v). (normalize_key U k, normalize_payload U v)) e) \<le> weight e" for e
      by (rule weight_map_le) (simp add: length_all_keys_normalize)
    from this [of xs] this [of ys] less have "weight ?items < weight d" by (simp add: d)
    with weight_dict_of [of ?items] show ?thesis by simp
  qed
  then show ?case by (simp add: length_all_keys_JObj del: all_keys.simps)
next
  case (2 U xs)
  then obtain x where x: "x \<in> set xs" "\<not> keys_stay_apart U x" by (auto simp: list_all_iff)
  then obtain ys zs where xs: "xs = ys @ x # zs" by (auto simp: in_set_conv_decomp)
  have "length (concat (map (\<lambda>v. all_keys (normalize_payload U v)) e)) \<le> length (concat (map all_keys e))"
    for e by (induction e) (auto intro!: add_mono length_all_keys_normalize)
  from this [of ys] this [of zs] "2.IH" [OF x] show ?case by (simp add: xs comp_def)
qed auto

lemma strip_harmless:
  "keys_stay_apart U v \<Longrightarrow> \<forall>k \<in> set (all_keys v). \<not> authority_key U k \<Longrightarrow>
     all_keys (strip_authority_keys U v) = map (normalize_key U) (all_keys v)
     \<and> all_strs (strip_authority_keys U v) = all_strs v"
proof (induction U v rule: strip_authority_keys.induct)
  case (1 U d)
  let ?items = "map (\<lambda>(key, item). (normalize_key U key, strip_authority_keys U item)) d"
  have "filter (\<lambda>(key, item). canonical_authority_key U key = None) d = d"
    using "1.prems" by (intro filter_True) auto
  moreover from "1.prems" have "dict_of ?items = ?items"
    by (intro dict_of_distinct) (simp only: map_fst_pair keys_stay_apart.simps)
  moreover have "map (\<lambda>(k, v). k # all_keys v) ?items = map (\<lambda>(k, v). map (normalize_key U) (k # all_keys v)) d"
    "map (\<lambda>(k, v). all_strs v) ?items = map (\<lambda>(k, v). all_strs v) d"
    using 1 calculation(1) by (auto simp: list_all_iff)
  then have "concat (map (\<lambda>(k, v). k # all_keys v) ?items)
        = map (normalize_key U) (concat (map (\<lambda>(k, v). k # all_keys v) d))
      \<and> concat (map (\<lambda>(k, v). all_strs v) ?items) = concat (map (\<lambda>(k, v). all_strs v) d)"
    by (simp only: map_concat map_map) (simp add: comp_def case_prod_unfold)
  ultimately show ?case by simp
next
  case (2 U xs)
  then show ?case by (induction xs) auto
qed auto

lemma strip_keys_subset:
  "set (all_keys (strip_authority_keys U v)) \<subseteq> normalize_key U ` {k \<in> set (all_keys v). \<not> authority_key U k}"
proof (induction U v rule: strip_authority_keys.induct)
  case (1 U d)
  let ?f = "filter (\<lambda>(key, item). canonical_authority_key U key = None) d"
  let ?items = "map (\<lambda>(key, item). (normalize_key U key, strip_authority_keys U item)) ?f"
  have "set (all_keys (JObj (dict_of ?items))) \<subseteq> set (all_keys (JObj ?items))"
    using dict_of_subset [of ?items] by fastforce
  also have "\<dots> \<subseteq> normalize_key U ` {k \<in> set (all_keys (JObj d)). \<not> authority_key U k}"
    using "1.IH" by fastforce
  finally show ?case by simp
next
  case (2 U xs)
  then show ?case by fastforce
qed auto

lemma all_keys_strip_folded:
  assumes "ucd_ok U" and "\<forall>k \<in> set (all_keys v). ascii k"
  shows "\<forall>k \<in> set (all_keys (strip_authority_keys U v)). \<not> authority_key U k"
  using strip_keys_subset [of U v] assms
  by (force simp: canonical_authority_key_def normalize_key_idem)

subsection \<open>Properties\<close>

lemmas key_eval = normalize_key_def ascii_ucd_def strip_def strip_where_def is_space_def zero_width_def
  low_or_digit_def upper_letter_def ascii_lower_def space_or_hyphen_def underscore_def u_def
  canonical_authority_key_def AUTHORITY_KEYS_def AUTHORITY_KEY_ALIASES_def AUTHORITY_VALUES_def scalar_def

lemma quarantined_eq:
  "dget (normalize_inbound_payload U payload) ''quarantined'' = JBool False \<longleftrightarrow>
     authority_keys_in U [] (JObj payload) = []
     \<and> authority_values_in U [] (strip_authority_keys U (JObj payload)) = []
     \<and> normalization_collisions_in U [] (JObj payload) = []"
  by (auto simp: normalize_inbound_payload_def Let_def dget_def dget_or_def)

text \<open>
  C5. The quarantine verdict is exact: an inbound payload passes if and only if no key of it, at
  any depth, normalises to an authority key or one of its aliases, no string value at any depth
  normalises to an authority value, and no two keys of one dictionary normalise to the same key.
\<close>
theorem quarantine_verdict:
  assumes wf: "wf_json (JObj payload)"
  shows "dget (normalize_inbound_payload U payload) ''quarantined'' = JBool False \<longleftrightarrow>
    (\<forall>k \<in> set (all_keys (JObj payload)). canonical_authority_key U k = None)
    \<and> (\<forall>s \<in> set (all_strs (JObj payload)). normalize_key U s \<notin> set AUTHORITY_VALUES)
    \<and> keys_stay_apart U (JObj payload)"
proof -
  have "authority_values_in U [] (strip_authority_keys U (JObj payload)) = [] \<longleftrightarrow>
      (\<forall>s \<in> set (all_strs (JObj payload)). \<not> authority_value U s)"
    if "authority_keys_in U [] (JObj payload) = []" "keys_stay_apart U (JObj payload)"
    using that strip_harmless [of U "JObj payload"]
    by (simp only: authority_values_in_Nil authority_keys_in_Nil)
  with collisions_Nil(1) [OF wf, of U "[]"] authority_keys_in_Nil [of U "[]" "JObj payload"]
  show ?thesis
    unfolding quarantined_eq by (simp only: not_not) blast
qed

theorem quarantine_verdict_witness:
  "dget (normalize_inbound_payload ascii_ucd [(u ''note'', js ''hello'')]) ''quarantined'' = JBool False
   \<and> dget (normalize_inbound_payload ascii_ucd [(u ''Permission Grant'', js ''x'')]) ''quarantined''
     \<noteq> JBool False"
  by (rule conjI; subst quarantine_verdict; simp add: key_eval)

text \<open>
  Normalising a payload loses nothing exactly when no collision is reported: then, and only
  then, the keys of the normalised payload are, one by one, the normal forms of its keys. With a
  collision some entry is overwritten.
\<close>
theorem collisions_are_losses:
  assumes "wf_json v"
  shows "normalization_collisions_in U p v = [] \<longleftrightarrow>
    all_keys (normalize_payload U v) = map (normalize_key U) (all_keys v)"
  using collisions_Nil(1) [OF assms] all_keys_normalize length_all_keys_normalize_less [of U v]
  by (metis length_map nat_neq_iff)

theorem collisions_are_losses_witness:
  "normalization_collisions_in ascii_ucd [] (JObj [(u ''fooBar'', JNull), (u ''foo-bar'', JNull)]) \<noteq> []"
  by (subst collisions_are_losses; simp add: key_eval dict_of_def)

text \<open>
  C35. Stripping is complete on ASCII keys: the stripped payload holds no authority key at any
  depth, although its keys are the rewritten ones.
\<close>
theorem strip_leaves_no_authority_key:
  assumes "ucd_ok U" and "\<forall>k \<in> set (all_keys v). ascii k"
  shows "authority_keys_in U p (strip_authority_keys U v) = []"
  using all_keys_strip_folded [OF assms] by (simp only: authority_keys_in_Nil)

theorem strip_leaves_no_authority_key_witness:
  "authority_keys_in ascii_ucd [] (strip_authority_keys ascii_ucd
     (JObj [(u ''a'', JObj [(u ''Trust-Level'', js ''x''), (u ''bC'', JNull)])])) = []"
  by (rule strip_leaves_no_authority_key [OF ucd_ok_ascii]) (simp add: ascii_def u_def)

text \<open>
  Key normalisation reaches a normal form: whatever the Unicode tables do, the result has no
  white space, no hyphen and no two underscores in a row; and normalising an ASCII key twice
  changes nothing.
\<close>
theorem normalize_key_normal_form:
  assumes "ucd_ok U"
  shows "key_shape (normalize_key U k)
    \<and> (ascii k \<longrightarrow> normalize_key U (normalize_key U k) = normalize_key U k)"
  using assms by (simp add: normalize_key_shape normalize_key_idem)

theorem normalize_key_normal_form_witness:
  "normalize_key ascii_ucd (u ''_b_'') = u ''_b_'' \<and> key_shape (u ''_b_'')"
proof -
  have "normalize_key ascii_ucd (u '' -B-- '') = u ''_b_''" "ascii (u '' -B-- '')"
    by (simp_all add: key_eval ascii_def)
  with normalize_key_normal_form [OF ucd_ok_ascii, of "u '' -B-- ''"] show ?thesis by simp
qed

end
