(* ===== verification/Error_Taxonomy.thy ===== *)
theory Error_Taxonomy
  imports Py_Value
begin

text \<open>
  The error codes of the shell core and the error record handed to a caller
  (\<open>packages/shell_core/error_taxonomy.py\<close>), and the projection of an approval to the content
  its visibility allows (\<open>content_exposure.py\<close>).
\<close>

definition UNKNOWN_RUNTIME :: ustr where "UNKNOWN_RUNTIME = u ''unknown_runtime''"
definition UNKNOWN_CAPABILITY :: ustr where "UNKNOWN_CAPABILITY = u ''unknown_capability''"
definition UNKNOWN_PERMISSION :: ustr where "UNKNOWN_PERMISSION = u ''unknown_permission''"
definition PERMISSION_DENIED :: ustr where "PERMISSION_DENIED = u ''permission_denied''"
definition RELATION_MISMATCH :: ustr where "RELATION_MISMATCH = u ''relation_mismatch''"
definition PAYLOAD_HASH_MISMATCH :: ustr where "PAYLOAD_HASH_MISMATCH = u ''payload_hash_mismatch''"
definition APPROVAL_MISSING :: ustr where "APPROVAL_MISSING = u ''approval_missing''"
definition APPROVAL_NOT_VALID :: ustr where "APPROVAL_NOT_VALID = u ''approval_not_valid''"
definition AUDIT_MAPPING_MISSING :: ustr where "AUDIT_MAPPING_MISSING = u ''audit_mapping_missing''"
definition RECOVERY_MAPPING_MISSING :: ustr where
  "RECOVERY_MAPPING_MISSING = u ''recovery_mapping_missing''"
definition CONTENT_VISIBILITY_VIOLATION :: ustr where
  "CONTENT_VISIBILITY_VIOLATION = u ''content_visibility_violation''"
definition ADAPTER_METADATA_ESCALATION_ATTEMPT :: ustr where
  "ADAPTER_METADATA_ESCALATION_ATTEMPT = u ''adapter_metadata_escalation_attempt''"
definition NON_AUTHORITY_SOURCE_ATTEMPT :: ustr where
  "NON_AUTHORITY_SOURCE_ATTEMPT = u ''non_authority_source_attempt''"
definition UPDATE_SIGNATURE_REQUIRED :: ustr where
  "UPDATE_SIGNATURE_REQUIRED = u ''update_signature_required''"
definition SCHEMA_CONTRACT_MISSING :: ustr where
  "SCHEMA_CONTRACT_MISSING = u ''schema_contract_missing''"

lemmas error_code_defs =
  UNKNOWN_RUNTIME_def UNKNOWN_CAPABILITY_def UNKNOWN_PERMISSION_def PERMISSION_DENIED_def
  RELATION_MISMATCH_def PAYLOAD_HASH_MISMATCH_def APPROVAL_MISSING_def APPROVAL_NOT_VALID_def
  AUDIT_MAPPING_MISSING_def RECOVERY_MAPPING_MISSING_def CONTENT_VISIBILITY_VIOLATION_def
  ADAPTER_METADATA_ESCALATION_ATTEMPT_def NON_AUTHORITY_SOURCE_ATTEMPT_def
  UPDATE_SIGNATURE_REQUIRED_def SCHEMA_CONTRACT_MISSING_def

definition RECOVERY_HINTS :: "(ustr \<times> msg) list" where
  "RECOVERY_HINTS =
    [(UNKNOWN_RUNTIME, Msg ''register the runtime before routing this operation'' []),
     (UNKNOWN_CAPABILITY, Msg ''register the capability with Shell Core before use'' []),
     (UNKNOWN_PERMISSION, Msg ''record an explicit permission decision before use'' []),
     (PERMISSION_DENIED, Msg ''request or grant the permission through an authority source'' []),
     (RELATION_MISMATCH, Msg ''resolve runtime, capability, permission, approval, recovery and target scope from one action relation the broker owns'' []),
     (PAYLOAD_HASH_MISMATCH, Msg ''recompute the canonical payload hash and bind approval and audit to the payload sent'' []),
     (APPROVAL_MISSING, Msg ''create the approval and wait for the approved state'' []),
     (APPROVAL_NOT_VALID, Msg ''revalidate or approve the current approval request'' []),
     (AUDIT_MAPPING_MISSING, Msg ''attach an AuditEvent with event_id and the required payload_hash'' []),
     (RECOVERY_MAPPING_MISSING, Msg ''attach a RecoveryAction with recovery_id'' []),
     (CONTENT_VISIBILITY_VIOLATION, Msg ''project the approval content according to content_visibility'' []),
     (ADAPTER_METADATA_ESCALATION_ATTEMPT, Msg ''remove the authority claims from the adapter metadata'' []),
     (NON_AUTHORITY_SOURCE_ATTEMPT, Msg ''use an authority source; memory, cache, previous_state and local_ui_state cannot grant authority'' []),
     (UPDATE_SIGNATURE_REQUIRED, Msg ''require a valid update signature before an update operation'' []),
     (SCHEMA_CONTRACT_MISSING, Msg ''load the required schema contract before validation'' [])]"

text \<open>
  The error record: \<open>recovery_hint\<close> is \<open>None\<close> when the dictionary of \<open>to_dict\<close> has no such key.
\<close>

record shell_core_error =
  err_code :: ustr
  err_message :: msg
  err_operation :: json
  err_recoverable :: bool
  err_recovery_hint :: "msg option"

definition shell_error_with :: "ustr \<Rightarrow> msg \<Rightarrow> json \<Rightarrow> bool \<Rightarrow> msg option \<Rightarrow> shell_core_error" where
  "shell_error_with code message operation recoverable hint =
     \<lparr>err_code = code, err_message = message, err_operation = operation,
      err_recoverable = recoverable,
      err_recovery_hint = (case hint of Some h \<Rightarrow> Some h | None \<Rightarrow> map_of RECOVERY_HINTS code)\<rparr>"

definition shell_error :: "ustr \<Rightarrow> msg \<Rightarrow> json \<Rightarrow> shell_core_error" where
  "shell_error code message operation = shell_error_with code message operation True None"

lemma err_code_shell_error [simp]: "err_code (shell_error c m op) = c"
  by (simp add: shell_error_def shell_error_with_def)

lemma err_operation_shell_error [simp]: "err_operation (shell_error c m op) = op"
  by (simp add: shell_error_def shell_error_with_def)

subsection \<open>Content exposure\<close>

datatype projection = Content obj | Violation shell_core_error

definition project_approval_content :: "obj \<Rightarrow> exn + projection" where
  "project_approval_content approval =
     (let visibility = dget approval ''content_visibility'' in
      if visibility = js ''none'' then Inr (Content [])
      else if visibility = js ''hash_only''
      then bindE (ditem approval ''payload_hash'') (\<lambda>h. Inr (Content [(u ''payload_hash'', h)]))
      else if visibility = js ''summary''
      then Inr (Content [(u ''summary'', dget_or approval ''summary'' (js ''''))])
      else if visibility = js ''redacted''
      then Inr (Content [(u ''redacted_payload'', dget_or approval ''redacted_payload'' (JObj []))])
      else if visibility = js ''full''
      then Inr (Content [(u ''full_payload'', dget_or approval ''full_payload'' (JObj []))])
      else Inr (Violation (shell_error CONTENT_VISIBILITY_VIOLATION
                  (Msg ''unknown or missing content_visibility: {}'' [visibility])
                  (js ''content_projection''))))"

text \<open>
  C36. The full payload of an approval influences its projection only under the visibility
  \<open>full\<close>: under any other visibility, known or not, two approvals that differ only in
  \<open>full_payload\<close> project to the same result, and no projection carries a \<open>full_payload\<close> key.
\<close>
theorem full_payload_confined:
  assumes "dget approval ''content_visibility'' \<noteq> js ''full''"
  shows "project_approval_content (dset approval ''full_payload'' v) = project_approval_content approval
    \<and> (\<forall>p. project_approval_content approval = Inr (Content p) \<longrightarrow> \<not> dhas p ''full_payload'')"
  using assms
  by (auto simp: project_approval_content_def Let_def ditem_def dset_def dget_def dget_or_def dhas_def
      res_simps split: option.splits)

theorem full_payload_confined_witness:
  "project_approval_content
      (dset [(u ''content_visibility'', js ''redacted'')] ''full_payload'' (js ''secret''))
    = Inr (Content [(u ''redacted_payload'', JObj [])])"
  by (subst full_payload_confined [THEN conjunct1])
    (simp_all add: project_approval_content_def dget_def dget_or_def)

end
