(* ===== verification/Stores.thy ===== *)
theory Stores
  imports Normalization Error_Taxonomy
begin

text \<open>
  The keyed stores of the shell core: \<open>RecoveryCatalog\<close>, \<open>RuntimeRegistry\<close>,
  \<open>UpdatePolicyStore\<close>, \<open>PermissionLedger\<close> (\<open>packages/shell_core\<close>) and \<open>RuntimeCatalog\<close>
  (\<open>packages/runtime_catalog/catalog.py\<close>). Each is a dictionary from ids to records. The
  locale \<open>keyed_store\<close> states the contract its users rely on; \<open>checked_store\<close> adds that
  what is refused at registration is never stored.
\<close>

type_synonym store = "(ustr \<times> obj) list"

text \<open>\<open>self._d[record[field]] = record\<close>, and the guarded \<open>self._d[id]\<close> of the \<open>get\<close> methods\<close>

definition store_put :: "string \<Rightarrow> store \<Rightarrow> obj \<Rightarrow> exn + store" where
  "store_put field s r =
     bindE (ditem r field) (\<lambda>rid. bindE (as_key rid) (\<lambda>k. Inr (AList.update k r s)))"

definition store_get :: "string \<Rightarrow> store \<Rightarrow> json \<Rightarrow> exn + obj" where
  "store_get label s rid =
     bindE (hash_lookup s rid) (\<lambda>found.
       case found of None \<Rightarrow> Inl (KeyErrorMsg (Msg label [rid])) | Some r \<Rightarrow> Inr r)"

subsection \<open>The contract\<close>

locale keyed_store =
  fixes put :: "'s \<Rightarrow> obj \<Rightarrow> exn + 's"
    and get :: "'s \<Rightarrow> json \<Rightarrow> exn + obj"
    and empty :: 's
    and key :: "obj \<Rightarrow> json"
    and missing :: "json \<Rightarrow> exn"
  assumes put_key: "put s r = Inr s' \<Longrightarrow> \<exists>k. key r = JStr k"
    and get_put: "put s r = Inr s' \<Longrightarrow>
      get s' (JStr k) = (if key r = JStr k then Inr r else get s (JStr k))"
    and get_empty: "get empty (JStr k) = Inl (missing (JStr k))"
begin

lemma get_put_same: "put s r = Inr s' \<Longrightarrow> get s' (key r) = Inr r"
  using put_key [of s r s'] get_put [of s r s'] by auto

text \<open>A lookup after any run of registrations returns the last record registered under the id.\<close>

lemma get_puts:
  "foldE put s rs = Inr s' \<Longrightarrow>
     get s' (JStr k) =
       (case find (\<lambda>r. key r = JStr k) (rev rs) of None \<Rightarrow> get s (JStr k) | Some r \<Rightarrow> Inr r)"
proof (induction rs arbitrary: s)
  case (Cons r rs)
  from Cons.prems obtain t where t: "put s r = Inr t" "foldE put t rs = Inr s'"
    by (auto simp: bindE_eq_Inr)
  have "find P (xs @ [x]) = (case find P xs of None \<Rightarrow> if P x then Some x else None | Some y \<Rightarrow> Some y)"
    for P :: "obj \<Rightarrow> bool" and xs x by (induction xs) auto
  with Cons.IH [OF t(2)] get_put [OF t(1)] show ?case by (auto split: option.splits)
qed simp

lemma get_registered:
  assumes "foldE put empty rs = Inr s" and "get s (JStr k) = Inr r"
  shows "r \<in> set rs \<and> key r = JStr k"
  using get_puts [OF assms(1)] assms(2)
  by (auto simp: get_empty find_Some_iff split: option.splits simp: in_set_conv_nth)
    (metis nth_mem set_rev length_rev in_set_conv_nth)+

end

locale checked_store = keyed_store +
  fixes ok :: "obj \<Rightarrow> bool"
  assumes put_ok: "put s r = Inr s' \<Longrightarrow> ok r"
begin

lemma stored_ok:
  assumes "foldE put empty rs = Inr s" and "get s (JStr k) = Inr r"
  shows "ok r"
proof -
  have "foldE put t rs = Inr s \<Longrightarrow> \<forall>r \<in> set rs. ok r" for t
    by (induction rs arbitrary: t) (auto simp: bindE_eq_Inr dest: put_ok)
  with assms get_registered [OF assms] show ?thesis by blast
qed

end

subsection \<open>RecoveryCatalog, RuntimeRegistry\<close>

definition RecoveryCatalog_register :: "store \<Rightarrow> obj \<Rightarrow> exn + store" where
  "RecoveryCatalog_register = store_put ''recovery_id''"

definition RecoveryCatalog_get :: "store \<Rightarrow> json \<Rightarrow> exn + obj" where
  "RecoveryCatalog_get = store_get ''recovery action is not registered: {}''"

definition RuntimeRegistry_register :: "store \<Rightarrow> obj \<Rightarrow> exn + store" where
  "RuntimeRegistry_register = store_put ''runtime_id''"

definition RuntimeRegistry_get :: "store \<Rightarrow> json \<Rightarrow> exn + obj" where
  "RuntimeRegistry_get = store_get ''runtime is not registered: {}''"

definition sorted_records :: "store \<Rightarrow> obj list" where
  "sorted_records s = map snd (sort_key fst s)"

definition RuntimeRegistry_snapshot :: "store \<Rightarrow> obj list" where
  "RuntimeRegistry_snapshot = sorted_records"

subsection \<open>UpdatePolicyStore\<close>

definition UpdatePolicyStore_register :: "store \<Rightarrow> obj \<Rightarrow> exn + store" where
  "UpdatePolicyStore_register s policy =
     (if \<not> is_true (dget policy ''signature_required'')
      then Inl (ValueError (Msg ''{}'' [JStr (err_code
             (shell_error UPDATE_SIGNATURE_REQUIRED
               (Msg ''an update policy must require a signature'' [])
               (js ''update.policy.register'')))]))
      else store_put ''policy_id'' s policy)"

definition UpdatePolicyStore_get :: "store \<Rightarrow> json \<Rightarrow> exn + obj" where
  "UpdatePolicyStore_get = store_get ''update policy is not registered: {}''"

subsection \<open>RuntimeCatalog\<close>

record runtime_catalog =
  cat_runtimes :: store
  cat_adapters :: store

definition RuntimeCatalog_init :: runtime_catalog where
  "RuntimeCatalog_init = \<lparr>cat_runtimes = [], cat_adapters = []\<rparr>"

definition register_runtime_manifest :: "runtime_catalog \<Rightarrow> obj \<Rightarrow> exn + runtime_catalog" where
  "register_runtime_manifest c manifest =
     (if \<not> is_true (dget manifest ''signed_manifest'')
      then Inl (ValueError (Msg ''a runtime manifest must be signed'' []))
      else bindE (store_put ''runtime_id'' (cat_runtimes c) manifest)
             (\<lambda>s. Inr (c\<lparr>cat_runtimes := s\<rparr>)))"

definition register_adapter_manifest :: "runtime_catalog \<Rightarrow> obj \<Rightarrow> exn + runtime_catalog" where
  "register_adapter_manifest c manifest =
     (if \<not> is_true (dget manifest ''authority_strip'')
      then Inl (ValueError (Msg ''an adapter manifest must require authority_strip=true'' []))
      else if \<not> is_true (dget manifest ''signed_manifest'')
      then Inl (ValueError (Msg ''an adapter manifest must be signed'' []))
      else bindE (store_put ''adapter_id'' (cat_adapters c) manifest)
             (\<lambda>s. Inr (c\<lparr>cat_adapters := s\<rparr>)))"

definition runtime_manifests :: "runtime_catalog \<Rightarrow> obj list" where
  "runtime_manifests c = sorted_records (cat_runtimes c)"

definition adapter_manifests :: "runtime_catalog \<Rightarrow> obj list" where
  "adapter_manifests c = sorted_records (cat_adapters c)"

definition catalog_can_grant_authority :: "runtime_catalog \<Rightarrow> obj \<Rightarrow> bool" where
  "catalog_can_grant_authority c manifest = False"

definition metadata_attempts_authority :: "ucd \<Rightarrow> json \<Rightarrow> bool" where
  "metadata_attempts_authority U metadata =
     (let stripped = strip_authority_keys U metadata
      in authority_keys_in U [] metadata \<noteq> [] \<or> authority_values_in U [] stripped \<noteq> [])"

subsection \<open>PermissionLedger\<close>

definition NON_AUTHORITY_SOURCES :: "ustr list" where
  "NON_AUTHORITY_SOURCES = map u
     [''adapter_metadata'', ''cache'', ''diagnostics'', ''external_metadata'', ''generated_config'',
      ''generated_output'', ''gui_state'', ''history'', ''local_ui_state'', ''memory'', ''metadata'',
      ''model_output'', ''previous_state'', ''tool_output'', ''tool_response'', ''ui_state'']"

definition AUTHORITY_SOURCES :: "ustr list" where
  "AUTHORITY_SOURCES = map u
     [''broker_internal_policy'', ''policy'', ''runtime'', ''rust_security_broker'']"

definition PermissionLedger_record :: "store \<Rightarrow> obj \<Rightarrow> exn + store" where
  "PermissionLedger_record = store_put ''permission_id''"

definition decision_for :: "store \<Rightarrow> json \<Rightarrow> exn + json" where
  "decision_for s permission_id =
     bindE (hash_lookup s permission_id) (\<lambda>permission.
       case permission of
         None \<Rightarrow> Inr (js ''deny'')
       | Some p \<Rightarrow> Inr (dget_or p ''decision'' (js ''deny'')))"

definition can_grant_authority_from_source :: "ustr \<Rightarrow> bool" where
  "can_grant_authority_from_source source \<longleftrightarrow> source \<in> set AUTHORITY_SOURCES"

subsection \<open>The stores keep the contract\<close>

definition keyed_by :: "string \<Rightarrow> store \<Rightarrow> bool" where
  "keyed_by field s \<longleftrightarrow>
     distinct (map fst s) \<and> list_all (\<lambda>(k, r). dhas r field \<and> dget r field = JStr k) s"

lemma keyed_by_Nil [simp]: "keyed_by field []"
  by (simp add: keyed_by_def)

lemma store_put_eq_Inr:
  "store_put field s r = Inr s' \<longleftrightarrow>
     (\<exists>k. dhas r field \<and> dget r field = JStr k \<and> s' = AList.update k r s)"
  by (auto simp: store_put_def res_simps)

lemma keyed_by_update [wf_intros]:
  "keyed_by field s \<Longrightarrow> dhas r field \<Longrightarrow> dget r field = JStr k \<Longrightarrow> keyed_by field (AList.update k r s)"
  using set_update_subset [of k r s]
  by (fastforce simp: keyed_by_def list_all_iff distinct_fst_update)

lemma store_put_keyed [wf_intros]:
  "store_put field s r = Inr s' \<Longrightarrow> keyed_by field s \<Longrightarrow> keyed_by field s'"
  by (auto simp: store_put_eq_Inr intro: keyed_by_update)

lemma store_get_JStr:
  "store_get label s (JStr k) =
     (case map_of s k of None \<Rightarrow> Inl (KeyErrorMsg (Msg label [JStr k])) | Some r \<Rightarrow> Inr r)"
  by (simp add: store_get_def)

lemma store_get_update:
  "store_get label (AList.update k' r s) (JStr k) =
     (if k' = k then Inr r else store_get label s (JStr k))"
  by (simp add: store_get_JStr update_conv)

interpretation recovery: keyed_store RecoveryCatalog_register RecoveryCatalog_get "[]"
  "\<lambda>r. dget r ''recovery_id''" "\<lambda>k. KeyErrorMsg (Msg ''recovery action is not registered: {}'' [k])"
  by unfold_locales
    (auto simp: RecoveryCatalog_register_def RecoveryCatalog_get_def store_put_eq_Inr
      store_get_update store_get_JStr)

interpretation registry: keyed_store RuntimeRegistry_register RuntimeRegistry_get "[]"
  "\<lambda>r. dget r ''runtime_id''" "\<lambda>k. KeyErrorMsg (Msg ''runtime is not registered: {}'' [k])"
  by unfold_locales
    (auto simp: RuntimeRegistry_register_def RuntimeRegistry_get_def store_put_eq_Inr
      store_get_update store_get_JStr)

interpretation updates: checked_store UpdatePolicyStore_register UpdatePolicyStore_get "[]"
  "\<lambda>r. dget r ''policy_id''" "\<lambda>k. KeyErrorMsg (Msg ''update policy is not registered: {}'' [k])"
  "\<lambda>r. is_true (dget r ''signature_required'')"
  by unfold_locales
    (auto simp: UpdatePolicyStore_register_def UpdatePolicyStore_get_def store_put_eq_Inr
      store_get_update store_get_JStr split: if_splits)

text \<open>The ledger answers with decisions; its lookup is the map itself.\<close>

definition ledger_entry :: "store \<Rightarrow> json \<Rightarrow> exn + obj" where
  "ledger_entry = store_get ''no permission recorded: {}''"

interpretation ledger: keyed_store PermissionLedger_record ledger_entry "[]"
  "\<lambda>r. dget r ''permission_id''" "\<lambda>k. KeyErrorMsg (Msg ''no permission recorded: {}'' [k])"
  by unfold_locales
    (auto simp: PermissionLedger_record_def ledger_entry_def store_put_eq_Inr
      store_get_update store_get_JStr)

lemma decision_for_entry:
  "decision_for s (JStr k) =
     Inr (case ledger_entry s (JStr k) of Inr p \<Rightarrow> dget_or p ''decision'' (js ''deny'') | Inl _ \<Rightarrow> js ''deny'')"
  by (simp add: decision_for_def ledger_entry_def store_get_JStr split: option.splits)

lemma keyed_by_sorted_records:
  assumes "keyed_by field s"
  shows "\<exists>ks. map (\<lambda>r. dget r field) (sorted_records s) = map JStr ks \<and> sorted ks \<and> distinct ks"
proof (intro exI conjI)
  show "map (\<lambda>r. dget r field) (sorted_records s) = map JStr (map fst (sort_key fst s))"
    using assms by (auto simp: sorted_records_def keyed_by_def list_all_iff)
  show "distinct (map fst (sort_key fst s))"
    using assms by (simp add: keyed_by_def)
qed simp

lemma sorted_records_get:
  assumes "keyed_by field s"
  shows "r \<in> set (sorted_records s) \<and> dget r field = JStr k \<longleftrightarrow> store_get label s (JStr k) = Inr r"
proof -
  have d: "distinct (map fst s)" and k: "\<And>k r. (k, r) \<in> set s \<Longrightarrow> dget r field = JStr k"
    using assms by (auto simp: keyed_by_def list_all_iff)
  have "store_get label s (JStr k) = Inr r \<longleftrightarrow> map_of s k = Some r"
    by (simp add: store_get_JStr split: option.splits)
  also have "\<dots> \<longleftrightarrow> (k, r) \<in> set s"
    using d by (rule map_of_eq_Some_iff)
  also have "\<dots> \<longleftrightarrow> r \<in> snd ` set s \<and> dget r field = JStr k"
    using k by force
  finally show ?thesis by (auto simp: sorted_records_def)
qed

subsection \<open>Histories of the catalog\<close>

inductive catalog_reached :: "runtime_catalog \<Rightarrow> bool" where
  catalog_start: "catalog_reached RuntimeCatalog_init"
| catalog_runtime: "catalog_reached c \<Longrightarrow> register_runtime_manifest c m = Inr c' \<Longrightarrow> catalog_reached c'"
| catalog_adapter: "catalog_reached c \<Longrightarrow> register_adapter_manifest c m = Inr c' \<Longrightarrow> catalog_reached c'"

definition catalog_ok :: "runtime_catalog \<Rightarrow> bool" where
  "catalog_ok c \<longleftrightarrow>
     keyed_by ''runtime_id'' (cat_runtimes c) \<and> keyed_by ''adapter_id'' (cat_adapters c)
     \<and> list_all (\<lambda>(k, m). is_true (dget m ''signed_manifest'')) (cat_runtimes c)
     \<and> list_all (\<lambda>(k, m). is_true (dget m ''signed_manifest'') \<and> is_true (dget m ''authority_strip''))
         (cat_adapters c)"

lemma list_all_update:
  "list_all P s \<Longrightarrow> P (k, r) \<Longrightarrow> list_all P (AList.update k r s)"
  using set_update_subset [of k r s] by (auto simp: list_all_iff)

lemma catalog_reached_ok: "catalog_reached c \<Longrightarrow> catalog_ok c"
proof (induction rule: catalog_reached.induct)
  case catalog_start
  then show ?case by (simp add: catalog_ok_def RuntimeCatalog_init_def)
next
  case (catalog_runtime c m c')
  then show ?case
    by (auto simp: catalog_ok_def register_runtime_manifest_def res_simps store_put_eq_Inr
        intro!: list_all_update keyed_by_update split: if_splits)
next
  case (catalog_adapter c m c')
  then show ?case
    by (auto simp: catalog_ok_def register_adapter_manifest_def res_simps store_put_eq_Inr
        intro!: list_all_update keyed_by_update split: if_splits)
qed

subsection \<open>Properties\<close>

text \<open>
  The permission ledger denies by default: after any sequence of recorded permissions the
  decision for an id is that of the last permission recorded under it, and \<open>deny\<close> when there is
  none or it names no decision; so any other answer was recorded.
\<close>
theorem ledger_default_deny:
  assumes "foldE PermissionLedger_record [] ps = Inr s"
  shows "decision_for s (JStr k) =
    Inr (case find (\<lambda>p. dget p ''permission_id'' = JStr k) (rev ps) of
           None \<Rightarrow> js ''deny'' | Some p \<Rightarrow> dget_or p ''decision'' (js ''deny''))"
  using ledger.get_puts [OF assms] ledger.get_empty
  by (simp add: decision_for_entry split: option.splits)

theorem ledger_default_deny_witness:
  "\<exists>s. foldE PermissionLedger_record []
      [[(u ''permission_id'', js ''p''), (u ''decision'', js ''allow'')],
       [(u ''permission_id'', js ''p''), (u ''decision'', js ''ask'')]] = Inr s
    \<and> decision_for s (js ''p'') = Inr (js ''ask'') \<and> decision_for s (js ''q'') = Inr (js ''deny'')"
proof -
  let ?ps = "[[(u ''permission_id'', js ''p''), (u ''decision'', js ''allow'')],
       [(u ''permission_id'', js ''p''), (u ''decision'', js ''ask'')]]"
  let ?s = "[(u ''p'', [(u ''permission_id'', js ''p''), (u ''decision'', js ''ask'')])]"
  have "foldE PermissionLedger_record [] ?ps = Inr ?s"
    by (simp add: PermissionLedger_record_def store_put_def ditem_def)
  with ledger_default_deny [OF this, of "u ''p''"] ledger_default_deny [OF this, of "u ''q''"]
  show ?thesis by (simp add: dget_def dget_or_def)
qed

text \<open>
  Whatever update policies are offered, in whatever order and however often, the store returns
  only policies that were registered under the id asked for and that require a signature.
\<close>
theorem stored_policies_require_signature:
  assumes "foldE UpdatePolicyStore_register [] ps = Inr s"
    and "UpdatePolicyStore_get s (JStr k) = Inr p"
  shows "p \<in> set ps \<and> dget p ''policy_id'' = JStr k \<and> dget p ''signature_required'' = JBool True"
  using updates.get_registered [OF assms] updates.stored_ok [OF assms] by (simp add: is_true_def)

theorem stored_policies_require_signature_witness:
  "dget [(u ''policy_id'', js ''p''), (u ''signature_required'', JBool True)] ''signature_required''
     = JBool True"
  by (rule stored_policies_require_signature [where s = "[(u ''p'', [(u ''policy_id'', js ''p''),
        (u ''signature_required'', JBool True)])]" and k = "u ''p''" and ps = "[[(u ''policy_id'', js ''p''),
        (u ''signature_required'', JBool True)]]", THEN conjunct2, THEN conjunct2])
    (simp_all add: UpdatePolicyStore_register_def UpdatePolicyStore_get_def store_put_def store_get_def
      ditem_def dget_def dget_or_def is_true_def)

text \<open>
  In every reachable state of the runtime catalog, the adapter manifests it lists are signed and
  require authority stripping, its runtime manifests are signed, and both lists come in strictly
  increasing order of their ids.
\<close>
theorem catalog_lists_only_signed:
  assumes "catalog_reached c"
  shows "(\<forall>m \<in> set (adapter_manifests c).
      dget m ''signed_manifest'' = JBool True \<and> dget m ''authority_strip'' = JBool True)
    \<and> (\<forall>m \<in> set (runtime_manifests c). dget m ''signed_manifest'' = JBool True)
    \<and> (\<exists>ks. map (\<lambda>m. dget m ''adapter_id'') (adapter_manifests c) = map JStr ks \<and> sorted ks \<and> distinct ks)
    \<and> (\<exists>ks. map (\<lambda>m. dget m ''runtime_id'') (runtime_manifests c) = map JStr ks \<and> sorted ks \<and> distinct ks)"
  using catalog_reached_ok [OF assms] keyed_by_sorted_records
  by (force simp: catalog_ok_def adapter_manifests_def runtime_manifests_def sorted_records_def
      list_all_iff is_true_def)

theorem catalog_lists_only_signed_witness:
  "\<exists>m. runtime_manifests \<lparr>cat_runtimes = [(u ''r'', [(u ''runtime_id'', js ''r''),
        (u ''signed_manifest'', JBool True)])], cat_adapters = []\<rparr> = [m]
     \<and> dget m ''signed_manifest'' = JBool True"
proof -
  let ?m = "[(u ''runtime_id'', js ''r''), (u ''signed_manifest'', JBool True)]"
  let ?c = "\<lparr>cat_runtimes = [(u ''r'', ?m)], cat_adapters = []\<rparr>"
  have "catalog_reached ?c"
    by (rule catalog_runtime [OF catalog_start, where m = ?m])
      (simp add: register_runtime_manifest_def RuntimeCatalog_init_def store_put_def ditem_def dget_def
        dget_or_def is_true_def)
  moreover have "runtime_manifests ?c = [?m]"
    by (simp add: runtime_manifests_def sorted_records_def)
  ultimately show ?thesis
    using catalog_lists_only_signed by force
qed

text \<open>
  The snapshot of the runtime registry is the registry: it lists, in strictly increasing order
  of \<open>runtime_id\<close>, exactly the records that \<open>get\<close> returns.
\<close>
theorem registry_snapshot_complete:
  assumes "foldE RuntimeRegistry_register [] rs = Inr s"
  shows "(\<exists>ks. map (\<lambda>r. dget r ''runtime_id'') (RuntimeRegistry_snapshot s) = map JStr ks
      \<and> sorted ks \<and> distinct ks)
    \<and> (\<forall>k r. RuntimeRegistry_get s (JStr k) = Inr r \<longleftrightarrow>
         r \<in> set (RuntimeRegistry_snapshot s) \<and> dget r ''runtime_id'' = JStr k)"
proof -
  have "keyed_by ''runtime_id'' s"
    using assms by (rule foldE_invariant) (auto simp: RuntimeRegistry_register_def intro: store_put_keyed)
  from keyed_by_sorted_records [OF this] sorted_records_get [OF this] show ?thesis
    unfolding RuntimeRegistry_snapshot_def RuntimeRegistry_get_def by blast
qed

theorem registry_snapshot_complete_witness:
  "[(u ''runtime_id'', js ''a'')] \<in> set (RuntimeRegistry_snapshot
      [(u ''b'', [(u ''runtime_id'', js ''b'')]), (u ''a'', [(u ''runtime_id'', js ''a'')])])"
proof -
  let ?s = "[(u ''b'', [(u ''runtime_id'', js ''b'')]), (u ''a'', [(u ''runtime_id'', js ''a'')])]"
  have "foldE RuntimeRegistry_register [] [[(u ''runtime_id'', js ''b'')], [(u ''runtime_id'', js ''a'')]]
      = Inr ?s"
    by (simp add: RuntimeRegistry_register_def store_put_def ditem_def)
  then have "RuntimeRegistry_get ?s (js ''a'') = Inr [(u ''runtime_id'', js ''a'')] \<longleftrightarrow>
      [(u ''runtime_id'', js ''a'')] \<in> set (RuntimeRegistry_snapshot ?s)
      \<and> dget [(u ''runtime_id'', js ''a'')] ''runtime_id'' = js ''a''"
    by (rule registry_snapshot_complete [THEN conjunct2, THEN spec, THEN spec])
  then show ?thesis by (simp add: RuntimeRegistry_get_def store_get_def)
qed

end
