(* ===== verification/Approval_Queue.thy ===== *)
theory Approval_Queue
  imports Stores
begin

text \<open>
  The approval queue (\<open>packages/shell_core/approval_queue.py\<close>): enqueue, lookup, and the edit of
  one payload field, which must leave protected fields alone, re-hash the payload and send the
  approval back to validation.
\<close>

definition PROTECTED_EDIT_FIELDS :: "ustr list" where
  "PROTECTED_EDIT_FIELDS =
     map u [''runtime_id'', ''permission_id'', ''audit_id'', ''audit_event_id'', ''payload_hash'']"

definition protected_fields :: "obj \<Rightarrow> exn + json list" where
  "protected_fields approval =
     bindE (py_set (dget_or approval ''authority_fields'' (JArr []))) (\<lambda>authority.
     bindE (py_set (dget_or approval ''sealed_fields'' (JArr []))) (\<lambda>sealed.
     bindE (py_set (dget_or approval ''hidden_fields'' (JArr []))) (\<lambda>hidden.
     bindE (py_set (dget_or approval ''sacred_fields'' (JArr []))) (\<lambda>sacred.
       Inr (authority @ sealed @ hidden @ sacred @ map JStr PROTECTED_EDIT_FIELDS)))))"

definition ApprovalQueue_enqueue :: "store \<Rightarrow> obj \<Rightarrow> exn + store" where
  "ApprovalQueue_enqueue = store_put ''approval_id''"

definition ApprovalQueue_get :: "store \<Rightarrow> json \<Rightarrow> exn + obj" where
  "ApprovalQueue_get = store_get ''approval is not in the queue: {}''"

definition can_edit :: "store \<Rightarrow> json \<Rightarrow> ustr \<Rightarrow> exn + bool" where
  "can_edit q approval_id field =
     bindE (ApprovalQueue_get q approval_id) (\<lambda>approval.
     bindE (py_set (dget_or approval ''editable_fields'' (JArr []))) (\<lambda>editable.
       if \<not> py_in (JStr field) editable then Inr False
       else bindE (protected_fields approval) (\<lambda>protected.
              Inr (\<not> py_in (JStr field) protected))))"

definition ApprovalQueue_edit :: "store \<Rightarrow> json \<Rightarrow> ustr \<Rightarrow> json \<Rightarrow> exn + store \<times> obj" where
  "ApprovalQueue_edit q approval_id field val =
     bindE (can_edit q approval_id field) (\<lambda>allowed.
     if \<not> allowed then Inl (ValueError (Msg ''field cannot be edited: {}'' [JStr field]))
     else
       bindE (ApprovalQueue_get q approval_id) (\<lambda>approval.
       bindE (jsetitem (dget_or approval ''full_payload'' (JObj [])) field val) (\<lambda>payload.
       let approval = dset approval ''full_payload'' payload;
           approval = dset approval ''payload_hash'' (JStr (canonical_hash payload));
           approval = dset approval ''status'' (js ''requires_validation'')
       in bindE (as_key approval_id) (\<lambda>k. Inr (AList.update k approval q, approval)))))"

interpretation approvals: keyed_store ApprovalQueue_enqueue ApprovalQueue_get "[]"
  "\<lambda>r. dget r ''approval_id''" "\<lambda>k. KeyErrorMsg (Msg ''approval is not in the queue: {}'' [k])"
  by unfold_locales
    (auto simp: ApprovalQueue_enqueue_def ApprovalQueue_get_def store_put_eq_Inr
      store_get_update store_get_JStr)

subsection \<open>What an edit does\<close>

lemma py_in_JStr: "py_in (JStr s) xs \<longleftrightarrow> JStr s \<in> set xs"
  by (auto simp: py_in_def list_ex_iff)

lemma jsetitem_eq_Inr [res_simps]:
  "jsetitem v k w = Inr x \<longleftrightarrow> (\<exists>d. v = JObj d \<and> x = JObj (AList.update k w d))"
  by (cases v) auto

lemma store_get_Inr_key:
  "store_get label s v = Inr r \<longleftrightarrow> (\<exists>k. v = JStr k \<and> map_of s k = Some r)"
  by (cases v) (auto simp: store_get_def split: option.splits)

text \<open>The approval after an edit that sets the payload to \<open>d\<close>.\<close>

definition edited :: "obj \<Rightarrow> obj \<Rightarrow> obj" where
  "edited approval d =
     dset (dset (dset approval ''full_payload'' (JObj d))
       ''payload_hash'' (JStr (canonical_hash (JObj d)))) ''status'' (js ''requires_validation'')"

lemma edit_eq_Inr:
  "ApprovalQueue_edit q v field val = Inr (q', a) \<longleftrightarrow>
     (\<exists>k approval d. v = JStr k \<and> map_of q k = Some approval \<and> can_edit q v field = Inr True
        \<and> dget_or approval ''full_payload'' (JObj []) = JObj d
        \<and> a = edited approval (AList.update field val d) \<and> q' = AList.update k a q)"
  by (auto simp: ApprovalQueue_edit_def ApprovalQueue_get_def res_simps store_get_Inr_key edited_def
      Let_def split: if_splits)

lemma can_edit_True:
  "can_edit q (JStr k) field = Inr True \<Longrightarrow>
     \<exists>approval editable protected. map_of q k = Some approval
       \<and> py_set (dget_or approval ''editable_fields'' (JArr [])) = Inr editable
       \<and> protected_fields approval = Inr protected
       \<and> JStr field \<in> set editable \<and> JStr field \<notin> set protected"
  by (auto simp: can_edit_def ApprovalQueue_get_def res_simps store_get_Inr_key py_in_JStr split: if_splits)

lemma protected_edit_fields_protected:
  "protected_fields approval = Inr ps \<Longrightarrow> f \<in> set PROTECTED_EDIT_FIELDS \<Longrightarrow> JStr f \<in> set ps"
  by (auto simp: protected_fields_def res_simps)

lemma dget_edited:
  "dget (edited a d) ''full_payload'' = JObj d"
  "dget (edited a d) ''payload_hash'' = JStr (canonical_hash (JObj d))"
  "dget (edited a d) ''status'' = js ''requires_validation''"
  "k \<notin> {''full_payload'', ''payload_hash'', ''status''} \<Longrightarrow> dget (edited a d) k = dget a k"
  by (auto simp: edited_def)

text \<open>
  C6. A successful edit does exactly this: the field was listed as editable and in none of the
  protected sets; the payload gains the value under that field and nothing else; the stored hash is
  the hash of the new payload; the approval goes back to \<open>requires_validation\<close>; every other
  attribute of the approval and every other approval of the queue is unchanged.
\<close>
theorem edit_effect:
  assumes "ApprovalQueue_edit q (JStr k) field val = Inr (q', a)"
  shows "\<exists>approval d. ApprovalQueue_get q (JStr k) = Inr approval
    \<and> can_edit q (JStr k) field = Inr True \<and> field \<notin> set PROTECTED_EDIT_FIELDS
    \<and> dget_or approval ''full_payload'' (JObj []) = JObj d
    \<and> dget a ''full_payload'' = JObj (AList.update field val d)
    \<and> dget a ''payload_hash'' = JStr (canonical_hash (JObj (AList.update field val d)))
    \<and> dget a ''status'' = js ''requires_validation''
    \<and> (\<forall>f. f \<notin> {''full_payload'', ''payload_hash'', ''status''} \<longrightarrow> dget a f = dget approval f)
    \<and> ApprovalQueue_get q' (JStr k) = Inr a
    \<and> (\<forall>k'. k' \<noteq> k \<longrightarrow> ApprovalQueue_get q' (JStr k') = ApprovalQueue_get q (JStr k'))"
proof -
  from assms obtain approval d where e: "map_of q k = Some approval" "can_edit q (JStr k) field = Inr True"
    "dget_or approval ''full_payload'' (JObj []) = JObj d"
    "a = edited approval (AList.update field val d)" "q' = AList.update k a q"
    unfolding edit_eq_Inr by blast
  from can_edit_True [OF e(2)] e(1) have "field \<notin> set PROTECTED_EDIT_FIELDS"
    by (auto dest: protected_edit_fields_protected)
  with e show ?thesis
    by (intro exI [of _ approval] exI [of _ d])
      (simp add: dget_edited ApprovalQueue_get_def store_get_update store_get_JStr)
qed

theorem edit_effect_witness:
  "\<exists>a q'. ApprovalQueue_edit
      [(u ''x'', [(u ''full_payload'', JObj [(u ''path'', js ''a'')]), (u ''editable_fields'', JArr [js ''path''])])]
      (js ''x'') (u ''path'') (js ''b'') = Inr (q', a)
    \<and> dget a ''status'' = js ''requires_validation''"
proof -
  let ?q = "[(u ''x'', [(u ''full_payload'', JObj [(u ''path'', js ''a'')]), (u ''editable_fields'', JArr [js ''path''])])]"
  have "can_edit ?q (js ''x'') (u ''path'') = Inr True"
    by (simp add: can_edit_def ApprovalQueue_get_def store_get_def py_set_def dget_or_def
        protected_fields_def py_in_def PROTECTED_EDIT_FIELDS_def)
  then have "\<exists>q' a. ApprovalQueue_edit ?q (js ''x'') (u ''path'') (js ''b'') = Inr (q', a)"
    by (auto simp: edit_eq_Inr dget_or_def)
  then obtain q' a where "ApprovalQueue_edit ?q (js ''x'') (u ''path'') (js ''b'') = Inr (q', a)"
    by blast
  with edit_effect [OF this] show ?thesis by blast
qed

text \<open>
  No edit can touch an identity or binding field: whatever the approval declares editable, an
  edit of \<open>runtime_id\<close>, \<open>permission_id\<close>, \<open>audit_id\<close>, \<open>audit_event_id\<close> or \<open>payload_hash\<close> raises.
\<close>
theorem protected_fields_never_edited:
  assumes "field \<in> set PROTECTED_EDIT_FIELDS"
  shows "\<exists>e. ApprovalQueue_edit q v field val = Inl e"
proof (rule ccontr)
  assume "\<not> ?thesis"
  then obtain q' a where "ApprovalQueue_edit q v field val = Inr (q', a)"
    by (metis old.sum.exhaust surj_pair)
  then obtain k where "can_edit q (JStr k) field = Inr True"
    unfolding edit_eq_Inr by blast
  with assms show False by (auto dest!: can_edit_True protected_edit_fields_protected)
qed

theorem protected_fields_never_edited_witness:
  "\<exists>e. ApprovalQueue_edit [(u ''a'', [(u ''editable_fields'', JArr [js ''payload_hash''])])] (js ''a'')
     (u ''payload_hash'') JNull = Inl e"
  by (rule protected_fields_never_edited) (simp add: PROTECTED_EDIT_FIELDS_def)

text \<open>
  An edit invalidates the hash it replaces: if the queued hash was the hash of the queued
  payload and the edit changes the payload, the new hash differs from the old one, unless SHA-256
  itself collides on the two canonical texts.
\<close>
theorem edit_changes_hash:
  assumes "ApprovalQueue_edit q (JStr k) field val = Inr (q', a)"
    and "ApprovalQueue_get q (JStr k) = Inr approval"
    and "dget_or approval ''full_payload'' (JObj []) = JObj d"
    and "dget approval ''payload_hash'' = JStr (canonical_hash (JObj d))"
    and "wf_json (JObj d)" and "list_all scalar field" and "wf_json val"
    and "\<forall>old. map_of d field = Some old \<longrightarrow> sort_keys old \<noteq> sort_keys val"
  shows "dget a ''payload_hash'' \<noteq> dget approval ''payload_hash''
    \<or> collides (canonical_bytes (JObj (AList.update field val d))) (canonical_bytes (JObj d))"
proof -
  let ?n = "AList.update field val d"
  from assms(1-3) have h: "dget a ''payload_hash'' = JStr (canonical_hash (JObj ?n))"
    by (auto simp: edit_eq_Inr ApprovalQueue_get_def store_get_JStr dget_edited split: option.splits)
  have "sort_keys (JObj ?n) \<noteq> sort_keys (JObj d)"
  proof
    assume "sort_keys (JObj ?n) = sort_keys (JObj d)"
    then have "map_option sort_keys (map_of ?n field) = map_option sort_keys (map_of d field)"
      using assms(5) by (intro sort_keys_JObj_lookup) (simp_all add: distinct_update)
    with assms(8) show False by (cases "map_of d field") auto
  qed
  moreover have "wf_json (JObj ?n)"
    using assms(5-7) by (rule wf_json_update)
  ultimately have "canonical_hash (JObj ?n) \<noteq> canonical_hash (JObj d)
      \<or> collides (canonical_bytes (JObj ?n)) (canonical_bytes (JObj d))"
    using canonical_hash_eq assms(5) by blast
  then show ?thesis by (simp add: h assms(4))
qed

theorem edit_changes_hash_witness:
  "\<exists>a q'. ApprovalQueue_edit
      [(u ''x'', [(u ''full_payload'', JObj []), (u ''editable_fields'', JArr [js ''p'']),
        (u ''payload_hash'', JStr (canonical_hash (JObj [])))])]
      (js ''x'') (u ''p'') JNull = Inr (q', a)
    \<and> (dget a ''payload_hash'' \<noteq> JStr (canonical_hash (JObj []))
       \<or> collides (canonical_bytes (JObj [(u ''p'', JNull)])) (canonical_bytes (JObj [])))"
proof -
  let ?a = "[(u ''full_payload'', JObj []), (u ''editable_fields'', JArr [js ''p'']),
        (u ''payload_hash'', JStr (canonical_hash (JObj [])))]"
  let ?q = "[(u ''x'', ?a)]"
  have "can_edit ?q (js ''x'') (u ''p'') = Inr True"
    by (simp add: can_edit_def ApprovalQueue_get_def store_get_def py_set_def dget_or_def
        protected_fields_def py_in_def PROTECTED_EDIT_FIELDS_def)
  then have "\<exists>q' a. ApprovalQueue_edit ?q (js ''x'') (u ''p'') JNull = Inr (q', a)"
    by (auto simp: edit_eq_Inr dget_or_def)
  then obtain q' a where e: "ApprovalQueue_edit ?q (js ''x'') (u ''p'') JNull = Inr (q', a)"
    by blast
  from edit_changes_hash [OF e, of ?a "[]"] show ?thesis
    by (intro exI [of _ a] exI [of _ q'])
      (simp add: e ApprovalQueue_get_def store_get_def dget_def dget_or_def)
qed

end
