(* ===== verification/Audit_Chain.thy ===== *)
theory Audit_Chain
  imports Digest
begin

text \<open>
  The hash-linked audit log: \<open>chain_event\<close> and \<open>verify_audit_chain\<close>
  (\<open>packages/shell_core/audit_chain.py\<close>) and the in-memory \<open>AuditStore\<close>
  (\<open>audit_store.py\<close>). The locale \<open>audit_log\<close> is the contract of an append-only log, which
  \<open>AuditStore\<close> here and the file log of the persistence layer implement.
\<close>

definition chain_event :: "obj \<Rightarrow> json \<Rightarrow> obj" where
  "chain_event event previous_event_hash =
     (let chained = dset event ''previous_event_hash'' previous_event_hash;
          chained = ddel chained ''event_hash''
      in dset chained ''event_hash'' (JStr (canonical_hash (JObj chained))))"

record audit_report =
  report_ok :: bool
  report_count :: nat
  report_latest :: json
  report_errors :: "msg list"

text \<open>
  The loop of \<open>verify_audit_chain\<close>: the index, the previous hash and the ids seen so far go in, the
  findings and the last hash come out. An id that cannot be hashed makes \<open>event_id in seen\<close> raise.
\<close>

fun verify_loop :: "nat \<Rightarrow> json \<Rightarrow> json list \<Rightarrow> obj list \<Rightarrow> exn + msg list \<times> json" where
  "verify_loop index previous seen [] = Inr ([], previous)"
| "verify_loop index previous seen (event # events) =
     (let event_id = dget event ''event_id'';
          i = JInt (int index)
      in if truthy event_id \<and> \<not> hashable event_id then Inl TypeError
      else
        let (id_errors, seen') =
              (if \<not> truthy event_id then ([Msg ''event {} has no event_id'' [i]], seen)
               else if py_in event_id seen
               then ([Msg ''event {}: event_id {} is duplicated'' [i, event_id]], seen)
               else ([], event_id # seen));
            expected = chain_event (ddel event ''event_hash'') previous;
            previous_errors =
              (if \<not> py_eq (dget event ''previous_event_hash'') previous
               then [Msg ''event {}: previous hash does not match'' [i]] else []);
            hash_errors =
              (if \<not> py_eq (dget event ''event_hash'') (dget expected ''event_hash'')
               then [Msg ''event {}: hash does not match'' [i]] else [])
        in bindE (verify_loop (Suc index) (dget event ''event_hash'') seen' events)
             (\<lambda>(errors, latest). Inr (id_errors @ previous_errors @ hash_errors @ errors, latest)))"

definition verify_audit_chain :: "obj list \<Rightarrow> exn + audit_report" where
  "verify_audit_chain events =
     bindE (verify_loop 0 JNull [] events) (\<lambda>(errors, previous).
       Inr \<lparr>report_ok = (errors = []), report_count = length events,
            report_latest = previous, report_errors = errors\<rparr>)"

definition audit_verified :: "obj list \<Rightarrow> bool" where
  "audit_verified events \<longleftrightarrow> (\<exists>r. verify_audit_chain events = Inr r \<and> report_ok r)"

subsection \<open>AuditStore\<close>

definition AuditStore_append :: "obj list \<Rightarrow> obj \<Rightarrow> exn + obj list \<times> obj" where
  "AuditStore_append events event =
     (let event_id = dget event ''event_id'' in
      if \<not> truthy event_id then Inl (ValueError (Msg ''audit event_id is required'' []))
      else if list_ex (\<lambda>stored. py_eq (dget stored ''event_id'') event_id) events
      then Inl (ValueError (Msg ''duplicate audit event_id: {}'' [event_id]))
      else
        bindE (if events = [] then Inr JNull else ditem (last events) ''event_hash'') (\<lambda>previous_hash.
        let stored = dset event ''previous_event_hash'' previous_hash;
            stored = dset stored ''event_hash'' (JStr (canonical_hash (JObj stored)))
        in Inr (events @ [stored], stored)))"

definition AuditStore_events :: "obj list \<Rightarrow> obj list" where
  "AuditStore_events events = events"

subsection \<open>What verification means\<close>

text \<open>The hash of the last event, as the verifier and the writers read it.\<close>

definition head_hash :: "obj list \<Rightarrow> json" where
  "head_hash events = (if events = [] then JNull else dget (last events) ''event_hash'')"

text \<open>What the hash of an event covers: the event with its link, without the hash itself.\<close>

definition hashed_body :: "obj \<Rightarrow> json \<Rightarrow> json" where
  "hashed_body event previous = JObj (ddel (dset event ''previous_event_hash'' previous) ''event_hash'')"

fun linked :: "json \<Rightarrow> obj list \<Rightarrow> bool" where
  "linked previous [] \<longleftrightarrow> True"
| "linked previous (event # events) \<longleftrightarrow>
     dget event ''previous_event_hash'' = previous
     \<and> dget event ''event_hash'' = JStr (canonical_hash (hashed_body event previous))
     \<and> linked (dget event ''event_hash'') events"

fun ids_fresh :: "json list \<Rightarrow> obj list \<Rightarrow> bool" where
  "ids_fresh seen [] \<longleftrightarrow> True"
| "ids_fresh seen (event # events) \<longleftrightarrow>
     truthy (dget event ''event_id'') \<and> hashable (dget event ''event_id'')
     \<and> \<not> py_in (dget event ''event_id'') seen
     \<and> ids_fresh (dget event ''event_id'' # seen) events"

definition event_ids_unique :: "obj list \<Rightarrow> bool" where
  "event_ids_unique events \<longleftrightarrow>
     (\<forall>i < length events. truthy (dget (events ! i) ''event_id'') \<and> hashable (dget (events ! i) ''event_id'')
        \<and> (\<forall>j < i. \<not> py_eq (dget (events ! i) ''event_id'') (dget (events ! j) ''event_id'')))"

lemma update_delete_commute:
  "k \<noteq> k' \<Longrightarrow> AList.update k v (AList.delete k' d) = AList.delete k' (AList.update k v d)"
  by (induction d) (auto simp: AList.delete_eq)

lemma ddel_ddel [simp]: "ddel (ddel d k) k = ddel d k"
  by (simp add: ddel_def AList.delete_eq)

lemma dset_ddel_commute: "k \<noteq> k' \<Longrightarrow> dset (ddel d k') k v = ddel (dset d k v) k'"
  by (simp add: dset_def ddel_def update_delete_commute)

lemma chain_event_dget [simp]:
  "dget (chain_event e p) ''event_hash'' = JStr (canonical_hash (hashed_body e p))"
  "dget (chain_event e p) ''previous_event_hash'' = p"
  "k \<notin> {''event_hash'', ''previous_event_hash''} \<Longrightarrow> dget (chain_event e p) k = dget e k"
  by (simp_all add: chain_event_def Let_def hashed_body_def)

lemma ddel_dset_same: "ddel (dset d k v) k = ddel d k"
  by (simp add: dset_def ddel_def delete_update_same)

lemma dset_dset_same: "dset (dset d k v) k w = dset d k w"
  by (simp add: dset_def AList.update_last)

lemma hashed_body_ddel [simp]: "hashed_body (ddel e ''event_hash'') p = hashed_body e p"
  by (simp add: hashed_body_def dset_ddel_commute)

lemma hashed_body_chain [simp]: "hashed_body (chain_event e p) p = hashed_body e p"
proof -
  let ?P = "''previous_event_hash''" and ?H = "''event_hash''"
  obtain h where c: "chain_event e p = dset (ddel (dset e ?P p) ?H) ?H h"
    by (simp add: chain_event_def Let_def)
  have "ddel (dset (dset (ddel (dset e ?P p) ?H) ?H h) ?P p) ?H
      = dset (ddel (dset (ddel (dset e ?P p) ?H) ?H h) ?H) ?P p"
    by (rule dset_ddel_commute [symmetric]) simp
  also have "\<dots> = dset (ddel (dset e ?P p) ?H) ?P p"
    by (simp only: ddel_dset_same ddel_ddel)
  also have "\<dots> = ddel (dset (dset e ?P p) ?P p) ?H"
    by (rule dset_ddel_commute) simp
  finally show ?thesis by (simp only: hashed_body_def c dset_dset_same)
qed

definition hash_value :: "json \<Rightarrow> bool" where
  "hash_value v \<longleftrightarrow> v = JNull \<or> is_str v"

lemma hash_value_simps [simp]: "hash_value JNull" "hash_value (JStr s)"
  by (simp_all add: hash_value_def)

lemma py_eq_hash_value: "hash_value p \<Longrightarrow> py_eq v p \<longleftrightarrow> v = p"
  by (auto simp: hash_value_def is_str_iff)

lemma verify_loop_latest:
  "verify_loop i p seen es = Inr (errs, l) \<Longrightarrow> l = (if es = [] then p else dget (last es) ''event_hash'')"
  by (induction i p seen es arbitrary: errs rule: verify_loop.induct)
    (auto simp: res_simps Let_def split: if_splits prod.splits)

lemma verify_loop_clean:
  "hash_value p \<Longrightarrow>
     (\<exists>l. verify_loop i p seen es = Inr ([], l)) \<longleftrightarrow> linked p es \<and> ids_fresh seen es"
proof (induction es arbitrary: i p seen)
  case (Cons e es)
  let ?id = "dget e ''event_id''"
  show ?case
  proof (cases "truthy ?id \<and> hashable ?id \<and> \<not> py_in ?id seen \<and> dget e ''previous_event_hash'' = p
      \<and> dget e ''event_hash'' = JStr (canonical_hash (hashed_body e p))")
    case True
    then have "hash_value (dget e ''event_hash'')" by simp
    from Cons.IH [OF this, of "Suc i" "?id # seen"] True Cons.prems show ?thesis
      by (auto simp: Let_def res_simps split: prod.splits)
  next
    case False
    with Cons.prems show ?thesis
      by (auto simp: Let_def res_simps py_eq_hash_value split: prod.splits if_splits)
  qed
qed simp

lemma ids_fresh_nth:
  "ids_fresh seen es \<longleftrightarrow>
     (\<forall>i < length es. truthy (dget (es ! i) ''event_id'') \<and> hashable (dget (es ! i) ''event_id'')
        \<and> \<not> py_in (dget (es ! i) ''event_id'') seen
        \<and> (\<forall>j < i. \<not> py_eq (dget (es ! i) ''event_id'') (dget (es ! j) ''event_id'')))"
  by (induction es arbitrary: seen) (auto simp: All_less_Suc2 py_in_def)

lemma ids_fresh_unique: "ids_fresh [] es = event_ids_unique es"
  by (simp add: ids_fresh_nth event_ids_unique_def py_in_def)

lemma audit_verified_iff: "audit_verified es \<longleftrightarrow> linked JNull es \<and> event_ids_unique es"
  using verify_loop_clean [of JNull 0 "[]" es]
  by (auto simp: audit_verified_def verify_audit_chain_def res_simps ids_fresh_unique)

lemma linked_snoc:
  "linked p (es @ [e]) \<longleftrightarrow>
     (let q = if es = [] then p else dget (last es) ''event_hash'' in
      linked p es \<and> dget e ''previous_event_hash'' = q
      \<and> dget e ''event_hash'' = JStr (canonical_hash (hashed_body e q)))"
  by (induction es arbitrary: p) (auto simp: Let_def)

lemma event_ids_unique_snoc:
  "event_ids_unique (es @ [e]) \<longleftrightarrow>
     event_ids_unique es \<and> truthy (dget e ''event_id'') \<and> hashable (dget e ''event_id'')
     \<and> (\<forall>x \<in> set es. \<not> py_eq (dget e ''event_id'') (dget x ''event_id''))"
  by (auto simp: event_ids_unique_def nth_append less_Suc_eq all_set_conv_all_nth)

lemma audit_verified_append:
  "audit_verified es \<Longrightarrow> truthy (dget e ''event_id'') \<Longrightarrow> hashable (dget e ''event_id'') \<Longrightarrow>
     \<forall>x \<in> set es. \<not> py_eq (dget e ''event_id'') (dget x ''event_id'') \<Longrightarrow>
     audit_verified (es @ [chain_event e (head_hash es)])"
  by (auto simp: audit_verified_iff linked_snoc event_ids_unique_snoc Let_def head_hash_def)

lemma audit_verified_Nil [simp]: "audit_verified []"
  by (simp add: audit_verified_iff event_ids_unique_def)

lemma linked_hash_value: "hash_value p \<Longrightarrow> linked p es \<Longrightarrow> e \<in> set es \<Longrightarrow>
    hash_value (dget e ''previous_event_hash'') \<and> (\<exists>h. dget e ''event_hash'' = JStr h)"
proof (induction es arbitrary: p)
  case (Cons a es)
  then obtain h where "dget a ''event_hash'' = JStr h" "linked (JStr h) es"
    "hash_value (dget a ''previous_event_hash'')" by auto
  then show ?case using Cons.IH [of "JStr h"] Cons.prems(3) by auto
qed simp

text \<open>
  Two dictionaries with the same items, in any order: what is written to a file with sorted keys and
  read back. Links, ids and hashes cannot tell them apart.
\<close>

definition same_dict :: "obj \<Rightarrow> obj \<Rightarrow> bool" where
  "same_dict a b \<longleftrightarrow>
     distinct (map fst a) \<and> distinct (map fst b) \<and> sort_keys (JObj a) = sort_keys (JObj b)"

lemma same_dict_refl: "distinct (map fst a) \<Longrightarrow> same_dict a a"
  by (simp add: same_dict_def)

lemma same_dict_lookup:
  assumes "same_dict a b"
  shows "map_option sort_keys (map_of a k) = map_option sort_keys (map_of b k)"
  using assms unfolding same_dict_def by (elim conjE) (rule sort_keys_JObj_lookup)

lemma same_dict_dget:
  assumes "same_dict a b" and "hashable (dget b k)"
  shows "dget a k = dget b k"
proof -
  have "sort_keys (dget a k) = sort_keys (dget b k)"
    using same_dict_lookup [OF assms(1), of "u k"]
    by (cases "map_of a (u k)"; cases "map_of b (u k)") (simp_all add: dget_def dget_or_def)
  with assms(2) show ?thesis by (simp only: sort_keys_eq_hashable)
qed

lemma same_dict_hash:
  assumes "same_dict a b"
  shows "canonical_hash (hashed_body a p) = canonical_hash (hashed_body b p)"
proof (rule canonical_hash_cong)
  let ?h = "\<lambda>e. ddel (dset e ''previous_event_hash'' p) ''event_hash''"
  have d: "distinct (map fst (?h e))" if "distinct (map fst e)" for e
    using that by (simp add: ddel_def dset_def distinct_update distinct_delete)
  have m: "map_of (?h e) k = (if k = u ''event_hash'' then None
      else if k = u ''previous_event_hash'' then Some p else map_of e k)" for e k
    by (simp add: ddel_def dset_def delete_conv update_conv)
  have "\<forall>k. map_option sort_keys (map_of (?h a) k) = map_option sort_keys (map_of (?h b) k)"
    using same_dict_lookup [OF assms] by (simp only: m split: if_split) blast
  then show "sort_keys (hashed_body a p) = sort_keys (hashed_body b p)"
    unfolding hashed_body_def
    using assms by (intro sort_keys_JObj_eq_iff [THEN iffD2]) (simp_all only: d same_dict_def simp_thms)
qed

lemma audit_verified_append_same:
  assumes "audit_verified es" and "truthy (dget e ''event_id'')" and "hashable (dget e ''event_id'')"
    and "\<forall>x \<in> set es. \<not> py_eq (dget e ''event_id'') (dget x ''event_id'')"
    and same: "same_dict c (chain_event e (head_hash es))"
  shows "audit_verified (es @ [c])"
proof -
  have "hash_value (head_hash es)"
    using assms(1) linked_hash_value [of JNull es "last es"]
    by (auto simp: audit_verified_iff head_hash_def)
  then have "hashable (head_hash es)" by (auto simp: hash_value_def is_str_iff)
  with same_dict_dget [OF same] assms(3)
  have "dget c ''event_id'' = dget e ''event_id''" "dget c ''previous_event_hash'' = head_hash es"
    "dget c ''event_hash'' = JStr (canonical_hash (hashed_body e (head_hash es)))" by simp_all
  with audit_verified_append [OF assms(1-4)] same_dict_hash [OF same, of "head_hash es"] show ?thesis
    by (auto simp: audit_verified_iff linked_snoc event_ids_unique_snoc Let_def head_hash_def)
qed

lemma distinct_chain_event: "distinct (map fst e) \<Longrightarrow> distinct (map fst (chain_event e p))"
  by (simp add: chain_event_def Let_def dset_def ddel_def distinct_update distinct_delete)

subsection \<open>Tamper evidence\<close>

definition event_body :: "obj \<Rightarrow> json" where
  "event_body e = hashed_body e (dget e ''previous_event_hash'')"

definition same_event :: "obj \<Rightarrow> obj \<Rightarrow> bool" where
  "same_event a b \<longleftrightarrow> sort_keys (event_body a) = sort_keys (event_body b)"

lemma wf_event_body: "wf_json (JObj e) \<Longrightarrow> hash_value p \<Longrightarrow> p = dget e ''previous_event_hash'' \<Longrightarrow> wf_json (event_body e)"
  unfolding event_body_def hashed_body_def by (intro wf_json_ddel wf_json_dset wf_json_dget) auto

lemma same_event_previous:
  assumes "same_event a b" and "wf_json (JObj a)" and "wf_json (JObj b)"
    and "hash_value (dget a ''previous_event_hash'')" and "hash_value (dget b ''previous_event_hash'')"
  shows "dget a ''previous_event_hash'' = dget b ''previous_event_hash''"
proof -
  have look: "map_of (ddel (dset e ''previous_event_hash'' p) ''event_hash'') (u ''previous_event_hash'') = Some p"
    for e p by (simp add: ddel_def dset_def delete_conv update_conv)
  have "distinct (map fst (ddel (dset e ''previous_event_hash'' p) ''event_hash''))"
    if "wf_json (JObj e)" for e p
    using that by (simp add: ddel_def dset_def distinct_update distinct_delete)
  then have "sort_keys (dget a ''previous_event_hash'') = sort_keys (dget b ''previous_event_hash'')"
    using sort_keys_JObj_lookup [OF assms(1) [unfolded same_event_def event_body_def hashed_body_def],
        of "u ''previous_event_hash''"] assms(2,3)
    by (simp add: look)
  then show ?thesis
    using assms(4,5) by (auto simp: hash_value_def is_str_iff)
qed

lemma same_head_same_chain:
  "linked JNull as \<Longrightarrow> linked JNull bs \<Longrightarrow> head_hash as = head_hash bs \<Longrightarrow>
     \<forall>e \<in> set as \<union> set bs. wf_json (JObj e) \<Longrightarrow>
     list_all2 same_event as bs
     \<or> (\<exists>a \<in> set as. \<exists>b \<in> set bs. collides (canonical_bytes (event_body a)) (canonical_bytes (event_body b)))"
proof (induction as arbitrary: bs rule: rev_induct)
  case Nil
  then show ?case
    by (cases bs rule: rev_cases) (auto simp: head_hash_def linked_snoc Let_def)
next
  case (snoc a as)
  then obtain b bs' where bs: "bs = bs' @ [b]"
    by (cases bs rule: rev_cases) (auto simp: head_hash_def linked_snoc Let_def)
  have la: "linked JNull as" "dget a ''previous_event_hash'' = head_hash as"
    "dget a ''event_hash'' = JStr (canonical_hash (event_body a))"
    using snoc.prems(1) by (auto simp: linked_snoc Let_def head_hash_def event_body_def)
  have lb: "linked JNull bs'" "dget b ''previous_event_hash'' = head_hash bs'"
    "dget b ''event_hash'' = JStr (canonical_hash (event_body b))"
    using snoc.prems(2) by (auto simp: bs linked_snoc Let_def head_hash_def event_body_def)
  have h: "hash_value (dget a ''previous_event_hash'')" "hash_value (dget b ''previous_event_hash'')"
    using linked_hash_value [OF _ snoc.prems(1)] linked_hash_value [OF _ snoc.prems(2)] bs by auto
  have wf: "wf_json (event_body a)" "wf_json (event_body b)"
    using snoc.prems(4) h wf_event_body bs by auto
  have "canonical_hash (event_body a) = canonical_hash (event_body b)"
    using snoc.prems(3) la(3) lb(3) by (simp add: bs head_hash_def)
  from canonical_hash_eq [OF wf this]
  show ?case
  proof
    assume "sort_keys (event_body a) = sort_keys (event_body b)"
    then have same: "same_event a b" by (simp add: same_event_def)
    then have "head_hash as = head_hash bs'"
      using same_event_previous [OF same _ _ h] snoc.prems(4) la(2) lb(2) by (simp add: bs)
    from snoc.IH [OF la(1) lb(1) this] snoc.prems(4)
    have "list_all2 same_event as bs'
      \<or> (\<exists>a \<in> set as. \<exists>b \<in> set bs'. collides (canonical_bytes (event_body a)) (canonical_bytes (event_body b)))"
      by (simp add: bs)
    moreover have "list_all2 same_event (as @ [a]) (bs' @ [b])" if "list_all2 same_event as bs'"
      using that same by (intro list_all2_appendI) simp_all
    ultimately show ?case by (auto simp: bs)
  qed (auto simp: bs)
qed

subsection \<open>The contract of an append-only log\<close>

locale audit_log =
  fixes append :: "'s \<Rightarrow> obj \<Rightarrow> exn + 's \<times> obj"
    and logged :: "'s \<Rightarrow> obj list"
    and inv :: "'s \<Rightarrow> bool"
    and good :: "obj \<Rightarrow> bool"
  assumes append_step: "inv s \<Longrightarrow> good e \<Longrightarrow> append s e = Inr (s', c) \<Longrightarrow>
      inv s' \<and> c = chain_event e (head_hash (logged s))
      \<and> (\<exists>c'. logged s' = logged s @ [c'] \<and> same_dict c' c)
      \<and> truthy (dget e ''event_id'') \<and> hashable (dget e ''event_id'')
      \<and> (\<forall>x \<in> set (logged s). \<not> py_eq (dget e ''event_id'') (dget x ''event_id''))"
begin

definition append_all :: "'s \<Rightarrow> obj list \<Rightarrow> exn + 's" where
  "append_all = foldE (\<lambda>s e. bindE (append s e) (\<lambda>(s', _). Inr s'))"

lemma append_all_simps [simp]:
  "append_all s [] = Inr s"
  "append_all s (e # es) = bindE (append s e) (\<lambda>(s', _). append_all s' es)"
  by (auto simp: append_all_def bindE_assoc case_prod_unfold)

text \<open>
  A run of appends keeps the chain verified, keeps what was logged before as a prefix, and logs
  every event with all attributes but the two hash fields as they were given.
\<close>

lemma append_all_verified:
  "append_all s es = Inr s' \<Longrightarrow> inv s \<Longrightarrow> \<forall>e \<in> set es. good e \<Longrightarrow> audit_verified (logged s) \<Longrightarrow>
     inv s' \<and> audit_verified (logged s')
     \<and> (\<exists>cs. logged s' = logged s @ cs \<and> list_all2 (\<lambda>c e. \<exists>p. same_dict c (chain_event e p)) cs es)"
proof (induction es arbitrary: s)
  case (Cons e es)
  from Cons.prems(1) obtain t c where t: "append s e = Inr (t, c)" "append_all t es = Inr s'"
    by (auto simp: bindE_eq_Inr)
  from append_step [OF Cons.prems(2) _ t(1)] Cons.prems(3)
  obtain c' where step: "inv t" "same_dict c' (chain_event e (head_hash (logged s)))"
    "logged t = logged s @ [c']" "truthy (dget e ''event_id'')" "hashable (dget e ''event_id'')"
    "\<forall>x \<in> set (logged s). \<not> py_eq (dget e ''event_id'') (dget x ''event_id'')" by auto
  have "audit_verified (logged t)"
    using audit_verified_append_same Cons.prems(4) step by simp
  from Cons.IH [OF t(2) step(1) _ this] Cons.prems(3)
  obtain cs where cs: "inv s'" "audit_verified (logged s')" "logged s' = logged t @ cs"
    "list_all2 (\<lambda>c e. \<exists>p. same_dict c (chain_event e p)) cs es" by auto
  show ?case
    using cs step(2,3) by (intro conjI exI [of _ "c' # cs"]) auto
qed auto

end

text \<open>\<open>AuditStore\<close> implements the contract for events that do not already carry a hash.\<close>

definition unhashed_event :: "obj \<Rightarrow> bool" where
  "unhashed_event e \<longleftrightarrow>
     distinct (map fst e) \<and> \<not> dhas e ''event_hash'' \<and> hashable (dget e ''event_id'')"

lemma ddel_absent: "\<not> dhas d k \<Longrightarrow> ddel d k = d"
  unfolding dhas_def ddel_def by (rule delete_idem_notin) (simp add: map_of_eq_None_iff)

lemma AuditStore_append_step:
  assumes "unhashed_event e" and "AuditStore_append es e = Inr (es', c)"
  shows "c = chain_event e (head_hash es) \<and> es' = es @ [c]
    \<and> truthy (dget e ''event_id'') \<and> hashable (dget e ''event_id'')
    \<and> (\<forall>x \<in> set es. \<not> py_eq (dget e ''event_id'') (dget x ''event_id''))"
proof -
  from assms(2) obtain p where p: "(if es = [] then Inr JNull else ditem (last es) ''event_hash'') = Inr p"
    and c: "c = dset (dset e ''previous_event_hash'' p) ''event_hash''
        (JStr (canonical_hash (JObj (dset e ''previous_event_hash'' p))))" "es' = es @ [c]"
    and fresh: "truthy (dget e ''event_id'')"
      "\<not> list_ex (\<lambda>stored. py_eq (dget stored ''event_id'') (dget e ''event_id'')) es"
    by (auto simp: AuditStore_append_def Let_def res_simps split: if_splits)
  have "p = head_hash es"
    using p by (auto simp: head_hash_def res_simps split: if_splits)
  moreover have "\<not> dhas (dset e ''previous_event_hash'' p) ''event_hash''"
    using assms(1) by (simp add: unhashed_event_def)
  ultimately show ?thesis
    using c fresh assms(1) py_eq_sym
    by (auto simp: chain_event_def Let_def ddel_absent list_ex_iff unhashed_event_def)
qed

interpretation memory: audit_log AuditStore_append AuditStore_events "\<lambda>_. True" unhashed_event
proof unfold_locales
  fix s e s' c
  assume "unhashed_event e" "AuditStore_append s e = Inr (s', c)"
  from AuditStore_append_step [OF this] \<open>unhashed_event e\<close>
  show "True \<and> c = chain_event e (head_hash (AuditStore_events s))
      \<and> (\<exists>c'. AuditStore_events s' = AuditStore_events s @ [c'] \<and> same_dict c' c)
      \<and> truthy (dget e ''event_id'') \<and> hashable (dget e ''event_id'')
      \<and> (\<forall>x \<in> set (AuditStore_events s). \<not> py_eq (dget e ''event_id'') (dget x ''event_id''))"
    by (auto simp: AuditStore_events_def unhashed_event_def intro: same_dict_refl distinct_chain_event)
qed

subsection \<open>Properties\<close>

text \<open>
  C23. The verifier accepts a log exactly when it is a hash chain: the first event points to
  \<open>None\<close>, every later one to the hash of its predecessor, every stored hash is the canonical hash
  of its event with that link, and the event ids are present and pairwise different. The report
  carries the number of events and the hash of the last one.
\<close>
theorem verify_audit_chain_exact:
  "((\<exists>r. verify_audit_chain es = Inr r \<and> report_ok r) \<longleftrightarrow> linked JNull es \<and> event_ids_unique es)
   \<and> (case verify_audit_chain es of
        Inr r \<Rightarrow> report_count r = length es \<and> report_latest r = head_hash es
          \<and> report_ok r = (report_errors r = [])
      | Inl _ \<Rightarrow> True)"
proof
  show "(\<exists>r. verify_audit_chain es = Inr r \<and> report_ok r) \<longleftrightarrow> linked JNull es \<and> event_ids_unique es"
    using audit_verified_iff by (simp add: audit_verified_def)
  have "report_count r = length es \<and> report_latest r = head_hash es
      \<and> report_ok r = (report_errors r = [])" if "verify_audit_chain es = Inr r" for r
    using that by (auto simp: verify_audit_chain_def res_simps head_hash_def dest!: verify_loop_latest)
  then show "case verify_audit_chain es of
        Inr r \<Rightarrow> report_count r = length es \<and> report_latest r = head_hash es
          \<and> report_ok r = (report_errors r = [])
      | Inl _ \<Rightarrow> True"
    by (simp split: sum.split)
qed

text \<open>
  C24. The chain is tamper evident: if two verified logs end in the same hash, they record the same
  events in the same order, links included, or two events of the logs are an explicit SHA-256
  collision. In particular no event can be changed, dropped, inserted or moved under a kept head.
\<close>
theorem audit_chain_tamper_evident:
  assumes "audit_verified as" and "audit_verified bs" and "head_hash as = head_hash bs"
    and "\<forall>e \<in> set as \<union> set bs. wf_json (JObj e)"
  shows "list_all2 same_event as bs
    \<or> (\<exists>a \<in> set as. \<exists>b \<in> set bs. collides (canonical_bytes (event_body a)) (canonical_bytes (event_body b)))"
  using assms by (intro same_head_same_chain) (simp_all add: audit_verified_iff)

theorem audit_chain_tamper_evident_witness:
  "list_all2 same_event [chain_event [(u ''event_id'', js ''a'')] JNull] [chain_event [(u ''event_id'', js ''a'')] JNull]
   \<or> (\<exists>a \<in> set [chain_event [(u ''event_id'', js ''a'')] JNull]. collides (canonical_bytes (event_body a)) (canonical_bytes (event_body a)))"
proof -
  let ?e = "chain_event [(u ''event_id'', js ''a'')] JNull"
  have "audit_verified ([] @ [chain_event [(u ''event_id'', js ''a'')] (head_hash [])])"
    by (rule audit_verified_append) (simp_all add: dget_def dget_or_def)
  then have v: "audit_verified [?e]" by (simp add: head_hash_def)
  have "wf_json (JObj ?e)"
    unfolding chain_event_def Let_def by (intro wf_intros) simp_all
  with audit_chain_tamper_evident [OF v v] show ?thesis by simp
qed

text \<open>
  Whatever sequence of appends the in-memory store accepts, for events that carry no hash of
  their own, its log verifies, and it holds one entry per event, in order, each the event with its
  link and hash added.
\<close>
theorem audit_store_log_verifies:
  assumes "foldE (\<lambda>s e. bindE (AuditStore_append s e) (\<lambda>(s', _). Inr s')) [] es = Inr s"
    and "\<forall>e \<in> set es. unhashed_event e"
  shows "audit_verified (AuditStore_events s)
    \<and> list_all2 (\<lambda>c e. \<exists>p. same_dict c (chain_event e p)) (AuditStore_events s) es"
  using memory.append_all_verified [of "[]" es s] assms
  by (auto simp: memory.append_all_def AuditStore_events_def)

theorem audit_store_log_verifies_witness:
  "audit_verified [chain_event [(u ''event_id'', js ''a'')] JNull]"
proof -
  have "foldE (\<lambda>s e. bindE (AuditStore_append s e) (\<lambda>(s', _). Inr s')) [] [[(u ''event_id'', js ''a'')]]
      = Inr [chain_event [(u ''event_id'', js ''a'')] JNull]"
    by (simp add: AuditStore_append_def dget_def dget_or_def chain_event_def dset_def ddel_def AList.delete_eq
        Let_def)
  from audit_store_log_verifies [OF this] show ?thesis
    by (simp add: AuditStore_events_def unhashed_event_def dhas_def dget_def dget_or_def)
qed

text \<open>
  The restriction of the previous property is needed: for any event with an id that already
  carries an \<open>event_hash\<close> string, \<open>AuditStore\<close> accepts the event, hashes it together with the
  stale hash, and the log it has built is rejected by \<open>verify_audit_chain\<close>, unless the two
  canonical texts collide.
\<close>
theorem audit_store_stale_hash:
  assumes "wf_json (JObj e)" and "dhas e ''event_hash''"
    and "truthy (dget e ''event_id'')" and "hashable (dget e ''event_id'')"
  shows "\<exists>c. AuditStore_append [] e = Inr ([c], c) \<and>
    (\<not> audit_verified [c]
     \<or> collides (canonical_bytes (JObj (dset e ''previous_event_hash'' JNull))) (canonical_bytes (hashed_body e JNull)))"
proof -
  let ?s = "dset e ''previous_event_hash'' JNull"
  let ?c = "dset ?s ''event_hash'' (JStr (canonical_hash (JObj ?s)))"
  have body: "hashed_body ?c JNull = hashed_body e JNull"
    by (simp add: hashed_body_def dset_ddel_commute [symmetric] ddel_dset_same)
      (simp add: dset_ddel_commute dset_dset_same)
  have wf: "wf_json (JObj ?s)" "wf_json (hashed_body e JNull)"
    unfolding hashed_body_def using assms(1) by (auto intro!: wf_intros simp del: wf_json.simps(3))
  have "sort_keys (JObj ?s) \<noteq> sort_keys (hashed_body e JNull)"
  proof
    assume "sort_keys (JObj ?s) = sort_keys (hashed_body e JNull)"
    from sort_keys_JObj_lookup [OF this [unfolded hashed_body_def], of "u ''event_hash''"] wf
    have "map_option sort_keys (map_of ?s (u ''event_hash'')) = None"
      by (simp add: ddel_def hashed_body_def)
    with assms(2) show False by (auto simp: dhas_def dset_def)
  qed
  with canonical_hash_eq [OF wf] have "canonical_hash (JObj ?s) \<noteq> canonical_hash (hashed_body e JNull)
      \<or> collides (canonical_bytes (JObj ?s)) (canonical_bytes (hashed_body e JNull))" by blast
  moreover have "AuditStore_append [] e = Inr ([?c], ?c)"
    using assms(3) by (simp add: AuditStore_append_def Let_def)
  moreover have "audit_verified [?c] \<Longrightarrow> canonical_hash (JObj ?s) = canonical_hash (hashed_body e JNull)"
    by (simp add: audit_verified_iff body)
  ultimately show ?thesis by blast
qed

theorem audit_store_stale_hash_witness:
  "\<exists>c. AuditStore_append [] [(u ''event_id'', js ''a''), (u ''event_hash'', js ''h'')] = Inr ([c], c)"
  using audit_store_stale_hash [of "[(u ''event_id'', js ''a''), (u ''event_hash'', js ''h'')]"]
  by (auto simp: dhas_def dget_def dget_or_def)

end
