(* ===== verification/Schema_Validation.thy ===== *)
theory Schema_Validation
  imports Normalization
begin

text \<open>
  JSON-schema validation: the catalog of schemas (\<open>packages/shell_contracts/schema_loader.py\<close>),
  the validator of the shell core (\<open>packages/shell_core/schema_validation.py\<close>) and the one of the
  schema check (\<open>tooling/schema_check/check_schemas.py\<close>), which is the same code with a
  \<open>minimum\<close> test added: \<open>validate_with\<close> has a flag for it.

  A schema is any JSON value, as the files of \<open>specs/\<close> may hold; what raises in Python on an
  ill-formed schema raises here. The regular expressions are the three the schemas use.
\<close>

subsection \<open>Text of a file\<close>

definition py_loads :: "ustr \<Rightarrow> exn + json" where
  "py_loads s =
     (case loads s of Inr v \<Rightarrow> Inr v | Inl Decode_error \<Rightarrow> Inl JSONDecodeError | Inl _ \<Rightarrow> Inl TypeViolation)"

lemma py_loads_dumps: "wf_json j \<Longrightarrow> py_loads (dumps j) = Inr (sort_keys j)"
  by (simp add: py_loads_def loads_dumps)

lemma py_loads_dumps_indent: "wf_json j \<Longrightarrow> py_loads (dumps_indent n j) = Inr (sort_keys j)"
  by (simp add: py_loads_def loads_dumps_indent)

subsection \<open>The catalog\<close>

type_synonym catalog = "(ustr \<times> json) list"

definition ends_with :: "ustr \<Rightarrow> ustr \<Rightarrow> bool" where
  "ends_with suffix s \<longleftrightarrow> length suffix \<le> length s \<and> drop (length s - length suffix) s = suffix"

definition starts_with :: "ustr \<Rightarrow> ustr \<Rightarrow> bool" where
  "starts_with prefix s \<longleftrightarrow> take (length prefix) s = prefix"

definition SchemaCatalog_load :: "(ustr \<times> ustr) list \<Rightarrow> exn + catalog" where
  "SchemaCatalog_load specs_dir =
     mapE (\<lambda>(name, text). bindE (py_loads text) (\<lambda>v. Inr (name, v)))
       (sort_key fst (filter (\<lambda>(name, _). ends_with (u ''.schema.json'') name) specs_dir))"

definition SchemaCatalog_names :: "catalog \<Rightarrow> ustr list" where
  "SchemaCatalog_names C = sort (map fst C)"

definition SchemaCatalog_get :: "catalog \<Rightarrow> ustr \<Rightarrow> exn + json" where
  "SchemaCatalog_get C name =
     (case map_of C name of
        None \<Rightarrow> Inl (KeyErrorMsg (Msg ''schema is not loaded: {}'' [JStr name]))
      | Some s \<Rightarrow> Inr s)"

definition SchemaCatalog_require :: "catalog \<Rightarrow> ustr list \<Rightarrow> exn + unit" where
  "SchemaCatalog_require C names =
     (let missing = sort (remdups (filter (\<lambda>n. n \<notin> fst ` set C) names))
      in if missing \<noteq> [] then Inl (KeyErrorMsg (Msg ''schemas are missing: {}'' (map JStr missing)))
         else Inr ())"

subsection \<open>Single keywords\<close>

fun type_matches :: "json \<Rightarrow> json \<Rightarrow> exn + bool" where
  "type_matches v (JStr t) =
     (if t = u ''integer'' then Inr (case v of JInt _ \<Rightarrow> True | _ \<Rightarrow> False)
      else if t = u ''boolean'' then Inr (case v of JBool _ \<Rightarrow> True | _ \<Rightarrow> False)
      else if t = u ''object'' then Inr (is_dict v)
      else if t = u ''array'' then Inr (is_list v)
      else if t = u ''string'' then Inr (is_str v)
      else if t = u ''null'' then Inr (v = JNull)
      else Inl (KeyError (JStr t)))"
| "type_matches v t = Inl (if hashable t then KeyError t else TypeError)"

fun any_type :: "json \<Rightarrow> json list \<Rightarrow> exn + bool" where
  "any_type v [] = Inr False"
| "any_type v (t # ts) = bindE (type_matches v t) (\<lambda>b. if b then Inr True else any_type v ts)"

text \<open>\<open>x in c\<close> for a container of any type; \<open>n < b\<close> for an int \<open>n\<close>\<close>

fun substring :: "ustr \<Rightarrow> ustr \<Rightarrow> bool" where
  "substring s [] = (s = [])"
| "substring s (c # t) = (starts_with s (c # t) \<or> substring s t)"

fun py_contains :: "json \<Rightarrow> json \<Rightarrow> exn + bool" where
  "py_contains x (JArr xs) = Inr (py_in x xs)"
| "py_contains x (JObj d) = (case x of
     JStr s \<Rightarrow> Inr (map_of d s \<noteq> None) | _ \<Rightarrow> if hashable x then Inr False else Inl TypeError)"
| "py_contains x (JStr t) = (case x of JStr s \<Rightarrow> Inr (substring s t) | _ \<Rightarrow> Inl TypeError)"
| "py_contains x _ = Inl TypeError"

fun int_less :: "int \<Rightarrow> json \<Rightarrow> exn + bool" where
  "int_less n (JInt i) = Inr (n < i)"
| "int_less n (JBool b) = Inr (n < (if b then 1 else 0))"
| "int_less n _ = Inl TypeError"

text \<open>
  \<open>re.match(pattern, s) is not None\<close> for the patterns of \<open>specs/\<close>. A trailing \<open>$\<close> also matches
  before a line feed at the end of \<open>s\<close>. Any other pattern is outside the model.
\<close>

definition chomp :: "ustr \<Rightarrow> ustr" where
  "chomp s = (if s \<noteq> [] \<and> last s = 10 then butlast s else s)"

definition ascii_digit :: "nat \<Rightarrow> bool" where
  "ascii_digit c \<longleftrightarrow> 48 \<le> c \<and> c \<le> 57"

definition version_pattern :: "ustr \<Rightarrow> bool" where
  "version_pattern s \<longleftrightarrow>
     (let body = chomp s; rest = drop 1 body; major = takeWhile ascii_digit rest;
          tail = dropWhile ascii_digit rest; minor = drop 1 tail
      in take 1 body = u ''v'' \<and> major \<noteq> [] \<and> take 1 tail = u ''.'' \<and> minor \<noteq> []
         \<and> list_all ascii_digit minor)"

definition re_match :: "json \<Rightarrow> ustr \<Rightarrow> exn + bool" where
  "re_match pattern s =
     (if pattern = js ''^sha256:[a-f0-9]{64}$'' then Inr (sha256_tag_pattern s)
      else if pattern = js ''^(sha256:[a-f0-9]{64})?$'' then Inr (sha256_tag_pattern s \<or> chomp s = [])
      else if pattern = JStr (u ''^v[0-9]+'' @ [92] @ u ''.[0-9]+$'') then Inr (version_pattern s)
      else Inl TypeViolation)"

subsection \<open>The validator\<close>

definition when_key :: "obj \<Rightarrow> string \<Rightarrow> (json \<Rightarrow> exn + msg list) \<Rightarrow> exn + msg list" where
  "when_key schema key f = (case map_of schema (u key) of None \<Rightarrow> Inr [] | Some v \<Rightarrow> f v)"

definition complain :: "exn + bool \<Rightarrow> msg \<Rightarrow> exn + msg list" where
  "complain bad m = bindE bad (\<lambda>b. Inr (if b then [m] else []))"

definition type_accepts :: "json \<Rightarrow> obj \<Rightarrow> exn + bool" where
  "type_accepts v schema =
     (case dget schema ''type'' of
        JArr ts \<Rightarrow> any_type v ts
      | JStr t \<Rightarrow> type_matches v (JStr t)
      | _ \<Rightarrow> Inr True)"

definition check_const :: "json \<Rightarrow> obj \<Rightarrow> ustr \<Rightarrow> exn + msg list" where
  "check_const v schema path = when_key schema ''const'' (\<lambda>c.
     complain (Inr (\<not> py_eq v c)) (Msg ''{}: const {} is required'' [JStr path, c]))"

definition check_enum :: "json \<Rightarrow> obj \<Rightarrow> ustr \<Rightarrow> exn + msg list" where
  "check_enum v schema path = when_key schema ''enum'' (\<lambda>e.
     complain (bindE (py_contains v e) (\<lambda>b. Inr (\<not> b))) (Msg ''{}: value {} is not in the enum'' [JStr path, v]))"

definition check_string :: "json \<Rightarrow> obj \<Rightarrow> ustr \<Rightarrow> exn + msg list" where
  "check_string v schema path =
     (case v of
        JStr s \<Rightarrow>
          bindE (when_key schema ''minLength'' (\<lambda>m.
             complain (int_less (int (length s)) m) (Msg ''{}: shorter than minLength {}'' [JStr path, m])))
          (\<lambda>e1. bindE (when_key schema ''pattern'' (\<lambda>p.
             complain (bindE (re_match p s) (\<lambda>b. Inr (\<not> b))) (Msg ''{}: does not match pattern {}'' [JStr path, p])))
          (\<lambda>e2. Inr (e1 @ e2)))
      | _ \<Rightarrow> Inr [])"

definition check_minimum :: "json \<Rightarrow> obj \<Rightarrow> ustr \<Rightarrow> exn + msg list" where
  "check_minimum v schema path =
     (case v of
        JInt i \<Rightarrow> when_key schema ''minimum'' (\<lambda>m.
          complain (int_less i m) (Msg ''{}: below minimum {}'' [JStr path, m]))
      | _ \<Rightarrow> Inr [])"

definition check_min_items :: "json list \<Rightarrow> obj \<Rightarrow> ustr \<Rightarrow> exn + msg list" where
  "check_min_items xs schema path = when_key schema ''minItems'' (\<lambda>m.
     complain (int_less (int (length xs)) m) (Msg ''{}: fewer items than minItems {}'' [JStr path, m]))"

definition check_required :: "obj \<Rightarrow> obj \<Rightarrow> ustr \<Rightarrow> exn + msg list" where
  "check_required d schema path =
     bindE (iter_values (dget_or schema ''required'' (JArr []))) (\<lambda>keys.
       concatE (\<lambda>key. complain (bindE (py_contains key (JObj d)) (\<lambda>b. Inr (\<not> b)))
                        (Msg ''{}: required key {} is missing'' [JStr path, key])) keys)"

definition check_additional :: "obj \<Rightarrow> obj \<Rightarrow> ustr \<Rightarrow> exn + msg list" where
  "check_additional d schema path =
     (if is_false (dget_or schema ''additionalProperties'' (JBool True))
      then concatE (\<lambda>(key, _).
             complain (bindE (py_contains (JStr key) (dget_or schema ''properties'' (JObj []))) (\<lambda>b. Inr (\<not> b)))
               (Msg ''{}: additional property {} is not allowed'' [JStr path, JStr key])) d
      else Inr [])"

definition dot_path :: "ustr \<Rightarrow> ustr \<Rightarrow> ustr" where
  "dot_path path key = path @ u ''.'' @ key"

fun as_dict :: "json \<Rightarrow> exn + obj" where
  "as_dict (JObj d) = Inr d"
| "as_dict _ = Inl AttributeError"

text \<open>
  The schema of a member of a dictionary: its entry in \<open>properties\<close>, else a dictionary-valued
  \<open>additionalProperties\<close>.
\<close>

definition member_schema :: "obj \<Rightarrow> ustr \<Rightarrow> exn + json option" where
  "member_schema schema key =
     (let properties = dget_or schema ''properties'' (JObj []);
          additional = dget_or schema ''additionalProperties'' (JBool True)
      in bindE (py_contains (JStr key) properties) (\<lambda>declared.
           if declared
           then (case properties of JObj ps \<Rightarrow> Inr (map_of ps key) | _ \<Rightarrow> Inl TypeError)
           else if is_dict additional then Inr (Some additional)
           else Inr None))"

text \<open>The keywords that look at the value itself, before its elements.\<close>

definition check_value :: "bool \<Rightarrow> json \<Rightarrow> obj \<Rightarrow> ustr \<Rightarrow> exn + msg list" where
  "check_value mn v schema path =
     bindE (check_const v schema path) (\<lambda>e1.
     bindE (check_enum v schema path) (\<lambda>e2.
     bindE (check_string v schema path) (\<lambda>e3.
     bindE (if mn then check_minimum v schema path else Inr []) (\<lambda>e4.
     bindE (case v of
              JArr xs \<Rightarrow> check_min_items xs schema path
            | JObj d \<Rightarrow>
                bindE (check_required d schema path) (\<lambda>e5.
                bindE (check_additional d schema path) (\<lambda>e6. Inr (e5 @ e6)))
            | _ \<Rightarrow> Inr [])
     (\<lambda>e7. Inr (e1 @ e2 @ e3 @ e4 @ e7))))))"

function (sequential) validate_with :: "bool \<Rightarrow> json \<Rightarrow> json \<Rightarrow> ustr \<Rightarrow> exn + msg list"
  and validate_parts :: "bool \<Rightarrow> json \<Rightarrow> obj \<Rightarrow> ustr \<Rightarrow> exn + msg list"
  and validate_items :: "bool \<Rightarrow> json list \<Rightarrow> json \<Rightarrow> ustr \<Rightarrow> nat \<Rightarrow> exn + msg list"
  and validate_members :: "bool \<Rightarrow> obj \<Rightarrow> obj \<Rightarrow> ustr \<Rightarrow> exn + msg list" where
  "validate_with mn v schema path =
     bindE (as_dict schema) (\<lambda>sc.
     bindE (type_accepts v sc) (\<lambda>accepted.
     if \<not> accepted then Inr [Msg ''{}: {} is required'' [JStr path, dget sc ''type'']]
     else
       bindE (check_value mn v sc path) (\<lambda>e.
       bindE (validate_parts mn v sc path) (\<lambda>es. Inr (e @ es)))))"
| "validate_parts mn (JArr xs) schema path =
     (if is_dict (dget schema ''items'')
      then validate_items mn xs (dget schema ''items'') path 0 else Inr [])"
| "validate_parts mn (JObj d) schema path = validate_members mn d schema path"
| "validate_parts mn v schema path = Inr []"
| "validate_items mn [] item_schema path index = Inr []"
| "validate_items mn (x # xs) item_schema path index =
     bindE (validate_with mn x item_schema (index_path path index)) (\<lambda>e.
     bindE (validate_items mn xs item_schema path (Suc index)) (\<lambda>es. Inr (e @ es)))"
| "validate_members mn [] schema path = Inr []"
| "validate_members mn ((key, item) # d) schema path =
     bindE (member_schema schema key) (\<lambda>found.
     bindE (case found of
              Some sub \<Rightarrow> validate_with mn item sub (dot_path path key)
            | None \<Rightarrow> Inr [])
     (\<lambda>e. bindE (validate_members mn d schema path) (\<lambda>es. Inr (e @ es))))"
  by pat_completeness auto
termination
  by (relation "measure (\<lambda>x. case x of
        Inl (Inl (_, v, _)) \<Rightarrow> 2 * size v + 1
      | Inl (Inr (_, v, _)) \<Rightarrow> 2 * size v
      | Inr (Inl (_, xs, _)) \<Rightarrow> 2 * size_list size xs + 1
      | Inr (Inr (_, d, _)) \<Rightarrow> 2 * size_list (size_prod (\<lambda>_. 0) size) d + 1)") auto

definition validate_instance :: "json \<Rightarrow> json \<Rightarrow> ustr \<Rightarrow> exn + msg list" where
  "validate_instance = validate_with False"

definition check_schemas_validate_instance :: "json \<Rightarrow> json \<Rightarrow> ustr \<Rightarrow> exn + msg list" where
  "check_schemas_validate_instance = validate_with True"

definition validate_contract :: "catalog \<Rightarrow> obj \<Rightarrow> string \<Rightarrow> exn + unit" where
  "validate_contract C rec schema_name =
     bindE (SchemaCatalog_get C (u schema_name)) (\<lambda>schema.
     bindE (validate_instance (JObj rec) schema (u ''$'')) (\<lambda>errors.
       if errors \<noteq> []
       then Inl (ValueError (Within ''validation of {} failed: {}'' [js schema_name] (Joined errors)))
       else Inr ()))"

subsection \<open>Schemas that never make the validator raise\<close>

fun known_type :: "json \<Rightarrow> bool" where
  "known_type (JStr t) \<longleftrightarrow>
     t \<in> {u ''object'', u ''array'', u ''string'', u ''integer'', u ''boolean'', u ''null''}"
| "known_type _ \<longleftrightarrow> False"

fun is_number :: "json \<Rightarrow> bool" where
  "is_number (JInt _) \<longleftrightarrow> True"
| "is_number (JBool _) \<longleftrightarrow> True"
| "is_number _ \<longleftrightarrow> False"

definition known_pattern :: "json \<Rightarrow> bool" where
  "known_pattern p \<longleftrightarrow>
     p = js ''^sha256:[a-f0-9]{64}$'' \<or> p = js ''^(sha256:[a-f0-9]{64})?$''
     \<or> p = JStr (u ''^v[0-9]+'' @ [92] @ u ''.[0-9]+$'')"

definition keyword_ok :: "ustr \<Rightarrow> json \<Rightarrow> bool" where
  "keyword_ok k v \<longleftrightarrow>
     (k = u ''type'' \<longrightarrow> (case v of JArr ts \<Rightarrow> list_all known_type ts | JStr t \<Rightarrow> known_type v | _ \<Rightarrow> True))
     \<and> (k = u ''enum'' \<longrightarrow> is_list v)
     \<and> (k \<in> {u ''minLength'', u ''minItems'', u ''minimum''} \<longrightarrow> is_number v)
     \<and> (k = u ''pattern'' \<longrightarrow> known_pattern v)
     \<and> (k = u ''required'' \<longrightarrow> (case v of JArr ks \<Rightarrow> list_all is_str ks | _ \<Rightarrow> False))
     \<and> (k = u ''properties'' \<longrightarrow> is_dict v)"

fun wf_schema :: "json \<Rightarrow> bool" where
  "wf_schema (JObj sc) \<longleftrightarrow>
     list_all (\<lambda>(k, v). keyword_ok k v
       \<and> (k \<in> {u ''items'', u ''additionalProperties''} \<longrightarrow> is_dict v \<longrightarrow> wf_schema v)
       \<and> (k = u ''properties'' \<longrightarrow> (case v of JObj ps \<Rightarrow> list_all (\<lambda>(_, p). wf_schema p) ps | _ \<Rightarrow> False))) sc"
| "wf_schema _ \<longleftrightarrow> False"

declare wf_schema.simps [simp del]

lemma wf_schema_JObj: "wf_schema s \<Longrightarrow> \<exists>sc. s = JObj sc"
  by (cases s) (simp_all add: wf_schema.simps)

definition returns :: "'e + 'a \<Rightarrow> bool" where
  "returns m \<longleftrightarrow> (\<exists>x. m = Inr x)"

lemma returns_simps [simp]: "returns (Inr x)" "\<not> returns (Inl e)"
  by (simp_all add: returns_def)

lemma returns_bindE [intro]: "returns m \<Longrightarrow> (\<And>x. m = Inr x \<Longrightarrow> returns (f x)) \<Longrightarrow> returns (bindE m f)"
  by (auto simp: returns_def)

lemma returns_concatE: "(\<And>x. x \<in> set xs \<Longrightarrow> returns (f x)) \<Longrightarrow> returns (concatE f xs)"
  by (induction xs) (auto intro!: returns_bindE)

lemma returns_complain [simp]: "returns (complain b m) = returns b"
  by (cases b) (auto simp: complain_def)

lemma returns_bindE_Inr [simp]: "returns (bindE m (\<lambda>x. Inr (f x))) = returns m"
  by (cases m) auto

lemma returns_type_matches: "known_type t \<Longrightarrow> returns (type_matches v t)"
  by (cases t) auto

lemma returns_any_type: "list_all known_type ts \<Longrightarrow> returns (any_type v ts)"
  by (induction ts) (auto intro!: returns_bindE simp: returns_type_matches)

lemma returns_int_less: "is_number m \<Longrightarrow> returns (int_less i m)"
  by (cases m) auto

lemma returns_re_match: "known_pattern p \<Longrightarrow> returns (re_match p s)"
  by (auto simp: known_pattern_def re_match_def)

lemma returns_when_key:
  "(\<And>v. map_of schema (u key) = Some v \<Longrightarrow> returns (f v)) \<Longrightarrow> returns (when_key schema key f)"
  by (simp add: when_key_def split: option.splits)

lemma wf_schema_entry:
  assumes "wf_schema (JObj sc)" and "map_of sc k = Some v"
  shows "keyword_ok k v
    \<and> (k \<in> {u ''items'', u ''additionalProperties''} \<longrightarrow> is_dict v \<longrightarrow> wf_schema v)
    \<and> (k = u ''properties'' \<longrightarrow> (case v of JObj ps \<Rightarrow> list_all (\<lambda>(_, p). wf_schema p) ps | _ \<Rightarrow> False))"
proof -
  from assms(1) have all: "list_all (\<lambda>(k, v). keyword_ok k v
       \<and> (k \<in> {u ''items'', u ''additionalProperties''} \<longrightarrow> is_dict v \<longrightarrow> wf_schema v)
       \<and> (k = u ''properties'' \<longrightarrow> (case v of JObj ps \<Rightarrow> list_all (\<lambda>(_, p). wf_schema p) ps | _ \<Rightarrow> False))) sc"
    by (simp only: wf_schema.simps)
  from map_of_SomeD [OF assms(2)] all show ?thesis
    unfolding list_all_iff by blast
qed

lemma wf_schema_keyword:
  "wf_schema (JObj sc) \<Longrightarrow> map_of sc k = Some v \<Longrightarrow> keyword_ok k v"
  by (drule (1) wf_schema_entry) blast

lemma wf_schema_items:
  "wf_schema (JObj sc) \<Longrightarrow> is_dict (dget sc ''items'') \<Longrightarrow> wf_schema (dget sc ''items'')"
  using wf_schema_entry [of sc "u ''items''"]
  by (cases "map_of sc (u ''items'')") (simp_all add: dget_def dget_or_def)

lemma wf_schema_additional:
  assumes "wf_schema (JObj sc)" and "is_dict (dget_or sc ''additionalProperties'' (JBool True))"
  shows "wf_schema (dget_or sc ''additionalProperties'' (JBool True))"
  using assms wf_schema_entry [of sc "u ''additionalProperties''"]
  by (cases "map_of sc (u ''additionalProperties'')") (simp_all add: dget_or_def)

lemma wf_schema_properties:
  assumes "wf_schema (JObj sc)"
  shows "\<exists>ps. dget_or sc ''properties'' (JObj []) = JObj ps \<and> (\<forall>k p. map_of ps k = Some p \<longrightarrow> wf_schema p)"
proof (cases "map_of sc (u ''properties'')")
  case (Some v)
  with wf_schema_entry [OF assms Some] obtain ps where "v = JObj ps" "list_all (\<lambda>(_, p). wf_schema p) ps"
    by (cases v) auto
  with Some show ?thesis
    by (auto simp: dget_or_def list_all_iff dest!: map_of_SomeD)
qed (simp add: dget_or_def)

lemma returns_type_accepts:
  assumes "wf_schema (JObj sc)"
  shows "returns (type_accepts v sc)"
proof -
  have "keyword_ok (u ''type'') (dget sc ''type'')"
    using wf_schema_keyword [OF assms, of "u ''type''"]
    by (cases "map_of sc (u ''type'')") (auto simp: dget_def dget_or_def keyword_ok_def)
  then show ?thesis
    by (cases "dget sc ''type''")
      (simp_all add: type_accepts_def keyword_ok_def returns_any_type returns_type_matches del: type_matches.simps)
qed

lemma returns_check_value:
  assumes wf: "wf_schema (JObj sc)"
  shows "returns (check_value mn v sc path)"
proof -
  note kw = wf_schema_keyword [OF wf]
  have "returns (check_const v sc path)"
    by (auto simp: check_const_def intro!: returns_when_key)
  moreover have "returns (check_enum v sc path)"
    using kw [of "u ''enum''"]
    by (auto simp: check_enum_def keyword_ok_def is_list_iff intro!: returns_when_key)
  moreover have "returns (check_string v sc path)"
    using kw [of "u ''minLength''"] kw [of "u ''pattern''"]
    by (cases v) (auto simp: check_string_def keyword_ok_def
        intro!: returns_when_key returns_bindE returns_int_less returns_re_match)
  moreover have "returns (check_minimum v sc path)"
    using kw [of "u ''minimum''"]
    by (cases v) (auto simp: check_minimum_def keyword_ok_def intro!: returns_when_key returns_int_less)
  moreover have "returns (check_min_items xs sc path)" for xs
    using kw [of "u ''minItems''"]
    by (auto simp: check_min_items_def keyword_ok_def intro!: returns_when_key returns_int_less)
  moreover have "returns (check_required d sc path)" for d
    using kw [of "u ''required''"]
    by (auto simp: check_required_def keyword_ok_def dget_or_def list_all_iff is_str_iff
        intro!: returns_concatE returns_bindE split: option.splits json.splits)
  moreover have "returns (check_additional d sc path)" for d
    using kw [of "u ''properties''"]
    by (auto simp: check_additional_def keyword_ok_def dget_or_def is_dict_iff
        intro!: returns_concatE split: option.splits)
  ultimately show ?thesis
    by (auto simp: check_value_def intro!: returns_bindE split: json.splits)
qed

lemma returns_member_schema:
  assumes "wf_schema (JObj sc)"
  shows "\<exists>found. member_schema sc key = Inr found \<and> (\<forall>sub. found = Some sub \<longrightarrow> wf_schema sub)"
  using wf_schema_additional [OF assms] wf_schema_properties [OF assms]
  by (auto simp: member_schema_def Let_def)

text \<open>
  C21. Validation against a well-formed schema never raises: whatever value is checked, both
  validators return a list of findings.
\<close>
theorem validator_total:
  assumes "wf_schema schema"
  shows "\<exists>errors. validate_with mn v schema path = Inr errors"
proof -
  have "wf_schema schema \<Longrightarrow> returns (validate_with mn v schema path)"
    and "wf_schema (JObj sc) \<Longrightarrow> returns (validate_parts mn v sc path)"
    and "wf_schema item \<Longrightarrow> returns (validate_items mn xs item path i)"
    and "wf_schema (JObj sc) \<Longrightarrow> returns (validate_members mn d sc path)"
    for mn v schema path sc item xs i d
  proof (induction mn v schema path and mn v sc path and mn xs item path i and mn d sc path
      rule: validate_with_validate_parts_validate_items_validate_members.induct)
    case (1 mn v schema path)
    then obtain sc where "schema = JObj sc" using wf_schema_JObj by blast
    with 1 show ?case
      by (auto intro!: returns_bindE returns_type_accepts returns_check_value)
  next
    case (2 mn xs schema path)
    then show ?case using wf_schema_items by auto
  next
    case (8 mn key item d schema path)
    then show ?case
      using returns_member_schema [of schema key] by (auto intro!: returns_bindE split: option.splits)
  qed (auto intro!: returns_bindE)
  with assms show ?thesis by (auto simp: returns_def)
qed

theorem validator_total_witness:
  "\<exists>errors. validate_with False (JInt 3) (JObj [(u ''type'', js ''string'')]) (u ''$'') = Inr errors"
  by (rule validator_total) (simp add: wf_schema.simps keyword_ok_def)

subsection \<open>What acceptance gives\<close>

definition accepts :: "json \<Rightarrow> json \<Rightarrow> bool" where
  "accepts schema v \<longleftrightarrow> (\<exists>path. validate_with False v schema path = Inr [])"

lemma validate_clean:
  "validate_with mn v (JObj sc) path = Inr [] \<longleftrightarrow>
     type_accepts v sc = Inr True \<and> check_value mn v sc path = Inr [] \<and> validate_parts mn v sc path = Inr []"
  by (auto simp: res_simps split: if_splits)

declare validate_with.simps [simp del]

lemma check_value_clean:
  "check_value mn v sc path = Inr [] \<Longrightarrow>
     check_const v sc path = Inr [] \<and> check_enum v sc path = Inr [] \<and> check_string v sc path = Inr []
     \<and> (mn \<longrightarrow> check_minimum v sc path = Inr [])
     \<and> (\<forall>d. v = JObj d \<longrightarrow> check_required d sc path = Inr [] \<and> check_additional d sc path = Inr [])"
  by (auto simp: check_value_def res_simps)

lemma complain_clean [res_simps]: "complain b m = Inr [] \<longleftrightarrow> b = Inr False"
  by (auto simp: complain_def res_simps)

lemma members_clean:
  "validate_members mn d sc path = Inr [] \<Longrightarrow> map_of d k = Some x \<Longrightarrow>
     member_schema sc k = Inr (Some sub) \<Longrightarrow> \<exists>q. validate_with mn x sub q = Inr []"
  by (induction d) (auto simp: res_simps split: if_splits)

lemma accepts_member:
  assumes "accepts (JObj sc) (JObj d)" and "dget_or sc ''properties'' (JObj []) = JObj ps"
    and "map_of ps (u k) = Some sub" and "dhas d k"
  shows "accepts sub (dget d k)"
  using assms members_clean [of False d sc _ "u k"]
  by (fastforce simp: accepts_def validate_clean member_schema_def dhas_def dget_def dget_or_def)

lemma accepts_object_checks:
  assumes "accepts (JObj sc) (JObj d)"
  shows "\<exists>path. check_required d sc path = Inr [] \<and> check_additional d sc path = Inr []"
  using assms by (auto simp: accepts_def validate_clean dest!: check_value_clean)

lemma accepts_required:
  assumes "accepts (JObj sc) (JObj d)" and "dget_or sc ''required'' (JArr []) = JArr ks"
    and "js k \<in> set ks"
  shows "dhas d k"
proof -
  from accepts_object_checks [OF assms(1)] obtain path where "check_required d sc path = Inr []" by blast
  with assms(2) have "\<forall>key \<in> set ks. bindE (py_contains key (JObj d)) (\<lambda>b. Inr (\<not> b)) = Inr False"
    by (simp add: check_required_def concatE_eq_Nil complain_clean)
  from bspec [OF this assms(3)] show ?thesis by (simp add: dhas_def)
qed

lemma accepts_no_additional:
  assumes "accepts (JObj sc) (JObj d)" and "dget_or sc ''properties'' (JObj []) = JObj ps"
    and "dget_or sc ''additionalProperties'' (JBool True) = JBool False"
  shows "fst ` set d \<subseteq> fst ` set ps"
proof -
  from accepts_object_checks [OF assms(1)] obtain path where "check_additional d sc path = Inr []" by blast
  with assms(2,3) have "\<forall>(key, _) \<in> set d. map_of ps key \<noteq> None"
    by (simp add: check_additional_def concatE_eq_Nil complain_clean is_false_def case_prod_unfold)
  then show ?thesis by (force simp: map_of_eq_None_iff)
qed

lemma accepts_string:
  assumes "accepts (JObj sc) v" and "dget sc ''type'' = js ''string''"
  shows "\<exists>s. v = JStr s
    \<and> (map_of sc (u ''minLength'') = Some (JInt 1) \<longrightarrow> s \<noteq> [])
    \<and> (\<forall>es. map_of sc (u ''enum'') = Some (JArr es) \<longrightarrow> JStr s \<in> set es)
    \<and> (\<forall>p. map_of sc (u ''pattern'') = Some p \<longrightarrow> re_match p s = Inr True)"
proof -
  from assms obtain s where v: "v = JStr s"
    by (auto simp: accepts_def validate_clean type_accepts_def is_str_iff)
  from assms(1) obtain path where c: "check_enum v sc path = Inr []" "check_string v sc path = Inr []"
    by (auto simp: accepts_def validate_clean dest!: check_value_clean)
  show ?thesis
    using c v by (auto simp: check_enum_def check_string_def when_key_def res_simps py_in_def list_ex_iff
        split: option.splits)
qed

lemma accepts_const:
  "accepts (JObj sc) v \<Longrightarrow> map_of sc (u ''const'') = Some c \<Longrightarrow> py_eq v c"
  by (auto simp: accepts_def validate_clean check_const_def when_key_def res_simps dest!: check_value_clean)

lemma accepts_boolean:
  "accepts (JObj sc) v \<Longrightarrow> dget sc ''type'' = js ''boolean'' \<Longrightarrow> \<exists>b. v = JBool b"
  by (auto simp: accepts_def validate_clean type_accepts_def split: json.splits)

lemma accepts_object:
  "accepts (JObj sc) v \<Longrightarrow> dget sc ''type'' = js ''object'' \<Longrightarrow> \<exists>d. v = JObj d"
  by (auto simp: accepts_def validate_clean type_accepts_def is_dict_iff)

lemma accepts_array:
  assumes "accepts (JObj sc) v" and "dget sc ''type'' = js ''array''"
    and "dget sc ''items'' = JObj [(u ''type'', js ''string'')]"
  shows "\<exists>ss. v = JArr (map JStr ss)"
proof -
  from assms obtain xs path where v: "v = JArr xs"
      and items: "validate_items False xs (JObj [(u ''type'', js ''string'')]) path 0 = Inr []"
    by (auto simp: accepts_def validate_clean type_accepts_def is_list_iff)
  have "validate_items False xs (JObj [(u ''type'', js ''string'')]) path i = Inr [] \<Longrightarrow> list_all is_str xs" for i
    by (induction xs arbitrary: i)
      (auto simp: res_simps validate_clean type_accepts_def dget_def dget_or_def)
  with items have "\<forall>x \<in> set xs. \<exists>s. x = JStr s" by (auto simp: list_all_iff is_str_iff)
  then obtain f where "\<forall>x \<in> set xs. x = JStr (f x)" by metis
  then have "xs = map JStr (map f xs)" by (auto intro!: map_idI [symmetric])
  with v show ?thesis by blast
qed

lemma validate_contract_accepts:
  assumes "SchemaCatalog_get C (u name) = Inr schema"
  shows "validate_contract C rec name = Inr () \<Longrightarrow> accepts schema (JObj rec)"
  using assms by (auto simp: validate_contract_def validate_instance_def accepts_def res_simps split: if_splits)

subsection \<open>The two validators\<close>

lemma all_keys_entry: "map_of sc k = Some v \<Longrightarrow> set (all_keys v) \<subseteq> set (all_keys (JObj sc))"
  by (fastforce dest: map_of_SomeD)

lemma all_keys_member_schema:
  assumes "member_schema sc k = Inr (Some sub)"
  shows "set (all_keys sub) \<subseteq> set (all_keys (JObj sc))"
proof -
  consider ps where "map_of sc (u ''properties'') = Some (JObj ps)" "map_of ps k = Some sub"
    | "map_of sc (u ''additionalProperties'') = Some sub"
    using assms
    by (auto simp: member_schema_def Let_def dget_or_def res_simps
        split: option.splits json.splits if_splits)
  then show ?thesis
  proof cases
    case 1
    with all_keys_entry [OF 1(1)] all_keys_entry [OF 1(2)] show ?thesis by (rule_tac subset_trans)
  next
    case 2
    then show ?thesis by (rule all_keys_entry)
  qed
qed

lemma check_value_minimum:
  "u ''minimum'' \<notin> set (all_keys (JObj sc)) \<Longrightarrow> check_value True v sc path = check_value False v sc path"
proof -
  assume "u ''minimum'' \<notin> set (all_keys (JObj sc))"
  then have "map_of sc (u ''minimum'') = None"
    by (force simp: map_of_eq_None_iff)
  then have "check_minimum v sc path = Inr []"
    by (cases v) (simp_all add: check_minimum_def when_key_def)
  then show ?thesis by (simp add: check_value_def)
qed

lemma check_value_weaker:
  "check_value True v sc path = Inr [] \<Longrightarrow> check_value False v sc path = Inr []"
  by (auto simp: check_value_def res_simps)

lemma validate_no_minimum:
  assumes "u ''minimum'' \<notin> set (all_keys schema)"
  shows "validate_with True v schema path = validate_with False v schema path"
proof -
  let ?free = "\<lambda>v. u ''minimum'' \<notin> set (all_keys v)"
  have "?free schema \<Longrightarrow> mn \<Longrightarrow> validate_with True v schema path = validate_with False v schema path"
    and "?free (JObj sc) \<Longrightarrow> mn \<Longrightarrow> validate_parts True v sc path = validate_parts False v sc path"
    and "?free item \<Longrightarrow> mn \<Longrightarrow> validate_items True xs item path i = validate_items False xs item path i"
    and "?free (JObj sc) \<Longrightarrow> mn \<Longrightarrow> validate_members True d sc path = validate_members False d sc path"
    for mn v schema path sc item xs i d
  proof (induction mn v schema path and mn v sc path and mn xs item path i and mn d sc path
      rule: validate_with_validate_parts_validate_items_validate_members.induct)
    case (1 mn v schema path)
    show ?case
    proof (cases schema)
      case (JObj sc)
      have "validate_parts True v sc path = validate_parts False v sc path"
        using "1.IH" "1.prems" JObj by blast
      then show ?thesis
        using check_value_minimum [of sc v path] "1.prems"(1) JObj
        by (simp add: validate_with.simps del: all_keys.simps cong: if_cong)
    qed (simp_all add: validate_with.simps)
  next
    case (2 mn xs schema path)
    have "?free (dget schema ''items'')" if "is_dict (dget schema ''items'')"
      using "2.prems"(1) that all_keys_entry [of schema "u ''items''" "dget schema ''items''"]
      by (auto simp: dget_def dget_or_def split: option.splits simp del: all_keys.simps)
    with 2 show ?case by simp
  next
    case (8 mn key item d schema path)
    have sub: "validate_with True item sub (dot_path path key) = validate_with False item sub (dot_path path key)"
      if "member_schema schema key = Inr (Some sub)" for sub
      using "8.IH"(1) all_keys_member_schema [OF that] "8.prems" by blast
    have "validate_members True d schema path = validate_members False d schema path"
      using "8.IH"(2) "8.prems" by blast
    then show ?case
      by (cases "member_schema schema key") (auto simp: sub split: option.splits)
  qed (auto simp del: all_keys.simps)
  with assms show ?thesis by blast
qed

lemma validate_weaker:
  assumes "validate_with True v schema path = Inr []"
  shows "validate_with False v schema path = Inr []"
proof -
  have "validate_with mn v schema path = Inr [] \<Longrightarrow> mn \<Longrightarrow> validate_with False v schema path = Inr []"
    and "validate_parts mn v sc path = Inr [] \<Longrightarrow> mn \<Longrightarrow> validate_parts False v sc path = Inr []"
    and "validate_items mn xs item path i = Inr [] \<Longrightarrow> mn \<Longrightarrow> validate_items False xs item path i = Inr []"
    and "validate_members mn d sc path = Inr [] \<Longrightarrow> mn \<Longrightarrow> validate_members False d sc path = Inr []"
    for mn v schema path sc item xs i d
  proof (induction mn v schema path and mn v sc path and mn xs item path i and mn d sc path
      rule: validate_with_validate_parts_validate_items_validate_members.induct)
    case (1 mn v schema path)
    then show ?case
      by (cases schema)
        (auto simp: validate_with.simps res_simps intro: check_value_weaker split: if_splits)
  next
    case (8 mn key item d schema path)
    then show ?case by (auto simp: res_simps split: option.splits)
  qed (auto simp: res_simps)
  with assms show ?thesis by blast
qed



end
