(* ===== verification/Contracts.thy ===== *)
theory Contracts
  imports Schema_Validation
begin

text \<open>
  The schemas of \<open>specs/\<close> that the shell core validates its records against, as
  \<open>load_default_catalog\<close> reads them. Keywords the validators do not read (\<open>$schema\<close>, \<open>$id\<close>,
  \<open>title\<close>, \<open>description\<close>, \<open>format\<close>, \<open>default\<close>) are left out.
\<close>

definition runtime_schema :: json where
  "runtime_schema = JObj [(u ''type'', js ''object''),
    (u ''required'', JArr [js ''runtime_id'', js ''name'', js ''kind'', js ''status'', js ''adapter_id'']),
    (u ''additionalProperties'', JBool False),
    (u ''properties'', JObj [
      (u ''runtime_id'', JObj [(u ''type'', js ''string''), (u ''minLength'', JInt 1)]),
      (u ''name'', JObj [(u ''type'', js ''string''), (u ''minLength'', JInt 1)]),
      (u ''kind'', JObj [(u ''type'', js ''string''), (u ''enum'', JArr [js ''agent'', js ''tool'', js ''local_service'', js ''remote_service'', js ''reference_runtime''])]),
      (u ''status'', JObj [(u ''type'', js ''string''), (u ''enum'', JArr [js ''unknown'', js ''offline'', js ''starting'', js ''ready'', js ''degraded'', js ''failed'', js ''stopped''])]),
      (u ''adapter_id'', JObj [(u ''type'', js ''string''), (u ''minLength'', JInt 1)]),
      (u ''version'', JObj [(u ''type'', js ''string'')]),
      (u ''endpoints'', JObj [(u ''type'', js ''object''),
    (u ''additionalProperties'', JObj [(u ''type'', js ''string'')])]),
      (u ''capabilities'', JObj [(u ''type'', js ''array''), (u ''items'', JObj [(u ''type'', js ''string'')])]),
      (u ''diagnostic_summary'', JObj [(u ''type'', js ''string'')])])]"

definition adapter_schema :: json where
  "adapter_schema = JObj [(u ''type'', js ''object''),
    (u ''required'', JArr [js ''adapter_id'', js ''runtime_id'', js ''contract_version'', js ''authority_strip'']),
    (u ''additionalProperties'', JBool False),
    (u ''properties'', JObj [
      (u ''adapter_id'', JObj [(u ''type'', js ''string''), (u ''minLength'', JInt 1)]),
      (u ''runtime_id'', JObj [(u ''type'', js ''string''), (u ''minLength'', JInt 1)]),
      (u ''contract_version'', JObj [(u ''type'', js ''string''), (u ''pattern'', JStr (u ''^v[0-9]+'' @ [92] @ u ''.[0-9]+$''))]),
      (u ''transport'', JObj [(u ''type'', js ''string''), (u ''enum'', JArr [js ''http'', js ''stdio'', js ''ipc'', js ''mock''])]),
      (u ''authority_strip'', JObj [(u ''type'', js ''boolean''), (u ''const'', JBool True)]),
      (u ''content_exposure_policy_id'', JObj [(u ''type'', js ''string'')]),
      (u ''declared_capabilities'', JObj [(u ''type'', js ''array''), (u ''items'', JObj [(u ''type'', js ''string'')])]),
      (u ''metadata'', JObj [(u ''type'', js ''object''),
    (u ''additionalProperties'', JBool True)])])]"

definition capability_schema :: json where
  "capability_schema = JObj [(u ''type'', js ''object''),
    (u ''required'', JArr [js ''capability_id'', js ''runtime_id'', js ''name'', js ''risk_level'', js ''default_permission'', js ''operations'']),
    (u ''additionalProperties'', JBool False),
    (u ''properties'', JObj [
      (u ''capability_id'', JObj [(u ''type'', js ''string''), (u ''minLength'', JInt 1)]),
      (u ''runtime_id'', JObj [(u ''type'', js ''string''), (u ''minLength'', JInt 1)]),
      (u ''name'', JObj [(u ''type'', js ''string''), (u ''minLength'', JInt 1)]),
      (u ''description'', JObj [(u ''type'', js ''string'')]),
      (u ''risk_level'', JObj [(u ''type'', js ''string''), (u ''enum'', JArr [js ''low'', js ''medium'', js ''high'', js ''critical''])]),
      (u ''default_permission'', JObj [(u ''type'', js ''string''), (u ''enum'', JArr [js ''deny'', js ''ask'', js ''allow''])]),
      (u ''requires_approval'', JObj [(u ''type'', js ''boolean'')]),
      (u ''operations'', JObj [(u ''type'', js ''array''), (u ''items'', JObj [(u ''type'', js ''string''), (u ''minLength'', JInt 1)]), (u ''minItems'', JInt 1)])])]"

definition permission_schema :: json where
  "permission_schema = JObj [(u ''type'', js ''object''),
    (u ''required'', JArr [js ''permission_id'', js ''runtime_id'', js ''capability_id'', js ''operation'', js ''target_scope'', js ''scope'', js ''decision'', js ''source'']),
    (u ''additionalProperties'', JBool False),
    (u ''properties'', JObj [
      (u ''permission_id'', JObj [(u ''type'', js ''string''), (u ''minLength'', JInt 1)]),
      (u ''runtime_id'', JObj [(u ''type'', js ''string''), (u ''minLength'', JInt 1)]),
      (u ''capability_id'', JObj [(u ''type'', js ''string''), (u ''minLength'', JInt 1)]),
      (u ''operation'', JObj [(u ''type'', js ''string''), (u ''minLength'', JInt 1)]),
      (u ''target_scope'', JObj [(u ''type'', js ''string''), (u ''minLength'', JInt 1)]),
      (u ''scope'', JObj [(u ''type'', js ''string''), (u ''enum'', JArr [js ''operation'', js ''target'', js ''session'', js ''time_window'', js ''global''])]),
      (u ''decision'', JObj [(u ''type'', js ''string''), (u ''enum'', JArr [js ''deny'', js ''ask'', js ''allow''])]),
      (u ''source'', JObj [(u ''type'', js ''string''), (u ''enum'', JArr [js ''user'', js ''policy'', js ''runtime'', js ''system_default''])]),
      (u ''expires_at'', JObj [(u ''type'', JArr [js ''string'', js ''null''])]),
      (u ''constraints'', JObj [(u ''type'', js ''object''),
    (u ''additionalProperties'', JBool True)])])]"

definition approval_schema :: json where
  "approval_schema = JObj [(u ''type'', js ''object''),
    (u ''required'', JArr [js ''approval_id'', js ''runtime_id'', js ''operation'', js ''target_scope'', js ''status'', js ''content_visibility'', js ''payload_hash'', js ''editable_fields'']),
    (u ''additionalProperties'', JBool False),
    (u ''properties'', JObj [
      (u ''approval_id'', JObj [(u ''type'', js ''string''), (u ''minLength'', JInt 1)]),
      (u ''runtime_id'', JObj [(u ''type'', js ''string''), (u ''minLength'', JInt 1)]),
      (u ''operation'', JObj [(u ''type'', js ''string''), (u ''minLength'', JInt 1)]),
      (u ''target_scope'', JObj [(u ''type'', js ''string''), (u ''minLength'', JInt 1)]),
      (u ''status'', JObj [(u ''type'', js ''string''), (u ''enum'', JArr [js ''pending'', js ''approved'', js ''rejected'', js ''expired'', js ''requires_validation''])]),
      (u ''content_visibility'', JObj [(u ''type'', js ''string''), (u ''enum'', JArr [js ''none'', js ''hash_only'', js ''summary'', js ''redacted'', js ''full''])]),
      (u ''payload_hash'', JObj [(u ''type'', js ''string''), (u ''pattern'', js ''^sha256:[a-f0-9]{64}$'')]),
      (u ''summary'', JObj [(u ''type'', js ''string'')]),
      (u ''redacted_payload'', JObj [(u ''type'', js ''object''),
    (u ''additionalProperties'', JBool True)]),
      (u ''full_payload'', JObj [(u ''type'', js ''object''),
    (u ''additionalProperties'', JBool True)]),
      (u ''editable_fields'', JObj [(u ''type'', js ''array''), (u ''items'', JObj [(u ''type'', js ''string'')])]),
      (u ''sealed_fields'', JObj [(u ''type'', js ''array''), (u ''items'', JObj [(u ''type'', js ''string'')])]),
      (u ''hidden_fields'', JObj [(u ''type'', js ''array''), (u ''items'', JObj [(u ''type'', js ''string'')])]),
      (u ''sacred_fields'', JObj [(u ''type'', js ''array''), (u ''items'', JObj [(u ''type'', js ''string'')])]),
      (u ''authority_fields'', JObj [(u ''type'', js ''array''), (u ''items'', JObj [(u ''type'', js ''string'')])])])]"

definition audit_schema :: json where
  "audit_schema = JObj [(u ''type'', js ''object''),
    (u ''required'', JArr [js ''event_id'', js ''timestamp'', js ''actor'', js ''action'', js ''target'', js ''result'', js ''payload_hash'']),
    (u ''additionalProperties'', JBool False),
    (u ''properties'', JObj [
      (u ''event_id'', JObj [(u ''type'', js ''string''), (u ''minLength'', JInt 1)]),
      (u ''timestamp'', JObj [(u ''type'', js ''string'')]),
      (u ''actor'', JObj [(u ''type'', js ''string''), (u ''enum'', JArr [js ''user'', js ''shell'', js ''runtime'', js ''adapter'', js ''rust_helper''])]),
      (u ''action'', JObj [(u ''type'', js ''string''), (u ''minLength'', JInt 1)]),
      (u ''target'', JObj [(u ''type'', js ''string''), (u ''minLength'', JInt 1)]),
      (u ''result'', JObj [(u ''type'', js ''string''), (u ''enum'', JArr [js ''success'', js ''denied'', js ''failed'', js ''suspended''])]),
      (u ''payload_hash'', JObj [(u ''type'', js ''string''), (u ''pattern'', js ''^sha256:[a-f0-9]{64}$'')]),
      (u ''previous_event_hash'', JObj [(u ''type'', JArr [js ''string'', js ''null'']), (u ''pattern'', js ''^(sha256:[a-f0-9]{64})?$'')]),
      (u ''metadata'', JObj [(u ''type'', js ''object''),
    (u ''additionalProperties'', JBool True)])])]"

definition recovery_schema :: json where
  "recovery_schema = JObj [(u ''type'', js ''object''),
    (u ''required'', JArr [js ''recovery_id'', js ''runtime_id'', js ''operation'', js ''class'', js ''severity'', js ''user_visible_message'', js ''safe_to_retry'']),
    (u ''additionalProperties'', JBool False),
    (u ''properties'', JObj [
      (u ''recovery_id'', JObj [(u ''type'', js ''string''), (u ''minLength'', JInt 1)]),
      (u ''runtime_id'', JObj [(u ''type'', js ''string''), (u ''minLength'', JInt 1)]),
      (u ''operation'', JObj [(u ''type'', js ''string''), (u ''minLength'', JInt 1)]),
      (u ''class'', JObj [(u ''type'', js ''string''), (u ''enum'', JArr [js ''configuration'', js ''dependency'', js ''runtime_down'', js ''permission_denied'', js ''network'', js ''filesystem'', js ''unknown''])]),
      (u ''severity'', JObj [(u ''type'', js ''string''), (u ''enum'', JArr [js ''info'', js ''warning'', js ''error'', js ''critical''])]),
      (u ''user_visible_message'', JObj [(u ''type'', js ''string''), (u ''minLength'', JInt 1)]),
      (u ''safe_to_retry'', JObj [(u ''type'', js ''boolean'')]),
      (u ''steps'', JObj [(u ''type'', js ''array''), (u ''items'', JObj [(u ''type'', js ''string'')])]),
      (u ''requires_user_action'', JObj [(u ''type'', js ''boolean'')])])]"

definition update_schema :: json where
  "update_schema = JObj [(u ''type'', js ''object''),
    (u ''required'', JArr [js ''policy_id'', js ''channel'', js ''auto_update'', js ''signature_required'']),
    (u ''additionalProperties'', JBool False),
    (u ''properties'', JObj [
      (u ''policy_id'', JObj [(u ''type'', js ''string''), (u ''minLength'', JInt 1)]),
      (u ''channel'', JObj [(u ''type'', js ''string''), (u ''enum'', JArr [js ''stable'', js ''beta'', js ''dev'', js ''pinned''])]),
      (u ''auto_update'', JObj [(u ''type'', js ''boolean'')]),
      (u ''signature_required'', JObj [(u ''type'', js ''boolean''), (u ''const'', JBool True)]),
      (u ''rollback_enabled'', JObj [(u ''type'', js ''boolean'')])])]"

definition action_envelope_schema :: json where
  "action_envelope_schema = JObj [(u ''type'', js ''object''),
    (u ''required'', JArr [js ''envelope_id'', js ''runtime_id'', js ''operation'', js ''capability_id'', js ''permission_id'', js ''approval_id'', js ''recovery_id'', js ''target_scope'', js ''payload_hash'', js ''authority_source'', js ''audit_event_required'']),
    (u ''additionalProperties'', JBool False),
    (u ''properties'', JObj [
      (u ''envelope_id'', JObj [(u ''type'', js ''string''), (u ''minLength'', JInt 1)]),
      (u ''runtime_id'', JObj [(u ''type'', js ''string''), (u ''minLength'', JInt 1)]),
      (u ''operation'', JObj [(u ''type'', js ''string''), (u ''minLength'', JInt 1)]),
      (u ''capability_id'', JObj [(u ''type'', js ''string''), (u ''minLength'', JInt 1)]),
      (u ''permission_id'', JObj [(u ''type'', js ''string''), (u ''minLength'', JInt 1)]),
      (u ''approval_id'', JObj [(u ''type'', js ''string''), (u ''minLength'', JInt 1)]),
      (u ''recovery_id'', JObj [(u ''type'', js ''string''), (u ''minLength'', JInt 1)]),
      (u ''target_scope'', JObj [(u ''type'', js ''string''), (u ''minLength'', JInt 1)]),
      (u ''payload_hash'', JObj [(u ''type'', js ''string''), (u ''pattern'', js ''^sha256:[a-f0-9]{64}$'')]),
      (u ''authority_source'', JObj [(u ''type'', js ''string''), (u ''enum'', JArr [js ''broker_internal'', js ''user'', js ''policy'', js ''runtime''])]),
      (u ''audit_event_required'', JObj [(u ''type'', js ''boolean''), (u ''const'', JBool True)]),
      (u ''metadata'', JObj [(u ''type'', js ''object''),
    (u ''additionalProperties'', JBool True)])])]"

definition repo_specs :: catalog where
  "repo_specs =
    [(u ''runtime.schema.json'', runtime_schema),
     (u ''adapter.schema.json'', adapter_schema),
     (u ''capability.schema.json'', capability_schema),
     (u ''permission.schema.json'', permission_schema),
     (u ''approval.schema.json'', approval_schema),
     (u ''audit.schema.json'', audit_schema),
     (u ''recovery.schema.json'', recovery_schema),
     (u ''update.schema.json'', update_schema),
     (u ''action_envelope.schema.json'', action_envelope_schema)]"

lemmas schema_defs = runtime_schema_def adapter_schema_def capability_schema_def permission_schema_def approval_schema_def audit_schema_def recovery_schema_def update_schema_def action_envelope_schema_def

lemma repo_specs_get:
  "SchemaCatalog_get repo_specs (u ''runtime.schema.json'') = Inr runtime_schema"
  "SchemaCatalog_get repo_specs (u ''adapter.schema.json'') = Inr adapter_schema"
  "SchemaCatalog_get repo_specs (u ''capability.schema.json'') = Inr capability_schema"
  "SchemaCatalog_get repo_specs (u ''permission.schema.json'') = Inr permission_schema"
  "SchemaCatalog_get repo_specs (u ''approval.schema.json'') = Inr approval_schema"
  "SchemaCatalog_get repo_specs (u ''audit.schema.json'') = Inr audit_schema"
  "SchemaCatalog_get repo_specs (u ''recovery.schema.json'') = Inr recovery_schema"
  "SchemaCatalog_get repo_specs (u ''update.schema.json'') = Inr update_schema"
  "SchemaCatalog_get repo_specs (u ''action_envelope.schema.json'') = Inr action_envelope_schema"
  by (simp_all add: SchemaCatalog_get_def repo_specs_def)

lemma wf_repo_schemas:
  "wf_schema runtime_schema"
  "wf_schema adapter_schema"
  "wf_schema capability_schema"
  "wf_schema permission_schema"
  "wf_schema approval_schema"
  "wf_schema audit_schema"
  "wf_schema recovery_schema"
  "wf_schema update_schema"
  "wf_schema action_envelope_schema"
  by (simp_all add: schema_defs wf_schema.simps keyword_ok_def known_pattern_def cong: u_cong)

text \<open>A field that is required and declared a non-empty string is one in every accepted record.\<close>

definition id_schema :: json where
  "id_schema = JObj [(u ''type'', js ''string''), (u ''minLength'', JInt 1)]"

fun declares_id :: "json \<Rightarrow> string \<Rightarrow> bool" where
  "declares_id (JObj sc) f \<longleftrightarrow>
     (case (dget_or sc ''required'' (JArr []), dget_or sc ''properties'' (JObj [])) of
        (JArr ks, JObj ps) \<Rightarrow> js f \<in> set ks \<and> map_of ps (u f) = Some id_schema
      | _ \<Rightarrow> False)"
| "declares_id _ f \<longleftrightarrow> False"

definition nonempty_str :: "json \<Rightarrow> bool" where
  "nonempty_str v \<longleftrightarrow> (\<exists>s. v = JStr s \<and> s \<noteq> [])"

lemma nonempty_str_simps [simp]:
  "nonempty_str (JStr s) = (s \<noteq> [])" "\<not> nonempty_str JNull"
  by (simp_all add: nonempty_str_def)

lemma declares_id_accepted:
  assumes "declares_id schema f" and "accepts schema (JObj d)"
  shows "dhas d f \<and> nonempty_str (dget d f)"
proof -
  obtain sc ks ps where sc: "schema = JObj sc" "dget_or sc ''required'' (JArr []) = JArr ks"
    "dget_or sc ''properties'' (JObj []) = JObj ps" "js f \<in> set ks" "map_of ps (u f) = Some id_schema"
    using assms(1) by (cases schema) (auto split: json.splits)
  then have "dhas d f" using accepts_required assms(2) by blast
  moreover from this have "accepts id_schema (dget d f)"
    using accepts_member [OF assms(2) [unfolded sc(1)] sc(3,5)] by blast
  from accepts_string [OF this [unfolded id_schema_def]] have "nonempty_str (dget d f)"
    by (auto simp: dget_def dget_or_def)
  ultimately show ?thesis by blast
qed

lemma contract_ids:
  "declares_id runtime_schema ''runtime_id''"
  "declares_id adapter_schema ''adapter_id''" "declares_id adapter_schema ''runtime_id''"
  "declares_id capability_schema ''capability_id''" "declares_id capability_schema ''runtime_id''"
  "declares_id permission_schema ''permission_id''" "declares_id permission_schema ''runtime_id''"
  "declares_id permission_schema ''operation''" "declares_id permission_schema ''capability_id''"
  "declares_id permission_schema ''target_scope''"
  "declares_id approval_schema ''approval_id''" "declares_id approval_schema ''runtime_id''"
  "declares_id approval_schema ''operation''" "declares_id approval_schema ''target_scope''"
  "declares_id audit_schema ''event_id''" "declares_id audit_schema ''action''"
  "declares_id recovery_schema ''recovery_id''" "declares_id recovery_schema ''runtime_id''"
  "declares_id recovery_schema ''operation''"
  "declares_id update_schema ''policy_id''"
  by (simp_all add: schema_defs dget_or_def id_schema_def cong: u_cong)

lemma accepted_status:
  assumes "accepts approval_schema (JObj a)"
  shows "\<exists>s. dget a ''status'' = JStr s"
proof -
  have h: "dhas a ''status''"
    by (rule accepts_required [OF assms [unfolded approval_schema_def]]) (simp add: dget_or_def)+
  have "accepts (JObj [(u ''type'', js ''string''), (u ''enum'', JArr [js ''pending'', js ''approved'',
      js ''rejected'', js ''expired'', js ''requires_validation''])]) (dget a ''status'')"
    by (rule accepts_member [OF assms [unfolded approval_schema_def] _ _ h]) (simp add: dget_or_def)+
  from accepts_string [OF this] show ?thesis by (auto simp: dget_def [of "_ # _"] dget_or_def)
qed

lemma accepted_decision:
  assumes "accepts permission_schema (JObj p)"
  shows "dget p ''decision'' \<in> {js ''deny'', js ''ask'', js ''allow''}"
proof -
  have h: "dhas p ''decision''"
    by (rule accepts_required [OF assms [unfolded permission_schema_def]]) (simp add: dget_or_def)+
  have "accepts (JObj [(u ''type'', js ''string''), (u ''enum'', JArr [js ''deny'', js ''ask'', js ''allow''])])
      (dget p ''decision'')"
    by (rule accepts_member [OF assms [unfolded permission_schema_def] _ _ h]) (simp add: dget_or_def)+
  from accepts_string [OF this] show ?thesis by (auto simp: dget_def [of "_ # _"] dget_or_def)
qed

lemma accepted_operations:
  assumes "accepts capability_schema (JObj c)"
  shows "\<exists>ops. dget c ''operations'' = JArr ops"
proof -
  have h: "dhas c ''operations''"
    by (rule accepts_required [OF assms [unfolded capability_schema_def]]) (simp add: dget_or_def)+
  have "accepts (JObj [(u ''type'', js ''array''), (u ''items'', JObj [(u ''type'', js ''string''),
      (u ''minLength'', JInt 1)]), (u ''minItems'', JInt 1)]) (dget c ''operations'')"
    by (rule accepts_member [OF assms [unfolded capability_schema_def] _ _ h]) (simp add: dget_or_def)+
  then show ?thesis
    by (auto simp: accepts_def validate_clean type_accepts_def is_list_iff dget_def [of "_ # _"] dget_or_def)
qed

lemmas schema_eval = validate_contract_def repo_specs_get validate_instance_def validate_with.simps
  type_accepts_def check_value_def check_const_def check_enum_def check_string_def check_min_items_def
  check_required_def check_additional_def member_schema_def when_key_def complain_def dget_def dget_or_def
  is_false_def py_in_def

text \<open>A record each of some contracts, accepted by evaluation of the validator.\<close>

definition sample_policy :: obj where
  "sample_policy = [(u ''policy_id'', js ''p''), (u ''channel'', js ''stable''),
     (u ''auto_update'', JBool False), (u ''signature_required'', JBool True)]"

definition sample_event :: obj where
  "sample_event = [(u ''event_id'', js ''e''), (u ''timestamp'', js ''t''), (u ''actor'', js ''shell''),
     (u ''action'', js ''a''), (u ''target'', js ''b''), (u ''result'', js ''success''),
     (u ''payload_hash'', JStr (canonical_hash JNull))]"

definition sample_adapter :: obj where
  "sample_adapter = [(u ''adapter_id'', js ''a''), (u ''runtime_id'', js ''r''),
     (u ''contract_version'', js ''v1.0''), (u ''authority_strip'', JBool True),
     (u ''metadata'', JObj [(u ''Trust_Level'', js ''root''), (u ''label'', js ''x'')])]"

definition sample_approval :: obj where
  "sample_approval = [(u ''approval_id'', js ''a''), (u ''runtime_id'', js ''r''), (u ''operation'', js ''o''),
     (u ''target_scope'', js ''t''), (u ''status'', js ''pending''), (u ''content_visibility'', js ''none''),
     (u ''payload_hash'', JStr (canonical_hash JNull)), (u ''editable_fields'', JArr [js ''f''])]"

lemma re_match_eval:
  "re_match (js ''^sha256:[a-f0-9]{64}$'') s = Inr (sha256_tag_pattern s)"
  "re_match (JStr (u ''^v[0-9]+'' @ 92 # u ''.[0-9]+$'')) s = Inr (version_pattern s)"
  by (simp_all add: re_match_def) (simp add: u_def)

lemma version_pattern_v1: "version_pattern (u ''v1.0'')"
  by (simp add: version_pattern_def chomp_def ascii_digit_def u_def)

lemma samples_accepted:
  "validate_contract repo_specs sample_policy ''update.schema.json'' = Inr ()"
  "validate_contract repo_specs sample_event ''audit.schema.json'' = Inr ()"
  "validate_contract repo_specs sample_adapter ''adapter.schema.json'' = Inr ()"
  "validate_contract repo_specs sample_approval ''approval.schema.json'' = Inr ()"
  by (simp_all add: schema_eval sample_policy_def sample_event_def sample_adapter_def sample_approval_def
      update_schema_def audit_schema_def adapter_schema_def approval_schema_def re_match_eval canonical_hash_matches
      version_pattern_v1 cong: u_cong)

end
