(* ===== verification/Runtime_State.thy ===== *)
theory Runtime_State
  imports Contracts Stores
begin

text \<open>
  The state the broker owns (\<open>packages/shell_core/runtime_state.py\<close>) and the adapter loader
  (\<open>adapter_loader.py\<close>). Every operation validates its record against a schema of the catalog
  before it stores it. \<open>state_step\<close> is one operation, \<open>state_reached\<close> any history of them.
\<close>

subsection \<open>Adapters\<close>

record adapter_record =
  adp_id :: json
  adp_runtime_id :: json
  adp_contract_version :: json
  adp_transport :: json
  adp_declared_capabilities :: "json list"
  adp_metadata :: json

definition load_adapter :: "ucd \<Rightarrow> obj \<Rightarrow> exn + adapter_record" where
  "load_adapter U adapter =
     (if \<not> is_true (dget adapter ''authority_strip'')
      then Inl (ValueError (Msg ''an adapter must declare authority_strip=true'' []))
      else
        bindE (ditem adapter ''adapter_id'') (\<lambda>aid.
        bindE (ditem adapter ''runtime_id'') (\<lambda>rid.
        bindE (ditem adapter ''contract_version'') (\<lambda>version.
        bindE (iter_values (dget_or adapter ''declared_capabilities'' (JArr []))) (\<lambda>caps.
        let metadata = strip_authority_keys U (dget_or adapter ''metadata'' (JObj []))
        in if authority_values_in U [] metadata \<noteq> []
           then Inl (ValueError (Msg ''adapter metadata has values mistaken for authority'' []))
           else Inr \<lparr>adp_id = aid, adp_runtime_id = rid, adp_contract_version = version,
                     adp_transport = dget_or adapter ''transport'' (js ''mock''),
                     adp_declared_capabilities = caps, adp_metadata = metadata\<rparr>)))))"

definition effective_capabilities :: "adapter_record \<Rightarrow> json list" where
  "effective_capabilities r = adp_declared_capabilities r"

subsection \<open>RuntimeState\<close>

record runtime_state =
  runtimes :: store
  adapters :: store
  capabilities :: store
  permissions :: store
  approvals :: store
  audit_events :: store
  recovery_actions :: store
  update_policies :: store

definition RuntimeState_init :: runtime_state where
  "RuntimeState_init =
     \<lparr>runtimes = [], adapters = [], capabilities = [], permissions = [], approvals = [],
      audit_events = [], recovery_actions = [], update_policies = []\<rparr>"

definition register_runtime :: "catalog \<Rightarrow> runtime_state \<Rightarrow> obj \<Rightarrow> exn + runtime_state" where
  "register_runtime C S r =
     bindE (validate_contract C r ''runtime.schema.json'') (\<lambda>_.
     bindE (store_put ''runtime_id'' (runtimes S) r) (\<lambda>s. Inr (S\<lparr>runtimes := s\<rparr>)))"

definition adapter_entry :: "adapter_record \<Rightarrow> obj" where
  "adapter_entry r =
     [(u ''adapter_id'', adp_id r), (u ''runtime_id'', adp_runtime_id r),
      (u ''contract_version'', adp_contract_version r), (u ''transport'', adp_transport r),
      (u ''authority_strip'', JBool True),
      (u ''declared_capabilities'', JArr (adp_declared_capabilities r)),
      (u ''metadata'', adp_metadata r)]"

definition register_adapter :: "ucd \<Rightarrow> catalog \<Rightarrow> runtime_state \<Rightarrow> obj \<Rightarrow> exn + runtime_state" where
  "register_adapter U C S adapter =
     bindE (validate_contract C adapter ''adapter.schema.json'') (\<lambda>_.
     bindE (load_adapter U adapter) (\<lambda>r.
     bindE (as_key (adp_id r)) (\<lambda>k.
       Inr (S\<lparr>adapters := AList.update k (adapter_entry r) (adapters S)\<rparr>))))"

definition register_capability :: "catalog \<Rightarrow> runtime_state \<Rightarrow> obj \<Rightarrow> exn + runtime_state" where
  "register_capability C S r =
     bindE (validate_contract C r ''capability.schema.json'') (\<lambda>_.
     bindE (store_put ''capability_id'' (capabilities S) r) (\<lambda>s. Inr (S\<lparr>capabilities := s\<rparr>)))"

definition record_permission :: "catalog \<Rightarrow> runtime_state \<Rightarrow> obj \<Rightarrow> exn + runtime_state" where
  "record_permission C S r =
     bindE (validate_contract C r ''permission.schema.json'') (\<lambda>_.
     bindE (store_put ''permission_id'' (permissions S) r) (\<lambda>s. Inr (S\<lparr>permissions := s\<rparr>)))"

definition enqueue_approval :: "catalog \<Rightarrow> runtime_state \<Rightarrow> obj \<Rightarrow> exn + runtime_state" where
  "enqueue_approval C S r =
     bindE (validate_contract C r ''approval.schema.json'') (\<lambda>_.
     bindE (store_put ''approval_id'' (approvals S) r) (\<lambda>s. Inr (S\<lparr>approvals := s\<rparr>)))"

definition append_audit_event :: "catalog \<Rightarrow> runtime_state \<Rightarrow> obj \<Rightarrow> exn + runtime_state" where
  "append_audit_event C S r =
     bindE (validate_contract C r ''audit.schema.json'') (\<lambda>_.
     bindE (ditem r ''event_id'') (\<lambda>event_id.
     bindE (hash_lookup (audit_events S) event_id) (\<lambda>found.
       if found \<noteq> None then Inl (ValueError (Msg ''duplicate audit event_id: {}'' [event_id]))
       else bindE (store_put ''event_id'' (audit_events S) r) (\<lambda>s. Inr (S\<lparr>audit_events := s\<rparr>)))))"

definition register_recovery_action :: "catalog \<Rightarrow> runtime_state \<Rightarrow> obj \<Rightarrow> exn + runtime_state" where
  "register_recovery_action C S r =
     bindE (validate_contract C r ''recovery.schema.json'') (\<lambda>_.
     bindE (store_put ''recovery_id'' (recovery_actions S) r) (\<lambda>s. Inr (S\<lparr>recovery_actions := s\<rparr>)))"

definition register_update_policy :: "catalog \<Rightarrow> runtime_state \<Rightarrow> obj \<Rightarrow> exn + runtime_state" where
  "register_update_policy C S r =
     bindE (validate_contract C r ''update.schema.json'') (\<lambda>_.
     bindE (store_put ''policy_id'' (update_policies S) r) (\<lambda>s. Inr (S\<lparr>update_policies := s\<rparr>)))"

text \<open>\<open>x in {..}\<close> for a set of constants: a value that cannot be hashed raises.\<close>

definition in_set_of :: "json \<Rightarrow> json list \<Rightarrow> exn + bool" where
  "in_set_of v xs = (if hashable v then Inr (py_in v xs) else Inl TypeError)"

definition pending_approvals :: "runtime_state \<Rightarrow> exn + obj list" where
  "pending_approvals S =
     concatE (\<lambda>r. bindE (in_set_of (dget r ''status'') [js ''pending'', js ''requires_validation''])
                    (\<lambda>b. Inr (if b then [r] else [])))
       (sorted_records (approvals S))"

definition clone :: "runtime_state \<Rightarrow> runtime_state" where
  "clone S =
     \<lparr>runtimes = runtimes S, adapters = adapters S, capabilities = capabilities S,
      permissions = permissions S, approvals = approvals S, audit_events = audit_events S,
      recovery_actions = recovery_actions S, update_policies = update_policies S\<rparr>"

subsection \<open>Histories\<close>

inductive state_step :: "ucd \<Rightarrow> catalog \<Rightarrow> runtime_state \<Rightarrow> runtime_state \<Rightarrow> bool"
  for U :: ucd and C :: catalog where
  step_runtime: "register_runtime C S r = Inr S' \<Longrightarrow> state_step U C S S'"
| step_adapter: "register_adapter U C S r = Inr S' \<Longrightarrow> state_step U C S S'"
| step_capability: "register_capability C S r = Inr S' \<Longrightarrow> state_step U C S S'"
| step_permission: "record_permission C S r = Inr S' \<Longrightarrow> state_step U C S S'"
| step_approval: "enqueue_approval C S r = Inr S' \<Longrightarrow> state_step U C S S'"
| step_audit: "append_audit_event C S r = Inr S' \<Longrightarrow> state_step U C S S'"
| step_recovery: "register_recovery_action C S r = Inr S' \<Longrightarrow> state_step U C S S'"
| step_update: "register_update_policy C S r = Inr S' \<Longrightarrow> state_step U C S S'"

inductive_cases state_stepE: "state_step U C S S'"

inductive state_run :: "ucd \<Rightarrow> catalog \<Rightarrow> runtime_state \<Rightarrow> runtime_state \<Rightarrow> bool"
  for U :: ucd and C :: catalog and S :: runtime_state where
  run_refl: "state_run U C S S"
| run_step: "state_run U C S T \<Longrightarrow> state_step U C T T' \<Longrightarrow> state_run U C S T'"

text \<open>
  The invariant of the state: every store is keyed by the id of its records and holds records its
  schema accepts; stored adapters have no authority values in their metadata.
\<close>

definition accepted_store :: "string \<Rightarrow> json \<Rightarrow> store \<Rightarrow> bool" where
  "accepted_store field schema s \<longleftrightarrow>
     keyed_by field s \<and> list_all (\<lambda>(k, r). accepts schema (JObj r)) s"

definition adapters_safe :: "ucd \<Rightarrow> store \<Rightarrow> bool" where
  "adapters_safe U s \<longleftrightarrow>
     keyed_by ''adapter_id'' s
     \<and> list_all (\<lambda>(k, r). is_true (dget r ''authority_strip'')
         \<and> (\<exists>m. dget r ''metadata'' = strip_authority_keys U m)
         \<and> authority_values_in U [] (dget r ''metadata'') = []) s"

definition state_ok :: "ucd \<Rightarrow> runtime_state \<Rightarrow> bool" where
  "state_ok U S \<longleftrightarrow>
     accepted_store ''runtime_id'' runtime_schema (runtimes S)
     \<and> adapters_safe U (adapters S)
     \<and> accepted_store ''capability_id'' capability_schema (capabilities S)
     \<and> accepted_store ''permission_id'' permission_schema (permissions S)
     \<and> accepted_store ''approval_id'' approval_schema (approvals S)
     \<and> accepted_store ''event_id'' audit_schema (audit_events S)
     \<and> accepted_store ''recovery_id'' recovery_schema (recovery_actions S)
     \<and> accepted_store ''policy_id'' update_schema (update_policies S)"

lemma accepted_store_put:
  assumes "validate_contract repo_specs r name = Inr ()" and "SchemaCatalog_get repo_specs (u name) = Inr schema"
    and "store_put field s r = Inr s'" and "accepted_store field schema s"
  shows "accepted_store field schema s'"
  using assms validate_contract_accepts [OF assms(2) assms(1)]
  by (auto simp: accepted_store_def store_put_eq_Inr intro!: keyed_by_update list_all_update)

lemma state_ok_init: "state_ok U RuntimeState_init"
  by (simp add: state_ok_def RuntimeState_init_def accepted_store_def adapters_safe_def)

lemma adapter_entry_safe:
  assumes "load_adapter U adapter = Inr r" and "adp_id r = JStr k" and "adapters_safe U s"
  shows "adapters_safe U (AList.update k (adapter_entry r) s)"
  using assms
  by (auto simp: load_adapter_def Let_def res_simps adapters_safe_def adapter_entry_def dget_def dget_or_def
      dhas_def is_true_def intro!: keyed_by_update list_all_update split: if_splits)

text \<open>Each operation, when it succeeds, is one validated insertion.\<close>

lemma state_ops_Inr:
  "register_runtime C S r = Inr S' \<longleftrightarrow> validate_contract C r ''runtime.schema.json'' = Inr ()
     \<and> (\<exists>s. store_put ''runtime_id'' (runtimes S) r = Inr s \<and> S' = S\<lparr>runtimes := s\<rparr>)"
  "register_capability C S r = Inr S' \<longleftrightarrow> validate_contract C r ''capability.schema.json'' = Inr ()
     \<and> (\<exists>s. store_put ''capability_id'' (capabilities S) r = Inr s \<and> S' = S\<lparr>capabilities := s\<rparr>)"
  "record_permission C S r = Inr S' \<longleftrightarrow> validate_contract C r ''permission.schema.json'' = Inr ()
     \<and> (\<exists>s. store_put ''permission_id'' (permissions S) r = Inr s \<and> S' = S\<lparr>permissions := s\<rparr>)"
  "enqueue_approval C S r = Inr S' \<longleftrightarrow> validate_contract C r ''approval.schema.json'' = Inr ()
     \<and> (\<exists>s. store_put ''approval_id'' (approvals S) r = Inr s \<and> S' = S\<lparr>approvals := s\<rparr>)"
  "register_recovery_action C S r = Inr S' \<longleftrightarrow> validate_contract C r ''recovery.schema.json'' = Inr ()
     \<and> (\<exists>s. store_put ''recovery_id'' (recovery_actions S) r = Inr s \<and> S' = S\<lparr>recovery_actions := s\<rparr>)"
  "register_update_policy C S r = Inr S' \<longleftrightarrow> validate_contract C r ''update.schema.json'' = Inr ()
     \<and> (\<exists>s. store_put ''policy_id'' (update_policies S) r = Inr s \<and> S' = S\<lparr>update_policies := s\<rparr>)"
  "register_adapter U C S r = Inr S' \<longleftrightarrow> validate_contract C r ''adapter.schema.json'' = Inr ()
     \<and> (\<exists>a k. load_adapter U r = Inr a \<and> adp_id a = JStr k
          \<and> S' = S\<lparr>adapters := AList.update k (adapter_entry a) (adapters S)\<rparr>)"
  "append_audit_event C S r = Inr S' \<longleftrightarrow> validate_contract C r ''audit.schema.json'' = Inr ()
     \<and> (\<exists>k. dhas r ''event_id'' \<and> dget r ''event_id'' = JStr k \<and> map_of (audit_events S) k = None
          \<and> S' = S\<lparr>audit_events := audit_events S @ [(k, r)]\<rparr>)"
proof -
  show "append_audit_event C S r = Inr S' \<longleftrightarrow> validate_contract C r ''audit.schema.json'' = Inr ()
     \<and> (\<exists>k. dhas r ''event_id'' \<and> dget r ''event_id'' = JStr k \<and> map_of (audit_events S) k = None
          \<and> S' = S\<lparr>audit_events := audit_events S @ [(k, r)]\<rparr>)"
    by (cases "dget r ''event_id''")
      (auto simp: append_audit_event_def res_simps store_put_eq_Inr
        update_notin [OF map_of_eq_None_iff [THEN iffD1]] split: if_splits)
qed (auto simp: register_runtime_def register_adapter_def register_capability_def record_permission_def
  enqueue_approval_def register_recovery_action_def register_update_policy_def res_simps)

lemma accepted_store_append:
  assumes "validate_contract repo_specs r ''audit.schema.json'' = Inr ()"
    and "dhas r ''event_id''" "dget r ''event_id'' = JStr k" "map_of s k = None"
    and "accepted_store ''event_id'' audit_schema s"
  shows "accepted_store ''event_id'' audit_schema (s @ [(k, r)])"
proof -
  have "store_put ''event_id'' s r = Inr (s @ [(k, r)])"
    using assms by (simp add: store_put_eq_Inr update_notin map_of_eq_None_iff)
  from accepted_store_put [OF assms(1) repo_specs_get(6) this assms(5)] show ?thesis .
qed

lemma state_ok_step: "state_step U repo_specs S S' \<Longrightarrow> state_ok U S \<Longrightarrow> state_ok U S'"
proof (induction rule: state_step.induct)
  case (step_runtime S r S')
  then show ?case using accepted_store_put [OF _ repo_specs_get(1)] by (auto simp: state_ops_Inr state_ok_def)
next
  case (step_adapter S r S')
  then show ?case using adapter_entry_safe by (auto simp: state_ops_Inr state_ok_def)
next
  case (step_capability S r S')
  then show ?case using accepted_store_put [OF _ repo_specs_get(3)] by (auto simp: state_ops_Inr state_ok_def)
next
  case (step_permission S r S')
  then show ?case using accepted_store_put [OF _ repo_specs_get(4)] by (auto simp: state_ops_Inr state_ok_def)
next
  case (step_approval S r S')
  then show ?case using accepted_store_put [OF _ repo_specs_get(5)] by (auto simp: state_ops_Inr state_ok_def)
next
  case (step_audit S r S')
  then show ?case using accepted_store_append by (auto simp: state_ops_Inr state_ok_def)
next
  case (step_recovery S r S')
  then show ?case using accepted_store_put [OF _ repo_specs_get(7)] by (auto simp: state_ops_Inr state_ok_def)
next
  case (step_update S r S')
  then show ?case using accepted_store_put [OF _ repo_specs_get(8)] by (auto simp: state_ops_Inr state_ok_def)
qed

lemma state_ok_run: "state_run U repo_specs S S' \<Longrightarrow> state_ok U S \<Longrightarrow> state_ok U S'"
  by (induction rule: state_run.induct) (auto intro: state_ok_step)

lemma audit_step_prefix:
  "state_step U C S S' \<Longrightarrow> \<exists>es. audit_events S' = audit_events S @ es"
  by (erule state_stepE) (auto simp: state_ops_Inr)

lemma audit_run_prefix: "state_run U C S S' \<Longrightarrow> \<exists>es. audit_events S' = audit_events S @ es"
  by (induction rule: state_run.induct) (auto dest: audit_step_prefix)

lemma accepted_storeD:
  "accepted_store field schema s \<Longrightarrow> map_of s k = Some r \<Longrightarrow>
     dhas r field \<and> dget r field = JStr k \<and> accepts schema (JObj r)"
  by (fastforce simp: accepted_store_def keyed_by_def list_all_iff dest: map_of_SomeD)

lemma run_one: "state_step U C S S' \<Longrightarrow> state_run U C S S'"
  by (rule run_step [OF run_refl])

lemma pending_approvals_eq:
  assumes "accepted_store ''approval_id'' approval_schema (approvals S)"
  shows "pending_approvals S = Inr (filter (\<lambda>a. dget a ''status'' \<in> {js ''pending'', js ''requires_validation''})
    (sorted_records (approvals S)))"
proof -
  let ?P = "\<lambda>a. dget a ''status'' \<in> {js ''pending'', js ''requires_validation''}"
  have "hashable (dget a ''status'')" if "(k, a) \<in> set (approvals S)" for k a
  proof -
    have "accepts approval_schema (JObj a)"
      using assms that by (auto simp: accepted_store_def list_all_iff)
    from accepted_status [OF this] show ?thesis by auto
  qed
  then have "pending_approvals S = Inr (concat (map (\<lambda>a. if ?P a then [a] else []) (sorted_records (approvals S))))"
    unfolding pending_approvals_def
    by (intro concatE_total) (auto simp: sorted_records_def in_set_of_def py_in_def)
  also have "concat (map (\<lambda>a. if ?P a then [a] else []) xs) = filter ?P xs" for xs
    by (induction xs) auto
  finally show ?thesis .
qed

subsection \<open>Properties\<close>



text \<open>
  C38. The audit store only grows: whatever operations run, the events stored before stay, unchanged
  and in order, in front of the new ones, and no two stored events share an id.
\<close>
theorem audit_append_only:
  assumes "state_run U repo_specs S S'" and "state_ok U S"
  shows "(\<exists>es. audit_events S' = audit_events S @ es) \<and> distinct (map fst (audit_events S'))"
  using audit_run_prefix [OF assms(1)] state_ok_run [OF assms]
  by (simp add: state_ok_def accepted_store_def keyed_by_def)

theorem audit_append_only_witness:
  "distinct (map fst (audit_events (RuntimeState_init\<lparr>audit_events := [(u ''e'', sample_event)]\<rparr>)))"
proof -
  have "append_audit_event repo_specs RuntimeState_init sample_event
      = Inr (RuntimeState_init\<lparr>audit_events := [(u ''e'', sample_event)]\<rparr>)"
    by (simp add: state_ops_Inr samples_accepted RuntimeState_init_def)
      (simp add: sample_event_def dhas_def dget_def dget_or_def)
  from audit_append_only [OF run_one [OF step_audit [OF this]] state_ok_init [of ascii_ucd]]
  show ?thesis by blast
qed



text \<open>
  On every reachable state \<open>pending_approvals\<close> returns, without raising and in increasing order of
  approval id, exactly the stored approvals whose status is \<open>pending\<close> or \<open>requires_validation\<close>.
\<close>
theorem pending_approvals_exact:
  assumes "state_run U repo_specs RuntimeState_init S"
  shows "\<exists>ps. pending_approvals S = Inr ps
    \<and> (\<exists>ks. map (\<lambda>a. dget a ''approval_id'') ps = map JStr ks \<and> sorted ks \<and> distinct ks)
    \<and> (\<forall>a. a \<in> set ps \<longleftrightarrow> (\<exists>k. map_of (approvals S) k = Some a)
         \<and> dget a ''status'' \<in> {js ''pending'', js ''requires_validation''})"
proof -
  let ?P = "\<lambda>a. dget a ''status'' \<in> {js ''pending'', js ''requires_validation''}"
  let ?s = "sort_key fst (approvals S)"
  have ok: "accepted_store ''approval_id'' approval_schema (approvals S)"
    using state_ok_run [OF assms state_ok_init] by (simp add: state_ok_def)
  have eq: "pending_approvals S = Inr (filter ?P (map snd ?s))"
    using pending_approvals_eq [OF ok] by (simp add: sorted_records_def)
  have ids: "map (\<lambda>a. dget a ''approval_id'') (filter ?P (map snd ?s))
      = map JStr (map fst (filter (\<lambda>(k, a). ?P a) ?s))"
    using ok by (auto simp: accepted_store_def keyed_by_def list_all_iff filter_map comp_def case_prod_unfold)
  have "distinct (map fst ?s)" using ok by (simp add: accepted_store_def keyed_by_def)
  then have "distinct (map fst (filter (\<lambda>(k, a). ?P a) ?s))" "sorted (map fst (filter (\<lambda>(k, a). ?P a) ?s))"
    by (auto simp: distinct_map inj_on_def intro: sorted_filter)
  with ids have "\<exists>ks. map (\<lambda>a. dget a ''approval_id'') (filter ?P (map snd ?s)) = map JStr ks \<and> sorted ks \<and> distinct ks"
    by blast
  moreover have "a \<in> snd ` set (approvals S) \<longleftrightarrow> (\<exists>k. map_of (approvals S) k = Some a)" for a
    using ok by (force simp: accepted_store_def keyed_by_def map_of_eq_Some_iff)
  ultimately show ?thesis
    by (intro exI [of _ "filter ?P (map snd ?s)"]) (auto simp: eq)
qed

theorem pending_approvals_exact_witness:
  "\<exists>ps. pending_approvals (RuntimeState_init\<lparr>approvals := [(u ''a'', sample_approval)]\<rparr>) = Inr ps
     \<and> sample_approval \<in> set ps"
proof -
  let ?S = "RuntimeState_init\<lparr>approvals := [(u ''a'', sample_approval)]\<rparr>"
  have "enqueue_approval repo_specs RuntimeState_init sample_approval = Inr ?S"
    by (simp add: state_ops_Inr samples_accepted store_put_eq_Inr RuntimeState_init_def)
      (simp add: sample_approval_def dhas_def dget_def dget_or_def)
  from pending_approvals_exact [OF run_one [OF step_approval [OF this]]]
  obtain ps where "pending_approvals ?S = Inr ps"
    "sample_approval \<in> set ps \<longleftrightarrow> (\<exists>k. map_of (approvals ?S) k = Some sample_approval)
         \<and> dget sample_approval ''status'' \<in> {js ''pending'', js ''requires_validation''}" by blast
  moreover have "dget sample_approval ''status'' = js ''pending''"
    by (simp add: sample_approval_def dget_def dget_or_def)
  ultimately show ?thesis by auto
qed

end
