(* ===== verification/Policy.thy ===== *)
theory Policy
  imports Runtime_State
begin

text \<open>
  The decision whether a sensitive action may run: the action envelope
  (\<open>packages/shell_core/action_envelope.py\<close>), the policy evaluator (\<open>policy_evaluator.py\<close>) and the
  router in front of it (\<open>sensitive_action_router.py\<close>). Each block of checks of \<open>evaluate\<close> is one
  definition that returns the errors the block appends; the exceptions are those of a lookup with
  an id that cannot be hashed.
\<close>

subsection \<open>The envelope\<close>

definition build_action_envelope :: "catalog \<Rightarrow> obj \<Rightarrow> ustr \<Rightarrow> exn + obj" where
  "build_action_envelope C action envelope_id =
     bindE (ditem action ''runtime_id'') (\<lambda>runtime_id.
     bindE (ditem action ''operation'') (\<lambda>operation.
     bindE (ditem action ''capability_id'') (\<lambda>capability_id.
     bindE (ditem action ''permission_id'') (\<lambda>permission_id.
     bindE (ditem action ''approval_id'') (\<lambda>approval_id.
     bindE (bindE (ditem action ''recovery_action'') (\<lambda>r. jitem r ''recovery_id'')) (\<lambda>recovery_id.
     bindE (ditem action ''target_scope'') (\<lambda>target_scope.
     let envelope =
          [(u ''envelope_id'', JStr envelope_id), (u ''runtime_id'', runtime_id),
           (u ''operation'', operation), (u ''capability_id'', capability_id),
           (u ''permission_id'', permission_id), (u ''approval_id'', approval_id),
           (u ''recovery_id'', recovery_id), (u ''target_scope'', target_scope),
           (u ''payload_hash'', JStr (canonical_hash (dget action ''payload''))),
           (u ''authority_source'', js ''broker_internal''), (u ''audit_event_required'', JBool True),
           (u ''metadata'', JObj [(u ''evidence_class'', js ''INTERNAL_STATE'')])]
     in bindE (validate_contract C envelope ''action_envelope.schema.json'') (\<lambda>_. Inr envelope))))))))"

definition default_envelope_id :: ustr where
  "default_envelope_id = u ''action-envelope-evaluated''"

subsection \<open>The checks of evaluate\<close>

type_synonym checked = "exn + shell_core_error list"

definition report_if :: "bool \<Rightarrow> ustr \<Rightarrow> msg \<Rightarrow> json \<Rightarrow> shell_core_error list" where
  "report_if b code m operation = (if b then [shell_error code m operation] else [])"

definition ALLOWED_PERMISSION_DECISIONS :: "json list" where
  "ALLOWED_PERMISSION_DECISIONS = [js ''allow'', js ''approved'']"

definition has_payload :: "obj \<Rightarrow> bool" where
  "has_payload action \<longleftrightarrow> dhas action ''payload'' \<or> dhas action ''full_payload'' \<or> dhas action ''redacted_payload''"

definition mismatches :: "obj \<Rightarrow> obj \<Rightarrow> string list \<Rightarrow> string \<Rightarrow> json \<Rightarrow> shell_core_error list" where
  "mismatches action rec fs template operation =
     concat (map (\<lambda>f. report_if (\<not> py_eq (dget action f) (dget rec f)) RELATION_MISMATCH
       (Msg template [js f]) operation) fs)"

definition check_runtime :: "runtime_state \<Rightarrow> obj \<Rightarrow> json \<Rightarrow> checked" where
  "check_runtime S action operation =
     (let runtime_id = dget action ''runtime_id'' in
      if \<not> truthy runtime_id
      then Inr [shell_error UNKNOWN_RUNTIME (Msg ''runtime_id is required'' []) operation]
      else bindE (hash_lookup (runtimes S) runtime_id) (\<lambda>found.
             Inr (report_if (found = None) UNKNOWN_RUNTIME (Msg ''unknown runtime: {}'' [runtime_id]) operation)))"

definition check_capability :: "runtime_state \<Rightarrow> obj \<Rightarrow> json \<Rightarrow> checked" where
  "check_capability S action operation =
     (let runtime_id = dget action ''runtime_id''; capability_id = dget action ''capability_id'' in
      bindE (hash_lookup (capabilities S) capability_id) (\<lambda>capability.
      Inr (case capability of
             None \<Rightarrow> [shell_error UNKNOWN_CAPABILITY (Msg ''unknown capability: {}'' [capability_id]) operation]
           | Some c \<Rightarrow>
               report_if (truthy runtime_id \<and> \<not> py_eq (dget c ''runtime_id'') runtime_id) RELATION_MISMATCH
                 (Msg ''the capability does not belong to the requested runtime'' []) operation
               @ (case dget c ''operations'' of
                    JArr ops \<Rightarrow> report_if (\<not> py_in operation ops) RELATION_MISMATCH
                      (Msg ''the capability does not allow the requested operation'' []) operation
                  | _ \<Rightarrow> []))))"

definition check_permission :: "runtime_state \<Rightarrow> obj \<Rightarrow> json \<Rightarrow> checked" where
  "check_permission S action operation =
     (let capability_id = dget action ''capability_id''; permission_id = dget action ''permission_id'' in
      bindE (hash_lookup (permissions S) permission_id) (\<lambda>permission.
      case permission of
        None \<Rightarrow> Inr [shell_error UNKNOWN_PERMISSION (Msg ''unknown permission: {}'' [permission_id]) operation]
      | Some p \<Rightarrow>
          bindE (in_set_of (dget p ''decision'') ALLOWED_PERMISSION_DECISIONS) (\<lambda>granted.
          Inr (report_if (\<not> granted) PERMISSION_DENIED
                 (Msg ''the permission decision is not allow or approved: {}'' [dget p ''decision'']) operation
               @ report_if (capability_id \<noteq> JNull \<and> \<not> py_eq (dget p ''capability_id'') capability_id)
                   PERMISSION_DENIED (Msg ''the permission does not grant the requested capability'' []) operation
               @ mismatches action p [''runtime_id'', ''operation'', ''target_scope'']
                   ''permission {} does not match the requested action'' operation))))"

definition check_approval :: "runtime_state \<Rightarrow> obj \<Rightarrow> json \<Rightarrow> checked" where
  "check_approval S action operation =
     (let approval_id = dget action ''approval_id'' in
      if approval_id = JNull
      then Inr [shell_error APPROVAL_MISSING (Msg ''approval_id is required'' []) operation]
      else bindE (hash_lookup (approvals S) approval_id) (\<lambda>approval.
        Inr (case approval of
               None \<Rightarrow> [shell_error APPROVAL_MISSING (Msg ''unknown approval: {}'' [approval_id]) operation]
             | Some a \<Rightarrow>
                 if \<not> py_eq (dget a ''status'') (js ''approved'')
                 then [shell_error APPROVAL_NOT_VALID (Msg ''the approval is not approved: {}'' [approval_id]) operation]
                 else mismatches action a [''runtime_id'', ''operation'', ''target_scope'']
                        ''approval {} does not match the requested action'' operation
                      @ report_if (has_payload action
                          \<and> \<not> py_eq (dget a ''payload_hash'') (JStr (canonical_hash (dget action ''payload''))))
                          PAYLOAD_HASH_MISMATCH
                          (Msg ''approval payload_hash does not match the canonical action payload'' []) operation)))"

definition check_audit :: "runtime_state \<Rightarrow> obj \<Rightarrow> json \<Rightarrow> checked" where
  "check_audit S action operation =
     (case dget action ''audit_event'' of
        JObj audit_event \<Rightarrow>
          bindE (hash_lookup (audit_events S) (dget audit_event ''event_id'')) (\<lambda>stored.
          bindE (case stored of
                   None \<Rightarrow> Inr [shell_error AUDIT_MAPPING_MISSING
                     (Msg ''audit_event is not in the audit store the broker owns'' []) operation]
                 | Some st \<Rightarrow>
                     let expected_hash =
                           (if has_payload action then JStr (canonical_hash (dget action ''payload''))
                            else dget audit_event ''payload_hash'')
                     in bindE (if hashable operation then in_set_of (dget st ''action'') [JNull, operation]
                               else Inl TypeError) (\<lambda>matches.
                        Inr (report_if (\<not> py_eq (dget audit_event ''payload_hash'') expected_hash
                                 \<or> \<not> py_eq (dget st ''payload_hash'') expected_hash) PAYLOAD_HASH_MISMATCH
                               (Msg ''audit payload_hash does not match the canonical action payload'' []) operation
                             @ report_if (\<not> matches) RELATION_MISMATCH
                                 (Msg ''the audit action does not match the requested operation'' []) operation)))
          (\<lambda>stored_errors.
          Inr (report_if (\<not> truthy (dget audit_event ''event_id'')) AUDIT_MAPPING_MISSING
                 (Msg ''audit_event.event_id is required'' []) operation
               @ report_if (has_payload action \<and> \<not> truthy (dget audit_event ''payload_hash''))
                   AUDIT_MAPPING_MISSING
                   (Msg ''audit_event.payload_hash is required when there is a payload'' []) operation
               @ stored_errors)))
      | _ \<Rightarrow> Inr [shell_error AUDIT_MAPPING_MISSING (Msg ''audit_event is required'' []) operation])"

definition check_recovery :: "runtime_state \<Rightarrow> obj \<Rightarrow> json \<Rightarrow> checked" where
  "check_recovery S action operation =
     (let required = Inr [shell_error RECOVERY_MAPPING_MISSING
            (Msg ''recovery_action.recovery_id is required'' []) operation] in
      case dget action ''recovery_action'' of
        JObj recovery_action \<Rightarrow>
          (let recovery_id = dget recovery_action ''recovery_id'' in
           if \<not> truthy recovery_id then required
           else bindE (hash_lookup (recovery_actions S) recovery_id) (\<lambda>stored.
             Inr (case stored of
                    None \<Rightarrow> [shell_error RECOVERY_MAPPING_MISSING
                      (Msg ''unknown recovery action: {}'' [recovery_id]) operation]
                  | Some st \<Rightarrow> mismatches action st [''runtime_id'', ''operation'']
                      ''recovery {} does not match the requested action'' operation)))
      | _ \<Rightarrow> required)"

definition check_metadata :: "ucd \<Rightarrow> obj \<Rightarrow> json \<Rightarrow> shell_core_error list" where
  "check_metadata U action operation =
     report_if (metadata_attempts_authority U (dget_or action ''adapter_metadata'' (JObj [])))
       ADAPTER_METADATA_ESCALATION_ATTEMPT (Msg ''adapter metadata tried to claim authority'' []) operation"

definition check_sources :: "obj \<Rightarrow> json \<Rightarrow> shell_core_error list" where
  "check_sources action operation =
     concat (map (\<lambda>source.
       report_if (py_eq (dget action ''authority_source'') (JStr source)
           \<or> map_of action (source @ u ''_grants_authority'') = Some (JBool True))
         NON_AUTHORITY_SOURCE_ATTEMPT (Msg ''{} cannot grant authority'' [JStr source]) operation)
       (sort NON_AUTHORITY_SOURCES))"

subsection \<open>evaluate\<close>

record policy_result =
  allowed :: bool
  policy_errors :: "shell_core_error list"
  required_recovery :: json
  audit_required :: bool
  action_envelope :: "obj option"

text \<open>The exceptions \<open>except (KeyError, TypeError, ValueError)\<close> catches, with their text.\<close>

fun caught :: "exn \<Rightarrow> msg option" where
  "caught (KeyError k) = Some (Msg ''{}'' [k])"
| "caught (KeyErrorMsg m) = Some m"
| "caught TypeError = Some (Msg ''type error'' [])"
| "caught (ValueError m) = Some m"
| "caught JSONDecodeError = Some (Msg ''invalid JSON'' [])"
| "caught UnicodeError = Some (Msg ''invalid encoding'' [])"
| "caught _ = None"

definition policy_checks :: "ucd \<Rightarrow> runtime_state \<Rightarrow> obj \<Rightarrow> checked" where
  "policy_checks U S action =
     (let operation = dget_or action ''operation'' (js ''unknown'') in
      bindE (check_runtime S action operation) (\<lambda>e1.
      bindE (check_capability S action operation) (\<lambda>e2.
      bindE (check_permission S action operation) (\<lambda>e3.
      bindE (check_approval S action operation) (\<lambda>e4.
      bindE (check_audit S action operation) (\<lambda>e5.
      bindE (check_recovery S action operation) (\<lambda>e6.
      Inr (e1 @ e2 @ e3 @ e4 @ e5 @ e6 @ check_metadata U action operation
           @ check_sources action operation))))))))"

definition evaluate :: "ucd \<Rightarrow> catalog \<Rightarrow> runtime_state \<Rightarrow> obj \<Rightarrow> exn + policy_result" where
  "evaluate U C S action =
     (let operation = dget_or action ''operation'' (js ''unknown'');
          recovery_action = dget action ''recovery_action''
      in bindE (policy_checks U S action) (\<lambda>errors.
         bindE (if errors \<noteq> [] then Inr (errors, None)
                else (case build_action_envelope C action default_envelope_id of
                        Inr env \<Rightarrow> Inr ([], Some env)
                      | Inl e \<Rightarrow> (case caught e of
                          Some m \<Rightarrow> Inr ([shell_error RELATION_MISMATCH
                            (Within ''the action envelope is invalid: {}'' [] m) operation], None)
                        | None \<Rightarrow> Inl e)))
         (\<lambda>(errors, envelope).
         Inr \<lparr>allowed = (errors = []), policy_errors = errors,
              required_recovery = (if errors \<noteq> [] \<and> is_dict recovery_action then recovery_action else JNull),
              audit_required = True, action_envelope = envelope\<rparr>)))"

subsection \<open>The router\<close>

record routed_action =
  routed_fields :: obj
  routed :: bool
  policy_of :: policy_result

definition ROUTE_REQUIRED :: "ustr list" where
  "ROUTE_REQUIRED = map u [''runtime_id'', ''operation'', ''capability_id'', ''permission_id'',
     ''approval_id'', ''target_scope'', ''audit_event'', ''recovery_action'']"

definition route :: "ucd \<Rightarrow> catalog \<Rightarrow> runtime_state option \<Rightarrow> obj \<Rightarrow> exn + routed_action" where
  "route U C broker_state action =
     (let missing = sort (filter (\<lambda>k. map_of action k = None) ROUTE_REQUIRED) in
      if missing \<noteq> []
      then Inl (ValueError (Msg ''a sensitive action lacks required mappings: {}'' (map JStr missing)))
      else case broker_state of
        None \<Rightarrow> Inr \<lparr>routed_fields = action, routed = False,
          policy_of = \<lparr>allowed = False,
            policy_errors = [shell_error SCHEMA_CONTRACT_MISSING
              (Msg ''the product router needs an evaluator and the state the broker owns'' [])
              (dget_or action ''operation'' (js ''unknown''))],
            required_recovery = dget action ''recovery_action'', audit_required = True,
            action_envelope = None\<rparr>\<rparr>
      | Some S \<Rightarrow> bindE (evaluate U C S action) (\<lambda>result.
          Inr \<lparr>routed_fields = action, routed = allowed result, policy_of = result\<rparr>))"

subsection \<open>What an allowed action satisfies\<close>

lemma report_if_Nil [simp]: "report_if b c m op = [] \<longleftrightarrow> \<not> b"
  by (simp add: report_if_def)

lemma mismatches_Nil: "mismatches action rec fs t op = [] \<longleftrightarrow> (\<forall>f \<in> set fs. py_eq (dget action f) (dget rec f))"
  by (auto simp: mismatches_def)

lemma check_runtime_clean:
  "check_runtime S action op = Inr [] \<Longrightarrow>
     \<exists>rid. dget action ''runtime_id'' = JStr rid \<and> rid \<noteq> [] \<and> map_of (runtimes S) rid \<noteq> None"
  by (cases "dget action ''runtime_id''")
    (auto simp: check_runtime_def Let_def res_simps split: if_splits)

lemma check_capability_clean:
  "check_capability S action op = Inr [] \<Longrightarrow> truthy (dget action ''runtime_id'') \<Longrightarrow>
     \<exists>cid c. dget action ''capability_id'' = JStr cid \<and> map_of (capabilities S) cid = Some c
       \<and> py_eq (dget c ''runtime_id'') (dget action ''runtime_id'')
       \<and> (\<forall>ops. dget c ''operations'' = JArr ops \<longrightarrow> py_in op ops)"
  by (cases "dget action ''capability_id''")
    (auto simp: check_capability_def Let_def res_simps split: option.splits json.splits)

lemma check_permission_clean:
  "check_permission S action op = Inr [] \<Longrightarrow>
     \<exists>pid p. dget action ''permission_id'' = JStr pid \<and> map_of (permissions S) pid = Some p
       \<and> dget p ''decision'' \<in> {js ''allow'', js ''approved''}
       \<and> (dget action ''capability_id'' = JNull \<or> py_eq (dget p ''capability_id'') (dget action ''capability_id''))
       \<and> py_eq (dget action ''runtime_id'') (dget p ''runtime_id'')
       \<and> py_eq (dget action ''operation'') (dget p ''operation'')
       \<and> py_eq (dget action ''target_scope'') (dget p ''target_scope'')"
  by (cases "dget action ''permission_id''")
    (auto simp: check_permission_def Let_def res_simps mismatches_Nil in_set_of_def py_in_def
      ALLOWED_PERMISSION_DECISIONS_def split: option.splits if_splits)

lemma check_approval_clean:
  "check_approval S action op = Inr [] \<Longrightarrow>
     \<exists>aid a. dget action ''approval_id'' = JStr aid \<and> map_of (approvals S) aid = Some a
       \<and> dget a ''status'' = js ''approved''
       \<and> py_eq (dget action ''runtime_id'') (dget a ''runtime_id'')
       \<and> py_eq (dget action ''operation'') (dget a ''operation'')
       \<and> py_eq (dget action ''target_scope'') (dget a ''target_scope'')
       \<and> (has_payload action \<longrightarrow> dget a ''payload_hash'' = JStr (canonical_hash (dget action ''payload'')))"
  by (cases "dget action ''approval_id''")
    (auto simp: check_approval_def Let_def res_simps mismatches_Nil split: option.splits if_splits)

lemma check_audit_clean:
  "check_audit S action op = Inr [] \<Longrightarrow>
     \<exists>ev eid st. dget action ''audit_event'' = JObj ev \<and> dget ev ''event_id'' = JStr eid
       \<and> map_of (audit_events S) eid = Some st
       \<and> py_in (dget st ''action'') [JNull, op]
       \<and> py_eq (dget st ''payload_hash'') (if has_payload action then JStr (canonical_hash (dget action ''payload''))
                                     else dget ev ''payload_hash'')
       \<and> (has_payload action \<longrightarrow> dget ev ''payload_hash'' = JStr (canonical_hash (dget action ''payload'')))"
proof -
  assume clean: "check_audit S action op = Inr []"
  then obtain ev where ev: "dget action ''audit_event'' = JObj ev"
    by (auto simp: check_audit_def split: json.splits)
  with clean obtain eid where "dget ev ''event_id'' = JStr eid"
    by (cases "dget ev ''event_id''") (auto simp: check_audit_def res_simps)
  with clean ev show ?thesis
    by (auto simp: check_audit_def Let_def res_simps in_set_of_def split: option.splits if_splits)
qed

lemma check_recovery_clean:
  "check_recovery S action op = Inr [] \<Longrightarrow>
     \<exists>ra rid st. dget action ''recovery_action'' = JObj ra \<and> dget ra ''recovery_id'' = JStr rid
       \<and> map_of (recovery_actions S) rid = Some st
       \<and> py_eq (dget action ''runtime_id'') (dget st ''runtime_id'')
       \<and> py_eq (dget action ''operation'') (dget st ''operation'')"
proof -
  assume clean: "check_recovery S action op = Inr []"
  then obtain ra where ra: "dget action ''recovery_action'' = JObj ra"
    by (auto simp: check_recovery_def Let_def split: json.splits)
  with clean obtain rid where "dget ra ''recovery_id'' = JStr rid"
    by (cases "dget ra ''recovery_id''") (auto simp: check_recovery_def Let_def res_simps split: if_splits)
  with clean ra show ?thesis
    by (auto simp: check_recovery_def Let_def res_simps mismatches_Nil split: option.splits if_splits)
qed

lemma evaluate_allowed:
  assumes "evaluate U C S action = Inr r" and "allowed r"
  shows "policy_checks U S action = Inr []
    \<and> (\<exists>env. build_action_envelope C action default_envelope_id = Inr env \<and> action_envelope r = Some env)"
  using assms
  by (auto simp: evaluate_def Let_def res_simps split: if_splits sum.splits option.splits)

lemma policy_checks_clean:
  "policy_checks U S action = Inr [] \<longleftrightarrow>
     (let op = dget_or action ''operation'' (js ''unknown'') in
      check_runtime S action op = Inr [] \<and> check_capability S action op = Inr []
      \<and> check_permission S action op = Inr [] \<and> check_approval S action op = Inr []
      \<and> check_audit S action op = Inr [] \<and> check_recovery S action op = Inr []
      \<and> check_metadata U action op = [] \<and> check_sources action op = [])"
  by (auto simp: policy_checks_def Let_def res_simps)

lemma envelope_fields:
  assumes "build_action_envelope C action eid = Inr env"
  shows "dget env ''runtime_id'' = dget action ''runtime_id'' \<and> dget env ''operation'' = dget action ''operation''
    \<and> dget env ''capability_id'' = dget action ''capability_id''
    \<and> dget env ''permission_id'' = dget action ''permission_id''
    \<and> dget env ''approval_id'' = dget action ''approval_id''
    \<and> dget env ''target_scope'' = dget action ''target_scope''
    \<and> dget env ''payload_hash'' = JStr (canonical_hash (dget action ''payload''))
    \<and> dhas action ''operation'' \<and> validate_contract C env ''action_envelope.schema.json'' = Inr ()"
  using assms
  by (auto simp: build_action_envelope_def Let_def res_simps dget_def [of "_ # _"] dget_or_def [of "_ # _"])

lemma dget_or_dhas: "dhas d k \<Longrightarrow> dget_or d k w = dget d k"
  by (auto simp: dhas_def dget_def dget_or_def)

lemma stored_id:
  "accepted_store field schema s \<Longrightarrow> map_of s k = Some r \<Longrightarrow> declares_id schema f \<Longrightarrow>
     \<exists>x. dget r f = JStr x \<and> x \<noteq> []"
  using accepted_storeD declares_id_accepted by (fastforce simp: nonempty_str_def)


text \<open>
  C2. The payload an allowed action carries is the one that was approved and audited: its canonical
  hash is the hash in the stored approval, in the audit event the action presents and in the stored
  audit event, and it is the hash in the envelope. The audit event and the recovery action are
  stored and belong to the same runtime and operation.
\<close>
theorem allowed_payload_bound:
  assumes ev: "evaluate U C S action = Inr r" and ok: "allowed r" and payload: "has_payload action"
  shows "\<exists>a aid ae eid st ra rid rc env.
    dget action ''approval_id'' = JStr aid \<and> map_of (approvals S) aid = Some a
    \<and> dget a ''payload_hash'' = JStr (canonical_hash (dget action ''payload''))
    \<and> dget action ''audit_event'' = JObj ae \<and> dget ae ''event_id'' = JStr eid
    \<and> map_of (audit_events S) eid = Some st
    \<and> dget ae ''payload_hash'' = JStr (canonical_hash (dget action ''payload''))
    \<and> dget st ''payload_hash'' = JStr (canonical_hash (dget action ''payload''))
    \<and> (dget st ''action'' = JNull \<or> py_eq (dget st ''action'') (dget action ''operation''))
    \<and> dget action ''recovery_action'' = JObj ra \<and> dget ra ''recovery_id'' = JStr rid
    \<and> map_of (recovery_actions S) rid = Some rc
    \<and> py_eq (dget action ''runtime_id'') (dget rc ''runtime_id'')
    \<and> py_eq (dget action ''operation'') (dget rc ''operation'')
    \<and> action_envelope r = Some env
    \<and> dget env ''payload_hash'' = JStr (canonical_hash (dget action ''payload''))"
proof -
  from evaluate_allowed [OF ev ok] obtain env where clean: "policy_checks U S action = Inr []"
    and env: "build_action_envelope C action default_envelope_id = Inr env" "action_envelope r = Some env" by blast
  have op: "dget_or action ''operation'' (js ''unknown'') = dget action ''operation''"
    using envelope_fields [OF env(1)] by (simp add: dget_or_dhas)
  note c = clean [unfolded policy_checks_clean Let_def op]
  have "check_approval S action (dget action ''operation'') = Inr []"
    "check_audit S action (dget action ''operation'') = Inr []"
    "check_recovery S action (dget action ''operation'') = Inr []" using c by blast+
  from check_approval_clean [OF this(1)] check_audit_clean [OF this(2)] check_recovery_clean [OF this(3)]
    envelope_fields [OF env(1)] env(2) payload
  show ?thesis by (auto simp: py_in_def)
qed

subsection \<open>Untrusted input, totality, routing\<close>

lemma metadata_of_nothing [simp]: "\<not> metadata_attempts_authority U (JObj [])"
  by (simp add: metadata_attempts_authority_def dict_of_def)

lemma grants_key_not_metadata: "source @ u ''_grants_authority'' \<noteq> u ''adapter_metadata''"
proof
  assume "source @ u ''_grants_authority'' = u ''adapter_metadata''"
  then have "last (source @ u ''_grants_authority'') = last (u ''adapter_metadata'')" by simp
  then show False by (simp add: u_def)
qed

definition without_metadata :: "obj \<Rightarrow> obj" where
  "without_metadata action = ddel action ''adapter_metadata''"

lemma metadata_irrelevant:
  "check_runtime S (dset action ''adapter_metadata'' m) op = check_runtime S action op"
  "check_capability S (dset action ''adapter_metadata'' m) op = check_capability S action op"
  "check_permission S (dset action ''adapter_metadata'' m) op = check_permission S action op"
  "check_approval S (dset action ''adapter_metadata'' m) op = check_approval S action op"
  "check_audit S (dset action ''adapter_metadata'' m) op = check_audit S action op"
  "check_recovery S (dset action ''adapter_metadata'' m) op = check_recovery S action op"
  "check_sources (dset action ''adapter_metadata'' m) op = check_sources action op"
  "build_action_envelope C (dset action ''adapter_metadata'' m) eid = build_action_envelope C action eid"
proof -
  have h: "has_payload (dset action ''adapter_metadata'' m) = has_payload action"
    by (simp add: has_payload_def)
  have i: "ditem (dset action ''adapter_metadata'' m) k = ditem action k" if "k \<noteq> ''adapter_metadata''" for k
    using that by (simp add: ditem_def dset_def)
  have g: "map_of (dset action ''adapter_metadata'' m) (s @ u ''_grants_authority'')
      = map_of action (s @ u ''_grants_authority'')" for s
    using grants_key_not_metadata by (simp add: dset_def)
  show "check_runtime S (dset action ''adapter_metadata'' m) op = check_runtime S action op"
    "check_capability S (dset action ''adapter_metadata'' m) op = check_capability S action op"
    "check_permission S (dset action ''adapter_metadata'' m) op = check_permission S action op"
    "check_approval S (dset action ''adapter_metadata'' m) op = check_approval S action op"
    "check_audit S (dset action ''adapter_metadata'' m) op = check_audit S action op"
    "check_recovery S (dset action ''adapter_metadata'' m) op = check_recovery S action op"
    "check_sources (dset action ''adapter_metadata'' m) op = check_sources action op"
    "build_action_envelope C (dset action ''adapter_metadata'' m) eid = build_action_envelope C action eid"
    by (simp_all add: check_runtime_def check_capability_def check_permission_def check_approval_def
        check_audit_def check_recovery_def check_sources_def mismatches_def h g i build_action_envelope_def Let_def
        cong: if_cong option.case_cong json.case_cong)
qed

text \<open>
  C3. Adapter metadata can only take permission away: if an action is allowed with some metadata,
  the same action without any is allowed too, with the same envelope, and the metadata held no
  authority key at any depth and no authority value outside authority keys.
\<close>
theorem metadata_never_grants:
  assumes "evaluate U C S (dset action ''adapter_metadata'' m) = Inr r" and "allowed r"
    and "\<not> dhas action ''adapter_metadata''"
  shows "(\<exists>r'. evaluate U C S action = Inr r' \<and> allowed r' \<and> action_envelope r' = action_envelope r)
    \<and> (\<forall>k \<in> set (all_keys m). canonical_authority_key U k = None)
    \<and> authority_values_in U [] (strip_authority_keys U m) = []"
proof -
  let ?a = "dset action ''adapter_metadata'' m"
  from evaluate_allowed [OF assms(1,2)] obtain env where clean: "policy_checks U S ?a = Inr []"
    and env: "build_action_envelope C ?a default_envelope_id = Inr env" "action_envelope r = Some env" by blast
  have op: "dget_or ?a ''operation'' v = dget_or action ''operation'' v" for v by simp
  have "dget_or action ''adapter_metadata'' (JObj []) = JObj []"
    using assms(3) by (simp add: dhas_def dget_or_def)
  then have "check_metadata U action p = []" for p
    by (simp add: check_metadata_def)
  with clean have "policy_checks U S action = Inr []"
    by (simp add: policy_checks_clean op metadata_irrelevant Let_def)
  then have "evaluate U C S action = Inr \<lparr>allowed = True, policy_errors = [], required_recovery = JNull,
      audit_required = True, action_envelope = Some env\<rparr>"
    using env(1) by (simp add: evaluate_def metadata_irrelevant Let_def)
  moreover have "check_metadata U ?a (dget_or action ''operation'' (js ''unknown'')) = []"
    using clean by (simp add: policy_checks_clean op Let_def)
  then have "authority_keys_in U [] m = []" "authority_values_in U [] (strip_authority_keys U m) = []"
    by (simp_all add: check_metadata_def metadata_attempts_authority_def Let_def)
  ultimately show ?thesis
    using env(2) by (simp add: authority_keys_in_Nil)
qed

text \<open>
  C20. The evaluator decides: on a reachable state, for every action whose ids and operation are
  hashable, it returns a result; a denial lists at least one error and carries no envelope, and the
  action is allowed exactly when no error is listed.
\<close>
theorem evaluate_total:
  assumes run: "state_run U repo_specs RuntimeState_init S"
    and ids: "hashable (dget action ''runtime_id'')" "hashable (dget action ''capability_id'')"
      "hashable (dget action ''permission_id'')" "hashable (dget action ''approval_id'')"
      "hashable (dget_or action ''operation'' (js ''unknown''))"
      "\<forall>e. dget action ''audit_event'' = JObj e \<longrightarrow> hashable (dget e ''event_id'')"
      "\<forall>r. dget action ''recovery_action'' = JObj r \<longrightarrow> hashable (dget r ''recovery_id'')"
  shows "\<exists>r. evaluate U repo_specs S action = Inr r \<and> allowed r = (policy_errors r = [])
    \<and> (action_envelope r = None) = (policy_errors r \<noteq> [])"
proof -
  have look: "returns (hash_lookup m v)" if "hashable v" for m :: store and v
    using that by (cases v) auto
  have st: "state_ok U S" using run by (rule state_ok_run) (rule state_ok_init)
  let ?op = "dget_or action ''operation'' (js ''unknown'')"
  have "returns (check_runtime S action ?op)" "returns (check_capability S action ?op)"
    "returns (check_approval S action ?op)"
    using ids look by (simp_all add: check_runtime_def check_capability_def check_approval_def Let_def)
  moreover have "returns (check_recovery S action ?op)"
    using ids look by (auto simp: check_recovery_def Let_def split: json.splits)
  moreover have "returns (check_permission S action ?op)"
  proof -
    have "hashable (dget p ''decision'')" if "map_of (permissions S) k = Some p" for k p
    proof -
      have "accepts permission_schema (JObj p)"
        using st that accepted_storeD by (auto simp: state_ok_def)
      from accepted_decision [OF this] show ?thesis by auto
    qed
    then show ?thesis
      using ids(3) look [of _ "permissions S"]
      by (cases "dget action ''permission_id''")
        (auto simp: check_permission_def Let_def in_set_of_def split: option.splits)
  qed
  moreover have "returns (check_audit S action ?op)"
  proof -
    have "hashable (dget e ''action'')" if "map_of (audit_events S) k = Some e" for k e
      using stored_id [of _ _ _ k e "''action''"] st that contract_ids by (fastforce simp: state_ok_def)
    then show ?thesis
      using ids(5,6) look
      by (auto simp: check_audit_def Let_def in_set_of_def split: json.splits option.splits
          intro!: returns_bindE dest!: hash_lookup_eq_Inr_Some [THEN iffD1])
  qed
  ultimately obtain errors where errors: "policy_checks U S action = Inr errors"
    by (auto simp: policy_checks_def Let_def returns_def)
  have "\<exists>m. caught e = Some m" if "build_action_envelope repo_specs action eid = Inl e" for e eid
  proof -
    have "\<exists>m. caught e = Some m" if "validate_contract repo_specs env ''action_envelope.schema.json'' = Inl e" for env
      using that validator_total [OF wf_repo_schemas(9), of False "JObj env" "u ''$''"]
      by (auto simp: validate_contract_def validate_instance_def repo_specs_get res_simps split: if_splits)
    moreover have "\<exists>m. caught e = Some m" if "jitem v k = Inl e" for v k
      using that by (cases v) (auto simp: res_simps)
    ultimately show ?thesis
      using that by (auto simp: build_action_envelope_def Let_def res_simps)
  qed
  then show ?thesis
    using errors by (auto simp: evaluate_def Let_def split: sum.splits option.splits) fastforce+
qed

lemma sort_eq_Nil: "sort xs = [] \<longleftrightarrow> xs = []"
  by (metis length_0_conv length_sort)


end
