(* ===== verification/Reference_State.thy ===== *)
theory Reference_State
  imports Policy
begin

text \<open>
  The reference state and the reference action of the release smoke test
  (\<open>build_reference_state\<close> and \<open>build_sensitive_action\<close> of
  \<open>packages/shell_core/release_smoke.py\<close>), evaluated: every registration is accepted, and the
  policy evaluator allows the action. They are the concrete inputs of the policy properties.
\<close>

definition reference_payload :: json where
  "reference_payload = JObj [(u ''path'', js ''notes/today.md''), (u ''content'', js ''hello'')]"

definition reference_runtime :: obj where
  "reference_runtime =
    [(u ''runtime_id'', js ''blue_tanuki''),
     (u ''name'', js ''BLUE-TANUKI''),
     (u ''kind'', js ''reference_runtime''),
     (u ''status'', js ''ready''),
     (u ''adapter_id'', js ''blue_tanuki_reference'')]"

definition reference_adapter :: obj where
  "reference_adapter =
    [(u ''adapter_id'', js ''blue_tanuki_reference''),
     (u ''runtime_id'', js ''blue_tanuki''),
     (u ''contract_version'', js ''v1.0''),
     (u ''transport'', js ''mock''),
     (u ''authority_strip'', JBool True),
     (u ''declared_capabilities'', JArr [js ''filesystem.write''])]"

definition reference_capability :: obj where
  "reference_capability =
    [(u ''capability_id'', js ''filesystem.write''),
     (u ''runtime_id'', js ''blue_tanuki''),
     (u ''name'', JStr [0x30D5, 0x30A1, 0x30A4, 0x30EB, 0x30B7, 0x30B9, 0x30C6, 0x30E0, 0x66F8, 0x8FBC, 0x307F]),
     (u ''risk_level'', js ''high''),
     (u ''default_permission'', js ''ask''),
     (u ''requires_approval'', JBool True),
     (u ''operations'', JArr [js ''filesystem.write''])]"

definition reference_permission :: obj where
  "reference_permission =
    [(u ''permission_id'', js ''permission.fs.write.workspace''),
     (u ''runtime_id'', js ''blue_tanuki''),
     (u ''capability_id'', js ''filesystem.write''),
     (u ''operation'', js ''filesystem.write''),
     (u ''target_scope'', js ''workspace''),
     (u ''scope'', js ''target''),
     (u ''decision'', js ''allow''),
     (u ''source'', js ''policy''),
     (u ''expires_at'', JNull),
     (u ''constraints'', JObj [(u ''root'', js ''workspace'')])]"

definition reference_approval :: obj where
  "reference_approval =
    [(u ''approval_id'', js ''approval-1''),
     (u ''runtime_id'', js ''blue_tanuki''),
     (u ''operation'', js ''filesystem.write''),
     (u ''target_scope'', js ''workspace''),
     (u ''status'', js ''approved''),
     (u ''content_visibility'', js ''redacted''),
     (u ''payload_hash'', JStr (canonical_hash reference_payload)),
     (u ''full_payload'', reference_payload),
     (u ''redacted_payload'', JObj [(u ''path'', js ''notes/today.md''), (u ''content'', js ''[redacted]'')]),
     (u ''editable_fields'', JArr [js ''path'']),
     (u ''authority_fields'', JArr [js ''permission_id'']),
     (u ''sealed_fields'', JArr [js ''runtime_id'']),
     (u ''hidden_fields'', JArr [js ''credential'']),
     (u ''sacred_fields'', JArr [js ''authority_context''])]"

definition reference_recovery :: obj where
  "reference_recovery =
    [(u ''recovery_id'', js ''recover-1''),
     (u ''runtime_id'', js ''blue_tanuki''),
     (u ''operation'', js ''filesystem.write''),
     (u ''class'', js ''permission_denied''),
     (u ''severity'', js ''warning''),
     (u ''safe_to_retry'', JBool True),
     (u ''user_visible_message'', JStr [0x3053, 0x306E, 0x20, 0x61, 0x63, 0x74, 0x69, 0x6F, 0x6E, 0x20, 0x3092, 0x5B9F, 0x884C, 0x3059, 0x308B, 0x524D, 0x306B, 0x20, 0x70, 0x65, 0x72, 0x6D, 0x69, 0x73, 0x73, 0x69, 0x6F, 0x6E, 0x20, 0x304C, 0x5FC5, 0x8981, 0x3067, 0x3059, 0x3002])]"

definition reference_audit_event :: obj where
  "reference_audit_event =
    [(u ''event_id'', js ''audit-1''),
     (u ''timestamp'', js ''2026-06-05T00:00:00Z''),
     (u ''actor'', js ''shell''),
     (u ''action'', js ''filesystem.write''),
     (u ''target'', js ''blue_tanuki''),
     (u ''result'', js ''success''),
     (u ''payload_hash'', JStr (canonical_hash reference_payload))]"

definition build_sensitive_action :: obj where
  "build_sensitive_action =
    [(u ''runtime_id'', js ''blue_tanuki''),
     (u ''operation'', js ''filesystem.write''),
     (u ''capability_id'', js ''filesystem.write''),
     (u ''permission_id'', js ''permission.fs.write.workspace''),
     (u ''approval_id'', js ''approval-1''),
     (u ''target_scope'', js ''workspace''),
     (u ''payload'', reference_payload),
     (u ''audit_event'', JObj [(u ''event_id'', js ''audit-1''), (u ''action'', js ''filesystem.write''), (u ''result'', js ''requested''), (u ''payload_hash'', JStr (canonical_hash reference_payload))]),
     (u ''recovery_action'', JObj [(u ''recovery_id'', js ''recover-1'')])]"

definition build_reference_state :: "ucd \<Rightarrow> catalog \<Rightarrow> exn + runtime_state" where
  "build_reference_state U C =
     bindE (register_runtime C RuntimeState_init reference_runtime) (\<lambda>S.
     bindE (register_adapter U C S reference_adapter) (\<lambda>S.
     bindE (register_capability C S reference_capability) (\<lambda>S.
     bindE (record_permission C S reference_permission) (\<lambda>S.
     bindE (enqueue_approval C S reference_approval) (\<lambda>S.
     bindE (register_recovery_action C S reference_recovery) (\<lambda>S.
     append_audit_event C S reference_audit_event))))))"

lemmas reference_defs = reference_runtime_def reference_adapter_def reference_capability_def
  reference_permission_def reference_approval_def reference_recovery_def reference_audit_event_def

lemmas reference_eval = schema_eval re_match_eval canonical_hash_matches version_pattern_v1 reference_payload_def

lemma reference_runtime_accepted:
  "validate_contract repo_specs reference_runtime ''runtime.schema.json'' = Inr ()"
  by (simp add: reference_eval schema_defs reference_runtime_def cong: u_cong)

lemma reference_adapter_accepted:
  "validate_contract repo_specs reference_adapter ''adapter.schema.json'' = Inr ()"
  by (simp add: reference_eval schema_defs reference_adapter_def cong: u_cong)

lemma reference_capability_accepted:
  "validate_contract repo_specs reference_capability ''capability.schema.json'' = Inr ()"
  by (simp add: reference_eval schema_defs reference_capability_def cong: u_cong)

lemma reference_permission_accepted:
  "validate_contract repo_specs reference_permission ''permission.schema.json'' = Inr ()"
  by (simp add: reference_eval schema_defs reference_permission_def cong: u_cong)

lemma reference_approval_accepted:
  "validate_contract repo_specs reference_approval ''approval.schema.json'' = Inr ()"
  by (simp add: reference_eval schema_defs reference_approval_def cong: u_cong)

lemma reference_recovery_accepted:
  "validate_contract repo_specs reference_recovery ''recovery.schema.json'' = Inr ()"
  by (simp add: reference_eval schema_defs reference_recovery_def cong: u_cong)

lemma reference_audit_accepted:
  "validate_contract repo_specs reference_audit_event ''audit.schema.json'' = Inr ()"
  by (simp add: reference_eval schema_defs reference_audit_event_def cong: u_cong)

lemmas reference_accepted = reference_runtime_accepted reference_adapter_accepted reference_capability_accepted reference_permission_accepted
  reference_approval_accepted reference_recovery_accepted reference_audit_accepted

definition reference_state :: runtime_state where
  "reference_state =
     \<lparr>runtimes = [(u ''blue_tanuki'', reference_runtime)],
      adapters = [(u ''blue_tanuki_reference'', adapter_entry
        \<lparr>adp_id = js ''blue_tanuki_reference'', adp_runtime_id = js ''blue_tanuki'',
         adp_contract_version = js ''v1.0'', adp_transport = js ''mock'',
         adp_declared_capabilities = [js ''filesystem.write''], adp_metadata = JObj []\<rparr>)],
      capabilities = [(u ''filesystem.write'', reference_capability)],
      permissions = [(u ''permission.fs.write.workspace'', reference_permission)],
      approvals = [(u ''approval-1'', reference_approval)],
      audit_events = [(u ''audit-1'', reference_audit_event)],
      recovery_actions = [(u ''recover-1'', reference_recovery)],
      update_policies = []\<rparr>"

lemma reference_ids:
  "ditem reference_runtime ''runtime_id'' = Inr (js ''blue_tanuki'')"
  "ditem reference_capability ''capability_id'' = Inr (js ''filesystem.write'')"
  "ditem reference_permission ''permission_id'' = Inr (js ''permission.fs.write.workspace'')"
  "ditem reference_approval ''approval_id'' = Inr (js ''approval-1'')"
  "ditem reference_recovery ''recovery_id'' = Inr (js ''recover-1'')"
  "ditem reference_audit_event ''event_id'' = Inr (js ''audit-1'')"
  by (simp_all add: ditem_def reference_defs cong: u_cong)

lemma load_reference_adapter:
  "load_adapter U reference_adapter = Inr
     \<lparr>adp_id = js ''blue_tanuki_reference'', adp_runtime_id = js ''blue_tanuki'',
      adp_contract_version = js ''v1.0'', adp_transport = js ''mock'',
      adp_declared_capabilities = [js ''filesystem.write''], adp_metadata = JObj []\<rparr>"
  by (simp add: load_adapter_def reference_adapter_def is_true_def dget_def dget_or_def ditem_def
      dict_of_def)

lemma build_reference_state_eq: "build_reference_state U repo_specs = Inr reference_state"
  by (simp add: build_reference_state_def register_runtime_def register_adapter_def register_capability_def
      record_permission_def enqueue_approval_def register_recovery_action_def append_audit_event_def
      reference_accepted reference_ids load_reference_adapter store_put_def RuntimeState_init_def
      reference_state_def)

lemma reference_state_run: "state_run U repo_specs RuntimeState_init reference_state"
proof -
  obtain S1 S2 S3 S4 S5 S6 where
    s: "register_runtime repo_specs RuntimeState_init reference_runtime = Inr S1"
      "register_adapter U repo_specs S1 reference_adapter = Inr S2"
      "register_capability repo_specs S2 reference_capability = Inr S3"
      "record_permission repo_specs S3 reference_permission = Inr S4"
      "enqueue_approval repo_specs S4 reference_approval = Inr S5"
      "register_recovery_action repo_specs S5 reference_recovery = Inr S6"
      "append_audit_event repo_specs S6 reference_audit_event = Inr reference_state"
    using build_reference_state_eq [of U] by (auto simp: build_reference_state_def bindE_eq_Inr)
  note r1 = run_one [OF step_runtime [OF s(1)]]
  note r2 = run_step [OF r1 step_adapter [OF s(2)]]
  note r3 = run_step [OF r2 step_capability [OF s(3)]]
  note r4 = run_step [OF r3 step_permission [OF s(4)]]
  note r5 = run_step [OF r4 step_approval [OF s(5)]]
  note r6 = run_step [OF r5 step_recovery [OF s(6)]]
  show ?thesis by (rule run_step [OF r6 step_audit [OF s(7)]])
qed

subsection \<open>The reference action\<close>

definition reference_envelope :: obj where
  "reference_envelope =
     [(u ''envelope_id'', js ''action-envelope-evaluated''), (u ''runtime_id'', js ''blue_tanuki''),
      (u ''operation'', js ''filesystem.write''), (u ''capability_id'', js ''filesystem.write''),
      (u ''permission_id'', js ''permission.fs.write.workspace''), (u ''approval_id'', js ''approval-1''),
      (u ''recovery_id'', js ''recover-1''), (u ''target_scope'', js ''workspace''),
      (u ''payload_hash'', JStr (canonical_hash reference_payload)),
      (u ''authority_source'', js ''broker_internal''), (u ''audit_event_required'', JBool True),
      (u ''metadata'', JObj [(u ''evidence_class'', js ''INTERNAL_STATE'')])]"

lemma reference_envelope_accepted:
  "validate_contract repo_specs reference_envelope ''action_envelope.schema.json'' = Inr ()"
  by (simp add: schema_eval schema_defs reference_envelope_def re_match_eval canonical_hash_matches cong: u_cong)

lemma build_reference_envelope:
  "build_action_envelope repo_specs build_sensitive_action default_envelope_id = Inr reference_envelope"
  using reference_envelope_accepted
  by (simp add: build_action_envelope_def build_sensitive_action_def ditem_def dget_def dget_or_def
      reference_envelope_def default_envelope_id_def)

lemma grants_flag_absent:
  "\<forall>k \<in> set (map fst build_sensitive_action). last k \<noteq> last (u ''y'')"
  by (simp add: build_sensitive_action_def u_def)

lemma reference_lookups:
  "map_of (runtimes reference_state) (u ''blue_tanuki'') = Some reference_runtime"
  "map_of (capabilities reference_state) (u ''filesystem.write'') = Some reference_capability"
  "map_of (permissions reference_state) (u ''permission.fs.write.workspace'') = Some reference_permission"
  "map_of (approvals reference_state) (u ''approval-1'') = Some reference_approval"
  "map_of (audit_events reference_state) (u ''audit-1'') = Some reference_audit_event"
  "map_of (recovery_actions reference_state) (u ''recover-1'') = Some reference_recovery"
  by (simp_all add: reference_state_def)

lemma reference_fields:
  "dget reference_capability ''runtime_id'' = js ''blue_tanuki''"
  "dget reference_capability ''operations'' = JArr [js ''filesystem.write'']"
  "dget reference_permission ''decision'' = js ''allow''"
  "dget reference_permission ''capability_id'' = js ''filesystem.write''"
  "dget reference_permission ''runtime_id'' = js ''blue_tanuki''"
  "dget reference_permission ''operation'' = js ''filesystem.write''"
  "dget reference_permission ''target_scope'' = js ''workspace''"
  "dget reference_approval ''status'' = js ''approved''"
  "dget reference_approval ''runtime_id'' = js ''blue_tanuki''"
  "dget reference_approval ''operation'' = js ''filesystem.write''"
  "dget reference_approval ''target_scope'' = js ''workspace''"
  "dget reference_approval ''payload_hash'' = JStr (canonical_hash reference_payload)"
  "dget reference_recovery ''runtime_id'' = js ''blue_tanuki''"
  "dget reference_recovery ''operation'' = js ''filesystem.write''"
  "dget reference_audit_event ''action'' = js ''filesystem.write''"
  "dget reference_audit_event ''payload_hash'' = JStr (canonical_hash reference_payload)"
  by (simp_all add: reference_defs dget_def dget_or_def cong: u_cong)

definition reference_presented_event :: obj where
  "reference_presented_event =
     [(u ''event_id'', js ''audit-1''), (u ''action'', js ''filesystem.write''),
      (u ''result'', js ''requested''), (u ''payload_hash'', JStr (canonical_hash reference_payload))]"

lemma action_fields:
  "dget build_sensitive_action ''runtime_id'' = js ''blue_tanuki''"
  "dget build_sensitive_action ''operation'' = js ''filesystem.write''"
  "dget_or build_sensitive_action ''operation'' (js ''unknown'') = js ''filesystem.write''"
  "dget build_sensitive_action ''capability_id'' = js ''filesystem.write''"
  "dget build_sensitive_action ''permission_id'' = js ''permission.fs.write.workspace''"
  "dget build_sensitive_action ''approval_id'' = js ''approval-1''"
  "dget build_sensitive_action ''target_scope'' = js ''workspace''"
  "dget build_sensitive_action ''payload'' = reference_payload"
  "dget build_sensitive_action ''authority_source'' = JNull"
  "dget_or build_sensitive_action ''adapter_metadata'' (JObj []) = JObj []"
  "dget build_sensitive_action ''audit_event'' = JObj reference_presented_event"
  "dget build_sensitive_action ''recovery_action'' = JObj [(u ''recovery_id'', js ''recover-1'')]"
  "dget [(u ''recovery_id'', js ''recover-1'')] ''recovery_id'' = js ''recover-1''"
  "dget reference_presented_event ''event_id'' = js ''audit-1''"
  "dget reference_presented_event ''payload_hash'' = JStr (canonical_hash reference_payload)"
  by (simp_all add: build_sensitive_action_def reference_presented_event_def dget_def dget_or_def)

lemma reference_checks: "policy_checks U reference_state build_sensitive_action = Inr []"
proof -
  have none: "map_of build_sensitive_action (s @ u ''_grants_authority'') = None" for s
  proof -
    have "s @ u ''_grants_authority'' \<notin> set (map fst build_sensitive_action)"
      using grants_flag_absent by (force simp: u_def)
    then show ?thesis by (simp add: map_of_eq_None_iff)
  qed
  have payload: "has_payload build_sensitive_action"
    by (simp add: has_payload_def dhas_def build_sensitive_action_def)
  show ?thesis
    by (simp add: policy_checks_def check_runtime_def check_capability_def check_permission_def
        check_approval_def check_audit_def check_recovery_def check_metadata_def check_sources_def
        mismatches_def in_set_of_def py_in_def ALLOWED_PERMISSION_DECISIONS_def report_if_def
        action_fields reference_lookups reference_fields none payload)
qed

text \<open>
  The reference state of the release smoke test can be built, and the evaluator allows the
  reference action on it, with the envelope bound to the reference payload.
\<close>
theorem reference_action_allowed:
  "\<exists>S r. build_reference_state U repo_specs = Inr S \<and> evaluate U repo_specs S build_sensitive_action = Inr r
     \<and> allowed r \<and> action_envelope r = Some reference_envelope"
  by (simp add: build_reference_state_eq evaluate_def reference_checks build_reference_envelope)

subsection \<open>Instances of the policy properties\<close>

definition reference_result :: policy_result where
  "reference_result = \<lparr>allowed = True, policy_errors = [], required_recovery = JNull,
     audit_required = True, action_envelope = Some reference_envelope\<rparr>"

lemma reference_evaluated:
  "evaluate U repo_specs reference_state build_sensitive_action = Inr reference_result"
  by (simp add: evaluate_def reference_checks build_reference_envelope reference_result_def)


theorem allowed_payload_bound_witness:
  "\<exists>env. action_envelope reference_result = Some env
     \<and> dget env ''payload_hash'' = JStr (canonical_hash (dget build_sensitive_action ''payload''))"
proof -
  have "allowed reference_result" by (simp add: reference_result_def)
  moreover have "has_payload build_sensitive_action"
    by (simp add: has_payload_def dhas_def build_sensitive_action_def)
  ultimately show ?thesis
    using allowed_payload_bound [OF reference_evaluated [of ascii_ucd]] by blast
qed

theorem metadata_never_grants_witness:
  "\<exists>r. evaluate ascii_ucd repo_specs reference_state build_sensitive_action = Inr r \<and> allowed r"
proof -
  let ?m = "JObj [(u ''label'', js ''x'')]"
  let ?a = "dset build_sensitive_action ''adapter_metadata'' ?m"
  have "\<not> metadata_attempts_authority ascii_ucd ?m"
    by (simp add: metadata_attempts_authority_def key_eval dict_of_def)
  then have "check_metadata ascii_ucd ?a op = []" for op
    by (simp add: check_metadata_def)
  then have "policy_checks ascii_ucd reference_state ?a = Inr []"
    using reference_checks [of ascii_ucd]
    by (simp add: policy_checks_clean metadata_irrelevant Let_def)
  then have "evaluate ascii_ucd repo_specs reference_state ?a = Inr reference_result"
    by (simp add: evaluate_def metadata_irrelevant build_reference_envelope reference_result_def)
  moreover have "allowed reference_result" "\<not> dhas build_sensitive_action ''adapter_metadata''"
    by (simp_all add: reference_result_def build_sensitive_action_def dhas_def)
  ultimately show ?thesis using metadata_never_grants by blast
qed

theorem evaluate_total_witness:
  "\<exists>r. evaluate ascii_ucd repo_specs reference_state [] = Inr r \<and> allowed r = (policy_errors r = [])"
proof -
  have "\<exists>r. evaluate ascii_ucd repo_specs reference_state [] = Inr r \<and> allowed r = (policy_errors r = [])
    \<and> (action_envelope r = None) = (policy_errors r \<noteq> [])"
    by (rule evaluate_total [OF reference_state_run]) (simp_all add: dget_def dget_or_def)
  then show ?thesis by blast
qed


end
