(* ===== verification/Py_Text.thy ===== *)
theory Py_Text
  imports Schema_Validation
begin

text \<open>
  Text as the tooling reads it: line ends, lines, lower case, \<open>str\<close> and \<open>repr\<close> of a value, and the
  small list of findings every validator builds. \<open>tables\<close> adds three Unicode tables to \<open>ucd\<close>:
  \<open>str.lower\<close>, which characters \<open>repr\<close> prints as they are, and which ones are word characters (\<open>\w\<close>);
  \<open>tables_ok\<close> is what is documented of them on ASCII text.
\<close>

record tables = ucd +
  lower_case :: "ustr \<Rightarrow> ustr"
  printable_char :: "nat \<Rightarrow> bool"
  word_char :: "nat \<Rightarrow> bool"

definition ascii_word :: "nat \<Rightarrow> bool" where
  "ascii_word c \<longleftrightarrow> 48 \<le> c \<and> c \<le> 57 \<or> 65 \<le> c \<and> c \<le> 90 \<or> c = 95 \<or> 97 \<le> c \<and> c \<le> 122"

definition tables_ok :: "tables \<Rightarrow> bool" where
  "tables_ok T \<longleftrightarrow> ucd_ok (ucd.truncate T) \<and> (\<forall>s. ascii s \<longrightarrow> lower_case T s = map ascii_lower s)
     \<and> (\<forall>c < 128. word_char T c = ascii_word c)"

definition ascii_tables :: tables where
  "ascii_tables = ucd.extend ascii_ucd
     \<lparr>lower_case = map ascii_lower, printable_char = (\<lambda>c. False), word_char = ascii_word\<rparr>"

lemma truncate_ascii_tables [simp]: "ucd.truncate ascii_tables = ascii_ucd"
  by (simp add: ascii_tables_def ucd.defs ascii_ucd_def)

lemma ascii_tables_sel [simp]:
  "lower_case ascii_tables = map ascii_lower" "casefold ascii_tables = map ascii_lower"
  "word_char ascii_tables = ascii_word"
  by (simp_all add: ascii_tables_def ucd.defs ascii_ucd_def)

lemma tables_ok_ascii: "tables_ok ascii_tables"
  by (simp add: tables_ok_def ucd_ok_ascii)

subsection \<open>Lines\<close>

fun universal_newlines :: "ustr \<Rightarrow> ustr" where
  "universal_newlines (c # d # s) =
     (if c = 13 \<and> d = 10 then 10 # universal_newlines s
      else (if c = 13 then 10 else c) # universal_newlines (d # s))"
| "universal_newlines [c] = [if c = 13 then 10 else c]"
| "universal_newlines [] = []"

definition line_break :: "nat \<Rightarrow> bool" where
  "line_break c \<longleftrightarrow> 10 \<le> c \<and> c \<le> 13 \<or> 28 \<le> c \<and> c \<le> 30 \<or> c \<in> {0x85, 0x2028, 0x2029}"

text \<open>\<open>str.splitlines()\<close>; the first argument is the line read so far, reversed.\<close>

fun split_lines :: "ustr \<Rightarrow> ustr \<Rightarrow> ustr list" where
  "split_lines line [] = (if line = [] then [] else [rev line])"
| "split_lines line (c # s) =
     (if c = 13 \<and> s \<noteq> [] \<and> hd s = 10 then split_lines line s
      else if line_break c then rev line # split_lines [] s
      else split_lines (c # line) s)"

definition read_text_lines :: "ustr \<Rightarrow> ustr list" where
  "read_text_lines text = split_lines [] (universal_newlines text)"

lemma universal_newlines_id: "13 \<notin> set s \<Longrightarrow> universal_newlines s = s"
  by (induction s rule: universal_newlines.induct) auto

text \<open>A value printed by \<open>json.dumps\<close>, with or without \<open>sort_keys\<close>, reads back from a text file.\<close>

lemma loads_written:
  assumes "wf_json v"
  shows "py_loads (universal_newlines (render None 0 v)) = Inr v"
proof -
  have "13 \<notin> set (render None 0 v)"
    using printable_render [of 0 v] by (auto simp: printable_def list_all_iff)
  then show ?thesis
    using loads_render_space [OF assms, of "[]" None 0] by (simp add: universal_newlines_id py_loads_def)
qed

lemma no_cr_universal: "13 \<notin> set (universal_newlines s)"
  by (induction s rule: universal_newlines.induct) auto

lemma split_lines_line:
  "printable l \<Longrightarrow> split_lines acc (l @ 10 # s) = (rev acc @ l) # split_lines [] s"
proof (induction l arbitrary: acc)
  case (Cons c l)
  then have "\<not> line_break c" "c \<noteq> 13" by (auto simp: printable_Cons line_break_def)
  with Cons show ?case by (simp add: printable_Cons)
qed (simp add: line_break_def)

subsection \<open>Text of a value\<close>

definition join_with :: "string \<Rightarrow> ustr list \<Rightarrow> ustr" where
  "join_with sep xs = join (u sep) xs"

definition repr_char :: "tables \<Rightarrow> nat \<Rightarrow> nat \<Rightarrow> ustr" where
  "repr_char T q c =
     (if c = q \<or> c = 92 then [92, c]
      else if c = 9 then [92, 116]
      else if c = 10 then [92, 110]
      else if c = 13 then [92, 114]
      else if 32 \<le> c \<and> c < 127 \<or> 128 \<le> c \<and> printable_char T c then [c]
      else if c \<le> 0xFF then 92 # u ''x'' @ map (\<lambda>i. hex_digit (nibble i c)) [1, 0]
      else if c \<le> 0xFFFF then 92 # u ''u'' @ map (\<lambda>i. hex_digit (nibble i c)) [3, 2, 1, 0]
      else 92 # u ''U'' @ map (\<lambda>i. hex_digit (nibble i c)) [7, 6, 5, 4, 3, 2, 1, 0])"

definition repr_str :: "tables \<Rightarrow> ustr \<Rightarrow> ustr" where
  "repr_str T s =
     (let q = (if 39 \<in> set s \<and> 34 \<notin> set s then 34 else 39)
      in q # concat (map (repr_char T q) s) @ [q])"

fun py_repr :: "tables \<Rightarrow> json \<Rightarrow> ustr" where
  "py_repr T JNull = u ''None''"
| "py_repr T (JBool b) = (if b then u ''True'' else u ''False'')"
| "py_repr T (JInt i) = dec_int i"
| "py_repr T (JStr s) = repr_str T s"
| "py_repr T (JArr xs) = u ''['' @ join_with '', '' (map (py_repr T) xs) @ u '']''"
| "py_repr T (JObj d) =
     u ''{'' @ join_with '', '' (map (\<lambda>(k, v). repr_str T k @ u '': '' @ py_repr T v) d) @ u ''}''"

fun py_str :: "tables \<Rightarrow> json \<Rightarrow> ustr" where
  "py_str T (JStr s) = s"
| "py_str T v = py_repr T v"

text \<open>\<open>str(value or "")\<close>\<close>

definition text_of :: "tables \<Rightarrow> json \<Rightarrow> ustr" where
  "text_of T v = (if truthy v then py_str T v else [])"

lemma text_of_simps [simp]: "text_of T (JStr s) = s" "text_of T JNull = []"
  by (simp_all add: text_of_def)

text \<open>\<open>re.sub(r"\s+", " ", s)\<close>\<close>

function collapse_spaces :: "ustr \<Rightarrow> ustr" where
  "collapse_spaces [] = []"
| "collapse_spaces (c # s) =
     (if is_space c then 32 # collapse_spaces (dropWhile is_space s) else c # collapse_spaces s)"
  by pat_completeness auto
termination
  by (relation "measure length") (auto simp: le_imp_less_Suc length_dropWhile_le)

subsection \<open>Findings\<close>

definition flag :: "bool \<Rightarrow> msg \<Rightarrow> msg list" where
  "flag b m = (if b then [m] else [])"

definition remark :: "bool \<Rightarrow> string \<Rightarrow> msg list" where
  "remark b s = flag b (Msg s [])"

lemma flag_Nil [simp]: "flag b m = [] \<longleftrightarrow> \<not> b" "[] = flag b m \<longleftrightarrow> \<not> b"
  by (auto simp: flag_def)

lemma remark_Nil [simp]: "remark b s = [] \<longleftrightarrow> \<not> b" "[] = remark b s \<longleftrightarrow> \<not> b"
  by (auto simp: remark_def)

text \<open>\<open>isinstance(v, int)\<close>: a boolean is an integer.\<close>

fun is_int :: "json \<Rightarrow> bool" where
  "is_int (JInt _) = True"
| "is_int (JBool _) = True"
| "is_int _ = False"

text \<open>\<open>v in {a, b, \<dots>}\<close> on a set of strings raises when the value cannot be hashed.\<close>

definition in_strings :: "json \<Rightarrow> string list \<Rightarrow> exn + bool" where
  "in_strings v xs = (if hashable v then Inr (v \<in> js ` set xs) else Inl TypeError)"

end
