(* ===== verification/Persistence.thy ===== *)
theory Persistence
  imports Py_Text Audit_Chain
begin

text \<open>
  The file-backed audit log (\<open>JsonPersistence\<close> of \<open>packages/shell_core/persistence.py\<close>). The state is
  the text of its files, absent or present; a step returns its result or exception together with the
  files it leaves, so what was written before an exception stays written. The 32 random bytes of
  \<open>secrets.token_bytes\<close> are an argument. Reading a file translates line ends, as text mode does.
\<close>

record files =
  audit_file :: "ustr option"
  anchor_file :: "ustr option"
  key_file :: "ustr option"
  snapshot_file :: "ustr option"

type_synonym 'a io = "files \<Rightarrow> (exn + 'a) \<times> files"

definition retIO :: "'a \<Rightarrow> 'a io" where
  "retIO x fs = (Inr x, fs)"

definition raiseIO :: "exn \<Rightarrow> 'a io" where
  "raiseIO e fs = (Inl e, fs)"

definition liftIO :: "exn + 'a \<Rightarrow> 'a io" where
  "liftIO m fs = (m, fs)"

definition bindIO :: "'a io \<Rightarrow> ('a \<Rightarrow> 'b io) \<Rightarrow> 'b io" where
  "bindIO m f fs = (case m fs of (Inl e, fs') \<Rightarrow> (Inl e, fs') | (Inr x, fs') \<Rightarrow> f x fs')"

subsection \<open>Text\<close>

definition ascii_space :: "nat \<Rightarrow> bool" where
  "ascii_space c \<longleftrightarrow> 9 \<le> c \<and> c \<le> 13 \<or> c = 32"

definition hex_value :: "nat \<Rightarrow> nat option" where
  "hex_value c =
     (if 48 \<le> c \<and> c \<le> 57 then Some (c - 48)
      else if 97 \<le> c \<and> c \<le> 102 then Some (c - 87)
      else if 65 \<le> c \<and> c \<le> 70 then Some (c - 55) else None)"

text \<open>\<open>bytes.fromhex\<close>: pairs of digits, white space allowed between pairs.\<close>

function bytes_fromhex :: "ustr \<Rightarrow> exn + byte list" where
  "bytes_fromhex s =
     (case dropWhile ascii_space s of
        [] \<Rightarrow> Inr []
      | [_] \<Rightarrow> Inl (ValueError (Msg ''non-hexadecimal number found in fromhex()'' []))
      | a # b # rest \<Rightarrow>
          (case (hex_value a, hex_value b) of
             (Some x, Some y) \<Rightarrow> bindE (bytes_fromhex rest) (\<lambda>bs. Inr (word_of_nat (16 * x + y) # bs))
           | _ \<Rightarrow> Inl (ValueError (Msg ''non-hexadecimal number found in fromhex()'' []))))"
  by pat_completeness auto
termination
proof (relation "measure length")
  fix s a list b rest
  assume "dropWhile ascii_space s = a # list" "list = b # rest"
  then have "length (a # b # rest) \<le> length s"
    by (metis length_dropWhile_le)
  then show "(rest, s) \<in> measure length" by simp
qed simp

declare bytes_fromhex.simps [simp del]

subsection \<open>Reading the log\<close>

fun read_lines :: "nat \<Rightarrow> ustr list \<Rightarrow> exn + obj list \<times> msg list" where
  "read_lines index [] = Inr ([], [])"
| "read_lines index (line # lines) =
     (if strip line = [] then read_lines (Suc index) lines
      else (case py_loads line of
              Inl JSONDecodeError \<Rightarrow>
                bindE (read_lines (Suc index) lines) (\<lambda>(events, errors).
                  Inr (events, Msg ''audit JSONL line {} is corrupt'' [JInt (int index)] # errors))
            | Inl e \<Rightarrow> Inl e
            | Inr (JObj parsed) \<Rightarrow>
                bindE (read_lines (Suc index) lines) (\<lambda>(events, errors). Inr (parsed # events, errors))
            | Inr _ \<Rightarrow>
                bindE (read_lines (Suc index) lines) (\<lambda>(events, errors).
                  Inr (events, Msg ''audit JSONL line {} is corrupt: the event is not an object''
                    [JInt (int index)] # errors))))"

definition audit_events_report :: "(obj list \<times> msg list) io" where
  "audit_events_report fs =
     (case audit_file fs of
        None \<Rightarrow> (Inr ([], []), fs)
      | Some text \<Rightarrow> (read_lines 1 (split_lines [] (universal_newlines text)), fs))"

definition persisted_audit_events :: "obj list io" where
  "persisted_audit_events =
     bindIO audit_events_report (\<lambda>(events, errors).
       if errors \<noteq> [] then raiseIO (ValueError (Joined errors)) else retIO events)"

definition export_audit :: "obj list io" where
  "export_audit = persisted_audit_events"

definition last_event_hash :: "obj list \<Rightarrow> json" where
  "last_event_hash events = (if events = [] then JNull else dget (last events) ''event_hash'')"

definition latest_event_hash :: "json io" where
  "latest_event_hash = bindIO persisted_audit_events (\<lambda>events. retIO (last_event_hash events))"

subsection \<open>The anchor\<close>

definition audit_anchor_key :: "byte list \<Rightarrow> byte list io" where
  "audit_anchor_key fresh fs =
     (case key_file fs of
        Some text \<Rightarrow> (bytes_fromhex (strip (universal_newlines text)), fs)
      | None \<Rightarrow> (Inr fresh, fs\<lparr>key_file := Some (hexdigest fresh)\<rparr>))"

definition anchor_body :: "obj list \<Rightarrow> obj" where
  "anchor_body events =
     [(u ''version'', JInt 1), (u ''event_count'', JInt (int (length events))),
      (u ''head_event_hash'', last_event_hash events)]"

definition signed_anchor :: "byte list \<Rightarrow> obj list \<Rightarrow> obj" where
  "signed_anchor key events =
     dset (anchor_body events) ''anchor_hmac''
       (JStr (u ''sha256:'' @ hexdigest (hmac_sha256 key (utf8_encode (dumps (JObj (anchor_body events)))))))"

definition anchor_record :: "byte list \<Rightarrow> obj list \<Rightarrow> obj io" where
  "anchor_record fresh events =
     bindIO (audit_anchor_key fresh) (\<lambda>key. retIO (signed_anchor key events))"

definition write_audit_anchor :: "byte list \<Rightarrow> obj list \<Rightarrow> unit io" where
  "write_audit_anchor fresh events =
     bindIO (anchor_record fresh events) (\<lambda>rec fs.
       (Inr (), fs\<lparr>anchor_file := Some (dumps_indent 2 (JObj rec) @ [10])\<rparr>))"

definition verify_audit_anchor :: "byte list \<Rightarrow> obj list \<Rightarrow> (bool \<times> msg list) io" where
  "verify_audit_anchor fresh events fs =
     (case anchor_file fs of
        None \<Rightarrow>
          (if events = [] then (Inr (True, []), fs)
           else (Inr (False, [Msg ''a non-empty audit chain has no audit anchor'' []]), fs))
      | Some text \<Rightarrow>
          (case py_loads (universal_newlines text) of
             Inl JSONDecodeError \<Rightarrow> (Inr (False, [Msg ''the audit anchor cannot be read'' []]), fs)
           | Inl OSError \<Rightarrow> (Inr (False, [Msg ''the audit anchor cannot be read'' []]), fs)
           | Inl e \<Rightarrow> (Inl e, fs)
           | Inr stored \<Rightarrow>
               bindIO (anchor_record fresh events) (\<lambda>expected.
                 retIO (if \<not> py_eq stored (JObj expected)
                        then (False, [Msg ''the audit anchor HMAC does not match the head of the chain'' []])
                        else (True, []))) fs))"

subsection \<open>Appending and verifying\<close>

definition append_event_file :: "byte list \<Rightarrow> obj \<Rightarrow> obj io" where
  "append_event_file fresh event =
     (let event_id = dget event ''event_id'' in
      if \<not> truthy event_id then raiseIO (ValueError (Msg ''audit event_id is required'' []))
      else
        bindIO persisted_audit_events (\<lambda>events.
        bindIO (liftIO (verify_audit_chain events)) (\<lambda>verification.
        if \<not> report_ok verification
        then raiseIO (ValueError (Within ''cannot append to an invalid audit chain: {}'' []
               (Joined (report_errors verification))))
        else if list_ex (\<lambda>stored. py_eq (dget stored ''event_id'') event_id) events
        then raiseIO (ValueError (Msg ''duplicate audit event_id: {}'' [event_id]))
        else
          let chained = chain_event event (last_event_hash events) in
          bindIO (\<lambda>fs. (Inr (), fs\<lparr>audit_file :=
              Some ((case audit_file fs of None \<Rightarrow> [] | Some t \<Rightarrow> t) @ dumps (JObj chained) @ [10])\<rparr>)) (\<lambda>_.
          bindIO (write_audit_anchor fresh (events @ [chained])) (\<lambda>_. retIO chained)))))"

record verification =
  chain_report :: audit_report
  anchor_verified :: bool

definition verify_files :: "byte list \<Rightarrow> verification io" where
  "verify_files fresh =
     bindIO audit_events_report (\<lambda>(events, read_errors).
     bindIO (liftIO (verify_audit_chain events)) (\<lambda>result.
     bindIO (verify_audit_anchor fresh events) (\<lambda>(anchor_ok, anchor_errors).
       retIO \<lparr>chain_report = result\<lparr>
                report_ok := report_ok result \<and> read_errors = [] \<and> anchor_ok,
                report_errors := read_errors @ report_errors result
                  @ (if anchor_ok then [] else anchor_errors)\<rparr>,
              anchor_verified = anchor_ok\<rparr>)))"

definition detect_tamper :: "byte list \<Rightarrow> bool io" where
  "detect_tamper fresh = bindIO (verify_files fresh) (\<lambda>v. retIO (\<not> report_ok (chain_report v)))"

subsection \<open>Text that was written here reads back\<close>

lemma bindIO_eq_Inr:
  "bindIO m f fs = (Inr y, fs') \<longleftrightarrow> (\<exists>x t. m fs = (Inr x, t) \<and> f x t = (Inr y, fs'))"
  by (auto simp: bindIO_def split: prod.splits sum.splits)

lemma bindIO_Inr: "m fs = (Inr x, t) \<Longrightarrow> bindIO m f fs = f x t"
  by (simp add: bindIO_def)

definition log_text :: "obj list \<Rightarrow> ustr" where
  "log_text es = concat (map (\<lambda>e. dumps (JObj e) @ [10]) es)"

lemma log_text_snoc: "log_text (es @ [e]) = log_text es @ dumps (JObj e) @ [10]"
  by (simp add: log_text_def)

lemma no_cr_printable: "printable s \<Longrightarrow> 13 \<notin> set s"
  by (auto simp: printable_def list_all_iff)

lemma read_log_text:
  "split_lines [] (universal_newlines (log_text es)) = map (\<lambda>e. dumps (JObj e)) es"
proof -
  have "13 \<notin> set (log_text es)"
    using no_cr_printable [OF printable_dumps] by (auto simp: log_text_def)
  moreover have "split_lines [] (log_text es) = map (\<lambda>e. dumps (JObj e)) es"
    by (induction es) (simp_all add: log_text_def split_lines_line printable_dumps)
  ultimately show ?thesis by (simp add: universal_newlines_id)
qed

lemma strip_not_Nil:
  assumes "c \<in> set s" and "\<not> is_space c"
  shows "strip s \<noteq> []"
proof -
  have ne: "dropWhile is_space s \<noteq> []" using assms by (auto simp: dropWhile_eq_Nil_conv)
  then have "\<not> is_space (hd (dropWhile is_space s))" by (rule hd_dropWhile)
  then have "dropWhile is_space (rev (dropWhile is_space s)) \<noteq> []"
    using hd_in_set [OF ne] by (auto simp: dropWhile_eq_Nil_conv)
  then show ?thesis by (simp add: strip_def strip_where_def)
qed

lemma strip_dumps_JObj: "strip (dumps (JObj e)) \<noteq> []"
  by (rule strip_not_Nil [of 123]) (auto simp: dumps_def is_space_def)

text \<open>An event as it comes back from the file: well-formed, keys in order.\<close>

definition stored_event :: "obj \<Rightarrow> bool" where
  "stored_event e \<longleftrightarrow> wf_json (JObj e) \<and> sort_keys (JObj e) = JObj e"

lemma read_lines_log: "list_all stored_event es \<Longrightarrow> read_lines i (map (\<lambda>e. dumps (JObj e)) es) = Inr (es, [])"
  by (induction es arbitrary: i) (auto simp: strip_dumps_JObj stored_event_def py_loads_dumps)

definition canonical_dict :: "obj \<Rightarrow> obj" where
  "canonical_dict e = (case sort_keys (JObj e) of JObj d \<Rightarrow> d | _ \<Rightarrow> e)"

lemma sort_keys_JObj_canonical: "sort_keys (JObj e) = JObj (canonical_dict e)"
  by (simp add: canonical_dict_def)

lemma stored_canonical_dict: "wf_json (JObj e) \<Longrightarrow> stored_event (canonical_dict e)"
  using wf_json_sort_keys [of "JObj e"] sort_keys_idem [of "JObj e"]
  by (simp only: stored_event_def sort_keys_JObj_canonical)

lemma dumps_canonical_dict: "dumps (JObj (canonical_dict e)) = dumps (JObj e)"
  by (simp only: dumps_def sort_keys_JObj_canonical [symmetric] sort_keys_idem)

lemma same_canonical_dict:
  assumes "wf_json (JObj e)"
  shows "same_dict (canonical_dict e) e"
proof -
  have "wf_json (JObj (canonical_dict e))"
    using stored_canonical_dict [OF assms] by (simp add: stored_event_def)
  then show ?thesis
    using assms sort_keys_idem [of "JObj e"]
    by (simp add: same_dict_def sort_keys_JObj_canonical del: sort_keys.simps)
qed

lemma hexdigest_Cons:
  "hexdigest (b # bs) = hex_digit (unat b div 16) # hex_digit (unat b mod 16) # hexdigest bs"
  by (simp add: hexdigest_def)

lemma hex_value_hex_digit: "d < 16 \<Longrightarrow> hex_value (hex_digit d) = Some d \<and> \<not> ascii_space (hex_digit d)"
  by (auto simp: hex_value_def hex_digit_def ascii_space_def)

lemma fromhex_hexdigest: "bytes_fromhex (hexdigest bs) = Inr bs"
proof (induction bs)
  case Nil
  show ?case by (subst bytes_fromhex.simps) (simp add: hexdigest_def)
next
  case (Cons b bs)
  have "unat b < 256" using unsigned_less [of b, where ?'a = nat] by simp
  then have d: "unat b div 16 < 16" "unat b mod 16 < 16" by simp_all
  have "word_of_nat (16 * (unat b div 16) + unat b mod 16) = b"
    by (simp only: mult_div_mod_eq of_nat_unat ucast_id)
  with Cons d show ?case
    by (subst bytes_fromhex.simps) (simp add: hexdigest_Cons hex_value_hex_digit)
qed

lemma key_text_reads: "bytes_fromhex (strip (universal_newlines (hexdigest K))) = Inr K"
proof -
  have "\<forall>c \<in> set (hexdigest K). is_lower_hex c" using hexdigest_chars by (simp add: list_all_iff)
  then have "13 \<notin> set (hexdigest K)" "list_all (\<lambda>c. \<not> is_space c) (hexdigest K)"
    by (auto simp: is_lower_hex_def is_space_def list_all_iff)
  then show ?thesis by (simp add: universal_newlines_id strip_id fromhex_hexdigest)
qed

subsection \<open>The log in its files\<close>

lemma last_event_hash_head: "last_event_hash es = head_hash es"
  by (simp add: last_event_hash_def head_hash_def)

definition chain_inv :: "byte list \<Rightarrow> files \<Rightarrow> obj list \<Rightarrow> bool" where
  "chain_inv K fs es \<longleftrightarrow>
     (audit_file fs = Some (log_text es) \<or> audit_file fs = None \<and> es = [])
     \<and> list_all stored_event es \<and> audit_verified es
     \<and> (key_file fs = Some (hexdigest K) \<or> key_file fs = None \<and> es = [])"

definition anchored :: "byte list \<Rightarrow> files \<Rightarrow> obj list \<Rightarrow> bool" where
  "anchored K fs es \<longleftrightarrow>
     anchor_file fs =
       (if es = [] then None else Some (dumps_indent 2 (JObj (signed_anchor K es)) @ [10]))"

definition log_inv :: "byte list \<Rightarrow> files \<Rightarrow> obj list \<Rightarrow> bool" where
  "log_inv K fs es \<longleftrightarrow> chain_inv K fs es \<and> anchored K fs es"

lemma report_of_chain: "chain_inv K fs es \<Longrightarrow> audit_events_report fs = (Inr (es, []), fs)"
  by (auto simp: chain_inv_def audit_events_report_def read_log_text read_lines_log)

lemma events_of_chain: "chain_inv K fs es \<Longrightarrow> persisted_audit_events fs = (Inr es, fs)"
  by (simp add: persisted_audit_events_def bindIO_def report_of_chain retIO_def)

lemma verified_report:
  "audit_verified es \<Longrightarrow> \<exists>r. verify_audit_chain es = Inr r \<and> report_ok r \<and> report_errors r = []"
  by (auto simp: audit_verified_def verify_audit_chain_def res_simps)

lemma verified_head: "audit_verified es \<Longrightarrow> head_hash es = JNull \<or> (\<exists>h. head_hash es = JStr h)"
  using linked_hash_value [of JNull es "last es"] by (auto simp: audit_verified_iff head_hash_def)

lemma wf_head: "list_all stored_event es \<Longrightarrow> wf_json (head_hash es)"
  using wf_json_dget [of "last es"] last_in_set [of es]
  by (auto simp: head_hash_def stored_event_def list_all_iff simp del: wf_json.simps(3) sort_keys.simps)

lemma wf_chain_event: "wf_json (JObj e) \<Longrightarrow> wf_json p \<Longrightarrow> wf_json (JObj (chain_event e p))"
  unfolding chain_event_def Let_def by (intro wf_json_dset wf_json_ddel) simp_all

lemma chained_canonical:
  assumes "list_all stored_event es" and "wf_json (JObj e)"
  defines "c \<equiv> chain_event e (head_hash es)"
  shows "stored_event (canonical_dict c)" and "same_dict (canonical_dict c) c"
    and "dumps (JObj (canonical_dict c)) = dumps (JObj c)"
    and "signed_anchor K (es @ [c]) = signed_anchor K (es @ [canonical_dict c])"
proof -
  have wf: "wf_json (JObj c)" unfolding c_def by (intro wf_chain_event assms wf_head)
  show "stored_event (canonical_dict c)" "same_dict (canonical_dict c) c"
    "dumps (JObj (canonical_dict c)) = dumps (JObj c)"
    using wf by (simp_all add: stored_canonical_dict same_canonical_dict dumps_canonical_dict)
  have "dget (canonical_dict c) ''event_hash'' = dget c ''event_hash''"
    by (rule same_dict_dget [OF same_canonical_dict [OF wf]]) (simp add: c_def)
  then show "signed_anchor K (es @ [c]) = signed_anchor K (es @ [canonical_dict c])"
    by (simp add: signed_anchor_def anchor_body_def last_event_hash_def)
qed

lemma append_event_file_effect:
  assumes inv: "chain_inv K fs es" and wf: "wf_json (JObj e)"
    and id: "truthy (dget e ''event_id'')" "hashable (dget e ''event_id'')"
    and new: "\<forall>x \<in> set es. \<not> py_eq (dget e ''event_id'') (dget x ''event_id'')"
  shows "\<exists>fs'. append_event_file fresh e fs = (Inr (chain_event e (head_hash es)), fs')
    \<and> log_inv (if key_file fs = None then fresh else K) fs' (es @ [canonical_dict (chain_event e (head_hash es))])"
proof -
  define c where "c = chain_event e (head_hash es)"
  define K' where "K' = (if key_file fs = None then fresh else K)"
  define fs1 where "fs1 = fs\<lparr>audit_file := Some ((case audit_file fs of None \<Rightarrow> [] | Some t \<Rightarrow> t) @ dumps (JObj c) @ [10])\<rparr>"
  have st: "list_all stored_event es" and ver: "audit_verified es" using inv by (auto simp: chain_inv_def)
  note can = chained_canonical [OF st wf, folded c_def]
  obtain r where r: "verify_audit_chain es = Inr r" "report_ok r" using verified_report [OF ver] by blast
  have "\<not> list_ex (\<lambda>stored. py_eq (dget stored ''event_id'') (dget e ''event_id'')) es"
    using new py_eq_sym by (auto simp: list_ex_iff)
  then have "append_event_file fresh e fs
      = bindIO (write_audit_anchor fresh (es @ [c])) (\<lambda>_. retIO c) fs1"
    using id r by (simp add: append_event_file_def Let_def bindIO_def events_of_chain [OF inv] liftIO_def
        last_event_hash_head c_def fs1_def)
  moreover have "audit_anchor_key fresh fs1 = (Inr K', fs1\<lparr>key_file := Some (hexdigest K')\<rparr>)"
    using inv by (auto simp: audit_anchor_key_def K'_def fs1_def chain_inv_def key_text_reads)
  ultimately have res: "append_event_file fresh e fs = (Inr c, fs1\<lparr>key_file := Some (hexdigest K'),
      anchor_file := Some (dumps_indent 2 (JObj (signed_anchor K' (es @ [c]))) @ [10])\<rparr>)"
    by (simp add: write_audit_anchor_def anchor_record_def bindIO_def retIO_def)
  have "audit_file fs1 = Some (log_text (es @ [canonical_dict c]))"
    using inv by (auto simp: fs1_def chain_inv_def log_text_snoc can(3) log_text_def)
  moreover have "audit_verified (es @ [canonical_dict c])"
    using audit_verified_append_same [OF ver id new] can(2) by (simp add: c_def)
  ultimately show ?thesis
    using res st can(1,4) by (auto simp: log_inv_def chain_inv_def anchored_def c_def K'_def)
qed

subsection \<open>Verifying\<close>

lemma scalar_tag: "list_all scalar (u ''sha256:'' @ hexdigest bs)"
  using hexdigest_chars [of bs] by (auto simp: scalar_def is_lower_hex_def list_all_iff u_def)

lemma no_cr_dumps_indent: "13 \<notin> set (dumps_indent n j)"
  using text_char_render [of "Some n" 0 "sort_keys j"]
  by (auto simp: dumps_indent_def text_char_def list_all_iff simp del: render.simps sort_keys.simps)

lemma wf_signed_anchor:
  assumes "list_all stored_event es"
  shows "wf_json (JObj (signed_anchor K es))"
proof -
  have "wf_json (JObj (anchor_body es))"
    using wf_head [OF assms] by (simp add: anchor_body_def last_event_hash_head scalar_def)
  then show ?thesis
    unfolding signed_anchor_def by (intro wf_json_dset) (simp_all add: scalar_tag del: list_all_append)
qed

lemma sort_signed_anchor:
  "sort_keys (JObj (signed_anchor K es)) =
     JObj [(u ''anchor_hmac'', dget (signed_anchor K es) ''anchor_hmac''),
           (u ''event_count'', JInt (int (length es))),
           (u ''head_event_hash'', sort_keys (last_event_hash es)), (u ''version'', JInt 1)]"
  by (simp add: signed_anchor_def anchor_body_def dset_def dget_def dget_or_def sort_key_def u_def)

lemma anchor_text_reads:
  assumes "list_all stored_event es"
  shows "py_loads (universal_newlines (dumps_indent 2 (JObj (signed_anchor K es)) @ [10]))
    = Inr (sort_keys (JObj (signed_anchor K es)))"
proof -
  let ?t = "dumps_indent 2 (JObj (signed_anchor K es))"
  have "13 \<notin> set (?t @ [10])"
    using no_cr_dumps_indent by simp
  then show ?thesis
    using loads_render_space [of "sort_keys (JObj (signed_anchor K es))" "[10]" "Some 2" 0]
      wf_signed_anchor [OF assms, of K]
    by (simp add: universal_newlines_id py_loads_def dumps_indent_def del: sort_keys.simps wf_json.simps(3))
qed

lemma verify_anchor_none:
  "anchor_file fs = None \<Longrightarrow> verify_audit_anchor fresh [] fs = (Inr (True, []), fs)"
  by (simp add: verify_audit_anchor_def)

text \<open>With the key in place, the anchor of one log is compared with the events of another.\<close>

lemma verify_anchor_some:
  assumes "key_file fs = Some (hexdigest K)" and "list_all stored_event es"
    and "anchor_file fs = Some (dumps_indent 2 (JObj (signed_anchor K es)) @ [10])"
  shows "\<exists>msgs. verify_audit_anchor fresh events fs =
    (Inr (py_eq (JObj (signed_anchor K es)) (JObj (signed_anchor K events)), msgs), fs)"
  using assms
  by (auto simp: verify_audit_anchor_def anchor_text_reads anchor_record_def audit_anchor_key_def key_text_reads
      bindIO_def retIO_def py_eq_def sort_keys_idem simp del: sort_keys.simps)

lemma verify_log_inv:
  assumes "log_inv K fs es"
  shows "\<exists>v. verify_files fresh fs = (Inr v, fs) \<and> report_ok (chain_report v) \<and> anchor_verified v
    \<and> report_count (chain_report v) = length es"
proof -
  have ch: "chain_inv K fs es" and an: "anchored K fs es" using assms by (auto simp: log_inv_def)
  obtain r where r: "verify_audit_chain es = Inr r" "report_ok r"
    using verified_report ch by (auto simp: chain_inv_def)
  have count: "report_count r = length es"
    using r(1) by (auto simp: verify_audit_chain_def res_simps)
  obtain m where "verify_audit_anchor fresh es fs = (Inr (True, m), fs)"
  proof (cases "es = []")
    case False
    with ch an verify_anchor_some [of fs K es fresh es] show ?thesis
      by (auto simp: chain_inv_def anchored_def intro: that)
  qed (use an verify_anchor_none in \<open>auto simp: anchored_def intro: that\<close>)
  then show ?thesis
    using r count by (simp add: verify_files_def bindIO_def report_of_chain [OF ch] liftIO_def retIO_def)
qed

lemma verify_files_ok:
  assumes "verify_files fresh fs = (Inr v, fs')" and "report_ok (chain_report v)"
  shows "\<exists>events t m. audit_events_report fs = (Inr (events, []), fs) \<and> audit_verified events
    \<and> verify_audit_anchor fresh events fs = (Inr (True, m), t)"
  using assms
  by (auto simp: verify_files_def bindIO_eq_Inr liftIO_def retIO_def audit_events_report_def audit_verified_def
      split: option.splits)

text \<open>The anchor pins the number of events and the hash of the last one.\<close>

lemma linked_appendD: "linked p (as @ bs) \<Longrightarrow> linked p as"
  by (induction as arbitrary: p) auto

lemma py_eq_signed_anchor:
  assumes "hash_value (head_hash as)" and "hash_value (head_hash bs)"
    and "py_eq (JObj (signed_anchor K as)) (JObj (signed_anchor K bs))"
  shows "length as = length bs \<and> head_hash as = head_hash bs"
  using assms
  by (auto simp: py_eq_def sort_signed_anchor last_event_hash_head hash_value_def is_str_iff
      simp del: sort_keys.simps(2))

lemma append_event_file_accepts:
  assumes "chain_inv K fs es" and "append_event_file fresh e fs = (Inr c, fs')"
  shows "truthy (dget e ''event_id'') \<and> (\<forall>x \<in> set es. \<not> py_eq (dget e ''event_id'') (dget x ''event_id''))"
  using assms py_eq_sym
  by (auto simp: append_event_file_def Let_def bindIO_eq_Inr events_of_chain raiseIO_def liftIO_def list_ex_iff
      split: if_splits)

subsection \<open>The file log implements the contract\<close>

definition file_log :: "files \<Rightarrow> obj list" where
  "file_log fs = (case fst (audit_events_report fs) of Inr (events, _) \<Rightarrow> events | Inl _ \<Rightarrow> [])"

definition file_append :: "byte list \<Rightarrow> files \<Rightarrow> obj \<Rightarrow> exn + files \<times> obj" where
  "file_append fresh fs e =
     (case append_event_file fresh e fs of (Inr c, fs') \<Rightarrow> Inr (fs', c) | (Inl x, _) \<Rightarrow> Inl x)"

definition file_inv :: "files \<Rightarrow> bool" where
  "file_inv fs \<longleftrightarrow> (\<exists>K. log_inv K fs (file_log fs))"

definition file_event :: "obj \<Rightarrow> bool" where
  "file_event e \<longleftrightarrow> wf_json (JObj e) \<and> hashable (dget e ''event_id'')"

lemma file_log_chain: "chain_inv K fs es \<Longrightarrow> file_log fs = es"
  by (simp add: file_log_def report_of_chain)

interpretation disk: audit_log "file_append fresh" file_log file_inv file_event for fresh
proof unfold_locales
  fix s e s' c
  assume inv: "file_inv s" and e: "file_event e" and a: "file_append fresh s e = Inr (s', c)"
  from inv obtain K where K: "chain_inv K s (file_log s)" by (auto simp: file_inv_def log_inv_def)
  from a have app: "append_event_file fresh e s = (Inr c, s')"
    by (auto simp: file_append_def split: prod.splits sum.splits)
  note new = append_event_file_accepts [OF K app]
  let ?c = "chain_event e (head_hash (file_log s))"
  obtain K' where c: "c = ?c" and K': "log_inv K' s' (file_log s @ [canonical_dict ?c])"
    using append_event_file_effect [OF K, of e fresh] new e app by (auto simp: file_event_def)
  then have log: "file_log s' = file_log s @ [canonical_dict ?c]"
    using file_log_chain [of K' s'] by (simp add: log_inv_def)
  have "list_all stored_event (file_log s)" using K by (simp add: chain_inv_def)
  then have "same_dict (canonical_dict ?c) ?c"
    using chained_canonical(2) e by (simp add: file_event_def)
  with c K' log new e show "file_inv s' \<and> c = ?c
      \<and> (\<exists>c'. file_log s' = file_log s @ [c'] \<and> same_dict c' c)
      \<and> truthy (dget e ''event_id'') \<and> hashable (dget e ''event_id'')
      \<and> (\<forall>x \<in> set (file_log s). \<not> py_eq (dget e ''event_id'') (dget x ''event_id''))"
    by (auto simp: file_inv_def file_event_def)
qed

subsection \<open>Properties\<close>

definition no_files :: files where
  "no_files = \<lparr>audit_file = None, anchor_file = None, key_file = None, snapshot_file = None\<rparr>"

lemma no_files_inv: "log_inv K no_files []"
  by (simp add: log_inv_def chain_inv_def anchored_def no_files_def)

text \<open>
  C7. Starting without files, after any sequence of appends that are accepted (events with text
  that has an encoding and a hashable id), the log in the files passes its own verification, the
  anchor included, the files hold one entry per event, in order and complete up to the key order,
  and verifying writes nothing.
\<close>
theorem file_log_verifies:
  assumes "foldE (\<lambda>fs e. bindE (file_append fresh fs e) (\<lambda>(fs', _). Inr fs')) no_files es = Inr fs"
    and "list_all (\<lambda>e. wf_json (JObj e) \<and> hashable (dget e ''event_id'')) es"
  shows "\<exists>v. verify_files other fs = (Inr v, fs) \<and> report_ok (chain_report v) \<and> anchor_verified v
    \<and> report_count (chain_report v) = length es
    \<and> list_all2 (\<lambda>c e. \<exists>p. same_dict c (chain_event e p)) (file_log fs) es"
proof -
  have inv: "file_inv no_files" "file_log no_files = []"
    using no_files_inv file_log_chain [of _ no_files "[]"] by (auto simp: file_inv_def log_inv_def)
  have "\<forall>e \<in> set es. file_event e"
    using assms(2) by (simp only: list_all_iff file_event_def)
  from disk.append_all_verified [of fresh no_files es fs, OF _ inv(1) this] assms(1) inv(2)
  have "file_inv fs" "list_all2 (\<lambda>c e. \<exists>p. same_dict c (chain_event e p)) (file_log fs) es"
    by (auto simp: disk.append_all_def)
  moreover from this(1) obtain K where "log_inv K fs (file_log fs)" by (auto simp: file_inv_def)
  ultimately show ?thesis
    using verify_log_inv [of K fs "file_log fs" other] by (auto dest: list_all2_lengthD)
qed

text \<open>
  C12. On a consistent log an append of a well-formed event with a hashable id succeeds exactly when
  the event has an id that no stored event has; it returns the event linked to the last one and leaves
  a consistent log with that entry added, and an append that is refused changes no file.
\<close>
theorem append_event_exact:
  assumes "log_inv K fs es" and "wf_json (JObj e)" and "hashable (dget e ''event_id'')"
  defines "c \<equiv> chain_event e (head_hash es)"
    and "accepted \<equiv> truthy (dget e ''event_id'')
      \<and> \<not> list_ex (\<lambda>x. py_eq (dget e ''event_id'') (dget x ''event_id'')) es"
  shows "(case append_event_file fresh e fs of
      (Inr r, fs') \<Rightarrow> accepted \<and> r = c
        \<and> log_inv (if key_file fs = None then fresh else K) fs' (es @ [canonical_dict c])
    | (Inl x, fs') \<Rightarrow> \<not> accepted \<and> fs' = fs \<and> (\<exists>m. x = ValueError m))"
proof (cases accepted)
  case True
  with append_event_file_effect [of K fs es e fresh] assms(1-3) show ?thesis
    by (auto simp: log_inv_def accepted_def c_def list_ex_iff)
next
  case False
  have ch: "chain_inv K fs es" using assms(1) by (simp add: log_inv_def)
  then obtain r where "verify_audit_chain es = Inr r" "report_ok r"
    using verified_report by (auto simp: chain_inv_def)
  with False show ?thesis
    using py_eq_sym
    by (auto simp: accepted_def append_event_file_def Let_def bindIO_def raiseIO_def liftIO_def list_ex_iff
        events_of_chain [OF ch])
qed

text \<open>
  C10. Whoever rewrites the audit file but not the anchor and its key is found out: if the rewritten
  file still verifies, it holds the same events in the same order, or two events are an explicit
  SHA-256 collision.
\<close>
theorem audit_file_tamper_evident:
  assumes "log_inv K fs es" and "es \<noteq> []"
    and "verify_files fresh (fs\<lparr>audit_file := t\<rparr>) = (Inr v, fs')" and "report_ok (chain_report v)"
    and "list_all (\<lambda>e. wf_json (JObj e)) (file_log (fs\<lparr>audit_file := t\<rparr>))"
  shows "list_all2 same_event es (file_log (fs\<lparr>audit_file := t\<rparr>))
    \<or> (\<exists>a \<in> set es. \<exists>b \<in> set (file_log (fs\<lparr>audit_file := t\<rparr>)).
          collides (canonical_bytes (event_body a)) (canonical_bytes (event_body b)))"
proof -
  let ?fs = "fs\<lparr>audit_file := t\<rparr>"
  obtain events s m where ev: "audit_events_report ?fs = (Inr (events, []), ?fs)" "audit_verified events"
    "verify_audit_anchor fresh events ?fs = (Inr (True, m), s)"
    using verify_files_ok [OF assms(3,4)] by blast
  have log: "file_log ?fs = events" by (simp add: file_log_def ev(1))
  have inv: "key_file ?fs = Some (hexdigest K)" "list_all stored_event es" "audit_verified es"
    "anchor_file ?fs = Some (dumps_indent 2 (JObj (signed_anchor K es)) @ [10])"
    using assms(1,2) by (auto simp: log_inv_def chain_inv_def anchored_def)
  have "py_eq (JObj (signed_anchor K es)) (JObj (signed_anchor K events))"
    using verify_anchor_some [OF inv(1,2,4), of fresh events] ev(3) by auto
  then have "head_hash es = head_hash events"
    using py_eq_signed_anchor verified_head [OF inv(3)] verified_head [OF ev(2)]
    by (auto simp: hash_value_def is_str_iff)
  moreover have "\<forall>e \<in> set es \<union> set events. wf_json (JObj e)"
    using inv(2) assms(5) by (auto simp: log list_all_iff stored_event_def simp del: wf_json.simps(3))
  ultimately show ?thesis
    using same_head_same_chain inv(3) ev(2) by (simp add: audit_verified_iff log)
qed

text \<open>
  C40. The anchor does not protect against what it is there for. Cutting events off the end of the
  audit file is noticed by the verifier as long as nothing else happens; but the next append, which
  checks the chain only and not the anchor, succeeds on the cut file, signs the shortened chain, and
  from then on the log with the lost events verifies, anchor included.
\<close>
theorem truncation_laundered:
  assumes "log_inv K fs (kept @ lost)" and "lost \<noteq> []"
    and "wf_json (JObj e)" and "truthy (dget e ''event_id'')" and "hashable (dget e ''event_id'')"
    and "\<not> list_ex (\<lambda>x. py_eq (dget e ''event_id'') (dget x ''event_id'')) kept"
  defines "shorter_fs \<equiv> fs\<lparr>audit_file := Some (log_text kept)\<rparr>"
  shows "\<exists>before c fs' after. verify_files fresh shorter_fs = (Inr before, shorter_fs) \<and> \<not> report_ok (chain_report before)
    \<and> append_event_file fresh e shorter_fs = (Inr c, fs')
    \<and> file_log fs' = kept @ [canonical_dict c]
    \<and> verify_files fresh fs' = (Inr after, fs') \<and> report_ok (chain_report after) \<and> anchor_verified after"
proof -
  let ?c = "chain_event e (head_hash kept)"
  have inv: "key_file fs = Some (hexdigest K)" "list_all stored_event (kept @ lost)" "audit_verified (kept @ lost)"
    "anchor_file shorter_fs = Some (dumps_indent 2 (JObj (signed_anchor K (kept @ lost))) @ [10])"
    using assms(1,2) by (auto simp: log_inv_def chain_inv_def anchored_def shorter_fs_def)
  have kept: "audit_verified kept"
    using inv(3) by (auto simp: audit_verified_iff event_ids_unique_def nth_append dest: linked_appendD split: if_splits)
  have ch: "chain_inv K shorter_fs kept"
    using inv(1,2) kept by (simp add: chain_inv_def shorter_fs_def)
  obtain r where r: "verify_audit_chain kept = Inr r" using verified_report [OF kept] by blast
  have "\<not> py_eq (JObj (signed_anchor K (kept @ lost))) (JObj (signed_anchor K kept))"
    using py_eq_signed_anchor [of "kept @ lost" kept K] assms(2) verified_head [OF inv(3)] verified_head [OF kept]
    by (auto simp: hash_value_def is_str_iff)
  then obtain m where "verify_audit_anchor fresh kept shorter_fs = (Inr (False, m), shorter_fs)"
    using verify_anchor_some [of shorter_fs K "kept @ lost" fresh kept] inv by (auto simp: shorter_fs_def)
  then have before: "\<exists>b. verify_files fresh shorter_fs = (Inr b, shorter_fs) \<and> \<not> report_ok (chain_report b)"
    using r by (simp add: verify_files_def bindIO_def report_of_chain [OF ch] liftIO_def retIO_def)
  obtain fs' where app: "append_event_file fresh e shorter_fs = (Inr ?c, fs')"
    and fs': "log_inv K fs' (kept @ [canonical_dict ?c])"
    using append_event_file_effect [OF ch assms(3-5), of fresh] assms(6) inv(1)
    by (auto simp: list_ex_iff shorter_fs_def)
  have "file_log fs' = kept @ [canonical_dict ?c]"
    using fs' file_log_chain by (auto simp: log_inv_def)
  then show ?thesis
    using before app verify_log_inv [OF fs', of fresh] by blast
qed

text \<open>A log of two events, for the examples below.\<close>

definition small_event :: "char list \<Rightarrow> obj" where
  "small_event name = [(u ''event_id'', js name), (u ''result'', js ''ok'')]"

lemma small_event_facts [simp]:
  "wf_json (JObj (small_event ''a''))" "wf_json (JObj (small_event ''b''))"
  "dget (small_event name) ''event_id'' = js name"
  by (simp_all add: small_event_def scalar_def u_def dget_def dget_or_def)

lemmas sample_wf = small_event_facts(1,2) [simplified wf_json.simps(3)]

lemma sample_log:
  "\<exists>fs e1. append_event_file [] (small_event ''a'') no_files = (Inr e1, fs)
     \<and> log_inv [] fs [canonical_dict e1] \<and> key_file fs = Some (hexdigest [])
     \<and> e1 = chain_event (small_event ''a'') JNull"
proof -
  have "chain_inv [] no_files []" using no_files_inv by (simp add: log_inv_def)
  from append_event_file_effect [OF this, of "small_event ''a''" "[]"]
  obtain fs' where "append_event_file [] (small_event ''a'') no_files = (Inr (chain_event (small_event ''a'') (head_hash [])), fs')"
    "log_inv [] fs' [canonical_dict (chain_event (small_event ''a'') (head_hash []))]"
    using sample_wf(1) by auto
  moreover from this(2) have "key_file fs' = Some (hexdigest [])"
    by (auto simp: log_inv_def chain_inv_def)
  ultimately show ?thesis by (auto simp: head_hash_def)
qed

theorem file_log_verifies_witness:
  "\<exists>fs v. file_append [] no_files (small_event ''a'') = Inr (fs, chain_event (small_event ''a'') JNull)
     \<and> verify_files [] fs = (Inr v, fs) \<and> report_ok (chain_report v) \<and> report_count (chain_report v) = 1"
proof -
  obtain fs where fs: "append_event_file [] (small_event ''a'') no_files = (Inr (chain_event (small_event ''a'') JNull), fs)"
    using sample_log by blast
  then have "foldE (\<lambda>fs e. bindE (file_append [] fs e) (\<lambda>(fs', _). Inr fs')) no_files [small_event ''a''] = Inr fs"
    by (simp add: file_append_def)
  from file_log_verifies [OF this, of "[]"] fs show ?thesis
    by (auto simp: file_append_def simp del: wf_json.simps(3))
qed

theorem append_event_exact_witness:
  "case append_event_file [] (small_event ''a'') no_files of
     (Inr r, fs) \<Rightarrow> r = chain_event (small_event ''a'') JNull | (Inl x, fs) \<Rightarrow> False"
  using append_event_exact [of "[]" no_files "[]" "small_event ''a''" "[]", OF no_files_inv]
  using sample_wf(1) by (auto simp: head_hash_def split: prod.splits sum.splits)

theorem audit_file_tamper_evident_witness:
  "\<exists>fs es v. es \<noteq> [] \<and> verify_files [] (fs\<lparr>audit_file := audit_file fs\<rparr>) = (Inr v, fs)
     \<and> (list_all2 same_event es (file_log (fs\<lparr>audit_file := audit_file fs\<rparr>))
        \<or> (\<exists>a \<in> set es. \<exists>b \<in> set (file_log (fs\<lparr>audit_file := audit_file fs\<rparr>)).
              collides (canonical_bytes (event_body a)) (canonical_bytes (event_body b))))"
proof -
  obtain fs e where fs: "log_inv [] fs [canonical_dict e]"
    using sample_log by blast
  obtain v where v: "verify_files [] (fs\<lparr>audit_file := audit_file fs\<rparr>) = (Inr v, fs)" "report_ok (chain_report v)"
    using verify_log_inv [OF fs] by auto
  have "file_log (fs\<lparr>audit_file := audit_file fs\<rparr>) = [canonical_dict e]"
    using fs file_log_chain [of "[]" fs] by (simp add: log_inv_def)
  moreover have "wf_json (JObj (canonical_dict e))"
    using fs by (simp add: log_inv_def chain_inv_def stored_event_def del: wf_json.simps(3) sort_keys.simps)
  ultimately have "list_all (\<lambda>e. wf_json (JObj e)) (file_log (fs\<lparr>audit_file := audit_file fs\<rparr>))"
    by (simp del: wf_json.simps(3))
  then show ?thesis
    using audit_file_tamper_evident [OF fs _ v] v(1) by blast
qed

theorem truncation_laundered_witness:
  "\<exists>fs e1 fs' after. log_inv [] fs [canonical_dict e1]
     \<and> append_event_file [] (small_event ''b'') (fs\<lparr>audit_file := Some (log_text [])\<rparr>)
         = (Inr (chain_event (small_event ''b'') JNull), fs')
     \<and> verify_files [] fs' = (Inr after, fs') \<and> report_ok (chain_report after)"
proof -
  obtain fs e1 where fs: "log_inv [] fs ([] @ [canonical_dict e1])" "key_file fs = Some (hexdigest [])"
    using sample_log by auto
  have "chain_inv [] (fs\<lparr>audit_file := Some (log_text [])\<rparr>) []"
    using fs(2) by (simp add: chain_inv_def)
  from append_event_file_effect [OF this, of "small_event ''b''" "[]"]
    truncation_laundered [OF fs(1), of "small_event ''b''" "[]"] fs(1)
  show ?thesis using sample_wf(2) by (auto simp: head_hash_def)
qed

end
