(* ===== verification/Windows_Evidence.thy ===== *)
theory Windows_Evidence
  imports Py_Text
begin

text \<open>
  The validator of the Windows release evidence (\<open>tooling/windows_release_evidence.py\<close>): five
  checks of one JSON document, each giving an \<open>EvidenceResult\<close> that passes or blocks the release.
  A check collects findings; a Python exception that escapes a check is the left result. The
  document comes as the text of the file \<open>release_evidence/windows_installed_smoke.json\<close>; the
  parameter \<open>T\<close> holds the Unicode tables.
\<close>

record evidence_result =
  er_name :: string
  er_status :: string
  er_classification :: string
  er_blocks_release :: string
  er_reason :: msg
  er_required_action :: msg

definition er_failed :: "string \<Rightarrow> msg \<Rightarrow> string \<Rightarrow> evidence_result" where
  "er_failed name reason action =
     \<lparr>er_name = name, er_status = ''failed'', er_classification = ''release_blocker'',
      er_blocks_release = ''yes'', er_reason = reason, er_required_action = Msg action []\<rparr>"

definition er_passed :: "string \<Rightarrow> string \<Rightarrow> string \<Rightarrow> evidence_result" where
  "er_passed name reason action =
     \<lparr>er_name = name, er_status = ''passed'', er_classification = ''none'',
      er_blocks_release = ''no'', er_reason = Msg reason [], er_required_action = Msg action []\<rparr>"

text \<open>The tail every check shares: findings fail it with their text joined, none pass it.\<close>

definition verdict :: "string \<Rightarrow> string \<Rightarrow> string \<Rightarrow> string \<Rightarrow> msg list \<Rightarrow> evidence_result" where
  "verdict name collect passed_reason keep errors =
     (if errors \<noteq> [] then er_failed name (Joined errors) collect else er_passed name passed_reason keep)"

subsection \<open>Access\<close>

text \<open>\<open>_get(data, "a.b")\<close>, with the path as the list \<open>dotted.split(".")\<close>\<close>

fun get_path :: "json \<Rightarrow> string list \<Rightarrow> json" where
  "get_path v [] = v"
| "get_path (JObj d) (part # parts) =
     (case map_of d (u part) of None \<Rightarrow> JNull | Some w \<Rightarrow> get_path w parts)"
| "get_path v (part # parts) = JNull"

definition path_is_false :: "json \<Rightarrow> string list \<Rightarrow> bool" where
  "path_is_false data p \<longleftrightarrow> is_false (get_path data p)"

definition path_is_true :: "json \<Rightarrow> string list \<Rightarrow> bool" where
  "path_is_true data p \<longleftrightarrow> is_true (get_path data p)"

definition is_sha256_tag :: "tables \<Rightarrow> json \<Rightarrow> bool" where
  "is_sha256_tag T v \<longleftrightarrow> sha256_tag_pattern (text_of T v)"

text \<open>\<open>SOURCE_COMMIT_RE\<close>: \<open>$\<close> also matches before a final line feed.\<close>

definition commit_pattern :: "ustr \<Rightarrow> bool" where
  "commit_pattern s \<longleftrightarrow> length (chomp s) = 40 \<and> list_all is_lower_hex (chomp s)"

text \<open>\<open>_hash_file\<close>: the bytes of the file are the UTF-8 encoding of its text.\<close>

definition hash_file :: "ustr \<Rightarrow> ustr" where
  "hash_file text = sha256_tag (utf8_encode text)"

definition normalised_text :: "ustr \<Rightarrow> ustr" where
  "normalised_text s = strip (collapse_spaces s)"

subsection \<open>Visible surfaces\<close>

definition REQUIRED_VISIBLE_SURFACES :: "string list" where
  "REQUIRED_VISIBLE_SURFACES = [''Dashboard'', ''Invariant Status'', ''NavigationRail'', ''Runtime Status'']"

definition AGGREGATE_SURFACE_TEXT :: ustr where
  "AGGREGATE_SURFACE_TEXT = u ''GUI Shell Dashboard NavigationRail Runtime Status Invariant Status''"

text \<open>
  One character against one literal character under \<open>re.IGNORECASE\<close>: besides the two ASCII cases,
  \<open>i\<close>, \<open>k\<close> and \<open>s\<close> match the dotted and dotless i, the Kelvin sign and the long s.
\<close>

definition same_letter :: "nat \<Rightarrow> nat \<Rightarrow> bool" where
  "same_letter l c \<longleftrightarrow>
     (let lo = ascii_lower l in
      ascii_lower c = lo \<or> lo = 105 \<and> c \<in> {0x130, 0x131} \<or> lo = 107 \<and> c = 0x212A \<or> lo = 115 \<and> c = 0x17F)"

fun label_at :: "ustr \<Rightarrow> ustr \<Rightarrow> bool" where
  "label_at [] s = True"
| "label_at (l # ls) [] = False"
| "label_at (l # ls) (c # s) = (same_letter l c \<and> label_at ls s)"

fun contains_label :: "ustr \<Rightarrow> ustr \<Rightarrow> bool" where
  "contains_label label s = (label_at label s \<or> (case s of [] \<Rightarrow> False | _ # t \<Rightarrow> contains_label label t))"

declare contains_label.simps [simp del]

definition contains_all_required_surfaces :: "ustr \<Rightarrow> bool" where
  "contains_all_required_surfaces s \<longleftrightarrow> list_all (\<lambda>l. contains_label (u l) s) REQUIRED_VISIBLE_SURFACES"

text \<open>The findings of one label, and the element key it contributes.\<close>

definition surface_label_errors :: "tables \<Rightarrow> obj \<Rightarrow> string \<Rightarrow> msg list" where
  "surface_label_errors T matches label =
     (case dget matches label of
        JObj m \<Rightarrow>
          (let name = text_of T (dget m ''name'');
               automation_id = text_of T (dget m ''automation_id'');
               control_type = text_of T (dget m ''control_type'');
               element_key = text_of T (dget m ''element_key'');
               aggregate_text = casefold T (normalised_text AGGREGATE_SURFACE_TEXT);
               element_text = normalised_text (name @ u '' '' @ automation_id);
               at = (\<lambda>b s. flag b (Msg s [js label]))
           in at (\<not> is_true (dget m ''matched'')) ''the surface match of {} must be true''
            @ at (element_key = []) ''the surface match of {} has no element_key''
            @ at (control_type = []) ''the surface match of {} has no control_type''
            @ at (\<not> (contains_label (u label) name \<or> contains_label (u label) automation_id))
                ''name or automation_id of the surface match of {} must contain the label''
            @ at (contains_all_required_surfaces element_text)
                ''the surface match of {} uses one aggregate element with all required labels''
            @ at (aggregate_text \<noteq> [] \<and> substring aggregate_text (casefold T element_text))
                ''the surface match of {} uses the forbidden aggregate surface title'')
      | _ \<Rightarrow> [Msg ''no surface match evidence for {}'' [js label]])"

definition surface_label_key :: "tables \<Rightarrow> obj \<Rightarrow> string \<Rightarrow> ustr list" where
  "surface_label_key T matches label =
     (case dget matches label of
        JObj m \<Rightarrow> (let k = text_of T (dget m ''element_key'') in if k = [] then [] else [k])
      | _ \<Rightarrow> [])"

definition OBSERVED_KEYS :: "string list" where
  "OBSERVED_KEYS = [''automation_id'', ''class_name'', ''control_type'', ''element_key'', ''framework_id'',
     ''name'', ''parent_runtime_id'', ''runtime_id'', ''supported_patterns'']"

text \<open>The loop over the observed elements stops at the first one with missing keys.\<close>

fun observed_errors :: "nat \<Rightarrow> json list \<Rightarrow> msg list" where
  "observed_errors index [] = []"
| "observed_errors index (JObj element # rest) =
     (let missing = filter (\<lambda>k. \<not> dhas element k) OBSERVED_KEYS in
      if missing \<noteq> []
      then [Msg ''observed element {} lacks diagnostic keys: {}'' (JInt (int index) # map js missing)]
      else observed_errors (Suc index) rest)"
| "observed_errors index (_ # rest) =
     Msg ''observed element {} is not an object'' [JInt (int index)] # observed_errors (Suc index) rest"

definition diagnostic_tree_errors :: "obj \<Rightarrow> msg list" where
  "diagnostic_tree_errors surface_evidence =
     (case dget surface_evidence ''diagnostic_tree'' of
        JObj tree \<Rightarrow>
          (case dget tree ''observed_elements'' of
             JArr (e # es) \<Rightarrow> observed_errors 0 (take (min (length (e # es)) 20) (e # es))
           | _ \<Rightarrow> [Msg ''diagnostic_tree.observed_elements is missing'' []])
          @ remark (\<not> is_list (dget tree ''tree_edges'')) ''diagnostic_tree.tree_edges is missing''
      | _ \<Rightarrow> [Msg ''the surface evidence has no diagnostic_tree'' []])"

definition validate_surface_match_evidence :: "tables \<Rightarrow> obj \<Rightarrow> msg list" where
  "validate_surface_match_evidence T surface_evidence =
     remark (\<not> is_false (dget surface_evidence ''aggregate_surface_shortcut_detected''))
       ''an aggregate surface shortcut was detected or not excluded''
     @ remark (\<not> is_true (dget surface_evidence ''surface_match_requirements_met''))
       ''the individual surface match requirements are not confirmed''
     @ (case dget surface_evidence ''surface_matches'' of
          JObj matches \<Rightarrow>
            (let keys = concat (map (surface_label_key T matches) REQUIRED_VISIBLE_SURFACES)
             in concat (map (surface_label_errors T matches) REQUIRED_VISIBLE_SURFACES)
              @ remark (length keys = length REQUIRED_VISIBLE_SURFACES \<and> length (remdups keys) = 1)
                  ''all required surfaces depend on a single automation element''
              @ diagnostic_tree_errors surface_evidence)
        | _ \<Rightarrow> [Msg ''the surface evidence has no surface_matches'' []])"

subsection \<open>Field provenance\<close>

type_synonym requirement = "string \<times> string \<times> string list"

definition BASE_REQUIRED_FIELD_PROVENANCE :: "requirement list" where
  "BASE_REQUIRED_FIELD_PROVENANCE =
     [(''artifact'', ''directly_measured'', [''EXTERNAL_EVIDENCE'']),
      (''first_run.process'', ''directly_measured'', [''EXTERNAL_EVIDENCE'', ''LIVE_RUNTIME'']),
      (''first_run.visible_surfaces'', ''directly_measured'', [''EXTERNAL_EVIDENCE'', ''LIVE_RUNTIME'']),
      (''first_run.config_audit'', ''directly_measured'', [''EXTERNAL_EVIDENCE'', ''LIVE_RUNTIME'']),
      (''first_run.installer_authority_boundary'', ''static_assertion'', [''CONFIG'']),
      (''setup_doctor'', ''product_export'', [''EXTERNAL_EVIDENCE'', ''LIVE_RUNTIME'']),
      (''broker.ipc_restart_crash'', ''directly_measured'', [''EXTERNAL_EVIDENCE'', ''LIVE_RUNTIME'']),
      (''release_runtime_assertions'', ''static_assertion'', [''CONFIG'', ''FIXTURE''])]"

definition AUDIT_REQUIRED_FIELD_PROVENANCE :: "requirement list" where
  "AUDIT_REQUIRED_FIELD_PROVENANCE =
     [(''audit_anchor.external_tamper_evidence'', ''directly_measured'',
       [''EXTERNAL_EVIDENCE'', ''LIVE_RUNTIME''])]"

fun observed_classes :: "json \<Rightarrow> json list" where
  "observed_classes (JStr s) = [JStr s]"
| "observed_classes (JArr xs) = filter is_str xs"
| "observed_classes _ = []"

definition provenance_entry_errors :: "obj \<Rightarrow> requirement \<Rightarrow> msg list" where
  "provenance_entry_errors provenance r =
     (case r of (grp, source_type, classes) \<Rightarrow>
       (case dget provenance grp of
          JObj entry \<Rightarrow>
            (let observed = observed_classes (dget entry ''evidence_class'')
             in flag (dget entry ''source_type'' \<noteq> js source_type)
                  (Msg ''field_provenance.{}.source_type must be {}'' [js grp, js source_type])
              @ flag (observed = [] \<or> list_all (\<lambda>c. js c \<notin> set observed) classes)
                  (Msg ''field_provenance.{}.evidence_class must include one of {}'' (js grp # map js classes))
              @ flag (\<not> is_true (dget entry ''formal_release_input''))
                  (Msg ''field_provenance.{}.formal_release_input must be true'' [js grp]))
        | _ \<Rightarrow> [Msg ''field_provenance.{} is missing'' [js grp]]))"

definition validate_field_provenance :: "json \<Rightarrow> requirement list \<Rightarrow> bool \<Rightarrow> msg list" where
  "validate_field_provenance data required check_unsupported =
     (case get_path data [''field_provenance''] of
        JObj provenance \<Rightarrow>
          concat (map (provenance_entry_errors provenance) required)
          @ (if check_unsupported
             then remark (\<not> (py_eq (dget provenance ''unsupported_claims'') JNull
                           \<or> py_eq (dget provenance ''unsupported_claims'') (JArr [])))
                    ''field_provenance.unsupported_claims must be empty''
             else [])
      | _ \<Rightarrow> [Msg ''the field_provenance object is missing'' []])"

subsection \<open>Provenance and isolation\<close>

definition LEGACY_FIXED_INSTALL_ROOT_SUFFIX :: ustr where
  "LEGACY_FIXED_INSTALL_ROOT_SUFFIX = 92 # u ''gui-shell'' @ 92 # u ''installed''"

definition BASE_REQUIRED_EVIDENCE_BUNDLE_KINDS :: "string list" where
  "BASE_REQUIRED_EVIDENCE_BUNDLE_KINDS =
     [''broker_smoke'', ''runtime_assertions'', ''setup_doctor'', ''visible_surfaces'']"

definition AUDIT_REQUIRED_EVIDENCE_BUNDLE_KINDS :: "string list" where
  "AUDIT_REQUIRED_EVIDENCE_BUNDLE_KINDS = [''audit_anchor_external_tamper_evidence'']"

text \<open>\<open>str(value or "").replace("/", "\\").casefold()\<close>\<close>

definition folded_path :: "tables \<Rightarrow> json \<Rightarrow> ustr" where
  "folded_path T v = casefold T (map (\<lambda>c. if c = 47 then 92 else c) (text_of T v))"

definition path_contains_run_id :: "tables \<Rightarrow> json \<Rightarrow> ustr \<Rightarrow> bool" where
  "path_contains_run_id T v run_id \<longleftrightarrow>
     run_id \<noteq> [] \<and> substring (casefold T run_id) (folded_path T v)"

definition isolation_errors :: "tables \<Rightarrow> json \<Rightarrow> ustr \<Rightarrow> msg list" where
  "isolation_errors T isolation run_id =
     (case isolation of
        JObj d \<Rightarrow>
          remark (\<not> is_false (dget d ''uses_shared_fixed_install_root''))
            ''isolation.uses_shared_fixed_install_root must be false''
          @ concat (map (\<lambda>field.
              (if \<not> truthy (dget d field) then [Msg ''isolation.{} is missing'' [js field]]
               else flag (\<not> path_contains_run_id T (dget d field) run_id)
                      (Msg ''isolation.{} must contain the run_id'' [js field])))
             [''isolated_install_root'', ''isolated_runtime_dir'', ''isolated_store_dir'',
              ''isolated_config_dir'', ''isolated_audit_dir''])
          @ remark (ends_with LEGACY_FIXED_INSTALL_ROOT_SUFFIX (folded_path T (dget d ''isolated_install_root'')))
            ''isolation.isolated_install_root uses the legacy shared install root''
      | _ \<Rightarrow> [Msg ''the provenance.isolation object is missing'' []])"

fun bundle_file_errors :: "tables \<Rightarrow> nat \<Rightarrow> json list \<Rightarrow> msg list" where
  "bundle_file_errors T index [] = []"
| "bundle_file_errors T index (JObj item # rest) =
     flag (\<not> truthy (dget item ''path'')) (Msg ''evidence_bundle_files[{}].path is missing'' [JInt (int index)])
     @ flag (\<not> is_sha256_tag T (dget item ''sha256''))
         (Msg ''evidence_bundle_files[{}].sha256 needs a sha256 tag'' [JInt (int index)])
     @ bundle_file_errors T (Suc index) rest"
| "bundle_file_errors T index (_ # rest) =
     Msg ''evidence_bundle_files[{}] must be an object'' [JInt (int index)] # bundle_file_errors T (Suc index) rest"

fun bundle_kinds :: "json list \<Rightarrow> json list" where
  "bundle_kinds [] = []"
| "bundle_kinds (JObj item # rest) = dget item ''kind'' # bundle_kinds rest"
| "bundle_kinds (_ # rest) = bundle_kinds rest"

text \<open>\<open>required - kinds\<close>; only strings count as kinds.\<close>

definition missing_kinds :: "string list \<Rightarrow> json list \<Rightarrow> string list" where
  "missing_kinds required kinds = filter (\<lambda>k. js k \<notin> set kinds) required"

definition bundle_errors :: "tables \<Rightarrow> json \<Rightarrow> msg list" where
  "bundle_errors T files =
     (case files of
        JArr (f # fs) \<Rightarrow>
          (let missing = missing_kinds BASE_REQUIRED_EVIDENCE_BUNDLE_KINDS (bundle_kinds (f # fs))
           in bundle_file_errors T 0 (f # fs)
            @ flag (missing \<noteq> []) (Msg ''evidence_bundle_files lacks the kinds: {}'' (map js missing)))
      | _ \<Rightarrow> [Msg ''provenance.evidence_bundle_files is missing'' []])"

definition provenance_errors :: "tables \<Rightarrow> json \<Rightarrow> obj \<Rightarrow> ustr option \<Rightarrow> msg list" where
  "provenance_errors T data provenance file_text =
     (let run_id = text_of T (dget provenance ''run_id'');
          artifact_hash = get_path data [''artifact'', ''sha256'']
      in remark (run_id = []) ''provenance.run_id is missing''
       @ remark (\<not> commit_pattern (text_of T (dget provenance ''source_commit'')))
           ''provenance.source_commit must be a commit SHA of 40 characters''
       @ remark (\<not> is_true (dget provenance ''source_worktree_clean''))
           ''provenance.source_worktree_clean must be true''
       @ remark (text_of T (dget provenance ''source_status_porcelain'') \<noteq> [])
           ''provenance.source_status_porcelain must be empty''
       @ concat (map (\<lambda>field. flag (\<not> truthy (dget provenance field)) (Msg ''provenance.{} is missing'' [js field]))
           [''build_command'', ''build_timestamp'', ''staged_manifest_path''])
       @ concat (map (\<lambda>field. flag (\<not> is_sha256_tag T (dget provenance field))
                          (Msg ''provenance.{} needs a sha256 tag'' [js field]))
           [''installed_manifest_sha256'', ''app_artifact_sha256'', ''broker_artifact_sha256'',
            ''evidence_bundle_sha256''])
       @ remark (is_sha256_tag T artifact_hash \<and> \<not> py_eq (dget provenance ''app_artifact_sha256'') artifact_hash)
           ''provenance.app_artifact_sha256 must equal artifact.sha256''
       @ isolation_errors T (dget provenance ''isolation'') run_id
       @ bundle_errors T (dget provenance ''evidence_bundle_files'')
       @ validate_field_provenance data BASE_REQUIRED_FIELD_PROVENANCE True
       @ (case file_text of
            None \<Rightarrow> []
          | Some text \<Rightarrow>
              remark (is_sha256_tag T (dget provenance ''final_evidence_sha256'')
                    \<and> dget provenance ''final_evidence_sha256'' \<noteq> JStr (hash_file text))
                ''provenance.final_evidence_sha256 does not match this evidence file''))"

definition validate_provenance_and_isolation :: "tables \<Rightarrow> json \<Rightarrow> ustr option \<Rightarrow> evidence_result" where
  "validate_provenance_and_isolation T data file_text =
     verdict ''windows_evidence_provenance_isolation''
       ''collect source commit, clean worktree, artifact hashes, isolated paths and bundle hashes from a staged Windows run''
       ''the Windows installed evidence is bound to a clean commit, an isolated run and artifact hashes''
       ''keep every formal Windows evidence run isolated and bound to its commit''
       (case get_path data [''provenance''] of
          JObj provenance \<Rightarrow> provenance_errors T data provenance file_text
        | _ \<Rightarrow> [Msg ''the provenance object is missing'' []])"

text \<open>\<open>load_evidence\<close>, with \<open>utf-8-sig\<close> dropping a byte order mark.\<close>

definition load_evidence :: "ustr option \<Rightarrow> exn + (msg + json)" where
  "load_evidence file_text =
     (case file_text of
        None \<Rightarrow> Inr (Inl (Msg ''the evidence file is missing'' []))
      | Some text \<Rightarrow>
          (case py_loads (universal_newlines (case text of [] \<Rightarrow> [] | c # t \<Rightarrow> if c = 0xFEFF then t else text)) of
             Inl JSONDecodeError \<Rightarrow> Inr (Inl (Msg ''the evidence file is not valid JSON'' []))
           | Inl e \<Rightarrow> Inl e
           | Inr (JObj d) \<Rightarrow> Inr (Inr (JObj d))
           | Inr _ \<Rightarrow> Inr (Inl (Msg ''the evidence file must hold a JSON object'' []))))"

subsection \<open>The installed first run\<close>

definition first_run_surface_errors :: "tables \<Rightarrow> json \<Rightarrow> exn + msg list" where
  "first_run_surface_errors T data =
     (let recorded = get_path data [''first_run'', ''visible_surfaces''] in
      bindE (py_set (if truthy recorded then recorded else JArr [])) (\<lambda>visible.
      bindE (case get_path data [''first_run'', ''visible_surfaces_evidence''] of
               JObj surface_evidence \<Rightarrow>
                 bindE (in_strings (dget surface_evidence ''source'')
                          [''uiautomation'', ''accessibility_tree'', ''flutter_semantics_runtime_export'']) (\<lambda>known.
                 Inr (remark (\<not> known) ''the source of the surface evidence is not an accepted one''
                   @ remark (\<not> truthy (dget surface_evidence ''path'')) ''the surface evidence path is missing''
                   @ validate_surface_match_evidence T surface_evidence))
             | _ \<Rightarrow> Inr [Msg ''the surface evidence is missing'' []]) (\<lambda>evidence.
      Inr (concat (map (\<lambda>label. flag (js label \<notin> set visible) (Msg ''{} is not recorded as visible'' [js label]))
             REQUIRED_VISIBLE_SURFACES)
           @ evidence))))"

definition first_run_source_errors :: "json \<Rightarrow> msg list" where
  "first_run_source_errors data =
     (case get_path data [''evidence_source''] of
        JObj source \<Rightarrow>
          remark (dget source ''collector'' \<noteq> js ''installer/windows/collect_installed_smoke.ps1'')
            ''evidence_source.collector must be the installed smoke collector''
          @ remark (\<not> truthy (dget source ''collector_version'')) ''evidence_source.collector_version is missing''
          @ remark (\<not> is_false (dget source ''manual_confirmation''))
            ''manual confirmation is not accepted''
      | _ \<Rightarrow> [Msg ''the evidence_source object is missing'' []])"

definition first_run_launch_errors :: "tables \<Rightarrow> json \<Rightarrow> msg list" where
  "first_run_launch_errors T data =
     (let run = (\<lambda>k. get_path data [''first_run'', k]);
          yes = (\<lambda>k s. remark (\<not> path_is_true data [''first_run'', k]) s)
      in remark (\<not> sha256_tag_pattern (text_of T (get_path data [''artifact'', ''sha256''])))
           ''artifact.sha256 needs a sha256 tag''
       @ remark (\<not> path_is_true data [''artifact'', ''installed_exe_exists'']) ''the installed executable is not confirmed''
       @ remark (\<not> ends_with (u ''.exe'') (lower_case T (text_of T (get_path data [''artifact'', ''installed_exe_path'']))))
           ''artifact.installed_exe_path must name the installed executable''
       @ remark (run ''status'' \<noteq> js ''passed'') ''first_run.status must be passed''
       @ yes ''launched_from_installed_path'' ''first run did not launch from the installed path''
       @ yes ''process_running_after_launch'' ''the process is not confirmed running after launch''
       @ remark (\<not> is_int (run ''process_id'')) ''first_run.process_id is missing''
       @ remark (\<not> is_int (run ''main_window_handle'') \<or> py_eq (run ''main_window_handle'') (JInt 0))
           ''the main window handle is not confirmed''
       @ yes ''first_window_visible'' ''the first window is not confirmed visible''
       @ yes ''broker_mediated_launch'' ''first run was not launched through the broker''
       @ remark (\<not> truthy (run ''broker_helper_path'')) ''first_run.broker_helper_path is missing''
       @ remark (\<not> truthy (run ''broker_endpoint_file'')) ''first_run.broker_endpoint_file is missing''
       @ yes ''broker_endpoint_created'' ''the broker endpoint file is not confirmed created''
       @ remark (run ''broker_transport'' \<noteq> js ''authenticated_loopback_tcp'')
           ''first_run.broker_transport must be authenticated_loopback_tcp''
       @ yes ''no_python_runtime_requested'' ''the no-Python runtime mode was not requested''
       @ yes ''python_runtime_path_scrubbed'' ''the Python runtime PATH was not scrubbed''
       @ remark (\<not> py_eq (run ''python_path_entries_remaining_count'') (JInt 0))
           ''Python PATH entries stayed visible before the first run''
       @ (case run ''python_commands_visible_after_scrub'' of
            JArr xs \<Rightarrow> remark (xs \<noteq> []) ''Python commands stayed visible before the first run''
          | _ \<Rightarrow> [Msg ''first_run.python_commands_visible_after_scrub must be a list'' []])
       @ yes ''visible_surfaces_complete'' ''first_run.visible_surfaces_complete must be true'')"

definition first_run_storage_errors :: "json \<Rightarrow> msg list" where
  "first_run_storage_errors data =
     (let run = (\<lambda>k. get_path data [''first_run'', k])
      in remark (\<not> path_is_true data [''first_run'', ''config_created'']) ''the first-run config is not confirmed created''
       @ remark (\<not> path_is_true data [''first_run'', ''config_json_valid'']) ''the first-run config is not confirmed valid''
       @ remark (\<not> truthy (run ''config_path'')) ''the first-run config path is missing''
       @ remark (\<not> path_is_true data [''first_run'', ''audit_dir_writable'']) ''the audit directory is not confirmed writable''
       @ (case run ''audit_write_probe'' of
            JObj probe \<Rightarrow>
              remark (\<not> list_all (\<lambda>key. is_true (dget probe key)) [''attempted'', ''write'', ''read'', ''delete''])
                ''the audit write, read, delete probe did not pass''
          | _ \<Rightarrow> [Msg ''the audit write probe is missing'' []])
       @ remark (\<not> truthy (run ''audit_dir'')) ''the audit dir path is missing''
       @ remark (\<not> path_is_false data [''first_run'', ''installer_grants_authority''])
           ''the installer authority boundary is not confirmed false''
       @ remark (\<not> path_is_false data [''first_run'', ''installer_silently_approves_permissions''])
           ''the silent approval boundary is not confirmed false'')"

definition validate_installer_first_run :: "tables \<Rightarrow> json \<Rightarrow> exn + evidence_result" where
  "validate_installer_first_run T data =
     bindE (first_run_surface_errors T data) (\<lambda>surfaces.
     Inr (verdict ''windows_installer_first_run_smoke''
       ''run the Windows installed first-run smoke and record valid evidence''
       ''the first-run smoke evidence of the installed executable passed machine validation''
       ''keep the first-run evidence current per release candidate''
       (remark (get_path data [''platform''] \<noteq> js ''windows'') ''platform must be windows''
        @ first_run_source_errors data @ first_run_launch_errors T data @ surfaces
        @ first_run_storage_errors data)))"

subsection \<open>The setup doctor\<close>

definition REQUIRED_SETUP_CHECKS :: "string list" where
  "REQUIRED_SETUP_CHECKS =
     [''first_run.audit_dir_writable'', ''first_run.config_created'', ''setup_doctor.audit_storage'',
      ''setup_doctor.authority_boundary'', ''setup_doctor.network_public_bind'',
      ''setup_doctor.ran_from_installed_app_path'', ''setup_doctor.recovery_instruction'',
      ''setup_doctor.runtime_connection'', ''windows.artifact_hash'', ''windows.installed_app_path'']"

fun dicts_of :: "json list \<Rightarrow> obj list" where
  "dicts_of [] = []"
| "dicts_of (JObj d # xs) = d # dicts_of xs"
| "dicts_of (_ # xs) = dicts_of xs"

definition setup_check_errors :: "json \<Rightarrow> msg list" where
  "setup_check_errors checks =
     (case checks of
        JArr (c # cs) \<Rightarrow>
          (let ds = dicts_of (c # cs);
               ids = map (\<lambda>d. dget d ''check_id'') ds;
               missing = filter (\<lambda>k. js k \<notin> set ids) REQUIRED_SETUP_CHECKS
           in remark (list_ex (\<lambda>d. dget d ''status'' = js ''fail'') ds) ''the setup doctor has a failed check''
            @ remark (list_ex (\<lambda>d. \<not> is_false (dget d ''grants_authority'')) ds)
                ''a setup doctor check grants authority or does not exclude it''
            @ flag (missing \<noteq> []) (Msg ''the setup doctor lacks required checks: {}'' (map js missing))
            @ remark (list_ex (\<lambda>d. \<not> truthy (dget d ''recovery_instruction'')) ds)
                ''the setup doctor checks must carry a recovery instruction'')
      | _ \<Rightarrow> [Msg ''the setup doctor checks must be a non-empty list'' []])"

definition setup_source_errors :: "json \<Rightarrow> msg list" where
  "setup_source_errors source =
     (case source of
        JObj d \<Rightarrow>
          remark (dget d ''source_kind'' \<noteq> js ''installed_app_machine_readable_export'')
            ''evidence_source.source_kind must be installed_app_machine_readable_export''
          @ remark (\<not> is_true (dget d ''product_generated'')) ''the installed app must generate the evidence''
          @ remark (\<not> is_false (dget d ''collector_derives_checks'')) ''the collector must not derive checks''
          @ remark (\<not> is_false (dget d ''synthetic'')) ''synthetic setup doctor evidence is not accepted''
          @ remark (\<not> truthy (dget d ''command'')) ''evidence_source.command is missing''
      | _ \<Rightarrow> [Msg ''the setup doctor evidence_source is missing'' []])"

definition setup_errors :: "json \<Rightarrow> msg list" where
  "setup_errors doctor =
     (case doctor of
        JObj d \<Rightarrow>
          remark (\<not> is_true (dget d ''formal_product_evidence'')) ''the setup doctor must be installed-app product evidence''
          @ remark (dget d ''status'' \<notin> {js ''pass'', js ''warning''}) ''setup_doctor.status must be pass or warning''
          @ setup_source_errors (dget d ''evidence_source'')
          @ remark (\<not> truthy (dget d ''ran_from_installed_app_path'')) ''the setup doctor did not run from the installed path''
          @ remark (\<not> truthy (dget d ''operator_readable'')) ''operator readability is not confirmed''
          @ remark (\<not> is_false (dget d ''installer_grants_authority'')) ''installer_grants_authority must be false''
          @ remark (\<not> is_false (dget d ''installer_silently_approves_permissions''))
            ''installer_silently_approves_permissions must be false''
          @ setup_check_errors (dget d ''checks'')
      | _ \<Rightarrow> [Msg ''the setup_doctor object is missing'' []])"

definition validate_setup_doctor :: "json \<Rightarrow> evidence_result" where
  "validate_setup_doctor data =
     verdict ''windows_setup_doctor_smoke''
       ''let the installed app write machine-readable setup doctor evidence''
       ''the installed-path setup doctor evidence passed machine validation''
       ''keep the setup doctor evidence current per release candidate''
       (setup_errors (get_path data [''setup_doctor'']))"

subsection \<open>The broker\<close>

definition REQUIRED_BROKER_TRUE_FIELDS :: "string list" where
  "REQUIRED_BROKER_TRUE_FIELDS =
     [''authenticated_ipc_connection'', ''crash_fail_closed'', ''durable_store_ready'',
      ''fresh_health_after_restart'', ''helper_exe_exists'', ''restart_replay_rejected'',
      ''restricted_loopback_bind'', ''session_file_created'']"

definition broker_source_errors :: "json \<Rightarrow> msg list" where
  "broker_source_errors source =
     (case source of
        JObj d \<Rightarrow>
          remark (dget d ''collector'' \<noteq> js ''installer/windows/collect_broker_smoke.ps1'')
            ''broker evidence_source.collector must be the broker smoke collector''
          @ remark (\<not> truthy (dget d ''collector_version'')) ''broker evidence_source.collector_version is missing''
          @ remark (\<not> is_false (dget d ''synthetic'')) ''synthetic broker evidence is not accepted''
          @ remark (\<not> truthy (dget d ''command'')) ''broker evidence_source.command is missing''
      | _ \<Rightarrow> [Msg ''the broker evidence_source is missing'' []])"

definition broker_field_errors :: "obj \<Rightarrow> json \<Rightarrow> string \<Rightarrow> msg list" where
  "broker_field_errors broker field_provenance field =
     flag (\<not> is_true (dget broker field)) (Msg ''broker.{} must be true'' [js field])
     @ (case field_provenance of
          JObj fp \<Rightarrow>
            (case dget fp field of
               JObj entry \<Rightarrow>
                 flag (dget entry ''source_type'' \<noteq> js ''directly_measured'')
                   (Msg ''broker field_provenance.{}.source_type must be directly_measured'' [js field])
                 @ flag (dget entry ''evidence_class'' \<notin> {js ''LIVE_RUNTIME'', js ''EXTERNAL_EVIDENCE''})
                   (Msg ''broker field_provenance.{}.evidence_class must be LIVE_RUNTIME or EXTERNAL_EVIDENCE'' [js field])
             | _ \<Rightarrow> [Msg ''broker field_provenance.{} is missing'' [js field]])
        | _ \<Rightarrow> [])"

definition declaration_errors :: "json \<Rightarrow> msg list" where
  "declaration_errors declarations =
     (if py_eq declarations JNull \<or> py_eq declarations (JObj []) then []
      else (case declarations of
        JObj d \<Rightarrow> concat (map (\<lambda>(key, v).
          (case v of
             JObj w \<Rightarrow> flag (\<not> is_false (dget w ''formal_runtime_proof''))
               (Msg ''unmeasured_declarations.{}.formal_runtime_proof must be false'' [JStr key])
           | _ \<Rightarrow> [Msg ''unmeasured_declarations.{} must be an object'' [JStr key]])) d)
      | _ \<Rightarrow> [Msg ''broker unmeasured_declarations must be an object when present'' []]))"

definition broker_errors :: "json \<Rightarrow> msg list" where
  "broker_errors broker =
     (case broker of
        JObj d \<Rightarrow>
          remark (dget d ''status'' \<noteq> js ''passed'') ''broker.status must be passed''
          @ broker_source_errors (dget d ''evidence_source'')
          @ remark (\<not> is_dict (dget d ''field_provenance'')) ''broker field_provenance is missing''
          @ concat (map (broker_field_errors d (dget d ''field_provenance'')) REQUIRED_BROKER_TRUE_FIELDS)
          @ remark (dget d ''endpoint_host'' \<noteq> js ''127.0.0.1'') ''broker endpoint_host must be 127.0.0.1''
          @ remark (dget d ''replay_error_code'' \<noteq> js ''broker_replay_detected'')
            ''broker replay_error_code must be broker_replay_detected''
          @ remark (dhas d ''python_runtime_required_for_authority'')
            ''the declaration python_runtime_required_for_authority is not measured evidence''
          @ remark (dhas d ''flutter_rust_ffi_authority_bridge'')
            ''the declaration flutter_rust_ffi_authority_bridge is not measured evidence''
          @ declaration_errors (dget d ''unmeasured_declarations'')
          @ remark (\<not> (py_eq (dget d ''errors'') JNull \<or> py_eq (dget d ''errors'') (JArr [])))
            ''broker errors must be empty''
      | _ \<Rightarrow> [Msg ''the broker evidence object is missing'' []])"

definition validate_broker_smoke :: "json \<Rightarrow> evidence_result" where
  "validate_broker_smoke data =
     verdict ''windows_broker_installed_smoke''
       ''run the broker smoke collector against the installed helper and include only measured provenance''
       ''the broker launch, connect, restart and crash evidence passed machine validation''
       ''keep the broker smoke evidence current per release candidate''
       (broker_errors (get_path data [''broker'']))"

subsection \<open>The audit anchor\<close>

text \<open>\<open>{item.get("kind") for item in files if isinstance(item, dict)}\<close> hashes every kind.\<close>

definition anchor_bundle_errors :: "json \<Rightarrow> exn + msg list" where
  "anchor_bundle_errors files =
     (case files of
        JArr (f # fs) \<Rightarrow>
          (let kinds = bundle_kinds (f # fs);
               missing = missing_kinds AUDIT_REQUIRED_EVIDENCE_BUNDLE_KINDS kinds
           in if list_all hashable kinds
              then Inr (flag (missing \<noteq> []) (Msg ''evidence_bundle_files lacks the kinds: {}'' (map js missing)))
              else Inl TypeError)
      | _ \<Rightarrow> Inr [Msg ''evidence_bundle_files has no audit anchor evidence'' []])"

definition anchor_source_errors :: "tables \<Rightarrow> json \<Rightarrow> exn + msg list" where
  "anchor_source_errors T source =
     (case source of
        JObj d \<Rightarrow>
          bindE (in_strings (dget d ''source_kind'')
                   [''windows_acl_dpapi_probe'', ''external_anchor'', ''signed_evidence'']) (\<lambda>known.
          Inr (remark (\<not> known) ''the source_kind of the audit anchor evidence is not an accepted one''
            @ remark (dget d ''evidence_class'' \<notin> {js ''LIVE_RUNTIME'', js ''EXTERNAL_EVIDENCE''})
                ''the evidence_class of the audit anchor evidence must be LIVE_RUNTIME or EXTERNAL_EVIDENCE''
            @ remark (\<not> is_false (dget d ''synthetic'')) ''synthetic audit anchor evidence is not accepted''
            @ remark (\<not> truthy (dget d ''command'')) ''the command of the audit anchor evidence is missing''
            @ remark (\<not> truthy (dget d ''path'')) ''the path of the audit anchor evidence is missing''
            @ remark (\<not> is_sha256_tag T (dget d ''sha256'')) ''the sha256 of the audit anchor evidence needs a sha256 tag''))
      | _ \<Rightarrow> Inr [Msg ''the audit anchor evidence_source is missing'' []])"

definition anchor_evidence_errors :: "tables \<Rightarrow> json \<Rightarrow> exn + msg list" where
  "anchor_evidence_errors T evidence =
     (case evidence of
        JObj d \<Rightarrow>
          bindE (anchor_source_errors T (dget d ''evidence_source'')) (\<lambda>source.
          Inr (remark (dget d ''status'' \<noteq> js ''passed'') ''the audit anchor evidence status must be passed''
            @ remark (\<not> is_true (dget d ''installed_path_verified''))
                ''the audit anchor evidence must be measured from the installed path''
            @ remark (\<not> is_true (dget d ''key_anchor_log_same_user_rewrite_mitigated''))
                ''the mitigation of a key, anchor and log rewrite by the same user must be verified''
            @ remark (\<not> list_ex (\<lambda>field. is_true (dget d field))
                  [''windows_acl_verified'', ''dpapi_verified'', ''external_anchor_verified'', ''signed_evidence_verified''])
                ''one of Windows ACL, DPAPI, external anchor, signed evidence must be verified''
            @ remark (is_true (dget d ''administrator_root_resistance_claimed'')
                   \<and> \<not> (is_true (dget d ''external_anchor_verified'') \<or> is_true (dget d ''signed_evidence_verified'')))
                ''resistance against administrators needs an external anchor or signed evidence''
            @ source))
      | _ \<Rightarrow> Inr [Msg ''the audit_anchor_external_tamper_evidence object is missing'' []])"

definition validate_audit_anchor_external_tamper_evidence :: "tables \<Rightarrow> json \<Rightarrow> exn + evidence_result" where
  "validate_audit_anchor_external_tamper_evidence T data =
     bindE (case get_path data [''provenance''] of
              JObj provenance \<Rightarrow> anchor_bundle_errors (dget provenance ''evidence_bundle_files'')
            | _ \<Rightarrow> Inr [Msg ''the provenance object of the audit anchor evidence is missing'' []]) (\<lambda>bundle.
     bindE (anchor_evidence_errors T (get_path data [''audit_anchor_external_tamper_evidence''])) (\<lambda>evidence.
     Inr (verdict ''audit_anchor_external_tamper_evidence_proof''
       ''collect an ACL, DPAPI, external anchor or signed proof for the audit key, anchor and log''
       ''the external tamper evidence of the audit anchor passed machine validation''
       ''keep the audit anchor evidence current per release candidate''
       (bundle @ validate_field_provenance data AUDIT_REQUIRED_FIELD_PROVENANCE False @ evidence))))"

subsection \<open>All checks\<close>

definition validate_windows_release_evidence :: "tables \<Rightarrow> ustr option \<Rightarrow> exn + evidence_result list" where
  "validate_windows_release_evidence T file_text =
     bindE (load_evidence file_text) (\<lambda>loaded.
       case loaded of
         Inl error \<Rightarrow> Inr
           [er_failed ''windows_evidence_provenance_isolation'' error
              ''create the evidence from an isolated native Windows run bound to a commit'',
            er_failed ''windows_installer_first_run_smoke'' error
              ''create the evidence from a native Windows installed-app smoke'',
            er_failed ''windows_setup_doctor_smoke'' error
              ''let the installed app write machine-readable setup doctor evidence'',
            er_failed ''windows_broker_installed_smoke'' error
              ''run the broker smoke collector and include its evidence'',
            er_failed ''audit_anchor_external_tamper_evidence_proof'' error
              ''collect an ACL, DPAPI, external anchor or signed proof for the audit key, anchor and log'']
       | Inr data \<Rightarrow>
           bindE (validate_installer_first_run T data) (\<lambda>first_run.
           bindE (validate_audit_anchor_external_tamper_evidence T data) (\<lambda>anchor.
             Inr [validate_provenance_and_isolation T data file_text, first_run,
                  validate_setup_doctor data, validate_broker_smoke data, anchor])))"

text \<open>The exit code of \<open>main\<close>.\<close>

definition windows_evidence_exit :: "evidence_result list \<Rightarrow> int" where
  "windows_evidence_exit results =
     (if list_ex (\<lambda>r. er_classification r = ''release_blocker'') results then 1 else 0)"

subsection \<open>What a verdict means\<close>

definition passing :: "evidence_result \<Rightarrow> bool" where
  "passing r \<longleftrightarrow> er_status r = ''passed''"

lemma verdict_passing [simp]: "passing (verdict n c p k errors) \<longleftrightarrow> errors = []"
  by (simp add: passing_def verdict_def er_failed_def er_passed_def)

lemma er_name_verdict [simp]: "er_name (verdict n c p k errors) = n"
  by (simp add: verdict_def er_failed_def er_passed_def)

definition coherent :: "evidence_result \<Rightarrow> bool" where
  "coherent r \<longleftrightarrow>
     (if passing r then er_classification r = ''none'' \<and> er_blocks_release r = ''no''
      else er_status r = ''failed'' \<and> er_classification r = ''release_blocker'' \<and> er_blocks_release r = ''yes'')"

lemma coherent_results [simp]:
  "coherent (verdict n c p k errors)" "coherent (er_failed n m a)" "\<not> passing (er_failed n m a)"
  "er_name (er_failed n m a) = n"
  by (simp_all add: coherent_def passing_def verdict_def er_failed_def er_passed_def)

definition EVIDENCE_NAMES :: "string list" where
  "EVIDENCE_NAMES =
     [''windows_evidence_provenance_isolation'', ''windows_installer_first_run_smoke'',
      ''windows_setup_doctor_smoke'', ''windows_broker_installed_smoke'',
      ''audit_anchor_external_tamper_evidence_proof'']"

lemmas check_defs = validate_provenance_and_isolation_def validate_installer_first_run_def
  validate_setup_doctor_def validate_broker_smoke_def validate_audit_anchor_external_tamper_evidence_def

lemma evidence_cases:
  assumes "validate_windows_release_evidence T file_text = Inr rs"
  obtains (unreadable) m where "load_evidence file_text = Inr (Inl m)" "map er_name rs = EVIDENCE_NAMES"
      "list_all coherent rs" "list_all (\<lambda>r. \<not> passing r) rs"
    | (read) data fr an where "load_evidence file_text = Inr (Inr data)"
      "validate_installer_first_run T data = Inr fr"
      "validate_audit_anchor_external_tamper_evidence T data = Inr an"
      "rs = [validate_provenance_and_isolation T data file_text, fr, validate_setup_doctor data,
         validate_broker_smoke data, an]"
proof -
  from assms obtain loaded where loaded: "load_evidence file_text = Inr loaded"
    by (cases "load_evidence file_text") (auto simp: validate_windows_release_evidence_def)
  show thesis
  proof (cases loaded)
    case (Inl m)
    with assms loaded show thesis
      by (intro unreadable) (auto simp: validate_windows_release_evidence_def EVIDENCE_NAMES_def)
  next
    case (Inr data)
    with assms loaded read show thesis
      by (auto simp: validate_windows_release_evidence_def res_simps)
  qed
qed

lemma evidence_results_shape:
  assumes "validate_windows_release_evidence T file_text = Inr rs"
  shows "map er_name rs = EVIDENCE_NAMES" and "list_all coherent rs"
    and "(case load_evidence file_text of Inr (Inl _) \<Rightarrow> list_all (\<lambda>r. \<not> passing r) rs | _ \<Rightarrow> True)"
  using assms
  by (cases rule: evidence_cases; auto simp: check_defs EVIDENCE_NAMES_def res_simps)+

lemma exit_all_passing:
  "list_all coherent rs \<Longrightarrow> windows_evidence_exit rs = 0 \<longleftrightarrow> list_all passing rs"
  by (induction rs) (auto simp: windows_evidence_exit_def coherent_def split: if_splits)

text \<open>
  Whenever the evidence validator returns, it returns the same five results in the same order,
  each either passed and not blocking, or failed and a release blocker; its exit code is 0 exactly
  when all five passed, and without a readable document all five are blockers.
\<close>
theorem evidence_verdicts_coherent:
  assumes "validate_windows_release_evidence T file_text = Inr rs"
  shows "map er_name rs = EVIDENCE_NAMES \<and> list_all coherent rs
    \<and> (windows_evidence_exit rs = 0 \<longleftrightarrow> list_all passing rs)
    \<and> (case load_evidence file_text of Inr (Inl _) \<Rightarrow> list_all (\<lambda>r. \<not> passing r) rs | _ \<Rightarrow> True)"
  using evidence_results_shape [OF assms] exit_all_passing by simp

theorem evidence_verdicts_coherent_witness:
  "\<exists>rs. validate_windows_release_evidence ascii_tables None = Inr rs \<and> windows_evidence_exit rs = 1
     \<and> length rs = 5"
proof -
  obtain rs where rs: "validate_windows_release_evidence ascii_tables None = Inr rs"
    by (simp add: validate_windows_release_evidence_def load_evidence_def)
  from evidence_verdicts_coherent [OF this]
  have "map er_name rs = EVIDENCE_NAMES" "windows_evidence_exit rs = 0 \<longleftrightarrow> list_all passing rs"
    "list_all (\<lambda>r. \<not> passing r) rs" by (simp_all add: load_evidence_def)
  moreover from this(1) have "length rs = 5"
    using length_map [of er_name rs] by (simp add: EVIDENCE_NAMES_def)
  ultimately have "windows_evidence_exit rs \<noteq> 0" "length rs = 5" by (cases rs; simp)+
  then show ?thesis
    using rs by (simp add: windows_evidence_exit_def split: if_splits)
qed

lemma concat_map_Nil: "concat (map f xs) = [] \<longleftrightarrow> (\<forall>x \<in> set xs. f x = [])"
  by auto

lemma get_path_two: "get_path v [a, b] = (case get_path v [a] of JObj d \<Rightarrow> dget d b | _ \<Rightarrow> JNull)"
  by (cases v) (auto simp: dget_def dget_or_def split: option.splits json.splits)

lemma setup_checks_clean:
  assumes "setup_check_errors v = []"
  shows "\<exists>checks. v = JArr checks \<and> checks \<noteq> []
    \<and> (\<forall>c \<in> set (dicts_of checks). dget c ''grants_authority'' = JBool False \<and> dget c ''status'' \<noteq> js ''fail'')
    \<and> (\<forall>k \<in> set REQUIRED_SETUP_CHECKS. \<exists>c \<in> set (dicts_of checks). dget c ''check_id'' = js k)"
proof -
  from assms obtain x xs where v: "v = JArr (x # xs)"
    by (auto simp: setup_check_errors_def split: json.splits list.splits)
  define ds where "ds = dicts_of (x # xs)"
  have "filter (\<lambda>k. js k \<notin> set (map (\<lambda>d. dget d ''check_id'') ds)) REQUIRED_SETUP_CHECKS = []"
    and a: "\<not> list_ex (\<lambda>d. dget d ''status'' = js ''fail'') ds" "\<not> list_ex (\<lambda>d. \<not> is_false (dget d ''grants_authority'')) ds"
    using assms by (simp_all add: v setup_check_errors_def Let_def ds_def del: dicts_of.simps set_map)
  then have "\<forall>k \<in> set REQUIRED_SETUP_CHECKS. js k \<in> (\<lambda>d. dget d ''check_id'') ` set ds"
    by (simp only: filter_empty_conv set_map simp_thms)
  then have "\<forall>k \<in> set REQUIRED_SETUP_CHECKS. \<exists>c \<in> set ds. dget c ''check_id'' = js k" by force
  with a v show ?thesis by (auto simp: list_ex_iff is_false_def ds_def simp del: dicts_of.simps)
qed

lemma setup_clean:
  assumes "setup_errors doctor = []"
  shows "\<exists>d. doctor = JObj d \<and> dget d ''installer_grants_authority'' = JBool False
    \<and> dget d ''installer_silently_approves_permissions'' = JBool False \<and> setup_check_errors (dget d ''checks'') = []"
  using assms by (cases doctor) (simp_all add: setup_errors_def is_false_def)

lemma broker_field_clean:
  "broker_field_errors d (JObj fp) k = [] \<longleftrightarrow>
     dget d k = JBool True
     \<and> (\<exists>e. dget fp k = JObj e \<and> dget e ''source_type'' = js ''directly_measured''
          \<and> dget e ''evidence_class'' \<in> {js ''LIVE_RUNTIME'', js ''EXTERNAL_EVIDENCE''})"
  by (cases "dget fp k") (auto simp: broker_field_errors_def is_true_def)

lemma broker_clean:
  assumes "broker_errors broker = []"
  shows "\<exists>d fp. broker = JObj d \<and> dget d ''field_provenance'' = JObj fp \<and> dget d ''endpoint_host'' = js ''127.0.0.1''
    \<and> (\<forall>k \<in> set REQUIRED_BROKER_TRUE_FIELDS. dget d k = JBool True
         \<and> (\<exists>e. dget fp k = JObj e \<and> dget e ''source_type'' = js ''directly_measured''))"
proof -
  from assms obtain d where d: "broker = JObj d" by (cases broker) (auto simp: broker_errors_def)
  from assms have "is_dict (dget d ''field_provenance'')" "dget d ''endpoint_host'' = js ''127.0.0.1''"
    and f: "\<forall>k \<in> set REQUIRED_BROKER_TRUE_FIELDS. broker_field_errors d (dget d ''field_provenance'') k = []"
    by (simp_all add: d broker_errors_def concat_map_Nil)
  then obtain fp where "dget d ''field_provenance'' = JObj fp" by (auto simp: is_dict_iff)
  with d f \<open>dget d ''endpoint_host'' = _\<close> show ?thesis by (auto simp: broker_field_clean)
qed

lemma provenance_clean:
  assumes "provenance_errors T data p (Some text) = []"
  shows "dget p ''source_worktree_clean'' = JBool True \<and> commit_pattern (text_of T (dget p ''source_commit''))
    \<and> (is_sha256_tag T (get_path data [''artifact'', ''sha256''])
         \<longrightarrow> py_eq (dget p ''app_artifact_sha256'') (get_path data [''artifact'', ''sha256'']))
    \<and> (is_sha256_tag T (dget p ''final_evidence_sha256'') \<longrightarrow> dget p ''final_evidence_sha256'' = JStr (hash_file text))"
  using assms by (auto simp: provenance_errors_def Let_def is_true_def)

lemma launch_clean:
  assumes "first_run_launch_errors T data = []" and "first_run_storage_errors data = []"
  shows "is_sha256_tag T (get_path data [''artifact'', ''sha256''])
    \<and> get_path data [''first_run'', ''python_runtime_path_scrubbed''] = JBool True
    \<and> get_path data [''first_run'', ''broker_mediated_launch''] = JBool True
    \<and> get_path data [''first_run'', ''installer_grants_authority''] = JBool False
    \<and> get_path data [''first_run'', ''installer_silently_approves_permissions''] = JBool False"
  using assms
  by (simp add: first_run_launch_errors_def first_run_storage_errors_def Let_def path_is_true_def path_is_false_def
      is_true_def is_false_def is_sha256_tag_def)

lemma anchor_clean:
  assumes "anchor_evidence_errors T v = Inr []"
  shows "\<exists>d. v = JObj d \<and> dget d ''key_anchor_log_same_user_rewrite_mitigated'' = JBool True
    \<and> (\<exists>f \<in> {''windows_acl_verified'', ''dpapi_verified'', ''external_anchor_verified'', ''signed_evidence_verified''}.
         dget d f = JBool True)"
  using assms by (cases v) (auto simp: anchor_evidence_errors_def res_simps is_true_def)


lemma first_run_surfaces_return:
  "(\<exists>m. first_run_surface_errors T data = Inr m) \<longleftrightarrow>
     (let recorded = get_path data [''first_run'', ''visible_surfaces'']
      in \<exists>xs. py_set (if truthy recorded then recorded else JArr []) = Inr xs)
     \<and> (case get_path data [''first_run'', ''visible_surfaces_evidence''] of
          JObj ev \<Rightarrow> hashable (dget ev ''source'') | _ \<Rightarrow> True)"
  by (auto simp: first_run_surface_errors_def Let_def res_simps in_strings_def simp del: get_path.simps
      split: json.splits)

lemma anchor_bundle_return:
  "(\<exists>m. anchor_bundle_errors v = Inr m) \<longleftrightarrow> (case v of JArr fs \<Rightarrow> list_all hashable (bundle_kinds fs) | _ \<Rightarrow> True)"
  by (auto simp: anchor_bundle_errors_def Let_def split: json.split list.split)

lemma anchor_evidence_return:
  "(\<exists>m. anchor_evidence_errors T v = Inr m) \<longleftrightarrow>
     (case v of JObj d \<Rightarrow> (case dget d ''evidence_source'' of JObj s \<Rightarrow> hashable (dget s ''source_kind'') | _ \<Rightarrow> True)
      | _ \<Rightarrow> True)"
  by (auto simp: anchor_evidence_errors_def anchor_source_errors_def in_strings_def res_simps split: json.split)

text \<open>
  What the validator of the Windows evidence survives: on a readable document it returns exactly when
  the recorded surfaces can be made a set, and the surface source, the kinds of the bundle files and the
  source kind of the anchor evidence can be hashed. In particular a bundle file whose kind is a list or an
  object, which the provenance check reports as missing, makes the whole validation raise.
\<close>
theorem evidence_validation_returns:
  assumes "load_evidence file_text = Inr (Inr data)"
  shows "(\<exists>rs. validate_windows_release_evidence T file_text = Inr rs) \<longleftrightarrow>
    (let recorded = get_path data [''first_run'', ''visible_surfaces'']
     in \<exists>xs. py_set (if truthy recorded then recorded else JArr []) = Inr xs)
    \<and> (case get_path data [''first_run'', ''visible_surfaces_evidence''] of
         JObj ev \<Rightarrow> hashable (dget ev ''source'') | _ \<Rightarrow> True)
    \<and> (case get_path data [''provenance''] of
         JObj p \<Rightarrow> (case dget p ''evidence_bundle_files'' of JArr fs \<Rightarrow> list_all hashable (bundle_kinds fs) | _ \<Rightarrow> True)
       | _ \<Rightarrow> True)
    \<and> (case get_path data [''audit_anchor_external_tamper_evidence''] of
         JObj d \<Rightarrow> (case dget d ''evidence_source'' of JObj s \<Rightarrow> hashable (dget s ''source_kind'') | _ \<Rightarrow> True)
       | _ \<Rightarrow> True)"
proof -
  let ?parts = "case get_path data [''provenance''] of
      JObj p \<Rightarrow> anchor_bundle_errors (dget p ''evidence_bundle_files'')
    | _ \<Rightarrow> Inr [Msg ''the provenance object of the audit anchor evidence is missing'' []]"
  have "(\<exists>rs. validate_windows_release_evidence T file_text = Inr rs) \<longleftrightarrow>
      (\<exists>m. first_run_surface_errors T data = Inr m) \<and> (\<exists>m. ?parts = Inr m)
      \<and> (\<exists>m. anchor_evidence_errors T (get_path data [''audit_anchor_external_tamper_evidence'']) = Inr m)"
    by (auto simp: validate_windows_release_evidence_def assms validate_installer_first_run_def
        validate_audit_anchor_external_tamper_evidence_def res_simps)
  moreover have "(\<exists>m. ?parts = Inr m) \<longleftrightarrow>
      (case get_path data [''provenance''] of
         JObj p \<Rightarrow> (case dget p ''evidence_bundle_files'' of JArr fs \<Rightarrow> list_all hashable (bundle_kinds fs) | _ \<Rightarrow> True)
       | _ \<Rightarrow> True)"
    by (cases "get_path data [''provenance'']") (simp_all add: anchor_bundle_return del: get_path.simps)
  ultimately show ?thesis
    by (simp only: first_run_surfaces_return anchor_evidence_return conj_assoc)
qed

end
