(* ===== verification/Evidence_Sample.thy ===== *)
theory Evidence_Sample
  imports Windows_Evidence
begin

text \<open>
  The evidence document that the conformance run uses as the valid one
  (\<open>_valid_windows_installed_evidence\<close> of \<open>tooling/conformance_tests/run_conformance_skeleton.py\<close>),
  section by section, and the proof that the validator passes it.
\<close>

text \<open>\<open>win s\<close> is \<open>s\<close> with backslashes for its slashes.\<close>

definition win :: "string \<Rightarrow> ustr" where
  "win s = map (\<lambda>c. if c = 47 then 92 else c) (u s)"

lemma win_eq_Nil [simp]: "win s = [] \<longleftrightarrow> s = []"
  by (simp add: win_def)

definition tag_of :: "nat \<Rightarrow> json" where
  "tag_of c = JStr (u ''sha256:'' @ replicate 64 c)"

definition setup_checks :: "json list" where
  "setup_checks = map (\<lambda>check_id. JObj
      [(u ''check_id'', js check_id), (u ''status'', js ''pass''),
       (u ''message'', JStr (u check_id @ u '' passed'')),
       (u ''recovery_instruction'', js ''Rerun installed-path smoke after remediation.''),
       (u ''grants_authority'', JBool False)])
     [''windows.installed_app_path'', ''windows.artifact_hash'', ''first_run.config_created'',
      ''first_run.audit_dir_writable'', ''setup_doctor.ran_from_installed_app_path'',
      ''setup_doctor.runtime_connection'', ''setup_doctor.authority_boundary'',
      ''setup_doctor.network_public_bind'', ''setup_doctor.recovery_instruction'',
      ''setup_doctor.audit_storage'']"

definition valid_bundle_files :: "json list" where
  "valid_bundle_files =
     [JObj [(u ''kind'', js ''setup_doctor''), (u ''path'', JStr (win ''C:/evidence/setup_doctor.json'')),
                 (u ''sha256'', tag_of 53)],
           JObj [(u ''kind'', js ''broker_smoke''), (u ''path'', JStr (win ''C:/evidence/broker.json'')),
                 (u ''sha256'', tag_of 54)],
           JObj [(u ''kind'', js ''visible_surfaces''),
                 (u ''path'', JStr (win ''C:/evidence/visible_surfaces.json'')), (u ''sha256'', tag_of 55)],
           JObj [(u ''kind'', js ''runtime_assertions''),
                 (u ''path'', JStr (win ''C:/evidence/runtime_assertions.json'')), (u ''sha256'', tag_of 56)],
           JObj [(u ''kind'', js ''audit_anchor_external_tamper_evidence''),
                 (u ''path'', JStr (win ''C:/evidence/audit_anchor_external.json'')), (u ''sha256'', tag_of 57)]]"

definition valid_isolation :: "obj" where
  "valid_isolation =
     [(u ''uses_shared_fixed_install_root'', JBool False),
      (u ''isolated_install_root'', JStr (win ''C:/GUI-Shell-Test/installed-runs/run-20260605T000000Z-a1b2c3d4'')),
      (u ''isolated_runtime_dir'', JStr (win ''C:/GUI-Shell-Test/installed-runs/run-20260605T000000Z-a1b2c3d4/runtime'')),
      (u ''isolated_store_dir'', JStr (win ''C:/GUI-Shell-Test/installed-runs/run-20260605T000000Z-a1b2c3d4/runtime/broker_store'')),
      (u ''isolated_config_dir'', JStr (win ''C:/GUI-Shell-Test/installed-runs/run-20260605T000000Z-a1b2c3d4/runtime/config'')),
      (u ''isolated_audit_dir'', JStr (win ''C:/GUI-Shell-Test/installed-runs/run-20260605T000000Z-a1b2c3d4/runtime/audit''))]"

definition valid_provenance :: "obj" where
  "valid_provenance =
     [(u ''evidence_contract_version'', JInt 2), (u ''run_id'', js ''run-20260605T000000Z-a1b2c3d4''),
      (u ''source_commit'', JStr (replicate 40 97)), (u ''source_worktree_clean'', JBool True),
      (u ''source_status_porcelain'', js ''''),
      (u ''build_command'', js ''flutter build windows --release; cargo build --release''),
      (u ''build_timestamp'', js ''2026-06-05T00:00:00Z''),
      (u ''staged_manifest_path'', JStr (win ''C:/GUI-Shell-Test/installed-runs/run-20260605T000000Z-a1b2c3d4/installed_manifest.json'')),
      (u ''installed_manifest_sha256'', tag_of 50), (u ''app_artifact_sha256'', tag_of 49),
      (u ''broker_artifact_sha256'', tag_of 51), (u ''isolation'', JObj valid_isolation),
      (u ''evidence_bundle_sha256'', tag_of 52), (u ''evidence_bundle_files'', JArr valid_bundle_files)]"

definition valid_field_provenance :: "obj" where
  "valid_field_provenance =
     [(u ''artifact'', JObj [(u ''source_type'', js ''directly_measured''), (u ''evidence_class'', js ''EXTERNAL_EVIDENCE''),
            (u ''formal_release_input'', JBool True)]),
      (u ''first_run.process'', JObj [(u ''source_type'', js ''directly_measured''), (u ''evidence_class'', js ''LIVE_RUNTIME''),
            (u ''formal_release_input'', JBool True)]),
      (u ''first_run.visible_surfaces'', JObj [(u ''source_type'', js ''directly_measured''), (u ''evidence_class'', js ''LIVE_RUNTIME''),
            (u ''formal_release_input'', JBool True)]),
      (u ''first_run.config_audit'', JObj [(u ''source_type'', js ''directly_measured''), (u ''evidence_class'', js ''LIVE_RUNTIME''),
            (u ''formal_release_input'', JBool True)]),
      (u ''first_run.installer_authority_boundary'', JObj [(u ''source_type'', js ''static_assertion''), (u ''evidence_class'', js ''CONFIG''),
            (u ''formal_release_input'', JBool True)]),
      (u ''setup_doctor'', JObj [(u ''source_type'', js ''product_export''), (u ''evidence_class'', js ''LIVE_RUNTIME''),
            (u ''formal_release_input'', JBool True)]),
      (u ''broker.ipc_restart_crash'', JObj [(u ''source_type'', js ''directly_measured''), (u ''evidence_class'', js ''LIVE_RUNTIME''),
            (u ''formal_release_input'', JBool True)]),
      (u ''audit_anchor.external_tamper_evidence'', JObj [(u ''source_type'', js ''directly_measured''), (u ''evidence_class'', js ''EXTERNAL_EVIDENCE''),
            (u ''formal_release_input'', JBool True)]),
      (u ''release_runtime_assertions'', JObj [(u ''source_type'', js ''static_assertion''),
            (u ''evidence_class'', JArr [js ''CONFIG'', js ''FIXTURE'']),
            (u ''formal_release_input'', JBool True)]),
      (u ''unsupported_claims'', JArr [])]"

definition valid_surface_matches :: "obj" where
  "valid_surface_matches =
     [(u ''Dashboard'', JObj [(u ''matched'', JBool True), (u ''name'', js ''Dashboard''), (u ''automation_id'', js ''''),
            (u ''control_type'', js ''ControlType.Text''), (u ''class_name'', js ''''),
            (u ''framework_id'', js ''Flutter''), (u ''element_key'', js ''descendant:1''),
            (u ''is_root'', JBool False), (u ''is_native_container'', JBool False),
            (u ''surfaces_present'', JArr [js ''Dashboard''])]),
      (u ''NavigationRail'', JObj [(u ''matched'', JBool True), (u ''name'', js ''NavigationRail''), (u ''automation_id'', js ''''),
            (u ''control_type'', js ''ControlType.Group''), (u ''class_name'', js ''''),
            (u ''framework_id'', js ''Flutter''), (u ''element_key'', js ''descendant:2''),
            (u ''is_root'', JBool False), (u ''is_native_container'', JBool False),
            (u ''surfaces_present'', JArr [js ''NavigationRail''])]),
      (u ''Runtime Status'', JObj [(u ''matched'', JBool True), (u ''name'', js ''Runtime Status''), (u ''automation_id'', js ''''),
            (u ''control_type'', js ''ControlType.Text''), (u ''class_name'', js ''''),
            (u ''framework_id'', js ''Flutter''), (u ''element_key'', js ''descendant:3''),
            (u ''is_root'', JBool False), (u ''is_native_container'', JBool False),
            (u ''surfaces_present'', JArr [js ''Runtime Status''])]),
      (u ''Invariant Status'', JObj [(u ''matched'', JBool True), (u ''name'', js ''Invariant Status''), (u ''automation_id'', js ''''),
            (u ''control_type'', js ''ControlType.Text''), (u ''class_name'', js ''''),
            (u ''framework_id'', js ''Flutter''), (u ''element_key'', js ''descendant:4''),
            (u ''is_root'', JBool False), (u ''is_native_container'', JBool False),
            (u ''surfaces_present'', JArr [js ''Invariant Status''])])]"

definition valid_diagnostic_tree :: "obj" where
  "valid_diagnostic_tree =
     [(u ''mode'', js ''full_uiautomation_tree_projection''), (u ''observed_element_count'', JInt 5),
      (u ''observed_elements'', JArr [JObj [(u ''element_key'', js ''root''), (u ''runtime_id'', js ''1.2''),
                  (u ''parent_runtime_id'', js ''''), (u ''name'', js ''GUI Shell''),
                  (u ''automation_id'', js ''''), (u ''control_type'', js ''ControlType.Window''),
                  (u ''class_name'', js ''FlutterView''), (u ''framework_id'', js ''Win32''),
                  (u ''supported_patterns'', JArr [js ''WindowPatternIdentifiers.Pattern''])],
            JObj [(u ''element_key'', js ''descendant:1''), (u ''runtime_id'', js ''1.2.1''),
                  (u ''parent_runtime_id'', js ''1.2''), (u ''name'', js ''Dashboard''),
                  (u ''automation_id'', js ''''), (u ''control_type'', js ''ControlType.Text''),
                  (u ''class_name'', js ''''), (u ''framework_id'', js ''Flutter''),
                  (u ''supported_patterns'', JArr [])]]),
      (u ''tree_edges'', JArr [JObj [(u ''child_runtime_id'', js ''1.2.1''), (u ''parent_runtime_id'', js ''1.2''),
                  (u ''child_element_key'', js ''descendant:1'')]])]"

definition valid_surface_evidence :: "obj" where
  "valid_surface_evidence =
     [(u ''source'', js ''uiautomation''),
      (u ''path'', JStr (win ''C:/ProgramData/GUI-Shell/evidence/visible-surfaces.json'')),
      (u ''captured_at'', js ''2026-05-26T00:00:00Z''), (u ''surface_matches'', JObj valid_surface_matches),
      (u ''aggregate_surface_shortcut_detected'', JBool False),
      (u ''surface_match_requirements_met'', JBool True), (u ''diagnostic_tree'', JObj valid_diagnostic_tree)]"

definition valid_first_run :: "obj" where
  "valid_first_run =
     [(u ''status'', js ''passed''), (u ''command'', JStr (win ''./gui_shell_desktop.exe'')),
      (u ''launched_from_installed_path'', JBool True), (u ''process_id'', JInt 1234),
      (u ''process_running_after_launch'', JBool True), (u ''main_window_handle'', JInt 100),
      (u ''window_title'', js ''GUI-Shell''), (u ''first_window_visible'', JBool True),
      (u ''broker_mediated_launch'', JBool True),
      (u ''broker_helper_path'', JStr (win ''C:/Program Files/GUI-Shell/broker/gui_shell_rust_helper.exe'')),
      (u ''broker_endpoint_file'', JStr (win ''C:/ProgramData/GUI-Shell/broker/broker_session.json'')),
      (u ''broker_endpoint_created'', JBool True), (u ''broker_transport'', js ''authenticated_loopback_tcp''),
      (u ''no_python_runtime_requested'', JBool True), (u ''python_runtime_path_scrubbed'', JBool True),
      (u ''python_path_entries_removed_count'', JInt 2), (u ''python_path_entries_remaining_count'', JInt 0),
      (u ''python_commands_visible_after_scrub'', JArr []), (u ''visible_surfaces_complete'', JBool True),
      (u ''visible_surfaces'', JArr [js ''Dashboard'', js ''NavigationRail'', js ''Runtime Status'', js ''Invariant Status'']),
      (u ''visible_surfaces_evidence'', JObj valid_surface_evidence),
      (u ''config_path'', JStr (win ''C:/ProgramData/GUI-Shell/config/gui_shell.json'')),
      (u ''config_created'', JBool True), (u ''config_json_valid'', JBool True),
      (u ''audit_dir'', JStr (win ''C:/ProgramData/GUI-Shell/audit'')), (u ''audit_dir_writable'', JBool True),
      (u ''audit_write_probe'', JObj [(u ''attempted'', JBool True), (u ''write'', JBool True), (u ''read'', JBool True),
            (u ''delete'', JBool True),
            (u ''probe_path'', JStr (win ''C:/ProgramData/GUI-Shell/audit/.gui-shell-write-probe''))]),
      (u ''installer_grants_authority'', JBool False),
      (u ''installer_silently_approves_permissions'', JBool False)]"

definition valid_setup_doctor :: "obj" where
  "valid_setup_doctor =
     [(u ''status'', js ''warning''), (u ''formal_product_evidence'', JBool True),
      (u ''evidence_source'', JObj [(u ''source_kind'', js ''installed_app_machine_readable_export''),
            (u ''product_generated'', JBool True), (u ''collector_derives_checks'', JBool False),
            (u ''synthetic'', JBool False),
            (u ''command'', JStr (win ''./gui_shell_desktop.exe --setup-doctor --json''))]),
      (u ''ran_from_installed_app_path'', JBool True), (u ''operator_readable'', JBool True),
      (u ''installer_grants_authority'', JBool False),
      (u ''installer_silently_approves_permissions'', JBool False), (u ''checks'', JArr setup_checks)]"

definition valid_broker_provenance :: "obj" where
  "valid_broker_provenance =
     [(u ''helper_exe_exists'', JObj [(u ''source_type'', js ''directly_measured''), (u ''evidence_class'', js ''EXTERNAL_EVIDENCE'')]),
      (u ''session_file_created'', JObj [(u ''source_type'', js ''directly_measured''), (u ''evidence_class'', js ''LIVE_RUNTIME'')]),
      (u ''restricted_loopback_bind'', JObj [(u ''source_type'', js ''directly_measured''), (u ''evidence_class'', js ''LIVE_RUNTIME'')]),
      (u ''authenticated_ipc_connection'', JObj [(u ''source_type'', js ''directly_measured''), (u ''evidence_class'', js ''LIVE_RUNTIME'')]),
      (u ''durable_store_ready'', JObj [(u ''source_type'', js ''directly_measured''), (u ''evidence_class'', js ''LIVE_RUNTIME'')]),
      (u ''restart_replay_rejected'', JObj [(u ''source_type'', js ''directly_measured''), (u ''evidence_class'', js ''LIVE_RUNTIME'')]),
      (u ''fresh_health_after_restart'', JObj [(u ''source_type'', js ''directly_measured''), (u ''evidence_class'', js ''LIVE_RUNTIME'')]),
      (u ''crash_fail_closed'', JObj [(u ''source_type'', js ''directly_measured''), (u ''evidence_class'', js ''LIVE_RUNTIME'')])]"

definition valid_declarations :: "obj" where
  "valid_declarations =
     [(u ''python_runtime_required_for_authority'', JObj [(u ''value'', JBool False), (u ''source_type'', js ''static_assertion''),
            (u ''evidence_class'', js ''CONFIG''), (u ''formal_runtime_proof'', JBool False)]),
      (u ''flutter_rust_ffi_authority_bridge'', JObj [(u ''value'', JBool False), (u ''source_type'', js ''static_assertion''),
            (u ''evidence_class'', js ''CONFIG''), (u ''formal_runtime_proof'', JBool False)])]"

definition valid_broker :: "obj" where
  "valid_broker =
     [(u ''status'', js ''passed''),
      (u ''evidence_source'', JObj [(u ''collector'', js ''installer/windows/collect_broker_smoke.ps1''),
            (u ''collector_version'', js ''1''), (u ''synthetic'', JBool False),
            (u ''command'', JStr (win ''powershell -ExecutionPolicy Bypass -File installer/windows/collect_broker_smoke.ps1''))]),
      (u ''helper_exe_path'', JStr (win ''C:/Program Files/GUI-Shell/broker/gui_shell_rust_helper.exe'')),
      (u ''helper_exe_exists'', JBool True),
      (u ''session_file'', JStr (win ''C:/ProgramData/GUI-Shell/broker/broker_session.json'')),
      (u ''session_file_created'', JBool True),
      (u ''store_dir'', JStr (win ''C:/ProgramData/GUI-Shell/broker/store'')),
      (u ''endpoint_host'', js ''127.0.0.1''), (u ''endpoint_port'', JInt 49152),
      (u ''restricted_loopback_bind'', JBool True), (u ''authenticated_ipc_connection'', JBool True),
      (u ''durable_store_ready'', JBool True), (u ''replay_nonce'', js ''windows-installed-replay-nonce''),
      (u ''restart_replay_rejected'', JBool True), (u ''replay_error_code'', js ''broker_replay_detected''),
      (u ''fresh_health_after_restart'', JBool True), (u ''crash_fail_closed'', JBool True),
      (u ''field_provenance'', JObj valid_broker_provenance),
      (u ''unmeasured_declarations'', JObj valid_declarations), (u ''errors'', JArr [])]"

definition valid_audit_anchor :: "obj" where
  "valid_audit_anchor =
     [(u ''status'', js ''passed''), (u ''installed_path_verified'', JBool True),
      (u ''key_anchor_log_same_user_rewrite_mitigated'', JBool True), (u ''windows_acl_verified'', JBool True),
      (u ''dpapi_verified'', JBool True), (u ''external_anchor_verified'', JBool False),
      (u ''signed_evidence_verified'', JBool False),
      (u ''administrator_root_resistance_claimed'', JBool False),
      (u ''evidence_source'', JObj [(u ''source_kind'', js ''windows_acl_dpapi_probe''),
            (u ''evidence_class'', js ''EXTERNAL_EVIDENCE''), (u ''synthetic'', JBool False),
            (u ''command'', JStr (win ''powershell -ExecutionPolicy Bypass -File installer/windows/collect_audit_anchor_proof.ps1'')),
            (u ''path'', JStr (win ''C:/evidence/audit_anchor_external.json'')), (u ''sha256'', tag_of 57)])]"

definition valid_windows_installed_evidence :: "obj" where
  "valid_windows_installed_evidence =
     [(u ''platform'', js ''windows''), (u ''provenance'', JObj valid_provenance),
      (u ''field_provenance'', JObj valid_field_provenance),
      (u ''evidence_source'', JObj [(u ''collector'', js ''installer/windows/collect_installed_smoke.ps1''),
            (u ''collector_version'', js ''6''), (u ''manual_confirmation'', JBool False),
            (u ''screenshot_path'', JStr (win ''C:/ProgramData/GUI-Shell/evidence/first-window.png''))]),
      (u ''artifact'', JObj [(u ''installed_exe_path'', JStr (win ''C:/GUI-Shell-Test/installed-runs/run-20260605T000000Z-a1b2c3d4/app/gui_shell_desktop.exe'')),
            (u ''installed_exe_exists'', JBool True), (u ''sha256'', tag_of 49)]),
      (u ''first_run'', JObj valid_first_run), (u ''setup_doctor'', JObj valid_setup_doctor),
      (u ''broker'', JObj valid_broker),
      (u ''audit_anchor_external_tamper_evidence'', JObj valid_audit_anchor)]"

lemma sha256_tag_of: "is_lower_hex c \<Longrightarrow> sha256_tag_pattern (u ''sha256:'' @ replicate 64 c)"
  by (auto simp: sha256_tag_pattern_def Let_def u_def list_all_iff is_lower_hex_def)

lemma tag_of_facts:
  "truthy (tag_of c)" "is_lower_hex c \<Longrightarrow> is_sha256_tag T (tag_of c)"
  by (simp_all add: tag_of_def is_sha256_tag_def sha256_tag_of)

lemma evidence_sections:
  "map_of valid_windows_installed_evidence (u ''provenance'') = Some (JObj valid_provenance)"
  "map_of valid_windows_installed_evidence (u ''field_provenance'') = Some (JObj valid_field_provenance)"
  "map_of valid_windows_installed_evidence (u ''first_run'') = Some (JObj valid_first_run)"
  "map_of valid_windows_installed_evidence (u ''setup_doctor'') = Some (JObj valid_setup_doctor)"
  "map_of valid_windows_installed_evidence (u ''broker'') = Some (JObj valid_broker)"
  "map_of valid_windows_installed_evidence (u ''audit_anchor_external_tamper_evidence'') = Some (JObj valid_audit_anchor)"
  "map_of valid_windows_installed_evidence (u ''platform'') = Some (js ''windows'')"
  by (simp_all add: valid_windows_installed_evidence_def cong: u_cong)

lemmas dget_eval = dget_def dget_or_def is_true_def is_false_def path_is_true_def path_is_false_def

lemma valid_setup: "setup_errors (JObj valid_setup_doctor) = []"
  by (simp add: setup_errors_def valid_setup_doctor_def setup_source_errors_def setup_check_errors_def
      setup_checks_def dget_eval REQUIRED_SETUP_CHECKS_def cong: u_cong)

lemma valid_broker_errors: "broker_errors (JObj valid_broker) = []"
  by (simp add: broker_errors_def valid_broker_def broker_source_errors_def broker_field_errors_def dhas_def
      valid_broker_provenance_def valid_declarations_def declaration_errors_def dget_eval
      REQUIRED_BROKER_TRUE_FIELDS_def cong: u_cong)


lemma valid_field_provenance_errors:
  "validate_field_provenance (JObj valid_windows_installed_evidence) BASE_REQUIRED_FIELD_PROVENANCE True = []"
  "validate_field_provenance (JObj valid_windows_installed_evidence) AUDIT_REQUIRED_FIELD_PROVENANCE False = []"
  by (simp_all add: validate_field_provenance_def evidence_sections BASE_REQUIRED_FIELD_PROVENANCE_def
      AUDIT_REQUIRED_FIELD_PROVENANCE_def provenance_entry_errors_def valid_field_provenance_def dget_eval cong: u_cong)

lemma valid_bundle: "bundle_errors T (JArr valid_bundle_files) = []"
  by (simp add: bundle_errors_def valid_bundle_files_def tag_of_facts is_lower_hex_def dget_eval
      missing_kinds_def BASE_REQUIRED_EVIDENCE_BUNDLE_KINDS_def cong: u_cong)

lemma valid_anchor_bundle: "anchor_bundle_errors (JArr valid_bundle_files) = Inr []"
  by (simp add: anchor_bundle_errors_def valid_bundle_files_def dget_eval
      missing_kinds_def AUDIT_REQUIRED_EVIDENCE_BUNDLE_KINDS_def cong: u_cong)

lemma valid_anchor: "anchor_evidence_errors T (JObj valid_audit_anchor) = Inr []"
  by (simp add: anchor_evidence_errors_def anchor_source_errors_def valid_audit_anchor_def dget_eval
      in_strings_def tag_of_facts is_lower_hex_def cong: u_cong)

lemma valid_isolation_errors:
  "isolation_errors ascii_tables (JObj valid_isolation) (u ''run-20260605T000000Z-a1b2c3d4'') = []"
  by (simp add: isolation_errors_def valid_isolation_def dget_eval path_contains_run_id_def folded_path_def
      LEGACY_FIXED_INSTALL_ROOT_SUFFIX_def ends_with_def win_def u_def ascii_lower_def text_of_def starts_with_def)

lemma valid_source:
  "first_run_source_errors (JObj valid_windows_installed_evidence) = []"
  by (simp add: first_run_source_errors_def valid_windows_installed_evidence_def dget_eval cong: u_cong)

lemma valid_storage: "first_run_storage_errors (JObj valid_windows_installed_evidence) = []"
  by (simp add: first_run_storage_errors_def evidence_sections valid_first_run_def dget_eval cong: u_cong)

lemma valid_artifact:
  "map_of valid_windows_installed_evidence (u ''artifact'') = Some (JObj
     [(u ''installed_exe_path'', JStr (win ''C:/GUI-Shell-Test/installed-runs/run-20260605T000000Z-a1b2c3d4/app/gui_shell_desktop.exe'')),
      (u ''installed_exe_exists'', JBool True), (u ''sha256'', tag_of 49)])"
  by (simp add: valid_windows_installed_evidence_def cong: u_cong)

lemma valid_exe:
  "ends_with (u ''.exe'') (map ascii_lower
     (win ''C:/GUI-Shell-Test/installed-runs/run-20260605T000000Z-a1b2c3d4/app/gui_shell_desktop.exe''))"
  by (simp add: ends_with_def win_def u_def ascii_lower_def)

lemma valid_launch: "first_run_launch_errors ascii_tables (JObj valid_windows_installed_evidence) = []"
  by (simp add: first_run_launch_errors_def evidence_sections valid_artifact valid_first_run_def dget_eval
      tag_of_def sha256_tag_of is_lower_hex_def valid_exe py_eq_JInt cong: u_cong)

lemmas label_eval = contains_label.simps same_letter_def ascii_lower_def Let_def u_def

lemma valid_labels:
  "contains_label (u ''Dashboard'') (u ''Dashboard'')"
  "contains_label (u ''Invariant Status'') (u ''Invariant Status'')"
  "contains_label (u ''NavigationRail'') (u ''NavigationRail'')"
  "contains_label (u ''Runtime Status'') (u ''Runtime Status'')"
  "\<not> contains_label (u ''Dashboard'') (u ''NavigationRail'')"
  "\<not> contains_label (u ''Dashboard'') (u ''Runtime Status'')"
  "\<not> contains_label (u ''Dashboard'') (u ''Invariant Status'')"
  "\<not> contains_label (u ''NavigationRail'') (u ''Dashboard'')"
  by (simp_all add: label_eval)

lemma valid_element_text:
  "normalised_text (u ''Dashboard'' @ u '' '') = u ''Dashboard''"
  "normalised_text (u ''Invariant Status'' @ u '' '') = u ''Invariant Status''"
  "normalised_text (u ''NavigationRail'' @ u '' '') = u ''NavigationRail''"
  "normalised_text (u ''Runtime Status'' @ u '' '') = u ''Runtime Status''"
  by (simp_all add: normalised_text_def strip_def strip_where_def is_space_def u_def)

lemma substring_length: "substring a s \<Longrightarrow> length a \<le> length s"
proof (induction s)
  case (Cons c s)
  then show ?case
    by (auto simp: starts_with_def dest: arg_cong [of _ _ length])
qed simp

lemma no_aggregate:
  assumes "length s < 60"
  shows "\<not> substring (map ascii_lower (normalised_text AGGREGATE_SURFACE_TEXT)) s"
proof
  assume "substring (map ascii_lower (normalised_text AGGREGATE_SURFACE_TEXT)) s"
  from substring_length [OF this] assms show False
    by (simp add: normalised_text_def strip_def strip_where_def is_space_def AGGREGATE_SURFACE_TEXT_def u_def)
qed

lemma valid_surface_errors: "validate_surface_match_evidence ascii_tables valid_surface_evidence = []"
  by (simp add: validate_surface_match_evidence_def valid_surface_evidence_def valid_surface_matches_def
      surface_label_errors_def surface_label_key_def REQUIRED_VISIBLE_SURFACES_def dget_eval
      contains_all_required_surfaces_def valid_labels valid_element_text no_aggregate Let_def
      diagnostic_tree_errors_def valid_diagnostic_tree_def OBSERVED_KEYS_def dhas_def cong: u_cong)

lemma valid_surfaces: "first_run_surface_errors ascii_tables (JObj valid_windows_installed_evidence) = Inr []"
proof -
  have "map_of valid_first_run (u ''visible_surfaces'') =
      Some (JArr [js ''Dashboard'', js ''NavigationRail'', js ''Runtime Status'', js ''Invariant Status''])"
    "map_of valid_first_run (u ''visible_surfaces_evidence'') = Some (JObj valid_surface_evidence)"
    "dget valid_surface_evidence ''source'' = js ''uiautomation''" "truthy (dget valid_surface_evidence ''path'')"
    by (simp_all add: valid_first_run_def valid_surface_evidence_def dget_eval cong: u_cong)
  then show ?thesis
    by (simp add: first_run_surface_errors_def evidence_sections py_set_def in_strings_def
        REQUIRED_VISIBLE_SURFACES_def valid_surface_errors cong: u_cong)
qed

lemma valid_provenance_clean:
  "dget valid_provenance ''final_evidence_sha256'' = JNull"
  "provenance_errors ascii_tables (JObj valid_windows_installed_evidence) valid_provenance file_text = []"
proof -
  have p: "dget valid_provenance ''run_id'' = js ''run-20260605T000000Z-a1b2c3d4''"
    "dget valid_provenance ''source_commit'' = JStr (replicate 40 97)"
    "is_true (dget valid_provenance ''source_worktree_clean'')"
    "dget valid_provenance ''source_status_porcelain'' = js []"
    "truthy (dget valid_provenance ''build_command'')" "truthy (dget valid_provenance ''build_timestamp'')"
    "truthy (dget valid_provenance ''staged_manifest_path'')"
    "dget valid_provenance ''installed_manifest_sha256'' = tag_of 50"
    "dget valid_provenance ''app_artifact_sha256'' = tag_of 49"
    "dget valid_provenance ''broker_artifact_sha256'' = tag_of 51"
    "dget valid_provenance ''evidence_bundle_sha256'' = tag_of 52"
    "dget valid_provenance ''isolation'' = JObj valid_isolation"
    "dget valid_provenance ''evidence_bundle_files'' = JArr valid_bundle_files"
    "dget valid_provenance ''final_evidence_sha256'' = JNull"
    by (simp_all add: valid_provenance_def dget_eval cong: u_cong)
  then show "dget valid_provenance ''final_evidence_sha256'' = JNull" by simp
  have c: "commit_pattern (replicate 40 97)"
    by (simp add: commit_pattern_def chomp_def is_lower_hex_def list_all_iff)
  have n: "\<not> sha256_tag_pattern []" by (simp add: sha256_tag_pattern_def)
  show "provenance_errors ascii_tables (JObj valid_windows_installed_evidence) valid_provenance file_text = []"
    using c n by (simp add: provenance_errors_def p valid_artifact valid_field_provenance_errors
        valid_isolation_errors valid_bundle tag_of_facts is_lower_hex_def is_sha256_tag_def
        sha256_tag_of tag_of_def cong: u_cong split: option.split)
qed

text \<open>The whole document is well-formed JSON, so the text it is written as reads back to it.\<close>

lemma scalar_win [simp]: "list_all scalar (win s)"
  using list_all_scalar_u [of s] by (auto simp: win_def list_all_iff scalar_def)

lemma scalar_replicate: "scalar c \<Longrightarrow> list_all scalar (replicate n c)"
  by (simp add: list_all_iff)

lemma scalar_tag_of [simp]: "wf_json (tag_of 49)" "wf_json (tag_of 50)" "wf_json (tag_of 51)" "wf_json (tag_of 52)"
  "wf_json (tag_of 53)" "wf_json (tag_of 54)" "wf_json (tag_of 55)" "wf_json (tag_of 56)" "wf_json (tag_of 57)"
  by (simp_all add: tag_of_def scalar_replicate scalar_def [of "numeral n" for n])

lemma wf_valid_parts:
  "list_all wf_json setup_checks" "list_all wf_json valid_bundle_files"
  "wf_json (JObj valid_isolation)" "wf_json (JObj valid_surface_matches)" "wf_json (JObj valid_diagnostic_tree)"
  "wf_json (JObj valid_broker_provenance)" "wf_json (JObj valid_declarations)"
  "wf_json (JObj valid_field_provenance)" "wf_json (JObj valid_audit_anchor)"
  by (simp_all add: setup_checks_def valid_bundle_files_def valid_isolation_def valid_surface_matches_def
      valid_diagnostic_tree_def valid_broker_provenance_def valid_declarations_def valid_field_provenance_def
      valid_audit_anchor_def cong: u_cong)

lemma wf_valid_evidence: "wf_json (JObj valid_windows_installed_evidence)"
proof -
  note parts = wf_valid_parts [simplified wf_json.simps(3)]
  have surface: "wf_json (JObj valid_surface_evidence)" using parts by (simp add: valid_surface_evidence_def cong: u_cong)
  then have "wf_json (JObj valid_first_run)" by (simp add: valid_first_run_def cong: u_cong)
  moreover have "wf_json (JObj valid_provenance)" using parts
    by (simp add: valid_provenance_def scalar_replicate scalar_def [of "numeral n" for n] cong: u_cong)
  moreover have "wf_json (JObj valid_setup_doctor)" using parts by (simp add: valid_setup_doctor_def cong: u_cong)
  moreover have "wf_json (JObj valid_broker)" using parts by (simp add: valid_broker_def cong: u_cong)
  ultimately show ?thesis using parts by (simp add: valid_windows_installed_evidence_def cong: u_cong)
qed

text \<open>The text the test writes, up to the blanks of the default separators.\<close>

definition evidence_text :: "json \<Rightarrow> ustr" where
  "evidence_text v = render None 0 v"

lemma load_evidence_text:
  assumes "wf_json (JObj d)"
  shows "load_evidence (Some (evidence_text (JObj d))) = Inr (Inr (JObj d))"
proof -
  have "printable (evidence_text (JObj d))" unfolding evidence_text_def by (rule printable_render)
  then have "13 \<notin> set (evidence_text (JObj d))" by (auto simp: printable_def list_all_iff)
  moreover obtain t where "evidence_text (JObj d) = 123 # t"
    by (cases "d = []") (simp_all add: evidence_text_def)
  moreover have "py_loads (evidence_text (JObj d)) = Inr (JObj d)"
    using loads_render_space [OF assms, of "[]" None 0] by (simp add: evidence_text_def py_loads_def)
  ultimately show ?thesis
    by (simp add: load_evidence_def universal_newlines_id)
qed

lemma valid_evidence_passes:
  "\<exists>rs. validate_windows_release_evidence ascii_tables
       (Some (evidence_text (JObj valid_windows_installed_evidence))) = Inr rs
     \<and> list_all (\<lambda>r. er_status r = ''passed'' \<and> er_classification r \<noteq> ''release_blocker'') rs"
proof -
  let ?d = "JObj valid_windows_installed_evidence"
  have "get_path ?d [''provenance''] = JObj valid_provenance" "get_path ?d [''setup_doctor''] = JObj valid_setup_doctor"
    "get_path ?d [''broker''] = JObj valid_broker" "get_path ?d [''platform''] = js ''windows''"
    "get_path ?d [''audit_anchor_external_tamper_evidence''] = JObj valid_audit_anchor"
    "dget valid_provenance ''evidence_bundle_files'' = JArr valid_bundle_files"
    by (simp_all add: evidence_sections valid_provenance_def dget_eval cong: u_cong)
  then show ?thesis
    by (simp add: validate_windows_release_evidence_def load_evidence_text wf_valid_evidence cong: u_cong del: wf_json.simps get_path.simps
        add: validate_installer_first_run_def valid_surfaces valid_source valid_launch valid_storage
        validate_audit_anchor_external_tamper_evidence_def valid_anchor_bundle valid_anchor valid_field_provenance_errors
        validate_provenance_and_isolation_def valid_provenance_clean validate_setup_doctor_def valid_setup
        validate_broker_smoke_def valid_broker_errors verdict_def er_passed_def)
qed

subsection \<open>Instances of the evidence properties\<close>


definition unhashable_kind :: obj where
  "unhashable_kind =
     [(u ''provenance'', JObj [(u ''evidence_bundle_files'', JArr [JObj [(u ''kind'', JArr [])]])])]"

theorem evidence_validation_returns_witness:
  "\<not> (\<exists>rs. validate_windows_release_evidence ascii_tables (Some (evidence_text (JObj unhashable_kind))) = Inr rs)"
proof -
  have "wf_json (JObj unhashable_kind)" by (simp add: unhashable_kind_def)
  from evidence_validation_returns [OF load_evidence_text [OF this]] show ?thesis
    by (simp add: unhashable_kind_def dget_eval cong: u_cong)
qed

end
