(* ===== verification/Release_Gate.thy ===== *)
theory Release_Gate
  imports Windows_Evidence
begin

text \<open>
  The release gate (\<open>tooling/release_gate_check.py\<close>): the scan of the release documents for
  unclassified open items, the checks of claims, the registry of release blockers with the status
  the Windows evidence gives them, and the check that the documents refer to the registry. The
  repository is the function \<open>tree\<close> from relative paths to the text of a file.
\<close>

type_synonym tree = "ustr \<Rightarrow> ustr option"

subsection \<open>Open items\<close>

definition PATTERNS :: "string list" where
  "PATTERNS =
     [''not run'', ''not verified'', ''not implemented'', ''not complete'', ''still needed'',
      ''still required'', ''remaining'', ''TODO'', ''future work'', ''skeleton only'', ''mock only'',
      ''unavailable'', ''not found'', ''not tested'', ''pending'', ''incomplete'', ''placeholder'',
      ''scaffold'', ''stub'']"

definition CLASSIFICATIONS :: "string list" where
  "CLASSIFICATIONS = [''release_blocker'', ''post_v1_scope'', ''known_limitation'', ''required_for_v1'']"

definition contains_any :: "string list \<Rightarrow> ustr \<Rightarrow> bool" where
  "contains_any tokens s \<longleftrightarrow> list_ex (\<lambda>t. substring (u t) s) tokens"

definition join_lines :: "ustr list \<Rightarrow> ustr" where
  "join_lines ls = join [10] ls"

text \<open>The window is two lines before and three after.\<close>

definition classified_near :: "tables \<Rightarrow> ustr list \<Rightarrow> nat \<Rightarrow> bool" where
  "classified_near T lines index =
     (let start = index - 2; stop = min (length lines) (index + 4)
      in contains_any CLASSIFICATIONS (lower_case T (join_lines (drop start (take stop lines)))))"

definition scan_line :: "tables \<Rightarrow> ustr \<Rightarrow> ustr list \<Rightarrow> nat \<Rightarrow> msg list" where
  "scan_line T path lines index =
     (let lowered = lower_case T (lines ! index) in
      concat (map (\<lambda>pattern.
        flag (substring (map ascii_lower (u pattern)) lowered \<and> \<not> classified_near T lines index)
          (Msg ''{}:{}: unclassified open item: {}'' [JStr path, JInt (int (index + 1)), js pattern]))
        PATTERNS))"

definition scan_file :: "tables \<Rightarrow> tree \<Rightarrow> ustr \<Rightarrow> msg list" where
  "scan_file T tree path =
     (case tree path of
        None \<Rightarrow> [Msg ''{} does not exist'' [JStr path]]
      | Some text \<Rightarrow>
          (let lines = read_text_lines text
           in concat (map (scan_line T path lines) [0..<length lines])))"

subsection \<open>Claims\<close>

text \<open>\<open>\b\<close> between two characters, absent ones being the ends of the text.\<close>

fun word_boundary :: "tables \<Rightarrow> nat option \<Rightarrow> nat option \<Rightarrow> bool" where
  "word_boundary T (Some a) (Some b) = (word_char T a \<noteq> word_char T b)"
| "word_boundary T (Some a) None = word_char T a"
| "word_boundary T None (Some b) = word_char T b"
| "word_boundary T None None = False"

fun first_char :: "ustr \<Rightarrow> nat option" where
  "first_char [] = None"
| "first_char (c # s) = Some c"

text \<open>\<open>\bword\b\<close> at the start of \<open>s\<close>, with the character before; the rest after the word.\<close>

definition word_at :: "tables \<Rightarrow> nat option \<Rightarrow> ustr \<Rightarrow> ustr \<Rightarrow> ustr option" where
  "word_at T before word s =
     (let rest = drop (length word) s in
      if starts_with word s \<and> word \<noteq> [] \<and> word_boundary T before (first_char s)
         \<and> word_boundary T (Some (last word)) (first_char rest)
      then Some rest else None)"

fun words_at :: "tables \<Rightarrow> nat option \<Rightarrow> ustr list \<Rightarrow> ustr \<Rightarrow> ustr option" where
  "words_at T before [] s = None"
| "words_at T before (w # ws) s =
     (case word_at T before w s of Some rest \<Rightarrow> Some rest | None \<Rightarrow> words_at T before ws s)"

text \<open>\<open>\<dots>.{0,n}\b(w1|w2|\<dots>)\b\<close> after a word: the longest gap first.\<close>

fun gap_then :: "tables \<Rightarrow> nat \<Rightarrow> ustr \<Rightarrow> ustr list \<Rightarrow> ustr \<Rightarrow> ustr option" where
  "gap_then T 0 gap ws s = words_at T (Some (last gap)) ws s"
| "gap_then T (Suc n) gap ws s =
     (case (case s of [] \<Rightarrow> None | c # t \<Rightarrow> gap_then T n (gap @ [c]) ws t) of
        Some rest \<Rightarrow> Some rest | None \<Rightarrow> words_at T (Some (last gap)) ws s)"

text \<open>The pattern from the first alternative on that has a second part after it.\<close>

fun claim_at :: "tables \<Rightarrow> nat option \<Rightarrow> ustr list \<Rightarrow> ustr list \<Rightarrow> ustr \<Rightarrow> ustr option" where
  "claim_at T before [] second s = None"
| "claim_at T before (w # ws) second s =
     (case (case word_at T before w s of None \<Rightarrow> None | Some rest \<Rightarrow> gap_then T 80 w second rest) of
        Some rest \<Rightarrow> Some rest | None \<Rightarrow> claim_at T before ws second s)"

definition MACOS_WORDS :: "ustr list" where
  "MACOS_WORDS = [u ''macos'']"

definition CLAIM_WORDS :: "ustr list" where
  "CLAIM_WORDS = map u [''verified'', ''supported'', ''ready'', ''complete'', ''release-ready'']"

definition MACOS_NEGATION_HINTS :: "string list" where
  "MACOS_NEGATION_HINTS =
     [''does not claim'', ''must not be advertised'', ''before claiming'', ''unverified'',
      ''known_limitation'', ''planned portability'', ''no macos validation environment'']"

text \<open>
  \<open>re.finditer\<close> over the lowered text, read from the left: \<open>done\<close> is what was read, \<open>s\<close> the rest. The
  window reaches 120 characters to each side of a match; the first match without a hint is a finding.
\<close>

function unhinted_claim :: "tables \<Rightarrow> ustr list \<Rightarrow> ustr list \<Rightarrow> ustr \<Rightarrow> ustr \<Rightarrow> bool" where
  "unhinted_claim T first second past s =
     (case claim_at T (if past = [] then None else Some (last past)) first second s of
        Some rest \<Rightarrow>
          (let matched = take (length s - length rest) s;
               window = drop (length past - 120) past @ matched @ take 120 rest
           in if \<not> contains_any MACOS_NEGATION_HINTS window then True
              else if length rest < length s then unhinted_claim T first second (past @ matched) rest
              else False)
      | None \<Rightarrow> (case s of [] \<Rightarrow> False | c # t \<Rightarrow> unhinted_claim T first second (past @ [c]) t))"
  by pat_completeness auto
termination
  by (relation "measure (\<lambda>(_, _, _, _, s). length s)") auto

declare unhinted_claim.simps [simp del]

definition macos_support_claim_errors :: "tables \<Rightarrow> ustr \<Rightarrow> msg list" where
  "macos_support_claim_errors T text =
     (let lower = lower_case T text in
      remark (unhinted_claim T MACOS_WORDS CLAIM_WORDS [] lower
           \<or> unhinted_claim T CLAIM_WORDS MACOS_WORDS [] lower)
        ''macOS support seems to be claimed without validation evidence'')"

fun has_word :: "tables \<Rightarrow> nat option \<Rightarrow> ustr \<Rightarrow> ustr \<Rightarrow> bool" where
  "has_word T before w [] = False"
| "has_word T before w (c # s) = (word_at T before w (c # s) \<noteq> None \<or> has_word T (Some c) w s)"

definition release_claim_exists_without_classification :: "tables \<Rightarrow> ustr \<Rightarrow> bool" where
  "release_claim_exists_without_classification T text =
     (let lower = lower_case T text in
      has_word T None (u ''release'') lower \<and> substring (u ''completed product release'') lower
      \<and> substring (u ''release_blocker'') lower
      \<and> \<not> substring (u ''not yet a completed product release'') lower)"

subsection \<open>The registry\<close>

definition WINDOWS_EVIDENCE_STATUS_SOURCE :: string where
  "WINDOWS_EVIDENCE_STATUS_SOURCE = ''windows_release_evidence''"

definition REGISTRY_FIELDS :: "string list" where
  "REGISTRY_FIELDS = [''active'', ''blocks_release'', ''classification'', ''name'', ''reason'',
     ''required_action'', ''status'', ''status_source'']"

definition nonempty_text :: "json \<Rightarrow> bool" where
  "nonempty_text v \<longleftrightarrow> is_str v \<and> truthy v"

text \<open>The findings of one blocker, after its name was checked against \<open>names\<close>.\<close>

definition blocker_errors :: "nat \<Rightarrow> ustr list \<Rightarrow> obj \<Rightarrow> exn + msg list" where
  "blocker_errors index names b =
     (let missing = filter (\<lambda>k. \<not> dhas b k) REGISTRY_FIELDS;
          name = dget b ''name'';
          label = (if truthy name then name else JInt (int index));
          status_source = dget b ''status_source'';
          active = dget b ''active'';
          at = (\<lambda>bad m. flag bad (Msg m [label]))
      in bindE (in_strings (dget b ''status'') [''unresolved'', ''resolved'']) (\<lambda>known_status.
         bindE (in_strings status_source [''manual'', WINDOWS_EVIDENCE_STATUS_SOURCE]) (\<lambda>known_source.
         Inr (flag (missing \<noteq> []) (Msg ''registry entry {} lacks fields: {}'' (JInt (int index) # map js missing))
           @ (case name of
                JStr n \<Rightarrow>
                  (if n = [] then [Msg ''the name of registry entry {} is invalid'' [JInt (int index)]]
                   else flag (n \<in> set names) (Msg ''the release blocker name is duplicated: {}'' [JStr n]))
              | _ \<Rightarrow> [Msg ''the name of registry entry {} is invalid'' [JInt (int index)]])
           @ at (dget b ''classification'' \<noteq> js ''release_blocker'') ''release blocker {} must be classified release_blocker''
           @ at (\<not> is_true (dget b ''blocks_release'')) ''release blocker {} must set blocks_release=true''
           @ at (\<not> (py_eq active (JBool True) \<or> py_eq active (JBool False))) ''active of release blocker {} must be boolean''
           @ at (\<not> known_status) ''the status of release blocker {} must be unresolved or resolved''
           @ at (\<not> known_source) ''the status_source of release blocker {} must be manual or windows_release_evidence''
           @ at (status_source = js WINDOWS_EVIDENCE_STATUS_SOURCE \<and> \<not> nonempty_text (dget b ''evidence_result''))
               ''release blocker {} has no evidence_result''
           @ at (\<not> nonempty_text (dget b ''reason'')) ''release blocker {} has no reason''
           @ at (\<not> nonempty_text (dget b ''required_action'')) ''release blocker {} has no required_action''))))"

definition seen_names :: "ustr list \<Rightarrow> obj \<Rightarrow> ustr list" where
  "seen_names names b =
     (case dget b ''name'' of JStr n \<Rightarrow> if n = [] \<or> n \<in> set names then names else n # names | _ \<Rightarrow> names)"

fun blockers_errors :: "nat \<Rightarrow> ustr list \<Rightarrow> json list \<Rightarrow> exn + msg list" where
  "blockers_errors index names [] = Inr []"
| "blockers_errors index names (JObj b # bs) =
     bindE (blocker_errors index names b) (\<lambda>e.
     bindE (blockers_errors (Suc index) (seen_names names b) bs) (\<lambda>es. Inr (e @ es)))"
| "blockers_errors index names (_ # bs) =
     bindE (blockers_errors (Suc index) names bs) (\<lambda>es.
     Inr (Msg ''registry entry {} is not an object'' [JInt (int index)] # es))"

definition registry_errors :: "ustr option \<Rightarrow> exn + msg list" where
  "registry_errors registry_text =
     (case registry_text of
        None \<Rightarrow> Inr [Msg ''the release blocker registry is missing'' []]
      | Some text \<Rightarrow>
          (case py_loads (universal_newlines text) of
             Inl JSONDecodeError \<Rightarrow> Inr [Msg ''the release blocker registry is not valid JSON'' []]
           | Inl e \<Rightarrow> Inl e
           | Inr (JObj registry) \<Rightarrow>
               (case dget registry ''blockers'' of
                  JArr blockers \<Rightarrow> blockers_errors 0 [] blockers
                | _ \<Rightarrow> Inr [Msg ''the release blocker registry must have a blockers list'' []])
           | Inr _ \<Rightarrow> Inr [Msg ''the release blocker registry must be an object'' []]))"

definition load_release_blocker_registry :: "ustr option \<Rightarrow> exn + json" where
  "load_release_blocker_registry registry_text =
     (case registry_text of None \<Rightarrow> Inl OSError | Some text \<Rightarrow> py_loads (universal_newlines text))"

definition registry_blockers :: "ustr option \<Rightarrow> exn + json list" where
  "registry_blockers registry_text =
     bindE (load_release_blocker_registry registry_text) (\<lambda>registry.
     bindE (as_dict registry) (\<lambda>d. iter_values (dget_or d ''blockers'' (JArr []))))"

definition registry_blocker_names :: "ustr option \<Rightarrow> exn + ustr list" where
  "registry_blocker_names registry_text =
     bindE (registry_blockers registry_text) (\<lambda>bs.
       Inr (concat (map (\<lambda>b. case dget b ''name'' of JStr n \<Rightarrow> [n] | _ \<Rightarrow> []) (dicts_of bs))))"

text \<open>A blocker with the status, reason and action that are in force.\<close>

record effective_blocker =
  eb_fields :: obj
  eb_reason :: msg
  eb_action :: msg

definition effective_release_blocker ::
  "tables \<Rightarrow> obj \<Rightarrow> (ustr \<times> evidence_result) list \<Rightarrow> effective_blocker" where
  "effective_release_blocker T blocker windows_results =
     (if dget blocker ''status_source'' \<noteq> js WINDOWS_EVIDENCE_STATUS_SOURCE
      then \<lparr>eb_fields = dset blocker ''effective_status_source'' (dget_or blocker ''status_source'' (js ''manual'')),
            eb_reason = Msg ''{}'' [dget blocker ''reason''],
            eb_action = Msg ''{}'' [dget blocker ''required_action'']\<rparr>
      else
        (let evidence = dget blocker ''evidence_result'';
             result_name = text_of T (if truthy evidence then evidence else dget blocker ''name'');
             fields = dset blocker ''effective_status_source'' (js WINDOWS_EVIDENCE_STATUS_SOURCE)
         in case map_of windows_results result_name of
              None \<Rightarrow>
                \<lparr>eb_fields = dset fields ''status'' (js ''unresolved''),
                 eb_reason = Msg ''no Windows evidence result: {}'' [JStr result_name],
                 eb_action = Msg ''run tooling/windows_release_evidence.py and align the evidence_result names'' []\<rparr>
            | Some r \<Rightarrow>
                (if er_status r = ''passed'' \<and> er_classification r \<noteq> ''release_blocker''
                 then \<lparr>eb_fields = dset fields ''status'' (js ''resolved''),
                       eb_reason = Within ''resolved by the Windows evidence: {}'' [] (er_reason r),
                       eb_action = er_required_action r\<rparr>
                 else \<lparr>eb_fields = dset fields ''status'' (js ''unresolved''),
                       eb_reason = er_reason r, eb_action = er_required_action r\<rparr>)))"

definition windows_evidence_results_by_name ::
  "tables \<Rightarrow> ustr option \<Rightarrow> json list \<Rightarrow> exn + (ustr \<times> evidence_result) list" where
  "windows_evidence_results_by_name T evidence_text blockers =
     (if list_ex (\<lambda>b. dget b ''status_source'' = js WINDOWS_EVIDENCE_STATUS_SOURCE) (dicts_of blockers)
      then bindE (validate_windows_release_evidence T evidence_text) (\<lambda>results.
             Inr (map (\<lambda>r. (u (er_name r), r)) (rev results)))
      else Inr [])"

definition counts_as_active :: "obj \<Rightarrow> bool" where
  "counts_as_active b \<longleftrightarrow>
     is_true (dget b ''active'') \<and> dget b ''status'' = js ''unresolved''
     \<and> dget b ''classification'' = js ''release_blocker'' \<and> is_true (dget b ''blocks_release'')"

definition unresolved_active_blockers ::
  "tables \<Rightarrow> ustr option \<Rightarrow> ustr option \<Rightarrow> exn + effective_blocker list" where
  "unresolved_active_blockers T registry_text evidence_text =
     bindE (registry_blockers registry_text) (\<lambda>blockers.
     bindE (windows_evidence_results_by_name T evidence_text blockers) (\<lambda>results.
       Inr (filter (\<lambda>e. counts_as_active (eb_fields e))
              (map (\<lambda>b. effective_release_blocker T b results) (dicts_of blockers)))))"

subsection \<open>References from the documents to the registry\<close>

text \<open>\<open>re.split\<close> on runs of separators, without the empty parts.\<close>

function tokens_by :: "(nat \<Rightarrow> bool) \<Rightarrow> ustr \<Rightarrow> ustr list" where
  "tokens_by p s =
     (case dropWhile p s of
        [] \<Rightarrow> []
      | c # t \<Rightarrow> (c # takeWhile (\<lambda>x. \<not> p x) t) # tokens_by p (dropWhile (\<lambda>x. \<not> p x) t))"
  by pat_completeness auto
termination
proof (relation "measure (\<lambda>(_, s). length s)")
  fix p :: "nat \<Rightarrow> bool" and s c t
  assume "dropWhile p s = c # t"
  then have "length (c # t) \<le> length s" by (metis length_dropWhile_le)
  then show "((p, dropWhile (\<lambda>x. \<not> p x) t), (p, s)) \<in> measure (\<lambda>(_, s). length s)"
    using length_dropWhile_le [of "\<lambda>x. \<not> p x" t] by simp
qed simp

declare tokens_by.simps [simp del]

definition bracket_or_tick :: "nat \<Rightarrow> bool" where
  "bracket_or_tick c \<longleftrightarrow> c \<in> {91, 93, 96}"

definition quote_mark :: "nat \<Rightarrow> bool" where
  "quote_mark c \<longleftrightarrow> c \<in> {96, 39, 34}"

definition space_or_comma :: "nat \<Rightarrow> bool" where
  "space_or_comma c \<longleftrightarrow> is_space c \<or> c = 44"

definition split_metadata_values :: "ustr \<Rightarrow> ustr list" where
  "split_metadata_values raw =
     (let cleaned = strip_where bracket_or_tick (strip raw);
          cleaned = filter (\<lambda>c. c \<noteq> 91 \<and> c \<noteq> 93) cleaned
      in filter (\<lambda>v. v \<noteq> [])
           (map (\<lambda>part. strip_where quote_mark (strip part)) (tokens_by space_or_comma cleaned)))"

text \<open>
  \<open>(?im)^\s*KEY\s*:\s*(.+?)\s*$\<close> at the start of a line: the captured text and what follows its line.
  White space may cross lines, the capture ends with its line.
\<close>

definition meta_at :: "ustr \<Rightarrow> ustr \<Rightarrow> (ustr \<times> ustr) option" where
  "meta_at key s =
     (let s1 = dropWhile is_space s;
          s2 = dropWhile is_space (drop (length key) s1)
      in if label_at key s1 \<and> s2 \<noteq> [] \<and> hd s2 = 58
         then (let s3 = dropWhile is_space (tl s2) in
               if s3 = [] then None
               else Some (strip (takeWhile (\<lambda>c. c \<noteq> 10) s3), dropWhile (\<lambda>c. c \<noteq> 10) s3))
         else None)"

text \<open>\<open>re.finditer\<close>: a line of the text in turn, going on after the line a match ends in.\<close>

fun meta_scan :: "nat \<Rightarrow> ustr \<Rightarrow> ustr \<Rightarrow> ustr list" where
  "meta_scan 0 key s = []"
| "meta_scan (Suc n) key s =
     (let (found, after) =
            (case meta_at key s of Some (v, rest) \<Rightarrow> ([v], rest) | None \<Rightarrow> ([], dropWhile (\<lambda>c. c \<noteq> 10) s))
      in found @ (case after of [] \<Rightarrow> [] | _ # t \<Rightarrow> meta_scan n key t))"

text \<open>\<open>\bKEY=([A-Za-z0-9_,.-]+)\<close>\<close>

definition value_char :: "nat \<Rightarrow> bool" where
  "value_char c \<longleftrightarrow> ascii_word c \<or> c \<in> {44, 45, 46}"

fun assign_scan :: "tables \<Rightarrow> nat \<Rightarrow> ustr \<Rightarrow> nat option \<Rightarrow> ustr \<Rightarrow> ustr list" where
  "assign_scan T 0 key before s = []"
| "assign_scan T (Suc n) key before [] = []"
| "assign_scan T (Suc n) key before (c # s) =
     (let rest = drop (length key) (c # s);
          v = takeWhile value_char (tl rest)
      in if starts_with key (c # s) \<and> word_boundary T before (Some c) \<and> rest \<noteq> [] \<and> hd rest = 61 \<and> v \<noteq> []
         then v # assign_scan T n key (Some (last v)) (drop (length v) (tl rest))
         else assign_scan T n key (Some c) s)"

definition metadata_values :: "tables \<Rightarrow> ustr \<Rightarrow> string \<Rightarrow> ustr list" where
  "metadata_values T block key =
     concat (map split_metadata_values
       (meta_scan (Suc (length block)) (u key) block
        @ assign_scan T (Suc (length block)) (u key) None block))"

definition DOC_SYNC_MARKERS :: "string list" where
  "DOC_SYNC_MARKERS = [''registry_id'', ''aggregate_of'', ''superseded_by'', ''historical'', ''example'']"

definition has_doc_sync_marker :: "tables \<Rightarrow> ustr \<Rightarrow> bool" where
  "has_doc_sync_marker T block \<longleftrightarrow>
     list_ex (\<lambda>m. substring (u m @ u '':'') (lower_case T block) \<or> substring (u m @ u ''='') (lower_case T block))
       DOC_SYNC_MARKERS"

definition has_truthy_marker :: "tables \<Rightarrow> ustr \<Rightarrow> string \<Rightarrow> bool" where
  "has_truthy_marker T block key \<longleftrightarrow>
     list_ex (\<lambda>v. lower_case T v \<in> {u ''true'', u ''yes''}) (metadata_values T block key)"

definition unknown_registry_refs :: "tables \<Rightarrow> ustr \<Rightarrow> ustr list \<Rightarrow> ustr list" where
  "unknown_registry_refs T block names =
     (let refs = concat (map (metadata_values T block) [''registry_id'', ''aggregate_of'', ''superseded_by''])
      in sort (remdups (filter (\<lambda>r. lower_case T r \<notin> set ([] # map u [''none'', ''true'', ''false'', ''yes'', ''no''])
                                  \<and> r \<notin> set names) refs)))"

subsection \<open>Blocks of a document\<close>

text \<open>\<open>^\s*-\s+WORD\s+\<close> and \<open>^\s*-\s+WORD\<close> with the rest of the line\<close>

definition bullet :: "string \<Rightarrow> ustr \<Rightarrow> ustr option" where
  "bullet word line =
     (case dropWhile is_space line of
        c # t \<Rightarrow>
          (let r = dropWhile is_space t in
           if c = 45 \<and> t \<noteq> [] \<and> is_space (hd t) \<and> starts_with (u word) r
           then Some (drop (length word) r) else None)
      | [] \<Rightarrow> None)"

definition item_line :: "ustr \<Rightarrow> bool" where
  "item_line line \<longleftrightarrow> (case bullet ''item:'' line of Some (c # _) \<Rightarrow> is_space c | _ \<Rightarrow> False)"

definition classification_line :: "ustr \<Rightarrow> bool" where
  "classification_line line \<longleftrightarrow> (case bullet ''classification:'' line of Some (c # _) \<Rightarrow> is_space c | _ \<Rightarrow> False)"

text \<open>\<open>\s*`?release_blocker`?\s*$\<close> on the rest of a line\<close>

definition names_release_blocker :: "(ustr \<Rightarrow> ustr \<Rightarrow> bool) \<Rightarrow> ustr \<Rightarrow> bool" where
  "names_release_blocker at rest \<longleftrightarrow>
     (let r = dropWhile is_space rest;
          r = (if r \<noteq> [] \<and> hd r = 96 then tl r else r);
          after = drop (length ''release_blocker'') r;
          after = (if after \<noteq> [] \<and> hd after = 96 then tl after else after)
      in at (u ''release_blocker'') r \<and> list_all is_space (takeWhile (\<lambda>c. c \<noteq> 10) after))"

definition classification_rule_line :: "ustr \<Rightarrow> bool" where
  "classification_rule_line line \<longleftrightarrow>
     (case bullet ''classification:'' line of Some rest \<Rightarrow> names_release_blocker starts_with rest | None \<Rightarrow> False)"

text \<open>\<open>(?im)^\s*classification:\s*`?release_blocker`?\s*$\<close>, searched from every line of the block\<close>

fun block_classified :: "nat \<Rightarrow> ustr \<Rightarrow> bool" where
  "block_classified 0 s = False"
| "block_classified (Suc n) s =
     (let s1 = dropWhile is_space s in
      label_at (u ''classification:'') s1 \<and> names_release_blocker label_at (drop (length ''classification:'') s1)
      \<or> (case dropWhile (\<lambda>c. c \<noteq> 10) s of [] \<Rightarrow> False | _ # t \<Rightarrow> block_classified n t))"

definition heading :: "ustr \<Rightarrow> bool" where
  "heading line \<longleftrightarrow> starts_with (u ''#'') line"

definition ends_block :: "bool \<Rightarrow> ustr \<Rightarrow> bool" where
  "ends_block rule line \<longleftrightarrow> item_line line \<or> rule \<and> classification_line line \<or> heading line"

function doc_blocks :: "nat \<Rightarrow> ustr list \<Rightarrow> (nat \<times> ustr) list" where
  "doc_blocks index [] = []"
| "doc_blocks index (line # rest) =
     (if item_line line \<or> classification_rule_line line
      then
        (let rule = classification_rule_line line;
             body = takeWhile (\<lambda>l. \<not> ends_block rule l) rest;
             block = join_lines (line # body)
         in (if block_classified (Suc (length block)) block then [(index + 1, block)] else [])
            @ doc_blocks (index + 1 + length body) (drop (length body) rest))
      else
        (if 124 \<in> set line \<and> substring (u ''release_blocker'') line then [(index + 1, line)] else [])
        @ doc_blocks (index + 1) rest)"
  by pat_completeness auto
termination
  by (relation "measure (\<lambda>(_, ls). length ls)") auto

definition sync_block_errors :: "tables \<Rightarrow> ustr list \<Rightarrow> ustr \<Rightarrow> nat \<times> ustr \<Rightarrow> msg list" where
  "sync_block_errors T names relative_path b =
     (case b of (line_number, block) \<Rightarrow>
       (let at = (\<lambda>m xs. Msg m (JStr relative_path # JInt (int line_number) # xs)) in
        if \<not> has_doc_sync_marker T block
        then [at ''{}:{}: the release_blocker block has no sync marker'' []]
        else
          (let unknown = unknown_registry_refs T block names in
           flag (unknown \<noteq> []) (at ''{}:{}: unknown registry blockers: {}'' (map JStr unknown))
           @ flag (list_all (\<lambda>k. metadata_values T block k = []) [''registry_id'', ''aggregate_of'', ''superseded_by'']
                   \<and> \<not> has_truthy_marker T block ''historical'' \<and> \<not> has_truthy_marker T block ''example'')
               (at ''{}:{}: the release_blocker marker is bound to nothing'' []))))"

definition CURRENT_FACING_RELEASE_DOCS :: "string list" where
  "CURRENT_FACING_RELEASE_DOCS =
     [''README.md'', ''CLAIM.md'', ''RELEASE_CHECKLIST.md'', ''AUDIT_EVIDENCE.md'', ''SECURITY_REVIEW.md'',
      ''INSTALLER_STATUS.md'', ''MOBILE_STATUS.md'', ''COMPATIBILITY_MATRIX.md'',
      ''docs/security/IPC_THREAT_MODEL.md'', ''docs/WINDOWS_RELEASE_PLAN.md'',
      ''docs/WINDOWS_RELEASE_EVIDENCE.md'', ''docs/PRODUCT_COMPLETION_PLAN.md'', ''docs/RELEASE_VALIDATION.md'',
      ''docs/public/SAFETY_AND_RELEASE_GATES.md'', ''docs/public/WINDOWS_PROOF_SUMMARY.md'']"

definition SCAN_FILES :: "string list" where
  "SCAN_FILES =
     [''README.md'', ''CLAIM.md'', ''RELEASE_CHECKLIST.md'', ''CONFORMANCE_REPORT.md'', ''SECURITY_REVIEW.md'',
      ''AUDIT_EVIDENCE.md'', ''INSTALLER_STATUS.md'', ''MOBILE_STATUS.md'', ''COMPATIBILITY_MATRIX.md'',
      ''docs/DESKTOP_PLATFORM_MATRIX.md'', ''docs/GUI_OPERATION_SURFACES.md'',
      ''docs/security/IPC_THREAT_MODEL.md'', ''docs/WINDOWS_RELEASE_PLAN.md'',
      ''docs/PRODUCT_COMPLETION_PLAN.md'', ''docs/RELEASE_VALIDATION.md'', ''docs/WINDOWS_RELEASE_EVIDENCE.md'',
      ''docs/public/PROJECT_OVERVIEW.md'', ''docs/public/SAFETY_AND_RELEASE_GATES.md'',
      ''docs/public/WINDOWS_PROOF_SUMMARY.md'']"

definition release_blocker_doc_sync_errors :: "tables \<Rightarrow> tree \<Rightarrow> ustr option \<Rightarrow> exn + msg list" where
  "release_blocker_doc_sync_errors T tree registry_text =
     bindE (registry_blocker_names registry_text) (\<lambda>names.
     Inr (concat (map (\<lambda>relative_path.
       (case tree (u relative_path) of
          None \<Rightarrow> [Msg ''{} is missing from the release blocker sync scan'' [js relative_path]]
        | Some text \<Rightarrow>
            concat (map (sync_block_errors T names (u relative_path)) (doc_blocks 0 (read_text_lines text)))))
       CURRENT_FACING_RELEASE_DOCS)))"

text \<open>
  The run of the gate. The registry and the Windows evidence are files of the repository too; the exit
  code and the output of the manifest check, a subprocess, are the argument \<open>manifest_errors\<close>.
\<close>

definition combined_text :: "tree \<Rightarrow> ustr" where
  "combined_text tree = concat (map (\<lambda>p. case tree (u p) of None \<Rightarrow> [] | Some t \<Rightarrow> 10 # universal_newlines t) SCAN_FILES)"

definition strict_errors :: "effective_blocker list \<Rightarrow> msg list" where
  "strict_errors blockers =
     map (\<lambda>e. Within ''an active blocker of the strict release is unresolved: {} - {}''
       [dget (eb_fields e) ''name''] (eb_reason e)) blockers"

definition release_gate_errors :: "tables \<Rightarrow> tree \<Rightarrow> bool \<Rightarrow> msg list \<Rightarrow> exn + msg list" where
  "release_gate_errors T tree strict_release manifest_errors =
     (let registry_text = tree (u ''release_blockers.registry.json'');
          evidence_text = tree (u ''release_evidence/windows_installed_smoke.json'');
          scanned = concat (map (\<lambda>p. scan_file T tree (u p)) SCAN_FILES)
      in bindE (registry_errors registry_text) (\<lambda>registry.
         bindE (if scanned @ registry = [] then release_blocker_doc_sync_errors T tree registry_text else Inr []) (\<lambda>sync.
         bindE (if strict_release \<and> scanned @ registry @ sync = []
                then bindE (unresolved_active_blockers T registry_text evidence_text) (\<lambda>bs. Inr (strict_errors bs))
                else Inr []) (\<lambda>blocked.
         Inr (scanned @ registry @ sync @ blocked
              @ remark (release_claim_exists_without_classification T (combined_text tree))
                  ''a release claim exists although there is a release_blocker''
              @ macos_support_claim_errors T (combined_text tree)
              @ manifest_errors)))))"

definition release_gate_exit :: "tables \<Rightarrow> tree \<Rightarrow> bool \<Rightarrow> msg list \<Rightarrow> exn + int" where
  "release_gate_exit T tree strict_release manifest_errors =
     bindE (release_gate_errors T tree strict_release manifest_errors) (\<lambda>errors.
       Inr (if errors \<noteq> [] then 1 else 0))"

subsection \<open>What a clean registry holds\<close>

lemma blocker_clean:
  assumes "blocker_errors i names b = Inr []"
  shows "(\<exists>n. dget b ''name'' = JStr n \<and> n \<noteq> [] \<and> n \<notin> set names)
    \<and> dget b ''classification'' = js ''release_blocker'' \<and> dget b ''blocks_release'' = JBool True
    \<and> dget b ''status'' \<in> {js ''unresolved'', js ''resolved''}
    \<and> (dget b ''status_source'' = js ''manual'' \<or> dget b ''status_source'' = js WINDOWS_EVIDENCE_STATUS_SOURCE
         \<and> (\<exists>n. dget b ''evidence_result'' = JStr n \<and> n \<noteq> []))"
proof -
  note d = assms [unfolded blocker_errors_def Let_def, simplified res_simps in_strings_def]
  then obtain n where "dget b ''name'' = JStr n" by (cases "dget b ''name''") auto
  with d show ?thesis
    by (auto simp: is_true_def nonempty_text_def is_str_iff WINDOWS_EVIDENCE_STATUS_SOURCE_def
        split: if_splits)
qed

lemma blockers_clean:
  "blockers_errors i names bs = Inr [] \<Longrightarrow> b \<in> set (dicts_of bs) \<Longrightarrow> \<exists>i names. blocker_errors i names b = Inr []"
  by (induction i names bs rule: blockers_errors.induct) (auto simp: res_simps)

lemma registry_clean:
  assumes "registry_errors text = Inr []"
  shows "\<exists>d bs. load_release_blocker_registry text = Inr (JObj d) \<and> dget d ''blockers'' = JArr bs
    \<and> blockers_errors 0 [] bs = Inr []"
  using assms
  by (auto simp: registry_errors_def load_release_blocker_registry_def
      split: option.splits sum.splits exn.splits json.splits)

lemma effective_manual:
  "dget b ''status_source'' = js ''manual'' \<Longrightarrow>
     dget (eb_fields (effective_release_blocker T b rs)) ''status'' = dget b ''status''"
  by (simp add: effective_release_blocker_def WINDOWS_EVIDENCE_STATUS_SOURCE_def)

lemma effective_windows:
  assumes "dget b ''status_source'' = js WINDOWS_EVIDENCE_STATUS_SOURCE" and "dget b ''evidence_result'' = JStr n"
    and "n \<noteq> []"
  shows "dget (eb_fields (effective_release_blocker T b rs)) ''status'' =
    (case map_of rs n of Some r \<Rightarrow> (if er_status r = ''passed'' \<and> er_classification r \<noteq> ''release_blocker''
       then js ''resolved'' else js ''unresolved'') | None \<Rightarrow> js ''unresolved'')"
  using assms by (simp add: effective_release_blocker_def Let_def split: option.split)

lemma effective_same:
  "k \<noteq> ''status'' \<Longrightarrow> k \<noteq> ''effective_status_source'' \<Longrightarrow>
     dget (eb_fields (effective_release_blocker T b rs)) k = dget b k"
  by (simp add: effective_release_blocker_def Let_def split: option.split)

lemma gate_clean:
  assumes "release_gate_exit T tree True me = Inr 0"
  shows "registry_errors (tree (u ''release_blockers.registry.json'')) = Inr []
    \<and> unresolved_active_blockers T (tree (u ''release_blockers.registry.json''))
        (tree (u ''release_evidence/windows_installed_smoke.json'')) = Inr []"
proof -
  from assms have "release_gate_errors T tree True me = Inr []"
    by (auto simp: release_gate_exit_def res_simps split: if_splits)
  then show ?thesis
    by (auto simp: release_gate_errors_def Let_def res_simps strict_errors_def split: if_splits)
qed

text \<open>
  C8. The strict release gate exits with 0 only if every blocker of the registry that is active is
  settled: a manual one is marked resolved, one that follows the Windows evidence has a result of that
  name that passed validation.
\<close>
theorem strict_release_sound:
  assumes "release_gate_exit T tree True me = Inr 0"
  shows "\<exists>d bs. load_release_blocker_registry (tree (u ''release_blockers.registry.json'')) = Inr (JObj d)
    \<and> dget d ''blockers'' = JArr bs
    \<and> (\<forall>b \<in> set (dicts_of bs). dget b ''active'' = JBool True \<longrightarrow>
         dget b ''status_source'' = js ''manual'' \<and> dget b ''status'' = js ''resolved''
         \<or> (\<exists>rs. validate_windows_release_evidence T (tree (u ''release_evidence/windows_installed_smoke.json'')) = Inr rs
              \<and> (\<exists>r \<in> set rs. passing r \<and> dget b ''evidence_result'' = js (er_name r))))"
proof -
  let ?reg = "tree (u ''release_blockers.registry.json'')"
  let ?ev = "tree (u ''release_evidence/windows_installed_smoke.json'')"
  obtain d bs where reg: "load_release_blocker_registry ?reg = Inr (JObj d)" "dget d ''blockers'' = JArr bs"
    "blockers_errors 0 [] bs = Inr []"
    using registry_clean gate_clean [OF assms] by blast
  then have bs: "registry_blockers ?reg = Inr bs"
    by (auto simp: registry_blockers_def dget_def dget_or_def split: option.splits)
  obtain results where results: "windows_evidence_results_by_name T ?ev bs = Inr results"
    and none: "\<forall>b \<in> set (dicts_of bs). \<not> counts_as_active (eb_fields (effective_release_blocker T b results))"
    using gate_clean [OF assms] by (auto simp: unresolved_active_blockers_def bs res_simps filter_empty_conv)
  have "dget b ''status_source'' = js ''manual'' \<and> dget b ''status'' = js ''resolved''
      \<or> (\<exists>rs. validate_windows_release_evidence T ?ev = Inr rs
           \<and> (\<exists>r \<in> set rs. passing r \<and> dget b ''evidence_result'' = js (er_name r)))"
    if b: "b \<in> set (dicts_of bs)" and active: "dget b ''active'' = JBool True" for b
  proof -
    obtain i names where "blocker_errors i names b = Inr []" using blockers_clean [OF reg(3) b] by blast
    note clean = blocker_clean [OF this]
    have open_status: "dget (eb_fields (effective_release_blocker T b results)) ''status'' \<noteq> js ''unresolved''"
      using none b active clean by (auto simp: counts_as_active_def effective_same is_true_def)
    show ?thesis
    proof (cases "dget b ''status_source'' = js ''manual''")
      case True
      with open_status clean show ?thesis by (auto simp: effective_manual)
    next
      case False
      with clean obtain n where n: "dget b ''status_source'' = js WINDOWS_EVIDENCE_STATUS_SOURCE"
        "dget b ''evidence_result'' = JStr n" "n \<noteq> []" by auto
      with open_status obtain r where r: "map_of results n = Some r" "er_status r = ''passed''"
        by (auto simp: effective_windows split: option.splits if_splits)
      from b n(1) results obtain rs where rs: "validate_windows_release_evidence T ?ev = Inr rs"
        "results = map (\<lambda>r. (u (er_name r), r)) (rev rs)"
        by (auto simp: windows_evidence_results_by_name_def list_ex_iff res_simps split: if_splits)
      with r(1) have "r \<in> set rs \<and> u (er_name r) = n" by (auto dest!: map_of_SomeD)
      with rs(1) r(2) n(2) show ?thesis by (auto simp: passing_def)
    qed
  qed
  with reg show ?thesis by blast
qed

text \<open>
  A registry entry whose \<open>active\<close> is the number 1 is checked exactly like one whose \<open>active\<close> is
  true, since \<open>1 in (True, False)\<close> holds in Python; but the strict gate asks \<open>is True\<close> and never counts it
  as active, so such a blocker, valid and unresolved as it may be, cannot stop a release.
\<close>
theorem numeric_active_bypasses_gate:
  "blocker_errors i names (dset b ''active'' (JInt 1)) = blocker_errors i names (dset b ''active'' (JBool True))
   \<and> \<not> counts_as_active (eb_fields (effective_release_blocker T (dset b ''active'' (JInt 1)) rs))"
proof
  have h: "dhas (dset b ''active'' v) k = (k = ''active'' \<or> dhas b k)" for v k
    by (auto simp: dhas_def dset_def update_conv)
  show "blocker_errors i names (dset b ''active'' (JInt 1)) = blocker_errors i names (dset b ''active'' (JBool True))"
    by (simp add: blocker_errors_def h py_eq_JBool Let_def cong: if_cong)
  show "\<not> counts_as_active (eb_fields (effective_release_blocker T (dset b ''active'' (JInt 1)) rs))"
    by (simp add: counts_as_active_def effective_same is_true_def)
qed

text \<open>A small repository the strict gate releases: empty documents and one settled blocker.\<close>

definition settled_blocker :: obj where
  "settled_blocker =
     [(u ''name'', js ''owner_go''), (u ''status'', js ''resolved''), (u ''status_source'', js ''manual''),
      (u ''active'', JBool True), (u ''classification'', js ''release_blocker''),
      (u ''blocks_release'', JBool True), (u ''reason'', js ''r''), (u ''required_action'', js ''a'')]"

definition settled_registry :: obj where
  "settled_registry = [(u ''blockers'', JArr [JObj settled_blocker])]"

definition settled_tree :: tree where
  "settled_tree p =
     (if p = u ''release_blockers.registry.json'' then Some (render None 0 (JObj settled_registry))
      else if p = u ''release_evidence/windows_installed_smoke.json'' then None else Some [])"

lemma load_render_registry: "wf_json v \<Longrightarrow> load_release_blocker_registry (Some (render None 0 v)) = Inr v"
  by (simp add: load_release_blocker_registry_def loads_written)

lemma settled_registry_wf: "wf_json (JObj settled_registry)"
  by (simp add: settled_registry_def settled_blocker_def scalar_def u_def)

lemma settled_clean: "blockers_errors 0 [] [JObj settled_blocker] = Inr []"
  by (simp add: blocker_errors_def settled_blocker_def dget_def dget_or_def dhas_def REGISTRY_FIELDS_def
      in_strings_def WINDOWS_EVIDENCE_STATUS_SOURCE_def is_true_def nonempty_text_def flag_def Let_def)

lemma settled_resolved:
  "\<not> counts_as_active (eb_fields (effective_release_blocker T settled_blocker []))"
proof -
  have manual: "dget settled_blocker ''status_source'' = js ''manual''"
    and closed: "dget settled_blocker ''status'' = js ''resolved''"
    by (simp_all add: settled_blocker_def dget_def dget_or_def)
  show ?thesis by (simp add: counts_as_active_def effective_manual [OF manual] effective_same closed)
qed

lemma words_in_newlines:
  "list_all (\<lambda>c. c = 10) s \<Longrightarrow> list_all (\<lambda>w. w \<noteq> [] \<and> hd w \<noteq> 10) ws \<Longrightarrow> claim_at T before ws second s = None"
proof (induction ws)
  case (Cons w ws)
  then have "word_at T before w s = None"
    by (cases w; cases s) (auto simp: word_at_def starts_with_def)
  with Cons show ?case by simp
qed simp

lemma unhinted_newlines:
  "list_all (\<lambda>c. c = 10) s \<Longrightarrow> list_all (\<lambda>w. w \<noteq> [] \<and> hd w \<noteq> 10) ws \<Longrightarrow> \<not> unhinted_claim T ws second past s"
  by (induction s arbitrary: past) (subst unhinted_claim.simps; simp add: words_in_newlines)+

lemma has_word_newlines: "list_all (\<lambda>c. c = 10) s \<Longrightarrow> \<not> has_word T before (114 # w) s"
  by (induction s arbitrary: before) (auto simp: word_at_def starts_with_def)

lemma settled_docs:
  "p \<in> set SCAN_FILES \<union> set CURRENT_FACING_RELEASE_DOCS \<Longrightarrow> settled_tree (u p) = Some []"
  by (auto simp: settled_tree_def SCAN_FILES_def CURRENT_FACING_RELEASE_DOCS_def)

lemma settled_gate: "release_gate_exit ascii_tables settled_tree True [] = Inr 0"
proof -
  have reg: "settled_tree (u ''release_blockers.registry.json'') = Some (render None 0 (JObj settled_registry))"
    by (simp add: settled_tree_def)
  have blockers: "registry_blockers (Some (render None 0 (JObj settled_registry))) = Inr [JObj settled_blocker]"
    by (simp add: registry_blockers_def load_render_registry loads_written settled_registry_wf del: wf_json.simps render.simps)
      (simp add: settled_registry_def dget_or_def)
  have "dget settled_registry ''blockers'' = JArr [JObj settled_blocker]"
    by (simp add: settled_registry_def dget_def dget_or_def)
  then have errs: "registry_errors (Some (render None 0 (JObj settled_registry))) = Inr []"
    by (simp add: registry_errors_def load_render_registry loads_written settled_registry_wf settled_clean
        del: wf_json.simps render.simps blockers_errors.simps)
  have "concat (map (\<lambda>p. scan_file ascii_tables settled_tree (u p)) SCAN_FILES) = []"
    using settled_docs by (auto simp: scan_file_def read_text_lines_def)
  moreover have sync: "release_blocker_doc_sync_errors ascii_tables settled_tree (Some (render None 0 (JObj settled_registry)))
      = Inr []"
    using settled_docs
    by (auto simp: release_blocker_doc_sync_errors_def registry_blocker_names_def blockers read_text_lines_def
        simp del: render.simps)
  moreover have manual: "dget settled_blocker ''status_source'' \<noteq> js WINDOWS_EVIDENCE_STATUS_SOURCE"
    by (simp add: settled_blocker_def dget_def dget_or_def WINDOWS_EVIDENCE_STATUS_SOURCE_def)
  then have "unresolved_active_blockers ascii_tables (Some (render None 0 (JObj settled_registry))) ev = Inr []" for ev
    by (simp add: unresolved_active_blockers_def blockers windows_evidence_results_by_name_def settled_resolved
        del: render.simps)
  moreover have nl: "list_all (\<lambda>c. c = 10) (combined_text settled_tree)"
    using settled_docs by (auto simp: combined_text_def list_all_iff)
  then have nl': "list_all (\<lambda>c. c = 10) (map ascii_lower (combined_text settled_tree))"
    by (auto simp: list_all_iff ascii_lower_def)
  have "macos_support_claim_errors ascii_tables (combined_text settled_tree) = []"
    unfolding macos_support_claim_errors_def Let_def
    by (simp add: unhinted_newlines [OF nl'] MACOS_WORDS_def CLAIM_WORDS_def u_def)
  moreover have "\<not> release_claim_exists_without_classification ascii_tables (combined_text settled_tree)"
    using has_word_newlines [OF nl', of ascii_tables None "tl (u ''release'')"]
    by (simp add: release_claim_exists_without_classification_def u_def)
  ultimately show ?thesis
    by (simp add: release_gate_exit_def release_gate_errors_def reg errs strict_errors_def del: render.simps)
qed

theorem strict_release_sound_witness:
  "\<exists>d bs. load_release_blocker_registry (settled_tree (u ''release_blockers.registry.json'')) = Inr (JObj d)
     \<and> dget d ''blockers'' = JArr bs"
  using strict_release_sound [OF settled_gate] by blast

subsection \<open>A classification rule hides its own block\<close>

lemma label_at_newline:
  "list_all (\<lambda>w. \<not> same_letter w 10) label \<Longrightarrow> label_at label (s @ 10 # t) = label_at label s"
  by (induction label s rule: label_at.induct) (auto simp: neq_Nil_conv)

lemma dropWhile_join_label:
  assumes "list_all (\<lambda>w. \<not> same_letter w 10) label" and "label \<noteq> []"
    and "list_all (\<lambda>l. \<not> label_at label (dropWhile is_space l)) ls"
  shows "\<not> label_at label (dropWhile is_space (join [10] ls))"
  using assms(3)
proof (induction ls)
  case Nil
  with assms(2) show ?case by (cases label) auto
next
  case (Cons l ls)
  then show ?case
    using assms(1) by (cases ls; cases "list_all is_space l")
      (auto simp: list_all_iff dropWhile_append dropWhile_eq_Nil_conv label_at_newline is_space_def)
qed

lemma unlabelled_lines:
  assumes "list_all (\<lambda>l. 10 \<notin> set l \<and> \<not> label_at (u ''classification:'') (dropWhile is_space l)) ls"
  shows "\<not> block_classified n (join [10] ls)"
  using assms
proof (induction n arbitrary: ls)
  case (Suc n)
  have label: "list_all (\<lambda>w. \<not> same_letter w 10) (u ''classification:'')" "u ''classification:'' \<noteq> []"
    by (simp_all add: u_def same_letter_def ascii_lower_def)
  have "\<not> label_at (u ''classification:'') (dropWhile is_space (join [10] ls))"
    using dropWhile_join_label [OF label] Suc.prems by (simp add: list_all_iff)
  moreover have "\<exists>ls'. list_all (\<lambda>l. 10 \<notin> set l \<and> \<not> label_at (u ''classification:'') (dropWhile is_space l)) ls'
      \<and> (case dropWhile (\<lambda>c. c \<noteq> 10) (join [10] ls) of [] \<Rightarrow> True | _ # t \<Rightarrow> t = join [10] ls')"
  proof (cases ls)
    case Nil
    then show ?thesis by (intro exI [of _ "[]"]) simp
  next
    case (Cons l rest)
    with Suc.prems have "dropWhile (\<lambda>c. c \<noteq> 10) l = []" by (auto simp: dropWhile_eq_Nil_conv)
    with Cons Suc.prems show ?thesis
      by (intro exI [of _ rest]) (cases rest; auto simp: dropWhile_append list.case_eq_if)
  qed
  ultimately show ?case
    using Suc.IH by (auto simp: Let_def split: list.splits)
qed simp

lemma classification_rule_unlabelled:
  assumes "classification_rule_line line"
  shows "\<not> label_at (u ''classification:'') (dropWhile is_space line)"
  using assms by (auto simp: classification_rule_line_def bullet_def u_def same_letter_def ascii_lower_def
      split: list.splits option.splits)

text \<open>
  A block that \<open>- classification: release_blocker\<close> opens is never collected when none of its lines starts
  with \<open>classification:\<close>: the opening line itself starts with a bullet, which the search inside the block
  does not accept, so the block escapes the check that it names a registered blocker, whatever it says.
\<close>

theorem rule_block_never_collected:
  assumes "classification_rule_line line" and "10 \<notin> set line"
    and "list_all (\<lambda>l. 10 \<notin> set l \<and> \<not> ends_block True l
           \<and> \<not> label_at (u ''classification:'') (dropWhile is_space l)) body"
  shows "doc_blocks index (line # body) = []"
proof -
  have whole: "takeWhile (\<lambda>l. \<not> ends_block True l) body = body"
    using assms(3) by (simp add: list_all_iff takeWhile_eq_all_conv)
  have "\<not> block_classified n (join [10] (line # body))" for n
    using assms classification_rule_unlabelled by (intro unlabelled_lines) (simp add: list_all_iff)
  then show ?thesis
    using assms(1) by (simp only: doc_blocks.simps Let_def join_lines_def whole) simp
qed

theorem rule_block_never_collected_witness:
  "doc_blocks 0 [u ''- classification: `release_blocker`'', u ''  reason: not validated'', u ''  blocks_release: yes''] = []"
  by (rule rule_block_never_collected)
    (simp_all add: classification_rule_line_def bullet_def names_release_blocker_def ends_block_def item_line_def
      classification_line_def heading_def is_space_def starts_with_def u_def same_letter_def ascii_lower_def Let_def)

end
