(* ===== verification/Py_Path.thy ===== *)
theory Py_Path
  imports Py_Text
begin

text \<open>
  Paths of the standard library on a POSIX system: how a text is split into a root and names
  (\<open>PurePosixPath\<close>), how a path is printed, joined and compared, and the contract of \<open>Path.resolve\<close>.
  Resolving asks the file system, so it is an operation of the locale \<open>resolver\<close>; \<open>lexical_resolve\<close> is
  the one of a file system without symbolic links.
\<close>

record ppath =
  path_root :: ustr
  path_names :: "ustr list"

fun split_slash :: "ustr \<Rightarrow> ustr \<Rightarrow> ustr list" where
  "split_slash name [] = [rev name]"
| "split_slash name (c # s) = (if c = 47 then rev name # split_slash [] s else split_slash (c # name) s)"

text \<open>Exactly two leading slashes are a root of their own.\<close>

definition root_of :: "ustr \<Rightarrow> ustr" where
  "root_of s =
     (let n = length (takeWhile (\<lambda>c. c = 47) s) in if n = 0 then [] else if n = 2 then [47, 47] else [47])"

definition path_of :: "ustr \<Rightarrow> ppath" where
  "path_of s =
     \<lparr>path_root = root_of s,
      path_names = filter (\<lambda>n. n \<noteq> [] \<and> n \<noteq> u ''.'') (split_slash [] s)\<rparr>"

definition path_text :: "ppath \<Rightarrow> ustr" where
  "path_text p =
     (if path_root p = [] \<and> path_names p = [] then u ''.''
      else path_root p @ join_with ''/'' (path_names p))"

definition is_absolute :: "ppath \<Rightarrow> bool" where
  "is_absolute p \<longleftrightarrow> path_root p \<noteq> []"

text \<open>\<open>p / q\<close>: an absolute right side wins.\<close>

definition path_join :: "ppath \<Rightarrow> ppath \<Rightarrow> ppath" where
  "path_join p q =
     (if path_root q \<noteq> [] then q else p\<lparr>path_names := path_names p @ path_names q\<rparr>)"

definition path_parts :: "ppath \<Rightarrow> ustr list" where
  "path_parts p = (if path_root p = [] then [] else [path_root p]) @ path_names p"

definition relative_to :: "ppath \<Rightarrow> ppath \<Rightarrow> ppath option" where
  "relative_to p base =
     (if path_root p = path_root base \<and> take (length (path_names base)) (path_names p) = path_names base
      then Some \<lparr>path_root = [], path_names = drop (length (path_names base)) (path_names p)\<rparr>
      else None)"

text \<open>\<open>q in p.parents\<close>\<close>

definition is_parent :: "ppath \<Rightarrow> ppath \<Rightarrow> bool" where
  "is_parent q p \<longleftrightarrow> path_root q = path_root p \<and> length (path_names q) < length (path_names p)
     \<and> take (length (path_names q)) (path_names p) = path_names q"

definition below :: "ppath \<Rightarrow> ppath \<Rightarrow> bool" where
  "below p base \<longleftrightarrow> path_root p = path_root base
     \<and> take (length (path_names base)) (path_names p) = path_names base"

lemma relative_to_below: "relative_to p base \<noteq> None \<longleftrightarrow> below p base"
  by (simp add: relative_to_def below_def)

lemma below_refl [simp]: "below p p"
  by (simp add: below_def)

lemma below_trans: "below p q \<Longrightarrow> below q r \<Longrightarrow> below p r"
  unfolding below_def by (metis min.absorb2 nat_le_linear take_all take_take min.absorb1)

lemma below_parent: "below p q \<longleftrightarrow> p = q \<or> is_parent q p"
proof
  assume b: "below p q"
  then have len: "length (path_names q) \<le> length (path_names p)"
    by (metis below_def length_take min.cobounded1)
  show "p = q \<or> is_parent q p"
  proof (cases "length (path_names p) = length (path_names q)")
    case True
    with b have "path_names p = path_names q" "path_root p = path_root q" by (simp_all add: below_def)
    then show ?thesis by (cases p; cases q) simp
  next
    case False
    with b len show ?thesis by (simp add: below_def is_parent_def)
  qed
next
  assume "p = q \<or> is_parent q p"
  then show "below p q" by (auto simp: below_def is_parent_def)
qed

subsection \<open>A printed path reads back\<close>

definition path_ok :: "ppath \<Rightarrow> bool" where
  "path_ok p \<longleftrightarrow> path_root p \<in> {[], [47], [47, 47]}
     \<and> list_all (\<lambda>n. n \<noteq> [] \<and> n \<noteq> u ''.'' \<and> 47 \<notin> set n) (path_names p)"

lemma split_slash_name:
  "47 \<notin> set n \<Longrightarrow> split_slash acc (n @ s) = split_slash (rev n @ acc) s"
  by (induction n arbitrary: acc) auto

lemma split_slash_join:
  "list_all (\<lambda>n. 47 \<notin> set n) (n # ns) \<Longrightarrow> split_slash [] (join [47] (n # ns)) = n # ns"
proof (induction ns arbitrary: n)
  case Nil
  then show ?case using split_slash_name [of n "[]" "[]"] by simp
next
  case (Cons m ns)
  then show ?case using split_slash_name [of n "[]" "47 # join [47] (m # ns)"] by simp
qed

lemma set_split_slash: "n \<in> set (split_slash acc s) \<Longrightarrow> 47 \<notin> set acc \<Longrightarrow> 47 \<notin> set n"
  by (induction acc s rule: split_slash.induct) (auto split: if_splits)

lemma path_ok_of: "path_ok (path_of s)"
  using set_split_slash [of _ "[]" s] by (auto simp: path_ok_def path_of_def root_of_def Let_def list_all_iff)

lemma path_of_text:
  assumes "path_ok p" and "path_root p = [47] \<or> path_root p = []"
  shows "path_of (path_text p) = p"
proof (cases "path_names p")
  case Nil
  with assms show ?thesis
    by (cases p) (auto simp: path_of_def path_text_def root_of_def join_with_def u_def)
next
  case (Cons n ns)
  have names: "list_all (\<lambda>n. 47 \<notin> set n) (n # ns)" "filter (\<lambda>n. n \<noteq> [] \<and> n \<noteq> u ''.'') (n # ns) = n # ns"
    using assms(1) Cons by (auto simp: path_ok_def list_all_iff intro!: filter_True)
  obtain c n' where n: "n = c # n'" "c \<noteq> 47"
    using assms(1) Cons by (cases n) (auto simp: path_ok_def)
  then have start: "join [47] (n # ns) = c # (n' @ (if ns = [] then [] else 47 # join [47] ns))"
    by (cases ns) auto
  have "root_of (path_text p) = path_root p"
    using assms(2) n Cons start by (auto simp: root_of_def path_text_def join_with_def u_def)
  moreover have "filter (\<lambda>n. n \<noteq> [] \<and> n \<noteq> u ''.'') (split_slash [] (path_text p)) = n # ns"
    using assms(2) Cons names split_slash_join [OF names(1)]
    by (auto simp: path_text_def join_with_def u_def)
  ultimately show ?thesis
    using Cons by (cases p) (simp add: path_of_def)
qed

subsection \<open>Resolving\<close>

text \<open>
  What is relied on of \<open>Path.resolve\<close>: it returns an absolute path without \<open>.\<close> and \<open>..\<close>, and resolving
  such a path that it returned changes nothing.
\<close>

locale resolver =
  fixes resolve :: "ppath \<Rightarrow> exn + ppath"
  assumes resolved_absolute: "resolve p = Inr q \<Longrightarrow> is_absolute q"
    and resolved_no_dots: "resolve p = Inr q \<Longrightarrow> u ''..'' \<notin> set (path_names q)"
    and resolve_again: "resolve p = Inr q \<Longrightarrow> resolve q = Inr q"

fun drop_dots :: "ustr list \<Rightarrow> ustr list \<Rightarrow> ustr list" where
  "drop_dots seen [] = rev seen"
| "drop_dots seen (n # ns) = (if n = u ''..'' then drop_dots (tl seen) ns else drop_dots (n # seen) ns)"

definition lexical_resolve :: "ppath \<Rightarrow> ppath \<Rightarrow> exn + ppath" where
  "lexical_resolve cwd p =
     (if list_ex (\<lambda>n. 0 \<in> set n) (path_names p) then Inl (ValueError (Msg ''embedded null byte'' []))
      else
        let q = (if is_absolute p then p else path_join cwd p)
        in Inr \<lparr>path_root = (if path_root q = [] then [47] else path_root q), path_names = drop_dots [] (path_names q)\<rparr>)"

lemma set_drop_dots: "set (drop_dots seen ns) \<subseteq> set seen \<union> (set ns - {u ''..''})"
proof (induction seen ns rule: drop_dots.induct)
  case (2 seen n ns)
  then show ?case by (cases seen) auto
qed simp

lemma drop_dots_id: "u ''..'' \<notin> set ns \<Longrightarrow> drop_dots seen ns = rev seen @ ns"
  by (induction seen ns rule: drop_dots.induct) auto

lemma lexical_resolver:
  assumes "list_all (\<lambda>n. 0 \<notin> set n) (path_names cwd)"
  shows "resolver (lexical_resolve cwd)"
proof
  fix p q
  assume p: "lexical_resolve cwd p = Inr q"
  then show "is_absolute q"
    by (auto simp: lexical_resolve_def Let_def is_absolute_def split: if_splits)
  show dots: "u ''..'' \<notin> set (path_names q)"
    using p set_drop_dots [of "[]"] by (fastforce simp: lexical_resolve_def Let_def split: if_splits)
  have "list_all (\<lambda>n. 0 \<notin> set n) (path_names q)"
    using p assms set_drop_dots [of "[]" "path_names p"] set_drop_dots [of "[]" "path_names cwd @ path_names p"]
    by (fastforce simp: lexical_resolve_def Let_def path_join_def is_absolute_def list_all_iff list_ex_iff
        split: if_splits)
  with dots \<open>is_absolute q\<close> show "lexical_resolve cwd q = Inr q"
    by (cases q) (auto simp: lexical_resolve_def Let_def is_absolute_def drop_dots_id list_all_iff list_ex_iff)
qed

end
