(* ===== verification/Setup_Doctor.thy ===== *)
theory Setup_Doctor
  imports Py_Path Json_Roundtrip Persistence
begin

text \<open>
  The setup doctor and the first run of the installer (\<open>installer/setup_doctor.py\<close>,
  \<open>installer/first_run.py\<close>). What they ask the machine for is the record \<open>host\<close>: the platform texts,
  the programs on the path, the existing files, the result of connecting to a port, the environment and
  whether a directory can be made and written (the text of the \<open>OSError\<close> when not).
\<close>

record host =
  host_root :: ppath
  host_system :: ustr
  host_platform :: ustr
  host_machine :: ustr
  host_processor :: ustr
  host_which :: "ustr \<Rightarrow> ustr option"
  host_exists :: "ppath \<Rightarrow> bool"
  host_connect :: "nat \<Rightarrow> int"
  host_environ :: "ustr \<Rightarrow> ustr option"
  host_mkdir_error :: "ppath \<Rightarrow> ustr option"
  host_write_error :: "ppath \<Rightarrow> ustr option"

definition sub_path :: "ppath \<Rightarrow> string list \<Rightarrow> ppath" where
  "sub_path p names = p\<lparr>path_names := path_names p @ map u names\<rparr>"

subsection \<open>Checks\<close>

definition check_result :: "ustr \<Rightarrow> string \<Rightarrow> ustr \<Rightarrow> json \<Rightarrow> ustr \<Rightarrow> bool \<Rightarrow> obj" where
  "check_result check_id status message recovery_action technical_detail can_continue =
     [(u ''check_id'', JStr check_id), (u ''status'', js status), (u ''message'', JStr message),
      (u ''technical_detail'', JStr technical_detail), (u ''recovery_action'', recovery_action),
      (u ''recovery_instruction'', recovery_action), (u ''can_continue'', JBool can_continue),
      (u ''grants_authority'', JBool False)]"

definition check_tool :: "host \<Rightarrow> string \<Rightarrow> string \<Rightarrow> bool \<Rightarrow> obj" where
  "check_tool H name recovery required =
     (let path = (case host_which H (u name) of None \<Rightarrow> [] | Some p \<Rightarrow> p);
          found = path \<noteq> []
      in check_result (u ''tool.'' @ u name)
           (if found then ''pass'' else if required then ''fail'' else ''warning'')
           (u name @ u '' '' @ (if found then u ''found'' else u ''not found''))
           (if found then JNull else js recovery)
           (if found then path else u ''not on PATH'')
           (found \<or> \<not> required))"

definition check_path :: "host \<Rightarrow> string list \<Rightarrow> string \<Rightarrow> string \<Rightarrow> obj" where
  "check_path H names check_id recovery =
     (let path = sub_path (host_root H) names; present = host_exists H path
      in check_result (u check_id) (if present then ''pass'' else ''fail'')
           (join_with ''/'' (map u names) @ u '' '' @ (if present then u ''exists'' else u ''missing''))
           (if present then JNull else js recovery) (path_text path) present)"

definition check_os :: "host \<Rightarrow> obj" where
  "check_os H = check_result (u ''host.os'') ''pass'' (u ''OS: '' @ host_system H) JNull (host_platform H) True"

definition check_arch :: "host \<Rightarrow> obj" where
  "check_arch H =
     check_result (u ''host.arch'') ''pass'' (u ''CPU architecture: '' @ host_machine H) JNull (host_processor H) True"

definition check_port_available :: "host \<Rightarrow> nat \<Rightarrow> obj" where
  "check_port_available H port =
     (let result = host_connect H port; available = result \<noteq> 0; name = dec_int (int port)
      in check_result (u ''port.'' @ name) (if available then ''pass'' else ''warning'')
           (u ''localhost port '' @ name @ u '' '' @ (if available then u ''available'' else u ''already in use''))
           (if available then JNull
            else JStr (u ''Stop the process using port '' @ name @ u '' or choose a different runtime port.''))
           (u ''connect_ex='' @ dec_int result) True)"

definition check_public_bind :: obj where
  "check_public_bind =
     check_result (u ''network.public_bind'') ''warning'' (u ''Public bind requires explicit operator review'')
       (js ''Keep runtimes on localhost unless a permission and approval explicitly allow public bind.'')
       (u ''0.0.0.0 and external interfaces are not approved by default'') True"

definition check_filesystem_permission :: "host \<Rightarrow> ppath \<Rightarrow> obj" where
  "check_filesystem_permission H path =
     (let writable = host_mkdir_error H path = None \<and> host_write_error H path = None;
          detail = (case host_mkdir_error H path of Some error \<Rightarrow> error
                    | None \<Rightarrow> (case host_write_error H path of Some error \<Rightarrow> error | None \<Rightarrow> path_text path))
      in check_result (u ''filesystem.permission'') (if writable then ''pass'' else ''fail'')
           (u ''audit storage path '' @ (if writable then u ''writable'' else u ''not writable''))
           (if writable then JNull else js ''Choose a writable local audit storage directory.'') detail writable)"

definition audit_storage :: "host \<Rightarrow> ppath" where
  "audit_storage H =
     (case host_environ H (u ''GUI_SHELL_AUDIT_DIR'') of
        Some text \<Rightarrow> path_of text
      | None \<Rightarrow> sub_path (host_root H) [''.gui-shell'', ''audit''])"

definition setup_doctor_checks :: "host \<Rightarrow> obj list" where
  "setup_doctor_checks H =
     [check_os H,
      check_arch H,
      check_tool H ''python3'' ''Install Python 3 and rerun Setup Doctor.'' True,
      check_tool H ''cargo'' ''Install Rust/Cargo before running native helper tests.'' False,
      check_tool H ''flutter'' ''Install Flutter before analyzing or launching the desktop operator shell.'' False,
      check_port_available H 11434,
      check_public_bind,
      check_filesystem_permission H (audit_storage H),
      check_path H [''examples'', ''contracts'', ''runtime_manifest.valid.json''] ''runtime.catalog''
        ''Restore runtime manifest contract examples.'',
      check_path H [''examples'', ''contracts'', ''adapter_manifest.valid.json''] ''adapter.manifest''
        ''Restore adapter manifest contract examples.'',
      check_path H [''examples'', ''contracts'', ''agent_workspace.valid.json''] ''agent.workspace_boundary''
        ''Restore agent workspace contract examples.'',
      check_path H [''packages'', ''blue_tanuki_adapter''] ''adapter.readiness'' ''Restore the reference adapter package.'',
      check_path H [''examples'', ''contracts'', ''update.valid.json''] ''update.policy''
        ''Restore update policy contract examples.'',
      check_path H [''examples'', ''contracts'', ''audit.valid.json''] ''audit.storage_contract''
        ''Restore audit contract examples.'',
      check_path H [''examples'', ''contracts'', ''recovery.valid.json''] ''recovery.catalog''
        ''Restore recovery contract examples.'']"

definition setup_doctor_report :: "host \<Rightarrow> obj" where
  "setup_doctor_report H =
     (let checks = setup_doctor_checks H;
          status = (if list_all (\<lambda>check. dget check ''status'' = js ''pass'') checks then ''pass'' else ''warning'')
      in [(u ''status'', js status), (u ''checks'', JArr (map JObj checks)),
          (u ''installer_grants_authority'', JBool False),
          (u ''installer_silently_approves_permissions'', JBool False), (u ''operator_readable'', JBool True)])"

definition setup_doctor_exit :: "host \<Rightarrow> ustr \<times> int" where
  "setup_doctor_exit H = (dumps_indent 2 (JObj (setup_doctor_report H)) @ [10], 0)"

subsection \<open>First run\<close>

text \<open>\<open>any(check.get("grants_authority") is not False for check in report.get("checks", []))\<close>\<close>

fun any_grants :: "json list \<Rightarrow> exn + bool" where
  "any_grants [] = Inr False"
| "any_grants (check # checks) =
     bindE (jget check ''grants_authority'') (\<lambda>g. if \<not> is_false g then Inr True else any_grants checks)"

definition checks_grant :: "obj \<Rightarrow> exn + bool" where
  "checks_grant report = bindE (iter_values (dget_or report ''checks'' (JArr []))) any_grants"

definition first_run_config :: "ppath \<Rightarrow> obj" where
  "first_run_config audit_dir =
     [(u ''first_run_complete'', JBool True), (u ''installer_grants_authority'', JBool False),
      (u ''installer_silently_approves_permissions'', JBool False), (u ''audit_dir'', JStr (path_text audit_dir))]"

text \<open>A report of a smoke run: its verdict, its findings and its other fields.\<close>

record smoke_report =
  smoke_ok :: bool
  smoke_errors :: "msg list"
  smoke_fields :: obj

definition smoke_result :: "msg list \<Rightarrow> obj \<Rightarrow> smoke_report" where
  "smoke_result errors others = \<lparr>smoke_ok = (errors = []), smoke_errors = errors, smoke_fields = others\<rparr>"

definition first_run_report :: "obj \<Rightarrow> ppath \<Rightarrow> ppath \<Rightarrow> bool \<Rightarrow> exn + smoke_report" where
  "first_run_report setup_report config_path audit_dir config_exists =
     bindE (checks_grant setup_report) (\<lambda>granting.
       Inr (smoke_result
         (remark (\<not> is_false (dget setup_report ''installer_grants_authority'')) ''the setup doctor grants authority''
          @ remark (\<not> is_false (dget setup_report ''installer_silently_approves_permissions''))
              ''the setup doctor silently approves permission requests''
          @ remark granting ''a check of the setup doctor grants authority'')
         [(u ''config_path'', JStr (path_text config_path)), (u ''audit_dir'', JStr (path_text audit_dir)),
          (u ''config_created'', JBool config_exists), (u ''audit_dir_writable'', JBool True),
          (u ''setup_doctor_status'', dget setup_report ''status''),
          (u ''installer_grants_authority'', JBool False),
          (u ''installer_silently_approves_permissions'', JBool False)]))"

text \<open>
  The state is the text of the configuration file, \<open>None\<close> when there is none; an existing one is kept, and
  one that was written before an exception stays.
\<close>

definition first_run_smoke :: "host \<Rightarrow> ppath \<Rightarrow> ustr option \<Rightarrow> (exn + smoke_report) \<times> ustr option" where
  "first_run_smoke H app_root config =
     (let config_dir = sub_path app_root [''config'']; audit_dir = sub_path app_root [''audit''];
          config_path = sub_path config_dir [''gui_shell.json''];
          written = (case config of Some text \<Rightarrow> Some text
                     | None \<Rightarrow> Some (dumps_indent 2 (JObj (first_run_config audit_dir))))
      in if list_ex (\<lambda>d. host_mkdir_error H d \<noteq> None) [app_root, config_dir, audit_dir] then (Inl OSError, config)
         else if config = None \<and> host_write_error H config_dir \<noteq> None then (Inl OSError, config)
         else if host_write_error H audit_dir \<noteq> None then (Inl OSError, written)
         else (first_run_report (setup_doctor_report H) config_path audit_dir (written \<noteq> None), written))"

subsection \<open>Nothing is granted\<close>

lemma check_result_fields [simp]:
  "dget (check_result i s m r t c) ''grants_authority'' = JBool False"
  "dget (check_result i s m r t c) ''status'' = js s"
  "dget (check_result i s m r t c) ''can_continue'' = JBool c"
  by (simp_all add: check_result_def dget_def dget_or_def)

lemma checks_grant_nothing:
  "check \<in> set (setup_doctor_checks H) \<Longrightarrow> dget check ''grants_authority'' = JBool False"
  by (auto simp: setup_doctor_checks_def check_os_def check_arch_def check_tool_def check_path_def
      check_port_available_def check_public_bind_def check_filesystem_permission_def Let_def)

lemma any_grants_none:
  "(\<And>c. c \<in> set cs \<Longrightarrow> dget c ''grants_authority'' = JBool False) \<Longrightarrow> any_grants (map JObj cs) = Inr False"
  by (induction cs) (auto simp: is_false_def)

lemma any_grants_checks: "any_grants (map JObj (setup_doctor_checks H)) = Inr False"
  by (rule any_grants_none) (rule checks_grant_nothing)

lemma report_fields [simp]:
  "dget (setup_doctor_report H) ''installer_grants_authority'' = JBool False"
  "dget (setup_doctor_report H) ''installer_silently_approves_permissions'' = JBool False"
  "dget_or (setup_doctor_report H) ''checks'' v = JArr (map JObj (setup_doctor_checks H))"
  "checks_grant (setup_doctor_report H) = Inr False"
  by (simp_all add: setup_doctor_report_def checks_grant_def Let_def dget_def dget_or_def
      any_grants_checks)

lemma setup_status: "dget (setup_doctor_report H) ''status'' = js ''warning''"
proof -
  have "check_public_bind \<in> set (setup_doctor_checks H)" by (simp add: setup_doctor_checks_def)
  moreover have "dget check_public_bind ''status'' = js ''warning''" by (simp add: check_public_bind_def)
  ultimately have "\<not> list_all (\<lambda>check. dget check ''status'' = js ''pass'') (setup_doctor_checks H)"
    unfolding list_all_iff by (intro notI) (drule (1) bspec, simp)
  then show ?thesis by (simp add: setup_doctor_report_def Let_def dget_def dget_or_def)
qed

text \<open>
  The first run stops with an \<open>OSError\<close> exactly when a directory it needs cannot be made or a file it
  writes cannot be written. Otherwise it reports success without findings, with no authority granted and no
  permission approved, on every machine, and keeps a configuration that exists. The setup doctor it relies on
  never reports \<open>pass\<close>, whatever the machine: one of its checks is always a warning.
\<close>

theorem first_run_never_grants:
  "first_run_smoke H app_root config =
     (if list_ex (\<lambda>d. host_mkdir_error H d \<noteq> None)
           [app_root, sub_path app_root [''config''], sub_path app_root [''audit'']]
         \<or> list_ex (\<lambda>d. host_write_error H d \<noteq> None)
           ((if config = None then [sub_path app_root [''config'']] else []) @ [sub_path app_root [''audit'']])
      then (Inl OSError, snd (first_run_smoke H app_root config))
      else
        (Inr \<lparr>smoke_ok = True, smoke_errors = [], smoke_fields =
           [(u ''config_path'', JStr (path_text (sub_path app_root [''config'', ''gui_shell.json'']))),
            (u ''audit_dir'', JStr (path_text (sub_path app_root [''audit'']))),
            (u ''config_created'', JBool True), (u ''audit_dir_writable'', JBool True),
            (u ''setup_doctor_status'', js ''warning''), (u ''installer_grants_authority'', JBool False),
            (u ''installer_silently_approves_permissions'', JBool False)]\<rparr>,
         Some (case config of Some text \<Rightarrow> text
               | None \<Rightarrow> dumps_indent 2 (JObj (first_run_config (sub_path app_root [''audit'']))))))"
  by (auto simp: first_run_smoke_def Let_def first_run_report_def smoke_result_def is_false_def setup_status
      remark_def flag_def sub_path_def split: option.split)

end
