(* ===== verification/State_Snapshot.thy ===== *)
theory State_Snapshot
  imports Setup_Doctor Runtime_State
begin

text \<open>
  The snapshot of the runtime state (\<open>state_snapshot.py\<close>), its file (\<open>state_store.py\<close>) and the invariant
  probes it carries (\<open>invariant_evaluator.py\<close>), all of \<open>packages/shell_core\<close>. The probes read two parts of
  the source tree, the texts of the shell core and of the mobile app; they are the record \<open>source_tree\<close>,
  in the order \<open>sorted\<close> visits them, \<open>None\<close> for a directory that does not exist.
\<close>

subsection \<open>Invariant probes\<close>

record source_tree =
  shell_core_sources :: "(ustr list \<times> ustr) list option"
  mobile_sources :: "ustr list option"

definition shell_core_imports_forbidden :: "tables \<Rightarrow> source_tree \<Rightarrow> string \<Rightarrow> bool" where
  "shell_core_imports_forbidden T tree forbidden_module =
     (case shell_core_sources tree of
        None \<Rightarrow> True
      | Some files \<Rightarrow>
          list_ex (\<lambda>(parts, text).
            u ''__pycache__'' \<notin> set parts
            \<and> list_ex (\<lambda>line.
                let normalized = lower_case T (strip line)
                in starts_with (u ''import '' @ u forbidden_module) normalized
                   \<or> starts_with (u ''from '' @ u forbidden_module) normalized)
              (read_text_lines text))
          files)"

definition invariant_probe :: obj where
  "invariant_probe =
     [(u ''adapter_id'', js ''invariant_probe''), (u ''runtime_id'', js ''runtime_probe''),
      (u ''contract_version'', js ''1.0.0''), (u ''authority_strip'', JBool True),
      (u ''declared_capabilities'', JArr [js ''runtime.read'']),
      (u ''metadata'', JObj [(u ''Trust_Level'', js ''root''), (u ''permissionGrant'', js ''all''),
         (u ''safe_label'', js ''probe'')])]"

definition adapter_metadata_can_escalate_authority :: "tables \<Rightarrow> exn + bool" where
  "adapter_metadata_can_escalate_authority T =
     bindE (load_adapter (ucd.truncate T) invariant_probe) (\<lambda>r.
       Inr (\<not> py_eq (adp_metadata r) (JObj [(u ''safe_label'', js ''probe'')])
            \<or> effective_capabilities r \<noteq> [js ''runtime.read'']))"

definition non_authority_sources_can_grant_authority :: bool where
  "non_authority_sources_can_grant_authority = list_ex can_grant_authority_from_source NON_AUTHORITY_SOURCES"

definition exposure_probe :: obj where
  "exposure_probe =
     [(u ''content_visibility'', js ''redacted''), (u ''payload_hash'', JStr (u ''sha256:'' @ replicate 64 49)),
      (u ''summary'', js ''summary''), (u ''redacted_payload'', JObj [(u ''path'', js ''notes/today.md'')]),
      (u ''full_payload'', JObj [(u ''path'', js ''notes/today.md''), (u ''content'', js ''secret'')])]"

text \<open>\<open>"full_payload" in projected\<close>: the projection is a dictionary, of content or of an error.\<close>

fun projects_full_payload :: "string list \<Rightarrow> exn + bool" where
  "projects_full_payload [] = Inr False"
| "projects_full_payload (visibility # rest) =
     bindE (project_approval_content (dset exposure_probe ''content_visibility'' (js visibility))) (\<lambda>projected.
       if (case projected of Content d \<Rightarrow> dhas d ''full_payload'' | Violation _ \<Rightarrow> False) then Inr True
       else projects_full_payload rest)"

definition full_payload_projected_without_full_visibility :: "exn + bool" where
  "full_payload_projected_without_full_visibility =
     projects_full_payload [''none'', ''hash_only'', ''summary'', ''redacted'']"

definition installer_setup_state_can_grant_authority :: "host \<Rightarrow> exn + bool" where
  "installer_setup_state_can_grant_authority H =
     (let report = setup_doctor_report H in
      if \<not> is_false (dget report ''installer_grants_authority'') then Inr True
      else if \<not> is_false (dget report ''installer_silently_approves_permissions'') then Inr True
      else checks_grant report)"

definition mobile_device_state_can_grant_authority :: "tables \<Rightarrow> source_tree \<Rightarrow> bool" where
  "mobile_device_state_can_grant_authority T tree =
     (case mobile_sources tree of
        None \<Rightarrow> False
      | Some texts \<Rightarrow>
          let combined = join [10] (map (\<lambda>text. lower_case T (universal_newlines text)) texts)
          in list_ex (\<lambda>pattern. substring (u pattern) combined)
               [''independent authority: true'', ''silently pair'', ''adapter_can_approve: true'',
                ''metadata_trusted: true''])"

definition invariant_flags :: "tables \<Rightarrow> host \<Rightarrow> source_tree \<Rightarrow> exn + obj" where
  "invariant_flags T H tree =
     bindE (adapter_metadata_can_escalate_authority T) (\<lambda>escalate.
     bindE full_payload_projected_without_full_visibility (\<lambda>projected.
     bindE (installer_setup_state_can_grant_authority H) (\<lambda>setup_grants.
       Inr [(u ''flutter_imported_by_shell_core'', JBool (shell_core_imports_forbidden T tree ''flutter'')),
            (u ''blue_tanuki_imported_by_shell_core'', JBool (shell_core_imports_forbidden T tree ''blue_tanuki'')),
            (u ''adapter_metadata_can_escalate_authority'', JBool escalate),
            (u ''memory_cache_previous_state_can_grant_authority'', JBool non_authority_sources_can_grant_authority),
            (u ''full_payload_projected_without_full_visibility'', JBool projected),
            (u ''installer_setup_state_can_grant_authority'', JBool setup_grants),
            (u ''mobile_device_state_can_grant_authority'', JBool (mobile_device_state_can_grant_authority T tree))])))"

subsection \<open>The snapshot\<close>

text \<open>
  \<open>sorted(values, key=lambda item: values[item].get(key_name, item))\<close>. Texts are compared; a mixture of
  types raises. Ids that are numbers or lists, which no schema admits, count as a type violation.
\<close>

definition sort_text :: "string \<Rightarrow> ustr \<times> obj \<Rightarrow> ustr" where
  "sort_text key_name item = (case dget_or (snd item) key_name (JStr (fst item)) of JStr s \<Rightarrow> s | _ \<Rightarrow> [])"

definition sorted_values :: "store \<Rightarrow> string \<Rightarrow> exn + obj list" where
  "sorted_values values key_name =
     (let keys = map (\<lambda>(k, r). dget_or r key_name (JStr k)) values
      in if length values \<le> 1 then Inr (map snd values)
         else if list_all is_str keys then Inr (map snd (sort_key (sort_text key_name) values))
         else if list_ex is_str keys then Inl TypeError
         else Inl TypeViolation)"

definition audit_summary :: "obj list \<Rightarrow> exn + obj" where
  "audit_summary events =
     bindE (mapE (\<lambda>event. ditem event ''event_id'') events) (\<lambda>ids.
       Inr [(u ''event_count'', JInt (int (length events))), (u ''event_ids'', JArr ids),
            (u ''latest_event_hash'', if events = [] then JNull else dget (last events) ''event_hash'')])"

definition recovery_summary :: "obj list \<Rightarrow> exn + obj" where
  "recovery_summary actions =
     bindE (mapE (\<lambda>action. ditem action ''recovery_id'') actions) (\<lambda>ids.
       Inr [(u ''action_count'', JInt (int (length actions))), (u ''recovery_ids'', JArr ids)])"

definition update_summary :: "obj list \<Rightarrow> exn + obj" where
  "update_summary policies =
     bindE (mapE (\<lambda>policy. ditem policy ''policy_id'') policies) (\<lambda>ids.
       Inr [(u ''policy_count'', JInt (int (length policies))), (u ''policy_ids'', JArr ids),
            (u ''signature_required'', JBool (list_all (\<lambda>p. is_true (dget p ''signature_required'')) policies))])"

definition create_state_snapshot :: "tables \<Rightarrow> host \<Rightarrow> source_tree \<Rightarrow> runtime_state \<Rightarrow> exn + obj" where
  "create_state_snapshot T H tree S =
     bindE (sorted_values (audit_events S) ''event_id'') (\<lambda>events.
     bindE (sorted_values (recovery_actions S) ''recovery_id'') (\<lambda>actions.
     bindE (sorted_values (update_policies S) ''policy_id'') (\<lambda>policies.
     bindE (sorted_values (runtimes S) ''runtime_id'') (\<lambda>rs.
     bindE (sorted_values (adapters S) ''adapter_id'') (\<lambda>as.
     bindE (sorted_values (permissions S) ''permission_id'') (\<lambda>ps.
     bindE (pending_approvals S) (\<lambda>pending.
     bindE (audit_summary events) (\<lambda>audit.
     bindE (recovery_summary actions) (\<lambda>recovery.
     bindE (update_summary policies) (\<lambda>update.
     bindE (invariant_flags T H tree) (\<lambda>flags.
       Inr [(u ''runtimes'', JArr (map JObj rs)), (u ''adapters'', JArr (map JObj as)),
            (u ''permissions'', JArr (map JObj ps)), (u ''pending_approvals'', JArr (map JObj pending)),
            (u ''audit_summary'', JObj audit), (u ''recovery_catalog_summary'', JObj recovery),
            (u ''update_policy_summary'', JObj update), (u ''invariant_flags'', JObj flags)])))))))))))"

definition deterministic_snapshot_json :: "tables \<Rightarrow> host \<Rightarrow> source_tree \<Rightarrow> runtime_state \<Rightarrow> exn + ustr" where
  "deterministic_snapshot_json T H tree S =
     bindE (create_state_snapshot T H tree S) (\<lambda>snapshot. Inr (dumps (JObj snapshot)))"

subsection \<open>The snapshot file\<close>

definition save_snapshot :: "tables \<Rightarrow> host \<Rightarrow> source_tree \<Rightarrow> runtime_state \<Rightarrow> obj io" where
  "save_snapshot T H tree S =
     bindIO (liftIO (create_state_snapshot T H tree S)) (\<lambda>snapshot fs.
       (Inr snapshot, fs\<lparr>snapshot_file := Some (dumps_indent 2 (JObj snapshot))\<rparr>))"

definition load_snapshot :: "json io" where
  "load_snapshot fs =
     (case snapshot_file fs of
        None \<Rightarrow> (Inl OSError, fs)
      | Some text \<Rightarrow> (py_loads (universal_newlines text), fs))"

subsection \<open>The probes never fire\<close>

lemma probe_keys:
  assumes "ucd_ok U"
  shows "canonical_authority_key U (u ''Trust_Level'') = Some (u ''trust_level'')"
    "canonical_authority_key U (u ''permissionGrant'') = Some (u ''permission_grant'')"
    "canonical_authority_key U (u ''safe_label'') = None"
    "normalize_key U (u ''safe_label'') = u ''safe_label''" "normalize_key U (u ''probe'') = u ''probe''"
  using assms
  by (simp_all add: canonical_authority_key_def normalize_key_ascii ascii_def AUTHORITY_KEYS_def
      AUTHORITY_KEY_ALIASES_def strip_def strip_where_def is_space_def zero_width_def low_or_digit_def
      upper_letter_def ascii_lower_def space_or_hyphen_def underscore_def u_def)

lemma no_escalation:
  assumes "tables_ok T"
  shows "adapter_metadata_can_escalate_authority T = Inr False"
proof -
  have U: "ucd_ok (ucd.truncate T)" using assms by (simp add: tables_ok_def)
  have "strip_authority_keys (ucd.truncate T)
      (JObj [(u ''Trust_Level'', js ''root''), (u ''permissionGrant'', js ''all''), (u ''safe_label'', js ''probe'')])
    = JObj [(u ''safe_label'', js ''probe'')]"
    by (simp add: probe_keys [OF U] dict_of_def)
  moreover have "authority_values_in (ucd.truncate T) [] (JObj [(u ''safe_label'', js ''probe'')]) = []"
    by (simp add: probe_keys [OF U] AUTHORITY_VALUES_def)
  ultimately show ?thesis
    by (simp add: adapter_metadata_can_escalate_authority_def load_adapter_def invariant_probe_def ditem_def
        dget_def dget_or_def is_true_def effective_capabilities_def)
qed

lemma no_grant_from_source: "\<not> non_authority_sources_can_grant_authority"
  by (simp add: non_authority_sources_can_grant_authority_def can_grant_authority_from_source_def
      NON_AUTHORITY_SOURCES_def AUTHORITY_SOURCES_def)

lemma no_full_payload: "full_payload_projected_without_full_visibility = Inr False"
  by (simp add: full_payload_projected_without_full_visibility_def project_approval_content_def
      exposure_probe_def dset_def dget_def dget_or_def ditem_def dhas_def)

lemma no_setup_grant: "installer_setup_state_can_grant_authority H = Inr False"
  by (simp add: installer_setup_state_can_grant_authority_def Let_def is_false_def)

definition clean_flags :: "tables \<Rightarrow> source_tree \<Rightarrow> obj" where
  "clean_flags T tree =
     [(u ''flutter_imported_by_shell_core'', JBool (shell_core_imports_forbidden T tree ''flutter'')),
      (u ''blue_tanuki_imported_by_shell_core'', JBool (shell_core_imports_forbidden T tree ''blue_tanuki'')),
      (u ''adapter_metadata_can_escalate_authority'', JBool False),
      (u ''memory_cache_previous_state_can_grant_authority'', JBool False),
      (u ''full_payload_projected_without_full_visibility'', JBool False),
      (u ''installer_setup_state_can_grant_authority'', JBool False),
      (u ''mobile_device_state_can_grant_authority'', JBool (mobile_device_state_can_grant_authority T tree))]"

lemma invariant_flags_clean: "tables_ok T \<Longrightarrow> invariant_flags T H tree = Inr (clean_flags T tree)"
  by (simp add: invariant_flags_def clean_flags_def no_escalation no_grant_from_source no_full_payload no_setup_grant)

subsection \<open>The snapshot of a consistent state\<close>

lemma insort_key_agree:
  "f x = g x \<Longrightarrow> (\<And>y. y \<in> set xs \<Longrightarrow> f y = g y) \<Longrightarrow> insort_key f x xs = insort_key g x xs"
  by (induction xs) auto

lemma sort_key_agree: "(\<And>y. y \<in> set xs \<Longrightarrow> f y = g y) \<Longrightarrow> sort_key f xs = sort_key g xs"
proof (induction xs)
  case (Cons x xs)
  then show ?case using insort_key_agree [of f x g "sort_key g xs"] by simp
qed simp

lemma sorted_values_keyed:
  assumes "keyed_by key_name s"
  shows "sorted_values s key_name = Inr (sorted_records s)"
proof -
  have texts: "list_all is_str (map (\<lambda>(k, r). dget_or r key_name (JStr k)) s)"
    using assms by (auto simp: keyed_by_def list_all_iff dhas_def dget_def dget_or_def)
  have by_id: "sort_text key_name p = fst p" if "p \<in> set s" for p
    using assms that by (cases p) (auto simp: sort_text_def keyed_by_def list_all_iff dhas_def dget_def dget_or_def)
  then have "sort_key (sort_text key_name) s = sort_key fst s"
    by (rule sort_key_agree)
  moreover have "map snd s = sorted_records s" if "length s \<le> 1"
    using that by (cases s) (auto simp: sorted_records_def)
  ultimately show ?thesis
    by (auto simp: sorted_values_def texts Let_def sorted_records_def simp del: One_nat_def)
qed

lemma ids_total:
  "keyed_by field s \<Longrightarrow> mapE (\<lambda>r. ditem r field) (sorted_records s) = Inr (map (\<lambda>r. dget r field) (sorted_records s))"
  by (rule mapE_total) (auto simp: keyed_by_def list_all_iff sorted_records_def ditem_dhas)

definition snapshot_of :: "runtime_state \<Rightarrow> obj \<Rightarrow> obj" where
  "snapshot_of S flags =
     (let events = sorted_records (audit_events S); actions = sorted_records (recovery_actions S);
          policies = sorted_records (update_policies S);
          pending = filter (\<lambda>a. dget a ''status'' \<in> {js ''pending'', js ''requires_validation''})
            (sorted_records (approvals S))
      in [(u ''runtimes'', JArr (map JObj (sorted_records (runtimes S)))),
          (u ''adapters'', JArr (map JObj (sorted_records (adapters S)))),
          (u ''permissions'', JArr (map JObj (sorted_records (permissions S)))),
          (u ''pending_approvals'', JArr (map JObj pending)),
          (u ''audit_summary'', JObj
            [(u ''event_count'', JInt (int (length events))),
             (u ''event_ids'', JArr (map (\<lambda>r. dget r ''event_id'') events)),
             (u ''latest_event_hash'', if events = [] then JNull else dget (last events) ''event_hash'')]),
          (u ''recovery_catalog_summary'', JObj
            [(u ''action_count'', JInt (int (length actions))),
             (u ''recovery_ids'', JArr (map (\<lambda>r. dget r ''recovery_id'') actions))]),
          (u ''update_policy_summary'', JObj
            [(u ''policy_count'', JInt (int (length policies))),
             (u ''policy_ids'', JArr (map (\<lambda>r. dget r ''policy_id'') policies)),
             (u ''signature_required'',
               JBool (list_all (\<lambda>p. is_true (dget p ''signature_required'')) policies))]),
          (u ''invariant_flags'', JObj flags)])"

lemma state_ok_keyed:
  assumes "state_ok U S"
  shows "keyed_by ''runtime_id'' (runtimes S)" "keyed_by ''adapter_id'' (adapters S)"
    "keyed_by ''permission_id'' (permissions S)" "keyed_by ''approval_id'' (approvals S)"
    "keyed_by ''event_id'' (audit_events S)" "keyed_by ''recovery_id'' (recovery_actions S)"
    "keyed_by ''policy_id'' (update_policies S)"
    "accepted_store ''approval_id'' approval_schema (approvals S)"
  using assms by (simp_all add: state_ok_def accepted_store_def adapters_safe_def)

lemma create_snapshot_eq:
  assumes "state_ok U S"
  shows "create_state_snapshot T H tree S = bindE (invariant_flags T H tree) (\<lambda>flags. Inr (snapshot_of S flags))"
  unfolding create_state_snapshot_def
  by (simp add: sorted_values_keyed state_ok_keyed [OF assms] pending_approvals_eq
      audit_summary_def recovery_summary_def update_summary_def ids_total snapshot_of_def Let_def)

definition state_wf :: "runtime_state \<Rightarrow> bool" where
  "state_wf S \<longleftrightarrow>
     list_all (\<lambda>(k, r). wf_json (JObj r))
       (runtimes S @ adapters S @ permissions S @ approvals S @ audit_events S @ recovery_actions S
        @ update_policies S)"

lemma wf_sorted_records:
  "list_all (\<lambda>(k, r). wf_json (JObj r)) s \<Longrightarrow> r \<in> set (sorted_records s) \<Longrightarrow> wf_json (JObj r)"
  by (auto simp: sorted_records_def list_all_iff simp del: wf_json.simps)

lemma wf_snapshot:
  assumes "state_wf S" and "wf_json (JObj flags)"
  shows "wf_json (JObj (snapshot_of S flags))"
proof -
  have stores: "list_all (\<lambda>(k, r). wf_json (JObj r)) s"
    if "s \<in> {runtimes S, adapters S, permissions S, approvals S, audit_events S, recovery_actions S, update_policies S}"
    for s using assms(1) that by (auto simp: state_wf_def)
  have records: "wf_json (JArr (map JObj (filter P (sorted_records s))))"
    and ids: "wf_json (JArr (map (\<lambda>r. dget r field) (sorted_records s)))"
    if "s \<in> {runtimes S, adapters S, permissions S, approvals S, audit_events S, recovery_actions S, update_policies S}"
    for s field P
    using wf_sorted_records [OF stores [OF that]] by (auto simp: list_all_iff wf_json_dget simp del: wf_json.simps(3))
  have "wf_json (dget (last (sorted_records (audit_events S))) ''event_hash'')"
    if "sorted_records (audit_events S) \<noteq> []"
    using wf_sorted_records [OF stores, of "audit_events S"] that by (simp add: wf_json_dget del: wf_json.simps)
  then show ?thesis
    using records [where P = "\<lambda>r. True"] records ids assms(2)
    by (simp add: snapshot_of_def Let_def list_all_scalar_u del: wf_json.simps(2))
qed

subsection \<open>Properties\<close>

lemma load_saved:
  assumes "wf_json (JObj snapshot)" and "snapshot_file fs = Some (dumps_indent 2 (JObj snapshot))"
  shows "load_snapshot fs = (Inr (sort_keys (JObj snapshot)), fs)"
  using assms no_cr_dumps_indent [of 2 "JObj snapshot"]
  by (simp add: load_snapshot_def universal_newlines_id py_loads_dumps_indent del: sort_keys.simps wf_json.simps)

text \<open>
  C25. A saved snapshot loads back: on every consistent state of well-formed records, saving returns a
  snapshot and writes only the snapshot file, and loading that file returns a value equal to it.
\<close>

theorem snapshot_round_trip:
  assumes "tables_ok T" and "state_ok U S" and "state_wf S"
  shows "\<exists>snapshot loaded. save_snapshot T H tree S fs =
      (Inr snapshot, fs\<lparr>snapshot_file := Some (dumps_indent 2 (JObj snapshot))\<rparr>)
    \<and> load_snapshot (snd (save_snapshot T H tree S fs)) = (Inr loaded, snd (save_snapshot T H tree S fs))
    \<and> py_eq loaded (JObj snapshot)"
proof -
  let ?snapshot = "snapshot_of S (clean_flags T tree)"
  have save: "save_snapshot T H tree S fs =
      (Inr ?snapshot, fs\<lparr>snapshot_file := Some (dumps_indent 2 (JObj ?snapshot))\<rparr>)"
    using assms by (simp add: save_snapshot_def create_snapshot_eq invariant_flags_clean bindIO_def liftIO_def)
  have "wf_json (JObj (clean_flags T tree))"
    by (simp add: clean_flags_def)
  from load_saved [OF wf_snapshot [OF assms(3) this]]
  have "load_snapshot (snd (save_snapshot T H tree S fs)) = (Inr (sort_keys (JObj ?snapshot)), snd (save_snapshot T H tree S fs))"
    by (simp add: save)
  moreover have "py_eq (sort_keys (JObj ?snapshot)) (JObj ?snapshot)"
    by (simp add: py_eq_def sort_keys_idem del: sort_keys.simps)
  ultimately show ?thesis using save by blast
qed

text \<open>
  The snapshot text is deterministic: two consistent states whose stores are equal as dictionaries
  give the same text, in whatever order their records were inserted.
\<close>

theorem snapshot_deterministic:
  assumes "state_ok U S" and "state_ok U S'"
    and "map_of (runtimes S) = map_of (runtimes S')" and "map_of (adapters S) = map_of (adapters S')"
    and "map_of (permissions S) = map_of (permissions S')" and "map_of (approvals S) = map_of (approvals S')"
    and "map_of (audit_events S) = map_of (audit_events S')"
    and "map_of (recovery_actions S) = map_of (recovery_actions S')"
    and "map_of (update_policies S) = map_of (update_policies S')"
  shows "deterministic_snapshot_json T H tree S = deterministic_snapshot_json T H tree S'"
proof -
  have same: "sorted_records s = sorted_records s'"
    if "keyed_by f s" "keyed_by f s'" "map_of s = map_of s'" for f s s'
    using that sort_key_fst_map_of_eq [of s s'] by (simp add: sorted_records_def keyed_by_def)
  have "snapshot_of S flags = snapshot_of S' flags" for flags
    unfolding snapshot_of_def
    using state_ok_keyed [OF assms(1)] state_ok_keyed [OF assms(2)] assms(3-)
    by (simp add: same [of _ "runtimes S" "runtimes S'"] same [of _ "adapters S" "adapters S'"]
        same [of _ "permissions S" "permissions S'"] same [of _ "approvals S" "approvals S'"]
        same [of _ "audit_events S" "audit_events S'"] same [of _ "recovery_actions S" "recovery_actions S'"]
        same [of _ "update_policies S" "update_policies S'"])
  then show ?thesis
    by (simp add: deterministic_snapshot_json_def create_snapshot_eq [OF assms(1)] create_snapshot_eq [OF assms(2)])
qed

lemma no_event_hash:
  assumes "accepted_store ''event_id'' audit_schema s" and "r \<in> set (sorted_records s)"
  shows "dget r ''event_hash'' = JNull"
proof -
  from assms have a: "accepts audit_schema (JObj r)"
    by (auto simp: accepted_store_def sorted_records_def list_all_iff)
  have "fst ` set r \<subseteq> fst ` set [(u ''event_id'', JNull), (u ''timestamp'', JNull), (u ''actor'', JNull),
      (u ''action'', JNull), (u ''target'', JNull), (u ''result'', JNull), (u ''payload_hash'', JNull),
      (u ''previous_event_hash'', JNull), (u ''metadata'', JNull)]"
    using accepts_no_additional [OF a [unfolded audit_schema_def]]
    by (simp add: dget_or_def)
  then have "u ''event_hash'' \<notin> fst ` set r" by auto
  then show ?thesis by (intro dget_not_dhas) (simp add: dhas_def map_of_eq_None_iff)
qed

text \<open>
  The snapshot counts the stored events and lists their ids in increasing order, but its
  \<open>latest_event_hash\<close> is null on every consistent state, however many events were recorded: the audit
  schema admits no \<open>event_hash\<close>, so no stored event has one.
\<close>

theorem snapshot_never_reports_hash:
  assumes "tables_ok T" and "state_ok U S"
  shows "\<exists>snapshot summary ids. create_state_snapshot T H tree S = Inr snapshot
    \<and> dget snapshot ''audit_summary'' = JObj summary
    \<and> dget summary ''event_count'' = JInt (int (length (audit_events S)))
    \<and> dget summary ''event_ids'' = JArr (map JStr ids) \<and> sorted ids \<and> set ids = fst ` set (audit_events S)
    \<and> dget summary ''latest_event_hash'' = JNull"
proof -
  let ?s = "sort_key fst (audit_events S)"
  have "accepted_store ''event_id'' audit_schema (audit_events S)" using assms(2) by (simp add: state_ok_def)
  then have none: "dget (last (sorted_records (audit_events S))) ''event_hash'' = JNull"
    if "sorted_records (audit_events S) \<noteq> []"
    using that by (intro no_event_hash) auto
  have ids: "map (\<lambda>r. dget r ''event_id'') (sorted_records (audit_events S)) = map JStr (map fst ?s)"
    using state_ok_keyed(5) [OF assms(2)] by (auto simp: sorted_records_def keyed_by_def list_all_iff)
  have create: "create_state_snapshot T H tree S = Inr (snapshot_of S (clean_flags T tree))"
    using assms(1) by (simp add: create_snapshot_eq [OF assms(2)] invariant_flags_clean)
  obtain summary where summary: "dget (snapshot_of S (clean_flags T tree)) ''audit_summary'' = JObj summary"
    "summary = [(u ''event_count'', JInt (int (length (sorted_records (audit_events S))))),
       (u ''event_ids'', JArr (map (\<lambda>r. dget r ''event_id'') (sorted_records (audit_events S)))),
       (u ''latest_event_hash'', if sorted_records (audit_events S) = [] then JNull
          else dget (last (sorted_records (audit_events S))) ''event_hash'')]"
    by (simp add: snapshot_of_def Let_def dget_def dget_or_def)
  have "dget summary ''event_count'' = JInt (int (length (audit_events S)))"
    "dget summary ''latest_event_hash'' = JNull" "dget summary ''event_ids'' = JArr (map JStr (map fst ?s))"
    using none by (simp_all add: summary(2) ids dget_def [of "_ # _"] dget_or_def [of "_ # _"])
      (simp_all add: sorted_records_def)
  moreover have "sorted (map fst ?s)" "set (map fst ?s) = fst ` set (audit_events S)" by simp_all
  ultimately show ?thesis using create summary(1) by blast
qed

subsection \<open>Instances\<close>

definition sample_host :: host where
  "sample_host =
     \<lparr>host_root = path_of (u ''/repo''), host_system = u ''Linux'', host_platform = u ''Linux'',
      host_machine = u ''x86_64'', host_processor = [], host_which = (\<lambda>_. None), host_exists = (\<lambda>_. True),
      host_connect = (\<lambda>_. 111), host_environ = (\<lambda>_. None), host_mkdir_error = (\<lambda>_. None),
      host_write_error = (\<lambda>_. None)\<rparr>"

definition sample_tree :: source_tree where
  "sample_tree = \<lparr>shell_core_sources = Some [], mobile_sources = None\<rparr>"

definition one_event :: runtime_state where
  "one_event = RuntimeState_init\<lparr>audit_events := [(u ''e'', sample_event)]\<rparr>"

lemma one_event_ok: "state_ok ascii_ucd one_event"
proof -
  have "append_audit_event repo_specs RuntimeState_init sample_event = Inr one_event"
    by (simp add: state_ops_Inr samples_accepted RuntimeState_init_def one_event_def)
      (simp add: sample_event_def dhas_def dget_def dget_or_def)
  from state_ok_run [OF run_one [OF step_audit [OF this]] state_ok_init] show ?thesis .
qed

lemma one_event_wf: "state_wf one_event"
  by (simp add: state_wf_def one_event_def RuntimeState_init_def sample_event_def canonical_hash_scalar)

theorem snapshot_round_trip_witness:
  "\<exists>loaded. load_snapshot (snd (save_snapshot ascii_tables sample_host sample_tree one_event no_files))
     = (Inr loaded, snd (save_snapshot ascii_tables sample_host sample_tree one_event no_files))"
  using snapshot_round_trip [OF tables_ok_ascii one_event_ok one_event_wf, of sample_host sample_tree no_files] by blast

definition other_policy :: obj where
  "other_policy = [(u ''policy_id'', js ''q''), (u ''channel'', js ''stable''),
     (u ''auto_update'', JBool False), (u ''signature_required'', JBool True)]"

lemma policies_registered:
  "register_update_policy repo_specs S sample_policy
     = Inr (S\<lparr>update_policies := AList.update (u ''p'') sample_policy (update_policies S)\<rparr>)"
  "register_update_policy repo_specs S other_policy
     = Inr (S\<lparr>update_policies := AList.update (u ''q'') other_policy (update_policies S)\<rparr>)"
proof -
  have "validate_contract repo_specs other_policy ''update.schema.json'' = Inr ()"
    by (simp add: schema_eval other_policy_def update_schema_def cong: u_cong)
  then show "register_update_policy repo_specs S other_policy
     = Inr (S\<lparr>update_policies := AList.update (u ''q'') other_policy (update_policies S)\<rparr>)"
    by (simp add: state_ops_Inr store_put_eq_Inr) (simp add: other_policy_def dhas_def dget_def dget_or_def)
  show "register_update_policy repo_specs S sample_policy
     = Inr (S\<lparr>update_policies := AList.update (u ''p'') sample_policy (update_policies S)\<rparr>)"
    by (simp add: state_ops_Inr samples_accepted store_put_eq_Inr)
      (simp add: sample_policy_def dhas_def dget_def dget_or_def)
qed

definition policies_state :: "store \<Rightarrow> runtime_state" where
  "policies_state s = RuntimeState_init\<lparr>update_policies := s\<rparr>"

lemma policies_state_ok:
  "state_ok ascii_ucd (policies_state [(u ''p'', sample_policy), (u ''q'', other_policy)])"
  "state_ok ascii_ucd (policies_state [(u ''q'', other_policy), (u ''p'', sample_policy)])"
proof -
  have step: "state_ok ascii_ucd (policies_state s) \<Longrightarrow> state_ok ascii_ucd (policies_state (AList.update (u ''p'') sample_policy s))"
    "state_ok ascii_ucd (policies_state s) \<Longrightarrow> state_ok ascii_ucd (policies_state (AList.update (u ''q'') other_policy s))" for s
    using state_ok_step [OF step_update [OF policies_registered(1) [of "policies_state s"]]]
      state_ok_step [OF step_update [OF policies_registered(2) [of "policies_state s"]]]
    by (simp_all add: policies_state_def)
  have "state_ok ascii_ucd (policies_state [])"
    using state_ok_init by (simp add: policies_state_def RuntimeState_init_def)
  from step(2) [OF step(1) [OF this]] step(1) [OF step(2) [OF this]]
  show "state_ok ascii_ucd (policies_state [(u ''p'', sample_policy), (u ''q'', other_policy)])"
    "state_ok ascii_ucd (policies_state [(u ''q'', other_policy), (u ''p'', sample_policy)])" by simp_all
qed

theorem snapshot_deterministic_witness:
  "deterministic_snapshot_json ascii_tables sample_host sample_tree
       (policies_state [(u ''p'', sample_policy), (u ''q'', other_policy)])
     = deterministic_snapshot_json ascii_tables sample_host sample_tree
       (policies_state [(u ''q'', other_policy), (u ''p'', sample_policy)])"
  by (rule snapshot_deterministic [of ascii_ucd]) (auto simp: policies_state_ok, auto simp: policies_state_def)

theorem snapshot_never_reports_hash_witness:
  "\<exists>snapshot summary. create_state_snapshot ascii_tables sample_host sample_tree one_event = Inr snapshot
     \<and> dget snapshot ''audit_summary'' = JObj summary \<and> dget summary ''latest_event_hash'' = JNull
     \<and> dget summary ''event_count'' = JInt 1"
  using snapshot_never_reports_hash [OF tables_ok_ascii one_event_ok, of sample_host sample_tree]
  by (auto simp: one_event_def)

end
