(* ===== verification/Agent_Runtime.thy ===== *)
theory Agent_Runtime
  imports Py_Path
begin

text \<open>
  The contract of the agent runtime (\<open>packages/agent_runtime/contract.py\<close>): which paths an agent may
  touch and which of its calls need a permission. Resolving a path asks the file system, so every
  operation takes \<open>resolve\<close>; what is proved of them assumes only the locale \<open>resolver\<close>.
\<close>

definition SECRET_PATH_PARTS :: "ustr list" where
  "SECRET_PATH_PARTS = map u [''.env'', ''.ssh'', ''.gnupg'', ''secrets'']"

record agent_contract =
  agent_workspace :: obj
  agent_root :: ppath
  agent_secret_paths :: "json list"
  agent_secrets :: "ppath list"

definition path_arg :: "json \<Rightarrow> exn + ppath" where
  "path_arg v = (case v of JStr s \<Rightarrow> Inr (path_of s) | _ \<Rightarrow> Inl TypeError)"

definition resolve_candidate :: "(ppath \<Rightarrow> exn + ppath) \<Rightarrow> ppath \<Rightarrow> ppath \<Rightarrow> exn + ppath" where
  "resolve_candidate resolve root candidate =
     resolve (if \<not> is_absolute candidate then path_join root candidate else candidate)"

definition AgentRuntimeContract_init :: "(ppath \<Rightarrow> exn + ppath) \<Rightarrow> obj \<Rightarrow> exn + agent_contract" where
  "AgentRuntimeContract_init resolve workspace =
     bindE (ditem workspace ''root_path'') (\<lambda>v.
     bindE (path_arg v) (\<lambda>p.
     bindE (resolve p) (\<lambda>root.
     bindE (iter_values (dget_or workspace ''secret_paths'' (JArr []))) (\<lambda>secrets.
     bindE (mapE (\<lambda>s. bindE (path_arg s) (resolve_candidate resolve root)) secrets) (\<lambda>resolved.
       Inr \<lparr>agent_workspace = workspace, agent_root = root, agent_secret_paths = secrets,
            agent_secrets = resolved\<rparr>)))))"

definition is_secret_path :: "(ppath \<Rightarrow> exn + ppath) \<Rightarrow> agent_contract \<Rightarrow> ppath \<Rightarrow> exn + bool" where
  "is_secret_path resolve A candidate =
     bindE (resolve_candidate resolve (agent_root A) candidate) (\<lambda>path.
       Inr (list_ex (\<lambda>part. part \<in> set SECRET_PATH_PARTS) (path_parts path)
            \<or> list_ex (\<lambda>secret. path = secret \<or> is_parent secret path) (agent_secrets A)))"

definition path_allowed :: "(ppath \<Rightarrow> exn + ppath) \<Rightarrow> agent_contract \<Rightarrow> json \<Rightarrow> exn + bool" where
  "path_allowed resolve A candidate =
     bindE (path_arg candidate) (\<lambda>p.
     bindE (resolve_candidate resolve (agent_root A) p) (\<lambda>path.
       case relative_to path (agent_root A) of
         None \<Rightarrow> Inr False
       | Some _ \<Rightarrow> bindE (is_secret_path resolve A path) (\<lambda>secret. Inr (\<not> secret))))"

definition shell_command_requires_permission :: "obj \<Rightarrow> bool" where
  "shell_command_requires_permission tool_call \<longleftrightarrow>
     dget tool_call ''tool_name'' = js ''shell.command'' \<and> truthy (dget tool_call ''permission_id'')"

definition git_push_requires_explicit_approval :: "obj \<Rightarrow> bool" where
  "git_push_requires_explicit_approval tool_call \<longleftrightarrow>
     (if dget tool_call ''tool_name'' \<noteq> js ''git.push'' then True
      else is_true (dget tool_call ''approval_required'') \<and> truthy (dget tool_call ''permission_id''))"

definition diff_is_auditable :: "obj \<Rightarrow> bool" where
  "diff_is_auditable diff \<longleftrightarrow> truthy (dget diff ''audit_event_id'') \<and> truthy (dget diff ''payload_hash'')"

definition auto_permission_is_advisory_only :: "obj \<Rightarrow> exn + bool" where
  "auto_permission_is_advisory_only runtime =
     in_strings (dget runtime ''auto_permission_mode'') [''disabled'', ''advisory_only'']"

definition state_change_has_rollback :: "obj \<Rightarrow> bool" where
  "state_change_has_rollback rec \<longleftrightarrow> truthy (dget rec ''rollback_candidate_id'')"

subsection \<open>What an allowed path is\<close>

context resolver
begin

lemma init_secrets_resolved:
  assumes "AgentRuntimeContract_init resolve w = Inr A"
  shows "resolve (agent_root A) = Inr (agent_root A)"
    "s \<in> set (agent_secrets A) \<Longrightarrow> resolve s = Inr s"
proof -
  have "\<forall>s \<in> set rs. resolve s = Inr s"
    if "mapE (\<lambda>s. bindE (path_arg s) (resolve_candidate resolve root)) secrets = Inr rs" for root secrets rs
    using that
    by (induction secrets arbitrary: rs) (auto simp: res_simps resolve_candidate_def dest: resolve_again)
  with assms show "s \<in> set (agent_secrets A) \<Longrightarrow> resolve s = Inr s"
    by (auto simp: AgentRuntimeContract_init_def res_simps)
  show "resolve (agent_root A) = Inr (agent_root A)"
    using assms by (auto simp: AgentRuntimeContract_init_def res_simps dest: resolve_again)
qed

text \<open>The two resolutions of \<open>path_allowed\<close> are one.\<close>

lemma is_secret_resolved:
  assumes "resolve p = Inr q"
  shows "is_secret_path resolve A q =
    Inr (list_ex (\<lambda>part. part \<in> set SECRET_PATH_PARTS) (path_parts q) \<or> list_ex (\<lambda>s. below q s) (agent_secrets A))"
  using resolved_absolute [OF assms] resolve_again [OF assms]
  by (simp add: is_secret_path_def resolve_candidate_def below_parent)

lemma path_allowed_exact:
  assumes "resolve_candidate resolve (agent_root A) (path_of s) = Inr q"
  shows "path_allowed resolve A (JStr s) =
    Inr (below q (agent_root A) \<and> \<not> list_ex (\<lambda>part. part \<in> set SECRET_PATH_PARTS) (path_parts q)
         \<and> \<not> list_ex (\<lambda>s. below q s) (agent_secrets A))"
proof (cases "relative_to q (agent_root A)")
  case None
  then have "\<not> below q (agent_root A)" using relative_to_below [of q "agent_root A"] by simp
  with None assms show ?thesis by (simp add: path_allowed_def path_arg_def)
next
  case (Some r)
  then have "below q (agent_root A)" using relative_to_below [of q "agent_root A"] by simp
  with Some assms is_secret_resolved [OF assms [unfolded resolve_candidate_def]] show ?thesis
    by (simp add: path_allowed_def path_arg_def)
qed

text \<open>A file below a path that is refused as secret is refused as well.\<close>

lemma secret_downward:
  assumes "resolve p = Inr q" and "resolve p' = Inr q'" and "below q' q"
    and "is_secret_path resolve A q = Inr True"
  shows "is_secret_path resolve A q' = Inr True"
proof -
  have "set (path_parts q) \<subseteq> set (path_parts q')"
    using assms(3) set_take_subset [of "length (path_names q)" "path_names q'"]
    by (auto simp: below_def path_parts_def)
  moreover have "below q' s" if "below q s" for s
    using below_trans [OF assms(3) that] .
  ultimately show ?thesis
    using assms(4) by (auto simp: list_ex_iff is_secret_resolved [OF assms(1)] is_secret_resolved [OF assms(2)])
qed

end

interpretation lexical: resolver "lexical_resolve (path_of (u ''/''))"
  by (rule lexical_resolver) (simp add: path_of_def u_def)

lemmas lexical_eval = lexical_resolve_def is_absolute_def path_of_def path_join_def root_of_def Let_def u_def

subsection \<open>Properties\<close>

text \<open>
  C14. An agent touches only its workspace: whatever text it names, with relative parts, \<open>..\<close> or symbolic
  links, the path is allowed exactly when the path it resolves to lies below the resolved root, has no secret
  name among its parts and lies below none of the secret paths of the workspace; that path has no \<open>..\<close> left.
  Only the documented behaviour of \<open>Path.resolve\<close> is assumed.
\<close>

theorem agent_path_allowed_exact:
  assumes "resolver resolve" and "AgentRuntimeContract_init resolve workspace = Inr A"
    and "resolve_candidate resolve (agent_root A) (path_of s) = Inr q"
  shows "path_allowed resolve A (JStr s) =
      Inr (below q (agent_root A) \<and> set (path_parts q) \<inter> set SECRET_PATH_PARTS = {}
           \<and> \<not> list_ex (below q) (agent_secrets A))
    \<and> u ''..'' \<notin> set (path_names q) \<and> is_absolute (agent_root A)"
proof -
  have "set (path_parts q) \<inter> set SECRET_PATH_PARTS = {}
      \<longleftrightarrow> \<not> list_ex (\<lambda>part. part \<in> set SECRET_PATH_PARTS) (path_parts q)"
    by (auto simp: list_ex_iff)
  then show ?thesis
    using resolver.path_allowed_exact [OF assms(1,3)] resolver.resolved_no_dots [OF assms(1)] assms(3)
      resolver.resolved_absolute [OF assms(1)] resolver.init_secrets_resolved(1) [OF assms(1,2)]
    by (auto simp: resolve_candidate_def)
qed

text \<open>The workspace of \<open>examples/contracts/agent_workspace.valid.json\<close>, on a machine without symbolic links.\<close>

definition example_workspace :: obj where
  "example_workspace =
     [(u ''workspace_id'', js ''workspace-1''), (u ''root_path'', js ''/workspace/project''),
      (u ''boundary_policy'', js ''deny_outside_workspace''),
      (u ''secret_paths'', JArr [js ''.env'', js ''.ssh'', js ''secrets/'']), (u ''outside_access_default'', js ''deny'')]"

abbreviation lexical :: "ppath \<Rightarrow> exn + ppath" where
  "lexical \<equiv> lexical_resolve (path_of (u ''/''))"

definition project_path :: "string list \<Rightarrow> ppath" where
  "project_path names = \<lparr>path_root = u ''/'', path_names = map u ([''workspace'', ''project''] @ names)\<rparr>"

definition example_contract :: agent_contract where
  "example_contract =
     \<lparr>agent_workspace = example_workspace, agent_root = project_path [],
      agent_secret_paths = [js ''.env'', js ''.ssh'', js ''secrets/''],
      agent_secrets = [project_path [''.env''], project_path [''.ssh''], project_path [''secrets'']]\<rparr>"

lemma example_contract_init: "AgentRuntimeContract_init lexical example_workspace = Inr example_contract"
  by (simp add: AgentRuntimeContract_init_def example_workspace_def ditem_def dget_or_def path_arg_def
      resolve_candidate_def lexical_eval example_contract_def project_path_def)

lemma example_resolved:
  "resolve_candidate lexical (project_path []) (path_of (u ''/workspace/project/src/main.py''))
     = Inr (project_path [''src'', ''main.py''])"
  "resolve_candidate lexical (project_path []) (path_of (u ''/workspace/project/.env'')) = Inr (project_path [''.env''])"
  "resolve_candidate lexical (project_path []) (path_of (u ''/outside/project/file.txt''))
     = Inr \<lparr>path_root = u ''/'', path_names = map u [''outside'', ''project'', ''file.txt'']\<rparr>"
  by (simp_all add: resolve_candidate_def lexical_eval project_path_def)

theorem agent_path_allowed_exact_witness:
  "path_allowed lexical example_contract (js ''/workspace/project/src/main.py'') = Inr True"
proof -
  have "agent_root example_contract = project_path []" by (simp add: example_contract_def)
  from agent_path_allowed_exact [OF lexical.resolver_axioms example_contract_init, unfolded this, OF example_resolved(1)]
  show ?thesis
    by (simp add: below_def project_path_def path_parts_def SECRET_PATH_PARTS_def example_contract_def)
qed

end
