(* ===== verification/Blue_Tanuki.thy ===== *)
theory Blue_Tanuki
  imports Reference_State
begin

text \<open>
  The reference adapter (\<open>packages/blue_tanuki_adapter\<close>): the records it exports and the approvals it
  normalises. What it hands to the shell core satisfies the contracts of the shell core, and it cannot
  approve on its own behalf.
\<close>

subsection \<open>Exports\<close>

definition health :: obj where
  "health =
     [(u ''runtime_id'', js ''blue_tanuki''), (u ''status'', js ''ready''),
      (u ''message'', JStr ([0x53C2, 0x7167] @ u '' runtime mock '' @ [0x306E] @ u '' health '' @ [0x306F, 0x6E96, 0x5099,
          0x6E08, 0x307F, 0x3067, 0x3059]))]"

definition ready :: obj where
  "ready =
     [(u ''runtime_id'', js ''blue_tanuki''), (u ''ready'', JBool True)]"

definition runtime_snapshot :: obj where
  "runtime_snapshot =
     [(u ''runtime_id'', js ''blue_tanuki''), (u ''name'', js ''BLUE-TANUKI''),
      (u ''kind'', js ''reference_runtime''), (u ''status'', js ''ready''),
      (u ''adapter_id'', js ''blue_tanuki_reference''), (u ''version'', js ''mock-contract''),
      (u ''endpoints'', JObj [(u ''health'', js ''/health''), (u ''ready'', js ''/ready''),
             (u ''runtime_snapshot'', js ''/runtime/snapshot''),
             (u ''authority_trace'', js ''/authority/trace''), (u ''notifications'', js ''/notifications''),
             (u ''approvals'', js ''/approvals''), (u ''audit_events'', js ''/audit/events''),
             (u ''diagnostics_export'', js ''/diagnostics/export''), (u ''recovery'', js ''/recovery'')]),
      (u ''capabilities'', JArr [js ''runtime.read'', js ''approval.review'', js ''audit.read'', js ''diagnostics.read'',
             js ''recovery.read'']),
      (u ''diagnostic_summary'', JStr (u ''mock adapter '' @ [0x5951, 0x7D04, 0x3092, 0x5229, 0x7528, 0x3067, 0x304D, 0x307E,
          0x3059]))]"

definition authority_trace :: obj where
  "authority_trace =
     [(u ''runtime_id'', js ''blue_tanuki''), (u ''adapter_id'', js ''blue_tanuki_reference''),
      (u ''metadata_trusted'', JBool False), (u ''adapter_can_grant_permission'', JBool False),
      (u ''adapter_can_approve'', JBool False), (u ''authority_source'', js ''shell_core'')]"

definition notifications :: "obj list" where
  "notifications =
     [[(u ''notification_id'', js ''blue-tanuki-runtime-ready''), (u ''runtime_id'', js ''blue_tanuki''),
       (u ''severity'', js ''info''),
       (u ''message'', JStr (u ''BLUE-TANUKI '' @ [0x53C2, 0x7167] @ u '' runtime mock '' @ [0x306F, 0x6E96, 0x5099,
           0x6E08, 0x307F, 0x3067, 0x3059, 0x3002]))]]"

definition adapter_audit_events :: "obj list" where
  "adapter_audit_events =
     [[(u ''event_id'', js ''blue-tanuki-adapter-audit-1''), (u ''timestamp'', js ''2026-05-25T00:00:00Z''),
       (u ''actor'', js ''adapter''), (u ''action'', js ''runtime.snapshot''),
       (u ''target'', js ''blue_tanuki''), (u ''result'', js ''success''),
       (u ''payload_hash'', JStr (u ''sha256:'' @ replicate 64 52)),
       (u ''previous_event_hash'', JNull),
       (u ''metadata'', JObj [(u ''adapter_id'', js ''blue_tanuki_reference'')])]]"

definition diagnostics_export :: obj where
  "diagnostics_export =
     [(u ''diagnostic_id'', js ''blue-tanuki-diagnostic-1''), (u ''runtime_id'', js ''blue_tanuki''),
      (u ''status'', js ''pass''),
      (u ''checks'', JArr [JObj [(u ''check_id'', js ''adapter_contract''), (u ''status'', js ''pass''),
                   (u ''message'', JStr (u ''mock adapter '' @ [0x5951, 0x7D04, 0x3092, 0x5229, 0x7528, 0x3067, 0x304D,
                       0x307E, 0x3059]))]])]"

definition recovery_candidate :: "string \<Rightarrow> obj" where
  "recovery_candidate recovery_class =
     [(u ''recovery_id'', JStr (u ''blue-tanuki-'' @ u recovery_class)), (u ''runtime_id'', js ''blue_tanuki''),
      (u ''operation'', js ''runtime.read''), (u ''class'', js recovery_class), (u ''severity'', js ''warning''),
      (u ''user_visible_message'',
        JStr (u ''BLUE-TANUKI runtime '' @ [0x306E, 0x63A5, 0x7D9A, 0x3092, 0x78BA, 0x8A8D, 0x3057,
          0x3001, 0x6E96, 0x5099, 0x5B8C, 0x4E86, 0x5F8C, 0x306B, 0x518D, 0x5B9F, 0x884C, 0x3057, 0x3066,
          0x304F, 0x3060, 0x3055, 0x3044, 0x3002])),
      (u ''safe_to_retry'', JBool True),
      (u ''steps'', JArr
        [JStr [0x5B9F, 0x884C, 0x7CFB, 0x30BB, 0x30F3, 0x30BF, 0x30FC, 0x3092, 0x958B, 0x3044, 0x3066,
           0x304F, 0x3060, 0x3055, 0x3044, 0x3002],
         JStr (u ''BLUE-TANUKI adapter '' @ [0x306E] @ u '' health '' @ [0x3092, 0x78BA, 0x8A8D, 0x3057,
           0x3066, 0x304F, 0x3060, 0x3055, 0x3044, 0x3002]),
         JStr (u ''runtime '' @ [0x72B6, 0x614B, 0x304C] @ u '' ready '' @ [0x306B, 0x306A, 0x3063,
           0x3066, 0x304B, 0x3089, 0x518D, 0x5B9F, 0x884C, 0x3057, 0x3066, 0x304F, 0x3060, 0x3055, 0x3044,
           0x3002])]),
      (u ''requires_user_action'', JBool True)]"

definition recovery_candidates :: "string \<Rightarrow> obj list" where
  "recovery_candidates reason =
     [recovery_candidate (if reason = ''runtime_down'' then ''runtime_down'' else ''unknown'')]"

definition metadata_attempts_authority_in :: "ucd \<Rightarrow> obj \<Rightarrow> bool" where
  "metadata_attempts_authority_in U metadata \<longleftrightarrow>
     authority_keys_in U [] (JObj metadata) \<noteq> []
     \<or> authority_values_in U [] (strip_authority_keys U (JObj metadata)) \<noteq> []"

subsection \<open>Approvals\<close>

definition approval_record :: "obj \<Rightarrow> json \<Rightarrow> obj" where
  "approval_record source status =
          [(u ''approval_id'', dget_or source ''approval_id'' (js ''blue-tanuki-approval-1'')),
      (u ''runtime_id'', js ''blue_tanuki''),
      (u ''operation'', dget_or source ''operation'' (js ''runtime.read'')),
      (u ''target_scope'', dget_or source ''target_scope'' (js ''runtime_status'')),
      (u ''status'', status),
      (u ''content_visibility'', dget_or source ''content_visibility'' (js ''redacted'')),
      (u ''payload_hash'', dget_or source ''payload_hash'' (JStr (u ''sha256:'' @ replicate 64 51))),
      (u ''summary'', dget_or source ''summary''
        (JStr (u ''BLUE-TANUKI runtime '' @ [0x64CD, 0x4F5C, 0x3092, 0x78BA, 0x8A8D, 0x3057, 0x3066,
          0x304F, 0x3060, 0x3055, 0x3044, 0x3002]))),
      (u ''redacted_payload'', dget_or source ''redacted_payload''
        (JObj [(u ''target'', js ''runtime''), (u ''details'', js ''[redacted]'')])),
      (u ''full_payload'', dget_or source ''full_payload''
        (JObj [(u ''target'', js ''runtime''), (u ''details'', js ''mock'')])),
      (u ''editable_fields'', dget_or source ''editable_fields'' (JArr [js ''target''])),
      (u ''sealed_fields'', dget_or source ''sealed_fields'' (JArr [js ''runtime_id''])),
      (u ''hidden_fields'', dget_or source ''hidden_fields'' (JArr [])),
      (u ''sacred_fields'', dget_or source ''sacred_fields'' (JArr [js ''authority_context''])),
      (u ''authority_fields'', dget_or source ''authority_fields'' (JArr [js ''permission_id'']))]"

definition normalize_approval :: "obj \<Rightarrow> obj" where
  "normalize_approval source =
     (let status = dget_or source ''status'' (js ''pending'');
          status = (if is_true (dget source ''adapter_approved'') then js ''pending'' else status);
          approval = approval_record source status
      in if dget approval ''status'' = js ''approved'' \<and> dget source ''approved_by'' = js ''adapter''
         then dset approval ''status'' (js ''pending'') else approval)"

definition projected_approval :: "obj \<Rightarrow> exn + projection" where
  "projected_approval source = project_approval_content (normalize_approval source)"

definition adapter_approvals :: "obj list" where
  "adapter_approvals = [normalize_approval []]"

definition adapter_recovery_actions :: "obj list" where
  "adapter_recovery_actions = recovery_candidates ''runtime_down''"

subsection \<open>The contracts hold\<close>

lemma approval_status: "dget (approval_record source status) ''status'' = status"
  by (simp add: approval_record_def dget_def) (simp add: dget_or_def)

lemma normalized_status:
  "dget (normalize_approval source) ''status'' =
     (if is_true (dget source ''adapter_approved'') then js ''pending''
      else if dget_or source ''status'' (js ''pending'') = js ''approved'' \<and> dget source ''approved_by'' = js ''adapter''
      then js ''pending'' else dget_or source ''status'' (js ''pending''))"
  by (simp add: normalize_approval_def Let_def approval_status)

lemma default_approval: "normalize_approval [] = approval_record [] (js ''pending'')"
  by (simp add: normalize_approval_def approval_status dget_def [of "[]"] dget_or_def [of "[]"] is_true_def)

lemma digit_tags: "d \<in> {48..57} \<Longrightarrow> sha256_tag_pattern (u ''sha256:'' @ replicate 64 d)"
  by (auto simp: sha256_tag_pattern_def Let_def u_def list_all_iff is_lower_hex_def)

lemma runtime_snapshot_accepted: "validate_contract repo_specs runtime_snapshot ''runtime.schema.json'' = Inr ()"
  by (simp add: schema_eval runtime_schema_def runtime_snapshot_def cong: u_cong)

lemma approval_accepted: "validate_contract repo_specs (normalize_approval []) ''approval.schema.json'' = Inr ()"
  by (simp add: default_approval approval_record_def schema_eval approval_schema_def re_match_eval digit_tags cong: u_cong)

lemma audit_accepted:
  "e \<in> set adapter_audit_events \<Longrightarrow> validate_contract repo_specs e ''audit.schema.json'' = Inr ()"
  by (simp add: adapter_audit_events_def schema_eval audit_schema_def re_match_eval digit_tags cong: u_cong)

lemma recovery_candidate_accepted:
  "validate_contract repo_specs (recovery_candidate ''runtime_down'') ''recovery.schema.json'' = Inr ()"
  "validate_contract repo_specs (recovery_candidate ''unknown'') ''recovery.schema.json'' = Inr ()"
  by (simp_all add: recovery_candidate_def schema_eval recovery_schema_def cong: u_cong)

lemma recovery_accepted:
  "r \<in> set (recovery_candidates reason) \<Longrightarrow> validate_contract repo_specs r ''recovery.schema.json'' = Inr ()"
  by (auto simp: recovery_candidates_def recovery_candidate_accepted split: if_splits)

text \<open>
  What the reference adapter exports satisfies the contracts of the shell core: its runtime snapshot,
  its approval, its audit events and its recovery actions, for every failure reason, are accepted by the
  schema of their kind.
\<close>

theorem adapter_exports_accepted:
  "validate_contract repo_specs runtime_snapshot ''runtime.schema.json'' = Inr ()
   \<and> list_all (\<lambda>a. validate_contract repo_specs a ''approval.schema.json'' = Inr ()) adapter_approvals
   \<and> list_all (\<lambda>e. validate_contract repo_specs e ''audit.schema.json'' = Inr ()) adapter_audit_events
   \<and> list_all (\<lambda>r. validate_contract repo_specs r ''recovery.schema.json'' = Inr ()) (recovery_candidates reason)"
  by (simp only: list_all_iff adapter_approvals_def) (use runtime_snapshot_accepted approval_accepted audit_accepted
      recovery_accepted in auto)

text \<open>
  An adapter cannot approve on its own behalf: a normalised approval is approved exactly when the source
  says so, does not claim \<open>adapter_approved\<close> and is not approved by the adapter.
\<close>

theorem adapter_never_self_approves:
  "(dget (normalize_approval source) ''status'' = js ''approved'') =
     (dget source ''status'' = js ''approved'' \<and> \<not> is_true (dget source ''adapter_approved'')
      \<and> dget source ''approved_by'' \<noteq> js ''adapter'')"
proof -
  have "dget_or source ''status'' (js ''pending'') = js ''approved'' \<longleftrightarrow> dget source ''status'' = js ''approved''"
    by (simp add: dget_def dget_or_def split: option.split)
  then show ?thesis by (auto simp: normalized_status)
qed

end
