(* ===== verification/Release_Smoke.thy ===== *)
theory Release_Smoke
  imports State_Snapshot Reference_State Approval_Queue Agent_Runtime
begin

text \<open>
  The release smoke runs, end to end: \<open>run_shell_core_release_smoke\<close> of
  \<open>packages/shell_core/release_smoke.py\<close> drives snapshot, file log, tamper detection, approval edit and
  policy evaluation on the reference state; \<open>tooling/release_smoke.py\<close> runs it with the first run, the
  runtime catalog and the agent runtime. The files of the run are the state of the file log.
\<close>

subsection \<open>The shell core\<close>

definition smoke_event_1 :: obj where
  "smoke_event_1 =
     [(u ''event_id'', js ''audit-1''), (u ''action'', js ''approval.requested''), (u ''result'', js ''success''),
      (u ''payload_hash'', JStr (canonical_hash (JObj [(u ''approval_id'', js ''approval-1'')])))]"

definition smoke_event_2 :: obj where
  "smoke_event_2 =
     [(u ''event_id'', js ''audit-2''), (u ''action'', js ''approval.validated''), (u ''result'', js ''success''),
      (u ''payload_hash'',
        JStr (canonical_hash (JObj [(u ''approval_id'', js ''approval-1''), (u ''status'', js ''approved'')])))]"

definition tamper_last :: "obj list \<Rightarrow> exn + obj list" where
  "tamper_last events =
     (if events = [] then Inl IndexError
      else Inr (butlast events @ [dset (last events) ''result'' (js ''tampered'')]))"

definition write_events :: "obj list \<Rightarrow> unit io" where
  "write_events events fs =
     (Inr (), fs\<lparr>audit_file := Some (join [10] (map (\<lambda>event. dumps (JObj event)) events) @ [10])\<rparr>)"

definition edited_smoke_approval :: "runtime_state \<Rightarrow> exn + obj" where
  "edited_smoke_approval state =
     bindE (case map_of (approvals state) (u ''approval-1'') of
              None \<Rightarrow> Inl (KeyError (js ''approval-1'')) | Some a \<Rightarrow> Inr a) (\<lambda>approval.
     let approval = dset approval ''status'' (js ''pending'') in
     bindE (ditem approval ''full_payload'') (\<lambda>payload.
     let approval = dset approval ''payload_hash'' (JStr (canonical_hash payload)) in
     bindE (ApprovalQueue_enqueue [] approval) (\<lambda>queue.
     bindE (ApprovalQueue_edit queue (js ''approval-1'') (u ''path'') (js ''notes/tomorrow.md'')) (\<lambda>(_, edited).
       Inr edited))))"

definition edited_payload :: json where
  "edited_payload = JObj [(u ''path'', js ''notes/tomorrow.md''), (u ''content'', js ''hello'')]"

definition run_shell_core_release_smoke ::
  "tables \<Rightarrow> host \<Rightarrow> source_tree \<Rightarrow> byte list \<Rightarrow> smoke_report io" where
  "run_shell_core_release_smoke T H tree fresh =
     bindIO (liftIO (build_reference_state (ucd.truncate T) repo_specs)) (\<lambda>state.
     bindIO (save_snapshot T H tree state) (\<lambda>snapshot.
     bindIO load_snapshot (\<lambda>loaded.
     bindIO (append_event_file fresh smoke_event_1) (\<lambda>first_event.
     bindIO (append_event_file fresh smoke_event_2) (\<lambda>second_event.
     bindIO (verify_files fresh) (\<lambda>verification.
     bindIO persisted_audit_events (\<lambda>events.
     bindIO (liftIO (tamper_last events)) (\<lambda>tampered.
     bindIO (write_events tampered) (\<lambda>_.
     bindIO (detect_tamper fresh) (\<lambda>detected.
     bindIO (write_events events) (\<lambda>_.
     bindIO (liftIO (edited_smoke_approval state)) (\<lambda>edited.
     bindIO (liftIO (ditem edited ''status'')) (\<lambda>status.
     bindIO (liftIO (ditem edited ''payload_hash'')) (\<lambda>payload_hash.
     bindIO (liftIO (evaluate (ucd.truncate T) repo_specs state build_sensitive_action)) (\<lambda>policy.
       retIO (smoke_result
         (remark (\<not> py_eq loaded (JObj snapshot)) ''the saved state snapshot was not loaded deterministically''
          @ remark (\<not> report_ok (chain_report verification)) ''the append-only audit chain failed verification''
          @ remark (\<not> anchor_verified verification) ''the HMAC of the audit anchor failed verification''
          @ remark (\<not> py_eq (dget second_event ''previous_event_hash'') (dget first_event ''event_hash''))
              ''the audit chain did not link the second event to the first''
          @ remark (\<not> detected) ''tamper detection missed a changed audit event''
          @ remark (status \<noteq> js ''requires_validation'') ''the edited approval does not require revalidation''
          @ remark (payload_hash \<noteq> JStr (canonical_hash edited_payload))
              ''the edit did not hash the edited payload again''
          @ remark (\<not> allowed policy) ''the policy evaluator refused the reference action'')
         [(u ''snapshot_saved'', JBool True), (u ''audit_event_count'', JInt (int (length events))),
          (u ''audit_chain_verified'', JBool (report_ok (chain_report verification))),
          (u ''audit_anchor_verified'', JBool (anchor_verified verification)),
          (u ''tamper_detected'', JBool True),
          (u ''approval_revalidation_required'', JBool (status = js ''requires_validation'')),
          (u ''recovery_id_verified'', JBool (allowed policy))]))))))))))))))))"

subsection \<open>A tampered log is detected\<close>

lemma verify_loop_returns:
  "list_all (\<lambda>e. hashable (dget e ''event_id'')) es \<Longrightarrow> \<exists>r. verify_loop i p seen es = Inr r"
proof (induction es arbitrary: i p seen)
  case (Cons e es)
  have step: "\<exists>a b. bindE (verify_loop j q seen' es) (\<lambda>(errors, latest). Inr (f errors latest)) = Inr (a, b)"
    for j q seen' and f :: "msg list \<Rightarrow> json \<Rightarrow> msg list \<times> json"
  proof -
    obtain r where "verify_loop j q seen' es = Inr r" using Cons by fastforce
    then show ?thesis by (cases r; cases "f (fst r) (snd r)") auto
  qed
  have "hashable (dget e ''event_id'')" using Cons.prems by simp
  then show ?case
    by (cases "truthy (dget e ''event_id'')"; cases "py_in (dget e ''event_id'') seen") (simp_all add: Let_def step [where f = "\<lambda>errors latest. (_ @ errors, latest)", simplified] step)
qed simp

lemma verify_chain_returns:
  assumes "list_all (\<lambda>e. hashable (dget e ''event_id'')) es"
  shows "\<exists>r. verify_audit_chain es = Inr r \<and> report_ok r = audit_verified es"
  using verify_loop_returns [OF assms, of 0 JNull "[]"]
  by (auto simp: verify_audit_chain_def audit_verified_def)

lemma log_text_canonical: "log_text (map canonical_dict es) = log_text es"
  by (induction es) (simp_all add: log_text_def dumps_canonical_dict)

lemma join_log_text: "es \<noteq> [] \<Longrightarrow> join [10] (map (\<lambda>e. dumps (JObj e)) es) @ [10] = log_text es"
  by (induction es rule: induct_list012) (simp_all add: log_text_def)

lemma canonical_stored: "stored_event e \<Longrightarrow> canonical_dict e = e"
  by (simp add: stored_event_def canonical_dict_def del: sort_keys.simps wf_json.simps)

lemma hashed_body_lookup:
  assumes "sort_keys (hashed_body a p) = sort_keys (hashed_body b p)" and "distinct (map fst a)" "distinct (map fst b)"
    and "k \<noteq> ''previous_event_hash''" "k \<noteq> ''event_hash''" and "hashable (dget b k)"
  shows "dget a k = dget b k"
proof -
  let ?h = "\<lambda>e. ddel (dset e ''previous_event_hash'' p) ''event_hash''"
  have "same_dict (?h a) (?h b)"
    using assms(1-3) by (simp add: same_dict_def hashed_body_def ddel_def dset_def distinct_update distinct_delete
        del: sort_keys.simps)
  from same_dict_dget [OF this, of k] assms(4-6) show ?thesis by simp
qed

text \<open>The last event of a verified log with its result changed: it still verifies only at a collision.\<close>

lemma tampered_not_verified:
  assumes "audit_verified (es @ [d])" and "audit_verified (es @ [t])"
    and t: "same_dict t (dset d ''result'' (js ''tampered''))" and wf: "wf_json (JObj d)"
    and p: "hash_value (head_hash es)" "wf_json (head_hash es)" and r: "dget d ''result'' = js ''success''"
  shows "collides (canonical_bytes (hashed_body t (head_hash es))) (canonical_bytes (hashed_body d (head_hash es)))"
proof -
  let ?p = "head_hash es"
  have "dget d ''event_hash'' = JStr (canonical_hash (hashed_body d ?p))"
    "dget t ''event_hash'' = JStr (canonical_hash (hashed_body t ?p))"
    using assms(1,2) by (auto simp: audit_verified_iff linked_snoc Let_def head_hash_def split: if_splits)
  moreover have "dget t ''event_hash'' = dget d ''event_hash''"
    using same_dict_dget [OF t, of "''event_hash''"] calculation(1) by simp
  ultimately have hash: "canonical_hash (hashed_body t ?p) = canonical_hash (hashed_body d ?p)" by simp
  have "wf_json (JObj (dset d ''result'' (js ''tampered'')))"
    by (intro wf_json_dset wf) simp
  then have wf_t: "wf_json (JObj t)"
    using t wf_json_sort_keys [of "JObj t"] wf_json_sort_keys [of "JObj (dset d ''result'' (js ''tampered''))"]
    by (simp only: same_dict_def)
  have bodies: "wf_json (hashed_body t ?p)" "wf_json (hashed_body d ?p)"
    unfolding hashed_body_def by (intro wf_json_ddel wf_json_dset wf wf_t p(2))+
  have result: "dget t ''result'' \<noteq> dget d ''result''" "hashable (dget d ''result'')"
    using same_dict_dget [OF t, of "''result''"] r by simp_all
  have dis: "distinct (map fst t)" "distinct (map fst d)" using wf wf_t by simp_all
  have "sort_keys (hashed_body t ?p) \<noteq> sort_keys (hashed_body d ?p)"
    using hashed_body_lookup [OF _ dis _ _ result(2)] result(1) by blast
  with canonical_hash_eq [OF bodies hash] show ?thesis by blast
qed

lemma tampering_detected:
  assumes inv: "log_inv K fs (es @ [d])" and r: "dget d ''result'' = js ''success''"
    and ids: "list_all (\<lambda>e. hashable (dget e ''event_id'')) (es @ [d])"
  defines "t \<equiv> canonical_dict (dset d ''result'' (js ''tampered''))"
  shows "\<exists>b. detect_tamper fresh (fs\<lparr>audit_file := Some (log_text (es @ [dset d ''result'' (js ''tampered'')]))\<rparr>)
      = (Inr b, fs\<lparr>audit_file := Some (log_text (es @ [dset d ''result'' (js ''tampered'')]))\<rparr>)
    \<and> (b \<or> collides (canonical_bytes (hashed_body t (head_hash es))) (canonical_bytes (hashed_body d (head_hash es))))"
proof -
  let ?fs = "fs\<lparr>audit_file := Some (log_text (es @ [dset d ''result'' (js ''tampered'')]))\<rparr>"
  have chain: "chain_inv K fs (es @ [d])" and anchor: "anchored K fs (es @ [d])"
    using inv by (simp_all add: log_inv_def)
  then have stored: "list_all stored_event es" "stored_event d" and ver: "audit_verified (es @ [d])"
    and key: "key_file fs = Some (hexdigest K)"
    by (auto simp: chain_inv_def)
  have wf: "wf_json (JObj d)" using stored(2) by (simp add: stored_event_def del: wf_json.simps sort_keys.simps)
  then have wf': "wf_json (JObj (dset d ''result'' (js ''tampered'')))" by (intro wf_json_dset) simp_all
  have same: "same_dict t (dset d ''result'' (js ''tampered''))"
    using same_canonical_dict [OF wf'] by (simp add: t_def)
  have "map canonical_dict (es @ [dset d ''result'' (js ''tampered'')]) = es @ [t]"
    using stored(1) by (simp add: t_def list_all_iff canonical_stored map_idI)
  then have as_text: "log_text (es @ [dset d ''result'' (js ''tampered'')]) = log_text (es @ [t])"
    by (metis log_text_canonical)
  have "list_all stored_event (es @ [t])"
    using stored(1) stored_canonical_dict [OF wf'] by (simp add: t_def)
  then have read: "audit_events_report ?fs = (Inr (es @ [t], []), ?fs)"
    by (simp only: audit_events_report_def as_text) (simp add: read_log_text read_lines_log del: map_append)
  have "dget t ''event_id'' = dget d ''event_id''"
    using same_dict_dget [OF same, of "''event_id''"] ids by simp
  then obtain rep where rep: "verify_audit_chain (es @ [t]) = Inr rep" "report_ok rep = audit_verified (es @ [t])"
    using verify_chain_returns [of "es @ [t]"] ids by auto
  obtain ok m where an: "verify_audit_anchor fresh (es @ [t]) ?fs = (Inr (ok, m), ?fs)"
    using verify_anchor_some [of ?fs K "es @ [d]" fresh "es @ [t]"] key stored anchor
    by (auto simp: anchored_def)
  have "detect_tamper fresh ?fs = (Inr (\<not> (audit_verified (es @ [t]) \<and> ok)), ?fs)"
    using rep(2) by (simp add: detect_tamper_def verify_files_def bindIO_def read rep(1) an liftIO_def retIO_def)
  moreover have "hash_value (head_hash es)" "wf_json (head_hash es)"
    using verified_head [of es] ver wf_head [OF stored(1)]
    by (auto simp: audit_verified_iff linked_snoc event_ids_unique_snoc hash_value_def head_hash_def Let_def
        split: if_splits)
  ultimately show ?thesis
    using tampered_not_verified [OF ver _ same wf _ _ r] by blast
qed

subsection \<open>The run\<close>

definition queued_approval :: obj where
  "queued_approval =
     dset (dset reference_approval ''status'' (js ''pending'')) ''payload_hash'' (JStr (canonical_hash reference_payload))"

lemma queued_fields:
  "dget queued_approval ''approval_id'' = js ''approval-1''" "dhas queued_approval ''approval_id''"
  "dget_or queued_approval ''full_payload'' v = reference_payload"
  "dget_or queued_approval ''editable_fields'' v = JArr [js ''path'']"
  "dget_or queued_approval ''authority_fields'' v = JArr [js ''permission_id'']"
  "dget_or queued_approval ''sealed_fields'' v = JArr [js ''runtime_id'']"
  "dget_or queued_approval ''hidden_fields'' v = JArr [js ''credential'']"
  "dget_or queued_approval ''sacred_fields'' v = JArr [js ''authority_context'']"
  by (simp_all add: queued_approval_def reference_approval_def dset_def dget_def dget_or_def dhas_def)

lemma edited_payload_update:
  "reference_payload = JObj [(u ''path'', js ''notes/today.md''), (u ''content'', js ''hello'')]"
  "JObj (AList.update (u ''path'') (js ''notes/tomorrow.md'') [(u ''path'', js ''notes/today.md''), (u ''content'', js ''hello'')])
     = edited_payload"
  by (simp_all add: reference_payload_def edited_payload_def)

lemma smoke_edit:
  "\<exists>edited. edited_smoke_approval reference_state = Inr edited
     \<and> ditem edited ''status'' = Inr (js ''requires_validation'')
     \<and> ditem edited ''payload_hash'' = Inr (JStr (canonical_hash edited_payload))"
proof -
  let ?q = "[(u ''approval-1'', queued_approval)]"
  let ?d = "[(u ''path'', js ''notes/today.md''), (u ''content'', js ''hello'')]"
  let ?e = "edited queued_approval (AList.update (u ''path'') (js ''notes/tomorrow.md'') ?d)"
  have can: "can_edit ?q (js ''approval-1'') (u ''path'') = Inr True"
    by (simp add: can_edit_def ApprovalQueue_get_def store_get_def queued_fields py_set_def py_in_JStr
        protected_fields_def PROTECTED_EDIT_FIELDS_def)
  have "ApprovalQueue_edit ?q (js ''approval-1'') (u ''path'') (js ''notes/tomorrow.md'')
      = Inr (AList.update (u ''approval-1'') ?e ?q, ?e)"
    unfolding edit_eq_Inr
    using can queued_fields(3) [of "JObj []"] edited_payload_update(1) by (intro exI conjI) auto
  moreover have "dget_or reference_approval ''full_payload'' JNull = reference_payload"
    "dhas reference_approval ''full_payload''"
    by (simp_all add: reference_approval_def dget_or_def dhas_def)
  then have "edited_smoke_approval reference_state
      = bindE (ApprovalQueue_edit ?q (js ''approval-1'') (u ''path'') (js ''notes/tomorrow.md'')) (\<lambda>(_, edited). Inr edited)"
    by (simp add: edited_smoke_approval_def reference_state_def ditem_dhas dget_def Let_def ApprovalQueue_enqueue_def
        store_put_def flip: queued_approval_def)
      (simp add: ditem_dhas queued_fields)
  ultimately have "edited_smoke_approval reference_state = Inr ?e" by simp
  moreover have "ditem ?e ''status'' = Inr (js ''requires_validation'')"
    "ditem ?e ''payload_hash'' = Inr (JStr (canonical_hash edited_payload))"
    using dget_edited(2,3) [of queued_approval "AList.update (u ''path'') (js ''notes/tomorrow.md'') ?d"]
      edited_payload_update(2)
    by (simp_all add: ditem_eq_Inr dhas_dget)
  ultimately show ?thesis by blast
qed

lemma reference_state_wf: "state_wf reference_state"
  by (simp add: state_wf_def reference_state_def reference_defs adapter_entry_def reference_payload_def
      canonical_hash_scalar scalar_def)

lemma smoke_events:
  "wf_json (JObj smoke_event_1)" "wf_json (JObj smoke_event_2)"
  "dget smoke_event_1 ''event_id'' = js ''audit-1''" "dget smoke_event_2 ''event_id'' = js ''audit-2''"
  "dget smoke_event_2 ''result'' = js ''success''"
  by (simp_all add: smoke_event_1_def smoke_event_2_def canonical_hash_scalar dget_def dget_or_def)

text \<open>The two entries of the run as the file holds them, and the second one after the tampering.\<close>

definition smoke_entry_1 :: obj where
  "smoke_entry_1 = canonical_dict (chain_event smoke_event_1 JNull)"

definition smoke_entry_2 :: obj where
  "smoke_entry_2 = canonical_dict (chain_event smoke_event_2 (dget smoke_entry_1 ''event_hash''))"

definition tampered_entry :: obj where
  "tampered_entry = canonical_dict (dset smoke_entry_2 ''result'' (js ''tampered''))"

text \<open>The hashed bodies of the second entry, tampered and not, have the same SHA-256 hash.\<close>

definition smoke_collision :: bool where
  "smoke_collision \<longleftrightarrow>
     collides (canonical_bytes (hashed_body tampered_entry (dget smoke_entry_1 ''event_hash'')))
       (canonical_bytes (hashed_body smoke_entry_2 (dget smoke_entry_1 ''event_hash'')))"

lemma smoke_entry_1_facts:
  "dget smoke_entry_1 ''event_id'' = js ''audit-1''"
  "dget smoke_entry_1 ''event_hash'' = dget (chain_event smoke_event_1 JNull) ''event_hash''"
  "wf_json (dget smoke_entry_1 ''event_hash'')"
proof -
  have same: "same_dict smoke_entry_1 (chain_event smoke_event_1 JNull)"
    unfolding smoke_entry_1_def by (intro same_canonical_dict wf_chain_event smoke_events) simp
  show "dget smoke_entry_1 ''event_id'' = js ''audit-1''"
    using same_dict_dget [OF same, of "''event_id''"] by (simp add: smoke_events(3) chain_event_def Let_def)
  show hash: "dget smoke_entry_1 ''event_hash'' = dget (chain_event smoke_event_1 JNull) ''event_hash''"
    using same_dict_dget [OF same, of "''event_hash''"] by (simp add: chain_event_def Let_def)
  show "wf_json (dget smoke_entry_1 ''event_hash'')"
    unfolding hash by (simp add: chain_event_def Let_def)
qed

lemma smoke_entry_2_facts:
  "dget smoke_entry_2 ''event_id'' = js ''audit-2''" "dget smoke_entry_2 ''result'' = js ''success''"
proof -
  let ?c = "chain_event smoke_event_2 (dget smoke_entry_1 ''event_hash'')"
  have same: "same_dict smoke_entry_2 ?c"
    unfolding smoke_entry_2_def
    by (intro same_canonical_dict wf_chain_event smoke_events smoke_entry_1_facts)
  show "dget smoke_entry_2 ''event_id'' = js ''audit-2''" "dget smoke_entry_2 ''result'' = js ''success''"
    using same_dict_dget [OF same, of "''event_id''"] same_dict_dget [OF same, of "''result''"]
    by (simp_all add: smoke_events(4,5) chain_event_def Let_def)
qed

text \<open>The two appends of the run, after the snapshot was written to a new directory.\<close>

lemma smoke_log:
  assumes "audit_file fs = None" "anchor_file fs = None" "key_file fs = None"
  shows "\<exists>fs1 fs2. append_event_file fresh smoke_event_1 fs = (Inr (chain_event smoke_event_1 JNull), fs1)
    \<and> append_event_file fresh smoke_event_2 fs1
        = (Inr (chain_event smoke_event_2 (dget smoke_entry_1 ''event_hash'')), fs2)
    \<and> log_inv fresh fs2 [smoke_entry_1, smoke_entry_2]"
proof -
  have "chain_inv fresh fs []" using assms by (simp add: chain_inv_def)
  from append_event_file_effect [OF this smoke_events(1), of fresh]
  obtain fs1 where 1: "append_event_file fresh smoke_event_1 fs = (Inr (chain_event smoke_event_1 JNull), fs1)"
    "log_inv fresh fs1 [smoke_entry_1]"
    by (auto simp: smoke_events(3) head_hash_def assms(3) smoke_entry_1_def)
  then have "chain_inv fresh fs1 [smoke_entry_1]" by (simp add: log_inv_def)
  from append_event_file_effect [OF this smoke_events(2), of fresh]
  obtain fs2 where "append_event_file fresh smoke_event_2 fs1
      = (Inr (chain_event smoke_event_2 (dget smoke_entry_1 ''event_hash'')), fs2)"
    "log_inv fresh fs2 [smoke_entry_1, smoke_entry_2]"
    by (auto simp: smoke_events(4) smoke_entry_1_facts(1) head_hash_def smoke_entry_2_def)
  with 1(1) show ?thesis by blast
qed

lemma core_smoke:
  assumes "tables_ok T" and "audit_file fs = None" "anchor_file fs = None" "key_file fs = None"
  shows "\<exists>r fs'. run_shell_core_release_smoke T H tree fresh fs = (Inr r, fs')
    \<and> log_inv fresh fs' [smoke_entry_1, smoke_entry_2]
    \<and> (smoke_ok r \<and> smoke_errors r = [] \<or> smoke_collision)"
proof -
  let ?d1 = smoke_entry_1 and ?d2 = smoke_entry_2
  have state: "state_ok (ucd.truncate T) reference_state"
    by (rule state_ok_run [OF reference_state_run state_ok_init])
  obtain snapshot fs0 where save: "save_snapshot T H tree reference_state fs = (Inr snapshot, fs0)"
    and fs0: "fs0 = fs\<lparr>snapshot_file := Some (dumps_indent 2 (JObj snapshot))\<rparr>" and wf: "wf_json (JObj snapshot)"
    using wf_snapshot [OF reference_state_wf, of "clean_flags T tree"] assms(1)
    by (simp add: save_snapshot_def create_snapshot_eq [OF state] invariant_flags_clean bindIO_def liftIO_def
        clean_flags_def del: wf_json.simps(3))
      (simp add: list_all_scalar_u)
  have load: "load_snapshot fs0 = (Inr (sort_keys (JObj snapshot)), fs0)"
    by (rule load_saved [OF wf]) (simp add: fs0)
  have loaded: "py_eq (sort_keys (JObj snapshot)) (JObj snapshot)"
    by (simp add: py_eq_def sort_keys_idem del: sort_keys.simps)
  obtain fs1 fs2 where appends:
    "append_event_file fresh smoke_event_1 fs0 = (Inr (chain_event smoke_event_1 JNull), fs1)"
    "append_event_file fresh smoke_event_2 fs1 = (Inr (chain_event smoke_event_2 (dget ?d1 ''event_hash'')), fs2)"
    and inv: "log_inv fresh fs2 [?d1, ?d2]"
    using smoke_log [of fs0 fresh] assms by (auto simp: fs0)
  have linked: "JStr (canonical_hash (hashed_body smoke_event_1 JNull)) = dget ?d1 ''event_hash''"
    by (simp add: smoke_entry_1_facts(2))
  obtain v where v: "verify_files fresh fs2 = (Inr v, fs2)" "report_ok (chain_report v)" "anchor_verified v"
    using verify_log_inv [OF inv] by blast
  have events: "persisted_audit_events fs2 = (Inr [?d1, ?d2], fs2)"
    using inv by (intro events_of_chain [of fresh]) (simp add: log_inv_def)
  let ?t = "dset ?d2 ''result'' (js ''tampered'')"
  let ?fs3 = "fs2\<lparr>audit_file := Some (log_text [?d1, ?t])\<rparr>"
  obtain b where detect: "detect_tamper fresh ?fs3 = (Inr b, ?fs3)" and b: "b \<or> smoke_collision"
    using tampering_detected [of fresh fs2 "[?d1]" ?d2 fresh] inv smoke_entry_1_facts(1) smoke_entry_2_facts
    by (auto simp: head_hash_def smoke_collision_def tampered_entry_def)
  have writes: "write_events [?d1, ?t] fs2 = (Inr (), ?fs3)" "write_events [?d1, ?d2] ?fs3 = (Inr (), fs2)"
    using inv join_log_text [of "[?d1, ?t]"] join_log_text [of "[?d1, ?d2]"]
    by (auto simp: write_events_def log_inv_def chain_inv_def)
  obtain edited where edit: "edited_smoke_approval reference_state = Inr edited"
    "ditem edited ''status'' = Inr (js ''requires_validation'')"
    "ditem edited ''payload_hash'' = Inr (JStr (canonical_hash edited_payload))"
    using smoke_edit by blast
  have "\<exists>r. run_shell_core_release_smoke T H tree fresh fs = (Inr r, fs2) \<and> smoke_ok r = b \<and> (smoke_errors r = []) = b"
    unfolding run_shell_core_release_smoke_def bindIO_def
    by (simp add: build_reference_state_eq liftIO_def save load loaded appends linked v events tamper_last_def writes
        detect edit reference_evaluated reference_result_def retIO_def smoke_result_def remark_def flag_def
        del: sort_keys.simps)
  then show ?thesis using inv b by blast
qed

text \<open>
  C11. The smoke run of the shell core passes, end to end: on a new directory, on every machine and with
  every 32 random bytes, it returns without an exception and its report has no finding: the snapshot loads
  back, both events are chained and verify, the anchor verifies, the tampered log is detected, the edited
  approval is rehashed and goes back to validation and the reference action is allowed. The one way out is
  that the second event and its tampered version are a SHA-256 collision. The log it leaves is consistent
  and holds the two events.
\<close>

theorem shell_core_smoke_passes:
  assumes "tables_ok T" and "audit_file fs = None" "anchor_file fs = None" "key_file fs = None"
  shows "\<exists>r fs'. run_shell_core_release_smoke T H tree fresh fs = (Inr r, fs')
    \<and> log_inv fresh fs' [smoke_entry_1, smoke_entry_2]
    \<and> (smoke_ok r \<and> smoke_errors r = [] \<or> smoke_collision)"
  by (rule core_smoke [OF assms])

theorem shell_core_smoke_passes_witness:
  "\<exists>r fs'. run_shell_core_release_smoke ascii_tables sample_host sample_tree [] no_files = (Inr r, fs')
     \<and> (smoke_ok r \<and> smoke_errors r = [] \<or> smoke_collision)"
  using shell_core_smoke_passes [OF tables_ok_ascii, of no_files sample_host sample_tree "[]"]
  by (auto simp: no_files_def)

subsection \<open>The release smokes\<close>

text \<open>The example records, by file name; \<open>as_dict\<close> is where a value is used as a dictionary.\<close>

type_synonym examples = "string \<Rightarrow> ustr option"

definition example :: "examples \<Rightarrow> string \<Rightarrow> exn + json" where
  "example F name = (case F name of None \<Rightarrow> Inl OSError | Some text \<Rightarrow> py_loads (universal_newlines text))"

fun as_dict :: "exn \<Rightarrow> json \<Rightarrow> exn + obj" where
  "as_dict e (JObj d) = Inr d"
| "as_dict e _ = Inl e"

definition run_runtime_catalog_smoke :: "examples \<Rightarrow> exn + smoke_report" where
  "run_runtime_catalog_smoke F =
     bindE (example F ''runtime_manifest.valid.json'') (\<lambda>runtime_manifest.
     bindE (example F ''adapter_manifest.valid.json'') (\<lambda>adapter_manifest.
     bindE (as_dict AttributeError runtime_manifest) (\<lambda>rm.
     bindE (register_runtime_manifest RuntimeCatalog_init rm) (\<lambda>catalog.
     bindE (as_dict AttributeError adapter_manifest) (\<lambda>am.
     bindE (register_adapter_manifest catalog am) (\<lambda>catalog.
       Inr (smoke_result
         (remark (length (runtime_manifests catalog) \<noteq> 1) ''the runtime manifest was not registered''
          @ remark (length (adapter_manifests catalog) \<noteq> 1) ''the adapter manifest was not registered''
          @ remark (catalog_can_grant_authority catalog rm) ''the runtime catalog granted authority'')
         [(u ''runtime_count'', JInt (int (length (runtime_manifests catalog)))),
          (u ''adapter_count'', JInt (int (length (adapter_manifests catalog))))])))))))"

definition run_agent_runtime_smoke :: "(ppath \<Rightarrow> exn + ppath) \<Rightarrow> examples \<Rightarrow> exn + smoke_report" where
  "run_agent_runtime_smoke resolve F =
     bindE (example F ''agent_workspace.valid.json'') (\<lambda>w.
     bindE (as_dict TypeError w) (\<lambda>workspace.
     bindE (AgentRuntimeContract_init resolve workspace) (\<lambda>contract.
     bindE (path_allowed resolve contract (js ''/workspace/project/src/main.py'')) (\<lambda>inside.
     bindE (path_allowed resolve contract (js ''/workspace/project/.env'')) (\<lambda>secret.
     bindE (path_allowed resolve contract (js ''/outside/project/file.txt'')) (\<lambda>outside.
     bindE (example F ''agent_tool_call.valid.json'') (\<lambda>c.
     bindE (as_dict AttributeError c) (\<lambda>tool_call.
     bindE (example F ''agent_diff.valid.json'') (\<lambda>d.
     bindE (as_dict AttributeError d) (\<lambda>diff.
       Inr (smoke_result
         (remark (\<not> inside) ''the agent runtime refused a path of the workspace''
          @ remark secret ''the agent runtime allowed a secret path''
          @ remark outside ''the agent runtime allowed a path outside the workspace''
          @ remark (\<not> shell_command_requires_permission tool_call)
              ''the agent runtime did not require a permission for a shell command''
          @ remark (\<not> diff_is_auditable diff) ''the agent runtime refused an auditable diff'')
         [])))))))))))"

record release_report =
  rel_ok :: bool
  rel_errors :: "msg list"
  rel_shell_core :: smoke_report
  rel_first_run :: smoke_report
  rel_runtime_catalog :: smoke_report
  rel_agent_runtime :: smoke_report

definition prefixed_errors :: "string \<Rightarrow> smoke_report \<Rightarrow> msg list" where
  "prefixed_errors name r = (if \<not> smoke_ok r then map (Within (name @ '': {}'') []) (smoke_errors r) else [])"

definition release_result :: "smoke_report \<Rightarrow> smoke_report \<Rightarrow> smoke_report \<Rightarrow> smoke_report \<Rightarrow> release_report" where
  "release_result shell_core first_run runtime_catalog agent_runtime =
     (let errors = prefixed_errors ''shell_core'' shell_core @ prefixed_errors ''first_run'' first_run
            @ prefixed_errors ''runtime_catalog'' runtime_catalog @ prefixed_errors ''agent_runtime'' agent_runtime
      in \<lparr>rel_ok = (errors = []), rel_errors = errors, rel_shell_core = shell_core, rel_first_run = first_run,
          rel_runtime_catalog = runtime_catalog, rel_agent_runtime = agent_runtime\<rparr>)"

text \<open>The state: the files of the shell core run and the configuration of the first run.\<close>

definition run_release_smokes ::
  "tables \<Rightarrow> host \<Rightarrow> source_tree \<Rightarrow> byte list \<Rightarrow> (ppath \<Rightarrow> exn + ppath) \<Rightarrow> examples \<Rightarrow> ppath
     \<Rightarrow> files \<times> ustr option \<Rightarrow> (exn + release_report) \<times> files \<times> ustr option" where
  "run_release_smokes T H tree fresh resolve F root state =
     (case run_shell_core_release_smoke T H tree fresh (fst state) of
        (Inl e, fs) \<Rightarrow> (Inl e, fs, snd state)
      | (Inr shell_core, fs) \<Rightarrow>
          (case first_run_smoke H (sub_path root [''first_run'']) (snd state) of
             (Inl e, config) \<Rightarrow> (Inl e, fs, config)
           | (Inr first_run, config) \<Rightarrow>
               (bindE (run_runtime_catalog_smoke F) (\<lambda>catalog.
                bindE (run_agent_runtime_smoke resolve F) (\<lambda>agent.
                  Inr (release_result shell_core first_run catalog agent))), fs, config)))"

definition release_smoke_exit :: "release_report \<Rightarrow> int" where
  "release_smoke_exit r = (if rel_ok r then 0 else 1)"

definition runtime_manifest_example :: obj where
  "runtime_manifest_example =
     [(u ''runtime_id'', js ''mock_local_llm''),
      (u ''display_name'', JStr [0x6A21, 0x64EC, 0x30ED, 0x30FC, 0x30AB, 0x30EB, 0x4C, 0x4C, 0x4D]),
      (u ''runtime_type'', js ''llm_runtime''),
      (u ''supported_platforms'', JArr [js ''linux'', js ''macos'', js ''windows'']),
      (u ''required_tools'', JArr [js ''python3'']), (u ''required_ports'', JArr [JInt 11434]),
      (u ''storage_paths'', JArr [js ''~/.gui-shell/runtimes/mock_local_llm'']),
      (u ''network_policy'', js ''localhost_only''),
      (u ''capabilities'', JArr [js ''runtime.read'', js ''model.chat'']),
      (u ''permissions'', JArr [js ''permission.runtime.read'']),
      (u ''audit_profile'', js ''default_audit_chain''),
      (u ''recovery_profile'', js ''default_runtime_recovery''), (u ''trust_profile'', js ''signed_local''),
      (u ''signed_manifest'', JBool True)]"

definition adapter_manifest_example :: obj where
  "adapter_manifest_example =
     [(u ''adapter_id'', js ''mock_local_llm_adapter''), (u ''runtime_id'', js ''mock_local_llm''),
      (u ''contract_version'', js ''v1.0''), (u ''transport'', js ''mock''),
      (u ''authority_strip'', JBool True), (u ''content_exposure_policy_id'', js ''default_safe''),
      (u ''declared_capabilities'', JArr [js ''runtime.read'', js ''model.chat'']),
      (u ''metadata'', JObj [(u ''note'', JStr [0x4FE1, 0x983C, 0x3057, 0x306A, 0x3044])]),
      (u ''signed_manifest'', JBool True)]"

definition tool_call_example :: obj where
  "tool_call_example =
     [(u ''tool_call_id'', js ''tool-call-1''), (u ''session_id'', js ''agent-session-1''),
      (u ''tool_name'', js ''shell.command''), (u ''permission_id'', js ''permission.shell.command''),
      (u ''approval_required'', JBool True), (u ''audit_event_id'', js ''audit-1''),
      (u ''rollback_candidate_id'', js ''rollback-1'')]"

definition agent_diff_example :: obj where
  "agent_diff_example =
     [(u ''diff_id'', js ''agent-diff-1''), (u ''session_id'', js ''agent-session-1''),
      (u ''changed_files'', JArr [js ''README.md'']),
      (u ''payload_hash'', JStr (u ''sha256:'' @ replicate 64 53)),
      (u ''audit_event_id'', js ''audit-1''), (u ''rollback_candidate_id'', js ''rollback-1'')]"


subsection \<open>The release smokes pass\<close>

lemma catalog_smoke:
  assumes "example F ''runtime_manifest.valid.json'' = Inr (JObj runtime_manifest_example)"
    and "example F ''adapter_manifest.valid.json'' = Inr (JObj adapter_manifest_example)"
  shows "\<exists>r. run_runtime_catalog_smoke F = Inr r \<and> smoke_ok r"
proof -
  have "register_runtime_manifest RuntimeCatalog_init runtime_manifest_example
      = Inr (RuntimeCatalog_init\<lparr>cat_runtimes := [(u ''mock_local_llm'', runtime_manifest_example)]\<rparr>)"
    by (simp add: register_runtime_manifest_def store_put_def RuntimeCatalog_init_def)
      (simp add: runtime_manifest_example_def is_true_def dget_def dget_or_def ditem_def)
  moreover have "register_adapter_manifest (RuntimeCatalog_init\<lparr>cat_runtimes := s\<rparr>) adapter_manifest_example
      = Inr (\<lparr>cat_runtimes = s, cat_adapters = [(u ''mock_local_llm_adapter'', adapter_manifest_example)]\<rparr>)" for s
    by (simp add: register_adapter_manifest_def store_put_def RuntimeCatalog_init_def)
      (simp add: adapter_manifest_example_def is_true_def dget_def dget_or_def ditem_def)
  ultimately show ?thesis
    using assms by (simp add: run_runtime_catalog_smoke_def runtime_manifests_def adapter_manifests_def
        sorted_records_def catalog_can_grant_authority_def smoke_result_def remark_def flag_def)
qed

lemma agent_paths:
  "path_allowed lexical example_contract (js ''/workspace/project/src/main.py'') = Inr True"
  "path_allowed lexical example_contract (js ''/workspace/project/.env'') = Inr False"
  "path_allowed lexical example_contract (js ''/outside/project/file.txt'') = Inr False"
proof -
  have root: "agent_root example_contract = project_path []" by (simp add: example_contract_def)
  note exact = example_resolved [folded root, THEN lexical.path_allowed_exact]
  show "path_allowed lexical example_contract (js ''/workspace/project/src/main.py'') = Inr True"
    "path_allowed lexical example_contract (js ''/workspace/project/.env'') = Inr False"
    "path_allowed lexical example_contract (js ''/outside/project/file.txt'') = Inr False"
    unfolding exact
    by (simp_all add: below_def project_path_def path_parts_def SECRET_PATH_PARTS_def example_contract_def)
qed

lemma agent_smoke:
  assumes "example F ''agent_workspace.valid.json'' = Inr (JObj example_workspace)"
    and "example F ''agent_tool_call.valid.json'' = Inr (JObj tool_call_example)"
    and "example F ''agent_diff.valid.json'' = Inr (JObj agent_diff_example)"
  shows "\<exists>r. run_agent_runtime_smoke lexical F = Inr r \<and> smoke_ok r"
proof -
  have "shell_command_requires_permission tool_call_example" "diff_is_auditable agent_diff_example"
    by (simp_all add: shell_command_requires_permission_def tool_call_example_def diff_is_auditable_def
        agent_diff_example_def dget_def dget_or_def)
  then show ?thesis
    using assms by (simp add: run_agent_runtime_smoke_def example_contract_init agent_paths smoke_result_def
        remark_def flag_def)
qed

lemma release_smokes_run:
  assumes "tables_ok T" and "audit_file fs = None" "anchor_file fs = None" "key_file fs = None"
    and "\<And>d. host_mkdir_error H d = None" and "\<And>d. host_write_error H d = None"
    and "example F ''runtime_manifest.valid.json'' = Inr (JObj runtime_manifest_example)"
    and "example F ''adapter_manifest.valid.json'' = Inr (JObj adapter_manifest_example)"
    and "example F ''agent_workspace.valid.json'' = Inr (JObj example_workspace)"
    and "example F ''agent_tool_call.valid.json'' = Inr (JObj tool_call_example)"
    and "example F ''agent_diff.valid.json'' = Inr (JObj agent_diff_example)"
  shows "\<exists>r. fst (run_release_smokes T H tree fresh lexical F root (fs, config)) = Inr r
    \<and> (release_smoke_exit r = 0 \<or> smoke_collision)"
proof -
  obtain core fs' where core: "run_shell_core_release_smoke T H tree fresh fs = (Inr core, fs')"
    "smoke_ok core \<or> smoke_collision"
    using core_smoke [OF assms(1-4), of H tree fresh] by blast
  obtain first config' where first: "first_run_smoke H (sub_path root [''first_run'']) config = (Inr first, config')"
    "smoke_ok first"
    using assms(5,6) by (auto simp: first_run_smoke_def first_run_report_def smoke_result_def is_false_def Let_def
        remark_def flag_def)
  show ?thesis
    using core first catalog_smoke [OF assms(7,8)] agent_smoke [OF assms(9-11)]
    by (auto simp: run_release_smokes_def release_result_def release_smoke_exit_def prefixed_errors_def Let_def)
qed

text \<open>
  The release smokes pass: on a machine that lets the first run make and write its directories, with the
  example contracts of the repository, run in new directories, the whole smoke returns without an exception
  and exits with 0, unless the tampered event of the shell core run is a SHA-256 collision.
\<close>

theorem release_smokes_pass:
  assumes "tables_ok T" and "audit_file fs = None" "anchor_file fs = None" "key_file fs = None"
    and "\<And>d. host_mkdir_error H d = None" and "\<And>d. host_write_error H d = None"
    and "example F ''runtime_manifest.valid.json'' = Inr (JObj runtime_manifest_example)"
    and "example F ''adapter_manifest.valid.json'' = Inr (JObj adapter_manifest_example)"
    and "example F ''agent_workspace.valid.json'' = Inr (JObj example_workspace)"
    and "example F ''agent_tool_call.valid.json'' = Inr (JObj tool_call_example)"
    and "example F ''agent_diff.valid.json'' = Inr (JObj agent_diff_example)"
  shows "\<exists>r. fst (run_release_smokes T H tree fresh lexical F root (fs, config)) = Inr r
    \<and> (release_smoke_exit r = 0 \<or> smoke_collision)"
  by (rule release_smokes_run [OF assms])

definition repo_examples :: examples where
  "repo_examples name =
     map_option (\<lambda>d. render None 0 (JObj d))
       (map_of [(''runtime_manifest.valid.json'', runtime_manifest_example),
                (''adapter_manifest.valid.json'', adapter_manifest_example),
                (''agent_workspace.valid.json'', example_workspace),
                (''agent_tool_call.valid.json'', tool_call_example),
                (''agent_diff.valid.json'', agent_diff_example)] name)"

lemma repo_examples_read:
  "example repo_examples ''runtime_manifest.valid.json'' = Inr (JObj runtime_manifest_example)"
  "example repo_examples ''adapter_manifest.valid.json'' = Inr (JObj adapter_manifest_example)"
  "example repo_examples ''agent_workspace.valid.json'' = Inr (JObj example_workspace)"
  "example repo_examples ''agent_tool_call.valid.json'' = Inr (JObj tool_call_example)"
  "example repo_examples ''agent_diff.valid.json'' = Inr (JObj agent_diff_example)"
proof -
  have read: "example repo_examples name = Inr (JObj d)"
    if "repo_examples name = Some (render None 0 (JObj d))" "wf_json (JObj d)" for name d
    using that loads_written [of "JObj d"] by (simp add: example_def del: render.simps wf_json.simps)
  have tag: "list_all scalar (replicate n 53)" for n
    by (induction n) (simp_all add: scalar_def)
  have "wf_json (JObj d)" if "d \<in> {runtime_manifest_example, adapter_manifest_example, example_workspace,
      tool_call_example, agent_diff_example}" for d
    using that by (auto simp: runtime_manifest_example_def adapter_manifest_example_def example_workspace_def
        tool_call_example_def agent_diff_example_def scalar_def tag)
  then show
    "example repo_examples ''runtime_manifest.valid.json'' = Inr (JObj runtime_manifest_example)"
    "example repo_examples ''adapter_manifest.valid.json'' = Inr (JObj adapter_manifest_example)"
    "example repo_examples ''agent_workspace.valid.json'' = Inr (JObj example_workspace)"
    "example repo_examples ''agent_tool_call.valid.json'' = Inr (JObj tool_call_example)"
    "example repo_examples ''agent_diff.valid.json'' = Inr (JObj agent_diff_example)"
    by (intro read; simp add: repo_examples_def del: render.simps wf_json.simps)+
qed

theorem release_smokes_pass_witness:
  "\<exists>r. fst (run_release_smokes ascii_tables sample_host sample_tree [] lexical repo_examples (path_of (u ''/tmp''))
       (no_files, None)) = Inr r \<and> (release_smoke_exit r = 0 \<or> smoke_collision)"
  by (rule release_smokes_pass [OF tables_ok_ascii _ _ _ _ _ repo_examples_read])
    (simp_all add: no_files_def sample_host_def)

end
