(* ===== verification/Schema_Gate.thy ===== *)
theory Schema_Gate
  imports Py_Text
begin

text \<open>
  The schema gate (\<open>tooling/schema_check/check_schemas.py\<close>) over its three directories: the schemas, the
  valid examples and the negative fixtures. A directory is the list of its files with their texts
  (\<open>None\<close> for one that cannot be read); the validator is that of \<open>Schema_Validation\<close>.
\<close>

definition REQUIRED :: "ustr list" where
  "REQUIRED = map u
     [''action_envelope.schema.json'', ''runtime.schema.json'', ''adapter.schema.json'',
      ''capability.schema.json'', ''permission.schema.json'', ''approval.schema.json'', ''audit.schema.json'',
      ''recovery.schema.json'', ''diagnostic.schema.json'', ''update.schema.json'',
      ''content_exposure.schema.json'', ''framework_risk_profile.schema.json'',
      ''runtime_manifest.schema.json'', ''adapter_manifest.schema.json'', ''agent_runtime.schema.json'',
      ''agent_session.schema.json'', ''agent_workspace.schema.json'', ''agent_task.schema.json'',
      ''agent_tool_call.schema.json'', ''agent_diff.schema.json'', ''ipc_request.schema.json'',
      ''ipc_response.schema.json'', ''broker_error.schema.json'', ''broker_session.schema.json'',
      ''broker_health.schema.json'', ''broker_command_envelope.schema.json'']"

record contract_dirs =
  specs_files :: "(ustr \<times> ustr option) list"
  example_files :: "(ustr \<times> ustr option) list"
  invalid_files :: "(ustr \<times> ustr option) list"

text \<open>\<open>json.loads(path.read_text(\<dots>))\<close> with every exception caught: \<open>Inr None\<close> is an error message.\<close>

definition load_json :: "ustr option \<Rightarrow> exn + json option" where
  "load_json file_text =
     (case file_text of
        None \<Rightarrow> Inr None
      | Some text \<Rightarrow>
          (case py_loads (universal_newlines text) of
             Inr v \<Rightarrow> Inr (Some v) | Inl JSONDecodeError \<Rightarrow> Inr None | Inl e \<Rightarrow> Inl e))"

text \<open>\<open>s.replace(old, new)\<close>, for an \<open>old\<close> that is not empty.\<close>

fun replace_all :: "ustr \<Rightarrow> ustr \<Rightarrow> ustr \<Rightarrow> ustr" where
  "replace_all old new [] = []"
| "replace_all old new (c # s) =
     (if old \<noteq> [] \<and> starts_with old (c # s) then new @ replace_all old new (drop (length old - 1) s)
      else c # replace_all old new s)"

definition valid_example_path :: "ustr \<Rightarrow> ustr" where
  "valid_example_path schema_name = replace_all (u ''.schema.json'') (u ''.valid.json'') schema_name"

definition remove_suffix :: "ustr \<Rightarrow> ustr \<Rightarrow> ustr" where
  "remove_suffix suffix s = (if suffix \<noteq> [] \<and> ends_with suffix s then take (length s - length suffix) s else s)"

text \<open>The bases of the schema names, the longest first.\<close>

definition schema_bases :: "ustr list" where
  "schema_bases = rev (sort_key length (rev (map (remove_suffix (u ''.schema.json'')) REQUIRED)))"

definition names_base :: "ustr \<Rightarrow> ustr \<Rightarrow> bool" where
  "names_base stem base \<longleftrightarrow> stem = base \<or> starts_with (base @ u ''_'') stem"

definition schema_name_from_invalid_fixture :: "ustr \<Rightarrow> ustr" where
  "schema_name_from_invalid_fixture name =
     (let stem = remove_suffix (u ''.invalid.json'') name in
      case List.find (names_base stem) schema_bases of
        Some base \<Rightarrow> base @ u ''.schema.json''
      | None \<Rightarrow> takeWhile (\<lambda>c. c \<noteq> 95) stem @ u ''.schema.json'')"

subsection \<open>The run\<close>

definition with_suffix :: "string \<Rightarrow> (ustr \<times> ustr option) list \<Rightarrow> (ustr \<times> ustr option) list" where
  "with_suffix suffix files = sort_key fst (filter (\<lambda>(name, _). ends_with (u suffix) name) files)"

definition missing_key_errors :: "ustr \<Rightarrow> obj \<Rightarrow> msg list" where
  "missing_key_errors name data =
     concat (map (\<lambda>key. flag (\<not> dhas data key) (Msg ''{}: {} is missing'' [JStr name, js key]))
       [''$schema'', ''$id'', ''title'', ''type''])"

fun load_schemas :: "(ustr \<times> ustr option) list \<Rightarrow> (ustr \<times> obj) list \<Rightarrow> exn + msg list \<times> (ustr \<times> obj) list" where
  "load_schemas [] schemas = Inr ([], schemas)"
| "load_schemas ((name, text) # files) schemas =
     bindE (load_json text) (\<lambda>data.
       case data of
         None \<Rightarrow>
           bindE (load_schemas files schemas) (\<lambda>(errors, schemas').
             Inr (Msg ''{}: invalid JSON'' [JStr name] # errors, schemas'))
       | Some (JObj d) \<Rightarrow>
           bindE (load_schemas files (AList.update name d schemas)) (\<lambda>(errors, schemas').
             Inr (missing_key_errors name d @ errors, schemas'))
       | Some _ \<Rightarrow>
           bindE (load_schemas files schemas) (\<lambda>(errors, schemas').
             Inr (Msg ''{}: the schema root must be an object'' [JStr name] # errors, schemas')))"

text \<open>\<open>schemas.get(name)\<close>, \<open>None\<close> also for an empty schema.\<close>

definition usable_schema :: "(ustr \<times> obj) list \<Rightarrow> ustr \<Rightarrow> obj option" where
  "usable_schema schemas name =
     (case map_of schemas name of Some d \<Rightarrow> (if d = [] then None else Some d) | None \<Rightarrow> None)"

definition example_errors :: "contract_dirs \<Rightarrow> (ustr \<times> obj) list \<Rightarrow> ustr \<Rightarrow> exn + msg list" where
  "example_errors D schemas schema_name =
     (case usable_schema schemas schema_name of
        None \<Rightarrow> Inr []
      | Some schema \<Rightarrow>
          (let path = valid_example_path schema_name in
           bindE (load_json (Option.bind (map_of (example_files D) path) id)) (\<lambda>example.
             case example of
               None \<Rightarrow> Inr [Msg ''{}: the valid example is invalid or missing'' [JStr path]]
             | Some v \<Rightarrow>
                 bindE (check_schemas_validate_instance v (JObj schema) (u ''$'')) (\<lambda>failures.
                   Inr (map (Within ''{}: {}'' [JStr path]) failures)))))"

definition invalid_errors :: "(ustr \<times> obj) list \<Rightarrow> ustr \<times> ustr option \<Rightarrow> exn + msg list" where
  "invalid_errors schemas = (\<lambda>(name, text).
     (let schema_name = schema_name_from_invalid_fixture name in
      case usable_schema schemas schema_name of
        None \<Rightarrow> Inr [Msg ''{}: the schema {} cannot be resolved'' [JStr name, JStr schema_name]]
      | Some schema \<Rightarrow>
          bindE (load_json text) (\<lambda>instance.
            case instance of
              None \<Rightarrow> Inr [Msg ''{}: invalid JSON'' [JStr name]]
            | Some v \<Rightarrow>
                bindE (check_schemas_validate_instance v (JObj schema) (u ''$'')) (\<lambda>failures.
                  Inr (flag (failures = []) (Msg ''{}: the invalid fixture passes {}'' [JStr name, JStr schema_name]))))))"

definition schema_gate_errors :: "contract_dirs \<Rightarrow> exn + msg list" where
  "schema_gate_errors D =
     (let specs = with_suffix ''.schema.json'' (specs_files D); fixtures = with_suffix ''.invalid.json'' (invalid_files D);
          missing = sort (filter (\<lambda>name. name \<notin> fst ` set specs) REQUIRED);
          covered = map (\<lambda>(name, _). schema_name_from_invalid_fixture name) fixtures in
      bindE (load_schemas specs []) (\<lambda>(schema_errors, schemas).
      bindE (concatE (example_errors D schemas) (sort REQUIRED)) (\<lambda>examples.
      bindE (concatE (invalid_errors schemas) fixtures) (\<lambda>invalids.
        Inr (map (\<lambda>name. Msg ''the schema is missing: {}'' [JStr name]) missing @ schema_errors @ examples @ invalids
             @ map (\<lambda>name. Msg ''{} has no negative fixture'' [JStr name])
                 (sort (filter (\<lambda>name. name \<notin> set covered) REQUIRED)))))))"

definition schema_gate_exit :: "contract_dirs \<Rightarrow> exn + nat" where
  "schema_gate_exit D = bindE (schema_gate_errors D) (\<lambda>errors. Inr (if errors = [] then 0 else 1))"

subsection \<open>Which schema a fixture is for\<close>

lemma set_schema_bases: "set schema_bases = remove_suffix (u ''.schema.json'') ` set REQUIRED"
  by (simp add: schema_bases_def)

lemma schema_bases_sorted: "sorted (map length (rev schema_bases))"
  by (simp add: schema_bases_def)

lemma names_base_longer: "names_base stem base \<Longrightarrow> stem \<noteq> base \<Longrightarrow> length base < length stem"
  by (auto simp: names_base_def starts_with_def dest!: arg_cong [of _ _ length])

text \<open>A fixture named exactly like a schema is for that schema, whatever other names are its prefixes.\<close>

lemma find_longest:
  assumes "sorted (map length (rev bases))" and "base \<in> set bases"
  shows "List.find (names_base base) bases = Some base"
  using assms
proof (induction bases)
  case (Cons b bases)
  show ?case
  proof (cases "b = base")
    case False
    then have "length base \<le> length b" using Cons.prems by (auto simp: sorted_append)
    with False names_base_longer [of base b] have "\<not> names_base base b" by auto
    then show ?thesis using Cons False by (auto simp: sorted_append)
  qed (simp add: names_base_def)
qed simp

lemma remove_suffix_append [simp]: "t \<noteq> [] \<Longrightarrow> remove_suffix t (s @ t) = s"
  by (simp add: remove_suffix_def ends_with_def)

lemma fixture_of_base:
  assumes "base \<in> set schema_bases"
  shows "schema_name_from_invalid_fixture (base @ u ''.invalid.json'') = base @ u ''.schema.json''"
  using find_longest [OF schema_bases_sorted assms] by (simp add: schema_name_from_invalid_fixture_def)

subsection \<open>What a passing gate means\<close>

lemma load_schemas_Inr:
  assumes "load_schemas files schemas = Inr (errors, schemas')" and "map_of schemas' k = Some d"
  shows "map_of schemas k = Some d \<or> (\<exists>text. (k, text) \<in> set files \<and> load_json text = Inr (Some (JObj d)))"
  using assms
proof (induction files arbitrary: schemas errors)
  case (Cons entry files)
  obtain name body where f: "entry = (name, body)" by (cases entry)
  obtain data where data: "load_json body = Inr data" using Cons.prems(1) by (auto simp: f res_simps)
  have "\<exists>schemas1 errors1. load_schemas files schemas1 = Inr (errors1, schemas')
      \<and> (schemas1 = schemas \<or> (\<exists>d. data = Some (JObj d) \<and> schemas1 = AList.update name d schemas))"
    using Cons.prems(1) data by (auto simp: f res_simps split: option.splits json.splits)
  then obtain schemas1 errors1 where r: "load_schemas files schemas1 = Inr (errors1, schemas')"
      "schemas1 = schemas \<or> (\<exists>d. data = Some (JObj d) \<and> schemas1 = AList.update name d schemas)" by blast
  from Cons.IH [OF r(1) Cons.prems(2)] r(2) data show ?case
    by (cases "k = name") (auto simp: f)
qed simp

lemma load_schemas_clean:
  assumes "load_schemas ((name, body) # files) schemas = Inr ([], schemas')"
  shows "\<exists>d. load_json body = Inr (Some (JObj d)) \<and> missing_key_errors name d = []
    \<and> load_schemas files (AList.update name d schemas) = Inr ([], schemas')"
proof -
  obtain data where data: "load_json body = Inr data" using assms by (auto simp: bindE_eq_Inr)
  show ?thesis
  proof (cases data)
    case None
    with assms data show ?thesis by (simp add: bindE_eq_Inr case_prod_beta)
  next
    case (Some v)
    with assms data show ?thesis by (cases v) (simp_all add: bindE_eq_Inr case_prod_beta)
  qed
qed

lemma load_schemas_covers:
  assumes "load_schemas files schemas = Inr ([], schemas')"
  shows "k \<in> fst ` set schemas \<or> k \<in> fst ` set files \<Longrightarrow> \<exists>d. map_of schemas' k = Some d \<and>
    (k \<in> fst ` set schemas \<and> map_of schemas k = Some d \<or> missing_key_errors k d = [])"
  using assms
proof (induction files arbitrary: schemas)
  case Nil
  then show ?case by (cases "map_of schemas k") (auto simp: map_of_eq_None_iff)
next
  case (Cons entry files)
  obtain name body where f: "entry = (name, body)" by (cases entry)
  obtain d where d: "load_json body = Inr (Some (JObj d))" "missing_key_errors name d = []"
      "load_schemas files (AList.update name d schemas) = Inr ([], schemas')"
    using load_schemas_clean Cons.prems(2) unfolding f by blast
  have "k \<in> fst ` set (AList.update name d schemas) \<or> k \<in> fst ` set files"
    using Cons.prems(1) by (auto simp: f dom_update)
  from Cons.IH [OF this d(3)] obtain e where e: "map_of schemas' k = Some e"
      "map_of (AList.update name d schemas) k = Some e \<or> missing_key_errors k e = []" by blast
  show ?case
  proof (cases "k = name")
    case True
    with e d(2) have "missing_key_errors k e = []" by auto
    with e(1) show ?thesis by blast
  next
    case False
    with e(2) have "k \<in> fst ` set schemas \<and> map_of schemas k = Some e \<or> missing_key_errors k e = []"
      by (metis map_of_eq_None_iff map_of_update_other option.distinct(1))
    with e(1) show ?thesis by blast
  qed
qed

lemma sort_is_Nil [simp]: "sort xs = [] \<longleftrightarrow> xs = []"
  by (metis length_0_conv length_sort)

lemma keys_nonempty: "missing_key_errors k d = [] \<Longrightarrow> d \<noteq> []"
  by (auto simp: missing_key_errors_def dhas_def)

text \<open>
  C22. When the schema gate exits with 0, every required schema is there as an object with the four
  header keys, its valid example is accepted, and some negative fixture made for it is rejected.
\<close>

theorem schema_gate_sound:
  assumes "schema_gate_exit D = Inr 0" and "name \<in> set REQUIRED"
  shows "\<exists>text schema example fixture fixture_text instance failures.
    (name, text) \<in> set (specs_files D) \<and> load_json text = Inr (Some (JObj schema)) \<and> missing_key_errors name schema = []
    \<and> load_json (Option.bind (map_of (example_files D) (valid_example_path name)) id) = Inr (Some example)
    \<and> check_schemas_validate_instance example (JObj schema) (u ''$'') = Inr []
    \<and> (fixture, fixture_text) \<in> set (invalid_files D) \<and> schema_name_from_invalid_fixture fixture = name
    \<and> load_json fixture_text = Inr (Some instance)
    \<and> check_schemas_validate_instance instance (JObj schema) (u ''$'') = Inr failures \<and> failures \<noteq> []"
proof -
  let ?specs = "with_suffix ''.schema.json'' (specs_files D)"
  let ?fixtures = "with_suffix ''.invalid.json'' (invalid_files D)"
  have errors: "schema_gate_errors D = Inr []"
    using assms(1) by (auto simp: schema_gate_exit_def res_simps split: if_splits)
  then obtain schemas where g: "load_schemas ?specs [] = Inr ([], schemas)"
      "concatE (example_errors D schemas) (sort REQUIRED) = Inr []"
      "concatE (invalid_errors schemas) ?fixtures = Inr []"
      "filter (\<lambda>name. name \<notin> fst ` set ?specs) REQUIRED = []"
      "filter (\<lambda>name. name \<notin> set (map (\<lambda>(name, _). schema_name_from_invalid_fixture name) ?fixtures)) REQUIRED = []"
    by (auto simp: schema_gate_errors_def Let_def bindE_eq_Inr case_prod_beta)
  have "name \<in> fst ` set ?specs"
    using g(4) assms(2) by (auto simp: filter_empty_conv)
  then obtain schema where schema: "map_of schemas name = Some schema" "missing_key_errors name schema = []"
    using load_schemas_covers [OF g(1), of name] by auto
  then obtain body where body: "(name, body) \<in> set ?specs" "load_json body = Inr (Some (JObj schema))"
    using load_schemas_Inr [OF g(1) schema(1)] by auto
  have usable: "usable_schema schemas name = Some schema"
    using schema keys_nonempty by (auto simp: usable_schema_def)
  have "example_errors D schemas name = Inr []"
    using g(2) assms(2) by (simp add: concatE_eq_Nil)
  then obtain example where example: "load_json (Option.bind (map_of (example_files D) (valid_example_path name)) id) = Inr (Some example)"
      "check_schemas_validate_instance example (JObj schema) (u ''$'') = Inr []"
    by (auto simp: example_errors_def usable Let_def res_simps split: option.splits)
  obtain fixture fixture_text where fixture: "(fixture, fixture_text) \<in> set ?fixtures"
      "schema_name_from_invalid_fixture fixture = name"
    using g(5) assms(2) by (fastforce simp: filter_empty_conv)
  then have "invalid_errors schemas (fixture, fixture_text) = Inr []"
    using g(3) by (simp add: concatE_eq_Nil)
  then obtain i failures where i: "load_json fixture_text = Inr (Some i)"
      "check_schemas_validate_instance i (JObj schema) (u ''$'') = Inr failures" "failures \<noteq> []"
    by (auto simp: invalid_errors_def fixture(2) usable Let_def res_simps split: option.splits)
  have "set (with_suffix s files) \<subseteq> set files" for s files by (auto simp: with_suffix_def)
  with body schema(2) example fixture i show ?thesis by blast
qed

subsection \<open>Directories that pass\<close>

definition header_schema :: obj where
  "header_schema = [(u ''$schema'', js ''s''), (u ''$id'', js ''i''), (u ''title'', js ''t''), (u ''type'', js ''object'')]"

definition sample_text :: "json \<Rightarrow> ustr option" where
  "sample_text v = Some (render None 0 v)"

definition sample_dirs :: contract_dirs where
  "sample_dirs =
     \<lparr>specs_files = map (\<lambda>n. (n, sample_text (JObj header_schema))) REQUIRED,
      example_files = map (\<lambda>n. (valid_example_path n, sample_text (JObj []))) REQUIRED,
      invalid_files = map (\<lambda>b. (b @ u ''.invalid.json'', sample_text (JArr []))) schema_bases\<rparr>"

lemma load_sample: "wf_json v \<Longrightarrow> load_json (sample_text v) = Inr (Some v)"
  by (simp add: load_json_def sample_text_def loads_written)

lemma required_suffix: "list_all (ends_with (u ''.schema.json'')) REQUIRED"
  by (simp add: REQUIRED_def ends_with_def u_def)

lemma remove_suffix_split: "t \<noteq> [] \<Longrightarrow> ends_with t n \<Longrightarrow> remove_suffix t n @ t = n"
  using append_take_drop_id [of "length n - length t" n] by (simp add: remove_suffix_def ends_with_def)

lemma base_required: "b \<in> set schema_bases \<Longrightarrow> b @ u ''.schema.json'' \<in> set REQUIRED"
  and required_base: "n \<in> set REQUIRED \<Longrightarrow> \<exists>b \<in> set schema_bases. n = b @ u ''.schema.json''"
proof -
  have split: "n = remove_suffix (u ''.schema.json'') n @ u ''.schema.json''" if "n \<in> set REQUIRED" for n
  proof -
    have "ends_with (u ''.schema.json'') n" using required_suffix that unfolding list_all_iff by blast
    then show ?thesis using remove_suffix_split [of "u ''.schema.json''" n] by simp
  qed
  show "b \<in> set schema_bases \<Longrightarrow> b @ u ''.schema.json'' \<in> set REQUIRED"
    using split by (auto simp: set_schema_bases)
  show "n \<in> set REQUIRED \<Longrightarrow> \<exists>b \<in> set schema_bases. n = b @ u ''.schema.json''"
    using split unfolding set_schema_bases by blast
qed

lemma load_same:
  "list_all (\<lambda>f. snd f = sample_text (JObj header_schema)) files \<Longrightarrow>
   \<exists>schemas'. load_schemas files schemas = Inr ([], schemas')
     \<and> (\<forall>n \<in> fst ` set files. map_of schemas' n = Some header_schema)
     \<and> (\<forall>n. map_of schemas n = Some header_schema \<longrightarrow> map_of schemas' n = Some header_schema)"
proof (induction files arbitrary: schemas)
  case (Cons entry files)
  obtain name where f: "entry = (name, sample_text (JObj header_schema))" using Cons.prems by (cases entry) auto
  have keys: "missing_key_errors name header_schema = []"
    by (simp add: missing_key_errors_def header_schema_def dhas_def)
  have header: "load_json (sample_text (JObj header_schema)) = Inr (Some (JObj header_schema))"
    by (rule load_sample) (simp add: header_schema_def)
  obtain schemas' where r: "load_schemas files (AList.update name header_schema schemas) = Inr ([], schemas')"
      "\<forall>n \<in> fst ` set files. map_of schemas' n = Some header_schema"
      "\<forall>n. map_of (AList.update name header_schema schemas) n = Some header_schema \<longrightarrow> map_of schemas' n = Some header_schema"
    using Cons.IH [of "AList.update name header_schema schemas"] Cons.prems by auto
  have "map_of schemas' n = Some header_schema" if "n = name \<or> map_of schemas n = Some header_schema" for n
    using r(3) that by (metis map_of_update_other map_of_update_same)
  with r(1,2) keys header show ?case by (auto simp: f)
qed simp

lemma sample_verdicts:
  "check_schemas_validate_instance (JObj []) (JObj header_schema) (u ''$'') = Inr []"
  "\<exists>failures. check_schemas_validate_instance (JArr []) (JObj header_schema) (u ''$'') = Inr failures \<and> failures \<noteq> []"
  by (simp_all add: check_schemas_validate_instance_def header_schema_def validate_with.simps type_accepts_def dget_def
      dget_or_def check_value_def check_const_def check_enum_def check_string_def check_minimum_def check_min_items_def
      check_required_def check_additional_def when_key_def complain_def)

lemma map_of_const: "x \<in> set xs \<Longrightarrow> map_of (map (\<lambda>x. (f x, c)) xs) (f x) = Some c"
  by (induction xs) auto

lemma set_with_suffix: "set (with_suffix suffix files) = {f \<in> set files. ends_with (u suffix) (fst f)}"
  by (auto simp: with_suffix_def)

lemma sample_gate: "schema_gate_exit sample_dirs = Inr 0"
proof -
  let ?specs = "with_suffix ''.schema.json'' (specs_files sample_dirs)"
  let ?fixtures = "with_suffix ''.invalid.json'' (invalid_files sample_dirs)"
  have all_specs: "set ?specs = (\<lambda>n. (n, sample_text (JObj header_schema))) ` set REQUIRED"
    using required_suffix unfolding set_with_suffix list_all_iff by (auto simp: sample_dirs_def)
  have specs: "fst ` set ?specs = set REQUIRED" "list_all (\<lambda>f. snd f = sample_text (JObj header_schema)) ?specs"
    unfolding list_all_iff all_specs image_image by simp_all
  obtain schemas where schemas: "load_schemas ?specs [] = Inr ([], schemas)"
      "\<forall>n \<in> set REQUIRED. map_of schemas n = Some header_schema"
    using load_same [OF specs(2), of "[]"] specs(1) by auto
  have usable: "usable_schema schemas n = Some header_schema" if "n \<in> set REQUIRED" for n
    using schemas(2) that by (simp add: usable_schema_def header_schema_def)
  have "example_errors sample_dirs schemas n = Inr []" if "n \<in> set REQUIRED" for n
    using usable [OF that] map_of_const [OF that, of valid_example_path "sample_text (JObj [])"]
    by (simp add: example_errors_def Let_def load_sample sample_verdicts) (simp add: sample_dirs_def load_sample sample_verdicts)
  then have examples: "concatE (example_errors sample_dirs schemas) (sort REQUIRED) = Inr []"
    by (simp add: concatE_eq_Nil)
  have fixtures: "set ?fixtures = (\<lambda>b. (b @ u ''.invalid.json'', sample_text (JArr []))) ` set schema_bases"
    unfolding set_with_suffix by (auto simp: sample_dirs_def ends_with_def)
  have "invalid_errors schemas f = Inr []" if "f \<in> set ?fixtures" for f
    using that usable base_required sample_verdicts(2) unfolding fixtures
    by (auto simp: invalid_errors_def Let_def fixture_of_base load_sample flag_def)
  then have invalids: "concatE (invalid_errors schemas) ?fixtures = Inr []"
    by (simp add: concatE_eq_Nil)
  have "set REQUIRED \<subseteq> set (map (\<lambda>(name, _). schema_name_from_invalid_fixture name) ?fixtures)"
    using required_base unfolding set_map fixtures by (force simp: fixture_of_base image_iff)
  then have covered: "filter (\<lambda>n. n \<notin> set (map (\<lambda>(name, _). schema_name_from_invalid_fixture name) ?fixtures)) REQUIRED = []"
    unfolding filter_empty_conv by blast
  have missing: "filter (\<lambda>n. n \<notin> fst ` set ?specs) REQUIRED = []"
    unfolding filter_empty_conv specs(1) by blast
  show ?thesis
    unfolding schema_gate_exit_def schema_gate_errors_def Let_def missing covered schemas(1) bindE.simps prod.case
      examples invalids by simp
qed

theorem schema_gate_sound_witness:
  "schema_gate_exit sample_dirs = Inr 0 \<and> (\<exists>text schema. (u ''audit.schema.json'', text) \<in> set (specs_files sample_dirs)
     \<and> load_json text = Inr (Some (JObj schema)) \<and> missing_key_errors (u ''audit.schema.json'') schema = [])"
proof -
  have "u ''audit.schema.json'' \<in> set REQUIRED" by (simp add: REQUIRED_def)
  from schema_gate_sound [OF sample_gate this] sample_gate show ?thesis by blast
qed

end
