(* ===== verification/Manifest.thy ===== *)
theory Manifest
  imports Py_Path "HOL-Library.Multiset"
begin

text \<open>
  The source manifest (\<open>tooling/manifest.py\<close>): which files of the workspace it covers, how it is built,
  written and checked. A \<open>workspace\<close> is the file system as the tool sees it: \<open>ws_walk\<close> is what
  \<open>ROOT.rglob("*")\<close> yields, relative to the root, \<open>ws_node\<close> what is at a path, \<open>ws_git_listing\<close> the output
  of \<open>git ls-files -z\<close> (\<open>None\<close> when git cannot be run or fails) and \<open>ws_manifest\<close> the text of the manifest
  file. Files can be read; the manifest is UTF-8.
\<close>

definition GLOB_PATTERNS :: "ustr list" where
  "GLOB_PATTERNS = map u
     [''packages/shell_core/**/*.py'', ''tooling/**/*.py'', ''schemas/**/*.json'', ''specs/**/*.json'',
      ''examples/**/*.json'', ''apps/desktop_flutter/lib/**/*.dart'', ''apps/desktop_flutter/test/**/*.dart'',
      ''native/rust_helper/Cargo.toml'', ''native/rust_helper/Cargo.lock'', ''native/rust_helper/src/**/*.rs'',
      ''native/rust_helper/tests/**/*.rs'', ''installer/**/*.py'', ''installer/**/*.ps1'',
      ''installer/**/*.md'', ''scripts/**/*'', ''docs/**/*.md'']"

definition EXACT_FILES :: "ustr list" where
  "EXACT_FILES = map u
     [''.gitattributes'', ''AGENTS.md'', ''ROADMAP.md'', ''CONFORMANCE_REPORT.md'',
      ''COMPATIBILITY_MATRIX.md'', ''apps/desktop_flutter/pubspec.yaml'', ''README.md'', ''QUICKSTART.md'',
      ''CHANGELOG.md'', ''CLAIM.md'', ''RELEASE_CHECKLIST.md'', ''release_blockers.registry.json'',
      ''AUDIT_EVIDENCE.md'', ''INSTALLER_STATUS.md'', ''SECURITY_REVIEW.md'', ''SECURITY.md'',
      ''TROUBLESHOOTING.md'', ''MOBILE_STATUS.md'']"

definition EXCLUDED_PATHS :: "ustr list" where
  "EXCLUDED_PATHS = map u
     [''MANIFEST.sha256.json'', ''apps/mobile_flutter/pubspec.lock'', ''apps/desktop_flutter/flutter_01.log'']"

definition EXCLUDED_PARTS :: "ustr list" where
  "EXCLUDED_PARTS = map u
     [''.git'', ''.idea'', ''.dart_tool'', ''build'', ''ephemeral'', ''target'', ''__pycache__'',
      ''release_evidence'']"

subsection \<open>The workspace\<close>

datatype fs_node = File_node "byte list" | Directory_node

record workspace =
  ws_root :: ppath
  ws_walk :: "ustr list list"
  ws_node :: "ppath \<Rightarrow> fs_node option"
  ws_git_listing :: "ustr option"
  ws_manifest :: "ustr option"

definition ws_at :: "workspace \<Rightarrow> ustr \<Rightarrow> ppath" where
  "ws_at ws s = path_join (ws_root ws) (path_of s)"

definition MANIFEST :: "workspace \<Rightarrow> ppath" where
  "MANIFEST ws = ws_at ws (u ''MANIFEST.sha256.json'')"

definition node_at :: "workspace \<Rightarrow> ppath \<Rightarrow> fs_node option" where
  "node_at ws p =
     (if p = MANIFEST ws then map_option (\<lambda>text. File_node (utf8_encode text)) (ws_manifest ws) else ws_node ws p)"

definition ws_exists :: "workspace \<Rightarrow> ppath \<Rightarrow> bool" where
  "ws_exists ws p \<longleftrightarrow> node_at ws p \<noteq> None"

fun is_file_node :: "fs_node option \<Rightarrow> bool" where
  "is_file_node (Some (File_node _)) = True"
| "is_file_node _ = False"

subsection \<open>Which files are covered\<close>

definition manifest_relative :: "workspace \<Rightarrow> ppath \<Rightarrow> exn + ustr" where
  "manifest_relative ws path =
     (case relative_to path (ws_root ws) of
        None \<Rightarrow> Inl (ValueError (Msg ''{} is not in the subpath of {}''
                                  [JStr (path_text path), JStr (path_text (ws_root ws))]))
      | Some p \<Rightarrow> Inr (path_text p))"

definition is_excluded_relative :: "ustr \<Rightarrow> bool" where
  "is_excluded_relative path \<longleftrightarrow>
     (let normalized = map (\<lambda>c. if c = 92 then 47 else c) path; parts = path_parts (path_of normalized) in
       normalized = []
       \<or> starts_with (u ''/'') normalized
       \<or> normalized \<in> set EXCLUDED_PATHS
       \<or> u ''..'' \<in> set parts
       \<or> list_ex (\<lambda>part. part \<in> set EXCLUDED_PARTS) parts)"

definition is_excluded :: "workspace \<Rightarrow> ppath \<Rightarrow> exn + bool" where
  "is_excluded ws path = bindE (manifest_relative ws path) (\<lambda>r. Inr (is_excluded_relative r))"

definition matches_forbidden :: "ustr \<Rightarrow> bool" where
  "matches_forbidden path = is_excluded_relative path"

text \<open>\<open>raw.split("\0")\<close>; the first argument is the item read so far, reversed.\<close>

fun split_nul :: "ustr \<Rightarrow> ustr \<Rightarrow> ustr list" where
  "split_nul item [] = [rev item]"
| "split_nul item (c # s) = (if c = 0 then rev item # split_nul [] s else split_nul (c # item) s)"

definition git_tracked_files :: "workspace \<Rightarrow> ustr list option" where
  "git_tracked_files ws =
     (if \<not> ws_exists ws (ws_at ws (u ''.git'')) then None
      else map_option (\<lambda>raw. filter (\<lambda>item. item \<noteq> []) (split_nul [] raw)) (ws_git_listing ws))"

definition source_files :: "workspace \<Rightarrow> ppath list \<Rightarrow> exn + ppath list" where
  "source_files ws paths =
     bindE (concatE (\<lambda>p. if is_file_node (node_at ws p)
                         then bindE (is_excluded ws p) (\<lambda>excluded. Inr (if excluded then [] else [p]))
                         else Inr []) paths)
       (\<lambda>ps. Inr (remdups ps))"

definition sorted_files :: "workspace \<Rightarrow> ppath list \<Rightarrow> exn + ppath list" where
  "sorted_files ws paths =
     bindE (mapE (\<lambda>p. bindE (manifest_relative ws p) (\<lambda>r. Inr (r, p))) paths) (\<lambda>keyed.
       Inr (map snd (sort_key fst keyed)))"

text \<open>\<open>(ROOT / "packages" / "shell_core").glob("**/*.py")\<close> yields something.\<close>

definition shell_core_walked :: "workspace \<Rightarrow> bool" where
  "shell_core_walked ws \<longleftrightarrow>
     list_ex (\<lambda>ns. take 2 ns = [u ''packages'', u ''shell_core''] \<and> 2 < length ns \<and> ends_with (u ''.py'') (last ns))
       (ws_walk ws)"

definition walked :: "workspace \<Rightarrow> ppath list" where
  "walked ws = map (\<lambda>ns. path_join (ws_root ws) \<lparr>path_root = [], path_names = ns\<rparr>) (ws_walk ws)"

definition expected_files :: "workspace \<Rightarrow> exn + ppath list \<times> msg list" where
  "expected_files ws =
     (case git_tracked_files ws of
        Some tracked \<Rightarrow>
          bindE (source_files ws (map (ws_at ws) tracked)) (\<lambda>files.
          bindE (sorted_files ws files) (\<lambda>sorted.
            Inr (sorted, remark (files = []) ''the list of source files tracked by git is empty'')))
      | None \<Rightarrow>
          bindE (source_files ws (walked ws)) (\<lambda>files.
          bindE (sorted_files ws files) (\<lambda>sorted.
            Inr (sorted,
              concat (map (\<lambda>name. flag (\<not> ws_exists ws (ws_at ws name))
                                   (Msg ''a required file is missing in the workspace: {}'' [JStr name])) EXACT_FILES)
              @ remark (\<not> shell_core_walked ws) ''the core files of the shell core are missing''))))"

subsection \<open>Building, loading, checking, writing\<close>

definition file_sha256 :: "byte list \<Rightarrow> ustr" where
  "file_sha256 content = hexdigest (sha256 content)"

definition manifest_sha256 :: "workspace \<Rightarrow> ppath \<Rightarrow> exn + ustr" where
  "manifest_sha256 ws p =
     (case node_at ws p of Some (File_node content) \<Rightarrow> Inr (file_sha256 content) | _ \<Rightarrow> Inl OSError)"

definition manifest_entry :: "workspace \<Rightarrow> ppath \<Rightarrow> exn + json" where
  "manifest_entry ws p =
     bindE (manifest_relative ws p) (\<lambda>path.
     bindE (manifest_sha256 ws p) (\<lambda>digest.
       Inr (JObj [(u ''path'', JStr path), (u ''sha256'', JStr digest)])))"

definition SELF_REFERENCE_POLICY :: json where
  "SELF_REFERENCE_POLICY =
     JStr (u ''MANIFEST.sha256.json'' @ [0x306F, 0x81EA, 0x8EAB, 0x306E] @ u ''file'' @ [0x4E00, 0x89A7, 0x304B, 0x3089, 0x9664, 0x5916, 0x3059, 0x308B, 0x3002])"

definition manifest_record :: "json list \<Rightarrow> obj" where
  "manifest_record entries =
     [(u ''version'', JInt 1), (u ''hash'', js ''sha256''), (u ''self_reference_policy'', SELF_REFERENCE_POLICY),
      (u ''coverage'', JObj
         [(u ''glob_patterns'', JArr (map JStr GLOB_PATTERNS)), (u ''exact_files'', JArr (map JStr EXACT_FILES)),
          (u ''excluded_paths'', JArr (map JStr (sort EXCLUDED_PATHS))),
          (u ''excluded_directory_names'', JArr (map JStr (sort EXCLUDED_PARTS)))]),
      (u ''files'', JArr entries)]"

definition files_list :: "obj \<Rightarrow> json list" where
  "files_list d = (case dget d ''files'' of JArr entries \<Rightarrow> entries | _ \<Rightarrow> [])"

definition build_manifest :: "workspace \<Rightarrow> exn + obj \<times> msg list" where
  "build_manifest ws =
     bindE (expected_files ws) (\<lambda>(files, errors).
     bindE (mapE (manifest_entry ws) files) (\<lambda>entries. Inr (manifest_record entries, errors)))"

definition load_manifest :: "workspace \<Rightarrow> exn + obj option \<times> msg list" where
  "load_manifest ws =
     (case ws_manifest ws of
        None \<Rightarrow> Inr (None, [Msg ''MANIFEST.sha256.json is missing'' []])
      | Some text \<Rightarrow>
          (case py_loads (universal_newlines text) of
             Inl JSONDecodeError \<Rightarrow> Inr (None, [Msg ''MANIFEST.sha256.json is not valid JSON'' []])
           | Inl e \<Rightarrow> Inl e
           | Inr (JObj data) \<Rightarrow>
               (case dget data ''files'' of
                  JArr _ \<Rightarrow> Inr (Some data, [])
                | _ \<Rightarrow> Inr (None, [Msg ''MANIFEST.sha256.json must hold a files list'' []]))
           | Inr _ \<Rightarrow> Inr (None, [Msg ''MANIFEST.sha256.json must hold a JSON object'' []])))"

definition listed_file_errors :: "workspace \<Rightarrow> ustr \<Rightarrow> ustr \<Rightarrow> msg list" where
  "listed_file_errors ws path digest =
     (case node_at ws (ws_at ws path) of
        None \<Rightarrow> [Msg ''a listed file is missing: {}'' [JStr path]]
      | Some (File_node content) \<Rightarrow> flag (file_sha256 content \<noteq> digest) (Msg ''hash mismatch: {}'' [JStr path])
      | Some Directory_node \<Rightarrow> [])"

text \<open>The loop over the entries: the findings and the paths seen, with their digests.\<close>

fun check_entries :: "workspace \<Rightarrow> nat \<Rightarrow> (ustr \<times> ustr) list \<Rightarrow> json list \<Rightarrow> msg list \<times> (ustr \<times> ustr) list" where
  "check_entries ws index actual [] = ([], actual)"
| "check_entries ws index actual (JObj entry # entries) =
     (case (dget entry ''path'', dget entry ''sha256'') of
        (JStr path, JStr digest) \<Rightarrow>
          (let (errors, actual') = check_entries ws (Suc index) (AList.update path digest actual) entries
           in (flag (path \<in> fst ` set actual) (Msg ''duplicate manifest entry: {}'' [JStr path])
               @ flag (matches_forbidden path)
                   (Msg ''a forbidden generated file or a self reference is listed: {}'' [JStr path])
               @ listed_file_errors ws path digest @ errors, actual'))
      | _ \<Rightarrow>
          (let (errors, actual') = check_entries ws (Suc index) actual entries
           in (Msg ''manifest entry {} must hold path and sha256 as strings'' [JInt (int index)] # errors, actual')))"
| "check_entries ws index actual (_ # entries) =
     (let (errors, actual') = check_entries ws (Suc index) actual entries
      in (Msg ''manifest entry {} is not an object'' [JInt (int index)] # errors, actual'))"

fun entry_path :: "json \<Rightarrow> ustr list" where
  "entry_path (JObj entry) = (case dget entry ''path'' of JStr path \<Rightarrow> [path] | _ \<Rightarrow> [])"
| "entry_path _ = []"

definition shell_core_path :: "ustr \<Rightarrow> bool" where
  "shell_core_path path \<longleftrightarrow> starts_with (u ''packages/shell_core/'') path \<and> ends_with (u ''.py'') path"

definition check_manifest :: "workspace \<Rightarrow> exn + msg list" where
  "check_manifest ws =
     bindE (build_manifest ws) (\<lambda>(expected, expected_errors).
     bindE (load_manifest ws) (\<lambda>(actual, load_errors).
       case actual of
         None \<Rightarrow> Inr (expected_errors @ load_errors)
       | Some manifest \<Rightarrow>
           (let (errors, actual_by_path) = check_entries ws 0 [] (files_list manifest);
                missing = filter (\<lambda>path. path \<notin> fst ` set actual_by_path)
                            (sort (remdups (concat (map entry_path (files_list expected)))))
            in Inr (expected_errors @ load_errors @ errors
                 @ map (\<lambda>path. Msg ''a required source file is not in the manifest: {}'' [JStr path]) missing
                 @ remark (\<not> list_ex (\<lambda>(path, _). shell_core_path path) actual_by_path)
                     ''the core files of the shell core are not in the manifest''))))"

definition manifest_text :: "obj \<Rightarrow> ustr" where
  "manifest_text manifest = render (Some 2) 0 (JObj manifest) @ [10]"

definition write_manifest :: "workspace \<Rightarrow> exn + nat \<times> workspace" where
  "write_manifest ws =
     bindE (build_manifest ws) (\<lambda>(manifest, errors).
       Inr (if errors \<noteq> [] then (1, ws) else (0, ws\<lparr>ws_manifest := Some (manifest_text manifest)\<rparr>)))"

definition run_check :: "workspace \<Rightarrow> exn + nat" where
  "run_check ws = bindE (check_manifest ws) (\<lambda>errors. Inr (if errors \<noteq> [] then 1 else 0))"

subsection \<open>Relative paths name the file they come from\<close>

text \<open>What the paths the tool enumerates have in common.\<close>

definition plain_path :: "ppath \<Rightarrow> bool" where
  "plain_path p \<longleftrightarrow> path_ok p \<and> list_all (list_all scalar) (path_names p)"

definition workspace_ok :: "workspace \<Rightarrow> bool" where
  "workspace_ok ws \<longleftrightarrow> plain_path (ws_root ws)
     \<and> list_all (\<lambda>ns. plain_path \<lparr>path_root = [], path_names = ns\<rparr>) (ws_walk ws)
     \<and> (\<forall>raw. ws_git_listing ws = Some raw \<longrightarrow> list_all scalar raw)"

lemma relative_join:
  assumes "relative_to p base = Some q"
  shows "path_root q = [] \<and> path_join base q = p"
proof -
  let ?n = "length (path_names base)"
  have "path_names base = take ?n (path_names p)" "path_root p = path_root base"
    and q: "q = \<lparr>path_root = [], path_names = drop ?n (path_names p)\<rparr>"
    using assms by (auto simp: relative_to_def split: if_splits)
  then have "path_names base @ drop ?n (path_names p) = path_names p"
    by (metis append_take_drop_id)
  with q \<open>path_root p = path_root base\<close> show ?thesis by (cases p) (simp add: path_join_def)
qed

lemma plain_relative:
  assumes "plain_path p" and "relative_to p base = Some q"
  shows "plain_path q"
proof -
  have q: "path_root q = []" "path_names q = drop (length (path_names base)) (path_names p)"
    using assms(2) by (auto simp: relative_to_def split: if_splits)
  have "list_all P xs \<Longrightarrow> list_all P (drop n xs)" for P :: "ustr \<Rightarrow> bool" and n xs
    unfolding list_all_iff by (blast dest: in_set_dropD)
  with assms(1) show ?thesis
    unfolding plain_path_def path_ok_def q by simp
qed

lemma at_relative:
  assumes "manifest_relative ws p = Inr r" and "plain_path p"
  shows "ws_at ws r = p"
proof -
  obtain q where q: "relative_to p (ws_root ws) = Some q" "r = path_text q"
    using assms(1) by (auto simp: manifest_relative_def split: option.splits)
  then have "path_of r = q"
    using plain_relative [OF assms(2) q(1)] relative_join [OF q(1)] by (simp add: plain_path_def path_of_text)
  then show ?thesis using relative_join [OF q(1)] by (simp add: ws_at_def)
qed

lemma scalar_join: "list_all (list_all scalar) xs \<Longrightarrow> list_all scalar (join [47] xs)"
  by (induction xs rule: induct_list012) (auto simp: scalar_def)

lemma relative_scalar:
  assumes "manifest_relative ws p = Inr r" and "plain_path p"
  shows "list_all scalar r"
proof -
  obtain q where q: "relative_to p (ws_root ws) = Some q" "r = path_text q"
    using assms(1) by (auto simp: manifest_relative_def split: option.splits)
  then show ?thesis
    using plain_relative [OF assms(2) q(1)] relative_join [OF q(1)] scalar_join
    by (simp add: path_text_def join_with_def plain_path_def u_def scalar_def)
qed

lemma plain_join: "plain_path p \<Longrightarrow> plain_path q \<Longrightarrow> plain_path (path_join p q)"
  by (auto simp: plain_path_def path_ok_def path_join_def)

lemma scalar_split_slash: "list_all scalar acc \<Longrightarrow> list_all scalar s \<Longrightarrow> list_all (list_all scalar) (split_slash acc s)"
  by (induction acc s rule: split_slash.induct) (auto simp: list_all_rev)

lemma plain_path_of: "list_all scalar s \<Longrightarrow> plain_path (path_of s)"
  using scalar_split_slash [of "[]" s] path_ok_of [of s] by (auto simp: plain_path_def path_of_def list_all_iff)

lemma scalar_split_nul: "list_all scalar acc \<Longrightarrow> list_all scalar s \<Longrightarrow> list_all (list_all scalar) (split_nul acc s)"
  by (induction acc s rule: split_nul.induct) (auto simp: list_all_rev)

text \<open>The paths one run enumerates: those git lists, or those below the root.\<close>

definition candidates :: "workspace \<Rightarrow> ppath list" where
  "candidates ws = (case git_tracked_files ws of Some tracked \<Rightarrow> map (ws_at ws) tracked | None \<Rightarrow> walked ws)"

lemma candidates_plain:
  assumes "workspace_ok ws" and "p \<in> set (candidates ws)"
  shows "plain_path p"
proof -
  have root: "plain_path (ws_root ws)" using assms(1) by (simp add: workspace_ok_def)
  show ?thesis
  proof (cases "git_tracked_files ws")
    case None
    with assms show ?thesis
      by (auto simp: candidates_def walked_def workspace_ok_def list_all_iff intro!: plain_join)
  next
    case (Some tracked)
    then obtain raw where "list_all scalar raw" "set tracked \<subseteq> set (split_nul [] raw)"
      using assms(1) by (auto simp: git_tracked_files_def workspace_ok_def split: if_splits)
    then have "list_all (list_all scalar) tracked"
      using scalar_split_nul [of "[]" raw] by (auto simp: list_all_iff)
    with Some assms(2) root show ?thesis
      by (auto simp: candidates_def ws_at_def list_all_iff intro!: plain_join plain_path_of)
  qed
qed

lemma sorted_files_Inr:
  assumes "sorted_files ws ps = Inr qs"
  shows "set qs = set ps" and "distinct ps \<Longrightarrow> distinct qs" and "\<forall>p \<in> set ps. \<exists>r. manifest_relative ws p = Inr r"
proof -
  obtain keyed where k: "mapE (\<lambda>p. bindE (manifest_relative ws p) (\<lambda>r. Inr (r, p))) ps = Inr keyed"
      "qs = map snd (sort_key fst keyed)"
    using assms by (auto simp: sorted_files_def res_simps)
  then have snd: "map snd keyed = ps \<and> (\<forall>p \<in> set ps. \<exists>r. manifest_relative ws p = Inr r)"
    by (induction ps arbitrary: keyed qs) (auto simp: res_simps)
  have "mset qs = mset (map snd keyed)"
    unfolding k(2) by (simp only: mset_map mset_sort)
  then have m: "mset qs = mset ps" using snd by simp
  then show "set qs = set ps" by (rule mset_eq_setD)
  show "distinct ps \<Longrightarrow> distinct qs" using m by (metis mset_eq_imp_distinct_iff)
  show "\<forall>p \<in> set ps. \<exists>r. manifest_relative ws p = Inr r" using snd by simp
qed

lemma source_files_Inr:
  assumes "source_files ws ps = Inr qs"
  shows "distinct qs"
    and "p \<in> set qs \<longleftrightarrow> p \<in> set ps \<and> is_file_node (node_at ws p) \<and> is_excluded ws p = Inr False"
proof -
  obtain rs where c: "concatE (\<lambda>p. if is_file_node (node_at ws p)
        then bindE (is_excluded ws p) (\<lambda>excluded. Inr (if excluded then [] else [p])) else Inr []) ps = Inr rs"
      "qs = remdups rs"
    using assms by (auto simp: source_files_def res_simps)
  then show "distinct qs" by simp
  have "p \<in> set rs \<longleftrightarrow> p \<in> set ps \<and> is_file_node (node_at ws p) \<and> is_excluded ws p = Inr False"
    using c(1) by (induction ps arbitrary: rs) (auto simp: res_simps split: if_splits)
  with c(2) show "p \<in> set qs \<longleftrightarrow> p \<in> set ps \<and> is_file_node (node_at ws p) \<and> is_excluded ws p = Inr False" by simp
qed

lemma expected_files_Inr:
  assumes "expected_files ws = Inr (files, errors)"
  shows "distinct files"
    and "p \<in> set files \<longleftrightarrow> p \<in> set (candidates ws) \<and> is_file_node (node_at ws p) \<and> is_excluded ws p = Inr False"
proof -
  obtain qs where "source_files ws (candidates ws) = Inr qs" "sorted_files ws qs = Inr files"
    using assms by (auto simp: expected_files_def candidates_def res_simps split: option.splits)
  then show "distinct files"
      "p \<in> set files \<longleftrightarrow> p \<in> set (candidates ws) \<and> is_file_node (node_at ws p) \<and> is_excluded ws p = Inr False"
    using sorted_files_Inr source_files_Inr by blast+
qed

lemma file_in_candidates:
  assumes "workspace_ok ws" and "expected_files ws = Inr (files, errors)" and "p \<in> set files"
  shows "plain_path p" and "\<exists>content. node_at ws p = Some (File_node content)"
    and "\<exists>r. manifest_relative ws p = Inr r \<and> \<not> is_excluded_relative r"
proof -
  have p: "p \<in> set (candidates ws)" "is_file_node (node_at ws p)" "is_excluded ws p = Inr False"
    using expected_files_Inr(2) [OF assms(2)] assms(3) by blast+
  show "plain_path p" using candidates_plain [OF assms(1) p(1)] .
  show "\<exists>content. node_at ws p = Some (File_node content)"
    using p(2) by (cases "node_at ws p" rule: is_file_node.cases) auto
  show "\<exists>r. manifest_relative ws p = Inr r \<and> \<not> is_excluded_relative r"
    using p(3) by (auto simp: is_excluded_def res_simps)
qed

subsection \<open>The entries\<close>

fun entry_json :: "ustr \<times> ustr \<Rightarrow> json" where
  "entry_json (path, digest) = JObj [(u ''path'', JStr path), (u ''sha256'', JStr digest)]"

text \<open>An entry that is right for the workspace as it is.\<close>

fun entry_ok :: "workspace \<Rightarrow> ustr \<times> ustr \<Rightarrow> bool" where
  "entry_ok ws (path, digest) \<longleftrightarrow> manifest_relative ws (ws_at ws path) = Inr path \<and> list_all scalar path
     \<and> \<not> is_excluded_relative path
     \<and> (\<exists>content. node_at ws (ws_at ws path) = Some (File_node content) \<and> digest = file_sha256 content)"

lemma entries_of_files:
  assumes "mapE (manifest_entry ws) files = Inr entries"
    and "\<And>p. p \<in> set files \<Longrightarrow> plain_path p
           \<and> (\<exists>r. manifest_relative ws p = Inr r \<and> \<not> is_excluded_relative r)"
  shows "\<exists>pairs. entries = map entry_json pairs \<and> map (\<lambda>e. ws_at ws (fst e)) pairs = files \<and> list_all (entry_ok ws) pairs"
  using assms
proof (induction files arbitrary: entries)
  case (Cons p files)
  obtain r where r: "manifest_relative ws p = Inr r" "\<not> is_excluded_relative r" "plain_path p"
    using Cons.prems(2) by (metis list.set_intros(1))
  obtain e es where e: "manifest_entry ws p = Inr e" "mapE (manifest_entry ws) files = Inr es" "entries = e # es"
    using Cons.prems(1) by (auto simp: res_simps)
  then obtain pairs where pairs: "es = map entry_json pairs" "map (\<lambda>e. ws_at ws (fst e)) pairs = files"
      "list_all (entry_ok ws) pairs"
    using Cons.IH [OF e(2)] Cons.prems(2) by (metis list.set_intros(2))
  obtain content where c: "node_at ws p = Some (File_node content)" "e = entry_json (r, file_sha256 content)"
    using e(1) r(1) by (auto simp: manifest_entry_def manifest_sha256_def res_simps split: option.splits fs_node.splits)
  have "entry_ok ws (r, file_sha256 content)"
    using r c(1) at_relative [OF r(1,3)] relative_scalar [OF r(1,3)] by simp
  then show ?case
    using e(3) c(2) pairs at_relative [OF r(1,3)]
    by (intro exI [of _ "(r, file_sha256 content) # pairs"]) simp
qed simp

lemma build_manifest_Inr:
  assumes "workspace_ok ws" and "build_manifest ws = Inr (manifest, errors)"
  shows "\<exists>files pairs. expected_files ws = Inr (files, errors) \<and> manifest = manifest_record (map entry_json pairs)
    \<and> map (\<lambda>e. ws_at ws (fst e)) pairs = files \<and> list_all (entry_ok ws) pairs \<and> distinct (map fst pairs)"
proof -
  obtain files entries where f: "expected_files ws = Inr (files, errors)" "manifest = manifest_record entries"
      "mapE (manifest_entry ws) files = Inr entries"
    using assms(2) by (auto simp: build_manifest_def res_simps)
  obtain pairs where pairs: "entries = map entry_json pairs" "map (\<lambda>e. ws_at ws (fst e)) pairs = files"
      "list_all (entry_ok ws) pairs"
    using entries_of_files [OF f(3)] file_in_candidates [OF assms(1) f(1)] by metis
  have "distinct (map (ws_at ws) (map fst pairs))"
    using expected_files_Inr(1) [OF f(1)] pairs(2) by (simp add: comp_def)
  then have "distinct (map fst pairs)" unfolding distinct_map [of "ws_at ws"] by blast
  with f pairs show ?thesis by blast
qed

lemma check_entries_ok:
  assumes "distinct (map fst actual @ map fst pairs)"
    and "list_all (\<lambda>(path, digest). \<not> is_excluded_relative path \<and> listed_file_errors ws path digest = []) pairs"
  shows "check_entries ws i actual (map entry_json pairs) = ([], actual @ pairs)"
  using assms
proof (induction pairs arbitrary: i actual)
  case (Cons e pairs)
  obtain path digest where e: "e = (path, digest)" by (cases e)
  then have new: "path \<notin> fst ` set actual" using Cons.prems(1) by auto
  with Cons e show ?case
    by (simp add: dget_def dget_or_def matches_forbidden_def update_notin flag_def)
qed simp

lemma files_list_record [simp]: "files_list (manifest_record entries) = entries"
  by (simp add: manifest_record_def dget_def dget_or_def files_list_def)

lemma entry_path_json [simp]: "entry_path (entry_json e) = [fst e]"
  by (cases e) (simp add: dget_def dget_or_def)

lemma concat_entry_paths [simp]: "concat (map entry_path (map entry_json pairs)) = map fst pairs"
  by (induction pairs) auto

lemma wf_strings: "list_all wf_json (map JStr (map u ss))" "list_all wf_json (map JStr (sort (map u ss)))"
  using list_all_scalar_u by (auto simp: list_all_iff)

lemma wf_entry:
  assumes "entry_ok ws e"
  shows "wf_json (entry_json e)"
proof -
  obtain path content where e: "e = (path, file_sha256 content)" "list_all scalar path"
    using assms by (cases e) auto
  have "is_lower_hex c \<Longrightarrow> scalar c" for c by (auto simp: is_lower_hex_def scalar_def)
  then have "list_all scalar (file_sha256 content)"
    using hexdigest_chars [of "sha256 content"] unfolding file_sha256_def list_all_iff by blast
  with e show ?thesis by simp
qed

lemma wf_policy: "wf_json SELF_REFERENCE_POLICY"
  unfolding SELF_REFERENCE_POLICY_def wf_json.simps list_all_append by (intro conjI list_all_scalar_u) (simp_all add: scalar_def)

lemma wf_manifest_record:
  assumes "list_all (entry_ok ws) pairs"
  shows "wf_json (JObj (manifest_record (map entry_json pairs)))"
proof -
  have entries: "wf_json (JArr (map entry_json pairs))"
    using assms wf_entry unfolding wf_json.simps list_all_iff by auto
  have lists: "wf_json (JArr (map JStr GLOB_PATTERNS))" "wf_json (JArr (map JStr EXACT_FILES))"
      "wf_json (JArr (map JStr (sort EXCLUDED_PATHS)))" "wf_json (JArr (map JStr (sort EXCLUDED_PARTS)))"
    unfolding wf_json.simps GLOB_PATTERNS_def EXACT_FILES_def EXCLUDED_PATHS_def EXCLUDED_PARTS_def
    by (rule wf_strings)+
  show ?thesis
    unfolding manifest_record_def using entries lists wf_policy
    by (simp del: wf_json.simps(2) add: list_all_scalar_u)
qed

subsection \<open>Writing the manifest changes nothing it covers\<close>

abbreviation written :: "workspace \<Rightarrow> ustr \<Rightarrow> workspace" where
  "written ws text \<equiv> ws\<lparr>ws_manifest := Some text\<rparr>"

lemma path_of_MANIFEST [simp]: "path_of (u ''MANIFEST.sha256.json'') = \<lparr>path_root = [], path_names = [u ''MANIFEST.sha256.json'']\<rparr>"
  by (simp add: path_of_def root_of_def u_def)

lemma manifest_relative_written [simp]: "manifest_relative (written ws t) = manifest_relative ws"
  by (simp add: fun_eq_iff manifest_relative_def split: option.split)

lemma written_simps [simp]:
  "ws_at (written ws t) = ws_at ws" "MANIFEST (written ws t) = MANIFEST ws"
  "is_excluded (written ws t) = is_excluded ws" "walked (written ws t) = walked ws"
  "shell_core_walked (written ws t) = shell_core_walked ws" "sorted_files (written ws t) = sorted_files ws"
  by (simp_all add: fun_eq_iff ws_at_def MANIFEST_def is_excluded_def walked_def shell_core_walked_def sorted_files_def)

lemma node_written: "p \<noteq> MANIFEST ws \<Longrightarrow> node_at (written ws t) p = node_at ws p"
  by (simp add: node_at_def)

lemma MANIFEST_relative: "manifest_relative ws (MANIFEST ws) = Inr (u ''MANIFEST.sha256.json'')"
  by (simp add: manifest_relative_def MANIFEST_def ws_at_def path_join_def relative_to_def path_text_def join_with_def)

lemma MANIFEST_excluded: "is_excluded ws (MANIFEST ws) = Inr True"
proof -
  have "map (\<lambda>c. if c = 92 then 47 else c) (u ''MANIFEST.sha256.json'') = u ''MANIFEST.sha256.json''"
    by (simp add: u_def)
  then show ?thesis
    by (simp add: is_excluded_def MANIFEST_relative is_excluded_relative_def Let_def EXCLUDED_PATHS_def)
qed

lemma at_not_MANIFEST: "path_names (path_of s) \<noteq> [u ''MANIFEST.sha256.json''] \<Longrightarrow> path_root (path_of s) = [] \<Longrightarrow> ws_at ws s \<noteq> MANIFEST ws"
  by (auto simp: ws_at_def MANIFEST_def path_join_def dest: arg_cong [of _ _ path_names])

lemma exact_not_MANIFEST: "s = u ''.git'' \<or> s \<in> set EXACT_FILES \<Longrightarrow> ws_at ws s \<noteq> MANIFEST ws"
  by (rule at_not_MANIFEST) (auto simp: EXACT_FILES_def path_of_def root_of_def u_def)

lemma expected_files_written: "expected_files (written ws t) = expected_files ws"
proof -
  have git: "git_tracked_files (written ws t) = git_tracked_files ws"
    using exact_not_MANIFEST [of "u ''.git''" ws] by (simp add: git_tracked_files_def ws_exists_def node_written)
  have exact: "map (\<lambda>name. flag (\<not> ws_exists (written ws t) (ws_at ws name)) (m name)) EXACT_FILES
      = map (\<lambda>name. flag (\<not> ws_exists ws (ws_at ws name)) (m name)) EXACT_FILES" for m
    using exact_not_MANIFEST by (intro map_cong refl) (simp add: ws_exists_def node_written)
  have "(\<lambda>p. if is_file_node (node_at (written ws t) p)
           then bindE (is_excluded ws p) (\<lambda>excluded. Inr (if excluded then [] else [p])) else Inr [])
      = (\<lambda>p. if is_file_node (node_at ws p)
           then bindE (is_excluded ws p) (\<lambda>excluded. Inr (if excluded then [] else [p])) else Inr [])"
    (is "?f = ?g")
  proof
    fix p
    show "?f p = ?g p"
      by (cases "p = MANIFEST ws") (simp_all add: MANIFEST_excluded node_written)
  qed
  then have source: "source_files (written ws t) = source_files ws"
    unfolding source_files_def fun_eq_iff written_simps by simp
  show ?thesis
    unfolding expected_files_def git by (cases "git_tracked_files ws") (simp_all add: exact source)
qed

lemma mapE_cong: "(\<And>x. x \<in> set xs \<Longrightarrow> f x = g x) \<Longrightarrow> mapE f xs = mapE g xs"
  by (induction xs) auto

lemma build_manifest_written: "build_manifest (written ws t) = build_manifest ws"
proof -
  have "mapE (manifest_entry (written ws t)) files = mapE (manifest_entry ws) files"
    if "expected_files ws = Inr (files, errors)" for files errors
  proof (rule mapE_cong)
    fix p assume "p \<in> set files"
    then have "p \<noteq> MANIFEST ws" using expected_files_Inr(2) [OF that] MANIFEST_excluded [of ws] by auto
    then show "manifest_entry (written ws t) p = manifest_entry ws p"
      by (simp add: manifest_entry_def manifest_sha256_def node_written)
  qed
  then show ?thesis
    by (cases "expected_files ws") (auto simp: build_manifest_def expected_files_written)
qed

lemma load_written:
  assumes "wf_json (JObj m)" and "is_list (dget m ''files'')"
  shows "load_manifest (written ws (manifest_text m)) = Inr (Some m, [])"
proof -
  have "13 \<notin> set (manifest_text m)"
    using text_char_render [of "Some 2" 0 "JObj m"]
    by (auto simp: manifest_text_def text_char_def list_all_iff simp del: render.simps)
  then have "py_loads (universal_newlines (manifest_text m)) = Inr (JObj m)"
    using loads_render_space [OF assms(1), of "[10]" "Some 2" 0]
    by (simp add: universal_newlines_id py_loads_def manifest_text_def del: render.simps)
  with assms(2) show ?thesis by (auto simp: load_manifest_def is_list_iff)
qed

text \<open>What a written manifest holds.\<close>

lemma write_manifest_Inr:
  assumes "workspace_ok ws" and "write_manifest ws = Inr (0, ws')"
  shows "\<exists>files pairs. expected_files ws = Inr (files, []) \<and> map (\<lambda>e. ws_at ws (fst e)) pairs = files
    \<and> list_all (entry_ok ws) pairs \<and> distinct (map fst pairs)
    \<and> ws' = written ws (manifest_text (manifest_record (map entry_json pairs)))
    \<and> build_manifest ws = Inr (manifest_record (map entry_json pairs), [])"
  using assms(2) build_manifest_Inr [OF assms(1)] by (auto simp: write_manifest_def res_simps split: if_splits)

lemma load_record:
  assumes "list_all (entry_ok ws) pairs" and "ws_manifest later = Some (manifest_text (manifest_record (map entry_json pairs)))"
  shows "load_manifest later = Inr (Some (manifest_record (map entry_json pairs)), [])"
proof -
  have "is_list (dget (manifest_record es) ''files'')" for es
    by (simp add: manifest_record_def dget_def dget_or_def)
  moreover have "later = written later (manifest_text (manifest_record (map entry_json pairs)))"
    using assms(2) by (cases later) simp
  ultimately show ?thesis
    using load_written [OF wf_manifest_record [OF assms(1)], of later] by simp
qed

lemma check_written:
  assumes "workspace_ok ws" and "write_manifest ws = Inr (0, ws')"
  shows "\<exists>pairs. expected_files ws = Inr (map (\<lambda>e. ws_at ws (fst e)) pairs, []) \<and> list_all (entry_ok ws) pairs
    \<and> check_manifest ws' = Inr (remark (\<not> list_ex shell_core_path (map fst pairs))
        ''the core files of the shell core are not in the manifest'')"
proof -
  obtain files pairs where w: "expected_files ws = Inr (files, [])" "map (\<lambda>e. ws_at ws (fst e)) pairs = files"
      "list_all (entry_ok ws) pairs" "distinct (map fst pairs)"
      "ws' = written ws (manifest_text (manifest_record (map entry_json pairs)))"
      "build_manifest ws = Inr (manifest_record (map entry_json pairs), [])"
    using write_manifest_Inr [OF assms] by blast
  have "listed_file_errors ws' path digest = [] \<and> \<not> is_excluded_relative path" if e: "(path, digest) \<in> set pairs" for path digest
  proof -
    have ok: "entry_ok ws (path, digest)" using w(3) e by (auto simp: list_all_iff)
    then have "ws_at ws path \<noteq> MANIFEST ws"
      using MANIFEST_excluded [of ws] by (auto simp: is_excluded_def)
    with ok show ?thesis by (auto simp: listed_file_errors_def w(5) node_written flag_def)
  qed
  then have "check_entries ws' 0 [] (map entry_json pairs) = ([], pairs)"
    using check_entries_ok [of "[]" pairs ws' 0] w(4) by (auto simp: list_all_iff)
  moreover have "load_manifest ws' = Inr (Some (manifest_record (map entry_json pairs)), [])"
    using load_record [OF w(3)] w(5) by simp
  moreover have "build_manifest ws' = build_manifest ws"
    by (simp add: w(5) build_manifest_written)
  moreover have "filter (\<lambda>path. path \<notin> fst ` set pairs) (sort (remdups (map fst pairs))) = []"
    by (auto simp: filter_empty_conv)
  moreover have "list_ex (\<lambda>(path, _). shell_core_path path) pairs = list_ex shell_core_path (map fst pairs)"
    by (induction pairs) auto
  ultimately have "check_manifest ws' = Inr (remark (\<not> list_ex shell_core_path (map fst pairs))
        ''the core files of the shell core are not in the manifest'')"
    using w(6) by (simp add: check_manifest_def)
  with w(1-3) show ?thesis by (intro exI [of _ pairs]) simp
qed

text \<open>
  C27. Writing the manifest and checking it at once: the check reports nothing, except that it
  reports missing core files when no listed path is one of the shell core (the write does not test that
  when git lists the files).
\<close>

theorem manifest_round_trip:
  assumes "workspace_ok ws" and "write_manifest ws = Inr (0, ws')"
  shows "\<exists>files paths. expected_files ws = Inr (files, []) \<and> map (ws_at ws) paths = files
    \<and> check_manifest ws' = Inr (remark (\<not> list_ex shell_core_path paths)
        ''the core files of the shell core are not in the manifest'')"
proof -
  obtain pairs :: "(ustr \<times> ustr) list" where "expected_files ws = Inr (map (\<lambda>e. ws_at ws (fst e)) pairs, [])"
      "check_manifest ws' = Inr (remark (\<not> list_ex shell_core_path (map fst pairs))
        ''the core files of the shell core are not in the manifest'')"
    using check_written [OF assms] by blast
  then show ?thesis by (intro exI [of _ "map (ws_at ws) (map fst pairs)"] exI [of _ "map fst pairs"]) (simp add: comp_def)
qed

subsection \<open>A clean check\<close>

lemma check_entries_clean:
  assumes "check_entries ws i actual (map entry_json pairs) = ([], actual')"
  shows "fst ` set actual' = fst ` set actual \<union> fst ` set pairs
    \<and> list_all (\<lambda>(path, digest). listed_file_errors ws path digest = []) pairs"
  using assms
proof (induction pairs arbitrary: i actual)
  case (Cons e pairs)
  obtain path digest where e: "e = (path, digest)" by (cases e)
  let ?r = "check_entries ws (Suc i) (AList.update path digest actual) (map entry_json pairs)"
  have "?r = ([], actual')" "listed_file_errors ws path digest = []"
    using Cons.prems e by (auto simp: dget_def dget_or_def split: prod.splits)
  with Cons.IH show ?case by (auto simp: e dom_update)
qed simp_all

text \<open>
  C26. A manifest detects changes: when a later workspace holds the written manifest and passes the
  check, it covers no file the written one did not, and every file that was covered is still there with
  the same content (up to a collision of SHA-256) or has become a directory.
\<close>

theorem manifest_detects_change:
  assumes "workspace_ok ws" and "write_manifest ws = Inr (0, ws')" and "expected_files ws = Inr (files, [])"
    and "workspace_ok later" and "ws_root later = ws_root ws" and "ws_manifest later = ws_manifest ws'"
    and "run_check later = Inr 0" and "p \<in> set files"
  shows "(\<exists>later_files. expected_files later = Inr (later_files, []) \<and> set later_files \<subseteq> set files)
    \<and> (\<exists>content. node_at ws p = Some (File_node content)
      \<and> (node_at later p = Some Directory_node
         \<or> (\<exists>content'. node_at later p = Some (File_node content') \<and> (content' = content \<or> collides content content'))))"
proof -
  obtain pairs where w: "map (\<lambda>e. ws_at ws (fst e)) pairs = files" "list_all (entry_ok ws) pairs"
      "ws' = written ws (manifest_text (manifest_record (map entry_json pairs)))"
    using write_manifest_Inr [OF assms(1,2)] assms(3) by auto
  have load: "load_manifest later = Inr (Some (manifest_record (map entry_json pairs)), [])"
    using load_record [OF w(2)] w(3) assms(6) by simp
  have root: "ws_at later = ws_at ws" using assms(5) by (simp add: fun_eq_iff ws_at_def)
  have check: "check_manifest later = Inr []"
    using assms(7) by (auto simp: run_check_def res_simps split: if_splits)
  then obtain expected where b: "build_manifest later = Inr (expected, [])"
    using load by (cases "check_entries later 0 [] (map entry_json pairs)") (auto simp: check_manifest_def res_simps)
  obtain files' pairs' where l: "expected_files later = Inr (files', [])" "expected = manifest_record (map entry_json pairs')"
      "map (\<lambda>e. ws_at later (fst e)) pairs' = files'"
    using build_manifest_Inr [OF assms(4) b] by blast
  obtain actual where c: "check_entries later 0 [] (map entry_json pairs) = ([], actual)"
      "\<forall>path \<in> fst ` set pairs'. path \<in> fst ` set actual"
    using check b load l(2)
    by (auto simp: check_manifest_def filter_empty_conv split: prod.splits)
  have "fst ` set pairs' \<subseteq> fst ` set pairs"
    using check_entries_clean [OF c(1)] c(2) by auto
  moreover have "set files = ws_at ws ` fst ` set pairs" "set files' = ws_at ws ` fst ` set pairs'"
    using w(1) l(3) root by (metis list.set_map image_image)+
  ultimately have "set files' \<subseteq> set files" by (simp add: image_mono)
  then have covered: "\<exists>later_files. expected_files later = Inr (later_files, []) \<and> set later_files \<subseteq> set files"
    using l(1) by blast
  obtain path digest where e: "(path, digest) \<in> set pairs" "p = ws_at ws path"
    using w(1) assms(8) by auto
  then obtain content where n: "node_at ws p = Some (File_node content)" "digest = file_sha256 content"
    using w(2) by (fastforce simp: list_all_iff)
  have "listed_file_errors later path digest = []"
    using check_entries_clean [OF c(1)] e(1) by (auto simp: list_all_iff)
  then have "\<exists>content. node_at ws p = Some (File_node content)
      \<and> (node_at later p = Some Directory_node
         \<or> (\<exists>content'. node_at later p = Some (File_node content') \<and> (content' = content \<or> collides content content')))"
    using n e(2) root
    by (auto simp: listed_file_errors_def file_sha256_def collides_def split: option.splits fs_node.splits dest: hexdigest_inj)
  with covered show ?thesis by blast
qed

subsection \<open>A small workspace\<close>

definition sample_file :: ppath where
  "sample_file = path_of (u ''/w/packages/shell_core/a.py'')"

definition sample_workspace :: workspace where
  "sample_workspace =
     \<lparr>ws_root = path_of (u ''/w''), ws_walk = [],
      ws_node = (\<lambda>p. if p = sample_file then Some (File_node [1, 2])
                     else if p = path_of (u ''/w/.git'') then Some Directory_node else None),
      ws_git_listing = Some (u ''packages/shell_core/a.py'' @ [0]), ws_manifest = None\<rparr>"

lemma sample_paths:
  "path_of (u ''/w'') = \<lparr>path_root = [47], path_names = [u ''w'']\<rparr>"
  "path_of (u ''/w/.git'') = \<lparr>path_root = [47], path_names = [u ''w'', u ''.git'']\<rparr>"
  "path_of (u ''.git'') = \<lparr>path_root = [], path_names = [u ''.git'']\<rparr>"
  "path_of (u ''packages/shell_core/a.py'') = \<lparr>path_root = [], path_names = [u ''packages'', u ''shell_core'', u ''a.py'']\<rparr>"
  "sample_file = \<lparr>path_root = [47], path_names = [u ''w'', u ''packages'', u ''shell_core'', u ''a.py'']\<rparr>"
  by (simp_all add: path_of_def root_of_def u_def sample_file_def)

lemma sample_ok: "workspace_ok sample_workspace"
  by (simp add: workspace_ok_def sample_workspace_def sample_paths plain_path_def path_ok_def scalar_def)
    (simp add: u_def)

lemma sample_git: "git_tracked_files sample_workspace = Some [u ''packages/shell_core/a.py'']"
  by (simp add: git_tracked_files_def ws_exists_def node_at_def MANIFEST_def ws_at_def sample_workspace_def sample_paths path_join_def)
    (simp add: u_def)

lemma sample_relative: "manifest_relative sample_workspace sample_file = Inr (u ''packages/shell_core/a.py'')"
  by (simp add: manifest_relative_def relative_to_def sample_workspace_def sample_paths path_text_def join_with_def)
    (simp add: u_def)

lemma sample_included: "\<not> is_excluded_relative (u ''packages/shell_core/a.py'')"
  by (simp add: is_excluded_relative_def Let_def path_parts_def path_of_def root_of_def starts_with_def EXCLUDED_PATHS_def
      EXCLUDED_PARTS_def u_def)

lemma sample_node: "node_at sample_workspace sample_file = Some (File_node [1, 2])"
  by (simp add: node_at_def MANIFEST_def ws_at_def sample_workspace_def sample_paths path_join_def)

lemma sample_expected: "expected_files sample_workspace = Inr ([sample_file], [])"
proof -
  have at: "ws_at sample_workspace (u ''packages/shell_core/a.py'') = sample_file"
    by (simp add: ws_at_def sample_workspace_def sample_paths path_join_def)
  then have "source_files sample_workspace [sample_file] = Inr [sample_file]"
    by (simp add: source_files_def sample_node is_excluded_def sample_relative sample_included)
  then show ?thesis
    by (simp add: expected_files_def sample_git at sorted_files_def sample_relative)
qed

lemma sample_written: "\<exists>ws'. write_manifest sample_workspace = Inr (0, ws')"
  by (simp add: write_manifest_def build_manifest_def sample_expected manifest_entry_def manifest_sha256_def
      sample_node sample_relative)

lemma sample_check:
  assumes "write_manifest sample_workspace = Inr (0, ws')"
  shows "check_manifest ws' = Inr []"
proof -
  obtain pairs where w: "map (\<lambda>e. ws_at sample_workspace (fst e)) pairs = [sample_file]"
      "list_all (entry_ok sample_workspace) pairs"
      "check_manifest ws' = Inr (remark (\<not> list_ex shell_core_path (map fst pairs))
        ''the core files of the shell core are not in the manifest'')"
    using check_written [OF sample_ok assms] unfolding sample_expected prod.inject sum.inject by metis
  then have "map fst pairs = [u ''packages/shell_core/a.py'']"
    using sample_relative by (auto simp: map_eq_Cons_conv)
  moreover have "shell_core_path (u ''packages/shell_core/a.py'')"
    by (simp add: shell_core_path_def starts_with_def ends_with_def u_def)
  ultimately show ?thesis using w(3) by (simp add: remark_def flag_def)
qed

theorem manifest_round_trip_witness:
  "\<exists>ws' files paths. write_manifest sample_workspace = Inr (0, ws') \<and> expected_files sample_workspace = Inr (files, [])
    \<and> map (ws_at sample_workspace) paths = files
    \<and> check_manifest ws' = Inr (remark (\<not> list_ex shell_core_path paths)
        ''the core files of the shell core are not in the manifest'')"
  using manifest_round_trip [OF sample_ok] sample_written by metis

theorem manifest_detects_change_witness:
  "\<exists>ws' later. write_manifest sample_workspace = Inr (0, ws') \<and> ws_manifest later = ws_manifest ws' \<and> run_check later = Inr 0
    \<and> (\<exists>later_files. expected_files later = Inr (later_files, []) \<and> set later_files \<subseteq> {sample_file})
    \<and> node_at later sample_file \<noteq> None"
proof -
  obtain ws' where ws': "write_manifest sample_workspace = Inr (0, ws')" using sample_written by blast
  have "ws' = written sample_workspace (the (ws_manifest ws'))"
    using write_manifest_Inr [OF sample_ok ws'] by auto
  then obtain t where t: "ws' = written sample_workspace t" by blast
  have ok: "workspace_ok ws'" "ws_root ws' = ws_root sample_workspace"
    using sample_ok by (simp_all add: t workspace_ok_def)
  have "run_check ws' = Inr 0"
    using sample_check [OF ws'] by (simp add: run_check_def)
  from manifest_detects_change [OF sample_ok ws' sample_expected ok refl this, of sample_file] ws' this
  show ?thesis by (intro exI [of _ ws'] conjI) auto
qed

end
