(* ===== verification/Runtime_Assertions.thy ===== *)
theory Runtime_Assertions
  imports Release_Gate Py_Path
begin

text \<open>
  The release runtime assertions (\<open>tooling/release_runtime_assertions.py\<close>): scans of the Flutter, Rust and
  script sources for tokens that must or must not occur. A \<open>repo_texts\<close> is the repository as the scans
  see it: \<open>tree_walk\<close> lists the relative path of everything below the root, \<open>tree_text\<close> gives the text of
  the files among them. Messages are the English reading of the Japanese ones. \<open>decimal\<close> is what \<open>\d\<close>
  matches.
\<close>

record repo_texts =
  tree_walk :: "ustr list list"
  tree_text :: "ustr list \<Rightarrow> ustr option"

record runtime_assertion =
  ra_name :: string
  ra_status :: string
  ra_scope :: string
  ra_classification :: string
  ra_blocks :: string
  ra_reason :: msg
  ra_action :: msg

definition assertion_pass :: "string \<Rightarrow> string \<Rightarrow> msg \<Rightarrow> msg \<Rightarrow> runtime_assertion" where
  "assertion_pass name scope reason action =
     \<lparr>ra_name = name, ra_status = ''passed'', ra_scope = scope, ra_classification = ''none'', ra_blocks = ''no'',
      ra_reason = reason, ra_action = action\<rparr>"

definition assertion_fail :: "string \<Rightarrow> string \<Rightarrow> msg \<Rightarrow> msg \<Rightarrow> runtime_assertion" where
  "assertion_fail name scope reason action =
     \<lparr>ra_name = name, ra_status = ''failed'', ra_scope = scope, ra_classification = ''release_blocker'',
      ra_blocks = ''yes'', ra_reason = reason, ra_action = action\<rparr>"

subsection \<open>Texts and tokens\<close>

text \<open>\<open>text.find(token)\<close> and \<open>token in text\<close>\<close>

fun find_sub :: "ustr \<Rightarrow> ustr \<Rightarrow> nat option" where
  "find_sub token [] = (if token = [] then Some 0 else None)"
| "find_sub token (c # s) = (if starts_with token (c # s) then Some 0 else map_option Suc (find_sub token s))"

definition occurs :: "ustr \<Rightarrow> ustr \<Rightarrow> bool" where
  "occurs token s \<longleftrightarrow> find_sub token s \<noteq> None"

text \<open>A token of the scanned sources; a backquote stands for a quote.\<close>

definition dart :: "string \<Rightarrow> ustr" where
  "dart s = map (\<lambda>c. if c = 96 then 39 else c) (u s)"

definition found :: "ustr list \<Rightarrow> ustr \<Rightarrow> ustr list" where
  "found tokens s = filter (\<lambda>token. occurs token s) tokens"

definition absent :: "ustr list \<Rightarrow> ustr \<Rightarrow> ustr list" where
  "absent tokens s = filter (\<lambda>token. \<not> occurs token s) tokens"

definition listing :: "ustr list \<Rightarrow> json" where
  "listing tokens = JStr (join_with '', '' tokens)"

definition names_of :: "string \<Rightarrow> ustr list" where
  "names_of relative = path_names (path_of (u relative))"

definition read_names :: "repo_texts \<Rightarrow> ustr list \<Rightarrow> exn + ustr" where
  "read_names tree names =
     (case tree_text tree names of None \<Rightarrow> Inl OSError | Some text \<Rightarrow> Inr (universal_newlines text))"

definition read_source :: "repo_texts \<Rightarrow> string \<Rightarrow> exn + ustr" where
  "read_source tree relative = read_names tree (names_of relative)"

definition client_text :: "repo_texts \<Rightarrow> exn + ustr" where
  "client_text tree = read_source tree ''apps/desktop_flutter/lib/services/shell_core_client.dart''"

text \<open>The text from one marker to the next one after it; empty when one of them is missing.\<close>

definition body_between :: "ustr \<Rightarrow> ustr \<Rightarrow> ustr \<Rightarrow> ustr" where
  "body_between first second text =
     (case find_sub first text of
        None \<Rightarrow> []
      | Some start \<Rightarrow>
          (case find_sub second (drop start text) of None \<Rightarrow> [] | Some n \<Rightarrow> take n (drop start text)))"

definition product_body :: "repo_texts \<Rightarrow> exn + ustr" where
  "product_body tree =
     bindE (client_text tree) (\<lambda>text.
       Inr (body_between (u ''static Future<ShellCoreClient> product'') (u ''factory ShellCoreClient.local'') text))"

definition broker_snapshot_body :: "repo_texts \<Rightarrow> exn + ustr" where
  "broker_snapshot_body tree =
     bindE (client_text tree) (\<lambda>text.
       Inr (body_between (u ''ShellSnapshot _brokerSnapshot'') (u ''ShellSnapshot _brokerUnavailableSnapshot'') text))"

definition function_body :: "repo_texts \<Rightarrow> string \<Rightarrow> exn + ustr" where
  "function_body tree function_name =
     bindE (client_text tree) (\<lambda>text.
       Inr (case find_sub (u ''Map<String, Object?> '' @ u function_name) text of
              None \<Rightarrow> []
            | Some start \<Rightarrow>
                (case find_sub [10, 125, 10] (drop start text) of
                   None \<Rightarrow> drop start text
                 | Some n \<Rightarrow> take (n + 3) (drop start text))))"

text \<open>\<open>sorted(paths)\<close> compares the parts; a path that is no file is skipped.\<close>

definition scan_source_file :: "repo_texts \<Rightarrow> ustr list \<Rightarrow> ustr list \<Rightarrow> msg list" where
  "scan_source_file tree tokens path =
     (case tree_text tree path of
        None \<Rightarrow> []
      | Some text \<Rightarrow>
          map (\<lambda>token. Msg ''{} contains {}'' [JStr (join_with ''/'' path), JStr token])
            (found tokens (universal_newlines text)))"

definition scan_files :: "repo_texts \<Rightarrow> ustr list list \<Rightarrow> ustr list \<Rightarrow> msg list" where
  "scan_files tree paths tokens = concat (map (scan_source_file tree tokens) (sort paths))"

definition files_below :: "repo_texts \<Rightarrow> string \<Rightarrow> string \<Rightarrow> ustr list list" where
  "files_below tree directory suffix =
     (let dir = names_of directory in
      filter (\<lambda>p. take (length dir) p = dir \<and> length dir < length p \<and> ends_with (u suffix) (last p)) (tree_walk tree))"

definition desktop_lib_files :: "repo_texts \<Rightarrow> ustr list list" where
  "desktop_lib_files tree = files_below tree ''apps/desktop_flutter/lib'' ''.dart''"

definition owner_scripts :: "ustr list list" where
  "owner_scripts = [names_of ''scripts/launch_owner_desktop.sh'', names_of ''scripts/launch_owner_desktop.ps1'']"

subsection \<open>The assertions\<close>

definition assert_flutter_product_entry_uses_broker :: "repo_texts \<Rightarrow> exn + runtime_assertion" where
  "assert_flutter_product_entry_uses_broker tree =
     bindE (read_source tree ''apps/desktop_flutter/lib/main.dart'') (\<lambda>main.
       Inr (if \<not> occurs (u ''await ShellCoreClient.product()'') main then
              assertion_fail ''flutter_product_entry_uses_broker'' ''CONFIG''
                (Msg ''main.dart does not call ShellCoreClient.product() on the product entry path.'' [])
                (Msg ''Start the product through ShellCoreClient.product() before release validation.'' [])
            else if occurs (u ''ShellCoreClient.local('') main then
              assertion_fail ''flutter_product_entry_uses_broker'' ''CONFIG''
                (Msg ''The product start code of main.dart still refers to ShellCoreClient.local().'' [])
                (Msg ''Remove the authority use of the local snapshot from product start.'' [])
            else
              assertion_pass ''flutter_product_entry_uses_broker'' ''CONFIG''
                (Msg ''main.dart initialises ShellCoreClient.product() and does not refer to ShellCoreClient.local().'' [])
                (Msg ''Keep product start on the broker-mediated client.'' [])))"

definition BROKER_MEDIATED_TOKENS :: "ustr list" where
  "BROKER_MEDIATED_TOKENS =
     [u ''await BrokerClient.connect()'', dart ''broker.request(`health`'',
      u ''broker.request('' @ [10] @ dart ''        `normalize_payload`'',
      u ''broker.request('' @ [10] @ dart ''        `content_projection`'',
      u ''broker.request('' @ [10] @ dart ''        `approval_edit`'',
      u ''broker.request('' @ [10] @ dart ''        `command_envelope`'', u ''_brokerUnavailableSnapshot'']"

definition LOCAL_AUTHORITY_TOKENS :: "ustr list" where
  "LOCAL_AUTHORITY_TOKENS = [u ''ShellCoreClient.local('', u ''tooling/shell_snapshot.py'', u ''python3 tooling/shell_snapshot.py'']"

definition assert_flutter_authority_operations_are_broker_mediated :: "repo_texts \<Rightarrow> exn + runtime_assertion" where
  "assert_flutter_authority_operations_are_broker_mediated tree =
     bindE (product_body tree) (\<lambda>body.
       let missing = absent BROKER_MEDIATED_TOKENS body; findings = found LOCAL_AUTHORITY_TOKENS body in
       Inr (if missing \<noteq> [] then
              assertion_fail ''flutter_authority_operations_broker_mediated'' ''CONFIG''
                (Msg ''ShellCoreClient.product() lacks broker-mediated authority tokens: {}'' [listing missing])
                (Msg ''Keep authority-sensitive product snapshot data derived from broker responses.'' [])
            else if findings \<noteq> [] then
              assertion_fail ''flutter_authority_operations_broker_mediated'' ''CONFIG''
                (Msg ''ShellCoreClient.product() still refers to local or Python authority tokens: {}'' [listing findings])
                (Msg ''Remove the local and Python fallback from the product authority path.'' [])
            else
              assertion_pass ''flutter_authority_operations_broker_mediated'' ''CONFIG''
                (Msg ''ShellCoreClient.product() asks the broker and fails closed through broker_unavailable.'' [])
                (Msg ''Keep new authority surfaces broker-mediated and fail-closed.'' [])))"

definition SNAPSHOT_PROBE_TOKENS :: "ustr list" where
  "SNAPSHOT_PROBE_TOKENS =
     [dart ''`pending_approvals_count`: 1'', dart ''`permission_id`: `permission.broker.command_envelope`'',
      dart ''`approval_id`: `broker-projected-approval`'', dart ''`authority_map`: ['' @ [10] @ u ''      {'']"

definition COMMAND_PROBE_TOKENS :: "ustr list" where
  "COMMAND_PROBE_TOKENS = [dart ''`state`:'', dart ''`audit_event`:'']"

definition assert_flutter_product_snapshot_does_not_promote_probe_state :: "repo_texts \<Rightarrow> exn + runtime_assertion" where
  "assert_flutter_product_snapshot_does_not_promote_probe_state tree =
     bindE (broker_snapshot_body tree) (\<lambda>broker_snapshot.
     bindE (function_body tree ''_brokerCommandProbePayload'') (\<lambda>command_probe.
       let findings = map (\<lambda>token. Msg ''{}'' [JStr token]) (found SNAPSHOT_PROBE_TOKENS broker_snapshot)
             @ map (\<lambda>token. Msg ''_brokerCommandProbePayload contains {}'' [JStr token])
                 (found COMMAND_PROBE_TOKENS command_probe) in
       Inr (if findings \<noteq> [] then
              assertion_fail ''flutter_product_snapshot_does_not_promote_probe_state'' ''CONFIG''
                (Within ''ShellCoreClient.product() promotes diagnostic probe state to product records: {}'' []
                  (Joined findings))
                (Msg ''Keep broker probes to LIVE_RUNTIME evidence and setup checks.'' [])
            else
              assertion_pass ''flutter_product_snapshot_does_not_promote_probe_state'' ''CONFIG''
                (Msg ''ShellCoreClient.product() keeps broker probes out of the product records.'' [])
                (Msg ''Keep product records derived from the state export of the broker.'' []))))"

definition EVIDENCE_DEFAULT_TOKENS :: "ustr list" where
  "EVIDENCE_DEFAULT_TOKENS =
     [dart ''json[`schema_check`] as String? ?? `passed`'',
      dart ''json[`release_smoke`] as String? ?? `passed`'',
      dart ''json[`release_gate_check`] as String? ?? `passed`'',
      dart ''json[`evidence_bundle`] as String? ?? `passed`'',
      dart ''json[`validate_all`] as String? ?? `passed`'',
      dart ''json[`strict_windows_release`] as String? ?? `expected fail`'']"

text \<open>
  \<open>re.search\<close> for a default of \<open>conformance_check_count\<close> other than 0: the key in brackets and quotes,
  \<open>as int? ??\<close> with spaces between, and digits that are not a lone 0.
\<close>

definition eat :: "ustr \<Rightarrow> ustr \<Rightarrow> ustr option" where
  "eat w s = (if starts_with w s then Some (drop (length w) s) else None)"

fun eat_quote :: "ustr \<Rightarrow> ustr option" where
  "eat_quote (c # s) = (if c = 39 \<or> c = 34 then Some s else None)"
| "eat_quote [] = None"

definition eat_spaces :: "ustr \<Rightarrow> ustr option" where
  "eat_spaces s = (if s \<noteq> [] \<and> is_space (hd s) then Some (dropWhile is_space s) else None)"

definition default_number :: "tables \<Rightarrow> (nat \<Rightarrow> bool) \<Rightarrow> ustr \<Rightarrow> ustr option" where
  "default_number T decimal s =
     (let digits = takeWhile decimal s in
      if digits = [] \<or> hd s = 48 \<and> word_boundary T (Some 48) (first_char (tl s)) then None else Some (drop (length digits) s))"

definition default_rest :: "tables \<Rightarrow> (nat \<Rightarrow> bool) \<Rightarrow> ustr \<Rightarrow> ustr option" where
  "default_rest T decimal s =
     fold (\<lambda>step r. Option.bind r step)
       [eat (u ''json[''), eat_quote, eat (u ''conformance_check_count''), eat_quote, eat (u '']''), eat_spaces,
        eat (u ''as''), eat_spaces, eat (u ''int?''), eat_spaces, eat (u ''??''), eat_spaces, default_number T decimal]
       (Some s)"

fun conformance_default :: "tables \<Rightarrow> (nat \<Rightarrow> bool) \<Rightarrow> ustr \<Rightarrow> ustr option" where
  "conformance_default T decimal [] = None"
| "conformance_default T decimal (c # s) =
     (case default_rest T decimal (c # s) of
        Some rest \<Rightarrow> Some (take (length (c # s) - length rest) (c # s))
      | None \<Rightarrow> conformance_default T decimal s)"

definition assert_flutter_models_do_not_default_evidence_to_passed
    :: "tables \<Rightarrow> (nat \<Rightarrow> bool) \<Rightarrow> repo_texts \<Rightarrow> exn + runtime_assertion" where
  "assert_flutter_models_do_not_default_evidence_to_passed T decimal tree =
     bindE (read_source tree ''apps/desktop_flutter/lib/models/generated_contracts.dart'') (\<lambda>text.
       let findings = map (\<lambda>token. Msg ''{}'' [JStr token]) (found EVIDENCE_DEFAULT_TOKENS text)
             @ (case conformance_default T decimal text of
                  None \<Rightarrow> []
                | Some m \<Rightarrow> [Msg ''conformance_check_count default other than 0: {}'' [JStr m]]) in
       Inr (if findings \<noteq> [] then
              assertion_fail ''flutter_models_do_not_default_evidence_to_passed'' ''CONFIG''
                (Within ''defaults of the Dart evidence summary can synthesise PASS values: {}'' [] (Joined findings))
                (Msg ''Default missing evidence summary fields to not reported or 0.'' [])
            else
              assertion_pass ''flutter_models_do_not_default_evidence_to_passed'' ''CONFIG''
                (Msg ''Defaults of the Dart evidence summary synthesise neither PASS nor a fixed check count.'' [])
                (Msg ''Show missing evidence as missing until a validator supplies it.'' [])))"

definition PYTHON_PROCESS_TOKENS :: "ustr list" where
  "PYTHON_PROCESS_TOKENS =
     [u ''Process.run'', u ''Process.start'', u ''Process.killPid'', u ''tooling/shell_snapshot.py'',
      u ''python tooling/shell_snapshot.py'', u ''python3 tooling/shell_snapshot.py'']"

definition assert_flutter_does_not_spawn_python_product_path :: "repo_texts \<Rightarrow> exn + runtime_assertion" where
  "assert_flutter_does_not_spawn_python_product_path tree =
     (let findings = scan_files tree (desktop_lib_files tree @ owner_scripts) PYTHON_PROCESS_TOKENS in
      Inr (if findings \<noteq> [] then
             assertion_fail ''flutter_product_path_does_not_spawn_python'' ''CONFIG''
               (Within ''the product or owner launch path contains Python or process tokens: {}'' [] (Joined findings))
               (Msg ''Remove Python process launch and snapshot generation from product start.'' [])
           else
             assertion_pass ''flutter_product_path_does_not_spawn_python'' ''CONFIG''
               (Msg ''Desktop lib and launch scripts call neither the snapshot generator nor process APIs.'' [])
               (Msg ''Limit Python to tooling, validation and migration parity.'' [])))"

definition LAUNCH_REQUIRED_TOKENS :: "ustr list" where
  "LAUNCH_REQUIRED_TOKENS = [u ''broker-server'', u ''GUI_SHELL_BROKER_ENDPOINT_JSON'']"

definition LAUNCH_FORBIDDEN_TOKENS :: "ustr list" where
  "LAUNCH_FORBIDDEN_TOKENS = [u ''shell_snapshot.py'', u ''python tooling/'', u ''python3 tooling/'']"

definition launch_script_errors :: "repo_texts \<Rightarrow> ustr list \<Rightarrow> exn + msg list" where
  "launch_script_errors tree path =
     bindE (read_names tree path) (\<lambda>text.
       Inr (map (\<lambda>token. Msg ''{} lacks {}'' [JStr (join_with ''/'' path), JStr token]) (absent LAUNCH_REQUIRED_TOKENS text)
          @ map (\<lambda>token. Msg ''{} contains {}'' [JStr (join_with ''/'' path), JStr token]) (found LAUNCH_FORBIDDEN_TOKENS text)))"

definition assert_launch_scripts_start_broker_without_python_snapshot :: "repo_texts \<Rightarrow> exn + runtime_assertion" where
  "assert_launch_scripts_start_broker_without_python_snapshot tree =
     bindE (concatE (launch_script_errors tree) owner_scripts) (\<lambda>errors.
       Inr (if errors \<noteq> [] then
              assertion_fail ''owner_launch_path_starts_broker_without_python_snapshot'' ''CONFIG'' (Joined errors)
                (Msg ''Start the Rust broker and pass the endpoint file to Flutter.'' [])
            else
              assertion_pass ''owner_launch_path_starts_broker_without_python_snapshot'' ''CONFIG''
                (Msg ''The launch scripts start broker-server and pass GUI_SHELL_BROKER_ENDPOINT_JSON.'' [])
                (Msg ''Keep broker launch in launcher code, apart from Flutter authority logic.'' [])))"

definition DART_BRIDGE_TOKENS :: "ustr list" where
  "DART_BRIDGE_TOKENS = [u ''dart:ffi'', u ''flutter_rust_bridge'', u ''MethodChannel('']"

definition RUST_BRIDGE_TOKENS :: "ustr list" where
  "RUST_BRIDGE_TOKENS = [u ''extern '' @ [0x22, 0x43, 0x22], u ''#[no_mangle]'', u ''cxx::bridge'']"

definition assert_no_ffi_or_direct_bridge_authority_path :: "repo_texts \<Rightarrow> exn + runtime_assertion" where
  "assert_no_ffi_or_direct_bridge_authority_path tree =
     (let findings = scan_files tree (desktop_lib_files tree) DART_BRIDGE_TOKENS
            @ scan_files tree (files_below tree ''native/rust_helper/src'' ''.rs'') RUST_BRIDGE_TOKENS in
      Inr (if findings \<noteq> [] then
             assertion_fail ''no_ffi_authority_path'' ''CONFIG''
               (Within ''direct bridge tokens between Flutter and Rust: {}'' [] (Joined findings))
               (Msg ''Use restricted broker IPC on authority paths.'' [])
           else
             assertion_pass ''no_ffi_authority_path'' ''CONFIG''
               (Msg ''No FFI or bridge token in the Flutter and Rust authority surfaces.'' [])
               (Msg ''Keep Flutter and Rust apart, over IPC between processes.'' [])))"

definition broker_client_text :: "repo_texts \<Rightarrow> exn + ustr" where
  "broker_client_text tree = read_source tree ''apps/desktop_flutter/lib/services/broker_client.dart''"

definition LOOPBACK_TOKENS :: "ustr list" where
  "LOOPBACK_TOKENS =
     [u ''Socket.connect'', u ''sessionSecret'', u ''session_secret'', u ''GUI_SHELL_BROKER_ENDPOINT_JSON'',
      u ''127.0.0.1'']"

definition DIRECT_PATH_TOKENS :: "ustr list" where
  "DIRECT_PATH_TOKENS = [u ''Process.run'', u ''Process.start'', u ''MethodChannel('', u ''flutter_rust_bridge'', u ''dart:ffi'']"

definition assert_broker_client_uses_authenticated_loopback_ipc :: "repo_texts \<Rightarrow> exn + runtime_assertion" where
  "assert_broker_client_uses_authenticated_loopback_ipc tree =
     bindE (broker_client_text tree) (\<lambda>text.
       let missing = absent LOOPBACK_TOKENS text; findings = found DIRECT_PATH_TOKENS text in
       Inr (if missing \<noteq> [] \<or> findings \<noteq> [] then
              assertion_fail ''broker_client_uses_authenticated_loopback_ipc'' ''CONFIG''
                (Joined (flag (missing \<noteq> []) (Msg ''missing: {}'' [listing missing])
                         @ flag (findings \<noteq> []) (Msg ''forbidden tokens: {}'' [listing findings])))
                (Msg ''Keep BrokerClient on authenticated loopback IPC.'' [])
            else
              assertion_pass ''broker_client_uses_authenticated_loopback_ipc'' ''CONFIG''
                (Msg ''BrokerClient uses the endpoint and session fields and no bridge or process token.'' [])
                (Msg ''Keep request authentication and endpoint discovery under broker tests.'' [])))"

definition PAYLOAD_HASH_TOKENS :: "ustr list" where
  "PAYLOAD_HASH_TOKENS = [u ''_payloadHash(payload)'', u ''_canonicalizeJsonValue'', u ''_sha256Tagged'']"

definition FIXED_HASH :: ustr where
  "FIXED_HASH = u ''sha256:'' @ replicate 64 97"

definition assert_broker_client_binds_payload_hash_to_payload :: "repo_texts \<Rightarrow> exn + runtime_assertion" where
  "assert_broker_client_binds_payload_hash_to_payload tree =
     bindE (broker_client_text tree) (\<lambda>text.
       let missing = absent PAYLOAD_HASH_TOKENS text in
       Inr (if missing \<noteq> [] \<or> occurs FIXED_HASH text then
              assertion_fail ''broker_client_binds_payload_hash_to_payload'' ''CONFIG''
                (Joined (flag (missing \<noteq> []) (Msg ''missing: {}'' [listing missing])
                         @ flag (occurs FIXED_HASH text) (Msg ''a fixed dummy payload_hash is left'' [])))
                (Msg ''Compute the request payload_hash from the canonical JSON payload.'' [])
            else
              assertion_pass ''broker_client_binds_payload_hash_to_payload'' ''CONFIG''
                (Msg ''BrokerClient computes payload_hash from the canonical JSON payload.'' [])
                (Msg ''Keep the payload hash mismatch tests of the broker passing.'' [])))"

definition assert_broker_secret_not_projected_to_ui :: "repo_texts \<Rightarrow> exn + runtime_assertion" where
  "assert_broker_secret_not_projected_to_ui tree =
     (let files = filter (\<lambda>p. last p \<noteq> u ''broker_client.dart'') (desktop_lib_files tree);
          findings = scan_files tree files [u ''session_secret'', u ''sessionSecret''] in
      Inr (if findings \<noteq> [] then
             assertion_fail ''broker_secret_not_projected_to_ui'' ''CONFIG''
               (Within ''broker session secret tokens outside BrokerClient: {}'' [] (Joined findings))
               (Msg ''Keep broker session secrets out of models, texts, audit payloads and snapshots.'' [])
           else
             assertion_pass ''broker_secret_not_projected_to_ui'' ''CONFIG''
               (Msg ''Broker session secret tokens are confined to BrokerClient.'' [])
               (Msg ''Keep secrets apart from display and audit payloads.'' [])))"

definition FAIL_CLOSED_TESTS :: "ustr list" where
  "FAIL_CLOSED_TESTS =
     [[0x30D6, 0x30ED, 0x30FC, 0x30AB, 0x30FC, 0x5229, 0x7528, 0x4E0D, 0x53EF, 0x6642, 0x306B, 0x88FD, 0x54C1, 0x30AF, 0x30E9, 0x30A4, 0x30A2, 0x30F3, 0x30C8, 0x304C, 0x9589, 0x9396, 0x5074, 0x3078, 0x5931, 0x6557, 0x3059, 0x308B],
      [0x8A8D, 0x8A3C, 0x62D2, 0x5426, 0x6642, 0x306B, 0x88FD, 0x54C1, 0x30AF, 0x30E9, 0x30A4, 0x30A2, 0x30F3, 0x30C8, 0x304C, 0x9589, 0x9396, 0x5074, 0x3078, 0x5931, 0x6557, 0x3059, 0x308B],
      [0x671F, 0x9650, 0x5207, 0x308C, 0x30D6, 0x30ED, 0x30FC, 0x30AB, 0x30FC, 0x30BB, 0x30C3, 0x30B7, 0x30E7, 0x30F3, 0x3067, 0x88FD, 0x54C1, 0x30AF, 0x30E9, 0x30A4, 0x30A2, 0x30F3, 0x30C8, 0x304C, 0x9589, 0x9396, 0x5074, 0x3078, 0x5931, 0x6557, 0x3059, 0x308B],
      [0x4E0D, 0x6B63, 0x306A, 0x30D6, 0x30ED, 0x30FC, 0x30AB, 0x30FC, 0x5FDC, 0x7B54, 0x3067, 0x88FD, 0x54C1, 0x30AF, 0x30E9, 0x30A4, 0x30A2, 0x30F3, 0x30C8, 0x304C, 0x9589, 0x9396, 0x5074, 0x3078, 0x5931, 0x6557, 0x3059, 0x308B],
      u ''broker.fail_closed'', u ''broker_unavailable'']"

definition assert_flutter_fail_closed_tests_exist :: "repo_texts \<Rightarrow> exn + runtime_assertion" where
  "assert_flutter_fail_closed_tests_exist tree =
     bindE (read_source tree ''apps/desktop_flutter/test/widget_test.dart'') (\<lambda>test_text.
       let missing = absent FAIL_CLOSED_TESTS test_text in
       Inr (if missing \<noteq> [] then
              assertion_fail ''flutter_broker_fail_closed_test_coverage'' ''FIXTURE''
                (Msg ''fail-closed test tokens are missing: {}'' [listing missing])
                (Msg ''Add Flutter tests for every fail-closed case.'' [])
            else
              assertion_pass ''flutter_broker_fail_closed_test_coverage'' ''FIXTURE''
                (Msg ''Flutter tests cover the fail-closed cases.'' [])
                (Msg ''Keep the fail-closed UI tests passing in release candidates.'' [])))"

definition BROKER_RUNTIME_TESTS :: "ustr list" where
  "BROKER_RUNTIME_TESTS =
     [u ''broker_process_launch_connect_and_shutdown'', u ''try_send_raw'',
      u ''broker_ipc_rejects_replay_after_process_restart'',
      u ''persistent_store_rejects_replayed_nonce_after_restart'',
      u ''persistent_store_verifies_audit_chain_after_restart'',
      u ''persistent_store_rejects_tampered_audit_chain'',
      u ''persistent_store_rejects_malformed_replay_state'']"

definition assert_broker_runtime_restart_and_crash_tests_exist :: "repo_texts \<Rightarrow> exn + runtime_assertion" where
  "assert_broker_runtime_restart_and_crash_tests_exist tree =
     bindE (read_source tree ''native/rust_helper/tests/broker_ipc.rs'') (\<lambda>ipc.
     bindE (read_source tree ''native/rust_helper/src/broker/protocol.rs'') (\<lambda>protocol.
       let missing = absent BROKER_RUNTIME_TESTS (ipc @ [10] @ protocol) in
       Inr (if missing \<noteq> [] then
              assertion_fail ''broker_runtime_restart_persistence_and_shutdown_coverage'' ''FIXTURE''
                (Msg ''broker runtime test tokens are missing: {}'' [listing missing])
                (Msg ''Cover launch, shutdown, replay after restart and tampered state.'' [])
            else
              assertion_pass ''broker_runtime_restart_persistence_and_shutdown_coverage'' ''FIXTURE''
                (Msg ''Rust broker tests cover launch, shutdown, replay and tampering.'' [])
                (Msg ''Keep the Rust broker tests passing; Windows evidence is another gate.'' []))))"

subsection \<open>The report\<close>

definition run_release_runtime_assertions
    :: "tables \<Rightarrow> (nat \<Rightarrow> bool) \<Rightarrow> repo_texts \<Rightarrow> exn + runtime_assertion list" where
  "run_release_runtime_assertions T decimal tree =
     mapE (\<lambda>assertion. assertion tree)
       [assert_flutter_product_entry_uses_broker,
        assert_flutter_authority_operations_are_broker_mediated,
        assert_flutter_product_snapshot_does_not_promote_probe_state,
        assert_flutter_models_do_not_default_evidence_to_passed T decimal,
        assert_flutter_does_not_spawn_python_product_path,
        assert_launch_scripts_start_broker_without_python_snapshot,
        assert_no_ffi_or_direct_bridge_authority_path,
        assert_broker_client_uses_authenticated_loopback_ipc,
        assert_broker_client_binds_payload_hash_to_payload,
        assert_broker_secret_not_projected_to_ui,
        assert_flutter_fail_closed_tests_exist,
        assert_broker_runtime_restart_and_crash_tests_exist]"

record runtime_report =
  rr_ok :: bool
  rr_assertions :: "runtime_assertion list"
  rr_failure_count :: nat
  rr_scopes :: "string list"
  rr_note_classification :: string
  rr_note_blocks :: string
  rr_note_reason :: msg
  rr_note_action :: msg

text \<open>\<open>sorted({\<dots>})\<close> of the scopes, which are ASCII words.\<close>

definition sorted_scopes :: "string list \<Rightarrow> string list" where
  "sorted_scopes scopes = sort_key u (remdups scopes)"

definition build_report :: "tables \<Rightarrow> (nat \<Rightarrow> bool) \<Rightarrow> repo_texts \<Rightarrow> exn + runtime_report" where
  "build_report T decimal tree =
     bindE (run_release_runtime_assertions T decimal tree) (\<lambda>assertions.
       let failures = filter (\<lambda>item. ra_classification item = ''release_blocker'') assertions in
       Inr \<lparr>rr_ok = (failures = []), rr_assertions = assertions, rr_failure_count = length failures,
            rr_scopes = sorted_scopes (map ra_scope assertions),
            rr_note_classification = ''release_blocker'', rr_note_blocks = ''yes'',
            rr_note_reason = Msg ''Windows installed-path evidence and LIVE_RUNTIME evidence are still needed.'' [],
            rr_note_action = Msg ''Run the Windows smokes and pass the strict Windows release validation.'' []\<rparr>)"

definition runtime_assertions_exit :: "tables \<Rightarrow> (nat \<Rightarrow> bool) \<Rightarrow> repo_texts \<Rightarrow> exn + nat" where
  "runtime_assertions_exit T decimal tree =
     bindE (build_report T decimal tree) (\<lambda>report. Inr (if rr_ok report then 0 else 1))"

subsection \<open>Finding a token\<close>

lemma starts_with_iff: "starts_with t s \<longleftrightarrow> (\<exists>b. s = t @ b)"
  by (metis append_eq_conv_conj append_take_drop_id starts_with_def)

lemma find_sub_Some: "find_sub t s = Some n \<Longrightarrow> \<exists>b. s = take n s @ t @ b \<and> n \<le> length s"
proof (induction s arbitrary: n)
  case (Cons c s)
  then show ?case by (auto simp: starts_with_iff split: if_splits)
qed (simp split: if_splits)

lemma occurs_append: "occurs t (a @ t @ b)"
proof (induction a)
  case Nil
  have "starts_with t (t @ b)" by (auto simp: starts_with_iff)
  then show ?case by (cases "t @ b") (auto simp: occurs_def)
next
  case (Cons c a)
  then show ?case by (auto simp: occurs_def)
qed

text \<open>A token occurs exactly when the text is something before, the token, something after.\<close>

lemma occurs_iff: "occurs t s \<longleftrightarrow> (\<exists>a b. s = a @ t @ b)"
proof
  assume "occurs t s"
  then obtain n where "find_sub t s = Some n" by (auto simp: occurs_def)
  from find_sub_Some [OF this] show "\<exists>a b. s = a @ t @ b" by blast
qed (auto simp: occurs_append)

lemma occurs_empty [simp]: "occurs t [] \<longleftrightarrow> t = []"
  by (simp add: occurs_def)

lemma occurs_char: "occurs t s \<Longrightarrow> c \<in> set t \<Longrightarrow> c \<in> set s"
  by (auto simp: occurs_iff)

lemma absent_Nil [simp]: "absent ts s = [] \<longleftrightarrow> list_all (\<lambda>t. occurs t s) ts"
  by (auto simp: absent_def filter_empty_conv list_all_iff)

lemma found_Nil [simp]: "found ts s = [] \<longleftrightarrow> list_all (\<lambda>t. \<not> occurs t s) ts"
  by (auto simp: found_def filter_empty_conv list_all_iff)

text \<open>No file of the list that can be read holds one of the tokens.\<close>

definition free_of :: "repo_texts \<Rightarrow> ustr list list \<Rightarrow> ustr list \<Rightarrow> bool" where
  "free_of tree paths tokens \<longleftrightarrow>
     list_all (\<lambda>p. case tree_text tree p of
                     None \<Rightarrow> True
                   | Some text \<Rightarrow> list_all (\<lambda>t. \<not> occurs t (universal_newlines text)) tokens) paths"

lemma scan_files_Nil [simp]: "scan_files tree paths tokens = [] \<longleftrightarrow> free_of tree paths tokens"
  by (auto simp: scan_files_def scan_source_file_def free_of_def list_all_iff split: option.splits)

subsection \<open>The assertions return, or a file is missing\<close>

text \<open>The sources the assertions read whatever the directories hold.\<close>

definition read_sources :: "string list" where
  "read_sources =
     [''apps/desktop_flutter/lib/main.dart'', ''apps/desktop_flutter/lib/services/shell_core_client.dart'',
      ''apps/desktop_flutter/lib/models/generated_contracts.dart'', ''scripts/launch_owner_desktop.sh'',
      ''scripts/launch_owner_desktop.ps1'', ''apps/desktop_flutter/lib/services/broker_client.dart'',
      ''apps/desktop_flutter/test/widget_test.dart'', ''native/rust_helper/tests/broker_ipc.rs'',
      ''native/rust_helper/src/broker/protocol.rs'']"

definition has_source :: "repo_texts \<Rightarrow> string \<Rightarrow> bool" where
  "has_source tree relative \<longleftrightarrow> tree_text tree (names_of relative) \<noteq> None"

definition source :: "repo_texts \<Rightarrow> string \<Rightarrow> ustr" where
  "source tree relative = universal_newlines (the (tree_text tree (names_of relative)))"

lemma read_source_eq: "read_source tree r = (if has_source tree r then Inr (source tree r) else Inl OSError)"
  by (auto simp: read_source_def read_names_def has_source_def source_def split: option.splits)

lemmas assert_defs =
  assert_flutter_product_entry_uses_broker_def
  assert_flutter_authority_operations_are_broker_mediated_def
  assert_flutter_product_snapshot_does_not_promote_probe_state_def
  assert_flutter_models_do_not_default_evidence_to_passed_def
  assert_flutter_does_not_spawn_python_product_path_def
  assert_launch_scripts_start_broker_without_python_snapshot_def
  assert_no_ffi_or_direct_bridge_authority_path_def
  assert_broker_client_uses_authenticated_loopback_ipc_def
  assert_broker_client_binds_payload_hash_to_payload_def
  assert_broker_secret_not_projected_to_ui_def
  assert_flutter_fail_closed_tests_exist_def
  assert_broker_runtime_restart_and_crash_tests_exist_def

lemma read_owner_script: "read_names tree (names_of r) = (if has_source tree r then Inr (source tree r) else Inl OSError)"
  using read_source_eq by (simp add: read_source_def)

lemma bindE_if: "bindE (if b then Inr x else Inl e) f = (if b then f x else Inl e)"
  by simp

lemmas reads = product_body_def broker_snapshot_body_def function_body_def client_text_def broker_client_text_def
  launch_script_errors_def owner_scripts_def read_source_eq read_owner_script bindE_if

text \<open>What an assertion can return.\<close>

definition coherent_assertion :: "runtime_assertion \<Rightarrow> bool" where
  "coherent_assertion a \<longleftrightarrow>
     ra_status a = ''passed'' \<and> ra_classification a = ''none'' \<and> ra_blocks a = ''no''
     \<or> ra_status a = ''failed'' \<and> ra_classification a = ''release_blocker'' \<and> ra_blocks a = ''yes''"

lemma coherent_assertion_made [simp]: "coherent_assertion (assertion_pass n s r a)" "coherent_assertion (assertion_fail n s r a)"
  by (simp_all add: coherent_assertion_def assertion_pass_def assertion_fail_def)

lemma made_sel [simp]:
  "ra_classification (assertion_pass n s r a) = ''none''" "ra_classification (assertion_fail n s r a) = ''release_blocker''"
  by (simp_all add: assertion_pass_def assertion_fail_def)

subsection \<open>What a clean report means\<close>

definition snapshot_text :: "repo_texts \<Rightarrow> ustr" where
  "snapshot_text tree =
     body_between (u ''ShellSnapshot _brokerSnapshot'') (u ''ShellSnapshot _brokerUnavailableSnapshot'')
       (source tree ''apps/desktop_flutter/lib/services/shell_core_client.dart'')"

definition product_text :: "repo_texts \<Rightarrow> ustr" where
  "product_text tree =
     body_between (u ''static Future<ShellCoreClient> product'') (u ''factory ShellCoreClient.local'')
       (source tree ''apps/desktop_flutter/lib/services/shell_core_client.dart'')"

definition all_in :: "ustr list \<Rightarrow> ustr \<Rightarrow> bool" where
  "all_in tokens s \<longleftrightarrow> list_all (\<lambda>t. occurs t s) tokens"

definition none_in :: "ustr list \<Rightarrow> ustr \<Rightarrow> bool" where
  "none_in tokens s \<longleftrightarrow> list_all (\<lambda>t. \<not> occurs t s) tokens"

definition probe_text :: "repo_texts \<Rightarrow> ustr" where
  "probe_text tree = (case function_body tree ''_brokerCommandProbePayload'' of Inr body \<Rightarrow> body | Inl _ \<Rightarrow> [])"

text \<open>
  The contract: for every assertion, in their order, the files it has to read and what it demands of the
  sources.
\<close>

definition release_contract :: "tables \<Rightarrow> (nat \<Rightarrow> bool) \<Rightarrow> repo_texts \<Rightarrow> (string list \<times> bool) list" where
  "release_contract T decimal tree =
     (let main = ''apps/desktop_flutter/lib/main.dart'';
          shell_client = ''apps/desktop_flutter/lib/services/shell_core_client.dart'';
          models = ''apps/desktop_flutter/lib/models/generated_contracts.dart'';
          broker_client = ''apps/desktop_flutter/lib/services/broker_client.dart'';
          sh = ''scripts/launch_owner_desktop.sh''; ps1 = ''scripts/launch_owner_desktop.ps1'';
          widget_test = ''apps/desktop_flutter/test/widget_test.dart'';
          ipc = ''native/rust_helper/tests/broker_ipc.rs''; protocol = ''native/rust_helper/src/broker/protocol.rs'';
          lib = desktop_lib_files tree
      in [([main], occurs (u ''await ShellCoreClient.product()'') (source tree main)
             \<and> \<not> occurs (u ''ShellCoreClient.local('') (source tree main)),
          ([shell_client], all_in BROKER_MEDIATED_TOKENS (product_text tree)
             \<and> none_in LOCAL_AUTHORITY_TOKENS (product_text tree)),
          ([shell_client], none_in SNAPSHOT_PROBE_TOKENS (snapshot_text tree)
             \<and> none_in COMMAND_PROBE_TOKENS (probe_text tree)),
          ([models], none_in EVIDENCE_DEFAULT_TOKENS (source tree models)
             \<and> conformance_default T decimal (source tree models) = None),
          ([], free_of tree (lib @ owner_scripts) PYTHON_PROCESS_TOKENS),
          ([sh, ps1], list_all (\<lambda>script. all_in LAUNCH_REQUIRED_TOKENS (source tree script)
                                      \<and> none_in LAUNCH_FORBIDDEN_TOKENS (source tree script)) [sh, ps1]),
          ([], free_of tree lib DART_BRIDGE_TOKENS
             \<and> free_of tree (files_below tree ''native/rust_helper/src'' ''.rs'') RUST_BRIDGE_TOKENS),
          ([broker_client], all_in LOOPBACK_TOKENS (source tree broker_client)
             \<and> none_in DIRECT_PATH_TOKENS (source tree broker_client)),
          ([broker_client], all_in PAYLOAD_HASH_TOKENS (source tree broker_client)
             \<and> \<not> occurs FIXED_HASH (source tree broker_client)),
          ([], free_of tree (filter (\<lambda>p. last p \<noteq> u ''broker_client.dart'') lib)
                 [u ''session_secret'', u ''sessionSecret'']),
          ([widget_test], all_in FAIL_CLOSED_TESTS (source tree widget_test)),
          ([ipc, protocol], all_in BROKER_RUNTIME_TESTS (source tree ipc @ [10] @ source tree protocol))])"

text \<open>One assertion meets one line of the contract.\<close>

definition meets :: "repo_texts \<Rightarrow> exn + runtime_assertion \<Rightarrow> string list \<times> bool \<Rightarrow> bool" where
  "meets tree m line \<longleftrightarrow>
     (if list_all (has_source tree) (fst line)
      then \<exists>a. m = Inr a \<and> coherent_assertion a \<and> (ra_classification a = ''release_blocker'') = (\<not> snd line)
      else m = Inl OSError)"

lemma meets_if:
  "meets tree (Inr (if b then assertion_fail n s r a else assertion_pass n' s' r' a')) ([], c) \<longleftrightarrow> b = (\<not> c)"
  by (simp add: meets_def)

lemma meets_if2:
  "meets tree (Inr (if b then assertion_fail n s r a else if b' then assertion_fail n'' s'' r'' a''
     else assertion_pass n' s' r' a')) ([], c) \<longleftrightarrow> (b \<or> b') = (\<not> c)"
  by (simp add: meets_def)

lemma meets_read:
  "meets tree (f (source tree file)) (files, c) \<Longrightarrow> meets tree (bindE (read_source tree file) f) (file # files, c)"
  by (auto simp: meets_def read_source_eq split: if_splits)

lemmas token_defs = all_in_def none_in_def Let_def

lemma meets_1: "meets tree (assert_flutter_product_entry_uses_broker tree)
    ([''apps/desktop_flutter/lib/main.dart''],
     occurs (u ''await ShellCoreClient.product()'') (source tree ''apps/desktop_flutter/lib/main.dart'')
     \<and> \<not> occurs (u ''ShellCoreClient.local('') (source tree ''apps/desktop_flutter/lib/main.dart''))"
  unfolding assert_flutter_product_entry_uses_broker_def by (rule meets_read) (simp add: meets_if2)

lemma meets_2: "meets tree (assert_flutter_authority_operations_are_broker_mediated tree)
    ([''apps/desktop_flutter/lib/services/shell_core_client.dart''],
     all_in BROKER_MEDIATED_TOKENS (product_text tree) \<and> none_in LOCAL_AUTHORITY_TOKENS (product_text tree))"
  unfolding assert_flutter_authority_operations_are_broker_mediated_def product_body_def client_text_def bindE_assoc
  by (rule meets_read) (simp add: meets_if2 token_defs product_text_def)

lemma meets_3: "meets tree (assert_flutter_product_snapshot_does_not_promote_probe_state tree)
    ([''apps/desktop_flutter/lib/services/shell_core_client.dart''],
     none_in SNAPSHOT_PROBE_TOKENS (snapshot_text tree) \<and> none_in COMMAND_PROBE_TOKENS (probe_text tree))"
  unfolding assert_flutter_product_snapshot_does_not_promote_probe_state_def broker_snapshot_body_def client_text_def
    bindE_assoc
  by (simp add: meets_def read_source_eq function_body_def client_text_def probe_text_def snapshot_text_def token_defs)

lemma meets_4: "meets tree (assert_flutter_models_do_not_default_evidence_to_passed T decimal tree)
    ([''apps/desktop_flutter/lib/models/generated_contracts.dart''],
     none_in EVIDENCE_DEFAULT_TOKENS (source tree ''apps/desktop_flutter/lib/models/generated_contracts.dart'')
     \<and> conformance_default T decimal (source tree ''apps/desktop_flutter/lib/models/generated_contracts.dart'') = None)"
  unfolding assert_flutter_models_do_not_default_evidence_to_passed_def
  by (rule meets_read) (simp add: meets_if token_defs split: option.split)

lemma meets_5: "meets tree (assert_flutter_does_not_spawn_python_product_path tree)
    ([], free_of tree (desktop_lib_files tree @ owner_scripts) PYTHON_PROCESS_TOKENS)"
  unfolding assert_flutter_does_not_spawn_python_product_path_def Let_def by (simp add: meets_if)

lemma meets_6: "meets tree (assert_launch_scripts_start_broker_without_python_snapshot tree)
    ([''scripts/launch_owner_desktop.sh'', ''scripts/launch_owner_desktop.ps1''],
     list_all (\<lambda>script. all_in LAUNCH_REQUIRED_TOKENS (source tree script)
                      \<and> none_in LAUNCH_FORBIDDEN_TOKENS (source tree script))
       [''scripts/launch_owner_desktop.sh'', ''scripts/launch_owner_desktop.ps1''])"
  by (simp add: meets_def assert_launch_scripts_start_broker_without_python_snapshot_def owner_scripts_def
      launch_script_errors_def read_owner_script token_defs conj_assoc)

lemma meets_7: "meets tree (assert_no_ffi_or_direct_bridge_authority_path tree)
    ([], free_of tree (desktop_lib_files tree) DART_BRIDGE_TOKENS
         \<and> free_of tree (files_below tree ''native/rust_helper/src'' ''.rs'') RUST_BRIDGE_TOKENS)"
  unfolding assert_no_ffi_or_direct_bridge_authority_path_def Let_def by (simp add: meets_if)

lemma meets_8: "meets tree (assert_broker_client_uses_authenticated_loopback_ipc tree)
    ([''apps/desktop_flutter/lib/services/broker_client.dart''],
     all_in LOOPBACK_TOKENS (source tree ''apps/desktop_flutter/lib/services/broker_client.dart'')
     \<and> none_in DIRECT_PATH_TOKENS (source tree ''apps/desktop_flutter/lib/services/broker_client.dart''))"
  unfolding assert_broker_client_uses_authenticated_loopback_ipc_def broker_client_text_def
  by (rule meets_read) (simp add: meets_if token_defs)

lemma meets_9: "meets tree (assert_broker_client_binds_payload_hash_to_payload tree)
    ([''apps/desktop_flutter/lib/services/broker_client.dart''],
     all_in PAYLOAD_HASH_TOKENS (source tree ''apps/desktop_flutter/lib/services/broker_client.dart'')
     \<and> \<not> occurs FIXED_HASH (source tree ''apps/desktop_flutter/lib/services/broker_client.dart''))"
  unfolding assert_broker_client_binds_payload_hash_to_payload_def broker_client_text_def
  by (rule meets_read) (simp add: meets_if token_defs)

lemma meets_10: "meets tree (assert_broker_secret_not_projected_to_ui tree)
    ([], free_of tree (filter (\<lambda>p. last p \<noteq> u ''broker_client.dart'') (desktop_lib_files tree))
           [u ''session_secret'', u ''sessionSecret''])"
  unfolding assert_broker_secret_not_projected_to_ui_def Let_def by (simp add: meets_if)

lemma meets_11: "meets tree (assert_flutter_fail_closed_tests_exist tree)
    ([''apps/desktop_flutter/test/widget_test.dart''],
     all_in FAIL_CLOSED_TESTS (source tree ''apps/desktop_flutter/test/widget_test.dart''))"
  unfolding assert_flutter_fail_closed_tests_exist_def by (rule meets_read) (simp add: meets_if token_defs)

lemma meets_12: "meets tree (assert_broker_runtime_restart_and_crash_tests_exist tree)
    ([''native/rust_helper/tests/broker_ipc.rs'', ''native/rust_helper/src/broker/protocol.rs''],
     all_in BROKER_RUNTIME_TESTS
       (source tree ''native/rust_helper/tests/broker_ipc.rs'' @ [10]
        @ source tree ''native/rust_helper/src/broker/protocol.rs''))"
  unfolding assert_broker_runtime_restart_and_crash_tests_exist_def
  by (intro meets_read) (simp add: meets_if token_defs)

lemma mapE_meets:
  assumes "list_all2 (\<lambda>assertion line. meets tree (assertion tree) line) assertions lines"
  shows "if list_all (\<lambda>line. list_all (has_source tree) (fst line)) lines
    then \<exists>as. mapE (\<lambda>assertion. assertion tree) assertions = Inr as \<and> length as = length lines
           \<and> list_all coherent_assertion as
           \<and> (filter (\<lambda>a. ra_classification a = ''release_blocker'') as = []) = list_all snd lines
    else mapE (\<lambda>assertion. assertion tree) assertions = Inl OSError"
  using assms
proof (induction rule: list_all2_induct)
  case (Cons assertion assertions line lines)
  show ?case
  proof (cases "list_all (has_source tree) (fst line)")
    case True
    then obtain a where "assertion tree = Inr a" "coherent_assertion a"
        "(ra_classification a = ''release_blocker'') = (\<not> snd line)"
      using Cons.hyps(1) by (auto simp: meets_def)
    with Cons.IH True show ?thesis by (auto split: if_splits)
  qed (use Cons.hyps(1) in \<open>simp add: meets_def\<close>)
qed simp

lemma run_meets:
  "if list_all (\<lambda>line. list_all (has_source tree) (fst line)) (release_contract T decimal tree)
   then \<exists>as. run_release_runtime_assertions T decimal tree = Inr as \<and> length as = 12 \<and> list_all coherent_assertion as
          \<and> (filter (\<lambda>a. ra_classification a = ''release_blocker'') as = []) = list_all snd (release_contract T decimal tree)
   else run_release_runtime_assertions T decimal tree = Inl OSError"
proof -
  have "length (release_contract T decimal tree) = 12"
    by (simp add: release_contract_def Let_def)
  moreover have "list_all2 (\<lambda>assertion line. meets tree (assertion tree) line)
       [assert_flutter_product_entry_uses_broker,
        assert_flutter_authority_operations_are_broker_mediated,
        assert_flutter_product_snapshot_does_not_promote_probe_state,
        assert_flutter_models_do_not_default_evidence_to_passed T decimal,
        assert_flutter_does_not_spawn_python_product_path,
        assert_launch_scripts_start_broker_without_python_snapshot,
        assert_no_ffi_or_direct_bridge_authority_path,
        assert_broker_client_uses_authenticated_loopback_ipc,
        assert_broker_client_binds_payload_hash_to_payload,
        assert_broker_secret_not_projected_to_ui,
        assert_flutter_fail_closed_tests_exist,
        assert_broker_runtime_restart_and_crash_tests_exist] (release_contract T decimal tree)"
    unfolding release_contract_def Let_def
    by (intro list_all2_Cons [THEN iffD2] conjI list_all2_Nil [THEN iffD2] TrueI refl
        meets_1 meets_2 meets_3 meets_4 meets_5 meets_6 meets_7 meets_8 meets_9 meets_10 meets_11 meets_12)
  ultimately show ?thesis
    using mapE_meets [of tree] unfolding run_release_runtime_assertions_def by metis
qed


text \<open>
  Every report has twelve assertions, each either passed and harmless or failed and a release
  blocker; it is ok exactly when none failed, and its note keeps blocking the release in any case.
\<close>

theorem runtime_report_coherent:
  assumes "build_report T decimal tree = Inr report"
  shows "length (rr_assertions report) = 12 \<and> list_all coherent_assertion (rr_assertions report)
    \<and> rr_failure_count report = length (filter (\<lambda>a. ra_status a = ''failed'') (rr_assertions report))
    \<and> rr_ok report = (rr_failure_count report = 0) \<and> rr_note_blocks report = ''yes''"
proof -
  obtain as where as: "run_release_runtime_assertions T decimal tree = Inr as" "length as = 12" "list_all coherent_assertion as"
    using assms run_meets [of tree T decimal] by (auto simp: build_report_def res_simps split: if_splits)
  then have "filter (\<lambda>a. ra_classification a = ''release_blocker'') as = filter (\<lambda>a. ra_status a = ''failed'') as"
    by (intro filter_cong) (auto simp: list_all_iff coherent_assertion_def)
  with as assms show ?thesis by (auto simp: build_report_def Let_def)
qed

text \<open>
  The scan for promoted probe state passes on a client that holds neither of the two bodies it
  looks for: a renamed function silences it.
\<close>

theorem probe_scan_vacuous:
  assumes "has_source tree ''apps/desktop_flutter/lib/services/shell_core_client.dart''"
    and "\<not> occurs (u ''ShellSnapshot _brokerSnapshot'') (source tree ''apps/desktop_flutter/lib/services/shell_core_client.dart'')"
    and "\<not> occurs (u ''Map<String, Object?> _brokerCommandProbePayload'')
      (source tree ''apps/desktop_flutter/lib/services/shell_core_client.dart'')"
  shows "\<exists>a. assert_flutter_product_snapshot_does_not_promote_probe_state tree = Inr a \<and> ra_status a = ''passed''"
proof -
  have "u ''Map<String, Object?> '' @ u ''_brokerCommandProbePayload'' = u ''Map<String, Object?> _brokerCommandProbePayload''"
    by (simp add: u_def)
  then have "function_body tree ''_brokerCommandProbePayload'' = Inr []"
    using assms(1,3) by (simp add: function_body_def client_text_def read_source_eq occurs_def)
  moreover have "broker_snapshot_body tree = Inr []"
    using assms(1,2) by (simp add: broker_snapshot_body_def client_text_def read_source_eq body_between_def occurs_def)
  moreover have "found SNAPSHOT_PROBE_TOKENS [] = []" "found COMMAND_PROBE_TOKENS [] = []"
    by (simp_all add: found_def SNAPSHOT_PROBE_TOKENS_def COMMAND_PROBE_TOKENS_def dart_def)
  ultimately show ?thesis
    by (simp add: assert_flutter_product_snapshot_does_not_promote_probe_state_def assertion_pass_def)
qed

subsection \<open>A concrete tree\<close>

definition empty_sources :: repo_texts where
  "empty_sources = \<lparr>tree_walk = [], tree_text = (\<lambda>_. Some [])\<rparr>"

lemma empty_has [simp]: "has_source empty_sources r" "source empty_sources r = []"
  by (simp_all add: has_source_def source_def empty_sources_def)

lemma empty_report: "\<exists>report. build_report T decimal empty_sources = Inr report"
proof -
  have "list_all (\<lambda>line. list_all (has_source empty_sources) (fst line)) lines" for lines :: "(string list \<times> bool) list"
    unfolding list_all_iff by simp
  then obtain as where "run_release_runtime_assertions T decimal empty_sources = Inr as"
    using run_meets [of empty_sources T decimal] unfolding if_True by metis
  then show ?thesis unfolding build_report_def Let_def by simp
qed

theorem runtime_report_coherent_witness:
  "\<exists>report. build_report ascii_tables (\<lambda>c. False) empty_sources = Inr report \<and> length (rr_assertions report) = 12
    \<and> rr_ok report = (rr_failure_count report = 0) \<and> rr_note_blocks report = ''yes''"
proof -
  obtain report where report: "build_report ascii_tables (\<lambda>c. False) empty_sources = Inr report"
    using empty_report by blast
  show ?thesis
    using report runtime_report_coherent [OF report] by (intro exI [of _ report]) simp
qed

theorem probe_scan_vacuous_witness:
  "\<exists>a. assert_flutter_product_snapshot_does_not_promote_probe_state empty_sources = Inr a \<and> ra_status a = ''passed''"
  by (rule probe_scan_vacuous) simp_all

end
