(* ===== verification/Shell_Snapshot.thy ===== *)
theory Shell_Snapshot
  imports State_Snapshot Reference_State
begin

text \<open>
  The snapshot the desktop shell shows (\<open>tooling/shell_snapshot.py\<close>): the records of a runtime state,
  projected, beside the fixed problem, evidence, trust, settings and recovery records. The source takes
  the reference state; \<open>shell_snapshot_of\<close> is its body for any state. The time is an argument.
\<close>

subsection \<open>Fixed records\<close>

definition phase_status :: obj where
  "phase_status =
     [(u ''phase_a_status'', js ''complete''), (u ''phase_b_status'', js ''complete''),
      (u ''phase_c_status'', js ''next''), (u ''phase_d_status'', js ''later''),
      (u ''phase_e_status'', js ''later''), (u ''phase_f_status'', js ''later''),
      (u ''completed_product_release_claimed'', JBool False)]"

definition trust_records :: "obj list" where
  "trust_records =
     [[(u ''scope'', js ''workspace_trust''), (u ''state'', js ''restricted''),
       (u ''source'', JStr [0x30ED, 0x30FC, 0x30AB, 0x30EB, 0x65B9, 0x91DD]), (u ''expires_at'', JNull),
       (u ''blocked_operations'', JArr [js ''process.spawn'', js ''network.public_bind''])],
      [(u ''scope'', js ''runtime_trust''), (u ''state'', js ''trusted''),
       (u ''source'', JStr [0x7F72, 0x540D, 0x6E08, 0x307F, 0x30DE, 0x30CB, 0x30D5, 0x30A7, 0x30B9, 0x30C8]),
       (u ''expires_at'', JNull), (u ''blocked_operations'', JArr [])],
      [(u ''scope'', js ''adapter_trust''), (u ''state'', js ''inherited''),
       (u ''source'', js ''runtime_trust''), (u ''expires_at'', JNull), (u ''blocked_operations'', JArr [])],
      [(u ''scope'', js ''installer_trust''), (u ''state'', js ''unknown''),
       (u ''source'', JStr [0x30A4, 0x30F3, 0x30B9, 0x30C8, 0x30FC, 0x30EB, 0x5148, 0x8A3C, 0x62E0, 0x306A, 0x3057]),
       (u ''expires_at'', JNull), (u ''blocked_operations'', JArr [js ''release_ready_claim''])]]"

definition permission_diffs :: "obj list" where
  "permission_diffs =
     [[(u ''subject'', js ''blue_tanuki_reference''), (u ''added'', JArr [js ''filesystem.write'']),
       (u ''removed'', JArr []),
       (u ''changed'', JArr [JStr (u ''content_visibility: full '' @ [0x2192] @ u '' redacted'' @ [0xFF08, 0x5B8C, 0x5168,
                 0x8868, 0x793A, 0x304B, 0x3089, 0x58A8, 0x6D88, 0x3057, 0x8868, 0x793A, 0xFF09])]),
       (u ''dangerous'', JArr [])]]"

definition problems :: "obj list" where
  "problems =
     [[(u ''problem_id'', js ''windows-installed-evidence-missing''), (u ''severity'', js ''blocked''),
       (u ''category'', js ''missing_evidence''),
       (u ''message'', JStr (u ''Windows'' @ [0x30A4, 0x30F3, 0x30B9, 0x30C8, 0x30FC, 0x30EB, 0x5148, 0x306E, 0x8A3C,
           0x62E0, 0x304C, 0x3042, 0x308A, 0x307E, 0x305B, 0x3093, 0x3002])),
       (u ''target'', js ''release_evidence/windows_installed_smoke.json''),
       (u ''recovery_id'', js ''recover-windows-evidence''),
       (u ''item'', JStr (u ''Windows'' @ [0x30A4, 0x30F3, 0x30B9, 0x30C8, 0x30FC, 0x30EB, 0x5148, 0x306E, 0x521D,
           0x56DE, 0x8D77, 0x52D5, 0x5B9F, 0x6E2C, 0x8A3C, 0x62E0, 0x306A, 0x3057])),
       (u ''classification'', js ''release_blocker''),
       (u ''reason'', JStr [0x30A4, 0x30F3, 0x30B9, 0x30C8, 0x30FC, 0x30EB, 0x5148, 0x306E, 0x521D, 0x56DE, 0x8D77,
           0x52D5, 0x3092, 0x5B9F, 0x6E2C, 0x3057, 0x305F, 0x8A3C, 0x62E0, 0x304C, 0x8A18, 0x9332, 0x3055,
           0x308C, 0x3066, 0x3044, 0x307E, 0x305B, 0x3093, 0x3002]),
       (u ''required_action'', JStr ([0x30CD, 0x30A4, 0x30C6, 0x30A3, 0x30D6] @ u ''Windows'' @ [0x3067, 0x5F37, 0x5316, 0x6E08,
           0x307F, 0x30A4, 0x30F3, 0x30B9, 0x30C8, 0x30FC, 0x30EB, 0x7C21, 0x6613, 0x691C, 0x67FB, 0x3092,
           0x5B9F, 0x884C, 0x3057, 0x3066, 0x304F, 0x3060, 0x3055, 0x3044, 0x3002])),
       (u ''blocks_release'', JBool True), (u ''safe_to_ignore_for_phase_b'', JBool True),
       (u ''blocks_owner_use'', JBool False), (u ''blocks_completed_product_release'', JBool True)],
      [(u ''problem_id'', js ''setup-doctor-installed-evidence-missing''), (u ''severity'', js ''blocked''),
       (u ''category'', js ''missing_evidence''),
       (u ''message'', JStr [0x30A4, 0x30F3, 0x30B9, 0x30C8, 0x30FC, 0x30EB, 0x5148, 0x3067, 0x751F, 0x6210, 0x3057,
           0x305F, 0x975E, 0x5408, 0x6210, 0x306E, 0x74B0, 0x5883, 0x8A3A, 0x65AD, 0x8A3C, 0x62E0, 0x304C,
           0x3042, 0x308A, 0x307E, 0x305B, 0x3093, 0x3002]),
       (u ''target'', js ''release_evidence/windows_installed_smoke.json''),
       (u ''recovery_id'', js ''recover-setup-doctor-evidence''),
       (u ''item'', JStr [0x30A4, 0x30F3, 0x30B9, 0x30C8, 0x30FC, 0x30EB, 0x5148, 0x306E, 0x975E, 0x5408, 0x6210,
           0x74B0, 0x5883, 0x8A3A, 0x65AD, 0x8A3C, 0x62E0, 0x306A, 0x3057]),
       (u ''classification'', js ''release_blocker''),
       (u ''reason'', JStr [0x30A4, 0x30F3, 0x30B9, 0x30C8, 0x30FC, 0x30EB, 0x6E08, 0x307F, 0x30A2, 0x30D7, 0x30EA,
           0x306E, 0x30D1, 0x30B9, 0x304B, 0x3089, 0x74B0, 0x5883, 0x8A3A, 0x65AD, 0x3092, 0x5B9F, 0x884C,
           0x3057, 0x305F, 0x8A3C, 0x660E, 0x304C, 0x3042, 0x308A, 0x307E, 0x305B, 0x3093, 0x3002]),
       (u ''required_action'', JStr ([0x30A4, 0x30F3, 0x30B9, 0x30C8, 0x30FC, 0x30EB, 0x6E08, 0x307F] @ u ''Windows'' @ [0x30A2,
           0x30D7, 0x30EA, 0x306E, 0x30D1, 0x30B9, 0x304B, 0x3089, 0x74B0, 0x5883, 0x8A3A, 0x65AD, 0x3092,
           0x5B9F, 0x884C, 0x3057, 0x3001, 0x5FC5, 0x9808, 0x691C, 0x67FB, 0x3092, 0x8A18, 0x9332, 0x3057,
           0x3066, 0x304F, 0x3060, 0x3055, 0x3044, 0x3002])),
       (u ''blocks_release'', JBool True), (u ''safe_to_ignore_for_phase_b'', JBool True),
       (u ''blocks_owner_use'', JBool False), (u ''blocks_completed_product_release'', JBool True)],
      [(u ''problem_id'', js ''owner-go-missing''), (u ''severity'', js ''blocked''),
       (u ''category'', js ''release_gate''),
       (u ''message'', JStr [0x6240, 0x6709, 0x8005, 0x47, 0x4F, 0x304C, 0x3042, 0x308A, 0x307E, 0x305B, 0x3093, 0x3002]),
       (u ''target'', JStr [0x30EA, 0x30EA, 0x30FC, 0x30B9, 0x78BA, 0x8A8D, 0x8868]),
       (u ''recovery_id'', js ''recover-owner-go''),
       (u ''item'', JStr [0x6240, 0x6709, 0x8005, 0x47, 0x4F, 0x306A, 0x3057]),
       (u ''classification'', js ''release_blocker''),
       (u ''reason'', JStr [0x5B8C, 0x6210, 0x88FD, 0x54C1, 0x306E, 0x30EA, 0x30EA, 0x30FC, 0x30B9, 0x306B, 0x306F,
           0x6240, 0x6709, 0x8005, 0x306E, 0x660E, 0x793A, 0x627F, 0x8A8D, 0x304C, 0x5FC5, 0x8981, 0x3067,
           0x3059, 0x3002]),
       (u ''required_action'', JStr [0x30EA, 0x30EA, 0x30FC, 0x30B9, 0x906E, 0x65AD, 0x8981, 0x56E0, 0x3092, 0x89E3, 0x6D88,
           0x3057, 0x305F, 0x5F8C, 0x306B, 0x6240, 0x6709, 0x8005, 0x47, 0x4F, 0x3092, 0x8A18, 0x9332, 0x3057,
           0x3066, 0x304F, 0x3060, 0x3055, 0x3044, 0x3002]),
       (u ''blocks_release'', JBool True), (u ''safe_to_ignore_for_phase_b'', JBool True),
       (u ''blocks_owner_use'', JBool False), (u ''blocks_completed_product_release'', JBool True)],
      [(u ''problem_id'', js ''audit-anchor-external-tamper-evidence-missing''),
       (u ''severity'', js ''blocked''), (u ''category'', js ''missing_evidence''),
       (u ''message'', JStr [0x76E3, 0x67FB, 0x30A2, 0x30F3, 0x30AB, 0x30FC, 0x306E, 0x5916, 0x90E8, 0x6539, 0x3056,
           0x3093, 0x8010, 0x6027, 0x8A3C, 0x660E, 0x304C, 0x3042, 0x308A, 0x307E, 0x305B, 0x3093, 0x3002]),
       (u ''target'', js ''release_evidence/windows_installed_smoke.json''),
       (u ''recovery_id'', js ''recover-audit-anchor-external-proof''),
       (u ''item'', JStr [0x76E3, 0x67FB, 0x30A2, 0x30F3, 0x30AB, 0x30FC, 0x306E, 0x5916, 0x90E8, 0x6539, 0x3056,
           0x3093, 0x8010, 0x6027, 0x8A3C, 0x660E, 0x306A, 0x3057]),
       (u ''classification'', js ''release_blocker''),
       (u ''reason'', JStr ([0x30ED, 0x30FC, 0x30AB, 0x30EB] @ u ''HMAC'' @ [0x30A2, 0x30F3, 0x30AB, 0x30FC, 0x3060,
           0x3051, 0x3067, 0x306F, 0x3001] @ u ''Windows ACL'' @ [0xFF0F] @ u ''DPAPI'' @ [0x3001, 0x5916,
           0x90E8, 0x30A2, 0x30F3, 0x30AB, 0x30FC, 0x3001, 0x7F72, 0x540D, 0x6E08, 0x307F, 0x8A3C, 0x62E0,
           0x304C, 0x306A, 0x3044, 0x9650, 0x308A, 0x3001, 0x540C, 0x4E00, 0x30E6, 0x30FC, 0x30B6, 0x30FC,
           0x307E, 0x305F, 0x306F, 0x7BA1, 0x7406, 0x8005, 0xFF0F] @ u ''root'' @ [0x306B, 0x3088, 0x308B,
           0x66F8, 0x63DB, 0x3048, 0x3078, 0x306E, 0x8010, 0x6027, 0x3092, 0x8A3C, 0x660E, 0x3067, 0x304D,
           0x307E, 0x305B, 0x3093, 0x3002])),
       (u ''required_action'', JStr (u ''Windows'' @ [0x30A4, 0x30F3, 0x30B9, 0x30C8, 0x30FC, 0x30EB, 0x5148, 0x3067, 0x76E3,
           0x67FB, 0x30A2, 0x30F3, 0x30AB, 0x30FC, 0x9375, 0x306E, 0x4FDD, 0x8B77, 0x8A3C, 0x62E0, 0x307E,
           0x305F, 0x306F, 0x5916, 0x90E8, 0x30A2, 0x30F3, 0x30AB, 0x30FC, 0x8A3C, 0x62E0, 0x3092, 0x53CE,
           0x96C6, 0x3057, 0x3066, 0x304F, 0x3060, 0x3055, 0x3044, 0x3002])),
       (u ''blocks_release'', JBool True), (u ''safe_to_ignore_for_phase_b'', JBool True),
       (u ''blocks_owner_use'', JBool False), (u ''blocks_completed_product_release'', JBool True)],
      [(u ''problem_id'', js ''macos-unverified''), (u ''severity'', js ''info''),
       (u ''category'', js ''scope''),
       (u ''message'', JStr (u ''macOS'' @ [0x306F, 0x672A, 0x691C, 0x8A3C, 0x3067, 0x3059, 0x3002])),
       (u ''target'', JStr [0x30C7, 0x30B9, 0x30AF, 0x30C8, 0x30C3, 0x30D7, 0x5BFE, 0x5FDC, 0x8868]),
       (u ''recovery_id'', js ''recover-macos-validation''),
       (u ''item'', JStr (u ''macOS'' @ [0x672A, 0x691C, 0x8A3C])),
       (u ''classification'', js ''known_limitation''),
       (u ''reason'', JStr (u ''macOS'' @ [0x691C, 0x8A3C, 0x74B0, 0x5883, 0x3092, 0x5229, 0x7528, 0x3067, 0x304D, 0x307E,
           0x305B, 0x3093, 0x3002])),
       (u ''required_action'', JStr (u ''macOS'' @ [0x5BFE, 0x5FDC, 0x3092, 0x4E3B, 0x5F35, 0x3059, 0x308B, 0x524D,
           0x306B] @ u ''macOS'' @ [0x4E0A, 0x3067, 0x691C, 0x8A3C, 0x3057, 0x3066, 0x304F, 0x3060, 0x3055,
           0x3044, 0x3002])),
       (u ''blocks_release'', JBool False), (u ''safe_to_ignore_for_phase_b'', JBool True),
       (u ''blocks_owner_use'', JBool False), (u ''blocks_completed_product_release'', JBool False)],
      [(u ''problem_id'', js ''mobile-post-v1''), (u ''severity'', js ''info''),
       (u ''category'', js ''scope''),
       (u ''message'', JStr [0x30E2, 0x30D0, 0x30A4, 0x30EB, 0x5B8C, 0x5168, 0x30EA, 0x30EA, 0x30FC, 0x30B9, 0x306F, 0x76,
           0x31, 0x5F8C, 0x306E, 0x7BC4, 0x56F2, 0x3067, 0x3059, 0x3002]),
       (u ''target'', JStr [0x30E2, 0x30D0, 0x30A4, 0x30EB, 0x72B6, 0x614B]),
       (u ''recovery_id'', js ''recover-mobile-scope''),
       (u ''item'', JStr [0x30E2, 0x30D0, 0x30A4, 0x30EB, 0x306F, 0x76, 0x31, 0x5F8C, 0x306E, 0x7BC4, 0x56F2]),
       (u ''classification'', js ''post_v1_scope''),
       (u ''reason'', JStr ([0x6240, 0x6709, 0x8005, 0x304C, 0x7BC4, 0x56F2, 0x3092, 0x5909, 0x66F4, 0x3057, 0x306A,
           0x3044, 0x9650, 0x308A, 0x3001] @ u ''v1.0'' @ [0x306F] @ u ''Windows'' @ [0x512A, 0x5148, 0x306E,
           0x30C7, 0x30B9, 0x30AF, 0x30C8, 0x30C3, 0x30D7, 0x7248, 0x3067, 0x3059, 0x3002])),
       (u ''required_action'', JStr [0x30E2, 0x30D0, 0x30A4, 0x30EB, 0x306E, 0x30EA, 0x30EA, 0x30FC, 0x30B9, 0x4F5C, 0x696D,
           0x3092, 0x4FDD, 0x7559, 0x3057, 0x3066, 0x304F, 0x3060, 0x3055, 0x3044, 0x3002]),
       (u ''blocks_release'', JBool False), (u ''safe_to_ignore_for_phase_b'', JBool True),
       (u ''blocks_owner_use'', JBool False), (u ''blocks_completed_product_release'', JBool False)],
      [(u ''problem_id'', js ''paid-qc-later''), (u ''severity'', js ''info''), (u ''category'', js ''scope''),
       (u ''message'', JStr [0x6709, 0x511F, 0x88FD, 0x54C1, 0x306E, 0x54C1, 0x8CEA, 0x7BA1, 0x7406, 0x306F, 0x5F8C,
           0x7D9A, 0x6BB5, 0x968E, 0x3067, 0x3059, 0x3002]),
       (u ''target'', JStr [0x6BB5, 0x968E, 0x6226, 0x7565]), (u ''recovery_id'', js ''recover-paid-qc''),
       (u ''item'', JStr [0x6709, 0x511F, 0x88FD, 0x54C1, 0x306E, 0x54C1, 0x8CEA, 0x7BA1, 0x7406, 0x306F, 0x5F8C,
           0x7D9A]),
       (u ''classification'', js ''post_v1_scope''),
       (u ''reason'', JStr [0x6BB5, 0x968E, 0x42, 0x306F, 0x6240, 0x6709, 0x8005, 0x5229, 0x7528, 0x306E, 0x5805, 0x7262,
           0x5316, 0x3067, 0x3042, 0x308A, 0x3001, 0x6709, 0x511F, 0x88FD, 0x54C1, 0x306E, 0x54C1, 0x8CEA,
           0x7BA1, 0x7406, 0x3067, 0x306F, 0x3042, 0x308A, 0x307E, 0x305B, 0x3093, 0x3002]),
       (u ''required_action'', JStr [0x6709, 0x511F, 0x88FD, 0x54C1, 0x306E, 0x54C1, 0x8CEA, 0x7BA1, 0x7406, 0x306F, 0x6BB5,
           0x968E, 0x46, 0x307E, 0x3067, 0x4FDD, 0x7559, 0x3057, 0x3066, 0x304F, 0x3060, 0x3055, 0x3044,
           0x3002]),
       (u ''blocks_release'', JBool False), (u ''safe_to_ignore_for_phase_b'', JBool True),
       (u ''blocks_owner_use'', JBool False), (u ''blocks_completed_product_release'', JBool False)]]"

definition evidence_records :: "obj list" where
  "evidence_records =
     [[(u ''evidence_id'', js ''windows-installed-smoke''), (u ''kind'', js ''installed-path''),
       (u ''status'', js ''missing''), (u ''path'', js ''release_evidence/windows_installed_smoke.json''),
       (u ''hash'', js ''''), (u ''exportable'', JBool False)],
      [(u ''evidence_id'', js ''development-validation''), (u ''kind'', js ''validation''),
       (u ''status'', js ''passed''), (u ''path'', js ''tooling/validate_all.py''), (u ''hash'', js ''''),
       (u ''exportable'', JBool True)]]"

definition settings_records :: "obj list" where
  "settings_records =
     [[(u ''key'', js ''content_visibility.default''), (u ''group'', js ''authority''),
       (u ''default'', js ''redacted''), (u ''current'', js ''redacted''), (u ''effective'', js ''redacted''),
       (u ''source'', JStr (u ''Shell Core'' @ [0x65B9, 0x91DD])), (u ''modified'', JBool False),
       (u ''dangerous'', JBool False), (u ''authority_related'', JBool True)],
      [(u ''key'', js ''network.public_bind''), (u ''group'', js ''runtime''), (u ''default'', js ''blocked''),
       (u ''current'', js ''blocked''), (u ''effective'', js ''blocked''),
       (u ''source'', JStr [0x8A31, 0x53EF, 0x53F0, 0x5E33]), (u ''modified'', JBool False),
       (u ''dangerous'', JBool True), (u ''authority_related'', JBool True)],
      [(u ''key'', js ''phase.owner_use''), (u ''group'', js ''phase''), (u ''default'', js ''complete''),
       (u ''current'', js ''complete''), (u ''effective'', js ''complete''), (u ''source'', js ''ROADMAP.md''),
       (u ''modified'', JBool False), (u ''dangerous'', JBool False), (u ''authority_related'', JBool False)],
      [(u ''key'', js ''release.state''), (u ''group'', js ''release''), (u ''default'', js ''not claimed''),
       (u ''current'', js ''not claimed''), (u ''effective'', js ''not claimed''),
       (u ''source'', JStr [0x53B3, 0x683C, 0x30EA, 0x30EA, 0x30FC, 0x30B9, 0x95A2, 0x9580]),
       (u ''modified'', JBool False), (u ''dangerous'', JBool True), (u ''authority_related'', JBool True)]]"

definition evidence_summary :: obj where
  "evidence_summary =
     [(u ''schema_check'', js ''passed''), (u ''conformance_check_count'', JInt 138),
      (u ''release_smoke'', js ''passed''), (u ''release_gate_check'', js ''passed''),
      (u ''evidence_bundle'', js ''passed''), (u ''validate_all'', js ''passed''),
      (u ''strict_windows_release'', js ''expected fail''),
      (u ''missing_measured_windows_evidence'', JBool True), (u ''missing_setup_doctor_evidence'', JBool True),
      (u ''missing_audit_anchor_external_tamper_evidence'', JBool True), (u ''owner_go'', js ''missing'')]"

definition recovery_playbook :: "obj list" where
  "recovery_playbook =
     [[(u ''recovery_id'', js ''recover-windows-evidence''),
       (u ''item'', JStr (u ''Windows'' @ [0x30A4, 0x30F3, 0x30B9, 0x30C8, 0x30FC, 0x30EB, 0x5148, 0x306E, 0x5B9F,
           0x6E2C, 0x8A3C, 0x62E0, 0x306A, 0x3057])),
       (u ''severity'', js ''release''), (u ''classification'', js ''release_blocker''),
       (u ''safe_to_ignore_for_phase_b'', JBool True), (u ''blocks_owner_use'', JBool False),
       (u ''required_action'', JStr ([0x30CD, 0x30A4, 0x30C6, 0x30A3, 0x30D6] @ u ''Windows'' @ [0x3067, 0x5F37, 0x5316, 0x6E08,
           0x307F, 0x30A4, 0x30F3, 0x30B9, 0x30C8, 0x30FC, 0x30EB, 0x7C21, 0x6613, 0x691C, 0x67FB, 0x3092,
           0x5B9F, 0x884C, 0x3057, 0x3066, 0x304F, 0x3060, 0x3055, 0x3044, 0x3002])),
       (u ''blocks_completed_product_release'', JBool True),
       (u ''command'', js ''python tooling/windows_release_evidence.py''),
       (u ''path'', js ''release_evidence/windows_installed_smoke.json'')],
      [(u ''recovery_id'', js ''recover-setup-doctor-evidence''),
       (u ''item'', JStr [0x30A4, 0x30F3, 0x30B9, 0x30C8, 0x30FC, 0x30EB, 0x5148, 0x306E, 0x975E, 0x5408, 0x6210,
           0x74B0, 0x5883, 0x8A3A, 0x65AD, 0x8A3C, 0x62E0, 0x306A, 0x3057]),
       (u ''severity'', js ''release''), (u ''classification'', js ''release_blocker''),
       (u ''safe_to_ignore_for_phase_b'', JBool True), (u ''blocks_owner_use'', JBool False),
       (u ''required_action'', JStr [0x30A4, 0x30F3, 0x30B9, 0x30C8, 0x30FC, 0x30EB, 0x5148, 0x304B, 0x3089, 0x74B0, 0x5883,
           0x8A3A, 0x65AD, 0x3092, 0x5B9F, 0x884C, 0x3057, 0x3001, 0x975E, 0x5408, 0x6210, 0x306E, 0x691C,
           0x67FB, 0x7D50, 0x679C, 0x3092, 0x8A18, 0x9332, 0x3057, 0x3066, 0x304F, 0x3060, 0x3055, 0x3044,
           0x3002]),
       (u ''blocks_completed_product_release'', JBool True),
       (u ''command'', js ''python tooling/windows_release_evidence.py''),
       (u ''path'', js ''release_evidence/windows_installed_smoke.json'')],
      [(u ''recovery_id'', js ''recover-owner-go''),
       (u ''item'', JStr [0x6240, 0x6709, 0x8005, 0x47, 0x4F, 0x306A, 0x3057]),
       (u ''severity'', js ''release''), (u ''classification'', js ''release_blocker''),
       (u ''safe_to_ignore_for_phase_b'', JBool True), (u ''blocks_owner_use'', JBool False),
       (u ''required_action'', JStr [0x30EA, 0x30EA, 0x30FC, 0x30B9, 0x906E, 0x65AD, 0x8981, 0x56E0, 0x306E, 0x691C, 0x67FB,
           0x5408, 0x683C, 0x5F8C, 0x306B, 0x6240, 0x6709, 0x8005, 0x47, 0x4F, 0x3092, 0x8A18, 0x9332, 0x3057,
           0x3066, 0x304F, 0x3060, 0x3055, 0x3044, 0x3002]),
       (u ''blocks_completed_product_release'', JBool True), (u ''command'', js ''''),
       (u ''path'', js ''RELEASE_CHECKLIST.md'')],
      [(u ''recovery_id'', js ''recover-audit-anchor-external-proof''),
       (u ''item'', JStr [0x76E3, 0x67FB, 0x30A2, 0x30F3, 0x30AB, 0x30FC, 0x306E, 0x5916, 0x90E8, 0x6539, 0x3056,
           0x3093, 0x8010, 0x6027, 0x8A3C, 0x660E, 0x306A, 0x3057]),
       (u ''severity'', js ''release''), (u ''classification'', js ''release_blocker''),
       (u ''safe_to_ignore_for_phase_b'', JBool True), (u ''blocks_owner_use'', JBool False),
       (u ''required_action'', JStr ([0x76E3, 0x67FB, 0x30A2, 0x30F3, 0x30AB, 0x30FC, 0x30D5, 0x30A1, 0x30A4, 0x30EB, 0x306B,
           0x3064, 0x3044, 0x3066, 0x3001] @ u ''Windows'' @ [0x30A4, 0x30F3, 0x30B9, 0x30C8, 0x30FC, 0x30EB,
           0x5148, 0x306E, 0x41, 0x43, 0x4C, 0xFF0F] @ u ''DPAPI'' @ [0x3001, 0x5916, 0x90E8, 0x30A2, 0x30F3,
           0x30AB, 0x30FC, 0x3001, 0x307E, 0x305F, 0x306F, 0x7F72, 0x540D, 0x6E08, 0x307F, 0x8A3C, 0x62E0,
           0x3092, 0x53CE, 0x96C6, 0x3057, 0x3066, 0x304F, 0x3060, 0x3055, 0x3044, 0x3002])),
       (u ''blocks_completed_product_release'', JBool True),
       (u ''command'', js ''python tooling/windows_release_evidence.py''),
       (u ''path'', js ''release_evidence/windows_installed_smoke.json'')],
      [(u ''recovery_id'', js ''recover-macos-validation''),
       (u ''item'', JStr (u ''macOS'' @ [0x672A, 0x691C, 0x8A3C])), (u ''severity'', js ''scope''),
       (u ''classification'', js ''known_limitation''), (u ''safe_to_ignore_for_phase_b'', JBool True),
       (u ''blocks_owner_use'', JBool False),
       (u ''required_action'', JStr (u ''macOS'' @ [0x5BFE, 0x5FDC, 0x3092, 0x4E3B, 0x5F35, 0x3059, 0x308B, 0x524D,
           0x306B] @ u ''macOS'' @ [0x4E0A, 0x3067, 0x691C, 0x8A3C, 0x3057, 0x3066, 0x304F, 0x3060, 0x3055,
           0x3044, 0x3002])),
       (u ''blocks_completed_product_release'', JBool False), (u ''command'', js ''''),
       (u ''path'', js ''docs/DESKTOP_PLATFORM_MATRIX.md'')],
      [(u ''recovery_id'', js ''recover-mobile-scope''),
       (u ''item'', JStr [0x30E2, 0x30D0, 0x30A4, 0x30EB, 0x5B8C, 0x5168, 0x30EA, 0x30EA, 0x30FC, 0x30B9]),
       (u ''severity'', js ''scope''), (u ''classification'', js ''post_v1_scope''),
       (u ''safe_to_ignore_for_phase_b'', JBool True), (u ''blocks_owner_use'', JBool False),
       (u ''required_action'', JStr [0x30E2, 0x30D0, 0x30A4, 0x30EB, 0x5B8C, 0x5168, 0x30EA, 0x30EA, 0x30FC, 0x30B9, 0x306F, 0x76,
           0x31, 0x5F8C, 0x307E, 0x3067, 0x4FDD, 0x7559, 0x3057, 0x3066, 0x304F, 0x3060, 0x3055, 0x3044,
           0x3002]),
       (u ''blocks_completed_product_release'', JBool False), (u ''command'', js ''''),
       (u ''path'', js ''MOBILE_STATUS.md'')],
      [(u ''recovery_id'', js ''recover-owner-use-surfaces''),
       (u ''item'', JStr [0x6BB5, 0x968E, 0x42, 0x306E, 0x6240, 0x6709, 0x8005, 0x5229, 0x7528, 0x4E0A, 0x306E, 0x554F,
           0x984C]),
       (u ''severity'', js ''owner-use''), (u ''classification'', js ''required_for_v1''),
       (u ''safe_to_ignore_for_phase_b'', JBool False), (u ''blocks_owner_use'', JBool True),
       (u ''required_action'', JStr [0x6982, 0x8981, 0x3001, 0x72B6, 0x614B, 0x3001, 0x554F, 0x984C, 0x3001, 0x8A3C, 0x62E0,
           0x3001, 0x5FA9, 0x65E7, 0x306E, 0x5404, 0x753B, 0x9762, 0x3092, 0x5229, 0x7528, 0x53EF, 0x80FD,
           0x306B, 0x4FDD, 0x3063, 0x3066, 0x304F, 0x3060, 0x3055, 0x3044, 0x3002]),
       (u ''blocks_completed_product_release'', JBool False),
       (u ''command'', js ''bash scripts/launch_owner_desktop.sh''),
       (u ''path'', js ''.gui_shell/shell_snapshot.json'')]]"

definition snapshot_audit_events :: "obj list" where
  "snapshot_audit_events =
     [[(u ''event_id'', js ''audit-1''), (u ''action'', js ''approval.requested''),
       (u ''result'', js ''success''), (u ''payload_hash'', JStr (u ''sha256:'' @ replicate 64 50)),
       (u ''previous_event_hash'', JNull)]]"

definition agent_sessions :: "nat \<Rightarrow> obj list" where
  "agent_sessions pending =
     [[(u ''session_id'', js ''agent-session-reference''), (u ''workspace'', js ''/workspace/project''),
       (u ''task'', JStr (u ''GUI-Shell'' @ [0x306E, 0x30EA, 0x30EA, 0x30FC, 0x30B9, 0x8A3C, 0x62E0, 0x3092, 0x691C,
           0x8A3C, 0x3059, 0x308B])),
       (u ''changed_files'', JArr [js ''CONFORMANCE_REPORT.md'', js ''docs/GUI_OPERATION_SURFACES.md'']),
       (u ''tool_calls'', JArr [js ''schema_check'', js ''conformance'', js ''release_smoke'']),
       (u ''shell_commands'', JArr [js ''python3 tooling/validate_all.py'']),
       (u ''test_status'', JStr [0x958B, 0x767A, 0x691C, 0x8A3C, 0x306B, 0x5408, 0x683C]),
       (u ''diff_summary'', JStr [0x64CD, 0x4F5C, 0x753B, 0x9762, 0x3068, 0x8A3C, 0x62E0, 0x7D4C, 0x8DEF, 0x3092, 0x5229,
           0x7528, 0x53EF, 0x80FD]),
       (u ''pending_approval_count'', JInt (int pending)), (u ''rollback_candidate'', js ''recover-1''),
       (u ''audit_event_id'', js ''audit-1'')]]"

subsection \<open>Projected records\<close>

definition by_key :: "store \<Rightarrow> store" where
  "by_key s = sort_key fst s"

fun adapter_among :: "ustr \<Rightarrow> store \<Rightarrow> ustr" where
  "adapter_among runtime_id [] = []"
| "adapter_among runtime_id ((adapter_id, adapter) # rest) =
     (if dget adapter ''runtime_id'' = JStr runtime_id then adapter_id else adapter_among runtime_id rest)"

definition adapter_for_runtime :: "store \<Rightarrow> ustr \<Rightarrow> ustr" where
  "adapter_for_runtime known runtime_id = adapter_among runtime_id (by_key known)"

definition runtime_rows :: "runtime_state \<Rightarrow> obj list" where
  "runtime_rows S =
     map (\<lambda>(runtime_id, runtime).
            [(u ''runtime_id'', JStr runtime_id), (u ''name'', dget_or runtime ''name'' (JStr runtime_id)),
             (u ''status'', dget_or runtime ''status'' (js ''unknown'')),
             (u ''adapter_id'', JStr (adapter_for_runtime (adapters S) runtime_id)),
             (u ''diagnostic_summary'', JStr [0x53C2, 0x7167, 0x5B9F, 0x884C, 0x7CFB, 0x306E, 0x5951, 0x7D04, 0x3092, 0x5229, 0x7528, 0x53EF, 0x80FD])])
       (by_key (runtimes S))"

definition permission_rows :: "runtime_state \<Rightarrow> obj list" where
  "permission_rows S =
     map (\<lambda>(permission_id, permission).
            [(u ''permission_id'', JStr permission_id), (u ''capability_id'', dget_or permission ''capability_id'' (JStr [])),
             (u ''decision'', dget_or permission ''decision'' (js ''unknown'')),
             (u ''source'', dget_or permission ''source'' (js ''unknown'')),
             (u ''expires_at'', dget permission ''expires_at'')])
       (by_key (permissions S))"

text \<open>A stored payload that is no dictionary is outside the schema: \<open>dict(\<dots>)\<close> of it counts as a type violation.\<close>

definition projected_content :: "obj \<Rightarrow> exn + obj" where
  "projected_content approval =
     (let payload = dget_or approval ''full_payload'' (JObj []) in
      if dget approval ''content_visibility'' = js ''full''
      then (case payload of JObj d \<Rightarrow> Inr d | _ \<Rightarrow> Inl TypeViolation)
      else (case payload of
              JObj d \<Rightarrow> (if dhas d ''path'' then Inr [(u ''path'', dget d ''path''), (u ''content'', js ''[redacted]'')]
                         else Inr [(u ''summary'', js ''[redacted]'')])
            | _ \<Rightarrow> Inr [(u ''summary'', js ''[redacted]'')]))"

text \<open>
  \<open>sorted(set(\<dots>) | \<dots> | {"payload_hash"})\<close>: a set that holds a string and something else cannot be
  sorted.
\<close>

fun str_text :: "json \<Rightarrow> ustr" where
  "str_text (JStr s) = s"
| "str_text _ = []"

definition sorted_strings :: "json list \<Rightarrow> exn + json list" where
  "sorted_strings vs =
     (if list_all is_str vs then Inr (map JStr (sort (remdups (map str_text vs)))) else Inl TypeError)"

definition shown_protected_fields :: "obj \<Rightarrow> exn + json list" where
  "shown_protected_fields approval =
     bindE (py_set (dget_or approval ''authority_fields'' (JArr []))) (\<lambda>authority.
     bindE (py_set (dget_or approval ''sealed_fields'' (JArr []))) (\<lambda>sealed.
     bindE (py_set (dget_or approval ''hidden_fields'' (JArr []))) (\<lambda>hidden.
     bindE (py_set (dget_or approval ''sacred_fields'' (JArr []))) (\<lambda>sacred.
       sorted_strings (authority @ sealed @ hidden @ sacred @ [js ''payload_hash''])))))"

definition approval_row :: "ustr \<times> obj \<Rightarrow> exn + obj" where
  "approval_row = (\<lambda>(approval_id, approval).
     bindE (projected_content approval) (\<lambda>content.
     bindE (shown_protected_fields approval) (\<lambda>protected.
       Inr [(u ''approval_id'', JStr approval_id), (u ''operation'', dget_or approval ''operation'' (JStr [])),
            (u ''status'', dget_or approval ''status'' (js ''unknown'')),
            (u ''content_visibility'', dget_or approval ''content_visibility'' (js ''redacted'')),
            (u ''projected_content'', JObj content),
            (u ''editable_fields'', dget_or approval ''editable_fields'' (JArr [])),
            (u ''protected_fields'', JArr protected)])))"

definition approval_rows :: "runtime_state \<Rightarrow> exn + obj list" where
  "approval_rows S = mapE approval_row (by_key (approvals S))"

definition recovery_rows :: "runtime_state \<Rightarrow> obj list" where
  "recovery_rows S =
     map (\<lambda>(recovery_id, recovery).
            [(u ''recovery_id'', JStr recovery_id), (u ''severity'', dget_or recovery ''severity'' (js ''warning'')),
             (u ''message'', dget_or recovery ''user_visible_message'' (JStr [])),
             (u ''safe_to_retry'', dget_or recovery ''safe_to_retry'' (JBool False))])
       (by_key (recovery_actions S))"

definition operation_status :: "obj list \<Rightarrow> obj list \<Rightarrow> obj \<Rightarrow> obj list \<Rightarrow> obj" where
  "operation_status rs as flags ps =
     [(u ''runtime_status'', case rs of [] \<Rightarrow> js ''unknown'' | r # _ \<Rightarrow> dget r ''status''),
      (u ''invariant_status'', js (if list_ex (\<lambda>(_, v). truthy v) flags then ''blocked'' else ''ok'')),
      (u ''trust_status'', js ''restricted''), (u ''pending_approvals_count'', JInt (int (length as))),
      (u ''audit_chain_status'', js ''verified''), (u ''problems_count'', JInt (int (length ps))),
      (u ''release_state'', js ''not claimed'')]"

text \<open>The id of the first row, \<open>""\<close> when there is none.\<close>

fun first_id :: "string \<Rightarrow> obj list \<Rightarrow> json" where
  "first_id field [] = JStr []"
| "first_id field (row # _) = dget row field"

definition authority_row :: "runtime_state \<Rightarrow> json \<Rightarrow> json \<Rightarrow> json \<Rightarrow> ustr \<times> obj \<Rightarrow> exn + obj" where
  "authority_row S approval_id audit_id recovery_id = (\<lambda>(permission_id, permission).
     (let capability_id = dget_or permission ''capability_id'' (JStr []) in
      bindE (hash_lookup (capabilities S) capability_id) (\<lambda>found.
      bindE (in_strings (dget permission ''decision'') [''allow'', ''approved'']) (\<lambda>granted.
        Inr [(u ''runtime_id'', dget_or (case found of Some c \<Rightarrow> c | None \<Rightarrow> []) ''runtime_id'' (JStr [])),
             (u ''capability_id'', capability_id), (u ''permission_id'', JStr permission_id),
             (u ''approval_id'', approval_id), (u ''audit_event_id'', audit_id), (u ''recovery_id'', recovery_id),
             (u ''dangerous'', JBool (capability_id \<in> {js ''process.spawn'', js ''network.public_bind''})),
             (u ''warning'', if granted then JStr [] else JStr [0x8A31, 0x53EF, 0x304C, 0x4ED8, 0x4E0E, 0x3055, 0x308C, 0x3066, 0x3044, 0x306A, 0x3044])]))))"

definition authority_map :: "runtime_state \<Rightarrow> obj list \<Rightarrow> obj list \<Rightarrow> obj list \<Rightarrow> exn + obj list" where
  "authority_map S as es rs =
     mapE (authority_row S (first_id ''approval_id'' as) (first_id ''event_id'' es)
             (first_id ''recovery_id'' rs))
       (by_key (permissions S))"

definition adapter_row :: "ustr \<times> obj \<Rightarrow> exn + obj" where
  "adapter_row = (\<lambda>(adapter_id, adapter).
     bindE (iter_values (dget_or adapter ''declared_capabilities'' (JArr []))) (\<lambda>declared.
       Inr [(u ''adapter_id'', JStr adapter_id), (u ''runtime_id'', dget_or adapter ''runtime_id'' (JStr [])),
            (u ''publisher'', JStr (u ''GUI-Shell'' @ [0x53C2, 0x7167, 0x5B9F, 0x88C5])),
            (u ''version'', dget_or adapter ''contract_version'' (js ''unknown'')),
            (u ''signature'', js ''development''), (u ''hash'', js ''sha256:pending''),
            (u ''requested_capabilities'', JArr declared), (u ''granted_capabilities'', JArr []),
            (u ''denied_capabilities'', JArr [js ''network.public_bind'']), (u ''trust_status'', js ''inherited''),
            (u ''last_verified'', js ''release_smoke''), (u ''update_available'', JBool False),
            (u ''known_risks'', JArr [JStr [0x53C2, 0x7167, 0x30A2, 0x30C0, 0x30D7, 0x30BF, 0x30FC, 0x5C02, 0x7528]])]))"

definition adapter_catalog :: "runtime_state \<Rightarrow> exn + obj list" where
  "adapter_catalog S = mapE adapter_row (by_key (adapters S))"

subsection \<open>The snapshot\<close>

definition release_blocker_count :: nat where
  "release_blocker_count = length (filter (\<lambda>p. dget p ''classification'' = js ''release_blocker'') problems)"

definition dicts :: "obj list \<Rightarrow> json" where
  "dicts rows = JArr (map JObj rows)"

definition shell_snapshot_of :: "tables \<Rightarrow> host \<Rightarrow> source_tree \<Rightarrow> ustr \<Rightarrow> runtime_state \<Rightarrow> exn + obj" where
  "shell_snapshot_of T H tree now S =
     (let setup = setup_doctor_report H in
      bindE (invariant_flags T H tree) (\<lambda>flags.
      bindE (approval_rows S) (\<lambda>approvals.
      bindE (authority_map S approvals snapshot_audit_events (recovery_rows S)) (\<lambda>authority.
      bindE (adapter_catalog S) (\<lambda>catalog.
        Inr [(u ''snapshot_source'', js ''generated''), (u ''snapshot_path'', js ''.gui_shell/shell_snapshot.json''),
             (u ''snapshot_generated_at'', JStr now), (u ''snapshot_freshness'', JStr now),
             (u ''phase_status'', JObj phase_status),
             (u ''operation_status'', JObj (operation_status (runtime_rows S) approvals flags problems)),
             (u ''runtimes'', dicts (runtime_rows S)), (u ''agent_sessions'', dicts (agent_sessions (length approvals))),
             (u ''permissions'', dicts (permission_rows S)), (u ''pending_approvals'', dicts approvals),
             (u ''audit_events'', dicts snapshot_audit_events), (u ''recovery_actions'', dicts (recovery_rows S)),
             (u ''invariant_flags'', JObj flags), (u ''setup_doctor_checks'', dget setup ''checks''),
             (u ''setup_doctor_status'', dget setup ''status''),
             (u ''installer_grants_authority'', dget setup ''installer_grants_authority''),
             (u ''installer_silently_approves_permissions'', dget setup ''installer_silently_approves_permissions''),
             (u ''trust_records'', dicts trust_records), (u ''authority_map'', dicts authority),
             (u ''adapter_catalog'', dicts catalog), (u ''permission_diffs'', dicts permission_diffs),
             (u ''problems'', dicts problems), (u ''evidence'', dicts evidence_records),
             (u ''settings'', dicts settings_records), (u ''audit_chain_status'', js ''verified''),
             (u ''network_exposure'', js ''localhost only''),
             (u ''release_blocker_count'', JInt (int release_blocker_count)),
             (u ''evidence_summary'', JObj evidence_summary), (u ''recovery_playbook'', dicts recovery_playbook)])))))"

definition build_shell_snapshot :: "tables \<Rightarrow> host \<Rightarrow> source_tree \<Rightarrow> catalog \<Rightarrow> ustr \<Rightarrow> exn + obj" where
  "build_shell_snapshot T H tree C now =
     bindE (build_reference_state (ucd.truncate T) C) (shell_snapshot_of T H tree now)"

text \<open>\<open>main\<close>: the text that is written to the chosen path, with that path in the record.\<close>

definition shell_snapshot_text :: "obj \<Rightarrow> ustr option \<Rightarrow> ustr" where
  "shell_snapshot_text snapshot output_path =
     dumps_indent 2 (JObj (case output_path of None \<Rightarrow> snapshot | Some path \<Rightarrow> dset snapshot ''snapshot_path'' (JStr path)))
     @ [10]"

subsection \<open>What the snapshot claims\<close>

lemmas row_eval = dget_def dget_or_def

lemma problem_classes:
  "map (\<lambda>p. dget p ''classification'') problems
    = [js ''release_blocker'', js ''release_blocker'', js ''release_blocker'', js ''release_blocker'',
       js ''known_limitation'', js ''post_v1_scope'', js ''post_v1_scope'']"
  by (simp add: problems_def row_eval)

lemma blocker_count: "release_blocker_count = 4"
proof -
  have "release_blocker_count
      = length (filter (\<lambda>c. c = js ''release_blocker'') (map (\<lambda>p. dget p ''classification'') problems))"
    by (simp add: release_blocker_count_def filter_map comp_def)
  then show ?thesis by (simp add: problem_classes)
qed

text \<open>
  A snapshot never claims a release: whatever the state, it counts the four release blockers, does
  not claim the completed product, and reports that the installer grants nothing.
\<close>

theorem snapshot_claims_no_release:
  assumes "shell_snapshot_of T H tree now S = Inr s"
  shows "dget s ''release_blocker_count'' = JInt 4
    \<and> (\<exists>phase. dget s ''phase_status'' = JObj phase \<and> is_false (dget phase ''completed_product_release_claimed''))
    \<and> (\<exists>status. dget s ''operation_status'' = JObj status \<and> dget status ''release_state'' = js ''not claimed'')
    \<and> is_false (dget s ''installer_grants_authority'') \<and> is_false (dget s ''installer_silently_approves_permissions'')"
  using assms
  by (auto simp: shell_snapshot_of_def Let_def res_simps row_eval blocker_count phase_status_def operation_status_def
      setup_doctor_report_def is_false_def)

text \<open>
  Every problem that blocks the release says so in all its fields and has an entry in the recovery
  playbook, classified alike; only the problem \<open>paid-qc-later\<close> has none.
\<close>

theorem blockers_have_playbook:
  "list_all (\<lambda>p. is_true (dget p ''blocks_release'') \<and> is_true (dget p ''blocks_completed_product_release'')
       \<and> list_ex (\<lambda>r. dget r ''recovery_id'' = dget p ''recovery_id''
             \<and> dget r ''classification'' = js ''release_blocker''
             \<and> is_true (dget r ''blocks_completed_product_release'')) recovery_playbook)
     (filter (\<lambda>p. dget p ''classification'' = js ''release_blocker'') problems)
   \<and> map (\<lambda>p. dget p ''problem_id'')
       (filter (\<lambda>p. \<not> list_ex (\<lambda>r. dget r ''recovery_id'' = dget p ''recovery_id'') recovery_playbook) problems)
     = [js ''paid-qc-later'']"
  by (simp add: problems_def recovery_playbook_def row_eval is_true_def)

subsection \<open>What it shows of an approval\<close>

text \<open>
  Unless the visibility is full, the shown content depends on nothing of the stored payload but
  its \<open>path\<close>.
\<close>

theorem shown_content_confined:
  assumes "dget approval ''content_visibility'' \<noteq> js ''full''" and "dget approval ''full_payload'' = JObj d"
    and "map_of d (u ''path'') = map_of e (u ''path'')"
  shows "projected_content (dset approval ''full_payload'' (JObj e)) = projected_content approval"
proof -
  have "dget_or approval ''full_payload'' (JObj []) = JObj d"
    using assms(2) by (auto simp: dget_def dget_or_def split: option.splits)
  moreover have "dhas d ''path'' = dhas e ''path''" "dget d ''path'' = dget e ''path''"
    using assms(3) by (simp_all add: dhas_def dget_def dget_or_def)
  ultimately show ?thesis
    using assms(1) by (simp add: projected_content_def Let_def)
qed

text \<open>
  The shell snapshot shows more than the Shell Core projects: under every visibility other than
  full it shows the path of the payload, also where \<open>project_approval_content\<close> yields nothing of it.
\<close>

theorem snapshot_shows_hidden_path:
  assumes "dget approval ''content_visibility'' = js ''none''" and "dget approval ''full_payload'' = JObj d"
    and "dhas d ''path''"
  shows "project_approval_content approval = Inr (Content [])
    \<and> projected_content approval = Inr [(u ''path'', dget d ''path''), (u ''content'', js ''[redacted]'')]"
proof -
  have "dget_or approval ''full_payload'' (JObj []) = JObj d"
    using assms(2) by (auto simp: dget_def dget_or_def split: option.splits)
  with assms show ?thesis
    by (simp add: projected_content_def project_approval_content_def Let_def)
qed

subsection \<open>The authority map\<close>

lemma authority_row_Inr:
  assumes "authority_row S a e r (pid, permission) = Inr row"
  shows "dget row ''permission_id'' = JStr pid" and "dget row ''approval_id'' = a"
    and "dget row ''audit_event_id'' = e" and "dget row ''recovery_id'' = r"
    and "dget row ''warning'' = JStr [] \<longleftrightarrow> dget permission ''decision'' \<in> {js ''allow'', js ''approved''}"
  using assms
  by (auto simp: authority_row_def Let_def res_simps row_eval in_strings_def split: if_splits)

text \<open>
  The authority map has one row per permission, in the order of their ids, and warns exactly where
  the decision is neither allow nor approved; but all rows name one approval, audit event and recovery
  action, the first of each list, whichever permission they were made for.
\<close>

theorem authority_map_rows:
  assumes "authority_map S as es rs = Inr rows"
  shows "map (\<lambda>row. dget row ''permission_id'') rows = map (\<lambda>p. JStr (fst p)) (by_key (permissions S))
    \<and> map (\<lambda>row. dget row ''warning'' = JStr []) rows
      = map (\<lambda>p. dget (snd p) ''decision'' \<in> {js ''allow'', js ''approved''}) (by_key (permissions S))
    \<and> list_all (\<lambda>row. dget row ''approval_id'' = first_id ''approval_id'' as
        \<and> dget row ''audit_event_id'' = first_id ''event_id'' es
        \<and> dget row ''recovery_id'' = first_id ''recovery_id'' rs) rows"
proof -
  have "mapE (authority_row S a e r) ps = Inr rows \<Longrightarrow>
      map (\<lambda>row. dget row ''permission_id'') rows = map (\<lambda>p. JStr (fst p)) ps
      \<and> map (\<lambda>row. dget row ''warning'' = JStr []) rows
        = map (\<lambda>p. dget (snd p) ''decision'' \<in> {js ''allow'', js ''approved''}) ps
      \<and> list_all (\<lambda>row. dget row ''approval_id'' = a \<and> dget row ''audit_event_id'' = e \<and> dget row ''recovery_id'' = r) rows"
    for a e r ps rows
  proof (induction ps arbitrary: rows)
    case (Cons p ps)
    obtain pid permission where p: "p = (pid, permission)" by (cases p)
    obtain row rest where "authority_row S a e r (pid, permission) = Inr row"
        "mapE (authority_row S a e r) ps = Inr rest" "rows = row # rest"
      using Cons.prems by (auto simp: p res_simps)
    with authority_row_Inr [OF this(1)] Cons.IH [OF this(2)] show ?case by (simp add: p)
  qed simp
  with assms show ?thesis unfolding authority_map_def by blast
qed

subsection \<open>The snapshot of the reference state\<close>

lemma reference_rows:
  "\<exists>approvals. approval_rows reference_state = Inr approvals \<and> length approvals = 1"
  "\<exists>authority. authority_map reference_state as es rs = Inr authority"
  "\<exists>catalog. adapter_catalog reference_state = Inr catalog"
  by (simp_all add: approval_rows_def authority_map_def adapter_catalog_def reference_state_def by_key_def approval_row_def
      projected_content_def shown_protected_fields_def reference_approval_def reference_payload_def row_eval py_set_def
      sorted_strings_def authority_row_def reference_permission_def in_strings_def adapter_row_def adapter_entry_def Let_def)

lemma shell_snapshot_of_reference:
  assumes "tables_ok T"
  shows "\<exists>s. shell_snapshot_of T H tree now reference_state = Inr s"
proof -
  obtain as where "approval_rows reference_state = Inr as" using reference_rows(1) by blast
  moreover obtain authority where "authority_map reference_state as snapshot_audit_events (recovery_rows reference_state) = Inr authority"
    using reference_rows(2) by blast
  moreover obtain catalog where "adapter_catalog reference_state = Inr catalog" using reference_rows(3) by blast
  ultimately show ?thesis
    by (simp add: shell_snapshot_of_def Let_def invariant_flags_clean [OF assms])
qed

text \<open>
  The snapshot of the reference state is always built, from the schemas of the repository.
\<close>

theorem shell_snapshot_built:
  assumes "tables_ok T"
  shows "\<exists>s. build_shell_snapshot T H tree repo_specs now = Inr s"
  using shell_snapshot_of_reference [OF assms] by (simp add: build_shell_snapshot_def build_reference_state_eq)

theorem shell_snapshot_built_witness:
  "\<exists>s. build_shell_snapshot ascii_tables sample_host sample_tree repo_specs (u ''now'') = Inr s"
  by (rule shell_snapshot_built [OF tables_ok_ascii])

lemma sample_snapshot: "\<exists>s. shell_snapshot_of ascii_tables sample_host sample_tree (u ''now'') reference_state = Inr s"
  using shell_snapshot_of_reference [OF tables_ok_ascii] by blast

theorem snapshot_claims_no_release_witness:
  "\<exists>s. shell_snapshot_of ascii_tables sample_host sample_tree (u ''now'') reference_state = Inr s
    \<and> dget s ''release_blocker_count'' = JInt 4"
  using sample_snapshot snapshot_claims_no_release by blast

definition hidden_approval :: obj where
  "hidden_approval =
     [(u ''content_visibility'', js ''none''),
      (u ''full_payload'', JObj [(u ''path'', js ''/secret''), (u ''content'', js ''x'')])]"

theorem shown_content_confined_witness:
  "projected_content (dset hidden_approval ''full_payload'' (JObj [(u ''path'', js ''/secret'')]))
    = projected_content hidden_approval"
  by (rule shown_content_confined [of _ "[(u ''path'', js ''/secret''), (u ''content'', js ''x'')]"])
    (simp_all add: hidden_approval_def row_eval)

theorem snapshot_shows_hidden_path_witness:
  "project_approval_content hidden_approval = Inr (Content [])
    \<and> projected_content hidden_approval = Inr [(u ''path'', js ''/secret''), (u ''content'', js ''[redacted]'')]"
  using snapshot_shows_hidden_path [of hidden_approval "[(u ''path'', js ''/secret''), (u ''content'', js ''x'')]"]
  by (simp add: hidden_approval_def row_eval dhas_def)

theorem authority_map_rows_witness:
  "\<exists>rows. authority_map reference_state [] [] [] = Inr rows
    \<and> map (\<lambda>row. dget row ''permission_id'') rows = [js ''permission.fs.write.workspace'']"
proof -
  obtain rows where "authority_map reference_state [] [] [] = Inr rows" using reference_rows(2) by blast
  with authority_map_rows [OF this] show ?thesis by (simp add: by_key_def reference_state_def)
qed

end
