(* ===== verification/Evidence_Bundle.thy ===== *)
theory Evidence_Bundle
  imports Shell_Snapshot Runtime_Assertions Release_Smoke
begin

text \<open>
  The development evidence bundle (\<open>tooling/evidence_bundle.py\<close>): the reports of the Windows evidence,
  the runtime assertions, the release smokes, the setup doctor and the shell snapshot in one record, and
  its validation. \<open>say\<close> is the text of a message, the f-strings of the source.
\<close>

subsection \<open>Reports as dictionaries\<close>

definition evidence_result_json :: "(msg \<Rightarrow> ustr) \<Rightarrow> evidence_result \<Rightarrow> obj" where
  "evidence_result_json say r =
     [(u ''name'', js (er_name r)), (u ''status'', js (er_status r)), (u ''classification'', js (er_classification r)),
      (u ''blocks_release'', js (er_blocks_release r)), (u ''reason'', JStr (say (er_reason r))),
      (u ''required_action'', JStr (say (er_required_action r)))]"

definition runtime_assertion_json :: "(msg \<Rightarrow> ustr) \<Rightarrow> runtime_assertion \<Rightarrow> obj" where
  "runtime_assertion_json say a =
     [(u ''name'', js (ra_name a)), (u ''status'', js (ra_status a)), (u ''evidence_scope'', js (ra_scope a)),
      (u ''classification'', js (ra_classification a)), (u ''blocks_release'', js (ra_blocks a)),
      (u ''reason'', JStr (say (ra_reason a))), (u ''required_action'', JStr (say (ra_action a)))]"

definition runtime_report_json :: "(msg \<Rightarrow> ustr) \<Rightarrow> runtime_report \<Rightarrow> obj" where
  "runtime_report_json say r =
     [(u ''ok'', JBool (rr_ok r)), (u ''assertions'', JArr (map (\<lambda>a. JObj (runtime_assertion_json say a)) (rr_assertions r))),
      (u ''failure_count'', JInt (int (rr_failure_count r))), (u ''evidence_scope'', JArr (map js (rr_scopes r))),
      (u ''release_gate_note'', JObj
         [(u ''classification'', js (rr_note_classification r)), (u ''blocks_release'', js (rr_note_blocks r)),
          (u ''reason'', JStr (say (rr_note_reason r))), (u ''required_action'', JStr (say (rr_note_action r)))])]"

definition smoke_report_json :: "(msg \<Rightarrow> ustr) \<Rightarrow> smoke_report \<Rightarrow> obj" where
  "smoke_report_json say r =
     [(u ''ok'', JBool (smoke_ok r)), (u ''errors'', JArr (map (\<lambda>m. JStr (say m)) (smoke_errors r)))] @ smoke_fields r"

definition release_report_json :: "(msg \<Rightarrow> ustr) \<Rightarrow> release_report \<Rightarrow> obj" where
  "release_report_json say r =
     [(u ''ok'', JBool (rel_ok r)), (u ''errors'', JArr (map (\<lambda>m. JStr (say m)) (rel_errors r))),
      (u ''shell_core'', JObj (smoke_report_json say (rel_shell_core r))),
      (u ''first_run'', JObj (smoke_report_json say (rel_first_run r))),
      (u ''runtime_catalog'', JObj (smoke_report_json say (rel_runtime_catalog r))),
      (u ''agent_runtime'', JObj (smoke_report_json say (rel_agent_runtime r)))]"

subsection \<open>The bundle\<close>

definition bundle_blocker :: "(msg \<Rightarrow> ustr) \<Rightarrow> evidence_result \<Rightarrow> obj" where
  "bundle_blocker say r =
     [(u ''name'', js (er_name r)), (u ''status'', js (er_status r)), (u ''classification'', js (er_classification r)),
      (u ''blocks_release'', JBool (er_blocks_release r = ''yes'')), (u ''reason'', JStr (say (er_reason r))),
      (u ''required_action'', JStr (say (er_required_action r)))]"

definition evidence_bundle_of ::
  "(msg \<Rightarrow> ustr) \<Rightarrow> evidence_result list \<Rightarrow> runtime_report \<Rightarrow> release_report \<Rightarrow> obj \<Rightarrow> obj \<Rightarrow> obj" where
  "evidence_bundle_of say windows assertions smoke snapshot setup =
     [(u ''bundle_version'', JInt 1), (u ''product'', js ''GUI-Shell''), (u ''release_ready'', JBool False),
      (u ''release_ready_reason'', JStr (say (Msg ''Windows installed-path evidence and anchor proof are needed.'' []))),
      (u ''classification'', js ''development_evidence''),
      (u ''windows_release_evidence'', JArr (map (\<lambda>r. JObj (evidence_result_json say r)) windows)),
      (u ''release_runtime_assertions'', JObj (runtime_report_json say assertions)),
      (u ''release_smoke'', JObj (release_report_json say smoke)), (u ''setup_doctor'', JObj setup),
      (u ''shell_snapshot'', JObj snapshot),
      (u ''blockers'', JArr (map (\<lambda>r. JObj (bundle_blocker say r))
                        (filter (\<lambda>r. er_classification r = ''release_blocker'') windows))),
      (u ''authority_boundary'', JObj
         [(u ''flutter_owns_authority'', JBool False),
          (u ''flutter_authority_surface_broker_mediated'', JBool (rr_ok assertions)),
          (u ''flutter_spawns_python_for_authority'', JBool False),
          (u ''flutter_rust_ffi_authority_bridge'', JBool False),
          (u ''installer_grants_authority'', dget setup ''installer_grants_authority''),
          (u ''installer_silently_approves_permissions'', dget setup ''installer_silently_approves_permissions''),
          (u ''shell_core_authority_required'', JBool True)])]"

text \<open>The reports are made in this order; the release smokes write the files and the first-run configuration.\<close>

definition build_evidence_bundle ::
  "(msg \<Rightarrow> ustr) \<Rightarrow> tables \<Rightarrow> (nat \<Rightarrow> bool) \<Rightarrow> host \<Rightarrow> source_tree \<Rightarrow> repo_texts \<Rightarrow> ustr option \<Rightarrow> byte list
     \<Rightarrow> (ppath \<Rightarrow> exn + ppath) \<Rightarrow> examples \<Rightarrow> catalog \<Rightarrow> ppath \<Rightarrow> ustr \<Rightarrow> files \<times> ustr option
     \<Rightarrow> (exn + obj) \<times> files \<times> ustr option" where
  "build_evidence_bundle say T decimal H tree repo evidence fresh resolve F C root now state =
     (case bindE (validate_windows_release_evidence T evidence) (\<lambda>windows.
           bindE (build_report T decimal repo) (\<lambda>assertions. Inr (windows, assertions))) of
        Inl e \<Rightarrow> (Inl e, state)
      | Inr (windows, assertions) \<Rightarrow>
          (case run_release_smokes T H tree fresh resolve F root state of
             (Inl e, state') \<Rightarrow> (Inl e, state')
           | (Inr smoke, state') \<Rightarrow>
               (bindE (build_shell_snapshot T H tree C now) (\<lambda>snapshot.
                  Inr (evidence_bundle_of say windows assertions smoke snapshot (setup_doctor_report H))), state')))"

subsection \<open>Validation\<close>

text \<open>\<open>bundle.get(a, {}).get(b)\<close>\<close>

definition nested_get :: "obj \<Rightarrow> string \<Rightarrow> string \<Rightarrow> exn + json" where
  "nested_get d a b = jget (dget_or d a (JObj [])) b"

definition nested_is_not :: "obj \<Rightarrow> string \<Rightarrow> bool \<Rightarrow> string \<Rightarrow> exn + msg list" where
  "nested_is_not evb key expected message =
     bindE (nested_get evb ''authority_boundary'' key) (\<lambda>v. Inr (remark (v \<noteq> JBool expected) message))"

definition nested_is_empty :: "obj \<Rightarrow> string \<Rightarrow> string \<Rightarrow> string \<Rightarrow> exn + msg list" where
  "nested_is_empty evb a b message =
     bindE (nested_get evb a b) (\<lambda>v. Inr (remark (\<not> truthy v) message))"

definition BLOCKER_KEYS :: "string list" where
  "BLOCKER_KEYS = [''name'', ''status'', ''classification'', ''blocks_release'', ''reason'', ''required_action'']"

fun bundle_blocker_errors :: "nat \<Rightarrow> json list \<Rightarrow> msg list" where
  "bundle_blocker_errors index [] = []"
| "bundle_blocker_errors index (JObj blocker # bs) =
     concat (map (\<lambda>key. flag (\<not> dhas blocker key) (Msg ''evidence bundle blocker {} lacks {}'' [JInt (int index), js key]))
       BLOCKER_KEYS)
     @ flag (dget blocker ''classification'' \<noteq> js ''release_blocker'')
         (Msg ''evidence bundle blocker {} is not a release_blocker'' [JInt (int index)])
     @ flag (\<not> is_true (dget blocker ''blocks_release''))
         (Msg ''evidence bundle blocker {} must block the release'' [JInt (int index)])
     @ bundle_blocker_errors (Suc index) bs"
| "bundle_blocker_errors index (_ # bs) =
     Msg ''evidence bundle blocker {} is not an object'' [JInt (int index)] # bundle_blocker_errors (Suc index) bs"

definition validate_evidence_bundle :: "obj \<Rightarrow> exn + msg list" where
  "validate_evidence_bundle evb =
     bindE (Inr (remark (\<not> is_false (dget evb ''release_ready''))
                   ''a development evidence bundle must not claim release_ready'')) (\<lambda>e1.
     bindE (concatE (\<lambda>(key, expected, message). nested_is_not evb key expected message)
              [(''flutter_owns_authority'', False, ''the bundle shows that Flutter owns authority''),
               (''flutter_authority_surface_broker_mediated'', True,
                ''the bundle has no assertion that the Flutter authority surface is broker-mediated''),
               (''flutter_spawns_python_for_authority'', False, ''the bundle shows that Flutter spawns Python''),
               (''flutter_rust_ffi_authority_bridge'', False, ''the bundle shows an FFI authority bridge''),
               (''installer_grants_authority'', False, ''the bundle shows that the installer grants authority'')]) (\<lambda>e2.
     bindE (concatE (\<lambda>(a, b, message). nested_is_empty evb a b message)
              [(''shell_snapshot'', ''trust_records'', ''the bundle has no trust record''),
               (''shell_snapshot'', ''authority_map'', ''the bundle has no authority map''),
               (''setup_doctor'', ''checks'', ''the bundle has no setup doctor check''),
               (''release_smoke'', ''ok'', ''the release smoke in the bundle failed''),
               (''release_runtime_assertions'', ''ok'', ''a release runtime assertion in the bundle failed'')]) (\<lambda>e3.
     bindE (iter_values (dget_or evb ''blockers'' (JArr []))) (\<lambda>blockers.
       Inr (e1 @ e2 @ e3 @ bundle_blocker_errors 0 blockers)))))"

text \<open>The exit code of \<open>main\<close>.\<close>

definition evidence_bundle_exit :: "obj \<Rightarrow> exn + nat" where
  "evidence_bundle_exit evb = bindE (validate_evidence_bundle evb) (\<lambda>errors. Inr (if errors = [] then 0 else 1))"

subsection \<open>What a built bundle says\<close>

lemma blocker_errors_Nil:
  "list_all (\<lambda>r. er_classification r = ''release_blocker'' \<and> er_blocks_release r = ''yes'') rs \<Longrightarrow>
   bundle_blocker_errors i (map (\<lambda>r. JObj (bundle_blocker say r)) rs) = []"
  by (induction rs arbitrary: i) (simp_all add: bundle_blocker_def BLOCKER_KEYS_def dhas_def dget_def dget_or_def is_true_def)

lemma blockers_of_coherent:
  assumes "list_all coherent rs"
  shows "bundle_blocker_errors i (map (\<lambda>r. JObj (bundle_blocker say r))
    (filter (\<lambda>r. er_classification r = ''release_blocker'') rs)) = []"
  using assms by (intro blocker_errors_Nil) (auto simp: list_all_iff coherent_def split: if_splits)

lemma setup_checks_shown: "truthy (dget (setup_doctor_report H) ''checks'')"
  "dget (setup_doctor_report H) ''installer_grants_authority'' = JBool False"
  by (simp_all add: setup_doctor_report_def setup_doctor_checks_def dget_def dget_or_def Let_def)

lemma snapshot_shows:
  assumes "shell_snapshot_of T H tree now S = Inr s"
  shows "truthy (dget s ''trust_records'')" and "truthy (dget s ''authority_map'') \<longleftrightarrow> permissions S \<noteq> []"
proof -
  obtain as authority where a: "authority_map S as snapshot_audit_events (recovery_rows S) = Inr authority"
      "dget s ''authority_map'' = dicts authority" "dget s ''trust_records'' = dicts trust_records"
    using assms by (auto simp: shell_snapshot_of_def Let_def res_simps dget_def dget_or_def)
  then show "truthy (dget s ''trust_records'')" by (simp add: dicts_def trust_records_def)
  have "length authority = length (permissions S)"
    using mapE_Inr_length a(1) unfolding authority_map_def by (fastforce simp: by_key_def)
  with a(2) show "truthy (dget s ''authority_map'') \<longleftrightarrow> permissions S \<noteq> []"
    by (auto simp: dicts_def)
qed

text \<open>
  What the validation finds in a bundle: exactly the reports that are not ok, and a missing authority map.
\<close>

lemma bundle_findings:
  assumes "list_all coherent windows" and "shell_snapshot_of T H tree now S = Inr snapshot"
  shows "validate_evidence_bundle (evidence_bundle_of say windows assertions smoke snapshot (setup_doctor_report H))
    = Inr (remark (\<not> rr_ok assertions)
             ''the bundle has no assertion that the Flutter authority surface is broker-mediated''
         @ remark (permissions S = []) ''the bundle has no authority map''
         @ remark (\<not> rel_ok smoke) ''the release smoke in the bundle failed''
         @ remark (\<not> rr_ok assertions) ''a release runtime assertion in the bundle failed'')"
  using snapshot_shows [OF assms(2)] setup_checks_shown [of H]
  by (simp add: validate_evidence_bundle_def evidence_bundle_of_def nested_is_not_def nested_is_empty_def nested_get_def
      blockers_of_coherent [OF assms(1)] dget_def dget_or_def runtime_report_json_def release_report_json_def is_false_def
      remark_def flag_def)

lemma build_evidence_bundle_Inr:
  assumes "build_evidence_bundle say T decimal H tree repo evidence fresh resolve F C root now state = (Inr evb, state')"
  shows "\<exists>windows assertions smoke snapshot. validate_windows_release_evidence T evidence = Inr windows
    \<and> build_report T decimal repo = Inr assertions
    \<and> run_release_smokes T H tree fresh resolve F root state = (Inr smoke, state')
    \<and> build_shell_snapshot T H tree C now = Inr snapshot
    \<and> evb = evidence_bundle_of say windows assertions smoke snapshot (setup_doctor_report H)"
proof -
  obtain windows assertions where w: "validate_windows_release_evidence T evidence = Inr windows"
      "build_report T decimal repo = Inr assertions"
    using assms by (cases "validate_windows_release_evidence T evidence"; cases "build_report T decimal repo")
      (simp_all add: build_evidence_bundle_def)
  moreover obtain smoke where "run_release_smokes T H tree fresh resolve F root state = (Inr smoke, state')"
    using assms w by (auto simp: build_evidence_bundle_def split: prod.splits sum.splits)
  moreover from this obtain snapshot where "build_shell_snapshot T H tree C now = Inr snapshot"
      "evb = evidence_bundle_of say windows assertions smoke snapshot (setup_doctor_report H)"
    using assms w by (auto simp: build_evidence_bundle_def res_simps)
  ultimately show ?thesis by blast
qed

text \<open>
  C15. A bundle that is built passes its validation exactly when the runtime assertions and the release
  smokes in it are ok. It never claims to be ready for release, and it carries one blocker for each failed
  result of the Windows evidence, whatever that evidence is.
\<close>

theorem evidence_bundle_sound:
  assumes "build_evidence_bundle say T decimal H tree repo evidence fresh resolve F repo_specs root now state
    = (Inr evb, state')"
  shows "\<exists>windows assertions smoke. validate_windows_release_evidence T evidence = Inr windows
    \<and> build_report T decimal repo = Inr assertions
    \<and> run_release_smokes T H tree fresh resolve F root state = (Inr smoke, state')
    \<and> evidence_bundle_exit evb = Inr (if rr_ok assertions \<and> rel_ok smoke then 0 else 1)
    \<and> is_false (dget evb ''release_ready'')
    \<and> (\<exists>blockers. dget evb ''blockers'' = JArr blockers
         \<and> length blockers = length (filter (\<lambda>r. \<not> passing r) windows))"
proof -
  obtain windows assertions smoke snapshot where b: "validate_windows_release_evidence T evidence = Inr windows"
      "build_report T decimal repo = Inr assertions"
      "run_release_smokes T H tree fresh resolve F root state = (Inr smoke, state')"
      "build_shell_snapshot T H tree repo_specs now = Inr snapshot"
      "evb = evidence_bundle_of say windows assertions smoke snapshot (setup_doctor_report H)"
    using build_evidence_bundle_Inr [OF assms] by blast
  have coherent: "list_all coherent windows" by (rule evidence_results_shape(2) [OF b(1)])
  have snapshot: "shell_snapshot_of T H tree now reference_state = Inr snapshot"
    using b(4) by (simp add: build_shell_snapshot_def build_reference_state_eq)
  have "evidence_bundle_exit evb = Inr (if rr_ok assertions \<and> rel_ok smoke then 0 else 1)"
    using bundle_findings [OF coherent snapshot, of say assertions smoke]
    by (simp add: b(5) evidence_bundle_exit_def reference_state_def)
  moreover have "filter (\<lambda>r. er_classification r = ''release_blocker'') windows = filter (\<lambda>r. \<not> passing r) windows"
    using coherent by (intro filter_cong) (auto simp: list_all_iff coherent_def split: if_splits)
  ultimately show ?thesis
    using b by (simp add: evidence_bundle_of_def dget_def dget_or_def is_false_def)
qed

theorem evidence_bundle_sound_witness:
  "\<exists>evb state'. build_evidence_bundle (\<lambda>_. []) ascii_tables (\<lambda>_. False) sample_host sample_tree empty_sources None []
      lexical repo_examples repo_specs (path_of (u ''/tmp'')) (u ''now'') (no_files, None) = (Inr evb, state')
    \<and> is_false (dget evb ''release_ready'') \<and> (\<exists>code. evidence_bundle_exit evb = Inr code)"
proof -
  obtain windows where w: "validate_windows_release_evidence ascii_tables None = Inr windows"
    by (simp add: validate_windows_release_evidence_def load_evidence_def)
  obtain assertions where a: "build_report ascii_tables (\<lambda>_. False) empty_sources = Inr assertions"
    using empty_report by blast
  have machine: "host_mkdir_error sample_host d = None" "host_write_error sample_host d = None" for d
    by (simp_all add: sample_host_def)
  have empty: "audit_file no_files = None" "anchor_file no_files = None" "key_file no_files = None"
    by (simp_all add: no_files_def)
  obtain smoke where "fst (run_release_smokes ascii_tables sample_host sample_tree [] lexical repo_examples (path_of (u ''/tmp''))
      (no_files, None)) = Inr smoke"
    using release_smokes_run [OF tables_ok_ascii empty machine repo_examples_read] by blast
  then obtain state' where r: "run_release_smokes ascii_tables sample_host sample_tree [] lexical repo_examples (path_of (u ''/tmp''))
      (no_files, None) = (Inr smoke, state')"
    by (metis prod.collapse)
  obtain s where s: "build_shell_snapshot ascii_tables sample_host sample_tree repo_specs (u ''now'') = Inr s"
    using sample_snapshot by (auto simp: build_shell_snapshot_def build_reference_state_eq)
  have "\<exists>evb. build_evidence_bundle (\<lambda>_. []) ascii_tables (\<lambda>_. False) sample_host sample_tree empty_sources None []
      lexical repo_examples repo_specs (path_of (u ''/tmp'')) (u ''now'') (no_files, None) = (Inr evb, state')"
    by (simp add: build_evidence_bundle_def w a r s)
  then obtain evb where built: "build_evidence_bundle (\<lambda>_. []) ascii_tables (\<lambda>_. False) sample_host sample_tree empty_sources None []
      lexical repo_examples repo_specs (path_of (u ''/tmp'')) (u ''now'') (no_files, None) = (Inr evb, state')"
    by blast
  with evidence_bundle_sound [OF built] show ?thesis by blast
qed

end
