(* ===== verification/Validate_All.thy ===== *)
theory Validate_All
  imports Windows_Evidence Py_Path
begin

text \<open>
  The validation run (\<open>tooling/validate_all.py\<close>): the steps for a platform, running one step, the platform
  evidence and the exit status. What the run asks the machine for is the record \<open>toolbox\<close>: the platform, the
  programs on the path, what running a command in a directory gives (an exception that
  keeps it from starting, with its text and trace, or its exit code and outputs), and which directories exist. The
  printed report is not modelled.
\<close>

datatype run_outcome = Not_started msg ustr | Completed int ustr ustr

record toolbox =
  tb_system :: ustr
  tb_executable :: ustr
  tb_which :: "ustr \<Rightarrow> ustr option"
  tb_run :: "ustr list \<Rightarrow> string \<Rightarrow> run_outcome"
  tb_is_dir :: "string \<Rightarrow> bool"
  tb_exists :: "string \<Rightarrow> bool"

text \<open>Directories are relative to the root; \<open>post_v1_reason\<close> is \<open>None\<close> or a text.\<close>

record validation_step =
  step_name :: string
  step_command :: "ustr list"
  step_cwd :: string
  required_tool :: "string option"
  in_release_scope :: bool
  post_v1_reason :: "msg option"

type_synonym evidence_check = evidence_result

definition plain_step :: "string \<Rightarrow> ustr list \<Rightarrow> string \<Rightarrow> string option \<Rightarrow> validation_step" where
  "plain_step name command cwd tool =
     \<lparr>step_name = name, step_command = command, step_cwd = cwd, required_tool = tool, in_release_scope = True,
      post_v1_reason = None\<rparr>"

definition python_step :: "toolbox \<Rightarrow> ustr \<Rightarrow> string list \<Rightarrow> ustr list" where
  "python_step tb script args = tb_executable tb # script # map u args"

subsection \<open>Tools and commands\<close>

definition WINDOWS_SUFFIXES :: "string list" where
  "WINDOWS_SUFFIXES = [''.exe'', ''.bat'', ''.cmd'']"

text \<open>\<open>Path(tool).suffix == ""\<close>: the last name has no dot with text on both sides.\<close>

definition no_suffix :: "ustr \<Rightarrow> bool" where
  "no_suffix s \<longleftrightarrow>
     (let names = path_names (path_of s); name = (if names = [] then [] else last names);
          tail = takeWhile (\<lambda>c. c \<noteq> 46) (rev name)
      in tail = [] \<or> length name \<le> length tail + 1)"

fun first_resolved :: "toolbox \<Rightarrow> ustr \<Rightarrow> string list \<Rightarrow> ustr option" where
  "first_resolved tb tool [] = None"
| "first_resolved tb tool (suffix # suffixes) =
     (case tb_which tb (tool @ u suffix) of Some p \<Rightarrow> Some p | None \<Rightarrow> first_resolved tb tool suffixes)"

definition on_windows :: "toolbox \<Rightarrow> bool" where
  "on_windows tb \<longleftrightarrow> tb_system tb = u ''Windows''"

definition find_tool :: "toolbox \<Rightarrow> ustr \<Rightarrow> ustr option" where
  "find_tool tb tool =
     (case tb_which tb tool of
        Some p \<Rightarrow> Some p
      | None \<Rightarrow> (if on_windows tb \<and> no_suffix tool then first_resolved tb tool WINDOWS_SUFFIXES else None))"

definition resolve_step_command :: "toolbox \<Rightarrow> ustr list \<Rightarrow> ustr list" where
  "resolve_step_command tb command =
     (case command of
        [] \<Rightarrow> []
      | executable # args \<Rightarrow>
          (if \<not> on_windows tb \<or> \<not> no_suffix executable \<or> 92 \<in> set executable \<or> 47 \<in> set executable then command
           else (case first_resolved tb executable WINDOWS_SUFFIXES of
                   Some candidate \<Rightarrow> candidate # args
                 | None \<Rightarrow> command)))"

definition current_desktop_platform :: "tables \<Rightarrow> toolbox \<Rightarrow> string" where
  "current_desktop_platform T tb =
     (let system = lower_case T (tb_system tb) in
      if system = u ''linux'' then ''linux''
      else if system = u ''windows'' then ''windows''
      else if system = u ''darwin'' then ''macos'' else ''unknown'')"

subsection \<open>The steps\<close>

definition python_steps :: "toolbox \<Rightarrow> validation_step list" where
  "python_steps tb =
     (let py = (\<lambda>name script args. plain_step name (python_step tb script args) ''.'' None) in
      [py ''japanese_base_audit'' (u ''tooling/'' @ [0x65E5, 0x672C, 0x8A9E, 0x57FA, 0x5E95, 0x76E3, 0x67FB, 0x2E, 0x70, 0x79]) [''--strict''],
       py ''schema_check'' (u ''tooling/schema_check/check_schemas.py'') [],
       py ''conformance_skeleton'' (u ''tooling/conformance_tests/run_conformance_skeleton.py'') [],
       py ''manifest_check'' (u ''tooling/manifest.py'') [''--check''],
       py ''release_gate_check'' (u ''tooling/release_gate_check.py'') [],
       py ''packaging_portability_check'' (u ''tooling/packaging_portability_check.py'') [],
       py ''release_smoke'' (u ''tooling/release_smoke.py'') [],
       py ''evidence_bundle'' (u ''tooling/evidence_bundle.py'') [''--check''],
       py ''release_runtime_assertions'' (u ''tooling/release_runtime_assertions.py'') [''--check'']])"

definition native_steps :: "toolbox \<Rightarrow> validation_step list" where
  "native_steps tb =
     [plain_step ''broker_authority_parity'' (python_step tb (u ''tooling/broker_parity/run_authority_parity.py'') [])
        ''.'' (Some ''cargo''),
      plain_step ''rust_helper_cargo_test'' (map u [''cargo'', ''test'']) ''native/rust_helper'' (Some ''cargo''),
      plain_step ''desktop_flutter_analyze'' (map u [''flutter'', ''analyze'']) ''apps/desktop_flutter'' (Some ''flutter''),
      plain_step ''desktop_flutter_test'' (map u [''flutter'', ''test'']) ''apps/desktop_flutter'' (Some ''flutter'')]"

definition mobile_step :: "bool \<Rightarrow> validation_step" where
  "mobile_step include_mobile_release =
     \<lparr>step_name = ''mobile_flutter_analyze'', step_command = map u [''flutter'', ''analyze''],
      step_cwd = ''apps/mobile_flutter'', required_tool = Some ''flutter'', in_release_scope = include_mobile_release,
      post_v1_reason = (if include_mobile_release then None
        else Some (Msg ''mobile full release is outside the v1.0 desktop scope unless the owner includes it'' []))\<rparr>"

definition build_steps :: "tables \<Rightarrow> toolbox \<Rightarrow> bool \<Rightarrow> string \<Rightarrow> bool \<Rightarrow> validation_step list" where
  "build_steps T tb include_mobile_release desktop_platform python_only =
     (if python_only then python_steps tb
      else
        (let current = current_desktop_platform T tb;
             target_linux = desktop_platform = ''linux'' \<or> desktop_platform = ''all''
               \<or> desktop_platform = ''current'' \<and> current = ''linux''
         in python_steps tb @ native_steps tb
            @ (if target_linux \<and> current = ''linux''
               then [plain_step ''desktop_flutter_build_linux'' (map u [''flutter'', ''build'', ''linux''])
                       ''apps/desktop_flutter'' (Some ''flutter'')] else [])
            @ (if tb_exists tb ''apps/mobile_flutter'' then [mobile_step include_mobile_release] else [])))"

subsection \<open>Platform evidence\<close>

definition evidence_check :: "string \<Rightarrow> string \<Rightarrow> string \<Rightarrow> string \<Rightarrow> string \<Rightarrow> string \<Rightarrow> evidence_check" where
  "evidence_check name status classification blocks reason action =
     \<lparr>er_name = name, er_status = status, er_classification = classification, er_blocks_release = blocks,
      er_reason = Msg reason [], er_required_action = Msg action []\<rparr>"

definition linux_checks :: "evidence_check list" where
  "linux_checks =
     [evidence_check ''linux_desktop_build_smoke'' ''passed'' ''none'' ''no''
        ''the Linux desktop build smoke passed on 2026-05-25'' ''keep the Linux build smoke passing as development evidence'',
      evidence_check ''linux_desktop_launch_smoke'' ''passed'' ''none'' ''no''
        ''the Linux desktop launch smoke passed on WSLg; it is no Windows-first product evidence on its own''
        ''keep the Linux launch smoke passing while the Windows-first evidence is completed'']"

definition windows_project_checks :: "toolbox \<Rightarrow> evidence_check list" where
  "windows_project_checks tb =
     (let project = tb_is_dir tb ''apps/desktop_flutter/windows'' in
      [evidence_check ''windows_desktop_project_support_exists'' (if project then ''passed'' else ''failed'')
         (if project then ''none'' else ''release_blocker'') (if project then ''no'' else ''yes'')
         (if project then ''apps/desktop_flutter/windows exists''
          else ''apps/desktop_flutter/windows does not exist: Windows project support is not generated'')
         (if project then ''keep the Windows project files under version control''
          else ''generate Windows desktop project support and commit its files''),
       evidence_check ''windows_development_toolchain_historical_smoke'' ''historical_invalid_for_current_r2'' ''none'' ''no''
         ''past native Windows smokes are kept as owner trial history only''
         ''collect new native Windows release-candidate evidence in the isolated installed-path flow''])"

definition planned_check :: "string \<Rightarrow> string \<Rightarrow> string \<Rightarrow> evidence_check" where
  "planned_check name reason action = evidence_check name ''unverified_planned'' ''known_limitation'' ''no'' reason action"

definition macos_checks :: "evidence_check list" where
  "macos_checks =
     [planned_check ''macos_desktop_project_support_exists'' ''no macOS environment; v1.0 does not claim macOS support''
        ''verify on a macOS host before claiming macOS support'',
      planned_check ''macos_flutter_toolchain'' ''no macOS environment'' ''verify the macOS Flutter toolchain'',
      planned_check ''macos_desktop_build_smoke'' ''the macOS build smoke is not run'' ''pass flutter build macos'',
      planned_check ''macos_desktop_launch_smoke'' ''no macOS launch evidence'' ''launch the macOS artifact and record it'',
      planned_check ''macos_packaging_notarization_plan'' ''macOS packaging is only planned'' ''document and verify on macOS'',
      planned_check ''macos_installer_first_run_smoke'' ''outside the Windows-first v1.0 gate'' ''verify on a macOS host'']"

definition owner_go_check :: evidence_check where
  "owner_go_check =
     evidence_check ''owner_go'' ''failed'' ''release_blocker'' ''yes'' ''no explicit owner GO is recorded''
       ''record an explicit owner GO only after measured installed-path evidence and strict validation''"

definition in_platform :: "tables \<Rightarrow> toolbox \<Rightarrow> string \<Rightarrow> string \<Rightarrow> bool" where
  "in_platform T tb desktop_platform name \<longleftrightarrow>
     desktop_platform = name \<or> desktop_platform = ''all''
     \<or> desktop_platform = ''current'' \<and> current_desktop_platform T tb = name"

definition platform_evidence_checks ::
  "tables \<Rightarrow> toolbox \<Rightarrow> ustr option \<Rightarrow> string \<Rightarrow> bool \<Rightarrow> exn + evidence_check list" where
  "platform_evidence_checks T tb evidence desktop_platform strict_release =
     bindE (if in_platform T tb desktop_platform ''windows''
            then bindE (validate_windows_release_evidence T evidence) (\<lambda>rs. Inr (windows_project_checks tb @ rs))
            else Inr []) (\<lambda>windows.
       Inr ((if in_platform T tb desktop_platform ''linux'' then linux_checks else [])
            @ windows
            @ (if in_platform T tb desktop_platform ''macos'' then macos_checks else [])
            @ (if strict_release then [owner_go_check] else [])))"

subsection \<open>Running a step\<close>

record step_result =
  sr_name :: string
  sr_command :: ustr
  sr_command_array :: "ustr list option"
  sr_status :: string
  sr_classification :: string
  sr_blocks_release :: string
  sr_reason :: msg
  sr_required_action :: msg
  sr_stdout :: ustr
  sr_stderr :: ustr
  sr_exit :: "int option"

definition tool_text :: "validation_step \<Rightarrow> json" where
  "tool_text step = (case required_tool step of Some tool \<Rightarrow> js tool | None \<Rightarrow> js ''None'')"

definition outside_reason :: "validation_step \<Rightarrow> msg" where
  "outside_reason step = (case post_v1_reason step of Some m \<Rightarrow> m | None \<Rightarrow> Msg ''outside the v1.0 scope'' [])"

definition classify_not_run :: "validation_step \<Rightarrow> bool \<Rightarrow> string \<times> string \<times> msg \<times> msg" where
  "classify_not_run step strict_release =
     (if in_release_scope step \<and> strict_release
      then (''release_blocker'', ''yes'', Msg ''{} is not on the PATH'' [tool_text step],
            Msg ''install {} and run release validation again'' [tool_text step])
      else if \<not> in_release_scope step
      then (''post_v1_scope'', ''no'', outside_reason step, Msg ''nothing is needed for v1.0'' [])
      else (''release_blocker'', ''yes'', Msg ''{} is not on the PATH'' [tool_text step],
            Msg ''install {} before release validation'' [tool_text step]))"

text \<open>\<open>str.rstrip()\<close> of the outputs.\<close>

definition rstrip :: "ustr \<Rightarrow> ustr" where
  "rstrip s = rev (dropWhile is_space (rev s))"

definition strict_command :: "toolbox \<Rightarrow> validation_step \<Rightarrow> bool \<Rightarrow> ustr list" where
  "strict_command tb step strict_release =
     resolve_step_command tb (step_command step)
     @ (if strict_release \<and> step_name step = ''release_gate_check'' then [u ''--strict-release''] else [])"

definition completed_result :: "validation_step \<Rightarrow> bool \<Rightarrow> ustr list \<Rightarrow> int \<Rightarrow> ustr \<Rightarrow> ustr \<Rightarrow> step_result" where
  "completed_result step strict_release command code out err =
     (let passed = code = 0;
          verdict =
            (if \<not> passed \<and> in_release_scope step then
               (if strict_release \<and> step_name step = ''release_gate_check''
                then (''release_blocker'', ''yes'', Msg ''the strict release gate found unresolved active release blockers'' [],
                      Msg ''resolve every active release_blocker and run strict validation again'' [])
                else (''release_blocker'', ''yes'', Msg ''the validation command failed'' [],
                      Msg ''repair the failed validation command and run it again'' []))
             else if \<not> in_release_scope step
             then (''post_v1_scope'', ''no'', outside_reason step,
                   Msg ''nothing is needed for v1.0 unless the owner includes this scope'' [])
             else (''none'', ''no'', Msg [] [], Msg [] []))
      in \<lparr>sr_name = step_name step, sr_command = join_with '' '' command, sr_command_array = None,
          sr_status = (if passed then ''passed'' else ''failed''),
          sr_classification = fst verdict, sr_blocks_release = fst (snd verdict), sr_reason = fst (snd (snd verdict)),
          sr_required_action = snd (snd (snd verdict)), sr_stdout = rstrip out, sr_stderr = rstrip err,
          sr_exit = Some code\<rparr>)"

definition run_step :: "toolbox \<Rightarrow> validation_step \<Rightarrow> bool \<Rightarrow> step_result" where
  "run_step tb step strict_release =
     (let command = strict_command tb step strict_release;
          not_run = classify_not_run step strict_release;
          unstarted = (\<lambda>array reason action trace.
            \<lparr>sr_name = step_name step, sr_command = join_with '' '' command, sr_command_array = array,
             sr_status = ''not_run'', sr_classification = fst not_run, sr_blocks_release = fst (snd not_run),
             sr_reason = reason, sr_required_action = action, sr_stdout = [], sr_stderr = rstrip trace, sr_exit = None\<rparr>)
      in if (case required_tool step of Some tool \<Rightarrow> find_tool tb (u tool) = None | None \<Rightarrow> False)
         then unstarted None (fst (snd (snd not_run))) (snd (snd (snd not_run))) []
         else (case tb_run tb command (step_cwd step) of
                 Not_started error trace \<Rightarrow>
                   unstarted (Some command) (Within ''the validation command cannot be started: {}'' [] error)
                     (Msg ''repair the toolchain of the validation host or the command resolution'' []) trace
               | Completed code out err \<Rightarrow> completed_result step strict_release command code out err))"

subsection \<open>The run\<close>

record validation_args =
  arg_strict_release :: bool
  arg_include_mobile :: bool
  arg_desktop_platform :: string
  arg_python_only :: bool

definition validation_results :: "tables \<Rightarrow> toolbox \<Rightarrow> validation_args \<Rightarrow> step_result list" where
  "validation_results T tb args =
     map (\<lambda>step. run_step tb step (arg_strict_release args))
       (build_steps T tb (arg_include_mobile args) (arg_desktop_platform args) (arg_python_only args))"

definition validation_blockers :: "bool \<Rightarrow> step_result list \<Rightarrow> evidence_check list \<Rightarrow> string list" where
  "validation_blockers strict_release results evidence =
     map sr_name (filter (\<lambda>r. sr_classification r = ''release_blocker'') results)
     @ (if strict_release then map er_name (filter (\<lambda>c. er_classification c = ''release_blocker'') evidence) else [])"

definition validate_all_exit :: "tables \<Rightarrow> toolbox \<Rightarrow> ustr option \<Rightarrow> validation_args \<Rightarrow> exn + nat" where
  "validate_all_exit T tb evidence args =
     bindE (platform_evidence_checks T tb evidence (arg_desktop_platform args) (arg_strict_release args)) (\<lambda>checks.
       Inr (if validation_blockers (arg_strict_release args) (validation_results T tb args) checks = [] then 0 else 1))"

subsection \<open>What the exit code means\<close>

text \<open>A step lets the run pass when it is out of scope, or its tool is found and its command exits with 0.\<close>

definition step_passes :: "toolbox \<Rightarrow> bool \<Rightarrow> validation_step \<Rightarrow> bool" where
  "step_passes tb strict_release step \<longleftrightarrow>
     \<not> in_release_scope step
     \<or> (case required_tool step of Some tool \<Rightarrow> find_tool tb (u tool) \<noteq> None | None \<Rightarrow> True)
       \<and> (\<exists>out err. tb_run tb (strict_command tb step strict_release) (step_cwd step) = Completed 0 out err)"

lemma run_step_blocker:
  "sr_classification (run_step tb step strict) = ''release_blocker'' \<longleftrightarrow> \<not> step_passes tb strict step"
  by (auto simp: run_step_def step_passes_def classify_not_run_def completed_result_def Let_def split: option.splits run_outcome.splits)

lemma blockers_Nil:
  "validation_blockers strict (map (\<lambda>step. run_step tb step strict) steps) checks = [] \<longleftrightarrow>
     list_all (step_passes tb strict) steps
     \<and> (strict \<longrightarrow> list_all (\<lambda>c. er_classification c \<noteq> ''release_blocker'') checks)"
  by (auto simp: validation_blockers_def filter_empty_conv list_all_iff run_step_blocker)

text \<open>
  C16. Outside the strict mode the run exits with 0 exactly when every step in the release scope has its
  tool and its command exits with 0; the platform evidence is printed but never decides.
\<close>

theorem development_exit_exact:
  assumes "\<not> arg_strict_release args"
    and "platform_evidence_checks T tb evidence (arg_desktop_platform args) False = Inr checks"
  shows "validate_all_exit T tb evidence args =
    Inr (if list_all (step_passes tb False)
             (build_steps T tb (arg_include_mobile args) (arg_desktop_platform args) (arg_python_only args))
         then 0 else 1)"
  using assms by (simp add: validate_all_exit_def validation_results_def blockers_Nil)

text \<open>
  The strict run never passes: the owner decision is the constant \<open>failed\<close>, so whatever the
  machine, the steps and the evidence are, it does not exit with 0.
\<close>

theorem strict_validation_never_passes:
  "validate_all_exit T tb evidence (args\<lparr>arg_strict_release := True\<rparr>) \<noteq> Inr 0"
proof
  assume "validate_all_exit T tb evidence (args\<lparr>arg_strict_release := True\<rparr>) = Inr 0"
  then obtain checks where c: "platform_evidence_checks T tb evidence (arg_desktop_platform args) True = Inr checks"
      "list_all (\<lambda>c. er_classification c \<noteq> ''release_blocker'') checks"
    by (auto simp: validate_all_exit_def res_simps validation_results_def blockers_Nil split: if_splits)
  from c(1) have "owner_go_check \<in> set checks"
    by (auto simp: platform_evidence_checks_def res_simps)
  with c(2) show False
    unfolding list_all_iff by (auto simp: owner_go_check_def evidence_check_def)
qed

subsection \<open>A machine\<close>

definition sample_toolbox :: toolbox where
  "sample_toolbox =
     \<lparr>tb_system = u ''Linux'', tb_executable = u ''python3'', tb_which = (\<lambda>tool. Some tool),
      tb_run = (\<lambda>command cwd. Completed 0 [] []), tb_is_dir = (\<lambda>_. True), tb_exists = (\<lambda>_. False)\<rparr>"

definition sample_args :: validation_args where
  "sample_args =
     \<lparr>arg_strict_release = False, arg_include_mobile = False, arg_desktop_platform = ''linux'', arg_python_only = True\<rparr>"

theorem development_exit_exact_witness:
  "validate_all_exit ascii_tables sample_toolbox None sample_args = Inr 0"
proof -
  have args: "\<not> arg_strict_release sample_args" "arg_desktop_platform sample_args = ''linux''" "arg_python_only sample_args"
    by (simp_all add: sample_args_def)
  have checks: "platform_evidence_checks ascii_tables sample_toolbox None (arg_desktop_platform sample_args) False = Inr linux_checks"
    by (simp add: platform_evidence_checks_def in_platform_def args)
  have "list_all (step_passes sample_toolbox False) (python_steps sample_toolbox)"
    by (simp add: python_steps_def Let_def step_passes_def plain_step_def sample_toolbox_def)
  then show ?thesis
    unfolding development_exit_exact [OF args(1) checks] by (simp add: build_steps_def args)
qed

end
