(* ===== verification/Packaging.thy ===== *)
theory Packaging
  imports Manifest
begin

text \<open>
  The packaging check (\<open>tooling/packaging_portability_check.py\<close>): are the paths of the source files
  portable, does the archive of them unpack, and do three checks pass in the unpacked tree. Programs
  are the record \<open>pack_host\<close>: running a command either times out with its partial output or ends with a
  code and its output. Building the archive with \<open>zipfile\<close> is part of what \<open>unzip\<close> is given.
\<close>

definition UTF8_GOVERNANCE_PATH_ALLOWLIST :: "ustr list" where
  "UTF8_GOVERNANCE_PATH_ALLOWLIST =
     [[0x898F, 0x5B9A] @ u ''/00_'' @ [0x65E5, 0x672C, 0x8A9E, 0x57FA, 0x5E95, 0x898F, 0x5B9A, 0x2E, 0x6D, 0x64],
      [0x898F, 0x5B9A, 0x2F, 0x6B63, 0x672C, 0x7D22, 0x5F15] @ u ''.json'',
      [0x898F, 0x5B9A, 0x2F, 0x65E5, 0x672C, 0x8A9E, 0x57FA, 0x5E95, 0x4F8B, 0x5916] @ u ''.json'',
      u ''tooling/'' @ [0x65E5, 0x672C, 0x8A9E, 0x57FA, 0x5E95, 0x76E3, 0x67FB, 0x2E, 0x70, 0x79]]"

definition WINDOWS_GIT_UNZIP_CANDIDATES :: "ustr list" where
  "WINDOWS_GIT_UNZIP_CANDIDATES =
     [map (\<lambda>c. if c = 47 then 92 else c) (u ''C:/Program Files/Git/usr/bin/unzip.exe''),
      map (\<lambda>c. if c = 47 then 92 else c) (u ''C:/Program Files (x86)/Git/usr/bin/unzip.exe'')]"

definition DEFAULT_SUBPROCESS_TIMEOUT_SECONDS :: int where
  "DEFAULT_SUBPROCESS_TIMEOUT_SECONDS = 120"

datatype process_end = Timed_out ustr | Ended int ustr

record pack_host =
  ph_win32 :: bool
  ph_executable :: ustr
  ph_which :: "ustr \<Rightarrow> ustr option"
  ph_is_file :: "ustr \<Rightarrow> bool"
  ph_unzip :: "ustr list \<Rightarrow> (ppath \<times> ustr) list \<Rightarrow> process_end"
  ph_run :: "ustr list \<Rightarrow> process_end"

definition portable_path_error :: "ustr \<Rightarrow> msg list" where
  "portable_path_error rel =
     (let allowlisted = rel \<in> set UTF8_GOVERNANCE_PATH_ALLOWLIST in
      flag (list_ex (\<lambda>c. 128 \<le> c) rel \<and> \<not> allowlisted) (Msg ''a packaged path is not ASCII: {}'' [JStr rel])
      @ flag (list_ex (\<lambda>c. c < 32) rel \<or> \<not> allowlisted \<and> list_ex (\<lambda>c. 127 \<le> c) rel)
          (Msg ''a packaged path is not portable: {}'' [JStr rel]))"

definition portable_path_errors :: "workspace \<Rightarrow> ppath list \<Rightarrow> exn + msg list" where
  "portable_path_errors ws paths =
     concatE (\<lambda>path. bindE (manifest_relative ws path) (\<lambda>rel. Inr (portable_path_error rel))) paths"

definition command_label :: "ustr list \<Rightarrow> ustr" where
  "command_label command = join_with '' '' command"

text \<open>\<open>str(output).strip() or \<dots>\<close>\<close>

definition output_or :: "string \<Rightarrow> ustr \<Rightarrow> json" where
  "output_or fallback out = (let s = strip_where is_space out in if s = [] then js fallback else JStr s)"

definition find_unzip :: "pack_host \<Rightarrow> ustr option" where
  "find_unzip H =
     (case ph_which H (u ''unzip'') of
        Some p \<Rightarrow> Some p
      | None \<Rightarrow> (if ph_win32 H then List.find (ph_is_file H) WINDOWS_GIT_UNZIP_CANDIDATES else None))"

definition packaged_run_check :: "pack_host \<Rightarrow> ustr list \<Rightarrow> msg list" where
  "packaged_run_check H command =
     (case ph_run H command of
        Timed_out partial \<Rightarrow>
          [Msg ''{} timed out after {}s: {}'' [JStr (command_label command), JInt DEFAULT_SUBPROCESS_TIMEOUT_SECONDS,
             output_or ''no partial output'' partial]]
      | Ended code out \<Rightarrow>
          flag (code \<noteq> 0) (Msg ''{} failed: {}'' [JStr (command_label command), output_or ''no output'' out]))"

definition CHECKED_SCRIPTS :: "string list list" where
  "CHECKED_SCRIPTS =
     [[''tooling/manifest.py'', ''--check''], [''tooling/conformance_tests/run_conformance_skeleton.py''],
      [''tooling/release_gate_check.py'']]"

text \<open>What goes into the archive: the files under their relative paths, and the manifest when it exists.\<close>

definition archive_members :: "workspace \<Rightarrow> ppath list \<Rightarrow> exn + (ppath \<times> ustr) list" where
  "archive_members ws files =
     bindE (mapE (\<lambda>path. bindE (manifest_relative ws path) (\<lambda>rel. Inr (path, rel))) files) (\<lambda>members.
       Inr (members @ (if ws_exists ws (MANIFEST ws) then [(MANIFEST ws, u ''MANIFEST.sha256.json'')] else [])))"

definition unzip_command :: "ustr \<Rightarrow> ppath \<Rightarrow> ustr list" where
  "unzip_command unzip tmp =
     [unzip, u ''-qq'', path_text (path_join tmp (path_of (u ''gui_shell_source.zip''))), u ''-d'',
      path_text (path_join tmp (path_of (u ''extract'')))]"

definition unzip_missing :: "pack_host \<Rightarrow> msg" where
  "unzip_missing H =
     (if ph_win32 H
      then Msg ''unzip is neither on the PATH nor at: {}'' [JStr (join_with '', '' WINDOWS_GIT_UNZIP_CANDIDATES)]
      else Msg ''unzip is not found on the PATH'' [])"

text \<open>The findings the run prints; it exits with 1 when there are any.\<close>

definition packaging_findings :: "pack_host \<Rightarrow> workspace \<Rightarrow> ppath \<Rightarrow> exn + msg list" where
  "packaging_findings H ws tmp =
     bindE (expected_files ws) (\<lambda>(files, errors).
     bindE (portable_path_errors ws files) (\<lambda>paths.
     let unzip = find_unzip H;
         found = errors @ paths @ flag (unzip = None) (unzip_missing H) in
     if found \<noteq> [] then Inr found
     else
       bindE (archive_members ws files) (\<lambda>members.
         Inr (case ph_unzip H (unzip_command (the unzip) tmp) members of
                Timed_out partial \<Rightarrow>
                  [Msg ''{} timed out after {}s: {}''
                     [JStr (command_label (unzip_command (the unzip) tmp)), JInt DEFAULT_SUBPROCESS_TIMEOUT_SECONDS,
                      output_or ''no partial output'' partial]]
              | Ended code out \<Rightarrow>
                  (if code \<noteq> 0 then [Msg ''unzip cannot extract: {}'' [JStr (strip_where is_space out)]]
                   else concat (map (\<lambda>args. packaged_run_check H (ph_executable H # map u args)) CHECKED_SCRIPTS))))))"

definition packaging_exit :: "pack_host \<Rightarrow> workspace \<Rightarrow> ppath \<Rightarrow> exn + nat" where
  "packaging_exit H ws tmp = bindE (packaging_findings H ws tmp) (\<lambda>found. Inr (if found \<noteq> [] then 1 else 0))"

subsection \<open>Portable paths\<close>

text \<open>Printable ASCII, or a governance path without control characters.\<close>

definition portable :: "ustr \<Rightarrow> bool" where
  "portable rel \<longleftrightarrow> list_all (\<lambda>c. 32 \<le> c) rel
     \<and> (rel \<in> set UTF8_GOVERNANCE_PATH_ALLOWLIST \<or> list_all (\<lambda>c. c < 127) rel)"

lemma portable_path_error_Nil: "portable_path_error rel = [] \<longleftrightarrow> portable rel"
  by (auto simp: portable_path_error_def portable_def Let_def list_all_iff list_ex_iff not_le not_less)

definition exits_clean :: "process_end \<Rightarrow> bool" where
  "exits_clean r \<longleftrightarrow> (\<exists>out. r = Ended 0 out)"

lemma run_check_Nil: "packaged_run_check H command = [] \<longleftrightarrow> exits_clean (ph_run H command)"
  by (auto simp: packaged_run_check_def exits_clean_def split: process_end.splits)

lemma portable_errors_of:
  assumes "mapE (manifest_relative ws) files = Inr rels"
  shows "portable_path_errors ws files = Inr (concat (map portable_path_error rels))"
  using assms unfolding portable_path_errors_def
  by (induction files arbitrary: rels) (auto simp: res_simps)

lemma expected_relative:
  assumes "expected_files ws = Inr (files, errors)"
  shows "\<exists>rels. mapE (manifest_relative ws) files = Inr rels"
proof -
  have "p \<in> set files \<Longrightarrow> \<exists>r. manifest_relative ws p = Inr r" for p
    using expected_files_Inr(2) [OF assms] by (auto simp: is_excluded_def res_simps)
  then show ?thesis by (induction files) (auto simp: res_simps)
qed

lemma archive_total:
  assumes "mapE (manifest_relative ws) files = Inr rels"
  shows "\<exists>members. archive_members ws files = Inr members \<and> map snd members
    = rels @ (if ws_exists ws (MANIFEST ws) then [u ''MANIFEST.sha256.json''] else [])"
proof -
  have "\<exists>ms. mapE (\<lambda>path. bindE (manifest_relative ws path) (\<lambda>rel. Inr (path, rel))) files = Inr ms \<and> map snd ms = rels"
    using assms by (induction files arbitrary: rels) (auto simp: res_simps)
  then show ?thesis by (auto simp: archive_members_def)
qed

text \<open>
  The packaging check exits with 0 exactly when the list of source files has no error, every path is
  portable, \<open>unzip\<close> is found and unpacks the archive of these files, and the three checks exit with 0 in
  the unpacked tree.
\<close>

theorem packaging_exit_exact:
  assumes "expected_files ws = Inr (files, errors)" and "mapE (manifest_relative ws) files = Inr rels"
    and "archive_members ws files = Inr members"
  shows "packaging_exit H ws tmp =
    Inr (if errors = [] \<and> list_all portable rels
            \<and> (\<exists>unzip. find_unzip H = Some unzip \<and> exits_clean (ph_unzip H (unzip_command unzip tmp) members))
            \<and> list_all (\<lambda>args. exits_clean (ph_run H (ph_executable H # map u args))) CHECKED_SCRIPTS
         then 0 else 1)"
proof -
  have clean: "concat (map portable_path_error rels) = [] \<longleftrightarrow> list_all portable rels"
    by (simp add: portable_path_error_Nil list_all_iff)
  have runs: "concat (map (\<lambda>args. packaged_run_check H (ph_executable H # map u args)) CHECKED_SCRIPTS) = []
      \<longleftrightarrow> list_all (\<lambda>args. exits_clean (ph_run H (ph_executable H # map u args))) CHECKED_SCRIPTS"
    by (simp add: run_check_Nil list_all_iff)
  show ?thesis
  proof (cases "errors = [] \<and> list_all portable rels \<and> find_unzip H \<noteq> None")
    case False
    then show ?thesis
      using clean by (auto simp: packaging_exit_def packaging_findings_def assms(1) portable_errors_of [OF assms(2)])
  next
    case True
    then obtain unzip where unzip: "find_unzip H = Some unzip" by blast
    show ?thesis
    proof (cases "ph_unzip H (unzip_command unzip tmp) members")
      case (Timed_out partial)
      with True unzip clean show ?thesis
        by (simp add: packaging_exit_def packaging_findings_def assms portable_errors_of [OF assms(2)] exits_clean_def
            remark_def flag_def)
    next
      case (Ended code out)
      with True unzip clean runs show ?thesis
        by (simp add: packaging_exit_def packaging_findings_def assms portable_errors_of [OF assms(2)] exits_clean_def
            remark_def flag_def del: concat_eq_Nil_conv Nil_eq_concat_conv)
    qed
  qed
qed

definition sample_pack_host :: pack_host where
  "sample_pack_host =
     \<lparr>ph_win32 = False, ph_executable = u ''python3'', ph_which = (\<lambda>tool. Some tool), ph_is_file = (\<lambda>_. False),
      ph_unzip = (\<lambda>_ _. Ended 0 []), ph_run = (\<lambda>_. Ended 0 [])\<rparr>"

theorem packaging_exit_exact_witness: "packaging_exit sample_pack_host sample_workspace (path_of (u ''/tmp'')) = Inr 0"
proof -
  have rels: "mapE (manifest_relative sample_workspace) [sample_file] = Inr [u ''packages/shell_core/a.py'']"
    by (simp add: sample_relative)
  obtain members where members: "archive_members sample_workspace [sample_file] = Inr members"
    using archive_total [OF rels] by blast
  have "portable (u ''packages/shell_core/a.py'')"
    by (simp add: portable_def u_def)
  then show ?thesis
    unfolding packaging_exit_exact [OF sample_expected rels members]
    by (simp add: find_unzip_def sample_pack_host_def exits_clean_def CHECKED_SCRIPTS_def)
qed

end
