(* ===== verification/Broker_Parity.thy ===== *)
theory Broker_Parity
  imports Complex_Main Policy Approval_Queue Audit_Chain Py_Text "HOL-Library.Sublist"
begin

text \<open>
  The parity run of \<open>tooling/broker_parity/run_authority_parity.py\<close>: the Python core and a Rust broker,
  driven over a socket, must decide alike. The broker is not Python code: it is the parameter \<open>net\<close>, the
  line it answers to the requests it was sent so far (any stateful server is such a function). The client
  state is the request counter with the requests put on the wire; what the run concludes from the answers is
  the subject of the theorems.
\<close>

subsection \<open>The hash of a request\<close>

text \<open>\<open>json.dumps(payload, sort_keys=True, separators=(",", ":"), ensure_ascii=False)\<close>: only quotes,
  backslashes and control characters are escaped.\<close>

definition raw_char :: "nat \<Rightarrow> ustr" where
  "raw_char c = (if c < 32 \<or> c = 34 \<or> c = 92 then esc_char c else [c])"

definition raw_quote :: "ustr \<Rightarrow> ustr" where
  "raw_quote s = 34 # concat (map raw_char s) @ [34]"

fun render_raw :: "json \<Rightarrow> ustr" where
  "render_raw JNull = u ''null''"
| "render_raw (JBool b) = (if b then u ''true'' else u ''false'')"
| "render_raw (JInt i) = dec_int i"
| "render_raw (JStr s) = raw_quote s"
| "render_raw (JArr xs) = 91 # join [44] (map render_raw xs) @ [93]"
| "render_raw (JObj d) = 123 # join [44] (map (\<lambda>(k, v). raw_quote k @ 58 # render_raw v) d) @ [125]"

definition encode_utf8 :: "ustr \<Rightarrow> exn + byte list" where
  "encode_utf8 s = (if list_all scalar s then Inr (utf8_encode s) else Inl UnicodeError)"

definition ipc_payload_hash :: "json \<Rightarrow> exn + ustr" where
  "ipc_payload_hash payload = bindE (encode_utf8 (render_raw (sort_keys payload))) (\<lambda>bs. Inr (sha256_tag bs))"

subsection \<open>The client\<close>

datatype failure = Raised exn | AssertionError msg | Timeout_expired

record client =
  endpoint :: obj
  counter :: nat
  wire :: "(obj \<times> json option) list"

type_synonym network = "obj list \<Rightarrow> exn + ustr"
type_synonym 'a session = "client \<Rightarrow> (failure + 'a) \<times> client"

definition retS :: "'a \<Rightarrow> 'a session" where
  "retS x c = (Inr x, c)"

definition raiseS :: "failure \<Rightarrow> 'a session" where
  "raiseS e c = (Inl e, c)"

definition liftS :: "exn + 'a \<Rightarrow> 'a session" where
  "liftS m c = (map_sum Raised id m, c)"

definition bindS :: "'a session \<Rightarrow> ('a \<Rightarrow> 'b session) \<Rightarrow> 'b session" where
  "bindS f g c = (case f c of (Inl e, c') \<Rightarrow> (Inl e, c') | (Inr x, c') \<Rightarrow> g x c')"

text \<open>A loop over cases that appends to one list of findings, and the \<open>finally\<close> clause: the cleanup runs
  in any case, and an exception of its own replaces the outcome.\<close>

fun concatS :: "('a \<Rightarrow> 'b list session) \<Rightarrow> 'a list \<Rightarrow> 'b list session" where
  "concatS f [] = retS []"
| "concatS f (x # xs) = bindS (f x) (\<lambda>y. bindS (concatS f xs) (\<lambda>ys. retS (y @ ys)))"

definition finallyS :: "'a session \<Rightarrow> unit session \<Rightarrow> 'a session" where
  "finallyS f g c = (case f c of (r, c') \<Rightarrow> (case g c' of (Inl e, c'') \<Rightarrow> (Inl e, c'') | (Inr _, c'') \<Rightarrow> (r, c'')))"

definition build_request :: "(nat \<Rightarrow> ustr) \<Rightarrow> string \<Rightarrow> string \<Rightarrow> json \<Rightarrow> client \<Rightarrow> exn + obj" where
  "build_request clock pre operation payload c =
     bindE (ditem (endpoint c) ''session_id'') (\<lambda>session_id.
     bindE (ipc_payload_hash payload) (\<lambda>payload_hash.
     let n = dec_nat (counter c) in
     Inr ([(u ''request_id'', JStr (u pre @ n)), (u ''session_id'', session_id),
           (u ''operation'', js operation), (u ''payload_hash'', JStr payload_hash),
           (u ''nonce'', JStr (u pre @ u ''nonce-'' @ n)), (u ''issued_at'', JStr (clock (counter c))),
           (u ''metadata'', JObj [(u ''client'', js ''broker_parity'')])]
          @ (if payload = JNull then [] else [(u ''payload'', payload)]))))"

text \<open>\<open>create_connection((endpoint["host"], endpoint["port"]))\<close> and the secret line that precedes the request\<close>

definition connection :: "obj \<Rightarrow> exn + unit" where
  "connection ep =
     bindE (ditem ep ''host'') (\<lambda>_. bindE (ditem ep ''port'') (\<lambda>_.
     bindE (ditem ep ''session_secret'') (\<lambda>secret.
     case secret of JStr s \<Rightarrow> bindE (encode_utf8 s) (\<lambda>_. Inr ()) | _ \<Rightarrow> Inl AttributeError)))"

definition put_on_wire :: "obj \<Rightarrow> json option \<Rightarrow> client \<Rightarrow> client" where
  "put_on_wire request answer c = c\<lparr>wire := wire c @ [(request, answer)]\<rparr>"

definition transmit :: "network \<Rightarrow> obj \<Rightarrow> json session" where
  "transmit net request c =
     (case connection (endpoint c) of
        Inl e \<Rightarrow> (Inl (Raised e), c)
      | Inr _ \<Rightarrow>
          (case bindE (net (map fst (wire c) @ [request])) py_loads of
             Inl e \<Rightarrow> (Inl (Raised e), put_on_wire request None c)
           | Inr answer \<Rightarrow> (Inr answer, put_on_wire request (Some answer) c)))"

definition next_request :: "unit session" where
  "next_request c = (Inr (), c\<lparr>counter := Suc (counter c)\<rparr>)"

definition broker_request :: "network \<Rightarrow> (nat \<Rightarrow> ustr) \<Rightarrow> string \<Rightarrow> json \<Rightarrow> json session" where
  "broker_request net clock operation payload =
     bindS next_request (\<lambda>_.
     bindS (\<lambda>c. liftS (build_request clock ''parity-'' operation payload c) c) (transmit net))"

definition broker_call :: "network \<Rightarrow> (nat \<Rightarrow> ustr) \<Rightarrow> string \<Rightarrow> json \<Rightarrow> json session" where
  "broker_call net clock operation payload =
     bindS (broker_request net clock operation payload) (\<lambda>response.
     bindS (liftS (jitem response ''status'')) (\<lambda>status.
     if \<not> py_eq status (js ''accepted'')
     then raiseS (AssertionError (Msg ''the broker rejected {}: {}'' [js operation, response]))
     else liftS (jitem response ''body'')))"

definition broker_shutdown :: "(nat \<Rightarrow> ustr) \<Rightarrow> unit session" where
  "broker_shutdown clock =
     bindS next_request (\<lambda>_.
     bindS (\<lambda>c. liftS (build_request clock ''parity-shutdown-'' ''shutdown'' JNull c) c) (\<lambda>request c.
       case connection (endpoint c) of
         Inl e \<Rightarrow> (Inl (Raised e), c)
       | Inr _ \<Rightarrow> (Inr (), put_on_wire request None c)))"

subsection \<open>The state and the actions of the run\<close>

definition parity_payload :: json where
  "parity_payload = JObj [(u ''path'', js ''notes/today.md''), (u ''content'', js ''hello'')]"

definition parity_runtime :: obj where
  "parity_runtime =
     [(u ''runtime_id'', js ''runtime-1''), (u ''name'', js ''Runtime 1''), (u ''kind'', js ''local_service''),
      (u ''status'', js ''ready''), (u ''adapter_id'', js ''broker-parity-adapter'')]"

definition parity_capability :: obj where
  "parity_capability =
     [(u ''capability_id'', js ''filesystem.write''), (u ''runtime_id'', js ''runtime-1''),
      (u ''name'', js ''Filesystem write''), (u ''risk_level'', js ''high''),
      (u ''default_permission'', js ''ask''), (u ''requires_approval'', JBool True),
      (u ''operations'', JArr [js ''filesystem.write''])]"

definition parity_permission :: "string \<Rightarrow> string \<Rightarrow> obj" where
  "parity_permission permission_id decision =
     [(u ''permission_id'', js permission_id), (u ''runtime_id'', js ''runtime-1''),
      (u ''capability_id'', js ''filesystem.write''), (u ''operation'', js ''filesystem.write''),
      (u ''target_scope'', js ''workspace''), (u ''scope'', js ''target''), (u ''decision'', js decision),
      (u ''source'', js ''policy'')]"

definition parity_approval :: "string \<Rightarrow> string \<Rightarrow> obj" where
  "parity_approval approval_id status =
     [(u ''approval_id'', js approval_id), (u ''runtime_id'', js ''runtime-1''), (u ''status'', js status),
      (u ''operation'', js ''filesystem.write''), (u ''target_scope'', js ''workspace''),
      (u ''content_visibility'', js ''redacted''), (u ''payload_hash'', JStr (canonical_hash parity_payload)),
      (u ''full_payload'', parity_payload),
      (u ''redacted_payload'', JObj [(u ''path'', js ''notes/today.md''), (u ''content'', js ''[redacted]'')]),
      (u ''editable_fields'', JArr [js ''path'']), (u ''authority_fields'', JArr [js ''permission_id''])]"

definition parity_audit_event :: obj where
  "parity_audit_event =
     [(u ''event_id'', js ''audit-1''), (u ''timestamp'', js ''2026-06-05T00:00:00Z''), (u ''actor'', js ''shell''),
      (u ''action'', js ''filesystem.write''), (u ''target'', js ''runtime-1''), (u ''result'', js ''success''),
      (u ''payload_hash'', JStr (canonical_hash parity_payload))]"

definition parity_recovery :: obj where
  "parity_recovery =
     [(u ''recovery_id'', js ''recover-1''), (u ''runtime_id'', js ''runtime-1''),
      (u ''operation'', js ''filesystem.write''), (u ''class'', js ''permission_denied''),
      (u ''severity'', js ''warning''), (u ''user_visible_message'', js ''Permission required.''),
      (u ''safe_to_retry'', JBool True)]"

definition record_values :: "store \<Rightarrow> json" where
  "record_values s = JArr (map (\<lambda>(_, r). JObj r) s)"

definition parity_state_json :: "runtime_state \<Rightarrow> json" where
  "parity_state_json S =
     JObj [(u ''runtimes'', record_values (runtimes S)), (u ''capabilities'', record_values (capabilities S)),
           (u ''permissions'', record_values (permissions S)), (u ''approvals'', record_values (approvals S)),
           (u ''audit_events'', record_values (audit_events S)),
           (u ''recovery_actions'', record_values (recovery_actions S))]"

definition build_parity_state :: "catalog \<Rightarrow> exn + runtime_state \<times> json" where
  "build_parity_state C =
     bindE (register_runtime C RuntimeState_init parity_runtime) (\<lambda>S.
     bindE (register_capability C S parity_capability) (\<lambda>S.
     bindE (record_permission C S (parity_permission ''permission-allow'' ''allow'')) (\<lambda>S.
     bindE (record_permission C S (parity_permission ''permission-deny'' ''deny'')) (\<lambda>S.
     bindE (enqueue_approval C S (parity_approval ''approval-approved'' ''approved'')) (\<lambda>S.
     bindE (enqueue_approval C S (parity_approval ''approval-pending'' ''pending'')) (\<lambda>S.
     bindE (append_audit_event C S parity_audit_event) (\<lambda>S.
     bindE (register_recovery_action C S parity_recovery) (\<lambda>S.
       Inr (S, parity_state_json S)))))))))"

definition base_action :: obj where
  "base_action =
     [(u ''operation'', js ''filesystem.write''), (u ''runtime_id'', js ''runtime-1''),
      (u ''capability_id'', js ''filesystem.write''), (u ''permission_id'', js ''permission-allow''),
      (u ''approval_id'', js ''approval-approved''), (u ''target_scope'', js ''workspace''),
      (u ''payload'', parity_payload),
      (u ''audit_event'', JObj [(u ''event_id'', js ''audit-1''),
                               (u ''payload_hash'', JStr (canonical_hash parity_payload))]),
      (u ''recovery_action'', JObj [(u ''recovery_id'', js ''recover-1'')]),
      (u ''adapter_metadata'', JObj [(u ''label'', js ''safe'')])]"

definition policy_cases :: "(string \<times> obj) list" where
  "policy_cases =
     [(''accepted'', base_action),
      (''permission_denied'', dset base_action ''permission_id'' (js ''permission-deny'')),
      (''approval_pending'', dset base_action ''approval_id'' (js ''approval-pending'')),
      (''metadata_escalation'', dset base_action ''adapter_metadata'' (JObj [(u ''trustLevel'', js ''root'')]))]"

definition source_action :: "ustr \<Rightarrow> obj" where
  "source_action source = dset base_action ''authority_source'' (JStr source)"

subsection \<open>compare_policy\<close>

definition error_codes :: "json \<Rightarrow> exn + json list" where
  "error_codes answer =
     bindE (jitem answer ''errors'') (\<lambda>errors. bindE (iter_values errors) (mapE (\<lambda>error. jitem error ''code'')))"

definition policy_codes :: "policy_result \<Rightarrow> json list" where
  "policy_codes r = map (\<lambda>e. JStr (err_code e)) (policy_errors r)"

text \<open>The comparison of one evaluation, with the codes the broker gave.\<close>

definition compare_results :: "json \<Rightarrow> policy_result \<Rightarrow> json \<Rightarrow> exn + msg list" where
  "compare_results name r answer =
     bindE (jitem answer ''allowed'') (\<lambda>rust_allowed.
     bindE (error_codes answer) (\<lambda>codes.
       Inr (flag (\<not> py_eq (JBool (allowed r)) rust_allowed) (Msg ''{}: allowed differs'' [name])
         @ flag (\<not> py_eq (JArr (policy_codes r)) (JArr codes))
             (Msg ''{}: error codes differ {} != {}'' [name, JArr (policy_codes r), JArr codes]))))"

definition evaluate_request :: "json \<Rightarrow> obj \<Rightarrow> json" where
  "evaluate_request state_json action = JObj [(u ''state'', state_json), (u ''action'', JObj action)]"

definition compare_case ::
  "ucd \<Rightarrow> catalog \<Rightarrow> network \<Rightarrow> (nat \<Rightarrow> ustr) \<Rightarrow> runtime_state \<Rightarrow> json \<Rightarrow> string \<times> obj \<Rightarrow> msg list session" where
  "compare_case U C net clock S state_json c =
     bindS (liftS (evaluate U C S (snd c))) (\<lambda>r.
     bindS (broker_call net clock ''authority_fixture_evaluate'' (evaluate_request state_json (snd c))) (\<lambda>answer.
       liftS (compare_results (js (fst c)) r answer)))"

definition compare_source ::
  "ucd \<Rightarrow> catalog \<Rightarrow> network \<Rightarrow> (nat \<Rightarrow> ustr) \<Rightarrow> runtime_state \<Rightarrow> json \<Rightarrow> ustr \<Rightarrow> msg list session" where
  "compare_source U C net clock S state_json source =
     bindS (liftS (evaluate U C S (source_action source))) (\<lambda>r.
     bindS (broker_call net clock ''authority_fixture_evaluate'' (evaluate_request state_json (source_action source)))
       (\<lambda>answer.
     bindS (liftS (compare_results (JStr (u ''non_authority_source '' @ source)) r answer)) (\<lambda>found.
     bindS (liftS (error_codes answer)) (\<lambda>codes.
       retS (found @ flag (\<not> py_in (JStr NON_AUTHORITY_SOURCE_ATTEMPT) codes)
               (Msg ''non_authority_source {}: Rust did not refuse the source'' [JStr source]))))))"

text \<open>The command envelope with the caller's state: the broker must suspend it.\<close>

definition envelope_errors :: "json \<Rightarrow> exn + msg list" where
  "envelope_errors response =
     bindE (jitem response ''status'') (\<lambda>status.
     bindE (jitem response ''body'') (\<lambda>body.
     bindE (jitem body ''eligibility'') (\<lambda>eligibility.
     bindE (jitem eligibility ''allowed'') (\<lambda>eligible.
     bindE (error_codes eligibility) (\<lambda>codes.
     bindE (jitem body ''dispatch_enabled'') (\<lambda>enabled.
     bindE (jitem body ''execution_gate'') (\<lambda>gate.
     bindE (jitem gate ''dispatch'') (\<lambda>dispatch.
     bindE (if \<not> py_eq dispatch (js ''suspended'') then Inr True
            else bindE (jitem gate ''status'') (\<lambda>gate_status. Inr (\<not> py_eq gate_status (js ''suspended''))))
       (\<lambda>open_gate.
       Inr (remark (\<not> py_eq status (js ''suspended'')) ''command_envelope: dispatch was not suspended''
         @ remark (\<not> is_false eligible) ''command_envelope: the caller's fixture state authorised the command''
         @ remark (\<not> py_in (js ''caller_state_rejected'') codes)
             ''command_envelope: product eligibility did not reject the caller's fixture state''
         @ remark (\<not> is_false enabled) ''command_envelope: dispatch_enabled was not false''
         @ remark open_gate ''command_envelope: the dispatch gate was not suspended''))))))))))"

definition gated_operations :: "(string \<times> string) list" where
  "gated_operations = [(''process'', ''process.spawn''), (''credential'', ''credential.read''), (''update'', ''update.apply'')]"

definition gate_errors :: "string \<Rightarrow> json \<Rightarrow> exn + msg list" where
  "gate_errors target response =
     bindE (jitem response ''status'') (\<lambda>status.
     bindE (jitem response ''body'') (\<lambda>body.
     bindE (jitem body ''execution_gate'') (\<lambda>gated.
     bindE (jitem gated ''target_kind'') (\<lambda>kind.
     bindE (jitem gated target) (\<lambda>target_gate.
     bindE (jitem body ''dispatch_enabled'') (\<lambda>enabled.
       Inr (flag (\<not> py_eq status (js ''suspended'')) (Msg ''command_envelope {}: the response was not suspended'' [js target])
         @ flag (\<not> py_eq kind (js target)) (Msg ''command_envelope {}: target_kind differs {}'' [js target, kind])
         @ flag (\<not> py_eq target_gate (js ''suspended''))
             (Msg ''command_envelope {}: the target gate was not suspended'' [js target])
         @ flag (\<not> is_false enabled) (Msg ''command_envelope {}: dispatch_enabled was not false'' [js target]))))))))"

definition compare_gate :: "network \<Rightarrow> (nat \<Rightarrow> ustr) \<Rightarrow> json \<Rightarrow> string \<times> string \<Rightarrow> msg list session" where
  "compare_gate net clock state_json g =
     bindS (broker_request net clock ''command_envelope''
              (evaluate_request state_json
                 (dset (dset base_action ''operation'' (js (snd g))) ''capability_id'' (js (snd g))))) (\<lambda>response.
       liftS (gate_errors (fst g) response))"

definition compare_policy ::
  "ucd \<Rightarrow> catalog \<Rightarrow> network \<Rightarrow> (nat \<Rightarrow> ustr) \<Rightarrow> runtime_state \<Rightarrow> json \<Rightarrow> msg list session" where
  "compare_policy U C net clock S state_json =
     bindS (concatS (compare_case U C net clock S state_json) policy_cases) (\<lambda>e1.
     bindS (concatS (compare_source U C net clock S state_json) (sort NON_AUTHORITY_SOURCES)) (\<lambda>e2.
     bindS (broker_request net clock ''command_envelope'' (evaluate_request state_json base_action)) (\<lambda>response.
     bindS (liftS (envelope_errors response)) (\<lambda>e3.
     bindS (concatS (compare_gate net clock state_json) gated_operations) (\<lambda>e4.
       retS (e1 @ e2 @ e3 @ e4))))))"

subsection \<open>compare_normalization\<close>

text \<open>The second payload has a zero-width space inside its first key.\<close>

definition normalization_cases :: "obj list" where
  "normalization_cases =
     [[(u ''safeLabel'', js ''operator''), (u ''nested'', JObj [(u ''path'', js ''notes/today.md'')])],
      [(u ''trust'' @ 0x200B # u ''Level'', js ''root''), (u ''nested'', JObj [(u ''permissionGrant'', js ''all'')])],
      [(u ''safeLabel'', js ''first''), (u ''safe_label'', js ''second'')]]"

definition json_length :: "json \<Rightarrow> exn + nat" where
  "json_length v = bindE (iter_values v) (\<lambda>xs. Inr (length xs))"

definition count_differs :: "obj \<Rightarrow> json \<Rightarrow> string \<Rightarrow> msg \<Rightarrow> exn + msg list" where
  "count_differs python rust key message =
     bindE (bindE (ditem python key) json_length) (\<lambda>n.
     bindE (bindE (jitem rust key) json_length) (\<lambda>m. Inr (flag (n \<noteq> m) message)))"

definition value_differs :: "obj \<Rightarrow> json \<Rightarrow> msg \<Rightarrow> string \<Rightarrow> exn + msg list" where
  "value_differs python rust message key =
     bindE (ditem python key) (\<lambda>v. bindE (jitem rust key) (\<lambda>w. Inr (flag (\<not> py_eq v w) message)))"

definition normalization_errors :: "nat \<Rightarrow> obj \<Rightarrow> json \<Rightarrow> exn + msg list" where
  "normalization_errors index python rust =
     (let says = (\<lambda>what. Msg what [JInt (int index)]) in
      bindE (value_differs python rust (says ''normalization {}: quarantined differs'') ''quarantined'') (\<lambda>e1.
      bindE (value_differs python rust (says ''normalization {}: stripped_payload differs'') ''stripped_payload'') (\<lambda>e2.
      bindE (count_differs python rust ''authority_key_findings'' (says ''normalization {}: authority key count differs''))
        (\<lambda>e3.
      bindE (count_differs python rust ''authority_value_findings''
               (says ''normalization {}: authority value count differs'')) (\<lambda>e4.
      bindE (count_differs python rust ''normalization_collision_findings''
               (says ''normalization {}: collision count differs'')) (\<lambda>e5.
        Inr (e1 @ e2 @ e3 @ e4 @ e5)))))))"

definition compare_payload :: "ucd \<Rightarrow> network \<Rightarrow> (nat \<Rightarrow> ustr) \<Rightarrow> nat \<times> obj \<Rightarrow> msg list session" where
  "compare_payload U net clock c =
     bindS (broker_call net clock ''normalize_payload'' (JObj (snd c))) (\<lambda>rust.
       liftS (normalization_errors (fst c) (normalize_inbound_payload U (snd c)) rust))"

definition compare_normalization :: "ucd \<Rightarrow> network \<Rightarrow> (nat \<Rightarrow> ustr) \<Rightarrow> msg list session" where
  "compare_normalization U net clock = concatS (compare_payload U net clock) (enumerate 0 normalization_cases)"

subsection \<open>compare_approval_edit_and_projection\<close>

definition edit_approval :: obj where
  "edit_approval =
     [(u ''approval_id'', js ''approval-1''), (u ''runtime_id'', js ''runtime-1''),
      (u ''permission_id'', js ''permission-1''), (u ''status'', js ''pending''),
      (u ''content_visibility'', js ''redacted''), (u ''payload_hash'', JStr (canonical_hash parity_payload)),
      (u ''summary'', js ''Write a note''),
      (u ''redacted_payload'', JObj [(u ''path'', js ''notes/today.md''), (u ''content'', js ''[redacted]'')]),
      (u ''full_payload'', parity_payload), (u ''editable_fields'', JArr [js ''path'', js ''payload_hash'']),
      (u ''authority_fields'', JArr [js ''permission_id''])]"

definition edit_request :: "string \<Rightarrow> json \<Rightarrow> json" where
  "edit_request field v = JObj [(u ''approval'', JObj edit_approval), (u ''field'', js field), (u ''value'', v)]"

definition zero_tag :: json where
  "zero_tag = JStr (u ''sha256:'' @ replicate 64 48)"

text \<open>\<open>ShellCoreError.to_dict\<close>, with the text of its messages from \<open>show\<close>, and a projection as the dictionary
  the source returns\<close>

definition error_dict :: "(msg \<Rightarrow> ustr) \<Rightarrow> shell_core_error \<Rightarrow> json" where
  "error_dict show_msg e =
     JObj ([(u ''code'', JStr (err_code e)), (u ''message'', JStr (show_msg (err_message e))),
            (u ''operation'', err_operation e), (u ''recoverable'', JBool (err_recoverable e))]
           @ (case err_recovery_hint e of None \<Rightarrow> [] | Some h \<Rightarrow> [(u ''recovery_hint'', JStr (show_msg h))]))"

fun projection_dict :: "(msg \<Rightarrow> ustr) \<Rightarrow> projection \<Rightarrow> json" where
  "projection_dict show_msg (Content d) = JObj d"
| "projection_dict show_msg (Violation e) = JObj [(u ''error'', error_dict show_msg e)]"

definition edit_errors :: "obj \<Rightarrow> json \<Rightarrow> exn + msg list" where
  "edit_errors python_edit rust_edit =
     bindE (jget rust_edit ''ok'') (\<lambda>ok.
     bindE (if \<not> is_true ok then Inr True
            else bindE (jitem rust_edit ''approval'') (\<lambda>approval.
                 bindE (jitem approval ''payload_hash'') (\<lambda>h.
                 bindE (ditem python_edit ''payload_hash'') (\<lambda>h'. Inr (\<not> py_eq h h'))))) (\<lambda>differs.
       Inr (remark differs ''approval_edit: the hash of an allowed edit differs'')))"

definition protected_errors :: "json \<Rightarrow> exn + msg list" where
  "protected_errors answer =
     bindE (jget answer ''ok'') (\<lambda>ok.
       Inr (remark (\<not> is_false ok) ''approval_edit: the edit of the protected payload_hash was not refused''))"

definition compare_projection ::
  "(msg \<Rightarrow> ustr) \<Rightarrow> network \<Rightarrow> (nat \<Rightarrow> ustr) \<Rightarrow> string \<Rightarrow> msg list session" where
  "compare_projection show_msg net clock visibility =
     (let approval = dset edit_approval ''content_visibility'' (js visibility) in
      bindS (liftS (project_approval_content approval)) (\<lambda>python.
      bindS (broker_call net clock ''content_projection'' (JObj approval)) (\<lambda>rust.
        retS (flag (\<not> py_eq (projection_dict show_msg python) rust)
                (Msg ''content_projection {}: differs'' [js visibility])))))"

definition VISIBILITIES :: "string list" where
  "VISIBILITIES = [''none'', ''hash_only'', ''summary'', ''redacted'', ''full'']"

definition compare_approval_edit_and_projection ::
  "(msg \<Rightarrow> ustr) \<Rightarrow> network \<Rightarrow> (nat \<Rightarrow> ustr) \<Rightarrow> msg list session" where
  "compare_approval_edit_and_projection show_msg net clock =
     bindS (liftS (ApprovalQueue_enqueue [] edit_approval)) (\<lambda>queue.
     bindS (liftS (ApprovalQueue_edit queue (js ''approval-1'') (u ''path'') (js ''notes/tomorrow.md''))) (\<lambda>(_, python_edit).
     bindS (broker_call net clock ''approval_edit'' (edit_request ''path'' (js ''notes/tomorrow.md''))) (\<lambda>rust_edit.
     bindS (liftS (edit_errors python_edit rust_edit)) (\<lambda>e1.
     bindS (broker_call net clock ''approval_edit'' (edit_request ''payload_hash'' zero_tag)) (\<lambda>protected.
     bindS (liftS (protected_errors protected)) (\<lambda>e2.
     bindS (concatS (compare_projection show_msg net clock) VISIBILITIES) (\<lambda>e3.
       retS (e1 @ e2 @ e3))))))))"

subsection \<open>compare_audit_chain\<close>

definition chain_probe :: obj where
  "chain_probe =
     [(u ''event_id'', js ''audit-1''), (u ''timestamp'', js ''2026-06-03T00:00:00Z''), (u ''actor'', js ''shell''),
      (u ''action'', js ''approval.requested''), (u ''target'', js ''approval-1''), (u ''result'', js ''success''),
      (u ''payload_hash'', JStr (canonical_hash (JObj [(u ''approval_id'', js ''approval-1'')])))]"

definition first_link :: obj where
  "first_link = chain_event chain_probe JNull"

definition second_link :: obj where
  "second_link =
     chain_event (dset (dset chain_probe ''event_id'' (js ''audit-2'')) ''result'' (js ''denied''))
       (dget first_link ''event_hash'')"

definition tampered_link :: obj where
  "tampered_link = dset first_link ''result'' (js ''failed'')"

definition duplicate_link :: obj where
  "duplicate_link = chain_event (dset chain_probe ''target'' (js ''runtime'')) (dget first_link ''event_hash'')"

definition events_json :: "obj list \<Rightarrow> json" where
  "events_json events = JArr (map JObj events)"

definition report_dict :: "(msg \<Rightarrow> ustr) \<Rightarrow> audit_report \<Rightarrow> obj" where
  "report_dict show_msg r =
     [(u ''ok'', JBool (report_ok r)), (u ''event_count'', JInt (int (report_count r))),
      (u ''latest_event_hash'', report_latest r),
      (u ''errors'', JArr (map (\<lambda>e. JStr (show_msg e)) (report_errors r)))]"

definition compare_audit_chain :: "(msg \<Rightarrow> ustr) \<Rightarrow> network \<Rightarrow> (nat \<Rightarrow> ustr) \<Rightarrow> msg list session" where
  "compare_audit_chain show_msg net clock =
     bindS (liftS (verify_audit_chain [first_link, second_link])) (\<lambda>python.
     bindS (broker_call net clock ''audit_verify'' (events_json [first_link, second_link])) (\<lambda>rust.
     bindS (liftS (concatE (\<lambda>key. value_differs (report_dict show_msg python) rust
                              (Msg ''audit_verify: {} differs'' [js key]) key)
              [''ok'', ''event_count'', ''latest_event_hash'', ''errors''])) (\<lambda>e1.
     bindS (broker_call net clock ''audit_verify'' (events_json [tampered_link, second_link])) (\<lambda>tampered.
     bindS (liftS (jitem tampered ''ok'')) (\<lambda>ok.
     bindS (liftS (verify_audit_chain [first_link, duplicate_link])) (\<lambda>python_duplicate.
     bindS (broker_call net clock ''audit_verify'' (events_json [first_link, duplicate_link])) (\<lambda>rust_duplicate.
       retS (e1 @ remark (\<not> is_false ok) ''audit_verify: a tampered event was not refused''
             @ remark (\<not> py_eq (JObj (report_dict show_msg python_duplicate)) rust_duplicate)
                 ''audit_verify: the result for a duplicate event_id differs''))))))))"

subsection \<open>The run\<close>

text \<open>
  \<open>main\<close> once the broker is up: the four comparisons, then \<open>broker.shutdown()\<close> in a \<open>finally\<close> clause; the exit
  status is 1 when something differed. Waiting for the process and removing the directory follow below.
\<close>

definition parity_errors ::
  "ucd \<Rightarrow> catalog \<Rightarrow> (msg \<Rightarrow> ustr) \<Rightarrow> network \<Rightarrow> (nat \<Rightarrow> ustr) \<Rightarrow> runtime_state \<Rightarrow> json \<Rightarrow> msg list session" where
  "parity_errors U C show_msg net clock S state_json =
     bindS (compare_normalization U net clock) (\<lambda>e1.
     bindS (compare_policy U C net clock S state_json) (\<lambda>e2.
     bindS (compare_approval_edit_and_projection show_msg net clock) (\<lambda>e3.
     bindS (compare_audit_chain show_msg net clock) (\<lambda>e4. retS (e1 @ e2 @ e3 @ e4)))))"

definition parity_session ::
  "ucd \<Rightarrow> catalog \<Rightarrow> (msg \<Rightarrow> ustr) \<Rightarrow> network \<Rightarrow> (nat \<Rightarrow> ustr) \<Rightarrow> runtime_state \<Rightarrow> json \<Rightarrow> msg list session" where
  "parity_session U C show_msg net clock S state_json =
     finallyS (parity_errors U C show_msg net clock S state_json) (broker_shutdown clock)"

text \<open>
  How long the run waits for the broker. \<open>parse\<close> is \<open>float(text)\<close>, \<open>None\<close> for a \<open>ValueError\<close>; \<open>max(1.0, value)\<close>
  keeps its first argument unless the second is greater, so a NaN gives 1.
\<close>

datatype seconds = Finite_seconds rat | Infinite_seconds bool | Not_a_number

definition DEFAULT_BROKER_START_TIMEOUT_SECONDS :: seconds where
  "DEFAULT_BROKER_START_TIMEOUT_SECONDS = Finite_seconds 120"

fun max_one :: "seconds \<Rightarrow> seconds" where
  "max_one (Finite_seconds q) = Finite_seconds (if 1 < q then q else 1)"
| "max_one (Infinite_seconds positive) = (if positive then Infinite_seconds True else Finite_seconds 1)"
| "max_one Not_a_number = Finite_seconds 1"

definition broker_start_timeout_seconds :: "(ustr \<Rightarrow> seconds option) \<Rightarrow> ustr option \<Rightarrow> seconds" where
  "broker_start_timeout_seconds parse raw =
     (case Option.bind raw parse of
        None \<Rightarrow> DEFAULT_BROKER_START_TIMEOUT_SECONDS
      | Some value \<Rightarrow> max_one value)"

text \<open>The process ends by itself, or is killed and ends then, or \<open>wait\<close> raises a second time.\<close>

definition wait_for_process_exit :: "bool \<Rightarrow> bool \<Rightarrow> failure + unit" where
  "wait_for_process_exit exits dies = (if exits \<or> dies then Inr () else Inl Timeout_expired)"

text \<open>
  Starting the broker: each turn of the polling loop sees the session file (with its text), or the process
  ended, or nothing yet; the deadline is the end of the list, where the process is waited for. A session file
  that holds no object makes the first use of the endpoint raise, which is taken to be here.
\<close>

datatype poll = Session_file ustr | Ended int | Waiting

fun start_broker :: "bool \<Rightarrow> bool \<Rightarrow> poll list \<Rightarrow> failure + obj" where
  "start_broker exits dies [] =
     bindE (wait_for_process_exit exits dies)
       (\<lambda>_. Inl (AssertionError (Msg ''the broker session file was not created in time'' [])))"
| "start_broker exits dies (Session_file text # _) =
     (case py_loads text of
        Inr (JObj ep) \<Rightarrow> Inr ep
      | Inr _ \<Rightarrow> Inl (Raised TypeViolation)
      | Inl e \<Rightarrow> Inl (Raised e))"
| "start_broker exits dies (Ended code # _) =
     Inl (AssertionError (Msg ''the broker process ended early: {}'' [JInt code]))"
| "start_broker exits dies (Waiting # polls) = start_broker exits dies polls"

text \<open>Removing the directory: \<open>remove i\<close> is the outcome of attempt \<open>i\<close>.\<close>

datatype removal = Removed | Not_there | Not_removed

primrec cleanup_attempts :: "nat \<Rightarrow> nat \<Rightarrow> (nat \<Rightarrow> removal) \<Rightarrow> failure + unit" where
  "cleanup_attempts 0 i remove = Inl (AssertionError (Msg ''the temporary directory could not be removed'' []))"
| "cleanup_attempts (Suc n) i remove =
     (case remove i of Not_removed \<Rightarrow> cleanup_attempts n (Suc i) remove | _ \<Rightarrow> Inr ())"

definition cleanup_temp_directory :: "(nat \<Rightarrow> removal) \<Rightarrow> failure + unit" where
  "cleanup_temp_directory remove = cleanup_attempts 25 0 remove"

definition finallyE :: "failure + 'a \<Rightarrow> failure + unit \<Rightarrow> failure + 'a" where
  "finallyE r cleanup = bindE cleanup (\<lambda>_. r)"

definition new_client :: "obj \<Rightarrow> client" where
  "new_client ep = \<lparr>endpoint = ep, counter = 0, wire = []\<rparr>"

record machine =
  polls :: "poll list"
  exits :: bool
  dies :: bool
  removals :: "nat \<Rightarrow> removal"

definition parity_main ::
  "ucd \<Rightarrow> catalog \<Rightarrow> (msg \<Rightarrow> ustr) \<Rightarrow> network \<Rightarrow> (nat \<Rightarrow> ustr) \<Rightarrow> machine
     \<Rightarrow> (failure + int) \<times> (obj \<times> json option) list" where
  "parity_main U C show_msg net clock m =
     (case build_parity_state C of
        Inl e \<Rightarrow> (Inl (Raised e), [])
      | Inr (S, state_json) \<Rightarrow>
          (case start_broker (exits m) (dies m) (polls m) of
             Inl f \<Rightarrow> (finallyE (Inl f) (cleanup_temp_directory (removals m)), [])
           | Inr ep \<Rightarrow>
               (case parity_session U C show_msg net clock S state_json (new_client ep) of
                  (r, c) \<Rightarrow>
                    (finallyE
                       (bindE (finallyE r (wait_for_process_exit (exits m) (dies m)))
                          (\<lambda>errors. Inr (if errors = [] then 0 else 1)))
                       (cleanup_temp_directory (removals m)), wire c))))"

subsection \<open>Sessions\<close>

lemma bindS_eq_Inr: "bindS f g c = (Inr y, c') \<longleftrightarrow> (\<exists>x c1. f c = (Inr x, c1) \<and> g x c1 = (Inr y, c'))"
  by (auto simp: bindS_def split: prod.splits sum.splits)

lemma liftS_eq_Inr: "liftS m c = (Inr x, c') \<longleftrightarrow> m = Inr x \<and> c' = c"
  by (cases m) (auto simp: liftS_def)

lemma retS_eq_Inr: "retS x c = (Inr y, c') \<longleftrightarrow> y = x \<and> c' = c"
  by (auto simp: retS_def)

lemma raiseS_eq_Inr: "raiseS e c = (Inr y, c') \<longleftrightarrow> False"
  by (simp add: raiseS_def)

lemmas session_Inr = bindS_eq_Inr liftS_eq_Inr retS_eq_Inr raiseS_eq_Inr

lemma bindS_Inr: "f c = (Inr x, c1) \<Longrightarrow> bindS f g c = g x c1"
  by (simp add: bindS_def)

lemma liftS_Inr: "m = Inr x \<Longrightarrow> liftS m c = (Inr x, c)"
  by (simp add: liftS_def)

text \<open>\<open>keeps I f\<close>: the session leaves the invariant \<open>I\<close> of the client alone, whatever its outcome.\<close>

definition keeps :: "(client \<Rightarrow> bool) \<Rightarrow> 'a session \<Rightarrow> bool" where
  "keeps I f \<longleftrightarrow> (\<forall>c. I c \<longrightarrow> I (snd (f c)))"

named_theorems keeping "sessions that keep an invariant"

lemma keeps_ret [keeping]: "keeps I (retS x)"
  by (simp add: keeps_def retS_def)

lemma keeps_raise [keeping]: "keeps I (raiseS e)"
  by (simp add: keeps_def raiseS_def)

lemma keeps_lift [keeping]: "keeps I (liftS m)"
  by (simp add: keeps_def liftS_def)

lemma keeps_bind [keeping]: "keeps I f \<Longrightarrow> (\<And>x. keeps I (g x)) \<Longrightarrow> keeps I (bindS f g)"
  unfolding keeps_def bindS_def by (fastforce split: prod.splits sum.splits)

lemma keeps_concat [keeping]: "(\<And>x. keeps I (f x)) \<Longrightarrow> keeps I (concatS f xs)"
  by (induction xs) (auto intro!: keeping)

lemma keeps_finally: "keeps I f \<Longrightarrow> keeps I g \<Longrightarrow> keeps I (finallyS f g)"
  unfolding keeps_def finallyS_def by (fastforce split: prod.splits sum.splits)

lemma keepsD: "keeps I f \<Longrightarrow> f c = (r, c') \<Longrightarrow> I c \<Longrightarrow> I c'"
  unfolding keeps_def by (metis snd_conv)

lemma growsD: "f c = (r, c') \<Longrightarrow> keeps (\<lambda>d. prefix (wire c) (wire d)) f \<Longrightarrow> prefix (wire c) (wire c')"
  using keepsD [of "\<lambda>d. prefix (wire c) (wire d)"] by blast

text \<open>
  The contract of a client invariant: a request and the shutdown keep it. Then every part of the run does.
\<close>

locale client_invariant =
  fixes net :: network and clock :: "nat \<Rightarrow> ustr" and I :: "client \<Rightarrow> bool"
  assumes request_keeps: "I c \<Longrightarrow> I (snd (broker_request net clock operation payload c))"
    and shutdown_keeps: "I c \<Longrightarrow> I (snd (broker_shutdown clock c))"
begin

lemma keeps_request [keeping]: "keeps I (broker_request net clock operation payload)"
  by (simp add: keeps_def request_keeps)

lemma keeps_call [keeping]: "keeps I (broker_call net clock operation payload)"
  unfolding broker_call_def by (intro keeping) (auto intro: keeping)

lemma keeps_case [keeping]: "keeps I (compare_case U C net clock S state_json x)"
  unfolding compare_case_def by (intro keeping)

lemma keeps_source [keeping]: "keeps I (compare_source U C net clock S state_json x)"
  unfolding compare_source_def by (intro keeping)

lemma keeps_gate [keeping]: "keeps I (compare_gate net clock state_json x)"
  unfolding compare_gate_def by (intro keeping)

lemma keeps_policy [keeping]: "keeps I (compare_policy U C net clock S state_json)"
  unfolding compare_policy_def by (intro keeping)

lemma keeps_normalization [keeping]: "keeps I (compare_normalization U net clock)"
  unfolding compare_normalization_def compare_payload_def by (intro keeping)

lemma keeps_projection [keeping]: "keeps I (compare_projection show_msg net clock x)"
  unfolding compare_projection_def Let_def by (intro keeping)

lemma keeps_edit [keeping]: "keeps I (compare_approval_edit_and_projection show_msg net clock)"
  unfolding compare_approval_edit_and_projection_def by (intro keeping) (auto intro!: keeping split: prod.splits)

lemma keeps_chain [keeping]: "keeps I (compare_audit_chain show_msg net clock)"
  unfolding compare_audit_chain_def by (intro keeping)

lemma keeps_shutdown: "keeps I (broker_shutdown clock)"
  by (simp add: keeps_def shutdown_keeps)

lemma keeps_errors: "keeps I (parity_errors U C show_msg net clock S state_json)"
  unfolding parity_errors_def by (intro keeping)

lemma keeps_session: "keeps I (parity_session U C show_msg net clock S state_json)"
  unfolding parity_session_def by (intro keeps_finally keeps_errors keeps_shutdown)

end

subsection \<open>The wire only grows\<close>

lemma request_cases:
  "broker_request net clock operation payload c =
     (case build_request clock ''parity-'' operation payload (c\<lparr>counter := Suc (counter c)\<rparr>) of
        Inl e \<Rightarrow> (Inl (Raised e), c\<lparr>counter := Suc (counter c)\<rparr>)
      | Inr request \<Rightarrow> transmit net request (c\<lparr>counter := Suc (counter c)\<rparr>))"
  by (simp add: broker_request_def bindS_def next_request_def liftS_def split: sum.splits)

lemma shutdown_cases:
  "snd (broker_shutdown clock c) =
     (case build_request clock ''parity-shutdown-'' ''shutdown'' JNull (c\<lparr>counter := Suc (counter c)\<rparr>) of
        Inl e \<Rightarrow> c\<lparr>counter := Suc (counter c)\<rparr>
      | Inr request \<Rightarrow>
          (case connection (endpoint c) of
             Inl e \<Rightarrow> c\<lparr>counter := Suc (counter c)\<rparr>
           | Inr _ \<Rightarrow> put_on_wire request None (c\<lparr>counter := Suc (counter c)\<rparr>)))"
  by (simp add: broker_shutdown_def bindS_def next_request_def liftS_def split: sum.splits)

lemma transmit_cases:
  "snd (transmit net request c) = c \<or> (\<exists>answer. snd (transmit net request c) = put_on_wire request answer c)"
  by (auto simp: transmit_def split: sum.splits)

interpretation wire_growth: client_invariant net clock "\<lambda>c. prefix w (wire c)" for net clock w
proof unfold_locales
  fix operation payload and c :: client
  assume "prefix w (wire c)"
  then show "prefix w (wire (snd (broker_request net clock operation payload c)))"
    using transmit_cases [of net _ "c\<lparr>counter := Suc (counter c)\<rparr>"]
    by (auto simp: request_cases put_on_wire_def split: sum.splits)
      (metis (no_types, lifting) client.select_convs(3) client.surjective client.update_convs(2,3) prefix_prefix)+
next
  fix c :: client
  assume "prefix w (wire c)"
  then show "prefix w (wire (snd (broker_shutdown clock c)))"
    by (auto simp: shutdown_cases put_on_wire_def split: sum.splits)
qed

subsection \<open>Every request is fresh\<close>

definition request_ok :: "nat \<Rightarrow> obj \<Rightarrow> bool" where
  "request_ok n request \<longleftrightarrow>
     (\<exists>k \<le> n. \<exists>pre \<in> {''parity-'', ''parity-shutdown-''}.
        dget request ''request_id'' = JStr (u pre @ dec_nat k)
        \<and> dget request ''nonce'' = JStr (u pre @ u ''nonce-'' @ dec_nat k))
     \<and> (\<exists>h. ipc_payload_hash (dget request ''payload'') = Inr h \<and> dget request ''payload_hash'' = JStr h)"

definition sent_fresh :: "client \<Rightarrow> bool" where
  "sent_fresh c \<longleftrightarrow>
     distinct (map (\<lambda>(r, _). dget r ''nonce'') (wire c)) \<and> (\<forall>(r, _) \<in> set (wire c). request_ok (counter c) r)"

lemma dec_nat_inj: "dec_nat m = dec_nat n \<longleftrightarrow> m = n"
  by (metis digits_value_dec_nat)

lemma prefixes_apart:
  "pre \<in> {''parity-'', ''parity-shutdown-''} \<Longrightarrow> pre' \<in> {''parity-'', ''parity-shutdown-''}
     \<Longrightarrow> u pre @ u ''nonce-'' @ x = u pre' @ u ''nonce-'' @ y \<longleftrightarrow> pre = pre' \<and> x = y"
  by (auto simp: u_def)

lemma built_request:
  assumes "build_request clock pre operation payload c = Inr request"
  shows "dget request ''request_id'' = JStr (u pre @ dec_nat (counter c))"
    and "dget request ''nonce'' = JStr (u pre @ u ''nonce-'' @ dec_nat (counter c))"
    and "dget request ''operation'' = js operation" and "dget request ''payload'' = payload"
    and "\<exists>h. ipc_payload_hash payload = Inr h \<and> dget request ''payload_hash'' = JStr h"
  using assms by (auto simp: build_request_def res_simps Let_def dget_def dget_or_def)

lemma built_request_ok:
  "build_request clock pre operation payload c = Inr request \<Longrightarrow> pre \<in> {''parity-'', ''parity-shutdown-''}
     \<Longrightarrow> request_ok (counter c) request"
  unfolding request_ok_def using built_request [of clock pre operation payload c request] by blast

lemma request_ok_mono: "request_ok m r \<Longrightarrow> m \<le> n \<Longrightarrow> request_ok n r"
  unfolding request_ok_def using le_trans by blast

lemma fresh_counted: "sent_fresh c \<Longrightarrow> sent_fresh (c\<lparr>counter := Suc (counter c)\<rparr>)"
  by (auto simp: sent_fresh_def intro: request_ok_mono)

lemma old_nonce:
  assumes "request_ok n r" and "pre \<in> {''parity-'', ''parity-shutdown-''}"
  shows "dget r ''nonce'' \<noteq> JStr (u pre @ u ''nonce-'' @ dec_nat (Suc n))"
proof -
  from assms(1) obtain k pre' where "k \<le> n" "pre' \<in> {''parity-'', ''parity-shutdown-''}"
    "dget r ''nonce'' = JStr (u pre' @ u ''nonce-'' @ dec_nat k)"
    unfolding request_ok_def by blast
  with assms(2) show ?thesis by (auto simp: prefixes_apart dec_nat_inj)
qed

lemma fresh_sent:
  assumes "sent_fresh c" and "pre \<in> {''parity-'', ''parity-shutdown-''}"
    and "build_request clock pre operation payload (c\<lparr>counter := Suc (counter c)\<rparr>) = Inr request"
  shows "sent_fresh (put_on_wire request answer (c\<lparr>counter := Suc (counter c)\<rparr>))"
proof -
  have "dget request ''nonce'' \<notin> (\<lambda>(r, _). dget r ''nonce'') ` set (wire c)"
    using assms(1) built_request(2) [OF assms(3)] old_nonce [OF _ assms(2)]
    by (fastforce simp: sent_fresh_def)
  moreover have "request_ok (Suc (counter c)) request"
    using built_request_ok [OF assms(3,2)] by simp
  ultimately show ?thesis
    using fresh_counted [OF assms(1)] by (auto simp: sent_fresh_def put_on_wire_def)
qed

interpretation fresh_requests: client_invariant net clock sent_fresh for net clock
proof unfold_locales
  fix operation payload and c :: client
  assume c: "sent_fresh c"
  let ?c = "c\<lparr>counter := Suc (counter c)\<rparr>"
  show "sent_fresh (snd (broker_request net clock operation payload c))"
  proof (cases "build_request clock ''parity-'' operation payload ?c")
    case (Inr request)
    then show ?thesis
      using transmit_cases [of net request ?c] fresh_counted [OF c] fresh_sent [OF c _ Inr]
      by (auto simp: request_cases)
  qed (simp add: request_cases fresh_counted [OF c])
next
  fix c :: client
  assume c: "sent_fresh c"
  show "sent_fresh (snd (broker_shutdown clock c))"
    using fresh_counted [OF c] fresh_sent [OF c, of "''parity-shutdown-''"]
    by (auto simp: shutdown_cases split: sum.splits)
qed

text \<open>
  C18. Whatever the broker answers and wherever the run stops, no nonce is used twice, and every request carries the
  hash of its own payload.
\<close>

theorem parity_requests_fresh:
  "distinct (map (\<lambda>(r, _). dget r ''nonce'') (snd (parity_main U C show_msg net clock m)))
   \<and> list_all (\<lambda>(r, _). \<exists>h. ipc_payload_hash (dget r ''payload'') = Inr h \<and> dget r ''payload_hash'' = JStr h)
        (snd (parity_main U C show_msg net clock m))"
proof -
  have fresh: "sent_fresh (snd (parity_session U C show_msg net clock S sj (new_client ep)))" for S sj ep
    using fresh_requests.keeps_session [of U C show_msg net clock S sj]
    by (simp add: keeps_def) (simp add: sent_fresh_def new_client_def)
  have "snd (parity_main U C show_msg net clock m) = []
    \<or> (\<exists>S sj ep. snd (parity_main U C show_msg net clock m)
          = wire (snd (parity_session U C show_msg net clock S sj (new_client ep))))"
    by (simp add: parity_main_def split: sum.split prod.split) (metis snd_conv)
  then show ?thesis
  proof
    assume "\<exists>S sj ep. snd (parity_main U C show_msg net clock m)
          = wire (snd (parity_session U C show_msg net clock S sj (new_client ep)))"
    then obtain S sj ep where w: "snd (parity_main U C show_msg net clock m)
          = wire (snd (parity_session U C show_msg net clock S sj (new_client ep)))" by blast
    show ?thesis using fresh [of S sj ep] unfolding w sent_fresh_def request_ok_def list_all_iff by fastforce
  qed simp
qed

subsection \<open>The run is bounded\<close>

text \<open>\<open>sends n f\<close>: the session puts at most \<open>n\<close> requests on the wire, whatever is answered.\<close>

definition sends :: "nat \<Rightarrow> 'a session \<Rightarrow> bool" where
  "sends n f \<longleftrightarrow> (\<forall>c. length (wire (snd (f c))) \<le> length (wire c) + n)"

named_theorems sending "how many requests a session sends"

lemma sends_ret [sending]: "sends 0 (retS x)" and sends_raise [sending]: "sends 0 (raiseS e)"
  and sends_lift [sending]: "sends 0 (liftS r)"
  by (simp_all add: sends_def retS_def raiseS_def liftS_def)

lemma sends_bind [sending]: "sends m f \<Longrightarrow> (\<And>x. sends n (g x)) \<Longrightarrow> sends (m + n) (bindS f g)"
  unfolding sends_def
proof
  fix c
  assume f: "\<forall>c. length (wire (snd (f c))) \<le> length (wire c) + m"
    and g: "\<And>x. \<forall>c. length (wire (snd (g x c))) \<le> length (wire c) + n"
  obtain r c1 where c1: "f c = (r, c1)" by fastforce
  with f have le: "length (wire c1) \<le> length (wire c) + m" by (metis snd_conv)
  show "length (wire (snd (bindS f g c))) \<le> length (wire c) + (m + n)"
  proof (cases r)
    case (Inr x)
    have "length (wire (snd (g x c1))) \<le> length (wire c1) + n" using g by blast
    with le Inr c1 show ?thesis by (simp add: bindS_def)
  qed (use c1 le in \<open>simp add: bindS_def\<close>)
qed

lemma sends_concat [sending]: "(\<And>x. sends n (f x)) \<Longrightarrow> sends (length xs * n) (concatS f xs)"
proof (induction xs)
  case Nil
  show ?case by (simp add: sends_ret)
next
  case (Cons x xs)
  from Cons.prems have "sends (n + (length xs * n + 0)) (concatS f (x # xs))"
    unfolding concatS.simps by (intro sending Cons.IH)
  then show ?case by simp
qed

lemma sends_finally [sending]: "sends m f \<Longrightarrow> sends n g \<Longrightarrow> sends (m + n) (finallyS f g)"
  unfolding sends_def
proof
  fix c
  assume f: "\<forall>c. length (wire (snd (f c))) \<le> length (wire c) + m"
    and g: "\<forall>c. length (wire (snd (g c))) \<le> length (wire c) + n"
  obtain r c1 where c1: "f c = (r, c1)" by fastforce
  obtain q c2 where c2: "g c1 = (q, c2)" by fastforce
  from f c1 g c2 have "length (wire c1) \<le> length (wire c) + m" "length (wire c2) \<le> length (wire c1) + n"
    by (metis snd_conv)+
  with c1 c2 show "length (wire (snd (finallyS f g c))) \<le> length (wire c) + (m + n)"
    by (cases q) (simp_all add: finallyS_def)
qed

lemma sends_request [sending]: "sends 1 (broker_request net clock operation payload)"
  unfolding sends_def
proof
  fix c
  show "length (wire (snd (broker_request net clock operation payload c))) \<le> length (wire c) + 1"
    using transmit_cases [of net _ "c\<lparr>counter := Suc (counter c)\<rparr>"]
    by (auto simp: request_cases put_on_wire_def split: sum.splits)
      (metis (no_types, lifting) client.select_convs(3) client.surjective client.update_convs(2,3)
        length_append_singleton le_SucI le_refl)
qed

lemma sends_shutdown [sending]: "sends 1 (broker_shutdown clock)"
  by (auto simp: sends_def shutdown_cases put_on_wire_def split: sum.splits)

lemma sends_le: "sends m f \<Longrightarrow> m \<le> n \<Longrightarrow> sends n f"
  unfolding sends_def by (meson add_left_mono le_trans)

lemma sends_if [sending]: "sends m f \<Longrightarrow> sends n g \<Longrightarrow> sends (max m n) (if b then f else g)"
  by (auto intro: sends_le)

lemma sends_prod [sending]: "(\<And>a b. sends n (f a b)) \<Longrightarrow> sends n (case x of (a, b) \<Rightarrow> f a b)"
  by (cases x) simp

lemma sends_call [sending]: "sends 1 (broker_call net clock operation payload)"
  unfolding broker_call_def by (rule sends_le, (rule sending)+) simp

lemma sends_case [sending]: "sends 1 (compare_case U C net clock S state_json x)"
  unfolding compare_case_def by (rule sends_le, (rule sending)+) simp

lemma sends_source [sending]: "sends 1 (compare_source U C net clock S state_json x)"
  unfolding compare_source_def by (rule sends_le, (rule sending)+) simp

lemma sends_gate [sending]: "sends 1 (compare_gate net clock state_json x)"
  unfolding compare_gate_def by (rule sends_le, (rule sending)+) simp

lemma sends_policy [sending]: "sends 24 (compare_policy U C net clock S state_json)"
  unfolding compare_policy_def
  by (rule sends_le, (rule sending)+) (simp add: policy_cases_def NON_AUTHORITY_SOURCES_def gated_operations_def)

lemma sends_normalization [sending]: "sends 3 (compare_normalization U net clock)"
  unfolding compare_normalization_def compare_payload_def
  by (rule sends_le, (rule sending)+) (simp add: normalization_cases_def)

lemma sends_projection [sending]: "sends 1 (compare_projection show_msg net clock x)"
  unfolding compare_projection_def Let_def by (rule sends_le, (rule sending)+) simp

lemma sends_edit [sending]: "sends 7 (compare_approval_edit_and_projection show_msg net clock)"
  unfolding compare_approval_edit_and_projection_def
  by (rule sends_le, (rule sending)+) (simp add: VISIBILITIES_def)

lemma sends_chain [sending]: "sends 3 (compare_audit_chain show_msg net clock)"
  unfolding compare_audit_chain_def by (rule sends_le, (rule sending)+) simp

lemma sends_session: "sends 38 (parity_session U C show_msg net clock S state_json)"
  unfolding parity_session_def parity_errors_def by (rule sends_le, (rule sending)+) simp

text \<open>
  C19. Whatever the broker answers, the run ends with at most 38 requests on the wire: three payloads to normalise,
  the policy cases, the sources without authority, four command envelopes, seven approvals, three chains and the
  shutdown. And it waits at least a second for the broker; it waits for ever only when it was told to.
\<close>

theorem parity_run_bounded:
  "length (snd (parity_main U C show_msg net clock m)) \<le> 38
   \<and> (case broker_start_timeout_seconds parse raw of
        Finite_seconds q \<Rightarrow> 1 \<le> q
      | Infinite_seconds positive \<Rightarrow> positive \<and> Option.bind raw parse = Some (Infinite_seconds True)
      | Not_a_number \<Rightarrow> False)"
proof
  show "length (snd (parity_main U C show_msg net clock m)) \<le> 38"
  proof -
    have "length (wire (snd (parity_session U C show_msg net clock S sj (new_client ep)))) \<le> 38" for S sj ep
      using sends_session [of U C show_msg net clock S sj, unfolded sends_def, rule_format, of "new_client ep"]
      by (simp add: new_client_def)
    then show ?thesis
      by (auto simp: parity_main_def split: sum.split prod.split) (metis snd_conv)
  qed
  show "case broker_start_timeout_seconds parse raw of
        Finite_seconds q \<Rightarrow> 1 \<le> q
      | Infinite_seconds positive \<Rightarrow> positive \<and> Option.bind raw parse = Some (Infinite_seconds True)
      | Not_a_number \<Rightarrow> False"
    by (cases "Option.bind raw parse" rule: option.exhaust)
      (auto simp: broker_start_timeout_seconds_def DEFAULT_BROKER_START_TIMEOUT_SECONDS_def
        elim!: max_one.elims split: seconds.splits if_splits)
qed

subsection \<open>What was answered\<close>

definition answered :: "(obj \<times> json option) list \<Rightarrow> string \<Rightarrow> json \<Rightarrow> json \<Rightarrow> bool" where
  "answered w operation payload body \<longleftrightarrow>
     (\<exists>request answer status. (request, Some answer) \<in> set w \<and> dget request ''operation'' = js operation
        \<and> dget request ''payload'' = payload
        \<and> jitem answer ''status'' = Inr status \<and> py_eq status (js ''accepted'') \<and> jitem answer ''body'' = Inr body)"

lemma answered_prefix: "answered w operation payload body \<Longrightarrow> prefix w w' \<Longrightarrow> answered w' operation payload body"
  unfolding answered_def using set_mono_prefix by blast

lemma call_answered:
  assumes "broker_call net clock operation payload c = (Inr body, c')"
  shows "answered (wire c') operation payload body"
proof -
  from assms obtain answer status c1 where a: "broker_request net clock operation payload c = (Inr answer, c1)"
    "jitem answer ''status'' = Inr status" "py_eq status (js ''accepted'')" "jitem answer ''body'' = Inr body" "c' = c1"
    by (auto simp: broker_call_def session_Inr split: if_splits)
  let ?c = "c\<lparr>counter := Suc (counter c)\<rparr>"
  from a(1) obtain request where r: "build_request clock ''parity-'' operation payload ?c = Inr request"
    "transmit net request ?c = (Inr answer, c1)"
    by (auto simp: request_cases split: sum.splits)
  then have "(request, Some answer) \<in> set (wire c1)"
    by (auto simp: transmit_def put_on_wire_def split: sum.splits)
  with a built_request(3,4) [OF r(1)] show ?thesis unfolding answered_def by blast
qed

lemma concatS_Nil:
  assumes "concatS f xs c = (Inr [], c')" "x \<in> set xs" "\<And>x. \<forall>w. keeps (\<lambda>c. prefix w (wire c)) (f x)"
  shows "\<exists>c1 c2. f x c1 = (Inr [], c2) \<and> prefix (wire c2) (wire c')"
  using assms(1,2)
proof (induction xs arbitrary: c)
  case (Cons y xs)
  then obtain c1 where y: "f y c = (Inr [], c1)" and rest: "concatS f xs c1 = (Inr [], c')"
    by (auto simp: session_Inr)
  have "keeps (\<lambda>c. prefix (wire c1) (wire c)) (concatS f xs)"
    using assms(3) by (auto intro: keeps_concat)
  from keepsD [OF this rest] have "prefix (wire c1) (wire c')" by simp
  with y Cons.IH [OF rest] Cons.prems(2) show ?case by auto
qed simp

subsection \<open>What a passing run says of the broker\<close>

definition agrees :: "policy_result \<Rightarrow> json \<Rightarrow> bool" where
  "agrees r body \<longleftrightarrow>
     (\<exists>v codes. jitem body ''allowed'' = Inr v \<and> py_eq (JBool (allowed r)) v
        \<and> error_codes body = Inr codes \<and> py_eq (JArr (policy_codes r)) (JArr codes))"

definition parity_actions :: "obj list" where
  "parity_actions = map snd policy_cases @ map source_action (sort NON_AUTHORITY_SOURCES)"

definition evaluated_alike ::
  "ucd \<Rightarrow> catalog \<Rightarrow> runtime_state \<Rightarrow> json \<Rightarrow> (obj \<times> json option) list \<Rightarrow> obj \<Rightarrow> bool" where
  "evaluated_alike U C S sj w action \<longleftrightarrow>
     (\<exists>r body. evaluate U C S action = Inr r
        \<and> answered w ''authority_fixture_evaluate'' (evaluate_request sj action) body \<and> agrees r body)"

lemma flag_is_Nil: "flag b m = [] \<longleftrightarrow> \<not> b"
  by (simp add: flag_def)

lemma compare_results_Nil: "compare_results name r body = Inr [] \<Longrightarrow> agrees r body"
  by (auto simp: compare_results_def res_simps flag_is_Nil agrees_def)

lemma compare_case_Nil:
  "compare_case U C net clock S sj x c = (Inr [], c') \<Longrightarrow> evaluated_alike U C S sj (wire c') (snd x)"
  unfolding compare_case_def evaluated_alike_def session_Inr
  using call_answered compare_results_Nil by blast

lemma compare_source_Nil:
  "compare_source U C net clock S sj x c = (Inr [], c') \<Longrightarrow> evaluated_alike U C S sj (wire c') (source_action x)"
  unfolding compare_source_def evaluated_alike_def session_Inr
  using call_answered compare_results_Nil by (metis Nil_is_append_conv)

lemma alike_prefix: "evaluated_alike U C S sj w a \<Longrightarrow> prefix w w' \<Longrightarrow> evaluated_alike U C S sj w' a"
  unfolding evaluated_alike_def using answered_prefix by blast

lemma compare_policy_Nil:
  assumes "compare_policy U C net clock S sj c = (Inr [], c')" and "action \<in> set parity_actions"
  shows "evaluated_alike U C S sj (wire c') action"
proof -
  from assms(1) obtain c1 c2 c3 where
    p: "concatS (compare_case U C net clock S sj) policy_cases c = (Inr [], c1)"
      "concatS (compare_source U C net clock S sj) (sort NON_AUTHORITY_SOURCES) c1 = (Inr [], c2)"
    and rest: "bindS (broker_request net clock ''command_envelope'' (evaluate_request sj base_action)) (\<lambda>response.
      bindS (liftS (envelope_errors response)) (\<lambda>e3.
      bindS (concatS (compare_gate net clock sj) gated_operations) (\<lambda>e4. retS e4))) c2 = (Inr [], c')"
    by (auto simp: compare_policy_def session_Inr)
  have "prefix (wire c2) (wire c')"
    by (rule growsD, rule rest) (auto intro!: keeping)
  moreover have "prefix (wire c1) (wire c2)"
    by (rule growsD, rule p(2)) (auto intro!: keeping)
  ultimately have "prefix (wire c1) (wire c')" "prefix (wire c2) (wire c')" by (auto elim: prefix_order.trans)
  moreover have "evaluated_alike U C S sj (wire c1) (snd x)" if "x \<in> set policy_cases" for x
    using concatS_Nil [OF p(1) that] wire_growth.keeps_case compare_case_Nil alike_prefix by metis
  moreover have "evaluated_alike U C S sj (wire c2) (source_action x)" if "x \<in> set (sort NON_AUTHORITY_SOURCES)" for x
    using concatS_Nil [OF p(2) that] wire_growth.keeps_source compare_source_Nil alike_prefix by metis
  ultimately show ?thesis
    using assms(2) alike_prefix unfolding parity_actions_def by fastforce
qed

lemma passing_session:
  assumes "parity_main U C show_msg net clock m = (Inr 0, w)"
  shows "\<exists>S sj c. build_parity_state C = Inr (S, sj)
    \<and> (\<exists>c0. parity_errors U C show_msg net clock S sj c0 = (Inr [], c)) \<and> prefix (wire c) w"
proof -
  from assms obtain S sj ep errors c' where s: "build_parity_state C = Inr (S, sj)"
    "parity_session U C show_msg net clock S sj (new_client ep) = (Inr [], c')" "wire c' = w"
    by (auto simp: parity_main_def finallyE_def bindE_eq_Inr split: sum.splits prod.splits if_splits)
  then obtain c where c: "parity_errors U C show_msg net clock S sj (new_client ep) = (Inr [], c)"
    "snd (broker_shutdown clock c) = c'"
    by (auto simp: parity_session_def finallyS_def split: prod.splits sum.splits)
  have "prefix (wire c) (wire (snd (broker_shutdown clock c)))"
    by (rule wire_growth.shutdown_keeps) simp
  with s c show ?thesis by blast
qed

theorem parity_sound:
  assumes "parity_main U C show_msg net clock m = (Inr 0, w)" and "action \<in> set parity_actions"
  shows "\<exists>S sj. build_parity_state C = Inr (S, sj) \<and> evaluated_alike U C S sj w action"
proof -
  from passing_session [OF assms(1)] obtain S sj c0 c where s: "build_parity_state C = Inr (S, sj)"
    "parity_errors U C show_msg net clock S sj c0 = (Inr [], c)" "prefix (wire c) w" by blast
  then obtain c1 c2 where p: "compare_policy U C net clock S sj c1 = (Inr [], c2)"
    and rest: "bindS (compare_approval_edit_and_projection show_msg net clock) (\<lambda>e3.
      bindS (compare_audit_chain show_msg net clock) (\<lambda>e4. retS (e3 @ e4))) c2 = (Inr [], c)"
    by (auto simp: parity_errors_def session_Inr)
  have "prefix (wire c2) (wire c)"
    by (rule growsD, rule rest) (auto intro!: keeping)
  then have "evaluated_alike U C S sj w action"
    using compare_policy_Nil [OF p assms(2)] s(3) alike_prefix by blast
  with s(1) show ?thesis by blast
qed

end
