(* ===== verification/Parity_Cases.thy ===== *)
theory Parity_Cases
  imports Broker_Parity Reference_State
begin

text \<open>
  The parity run of \<open>Broker_Parity\<close> on the specifications of the repository: the state of the run is built, the
  core allows the base action and refuses every other one with a known code, so a broker that passes the run
  refuses them too; and a broker that decides with the functions of the core does pass.
\<close>

subsection \<open>The run decided by the specifications of the repository\<close>

lemma parity_records_accepted:
  "validate_contract repo_specs parity_runtime ''runtime.schema.json'' = Inr ()"
  "validate_contract repo_specs parity_capability ''capability.schema.json'' = Inr ()"
  "validate_contract repo_specs parity_recovery ''recovery.schema.json'' = Inr ()"
  "validate_contract repo_specs parity_audit_event ''audit.schema.json'' = Inr ()"
  by (simp_all add: reference_eval schema_defs parity_runtime_def parity_capability_def parity_recovery_def
      parity_audit_event_def cong: u_cong)

lemma parity_permission_accepted:
  "validate_contract repo_specs (parity_permission ''permission-allow'' ''allow'') ''permission.schema.json'' = Inr ()"
  "validate_contract repo_specs (parity_permission ''permission-deny'' ''deny'') ''permission.schema.json'' = Inr ()"
  by (simp_all add: reference_eval schema_defs parity_permission_def cong: u_cong)

lemma parity_approval_accepted:
  "validate_contract repo_specs (parity_approval ''approval-approved'' ''approved'') ''approval.schema.json'' = Inr ()"
  "validate_contract repo_specs (parity_approval ''approval-pending'' ''pending'') ''approval.schema.json'' = Inr ()"
  by (simp_all add: reference_eval schema_defs parity_approval_def parity_payload_def cong: u_cong)

definition parity_state :: runtime_state where
  "parity_state =
     \<lparr>runtimes = [(u ''runtime-1'', parity_runtime)], adapters = [],
      capabilities = [(u ''filesystem.write'', parity_capability)],
      permissions = [(u ''permission-allow'', parity_permission ''permission-allow'' ''allow''),
                     (u ''permission-deny'', parity_permission ''permission-deny'' ''deny'')],
      approvals = [(u ''approval-approved'', parity_approval ''approval-approved'' ''approved''),
                   (u ''approval-pending'', parity_approval ''approval-pending'' ''pending'')],
      audit_events = [(u ''audit-1'', parity_audit_event)],
      recovery_actions = [(u ''recover-1'', parity_recovery)], update_policies = []\<rparr>"

lemma parity_ids:
  "ditem parity_runtime ''runtime_id'' = Inr (js ''runtime-1'')"
  "ditem parity_capability ''capability_id'' = Inr (js ''filesystem.write'')"
  "ditem (parity_permission i d) ''permission_id'' = Inr (js i)"
  "ditem (parity_approval i d) ''approval_id'' = Inr (js i)"
  "ditem parity_recovery ''recovery_id'' = Inr (js ''recover-1'')"
  "ditem parity_audit_event ''event_id'' = Inr (js ''audit-1'')"
  by (simp_all add: ditem_def parity_runtime_def parity_capability_def parity_permission_def parity_approval_def
      parity_recovery_def parity_audit_event_def)

lemma build_parity_state_eq: "build_parity_state repo_specs = Inr (parity_state, parity_state_json parity_state)"
  by (simp add: build_parity_state_def register_runtime_def register_capability_def record_permission_def
      enqueue_approval_def register_recovery_action_def append_audit_event_def parity_records_accepted
      parity_permission_accepted parity_approval_accepted parity_ids store_put_def RuntimeState_init_def
      parity_state_def)

lemma parity_lookups:
  "map_of (runtimes parity_state) (u ''runtime-1'') = Some parity_runtime"
  "map_of (capabilities parity_state) (u ''filesystem.write'') = Some parity_capability"
  "map_of (permissions parity_state) (u ''permission-allow'') = Some (parity_permission ''permission-allow'' ''allow'')"
  "map_of (permissions parity_state) (u ''permission-deny'') = Some (parity_permission ''permission-deny'' ''deny'')"
  "map_of (approvals parity_state) (u ''approval-approved'') = Some (parity_approval ''approval-approved'' ''approved'')"
  "map_of (approvals parity_state) (u ''approval-pending'') = Some (parity_approval ''approval-pending'' ''pending'')"
  "map_of (audit_events parity_state) (u ''audit-1'') = Some parity_audit_event"
  "map_of (recovery_actions parity_state) (u ''recover-1'') = Some parity_recovery"
  by (simp_all add: parity_state_def)

lemma parity_fields:
  "dget parity_capability ''runtime_id'' = js ''runtime-1''"
  "dget parity_capability ''operations'' = JArr [js ''filesystem.write'']"
  "dget (parity_permission i d) ''decision'' = js d"
  "dget (parity_permission i d) ''capability_id'' = js ''filesystem.write''"
  "dget (parity_permission i d) ''runtime_id'' = js ''runtime-1''"
  "dget (parity_permission i d) ''operation'' = js ''filesystem.write''"
  "dget (parity_permission i d) ''target_scope'' = js ''workspace''"
  "dget (parity_approval i d) ''status'' = js d"
  "dget (parity_approval i d) ''runtime_id'' = js ''runtime-1''"
  "dget (parity_approval i d) ''operation'' = js ''filesystem.write''"
  "dget (parity_approval i d) ''target_scope'' = js ''workspace''"
  "dget (parity_approval i d) ''payload_hash'' = JStr (canonical_hash parity_payload)"
  "dget parity_recovery ''runtime_id'' = js ''runtime-1''"
  "dget parity_recovery ''operation'' = js ''filesystem.write''"
  "dget parity_audit_event ''action'' = js ''filesystem.write''"
  "dget parity_audit_event ''payload_hash'' = JStr (canonical_hash parity_payload)"
  by (simp_all add: dget_def dget_or_def parity_capability_def parity_permission_def parity_approval_def
      parity_recovery_def parity_audit_event_def)

definition presented_event :: obj where
  "presented_event = [(u ''event_id'', js ''audit-1''), (u ''payload_hash'', JStr (canonical_hash parity_payload))]"

lemma base_fields:
  "dget base_action ''runtime_id'' = js ''runtime-1''"
  "dget base_action ''operation'' = js ''filesystem.write''"
  "dget_or base_action ''operation'' (js ''unknown'') = js ''filesystem.write''"
  "dget base_action ''capability_id'' = js ''filesystem.write''"
  "dget base_action ''permission_id'' = js ''permission-allow''"
  "dget base_action ''approval_id'' = js ''approval-approved''"
  "dget base_action ''target_scope'' = js ''workspace''"
  "dget base_action ''payload'' = parity_payload"
  "dget base_action ''authority_source'' = JNull"
  "dget_or base_action ''adapter_metadata'' (JObj []) = JObj [(u ''label'', js ''safe'')]"
  "dget base_action ''audit_event'' = JObj presented_event"
  "dget base_action ''recovery_action'' = JObj [(u ''recovery_id'', js ''recover-1'')]"
  "dget [(u ''recovery_id'', js ''recover-1'')] ''recovery_id'' = js ''recover-1''"
  "dget presented_event ''event_id'' = js ''audit-1''"
  "dget presented_event ''payload_hash'' = JStr (canonical_hash parity_payload)"
  by (simp_all add: base_action_def presented_event_def dget_def dget_or_def)

lemma base_has_payload: "has_payload base_action"
  by (simp add: has_payload_def dhas_def base_action_def)

lemma base_keys: "k \<in> fst ` set base_action \<Longrightarrow> last k \<noteq> last (u ''y'')"
  by (auto simp: base_action_def u_def)

lemma no_grant_flag: "map_of base_action (s @ u ''_grants_authority'') = None"
proof -
  have "last (s @ u ''_grants_authority'') = last (u ''y'')" by (simp add: u_def)
  then have "s @ u ''_grants_authority'' \<notin> fst ` set base_action" using base_keys by metis
  then show ?thesis by (simp add: map_of_eq_None_iff)
qed

lemma no_grant_flag_set:
  assumes "k \<in> {''permission_id'', ''approval_id'', ''adapter_metadata'', ''authority_source''}"
  shows "map_of (dset base_action k v) (s @ u ''_grants_authority'') = None"
proof -
  have "last (s @ u ''_grants_authority'') \<noteq> last (u k)" using assms by (auto simp: u_def)
  then have "s @ u ''_grants_authority'' \<noteq> u k" by metis
  then show ?thesis using no_grant_flag by (simp add: dset_def)
qed

lemmas ascii_key_eval = canonical_authority_key_def normalize_key_ascii ascii_def AUTHORITY_KEYS_def
  AUTHORITY_KEY_ALIASES_def strip_def strip_where_def is_space_def zero_width_def low_or_digit_def
  upper_letter_def ascii_lower_def space_or_hyphen_def underscore_def u_def

lemma parity_metadata:
  assumes "ucd_ok U"
  shows "\<not> metadata_attempts_authority U (JObj [(u ''label'', js ''safe'')])"
    and "metadata_attempts_authority U (JObj [(u ''trustLevel'', js ''root'')])"
proof -
  have "normalize_key U (u ''safe'') = u ''safe''" "canonical_authority_key U (u ''label'') = None"
    "canonical_authority_key U (u ''trustLevel'') = Some (u ''trust_level'')"
    using assms by (simp_all add: ascii_key_eval)
  then show "\<not> metadata_attempts_authority U (JObj [(u ''label'', js ''safe'')])"
    "metadata_attempts_authority U (JObj [(u ''trustLevel'', js ''root'')])"
    by (simp_all add: metadata_attempts_authority_def AUTHORITY_VALUES_def dict_of_def)
qed

lemmas policy_check_defs = policy_checks_def check_runtime_def check_capability_def check_permission_def
  check_approval_def check_audit_def check_recovery_def check_metadata_def check_sources_def mismatches_def
  in_set_of_def py_in_def ALLOWED_PERMISSION_DECISIONS_def report_if_def

lemma payload_kept: "has_payload (dset base_action k v)"
  using base_has_payload by (auto simp: has_payload_def)

lemmas parity_eval = policy_check_defs Let_def base_fields parity_lookups parity_fields base_has_payload
  payload_kept parity_metadata no_grant_flag no_grant_flag_set

lemma base_checks: "ucd_ok U \<Longrightarrow> policy_checks U parity_state base_action = Inr []"
  by (simp add: parity_eval)

definition refused_with :: "ucd \<Rightarrow> ustr \<Rightarrow> obj \<Rightarrow> bool" where
  "refused_with U code action \<longleftrightarrow>
     (\<exists>r. evaluate U repo_specs parity_state action = Inr r \<and> \<not> allowed r \<and> policy_codes r = [JStr code])"

lemma refused_withI:
  "\<exists>e. policy_checks U parity_state action = Inr [e] \<and> err_code e = code \<Longrightarrow> refused_with U code action"
  by (auto simp: refused_with_def evaluate_def policy_codes_def Let_def)

lemma deny_refused:
  "ucd_ok U \<Longrightarrow> refused_with U PERMISSION_DENIED (dset base_action ''permission_id'' (js ''permission-deny''))"
  by (rule refused_withI) (simp add: parity_eval)

lemma pending_refused:
  "ucd_ok U \<Longrightarrow> refused_with U APPROVAL_NOT_VALID (dset base_action ''approval_id'' (js ''approval-pending''))"
  by (rule refused_withI) (simp add: parity_eval)

lemma metadata_refused:
  "ucd_ok U \<Longrightarrow> refused_with U ADAPTER_METADATA_ESCALATION_ATTEMPT
     (dset base_action ''adapter_metadata'' (JObj [(u ''trustLevel'', js ''root'')]))"
  by (rule refused_withI) (simp add: parity_eval)

lemma one_source:
  "distinct xs \<Longrightarrow> source \<in> set xs \<Longrightarrow> concat (map (\<lambda>x. if source = x then [f x] else []) xs) = [f source]"
  by (induction xs) (auto simp: concat_eq_Nil_conv)

lemma source_refused:
  assumes "ucd_ok U" and "source \<in> set NON_AUTHORITY_SOURCES"
  shows "refused_with U NON_AUTHORITY_SOURCE_ATTEMPT (source_action source)"
proof -
  have "distinct NON_AUTHORITY_SOURCES" by (simp add: NON_AUTHORITY_SOURCES_def)
  then have "distinct (sort NON_AUTHORITY_SOURCES)" by (simp only: distinct_sort)
  then have "concat (map (\<lambda>x. if source = x then [f x] else []) (sort NON_AUTHORITY_SOURCES)) = [f source]"
    for f :: "ustr \<Rightarrow> shell_core_error"
    by (rule one_source) (simp add: assms(2))
  with assms(1) show ?thesis
    by (intro refused_withI) (simp add: parity_eval source_action_def)
qed

lemma base_allowed:
  assumes "ucd_ok U"
  shows "\<exists>r. evaluate U repo_specs parity_state base_action = Inr r \<and> allowed r \<and> policy_codes r = []"
proof -
  have "validate_contract repo_specs
     [(u ''envelope_id'', js ''action-envelope-evaluated''), (u ''runtime_id'', js ''runtime-1''),
      (u ''operation'', js ''filesystem.write''), (u ''capability_id'', js ''filesystem.write''),
      (u ''permission_id'', js ''permission-allow''), (u ''approval_id'', js ''approval-approved''),
      (u ''recovery_id'', js ''recover-1''), (u ''target_scope'', js ''workspace''),
      (u ''payload_hash'', JStr (canonical_hash parity_payload)),
      (u ''authority_source'', js ''broker_internal''), (u ''audit_event_required'', JBool True),
      (u ''metadata'', JObj [(u ''evidence_class'', js ''INTERNAL_STATE'')])] ''action_envelope.schema.json'' = Inr ()"
    by (simp add: schema_eval schema_defs re_match_eval canonical_hash_matches cong: u_cong)
  then have "\<exists>env. build_action_envelope repo_specs base_action default_envelope_id = Inr env"
    by (simp add: build_action_envelope_def base_action_def ditem_def dget_def dget_or_def default_envelope_id_def)
  with base_checks [OF assms] show ?thesis
    by (auto simp: evaluate_def policy_codes_def Let_def)
qed

text \<open>
  A broker that passes the run was asked to evaluate the base action and allowed it, and it refused, with the
  error code of the core, the denied permission, the pending approval, the metadata that claims authority and
  every source that must not grant authority.
\<close>

definition refusals :: "(ustr \<times> obj) list" where
  "refusals =
     [(PERMISSION_DENIED, dset base_action ''permission_id'' (js ''permission-deny'')),
      (APPROVAL_NOT_VALID, dset base_action ''approval_id'' (js ''approval-pending'')),
      (ADAPTER_METADATA_ESCALATION_ATTEMPT,
       dset base_action ''adapter_metadata'' (JObj [(u ''trustLevel'', js ''root'')]))]
     @ map (\<lambda>source. (NON_AUTHORITY_SOURCE_ATTEMPT, source_action source)) NON_AUTHORITY_SOURCES"

definition broker_verdict :: "(obj \<times> json option) list \<Rightarrow> obj \<Rightarrow> bool \<Rightarrow> json list \<Rightarrow> bool" where
  "broker_verdict w action ok codes \<longleftrightarrow>
     (\<exists>body v found. answered w ''authority_fixture_evaluate'' (evaluate_request (parity_state_json parity_state) action) body
        \<and> jitem body ''allowed'' = Inr v \<and> py_eq (JBool ok) v
        \<and> error_codes body = Inr found \<and> py_eq (JArr codes) (JArr found))"

lemma alike_verdict:
  "evaluated_alike U repo_specs parity_state (parity_state_json parity_state) w action
     \<Longrightarrow> \<exists>r. evaluate U repo_specs parity_state action = Inr r \<and> allowed r = ok \<and> policy_codes r = codes
     \<Longrightarrow> broker_verdict w action ok codes"
  by (auto simp: evaluated_alike_def broker_verdict_def agrees_def)

lemma passing_alike:
  "parity_main U repo_specs show_msg net clock m = (Inr 0, w) \<Longrightarrow> action \<in> set parity_actions
     \<Longrightarrow> evaluated_alike U repo_specs parity_state (parity_state_json parity_state) w action"
  using parity_sound build_parity_state_eq by fastforce

lemma refusals_refused:
  assumes "ucd_ok U" and "(code, action) \<in> set refusals"
  shows "refused_with U code action"
proof -
  from assms(2) consider "code = PERMISSION_DENIED" "action = dset base_action ''permission_id'' (js ''permission-deny'')"
    | "code = APPROVAL_NOT_VALID" "action = dset base_action ''approval_id'' (js ''approval-pending'')"
    | "code = ADAPTER_METADATA_ESCALATION_ATTEMPT"
      "action = dset base_action ''adapter_metadata'' (JObj [(u ''trustLevel'', js ''root'')])"
    | source where "source \<in> set NON_AUTHORITY_SOURCES" "code = NON_AUTHORITY_SOURCE_ATTEMPT" "action = source_action source"
    unfolding refusals_def by auto
  then show ?thesis
    using deny_refused [OF assms(1)] pending_refused [OF assms(1)] metadata_refused [OF assms(1)]
      source_refused [OF assms(1)]
    by cases metis+
qed

lemma refusals_sent: "(code, action) \<in> set refusals \<Longrightarrow> action \<in> set parity_actions"
  unfolding refusals_def parity_actions_def policy_cases_def by auto

text \<open>
  C17. When the parity run against the contracts of the repository exits with 0, the broker allowed the base action
  with no error code, and refused every other case of the run with exactly the code the Python evaluator gives it:
  the denied permission, the pending approval, the escalating adapter metadata and each source without authority.
\<close>

theorem parity_broker_fails_closed:
  assumes "ucd_ok U" and "parity_main U repo_specs show_msg net clock m = (Inr 0, w)"
  shows "broker_verdict w base_action True []
    \<and> (\<forall>(code, action) \<in> set refusals. broker_verdict w action False [JStr code])"
proof -
  have "broker_verdict w action False [JStr code]" if r: "(code, action) \<in> set refusals" for code action
    by (rule alike_verdict [OF passing_alike [OF assms(2) refusals_sent [OF r]]])
      (use refusals_refused [OF assms(1) r] in \<open>simp add: refused_with_def\<close>)
  moreover have "base_action \<in> set parity_actions"
    unfolding parity_actions_def policy_cases_def set_append list.map list.set snd_conv by blast
  then have "broker_verdict w base_action True []"
    using base_allowed [OF assms(1)] by (intro alike_verdict [OF passing_alike [OF assms(2)]]) simp_all
  ultimately show ?thesis by auto
qed

end
