(* ===== verification/Parity_Reference.thy ===== *)
theory Parity_Reference
  imports Parity_Cases Release_Smoke
begin

text \<open>
  A broker that decides with the functions of the Python core passes the parity run: the run never blames a
  faithful broker, and the theorems about a passing run are not vacuous. Unicode tables and printed messages are
  fixed to concrete ones here.
\<close>

definition accepted_reply :: "json \<Rightarrow> json" where
  "accepted_reply body = JObj [(u ''status'', js ''accepted''), (u ''body'', body)]"

definition verdict_reply :: "policy_result \<Rightarrow> json" where
  "verdict_reply r =
     JObj [(u ''allowed'', JBool (allowed r)),
           (u ''errors'', JArr (map (\<lambda>code. JObj [(u ''code'', code)]) (policy_codes r)))]"

definition suspended_reply :: "json \<Rightarrow> json" where
  "suspended_reply kind =
     JObj [(u ''status'', js ''suspended''),
           (u ''body'', JObj
             [(u ''eligibility'', JObj
                [(u ''allowed'', JBool False),
                 (u ''errors'', JArr [JObj [(u ''code'', js ''caller_state_rejected'')]])]),
              (u ''dispatch_enabled'', JBool False),
              (u ''execution_gate'', JObj
                [(u ''dispatch'', js ''suspended''), (u ''status'', js ''suspended''), (u ''target_kind'', kind),
                 (u ''process'', js ''suspended''), (u ''credential'', js ''suspended''), (u ''update'', js ''suspended'')])])]"

definition silent :: "msg \<Rightarrow> ustr" where
  "silent m = []"

definition edit_reply :: "json \<Rightarrow> json" where
  "edit_reply request =
     (case (jget request ''approval'', jget request ''field'', jget request ''value'') of
        (Inr (JObj approval), Inr (JStr field), Inr val) \<Rightarrow>
          (case bindE (ApprovalQueue_enqueue [] approval) (\<lambda>q. ApprovalQueue_edit q (dget approval ''approval_id'') field val) of
             Inr (_, e) \<Rightarrow> JObj [(u ''ok'', JBool True), (u ''approval'', JObj e)]
           | Inl _ \<Rightarrow> JObj [(u ''ok'', JBool False)])
      | _ \<Rightarrow> JNull)"

fun objects :: "json \<Rightarrow> obj list" where
  "objects (JArr xs) = concat (map (\<lambda>x. case x of JObj d \<Rightarrow> [d] | _ \<Rightarrow> []) xs)"
| "objects _ = []"

definition core_reply :: "json \<Rightarrow> json \<Rightarrow> json" where
  "core_reply operation payload =
     (if operation = js ''normalize_payload''
      then (case payload of JObj d \<Rightarrow> accepted_reply (JObj (normalize_inbound_payload ascii_ucd d)) | _ \<Rightarrow> JNull)
      else if operation = js ''authority_fixture_evaluate''
      then (case jget payload ''action'' of
              Inr (JObj action) \<Rightarrow>
                (case evaluate ascii_ucd repo_specs parity_state action of
                   Inr r \<Rightarrow> accepted_reply (verdict_reply r) | Inl _ \<Rightarrow> JNull)
            | _ \<Rightarrow> JNull)
      else if operation = js ''command_envelope''
      then (case bindE (jget payload ''action'') (\<lambda>a. jget a ''operation'') of
              Inr (JStr op) \<Rightarrow> suspended_reply (JStr (takeWhile (\<lambda>c. c \<noteq> 46) op)) | _ \<Rightarrow> JNull)
      else if operation = js ''approval_edit'' then accepted_reply (edit_reply payload)
      else if operation = js ''content_projection''
      then (case payload of
              JObj approval \<Rightarrow>
                (case project_approval_content approval of
                   Inr p \<Rightarrow> accepted_reply (projection_dict silent p) | Inl _ \<Rightarrow> JNull)
            | _ \<Rightarrow> JNull)
      else if operation = js ''audit_verify''
      then (case verify_audit_chain (objects payload) of
              Inr r \<Rightarrow> accepted_reply (JObj (report_dict silent r)) | Inl _ \<Rightarrow> JNull)
      else JNull)"

definition core_broker :: network where
  "core_broker requests =
     Inr (render None 0 (core_reply (dget (last requests) ''operation'') (dget (last requests) ''payload'')))"

definition core_endpoint :: obj where
  "core_endpoint = [(u ''session_id'', js ''session-1''), (u ''host'', js ''127.0.0.1''), (u ''port'', JInt 49152),
     (u ''session_secret'', js ''secret'')]"

subsection \<open>Sessions with this broker\<close>

definition gives :: "'a session \<Rightarrow> 'a \<Rightarrow> bool" where
  "gives f x \<longleftrightarrow> (\<forall>c. endpoint c = core_endpoint \<longrightarrow> (\<exists>c'. endpoint c' = core_endpoint \<and> f c = (Inr x, c')))"

lemma gives_ret: "gives (retS x) x"
  by (simp add: gives_def retS_def)

lemma gives_lift: "m = Inr x \<Longrightarrow> gives (liftS m) x"
  by (simp add: gives_def liftS_def)

lemma gives_bind: "gives f x \<Longrightarrow> gives (g x) y \<Longrightarrow> gives (bindS f g) y"
  unfolding gives_def by (metis bindS_Inr)

lemma gives_concat: "(\<And>x. x \<in> set xs \<Longrightarrow> gives (f x) []) \<Longrightarrow> gives (concatS f xs) []"
proof (induction xs)
  case (Cons x xs)
  have "gives (bindS (concatS f xs) (\<lambda>ys. retS ([] @ ys))) []"
    by (rule gives_bind [OF Cons.IH]) (use Cons.prems in \<open>auto intro: gives_ret\<close>)
  then show ?case
    using Cons.prems [of x] by (auto intro: gives_bind)
qed (simp add: gives_ret)

lemma raw_char_scalar: "scalar c \<Longrightarrow> list_all scalar (raw_char c)"
  using printable_esc_char [of c] by (auto simp: raw_char_def printable_def scalar_def list_all_iff)

lemma raw_quote_scalar: "list_all scalar s \<Longrightarrow> list_all scalar (raw_quote s)"
  using raw_char_scalar by (induction s) (auto simp: raw_quote_def scalar_def)

lemma scalar_join_with: "list_all P sep \<Longrightarrow> list_all (list_all P) xs \<Longrightarrow> list_all P (join sep xs)"
  by (induction sep xs rule: join.induct) auto

lemma printable_scalar: "printable s \<Longrightarrow> list_all scalar s"
  by (auto simp: printable_def scalar_def list_all_iff)

lemma scalar_marks [simp]: "scalar 44" "scalar 58" "scalar 91" "scalar 93" "scalar 123" "scalar 125"
  by (simp_all add: scalar_def)

lemma scalar_render_raw: "wf_json v \<Longrightarrow> list_all scalar (render_raw v)"
proof (induction v rule: render_raw.induct)
  case (3 i)
  then show ?case using printable_dec_int by (simp add: printable_scalar)
next
  case (4 s)
  then show ?case by (simp add: raw_quote_scalar)
next
  case (5 xs)
  then have "list_all (list_all scalar) (map render_raw xs)" by (auto simp: list_all_iff)
  then show ?case by (simp add: scalar_join_with)
next
  case (6 d)
  then have "list_all (list_all scalar) (map (\<lambda>(k, v). raw_quote k @ 58 # render_raw v) d)"
    by (fastforce simp: list_all_iff raw_quote_scalar [unfolded list_all_iff])
  then show ?case by (simp add: scalar_join_with)
qed (auto simp: u_def scalar_def)

lemma ipc_hash_defined: "wf_json v \<Longrightarrow> \<exists>h. ipc_payload_hash v = Inr h"
  by (simp add: ipc_payload_hash_def encode_utf8_def scalar_render_raw)

lemma gives_request:
  assumes "wf_json payload" and "wf_json (core_reply (js operation) payload)"
  shows "gives (broker_request core_broker clock operation payload) (core_reply (js operation) payload)"
  unfolding gives_def
proof (intro allI impI)
  fix c :: client
  assume c: "endpoint c = core_endpoint"
  let ?c = "c\<lparr>counter := Suc (counter c)\<rparr>"
  from ipc_hash_defined [OF assms(1)] obtain request
    where r: "build_request clock ''parity-'' operation payload ?c = Inr request"
    by (auto simp: build_request_def c core_endpoint_def ditem_def Let_def)
  have "connection core_endpoint = Inr ()"
    by (simp add: connection_def core_endpoint_def ditem_def encode_utf8_def)
  moreover have "bindE (core_broker (map fst (wire ?c) @ [request])) py_loads = Inr (core_reply (js operation) payload)"
    using loads_render_space [OF assms(2), of "[]" None 0] built_request(3,4) [OF r]
    by (simp add: core_broker_def py_loads_def)
  ultimately show "\<exists>c'. endpoint c' = core_endpoint
      \<and> broker_request core_broker clock operation payload c = (Inr (core_reply (js operation) payload), c')"
    by (simp add: request_cases r transmit_def c put_on_wire_def)
qed

lemma wf_accepted: "wf_json (accepted_reply body) = wf_json body"
  by (simp add: accepted_reply_def)

lemma accepted_fields:
  "jitem (accepted_reply body) ''status'' = Inr (js ''accepted'')" "jitem (accepted_reply body) ''body'' = Inr body"
  by (simp_all add: accepted_reply_def ditem_def)

lemma gives_call:
  assumes "wf_json payload" and "core_reply (js operation) payload = accepted_reply body" and "wf_json body"
  shows "gives (broker_call core_broker clock operation payload) body"
  unfolding broker_call_def
  by (rule gives_bind [OF gives_request [OF assms(1)]], simp add: assms wf_accepted)
    (rule gives_bind [where x = "js ''accepted''"]; simp add: assms accepted_fields gives_lift)

subsection \<open>Each comparison is clean\<close>

lemma value_differs_self: "dhas d k \<Longrightarrow> value_differs d (JObj d) m k = Inr []"
  by (simp add: value_differs_def ditem_dhas flag_def)

lemma count_differs_self: "dhas d k \<Longrightarrow> is_list (dget d k) \<Longrightarrow> count_differs d (JObj d) k m = Inr []"
  by (auto simp: count_differs_def ditem_dhas flag_def json_length_def is_list_iff)

lemma normalization_self:
  "normalization_errors i (normalize_inbound_payload U d) (JObj (normalize_inbound_payload U d)) = Inr []"
  by (simp add: normalization_errors_def value_differs_self count_differs_self normalize_inbound_payload_def
      Let_def dhas_def dget_def dget_or_def)

lemma wf_normalized:
  "d \<in> set normalization_cases \<Longrightarrow> wf_json (JObj d) \<and> wf_json (JObj (normalize_inbound_payload ascii_ucd d))"
  unfolding normalization_cases_def list.set
  by (elim insertE emptyE)
    (simp_all add: normalize_inbound_payload_def key_eval Let_def dict_of_def child_path_def)

lemma gives_normalization: "gives (compare_normalization ascii_ucd core_broker clock) []"
  unfolding compare_normalization_def
proof (rule gives_concat)
  fix c assume "c \<in> set (enumerate 0 normalization_cases)"
  then have d: "snd c \<in> set normalization_cases" by (auto simp: in_set_enumerate_eq) (metis nth_mem)
  show "gives (compare_payload ascii_ucd core_broker clock c) []"
    unfolding compare_payload_def
    by (rule gives_bind [OF gives_call [of _ _ "JObj (normalize_inbound_payload ascii_ucd (snd c))"]])
      (simp_all add: wf_normalized [OF d] core_reply_def normalization_self gives_lift del: wf_json.simps)
qed

lemma codes_of_verdict: "error_codes (verdict_reply r) = Inr (policy_codes r)"
proof -
  have "mapE (\<lambda>error. jitem error ''code'') (map (\<lambda>code. JObj [(u ''code'', code)]) cs) = Inr cs" for cs
    by (induction cs) (simp_all add: ditem_def)
  then show ?thesis by (simp add: error_codes_def verdict_reply_def ditem_def)
qed

lemma compare_self: "compare_results name r (verdict_reply r) = Inr []"
  by (simp add: compare_results_def codes_of_verdict flag_def) (simp add: verdict_reply_def ditem_def)

lemma evaluate_reply:
  "evaluate ascii_ucd repo_specs parity_state action = Inr r \<Longrightarrow>
     core_reply (js ''authority_fixture_evaluate'') (evaluate_request sj action) = accepted_reply (verdict_reply r)"
  by (simp add: core_reply_def evaluate_request_def dget_def dget_or_def)

lemma wf_verdict: "list_all wf_json (policy_codes r) \<Longrightarrow> wf_json (verdict_reply r)"
  by (simp add: verdict_reply_def list.pred_map comp_def)

abbreviation state_text :: json where
  "state_text \<equiv> parity_state_json parity_state"

lemma wf_payload: "wf_json parity_payload"
  by (simp add: parity_payload_def)

lemma wf_base: "wf_json (JObj base_action)"
  by (simp add: base_action_def wf_payload)

lemma wf_state: "wf_json state_text"
  by (simp add: parity_state_json_def record_values_def parity_state_def parity_runtime_def parity_capability_def
      parity_permission_def parity_approval_def parity_audit_event_def parity_recovery_def wf_payload)

lemma wf_request: "wf_json (JObj a) \<Longrightarrow> wf_json (evaluate_request state_text a)"
  using wf_state by (simp add: evaluate_request_def)

lemma gives_evaluation:
  assumes "evaluate ascii_ucd repo_specs parity_state a = Inr r" and "policy_codes r \<in> {[], [JStr code]}"
    and "list_all scalar code" and "wf_json (JObj a)"
  shows "gives (broker_call core_broker clock ''authority_fixture_evaluate'' (evaluate_request state_text a)) (verdict_reply r)"
  using assms(2,3)
  by (intro gives_call evaluate_reply assms(1) wf_request assms(4) wf_verdict) auto

lemma gives_case:
  assumes "evaluate ascii_ucd repo_specs parity_state (snd x) = Inr r" and "policy_codes r \<in> {[], [JStr code]}"
    and "list_all scalar code" and "wf_json (JObj (snd x))"
  shows "gives (compare_case ascii_ucd repo_specs core_broker clock parity_state state_text x) []"
  unfolding compare_case_def
  by (rule gives_bind [OF gives_lift [OF assms(1)]], rule gives_bind [OF gives_evaluation [OF assms]])
    (simp add: compare_self gives_lift)

lemma gives_source:
  assumes "source \<in> set NON_AUTHORITY_SOURCES"
  shows "gives (compare_source ascii_ucd repo_specs core_broker clock parity_state state_text source) []"
proof -
  from source_refused [OF ucd_ok_ascii assms] obtain r
    where r: "evaluate ascii_ucd repo_specs parity_state (source_action source) = Inr r"
      "policy_codes r = [JStr NON_AUTHORITY_SOURCE_ATTEMPT]"
    unfolding refused_with_def by blast
  have "list_all scalar source" using assms by (auto simp: NON_AUTHORITY_SOURCES_def)
  then have wf: "wf_json (JObj (source_action source))"
    unfolding source_action_def by (intro wf_json_dset wf_base) simp
  have call: "gives (broker_call core_broker clock ''authority_fixture_evaluate''
      (evaluate_request state_text (source_action source))) (verdict_reply r)"
    by (rule gives_evaluation [OF r(1) _ _ wf, of NON_AUTHORITY_SOURCE_ATTEMPT])
      (simp_all add: r NON_AUTHORITY_SOURCE_ATTEMPT_def)
  show ?thesis
    unfolding compare_source_def
    by (rule gives_bind [OF gives_lift [OF r(1)]], rule gives_bind [OF call],
        rule gives_bind [OF gives_lift [OF compare_self]], rule gives_bind [OF gives_lift [OF codes_of_verdict]])
      (simp add: r(2) py_in_def flag_def gives_ret)
qed

lemma envelope_reply:
  "dget a ''operation'' = JStr op \<Longrightarrow>
     core_reply (js ''command_envelope'') (evaluate_request sj a) = suspended_reply (JStr (takeWhile (\<lambda>c. c \<noteq> 46) op))"
  by (simp add: core_reply_def evaluate_request_def dget_def dget_or_def)

lemma suspended_clean: "envelope_errors (suspended_reply kind) = Inr []"
  by (simp add: envelope_errors_def suspended_reply_def ditem_def error_codes_def is_false_def py_in_def)

lemma command_gate_clean:
  "t \<in> {''process'', ''credential'', ''update''} \<Longrightarrow> gate_errors t (suspended_reply (js t)) = Inr []"
  by (auto simp: gate_errors_def suspended_reply_def ditem_def is_false_def flag_def)

lemma gives_envelope:
  assumes "wf_json (JObj a)" and "dget a ''operation'' = js op"
  shows "gives (broker_request core_broker clock ''command_envelope'' (evaluate_request state_text a))
    (suspended_reply (JStr (takeWhile (\<lambda>c. c \<noteq> 46) (u op))))"
proof -
  have "list_all scalar (takeWhile (\<lambda>c. c \<noteq> 46) (u op))"
    using list_all_scalar_u [of op] by (auto simp: list_all_iff dest: set_takeWhileD)
  then have "wf_json (suspended_reply (JStr (takeWhile (\<lambda>c. c \<noteq> 46) (u op))))"
    by (simp add: suspended_reply_def)
  then show ?thesis
    using gives_request [of "evaluate_request state_text a" "''command_envelope''" clock] wf_request [OF assms(1)]
    by (simp add: envelope_reply [OF assms(2)])
qed

lemma gives_gate:
  assumes "x \<in> set gated_operations"
  shows "gives (compare_gate core_broker clock state_text x) []"
proof -
  have kind: "JStr (takeWhile (\<lambda>c. c \<noteq> 46) (u (snd x))) = js (fst x)"
    and t: "fst x \<in> {''process'', ''credential'', ''update''}"
    using assms by (auto simp: gated_operations_def u_def)
  let ?a = "dset (dset base_action ''operation'' (js (snd x))) ''capability_id'' (js (snd x))"
  have "wf_json (JObj ?a)" by (intro wf_json_dset wf_base) simp_all
  then show ?thesis
    unfolding compare_gate_def
    by (rule gives_bind [OF gives_envelope [where op = "snd x"]])
      (simp, simp only: kind command_gate_clean [OF t] gives_lift)
qed

lemma wf_claim: "wf_json (JObj [(u ''trustLevel'', js ''root'')])"
  by simp

lemma gives_policy: "gives (compare_policy ascii_ucd repo_specs core_broker clock parity_state state_text) []"
proof -
  have case_gives: "gives (compare_case ascii_ucd repo_specs core_broker clock parity_state state_text x) []"
    if "x \<in> set policy_cases" for x
  proof -
    from that consider "snd x = base_action" | code where "(code, snd x) \<in> set refusals" "list_all scalar code"
      unfolding policy_cases_def refusals_def PERMISSION_DENIED_def APPROVAL_NOT_VALID_def
        ADAPTER_METADATA_ESCALATION_ATTEMPT_def
      by fastforce
    then show ?thesis
    proof cases
      case 1
      with base_allowed [OF ucd_ok_ascii] wf_base show ?thesis by (auto intro: gives_case [of _ _ "[]"])
    next
      case 2
      then have "wf_json (JObj (snd x))"
        using that by (auto simp: policy_cases_def simp del: wf_json.simps(3) intro!: wf_json_dset wf_base wf_claim)
      with refusals_refused [OF ucd_ok_ascii 2(1)] 2(2) show ?thesis
        unfolding refused_with_def by (auto intro: gives_case)
    qed
  qed
  have "dget base_action ''operation'' = js ''filesystem.write''" by (rule base_fields(2))
  note envelope = gives_envelope [OF wf_base this]
  show ?thesis
    unfolding compare_policy_def
    by (rule gives_bind [OF gives_concat [OF case_gives]], assumption,
        rule gives_bind [OF gives_concat [OF gives_source]], simp,
        rule gives_bind [OF envelope], rule gives_bind [OF gives_lift [OF suspended_clean]],
        rule gives_bind [OF gives_concat [OF gives_gate]], assumption) (simp add: gives_ret)
qed

subsection \<open>Approvals and the audit chain\<close>

lemma wf_edit_approval: "wf_json (JObj edit_approval)"
  by (simp add: edit_approval_def wf_payload)

lemma wf_edit_request: "wf_json v \<Longrightarrow> wf_json (edit_request field v)"
  using wf_edit_approval by (simp add: edit_request_def)

lemma edit_queue: "ApprovalQueue_enqueue [] edit_approval = Inr [(u ''approval-1'', edit_approval)]"
  by (simp add: ApprovalQueue_enqueue_def store_put_def ditem_def edit_approval_def)

abbreviation edited_approval :: obj where
  "edited_approval \<equiv> edited edit_approval [(u ''path'', js ''notes/tomorrow.md''), (u ''content'', js ''hello'')]"

lemma parity_can_edit:
  "can_edit [(u ''approval-1'', edit_approval)] (js ''approval-1'') (u ''path'') = Inr True"
  "can_edit [(u ''approval-1'', edit_approval)] (js ''approval-1'') (u ''payload_hash'') = Inr False"
  by (simp_all add: can_edit_def ApprovalQueue_get_def store_get_def py_set_def dget_or_def protected_fields_def
      py_in_def PROTECTED_EDIT_FIELDS_def edit_approval_def)

lemma parity_edit:
  "ApprovalQueue_edit [(u ''approval-1'', edit_approval)] (js ''approval-1'') (u ''path'') (js ''notes/tomorrow.md'')
     = Inr ([(u ''approval-1'', edited_approval)], edited_approval)"
proof -
  have "dget_or edit_approval ''full_payload'' (JObj [])
      = JObj [(u ''path'', js ''notes/today.md''), (u ''content'', js ''hello'')]"
    by (simp add: edit_approval_def dget_or_def parity_payload_def)
  then show ?thesis
    unfolding edit_eq_Inr using parity_can_edit(1) by simp
qed

lemma edit_answers:
  "edit_reply (edit_request ''path'' (js ''notes/tomorrow.md'')) = JObj [(u ''ok'', JBool True), (u ''approval'', JObj edited_approval)]"
  "edit_reply (edit_request ''payload_hash'' zero_tag) = JObj [(u ''ok'', JBool False)]"
proof -
  have i: "dget edit_approval ''approval_id'' = js ''approval-1''"
    by (simp add: edit_approval_def dget_def dget_or_def)
  show "edit_reply (edit_request ''path'' (js ''notes/tomorrow.md'')) = JObj [(u ''ok'', JBool True), (u ''approval'', JObj edited_approval)]"
    by (simp add: edit_reply_def edit_request_def dget_def dget_or_def edit_queue)
      (simp add: i [unfolded dget_def dget_or_def] parity_edit)
  show "edit_reply (edit_request ''payload_hash'' zero_tag) = JObj [(u ''ok'', JBool False)]"
    by (simp add: edit_reply_def edit_request_def dget_def dget_or_def edit_queue)
      (simp add: i [unfolded dget_def dget_or_def] ApprovalQueue_edit_def parity_can_edit)
qed

lemma wf_edited_approval: "wf_json (JObj edited_approval)"
  unfolding edited_def by (intro wf_json_dset wf_edit_approval) simp_all

lemma wf_zero_tag: "wf_json zero_tag"
proof -
  have "list_all scalar (replicate n 48)" for n by (induction n) (simp_all add: scalar_def)
  then show ?thesis by (simp add: zero_tag_def)
qed

lemma gives_projection:
  assumes "v \<in> set VISIBILITIES"
  shows "gives (compare_projection silent core_broker clock v) []"
proof -
  let ?a = "dset edit_approval ''content_visibility'' (js v)"
  have fields: "dhas edit_approval ''payload_hash''"
    "wf_json (dget edit_approval ''payload_hash'')" "wf_json (dget_or edit_approval ''summary'' (JStr []))"
    "wf_json (dget_or edit_approval ''redacted_payload'' (JObj []))"
    "wf_json (dget_or edit_approval ''full_payload'' (JObj []))"
    by (simp_all add: edit_approval_def dget_def dget_or_def dhas_def wf_payload)
  have "\<exists>d. project_approval_content ?a = Inr (Content d) \<and> wf_json (JObj d)"
    using assms fields unfolding VISIBILITIES_def project_approval_content_def
    by (auto simp: ditem_dhas Let_def)
  then obtain d where d: "project_approval_content ?a = Inr (Content d)" "wf_json (JObj d)" by blast
  have "wf_json (JObj ?a)" by (intro wf_json_dset wf_edit_approval) simp
  moreover have "core_reply (js ''content_projection'') (JObj ?a) = accepted_reply (JObj d)"
    by (simp add: core_reply_def d)
  ultimately have call: "gives (broker_call core_broker clock ''content_projection'' (JObj ?a)) (JObj d)"
    using d(2) by (intro gives_call)
  show ?thesis
    unfolding compare_projection_def Let_def
    by (rule gives_bind [OF gives_lift [OF d(1)]], rule gives_bind [OF call]) (simp add: flag_def gives_ret)
qed

lemma gives_edit: "gives (compare_approval_edit_and_projection silent core_broker clock) []"
proof -
  have call: "gives (broker_call core_broker clock ''approval_edit'' (edit_request field v)) (edit_reply (edit_request field v))"
    if "wf_json v" "wf_json (edit_reply (edit_request field v))" for field v
    by (rule gives_call) (simp_all add: wf_edit_request that core_reply_def)
  have "wf_json (edit_reply (edit_request ''path'' (js ''notes/tomorrow.md'')))"
    using wf_edited_approval by (simp add: edit_answers)
  note first = call [OF _ this]
  have "wf_json (edit_reply (edit_request ''payload_hash'' zero_tag))" by (simp add: edit_answers)
  note second = call [OF wf_zero_tag this]
  have e1: "edit_errors edited_approval (edit_reply (edit_request ''path'' (js ''notes/tomorrow.md''))) = Inr []"
    by (simp add: edit_answers edit_errors_def is_true_def ditem_def dget_def dget_or_def remark_def)
      (simp add: edited_def dset_def)
  have e2: "protected_errors (edit_reply (edit_request ''payload_hash'' zero_tag)) = Inr []"
    by (simp add: edit_answers protected_errors_def is_false_def dget_def dget_or_def)
  show ?thesis
    unfolding compare_approval_edit_and_projection_def
    apply (rule gives_bind [OF gives_lift [OF edit_queue]])
    apply (rule gives_bind [OF gives_lift [OF parity_edit]])
    apply (simp only: prod.case)
    apply (rule gives_bind [OF first], simp)
    apply (rule gives_bind [OF gives_lift [OF e1]])
    apply (rule gives_bind [OF second])
    apply (rule gives_bind [OF gives_lift [OF e2]])
    apply (rule gives_bind [OF gives_concat [OF gives_projection]], assumption)
    apply (simp add: gives_ret)
    done
qed

lemma objects_events: "objects (events_json es) = es"
  by (induction es) (simp_all add: events_json_def)

lemma audit_reply:
  "verify_audit_chain es = Inr r \<Longrightarrow>
     core_reply (js ''audit_verify'') (events_json es) = accepted_reply (JObj (report_dict silent r))"
  by (simp add: core_reply_def objects_events)

lemma wf_probe: "wf_json (JObj chain_probe)"
  by (simp add: chain_probe_def)

lemma wf_links:
  "wf_json (JObj first_link)" "wf_json (JObj second_link)" "wf_json (JObj tampered_link)" "wf_json (JObj duplicate_link)"
proof -
  have first: "wf_json (JObj first_link)"
    unfolding first_link_def by (intro wf_chain_event wf_probe) simp
  moreover have "wf_json (dget first_link ''event_hash'')" by (rule wf_json_dget [OF first])
  ultimately show "wf_json (JObj first_link)" "wf_json (JObj second_link)" "wf_json (JObj tampered_link)"
    "wf_json (JObj duplicate_link)"
    unfolding second_link_def tampered_link_def duplicate_link_def
    by (auto intro!: wf_chain_event wf_json_dset wf_probe simp del: wf_json.simps(3))
qed

lemma probe_ids:
  "dget first_link ''event_id'' = js ''audit-1''" "dget second_link ''event_id'' = js ''audit-2''"
  "dget tampered_link ''event_id'' = js ''audit-1''" "dget duplicate_link ''event_id'' = js ''audit-1''"
proof -
  have "dget chain_probe ''event_id'' = js ''audit-1''" by (simp add: chain_probe_def dget_def dget_or_def)
  then show "dget first_link ''event_id'' = js ''audit-1''" "dget second_link ''event_id'' = js ''audit-2''"
    "dget tampered_link ''event_id'' = js ''audit-1''" "dget duplicate_link ''event_id'' = js ''audit-1''"
    by (simp_all add: first_link_def second_link_def tampered_link_def duplicate_link_def)
qed

lemma gives_verify:
  assumes "es \<noteq> []" and "\<forall>e \<in> set es. wf_json (JObj e) \<and> hashable (dget e ''event_id'')"
  shows "\<exists>r. verify_audit_chain es = Inr r
    \<and> gives (broker_call core_broker clock ''audit_verify'' (events_json es)) (JObj (report_dict silent r))"
proof -
  from assms(2) verify_chain_returns [of es] obtain r where r: "verify_audit_chain es = Inr r"
    by (auto simp: list_all_iff)
  then have "report_latest r = dget (last es) ''event_hash''"
    using verify_loop_latest [of 0 JNull "[]" es] assms(1) by (auto simp: verify_audit_chain_def res_simps head_hash_def)
  moreover have "list_all wf_json (map (\<lambda>e. JStr (silent e)) ms)" for ms
    by (induction ms) (simp_all add: silent_def)
  ultimately have "wf_json (JObj (report_dict silent r))"
    using assms wf_json_dget [of "last es"] by (simp add: report_dict_def)
  moreover have "wf_json (events_json es)" using assms(2) by (auto simp: events_json_def list_all_iff)
  ultimately show ?thesis using r gives_call [OF _ audit_reply [OF r]] by blast
qed

definition chain_collision :: bool where
  "chain_collision \<longleftrightarrow>
     collides (canonical_bytes (hashed_body tampered_link JNull)) (canonical_bytes (hashed_body first_link JNull))"

lemma tampered_rejected:
  assumes "verify_audit_chain [tampered_link, second_link] = Inr r" and "\<not> chain_collision"
  shows "\<not> report_ok r"
proof
  assume "report_ok r"
  with assms(1) have "linked JNull [tampered_link, second_link]"
    using audit_verified_iff [of "[tampered_link, second_link]"] by (simp add: audit_verified_def del: linked.simps)
  then have "dget tampered_link ''event_hash'' = JStr (canonical_hash (hashed_body tampered_link JNull))" by simp
  moreover have "dget tampered_link ''event_hash'' = dget first_link ''event_hash''" by (simp add: tampered_link_def)
  moreover have "dget first_link ''event_hash'' = JStr (canonical_hash (hashed_body first_link JNull))"
    by (simp add: first_link_def)
  ultimately have hash: "canonical_hash (hashed_body tampered_link JNull) = canonical_hash (hashed_body first_link JNull)"
    by simp
  have bodies: "wf_json (hashed_body tampered_link JNull)" "wf_json (hashed_body first_link JNull)"
    unfolding hashed_body_def by (intro wf_json_ddel wf_json_dset wf_links; simp)+
  have result: "dget tampered_link ''result'' = js ''failed''" "dget first_link ''result'' = js ''success''"
    by (simp_all add: tampered_link_def first_link_def) (simp add: chain_probe_def dget_def dget_or_def)
  have dis: "distinct (map fst tampered_link)" "distinct (map fst first_link)"
    using wf_links(1,3) by simp_all
  have "sort_keys (hashed_body tampered_link JNull) \<noteq> sort_keys (hashed_body first_link JNull)"
    using hashed_body_lookup [OF _ dis, of JNull "''result''"] result by auto
  with canonical_hash_eq [OF bodies hash] assms(2) show False by (simp add: chain_collision_def)
qed

lemma gives_chain:
  assumes "\<not> chain_collision"
  shows "gives (compare_audit_chain silent core_broker clock) []"
proof -
  obtain r where r: "verify_audit_chain [first_link, second_link] = Inr r"
    "gives (broker_call core_broker clock ''audit_verify'' (events_json [first_link, second_link])) (JObj (report_dict silent r))"
    using gives_verify [of "[first_link, second_link]" clock] by (auto simp: wf_links probe_ids simp del: wf_json.simps)
  obtain t where t: "verify_audit_chain [tampered_link, second_link] = Inr t"
    "gives (broker_call core_broker clock ''audit_verify'' (events_json [tampered_link, second_link])) (JObj (report_dict silent t))"
    using gives_verify [of "[tampered_link, second_link]" clock] by (auto simp: wf_links probe_ids simp del: wf_json.simps)
  obtain d where d: "verify_audit_chain [first_link, duplicate_link] = Inr d"
    "gives (broker_call core_broker clock ''audit_verify'' (events_json [first_link, duplicate_link])) (JObj (report_dict silent d))"
    using gives_verify [of "[first_link, duplicate_link]" clock] by (auto simp: wf_links probe_ids simp del: wf_json.simps)
  have same: "concatE (\<lambda>key. value_differs (report_dict silent r) (JObj (report_dict silent r)) (Msg ''audit_verify: {} differs'' [js key]) key)
      [''ok'', ''event_count'', ''latest_event_hash'', ''errors''] = Inr []"
    by (simp add: value_differs_self report_dict_def dhas_def)
  have ok: "jitem (JObj (report_dict silent t)) ''ok'' = Inr (JBool False)"
    using tampered_rejected [OF t(1) assms] by (simp add: report_dict_def ditem_def)
  show ?thesis
    unfolding compare_audit_chain_def
    by (rule gives_bind [OF gives_lift [OF r(1)]], rule gives_bind [OF r(2)],
        rule gives_bind [OF gives_lift [OF same]], rule gives_bind [OF t(2)],
        rule gives_bind [OF gives_lift [OF ok]], rule gives_bind [OF gives_lift [OF d(1)]],
        rule gives_bind [OF d(2)]) (simp add: is_false_def remark_def flag_def gives_ret)
qed

subsection \<open>The run\<close>

definition sample_machine :: machine where
  "sample_machine = \<lparr>polls = [Waiting, Session_file (render None 0 (JObj core_endpoint))], exits = True, dies = True,
     removals = (\<lambda>_. Removed)\<rparr>"

lemma sample_start: "start_broker (exits sample_machine) (dies sample_machine) (polls sample_machine) = Inr core_endpoint"
proof -
  have "wf_json (JObj core_endpoint)" by (simp add: core_endpoint_def)
  from loads_render_space [OF this, of "[]" None 0] show ?thesis
    by (simp add: sample_machine_def py_loads_def)
qed

text \<open>
  Completeness of the run: a broker that decides with the functions of the core passes it, unless two texts
  of the audit probe collide under SHA-256.
\<close>

theorem core_broker_passes:
  "\<not> chain_collision \<Longrightarrow>
     \<exists>w. parity_main ascii_ucd repo_specs silent core_broker clock sample_machine = (Inr 0, w)"
proof -
  assume c: "\<not> chain_collision"
  have "gives (parity_errors ascii_ucd repo_specs silent core_broker clock parity_state state_text) []"
    unfolding parity_errors_def
    by (rule gives_bind [OF gives_normalization], rule gives_bind [OF gives_policy], rule gives_bind [OF gives_edit],
        rule gives_bind [OF gives_chain [OF c]]) (simp add: gives_ret)
  then obtain c' where run: "parity_errors ascii_ucd repo_specs silent core_broker clock parity_state state_text
      (new_client core_endpoint) = (Inr [], c')" "endpoint c' = core_endpoint"
    unfolding gives_def by (metis client.select_convs(1) new_client_def)
  have "\<exists>c''. broker_shutdown clock c' = (Inr (), c'')"
    using run(2) ipc_hash_defined [of JNull]
    by (auto simp: broker_shutdown_def bindS_def next_request_def liftS_def build_request_def connection_def
        core_endpoint_def ditem_def encode_utf8_def Let_def)
  then have "\<exists>c''. parity_session ascii_ucd repo_specs silent core_broker clock parity_state state_text
      (new_client core_endpoint) = (Inr [], c'')"
    using run(1) by (auto simp: parity_session_def finallyS_def)
  moreover have "cleanup_temp_directory (removals sample_machine) = Inr ()"
    "wait_for_process_exit (exits sample_machine) (dies sample_machine) = Inr ()"
    by (simp_all add: cleanup_temp_directory_def sample_machine_def wait_for_process_exit_def eval_nat_numeral)
  ultimately show ?thesis
    by (auto simp: parity_main_def build_parity_state_eq sample_start finallyE_def)
qed

theorem parity_broker_fails_closed_witness:
  "chain_collision \<or> (\<exists>w. broker_verdict w base_action True []
     \<and> parity_main ascii_ucd repo_specs silent core_broker (\<lambda>_. []) sample_machine = (Inr 0, w))"
  using core_broker_passes parity_broker_fails_closed [OF ucd_ok_ascii] by blast

end
