(* ===== verification/Conformance_Scans.thy ===== *)
theory Conformance_Scans
  imports Runtime_Assertions Packaging Schema_Gate Broker_Parity
begin

text \<open>
  The tests of the conformance run (\<open>tooling/conformance_tests/run_conformance_skeleton.py\<close>) that read the
  repository: documents, schemas, fixtures, Flutter, Rust and script sources that must exist and must or must not
  hold certain texts. The repository is a \<open>repo_texts\<close>, as for the release runtime assertions. A test returns its
  findings, the messages being the English reading of the Japanese ones; reading a missing file raises.
\<close>

subsection \<open>Reading the repository\<close>

definition there :: "repo_texts \<Rightarrow> string \<Rightarrow> bool" where
  "there tree relative \<longleftrightarrow> names_of relative \<in> set (tree_walk tree)"

text \<open>\<open>{path.name for path in directory.glob("*ending")}\<close>\<close>

definition glob_names :: "repo_texts \<Rightarrow> string \<Rightarrow> string \<Rightarrow> ustr list" where
  "glob_names tree directory ending =
     map last (filter (\<lambda>p. length p = Suc (length (names_of directory))) (files_below tree directory ending))"

definition load_schema :: "repo_texts \<Rightarrow> string \<Rightarrow> exn + json" where
  "load_schema tree name = bindE (read_source tree (''specs/'' @ name)) py_loads"

definition load_contract_fixture :: "repo_texts \<Rightarrow> string \<Rightarrow> exn + json" where
  "load_contract_fixture tree name = bindE (read_source tree (''examples/contracts/'' @ name)) py_loads"

definition lacks :: "string \<Rightarrow> ustr list \<Rightarrow> ustr \<Rightarrow> msg list" where
  "lacks template tokens text = map (\<lambda>token. Msg template [JStr token]) (absent tokens text)"

definition has_any :: "string \<Rightarrow> ustr list \<Rightarrow> ustr \<Rightarrow> msg list" where
  "has_any template tokens text = map (\<lambda>token. Msg template [JStr token]) (found tokens text)"

text \<open>\<open>for missing in sorted(required - existing)\<close>\<close>

definition missing_from :: "string \<Rightarrow> ustr list \<Rightarrow> ustr list \<Rightarrow> msg list" where
  "missing_from template required existing =
     map (\<lambda>name. Msg template [JStr name]) (sort (filter (\<lambda>name. name \<notin> set existing) required))"

text \<open>\<open>sorted(directory.rglob("*ending"))\<close>, each file read\<close>

definition scan_each ::
  "repo_texts \<Rightarrow> ustr list list \<Rightarrow> (ustr list \<Rightarrow> ustr \<Rightarrow> msg list) \<Rightarrow> exn + msg list" where
  "scan_each tree paths check =
     concatE (\<lambda>path. bindE (read_names tree path) (\<lambda>text. Inr (check path text))) (sort paths)"

definition forbids :: "string \<Rightarrow> ustr list \<Rightarrow> ustr list \<Rightarrow> ustr \<Rightarrow> msg list" where
  "forbids template tokens path text =
     map (\<lambda>token. Msg template [JStr (join_with ''/'' path), JStr token]) (found tokens text)"

definition absent_files :: "repo_texts \<Rightarrow> string \<Rightarrow> string list \<Rightarrow> msg list" where
  "absent_files tree directory relatives =
     concat (map (\<lambda>r. remark (\<not> there tree (directory @ r)) (directory @ r @ '' does not exist''))
       (sort_key u relatives))"

text \<open>One required text.\<close>

definition needs :: "string \<Rightarrow> ustr \<Rightarrow> ustr \<Rightarrow> msg list" where
  "needs message token text = remark (\<not> occurs token text) message"

definition refuses :: "string \<Rightarrow> ustr \<Rightarrow> ustr \<Rightarrow> msg list" where
  "refuses message token text = remark (occurs token text) message"

subsection \<open>Documents, schemas and fixtures\<close>

definition REQUIRED_SCHEMA_NAMES :: "string list" where
  "REQUIRED_SCHEMA_NAMES =
     [''action_envelope'', ''runtime'', ''adapter'', ''capability'', ''permission'', ''approval'', ''audit'',
      ''recovery'', ''diagnostic'', ''update'', ''content_exposure'', ''framework_risk_profile'',
      ''runtime_manifest'', ''adapter_manifest'', ''agent_runtime'', ''agent_session'', ''agent_workspace'',
      ''agent_task'', ''agent_tool_call'', ''agent_diff'', ''ipc_request'', ''ipc_response'', ''broker_error'',
      ''broker_session'', ''broker_health'', ''broker_command_envelope'']"

definition VISIBILITY_VALUES :: "string list" where
  "VISIBILITY_VALUES = [''none'', ''hash_only'', ''summary'', ''redacted'', ''full'']"

definition required_docs :: "ustr list" where
  "required_docs =
     map u [''gui-shell-spec-v1.md'', ''adapter-conformance.md'', ''agent-runtime.md'',
     ''authority-strip-conformance.md'', ''content-exposure-policy.md'', ''approval-visibility-boundary.md'',
     ''runtime-catalog.md'']"

definition test_required_docs_exist :: "repo_texts \<Rightarrow> exn + msg list" where
  "test_required_docs_exist tree =
     Inr (missing_from ''docs/specs/{} does not exist'' required_docs (glob_names tree ''docs/specs'' ''.md''))"

definition core_boundary_tokens :: "ustr list" where
  "core_boundary_tokens =
     map u [''Runtime Operation Shell'', ''not a BLUE-TANUKI-specific GUI'',
     ''BLUE-TANUKI is the first reference runtime'', ''Flutter UI layer'', ''Shell Core'', ''Adapter'',
     ''Permission Ledger'', ''Approval Queue'', ''Audit Store'', ''Recovery Center'', ''Rust Native Helper'',
     ''Content Exposure Boundary'', ''Authority Strip'', ''Windows installed smoke tests'',
     ''explicit owner GO'']"

definition test_gui_shell_spec_v1_declares_core_boundaries :: "repo_texts \<Rightarrow> exn + msg list" where
  "test_gui_shell_spec_v1_declares_core_boundaries tree =
     (if \<not> there tree ''docs/specs/gui-shell-spec-v1.md''
      then Inr [Msg ''docs/specs/gui-shell-spec-v1.md does not exist'' []]
      else bindE (read_source tree ''docs/specs/gui-shell-spec-v1.md'') (\<lambda>text.
        Inr (lacks ''docs/specs/gui-shell-spec-v1.md lacks a required token: {}'' core_boundary_tokens text)))"

text \<open>An unreadable fixture is a finding of its own; \<open>caught\<close> is the \<open>except Exception\<close> of the source.\<close>

definition fixture_errors :: "repo_texts \<Rightarrow> string \<Rightarrow> msg list" where
  "fixture_errors tree name =
     (case load_contract_fixture tree name of
        Inl _ \<Rightarrow> [Msg ''examples/contracts/{} cannot be parsed'' [js name]]
      | Inr v \<Rightarrow> flag (\<not> is_dict v) (Msg ''examples/contracts/{} must be a JSON object'' [js name]))"

definition expected_fixtures :: "string list" where
  "expected_fixtures = map (\<lambda>name. name @ ''.valid.json'') REQUIRED_SCHEMA_NAMES"

definition test_contract_fixtures_are_available :: "repo_texts \<Rightarrow> exn + msg list" where
  "test_contract_fixtures_are_available tree =
     (let existing = glob_names tree ''examples/contracts'' ''.valid.json'' in
      Inr (missing_from ''examples/contracts/{} does not exist'' (map u expected_fixtures) existing
         @ concat (map (fixture_errors tree) (sort_key u (filter (\<lambda>n. u n \<in> set existing) expected_fixtures)))))"

text \<open>The longest required name comes first, as in the schema gate.\<close>

definition conformance_bases :: "ustr list" where
  "conformance_bases = sort_key (\<lambda>b. - int (length b)) (map u REQUIRED_SCHEMA_NAMES)"

definition conformance_schema_name :: "ustr \<Rightarrow> ustr" where
  "conformance_schema_name file_name =
     (let stem = remove_suffix (u ''.invalid.json'') file_name in
      case find (\<lambda>base. names_base stem base) conformance_bases of
        Some base \<Rightarrow> base
      | None \<Rightarrow> takeWhile (\<lambda>c. c \<noteq> 95) stem)"

definition test_negative_contract_fixtures_cover_all_schemas :: "repo_texts \<Rightarrow> exn + msg list" where
  "test_negative_contract_fixtures_cover_all_schemas tree =
     (let invalid = glob_names tree ''examples/contracts/invalid'' ''.invalid.json'' in
      Inr (missing_from ''examples/contracts/invalid lacks a negative fixture for {}'' (map u REQUIRED_SCHEMA_NAMES)
             (map conformance_schema_name invalid)
         @ remark (length invalid < length REQUIRED_SCHEMA_NAMES)
             ''the negative contract fixtures must cover every schema''))"

text \<open>\<open>schema["properties"].get(name, {})\<close> and the like, on values of any type\<close>

definition test_adapter_authority_strip_schema :: "repo_texts \<Rightarrow> exn + msg list" where
  "test_adapter_authority_strip_schema tree =
     bindE (load_schema tree ''adapter.schema.json'') (\<lambda>schema.
     bindE (as_dict schema) (\<lambda>d.
     bindE (py_set (dget_or d ''required'' (JArr []))) (\<lambda>required.
     bindE (jitem schema ''properties'') (\<lambda>properties.
     bindE (as_dict properties) (\<lambda>props.
     bindE (jget (dget_or props ''authority_strip'' (JObj [])) ''const'') (\<lambda>const.
       Inr (remark (\<not> py_in (js ''authority_strip'') required) ''adapter.schema.json must require authority_strip''
          @ remark (\<not> is_true const) ''adapter.schema.json must fix authority_strip=true'')))))))"

definition test_content_exposure_contract :: "repo_texts \<Rightarrow> exn + msg list" where
  "test_content_exposure_contract tree =
     bindE (load_schema tree ''content_exposure.schema.json'') (\<lambda>schema.
     bindE (load_contract_fixture tree ''content_exposure.valid.json'') (\<lambda>fixture.
     bindE (jitem schema ''properties'') (\<lambda>properties.
     bindE (jitem properties ''default_visibility'') (\<lambda>default_visibility.
     bindE (jget default_visibility ''const'') (\<lambda>const.
     bindE (jget fixture ''default_visibility'') (\<lambda>stated.
     bindE (jitem properties ''allowed_visibility'') (\<lambda>allowed.
     bindE (jitem allowed ''items'') (\<lambda>members.
     bindE (jitem members ''enum'') (\<lambda>enum.
       Inr (remark (\<not> py_eq const (js ''none'')) ''content exposure: default_visibility must be const none''
          @ remark (\<not> py_eq stated (js ''none'')) ''content exposure: the valid fixture must state none''
          @ remark (\<not> py_eq enum (JArr (map js VISIBILITY_VALUES)))
              ''content exposure: the allowed_visibility enum must keep its fixed order''))))))))))"

definition lacking :: "json \<Rightarrow> json \<Rightarrow> msg \<Rightarrow> exn + msg list" where
  "lacking v container m = bindE (py_contains v container) (\<lambda>b. Inr (flag (\<not> b) m))"

definition test_approval_schema_has_protected_field_sets :: "repo_texts \<Rightarrow> exn + msg list" where
  "test_approval_schema_has_protected_field_sets tree =
     bindE (load_schema tree ''approval.schema.json'') (\<lambda>schema.
     bindE (as_dict schema) (\<lambda>d.
     concatE (\<lambda>name. lacking (js name) (dget_or d ''properties'' (JObj []))
                (Msg ''approval.schema.json lacks {}'' [js name]))
       [''authority_fields'', ''sealed_fields'', ''hidden_fields'', ''sacred_fields'']))"

definition hash_pattern_errors :: "repo_texts \<Rightarrow> string \<Rightarrow> exn + msg list" where
  "hash_pattern_errors tree schema_name =
     bindE (load_schema tree schema_name) (\<lambda>schema.
     bindE (jitem schema ''properties'') (\<lambda>properties.
     bindE (jitem properties ''payload_hash'') (\<lambda>payload_hash.
     bindE (as_dict payload_hash) (\<lambda>d.
       lacking (js ''sha256:'') (dget_or d ''pattern'' (JStr []))
         (Msg ''{}: payload_hash must use a tagged sha256 pattern'' [js schema_name])))))"

definition sha256_tagged :: "ustr \<Rightarrow> ustr" where
  "sha256_tagged payload = sha256_tag (utf8_encode payload)"

definition test_hash_patterns_are_tagged_sha256 :: "repo_texts \<Rightarrow> exn + msg list" where
  "test_hash_patterns_are_tagged_sha256 tree =
     (let sample = sha256_tagged (u ''approval'') in
      bindE (concatE (hash_pattern_errors tree) [''approval.schema.json'', ''audit.schema.json'']) (\<lambda>errors.
        Inr (remark (\<not> starts_with (u ''sha256:'') sample \<or> length sample \<noteq> 71)
               ''the invariant of the sha256_tagged helper failed'' @ errors)))"

definition test_framework_risk_profile_exists :: "repo_texts \<Rightarrow> exn + msg list" where
  "test_framework_risk_profile_exists tree =
     Inr (remark (\<not> there tree ''specs/framework_risk_profile.schema.json'')
            ''framework_risk_profile.schema.json does not exist'')"

definition test_update_fixture_requires_signature :: "repo_texts \<Rightarrow> exn + msg list" where
  "test_update_fixture_requires_signature tree =
     bindE (load_contract_fixture tree ''update.valid.json'') (\<lambda>update.
     bindE (jget update ''signature_required'') (\<lambda>required.
       Inr (remark (\<not> is_true required) ''the valid update fixture does not require a signature'')))"

definition BROKER_REQUIRED_SCHEMAS :: "string list" where
  "BROKER_REQUIRED_SCHEMAS =
     [''ipc_request.schema.json'', ''ipc_response.schema.json'', ''broker_error.schema.json'',
      ''broker_session.schema.json'', ''broker_health.schema.json'', ''broker_command_envelope.schema.json'']"

definition broker_schema_errors :: "repo_texts \<Rightarrow> string \<Rightarrow> exn + msg list" where
  "broker_schema_errors tree name =
     bindE (load_schema tree name) (\<lambda>schema.
     bindE (jget schema ''type'') (\<lambda>type.
     bindE (py_contains (js ''additionalProperties'') schema) (\<lambda>has_policy.
       Inr (flag (\<not> py_eq type (js ''object'')) (Msg ''{} must define an object contract'' [js name])
          @ flag (\<not> has_policy) (Msg ''{} must define an additionalProperties policy'' [js name])))))"

definition test_broker_ipc_contract_schemas_exist :: "repo_texts \<Rightarrow> exn + msg list" where
  "test_broker_ipc_contract_schemas_exist tree =
     (let existing = glob_names tree ''specs'' ''.schema.json'' in
      bindE (concatE (broker_schema_errors tree)
               (sort_key u (filter (\<lambda>n. u n \<in> set existing) BROKER_REQUIRED_SCHEMAS))) (\<lambda>errors.
        Inr (missing_from ''broker IPC schema is missing: {}'' (map u BROKER_REQUIRED_SCHEMAS) existing @ errors)))"

subsection \<open>Imports of the Shell Core\<close>

text \<open>The loop over the lines of every module outside \<open>__pycache__\<close>, with the number of the line.\<close>

definition import_lines :: "tables \<Rightarrow> string \<Rightarrow> string \<Rightarrow> ustr list \<Rightarrow> ustr \<Rightarrow> msg list" where
  "import_lines T package message path text =
     concat (map (\<lambda>(n, line).
         let normalized = lower_case T (strip line) in
         flag (starts_with (u (''import '' @ package)) normalized \<or> starts_with (u (''from '' @ package)) normalized)
           (Msg message [JStr (join_with ''/'' path), JInt (int n)]))
       (enumerate 1 (split_lines [] text)))"

definition shell_core_files :: "repo_texts \<Rightarrow> ustr list list" where
  "shell_core_files tree =
     filter (\<lambda>p. u ''__pycache__'' \<notin> set p) (files_below tree ''packages/shell_core'' ''.py'')"

definition test_shell_core_has_no_flutter_imports :: "tables \<Rightarrow> repo_texts \<Rightarrow> exn + msg list" where
  "test_shell_core_has_no_flutter_imports T tree =
     scan_each tree (shell_core_files tree) (import_lines T ''flutter'' ''{}:{} imports Flutter'')"

definition test_shell_core_has_no_blue_tanuki_internal_imports :: "tables \<Rightarrow> repo_texts \<Rightarrow> exn + msg list" where
  "test_shell_core_has_no_blue_tanuki_internal_imports T tree =
     scan_each tree (shell_core_files tree) (import_lines T ''blue_tanuki'' ''{}:{} imports BLUE-TANUKI internals'')"

subsection \<open>Installer scripts\<close>

definition export_tokens :: "ustr list" where
  "export_tokens =
     [u ''GUI_SHELL_SETUP_DOCTOR_EXPORT_JSON'', u ''GUI_SHELL_SETUP_DOCTOR_CONTEXT_JSON'',
     u ''installed_app_machine_readable_export'', [39] @ u ''formal_product_evidence'' @ [39] @ u '': true'',
     [39] @ u ''product_generated'' @ [39] @ u '': true'',
     [39] @ u ''collector_derives_checks'' @ [39] @ u '': false'',
     [39] @ u ''synthetic'' @ [39] @ u '': false'',
     [39] @ u ''installer_grants_authority'' @ [39] @ u '': false'',
     [39] @ u ''installer_silently_approves_permissions'' @ [39] @ u '': false'',
     u ''gui_shell_desktop_installed_first_run'', u ''_ensureInstalledFirstRunConfig'']"

definition export_checks :: "ustr list" where
  "export_checks =
     map u [''windows.installed_app_path'', ''windows.artifact_hash'', ''first_run.config_created'',
     ''first_run.audit_dir_writable'', ''setup_doctor.ran_from_installed_app_path'',
     ''setup_doctor.runtime_connection'', ''setup_doctor.authority_boundary'',
     ''setup_doctor.network_public_bind'', ''setup_doctor.recovery_instruction'',
     ''setup_doctor.audit_storage'']"

definition collector_tokens :: "ustr list" where
  "collector_tokens =
     [u ''GUI_SHELL_SETUP_DOCTOR_EXPORT_JSON'', u ''GUI_SHELL_SETUP_DOCTOR_CONTEXT_JSON'', [0x30A4, 0x30F3,
     0x30B9, 0x30C8, 0x30FC, 0x30EB, 0x6E08, 0x307F] @ u '' app '' @ [0x304C, 0x74B0, 0x5883, 0x8A3A, 0x65AD,
     0x306E, 0x88FD, 0x54C1, 0x51FA, 0x529B, 0x3092, 0x66F8, 0x304D, 0x51FA, 0x3057, 0x307E, 0x305B, 0x3093,
     0x3067, 0x3057, 0x305F], u ''setup_doctor_context'']"

definition test_installed_app_setup_doctor_product_export_contract_exists :: "repo_texts \<Rightarrow> exn + msg list" where
  "test_installed_app_setup_doctor_product_export_contract_exists tree =
     (if \<not> there tree ''apps/desktop_flutter/lib/services/setup_doctor_export.dart''
      then Inr [Msg ''the Setup Doctor product export helper of the installed app does not exist'' []]
      else
        bindE (read_source tree ''apps/desktop_flutter/lib/services/setup_doctor_export.dart'') (\<lambda>export.
        bindE (read_source tree ''apps/desktop_flutter/lib/main.dart'') (\<lambda>main.
        bindE (read_source tree ''installer/windows/collect_installed_smoke.ps1'') (\<lambda>collector.
        bindE (read_source tree ''installer/windows/collect_setup_doctor.ps1'') (\<lambda>probe.
          Inr (lacks ''the Setup Doctor product export lacks a token: {}'' export_tokens export
             @ lacks ''the Setup Doctor product export lacks a required check id: {}'' export_checks export
             @ needs ''the desktop main does not call the Setup Doctor product export helper''
                 (u ''writeSetupDoctorProductExportIfRequested(client.getSnapshot())'') main
             @ lacks ''the installed smoke collector lacks a product export token: {}'' collector_tokens collector
             @ remark (occurs (u ''formal_product_evidence'') probe
                    \<and> \<not> occurs (u ''formal_product_evidence = $false'') probe)
                 ''the external Setup Doctor probe is no longer clearly informal''))))))"

definition test_windows_stage_installer_powershell_boolean_grouping :: "repo_texts \<Rightarrow> exn + msg list" where
  "test_windows_stage_installer_powershell_boolean_grouping tree =
     bindE (read_source tree ''installer/windows/stage_installed_app.ps1'') (\<lambda>text.
       Inr (refuses ''stage_installed_app.ps1 passes -and as an argument of Test-Path''
              (u ''Test-Path $InstallRoot -and'') text
          @ needs ''stage_installed_app.ps1 lacks the grouped Test-Path condition''
              (u ''if ((Test-Path $InstallRoot) -and'') text))"

definition test_windows_installed_smoke_preserves_trap_failure :: "repo_texts \<Rightarrow> exn + msg list" where
  "test_windows_installed_smoke_preserves_trap_failure tree =
     bindE (read_source tree ''installer/windows/collect_installed_smoke.ps1'') (\<lambda>text.
       Inr (needs ''the trap of collect_installed_smoke.ps1 does not keep the original failure''
              (u ''trap {'' @ 10 # u ''  $failure = $_'') text
          @ refuses ''collect_installed_smoke.ps1 loses the diagnostic cause with a bare throw''
              (10 # u ''  throw'' @ [10]) text
          @ needs ''collect_installed_smoke.ps1 does not rethrow the captured failure'' (u ''throw $failure'') text))"

definition test_windows_installed_smoke_automation_names_are_materialized :: "repo_texts \<Rightarrow> exn + msg list" where
  "test_windows_installed_smoke_automation_names_are_materialized tree =
     bindE (read_source tree ''installer/windows/collect_installed_smoke.ps1'') (\<lambda>text.
       Inr (refuses ''collect_installed_smoke.ps1 pipes UIAutomation names straight into JSON evidence''
              (u ''automation_names = @($names | Select-Object'') text
          @ needs ''collect_installed_smoke.ps1 does not materialise automation names before the JSON evidence''
              (u ''$automationNames = New-Object System.Collections.Generic.List[string]'') text
          @ needs ''collect_installed_smoke.ps1 does not serialise the materialised automation names''
              (u ''automation_names = @($automationNameValues)'') text))"

definition direct_uia_tokens :: "ustr list" where
  "direct_uia_tokens =
     map u [''$element.Current.Name'', ''$element.Current.AutomationId'',
     ''$element.Current.ControlType.ProgrammaticName'', ''$window.Current.Name'']"

definition materialized_uia_tokens :: "ustr list" where
  "materialized_uia_tokens =
     map u [''$windowFound = [bool]($observedElements.Count -gt 0)'',
     ''$automationNameValues = @($automationNames.ToArray())'',
     ''$observedElementValues = @($observedElements.ToArray())'',
     ''$evidenceBundleFileValues = @($evidenceBundleFiles.ToArray())'', ''window_found = $windowFound'',
     ''observed_elements = @($observedElementValues)'',
     ''evidence_bundle_files = @($evidenceBundleFileValues)'', ''GUI_SHELL_SURFACE_SEMANTICS_EXPORT_JSON'',
     ''surface_semantics_export.json'']"

definition test_windows_installed_smoke_uia_properties_are_stringified :: "repo_texts \<Rightarrow> exn + msg list" where
  "test_windows_installed_smoke_uia_properties_are_stringified tree =
     bindE (read_source tree ''installer/windows/collect_installed_smoke.ps1'') (\<lambda>text.
       Inr (has_any ''collect_installed_smoke.ps1 uses a raw UIAutomation property in the evidence: {}'' direct_uia_tokens text
          @ needs ''collect_installed_smoke.ps1 does not materialise the root window title''
              (u ''$rootWindowTitle = '' @ [34, 34]) text
          @ needs ''collect_installed_smoke.ps1 does not serialise the materialised root window title''
              (u ''window_title = $rootWindowTitle'') text
          @ lacks ''collect_installed_smoke.ps1 lacks a materialised UIAutomation token: {}'' materialized_uia_tokens text))"

definition anchor_collector_tokens :: "ustr list" where
  "anchor_collector_tokens =
     [u ''audit_anchor_external_tamper_evidence.json'', u ''key_anchor_log_same_user_rewrite_mitigated'',
     u ''windows_acl_verified'', u ''dpapi_verified'', u ''external_anchor_verified'',
     u ''signed_evidence_verified'', u ''administrator_root_resistance_claimed = $false'',
     u ''source_kind = $sourceKind'',
     u ''sha256_scope = '' @ [34] @ u ''probe_material_without_self_reference'' @ [34],
     u ''[System.Text.UTF8Encoding]::new($false)'']"

definition anchor_integration_tokens :: "ustr list" where
  "anchor_integration_tokens =
     [u ''[string]$AuditAnchorEvidenceJson'', u ''audit_anchor_external_tamper_evidence'',
     u ''field_provenance'' @ [34] @ u '']['' @ [34] @ u ''audit_anchor.external_tamper_evidence'',
     u ''New-EvidenceFileRecord -Kind '' @ [34] @ u ''audit_anchor_external_tamper_evidence'' @ [34]]"

definition test_windows_audit_anchor_proof_collector_is_connected :: "repo_texts \<Rightarrow> exn + msg list" where
  "test_windows_audit_anchor_proof_collector_is_connected tree =
     (if \<not> there tree ''installer/windows/collect_audit_anchor_proof.ps1''
      then Inr [Msg ''collect_audit_anchor_proof.ps1 does not exist'' []]
      else
        bindE (read_source tree ''installer/windows/collect_audit_anchor_proof.ps1'') (\<lambda>collector.
        bindE (read_source tree ''installer/windows/collect_installed_smoke.ps1'') (\<lambda>installed.
          Inr (lacks ''the audit anchor proof collector lacks a token: {}'' anchor_collector_tokens collector
             @ lacks ''the installed smoke collector lacks an audit anchor integration token: {}''
                 anchor_integration_tokens installed))))"

subsection \<open>Release blockers and packaging\<close>

definition active_blocker :: "json \<Rightarrow> bool" where
  "active_blocker v =
     (case v of
        JObj d \<Rightarrow> is_true (dget d ''active'') \<and> py_eq (dget d ''status'') (js ''unresolved'')
      | _ \<Rightarrow> False)"

definition active_blocker_errors :: "obj \<Rightarrow> msg list" where
  "active_blocker_errors d =
     flag (\<not> py_eq (dget d ''classification'') (js ''release_blocker''))
       (Msg ''active blocker {} is not classified release_blocker'' [dget d ''name''])
     @ flag (\<not> is_true (dget d ''blocks_release'')) (Msg ''active blocker {} does not block the release'' [dget d ''name''])"

definition gate_registry_tokens :: "ustr list" where
  "gate_registry_tokens =
     [u ''RELEASE_BLOCKERS_REGISTRY'', u ''unresolved_active_blockers'',
     u ''strict release'' @ [0x306E] @ u ''active blocker'' @ [0x304C, 0x672A, 0x89E3, 0x6C7A]]"

definition test_release_blocker_registry_controls_strict_release :: "repo_texts \<Rightarrow> exn + msg list" where
  "test_release_blocker_registry_controls_strict_release tree =
     (if \<not> there tree ''release_blockers.registry.json''
      then Inr [Msg ''release_blockers.registry.json does not exist'' []]
      else
        bindE (bindE (read_source tree ''release_blockers.registry.json'') py_loads) (\<lambda>data.
        bindE (jget data ''blockers'') (\<lambda>blockers.
        case blockers of
          JArr entries \<Rightarrow>
            (let active = concat (map (\<lambda>v. case v of JObj d \<Rightarrow> [d] | _ \<Rightarrow> []) (filter active_blocker entries)) in
             bindE (read_source tree ''tooling/release_gate_check.py'') (\<lambda>gate.
               Inr (remark (active = []) ''the release blocker registry has no active or unresolved blocker''
                  @ concat (map active_blocker_errors active)
                  @ lacks ''release_gate_check.py lacks a structured registry token: {}'' gate_registry_tokens gate
                  @ refuses ''release_gate_check.py still uses raw release_blocker text as a strict blocker''
                      (34 # u ''release_blocker'' @ 34 # u '' in combined'') gate)))
        | _ \<Rightarrow> Inr [Msg ''the release blocker registry has no list of blockers'' []])))"

definition gate_tree :: "repo_texts \<Rightarrow> tree" where
  "gate_tree tree p = map_option universal_newlines (tree_text tree (path_names (path_of p)))"

definition canonical_blockers :: "ustr list" where
  "canonical_blockers =
     map u [''windows_evidence_provenance_isolation'', ''windows_installer_first_run_smoke'',
     ''windows_setup_doctor_smoke'', ''windows_broker_installed_smoke'',
     ''audit_anchor_external_tamper_evidence_proof'', ''owner_go'']"

definition test_release_facing_docs_sync_release_blockers_to_registry :: "tables \<Rightarrow> repo_texts \<Rightarrow> exn + msg list" where
  "test_release_facing_docs_sync_release_blockers_to_registry T tree =
     (let registry = gate_tree tree (u ''release_blockers.registry.json'') in
      bindE (release_blocker_doc_sync_errors T (gate_tree tree) registry) (\<lambda>errors.
      bindE (registry_blocker_names registry) (\<lambda>names.
        Inr (errors
          @ concat (map (\<lambda>expected. flag (expected \<notin> set names)
                (Msg ''the release blocker registry lacks a canonical blocker: {}'' [JStr expected])) canonical_blockers)
          @ concat (map (\<lambda>relative. flag (\<not> there tree relative)
                (Msg ''a release-facing doc is not in the sync scan: {}'' [js relative])) CURRENT_FACING_RELEASE_DOCS)))))"

definition test_release_gate_scans_ipc_threat_model :: "repo_texts \<Rightarrow> exn + msg list" where
  "test_release_gate_scans_ipc_threat_model tree =
     bindE (read_source tree ''tooling/release_gate_check.py'') (\<lambda>text.
       Inr (needs ''release_gate_check.py does not scan the IPC threat model''
              (u ''docs/security/IPC_THREAT_MODEL.md'') text))"

definition packaging_tokens :: "ustr list" where
  "packaging_tokens =
     [u ''DEFAULT_SUBPROCESS_TIMEOUT_SECONDS = 120'', u ''UTF8_GOVERNANCE_PATH_ALLOWLIST'',
     u ''timeout=timeout_seconds'', u ''subprocess.TimeoutExpired'', [0x304C, 0x6B21, 0x306E, 0x79D2, 0x6570,
     0x5F8C, 0x306B, 0x30BF, 0x30A4, 0x30E0, 0x30A2, 0x30A6, 0x30C8], u ''unzip'', u ''LC_ALL'',
     u ''tooling/manifest.py'', u ''run_conformance_skeleton.py'', u ''release_gate_check.py'']"

text \<open>\<open>git_files\<close> is the standard output of \<open>git ls-files\<close>; paths that do not exist are dropped.\<close>

definition test_packaging_portability_checker_exists :: "workspace \<Rightarrow> ustr \<Rightarrow> repo_texts \<Rightarrow> exn + msg list" where
  "test_packaging_portability_checker_exists ws git_files tree =
     bindE (if \<not> there tree ''tooling/packaging_portability_check.py''
            then Inr [Msg ''tooling/packaging_portability_check.py does not exist'' []]
            else bindE (read_source tree ''tooling/packaging_portability_check.py'') (\<lambda>text.
                   Inr (lacks ''the packaging portability checker lacks a token: {}'' packaging_tokens text))) (\<lambda>e1.
     bindE (portable_path_errors ws
              (filter (ws_exists ws) (map (ws_at ws) (split_lines [] (universal_newlines git_files))))) (\<lambda>e2.
     bindE (read_source tree ''tooling/validate_all.py'') (\<lambda>text.
       Inr (e1 @ e2 @ needs ''validate_all.py does not run the packaging portability check''
                         (u ''packaging_portability_check'') text))))"

definition governance_paths :: "ustr list" where
  "governance_paths =
     [[0x898F, 0x5B9A] @ u ''/00_'' @ [0x65E5, 0x672C, 0x8A9E, 0x57FA, 0x5E95, 0x898F, 0x5B9A] @ u ''.md'',
      [0x898F, 0x5B9A] @ u ''/'' @ [0x6B63, 0x672C, 0x7D22, 0x5F15] @ u ''.json'',
      [0x898F, 0x5B9A] @ u ''/'' @ [0x65E5, 0x672C, 0x8A9E, 0x57FA, 0x5E95, 0x4F8B, 0x5916] @ u ''.json'',
      u ''tooling/'' @ [0x65E5, 0x672C, 0x8A9E, 0x57FA, 0x5E95, 0x76E3, 0x67FB] @ u ''.py'']"

definition unregistered_path :: ustr where
  "unregistered_path = [0x898F, 0x5B9A] @ u ''/'' @ [0x672A, 0x767B, 0x9332, 0x898F, 0x5B9A] @ u ''.md''"

definition control_path :: ustr where
  "control_path = u ''docs/control'' @ 10 # u ''path.md''"

definition test_packaging_portability_utf8_governance_allowlist_is_exact :: "workspace \<Rightarrow> exn + msg list" where
  "test_packaging_portability_utf8_governance_allowlist_is_exact ws =
     bindE (portable_path_errors ws (map (ws_at ws) governance_paths)) (\<lambda>allowlisted.
     bindE (portable_path_errors ws [ws_at ws unregistered_path]) (\<lambda>unregistered.
     bindE (portable_path_errors ws [ws_at ws control_path]) (\<lambda>control.
       Inr ((if allowlisted \<noteq> []
             then [Within ''a path of the exact UTF-8 governance allowlist was refused: {}'' [] (Joined allowlisted)] else [])
          @ remark (unregistered = []) ''an unregistered non-ASCII path was allowed''
          @ remark (control = []) ''a path with a control character was allowed''))))"

subsection \<open>The Rust helper and the broker\<close>

definition RUST_HELPER_REQUIRED_SOURCES :: "ustr list" where
  "RUST_HELPER_REQUIRED_SOURCES =
     map u [''lib.rs'', ''process.rs'', ''filesystem.rs'', ''network.rs'', ''diagnostics.rs'',
     ''update_verification.rs'', ''audit_hash.rs'', ''ipc.rs'', ''main.rs'']"

definition BROKER_REQUIRED_SOURCES :: "ustr list" where
  "BROKER_REQUIRED_SOURCES =
     map u [''mod.rs'', ''protocol.rs'', ''audit.rs'']"

definition helper_contract_tokens :: "ustr list" where
  "helper_contract_tokens =
     map u [''HelperResponse'', ''HelperError'', ''ok'', ''operation'', ''result'', ''diagnostics'', ''error'']"

definition helper_forbidden :: "ustr list" where
  "helper_forbidden =
     map u [''std::process::Command'', ''std::fs::read_to_string'', ''std::fs::read('', ''std::fs::write'',
     ''reqwest::'', ''ureq::'']"

definition test_rust_helper_required_sources_exist :: "repo_texts \<Rightarrow> exn + msg list" where
  "test_rust_helper_required_sources_exist tree =
     Inr (missing_from ''native/rust_helper/src/{} does not exist'' RUST_HELPER_REQUIRED_SOURCES
            (glob_names tree ''native/rust_helper/src'' ''.rs''))"

definition test_rust_helper_contract_shape_exists :: "repo_texts \<Rightarrow> exn + msg list" where
  "test_rust_helper_contract_shape_exists tree =
     bindE (read_source tree ''native/rust_helper/src/lib.rs'') (\<lambda>text.
       Inr (lacks ''the Rust helper contract lacks a token: {}'' helper_contract_tokens text))"

definition test_rust_helper_does_not_expose_hidden_authority_paths :: "repo_texts \<Rightarrow> exn + msg list" where
  "test_rust_helper_does_not_expose_hidden_authority_paths tree =
     scan_each tree (files_below tree ''native/rust_helper/src'' ''.rs'')
       (forbids ''{} uses a forbidden helper authority pattern: {}'' helper_forbidden)"

definition broker_docs :: "string list" where
  "broker_docs =
     [''docs/architecture/RUST_BROKER_IPC_PROTOCOL.md'', ''docs/implementation/RUST_SECURITY_BROKER_MIGRATION_PLAN.md'',
      ''docs/security/IPC_THREAT_MODEL.md'']"

definition broker_doc_errors :: "repo_texts \<Rightarrow> string \<Rightarrow> exn + msg list" where
  "broker_doc_errors tree relative =
     (if \<not> there tree relative then Inr [Msg ''{} does not exist'' [js relative]]
      else bindE (read_source tree relative) (\<lambda>text.
        Inr (map (\<lambda>token. Msg ''{} lacks a broker governance token: {}'' [js relative, JStr token])
               (absent (map u [''Rust Security Broker'', ''release_blocker'', ''FFI'']) text))))"

definition test_broker_boundary_docs_exist :: "repo_texts \<Rightarrow> exn + msg list" where
  "test_broker_boundary_docs_exist tree = concatE (broker_doc_errors tree) broker_docs"

definition test_rust_broker_skeleton_exists :: "repo_texts \<Rightarrow> exn + msg list" where
  "test_rust_broker_skeleton_exists tree =
     bindE (concatE (\<lambda>relative. bindE (read_source tree relative) (\<lambda>text.
              Inr (flag (\<not> occurs (u ''#![forbid(unsafe_code)]'') text) (Msg ''{} must forbid unsafe code'' [js relative]))))
            [''native/rust_helper/src/main.rs'', ''native/rust_helper/src/lib.rs'']) (\<lambda>errors.
       Inr (missing_from ''native/rust_helper/src/broker/{} does not exist'' BROKER_REQUIRED_SOURCES
              (glob_names tree ''native/rust_helper/src/broker'' ''.rs'') @ errors))"

definition broker_protocol_tokens :: "ustr list" where
  "broker_protocol_tokens =
     map u [''BrokerRequestEnvelope'', ''BrokerResponse'', ''BrokerStatus::Rejected'',
     ''BrokerStatus::Suspended'', ''from_json_str'', ''handle_json'', ''to_json_string'',
     ''serde_json::from_str'', ''broker_request_malformed'', ''broker_payload_hash_invalid'',
     ''broker_payload_hash_mismatch'', ''canonical_payload_hash'', ''broker_issued_at_invalid'',
     ''broker_persistence_unavailable'', ''broker_stale_session'', ''broker_replay_detected'',
     ''broker_authority_metadata_rejected'', ''broker_command_dispatch_disabled'',
     ''metadata_attempts_authority'', ''normalize_key'', ''UnicodeNormalization'', ''nfkc'', ''boundary_role'',
     ''authority_cutover_status'', ''BrokerPersistenceMode'', ''BrokerStateStore'', ''in_memory_skeleton'',
     ''in_memory_session_only'', ''session_persistence'', ''persistence_required'', ''persistence_ready'',
     ''persistent audit, replay, and session state'', ''REQUEST_FRESHNESS_WINDOW_SECONDS'',
     ''parse_issued_at_epoch_seconds'']"

definition broker_audit_tokens :: "ustr list" where
  "broker_audit_tokens =
     map u [''BrokerAuditLog'', ''append'', ''previous_event_hash'', ''event_hash'', ''payload_hash'']"

definition broker_store_tokens :: "ustr list" where
  "broker_store_tokens =
     map u [''audit_anchor.json'', ''audit_anchor.key'', ''AuditAnchorRecord'', ''anchor_hmac'',
     ''verify_audit_anchor'', ''write_audit_anchor'', ''recorded_at_epoch_seconds'',
     ''REPLAY_NONCE_RETENTION_SECONDS'', ''MAX_REPLAY_NONCE_RECORDS'', ''compact_replay_nonces'']"

definition symlink_tokens :: "ustr list" where
  "symlink_tokens =
     map u [''symlink_metadata'', ''canonicalize'', ''secret_path_detected'',
     ''filesystem_secret_path_diagnostic_blocked'', ''filesystem_diagnostic_detects_symlink_to_secret'']"

definition test_rust_broker_rejection_audit_contract_shape :: "repo_texts \<Rightarrow> exn + msg list" where
  "test_rust_broker_rejection_audit_contract_shape tree =
     bindE (read_source tree ''native/rust_helper/src/broker/protocol.rs'') (\<lambda>protocol.
     bindE (read_source tree ''native/rust_helper/src/broker/audit.rs'') (\<lambda>audit.
       Inr (lacks ''the broker protocol lacks a token: {}'' broker_protocol_tokens protocol
          @ lacks ''the broker audit lacks a token: {}'' broker_audit_tokens audit)))"

definition test_rust_broker_audit_anchor_and_nonce_compaction_present :: "repo_texts \<Rightarrow> exn + msg list" where
  "test_rust_broker_audit_anchor_and_nonce_compaction_present tree =
     bindE (read_source tree ''native/rust_helper/src/broker/store.rs'') (\<lambda>store.
     bindE (read_source tree ''native/rust_helper/src/audit_hash.rs'') (\<lambda>hash.
       Inr (lacks ''the broker store lacks an audit anchor or nonce token: {}'' broker_store_tokens store
          @ needs ''audit_hash.rs lacks the HMAC helper'' (u ''hmac_sha256_tagged'') hash)))"

definition test_rust_filesystem_diagnostic_detects_secret_symlink :: "repo_texts \<Rightarrow> exn + msg list" where
  "test_rust_filesystem_diagnostic_detects_secret_symlink tree =
     bindE (read_source tree ''native/rust_helper/src/filesystem.rs'') (\<lambda>text.
       Inr (lacks ''the filesystem diagnostic lacks a symlink secret token: {}'' symlink_tokens text))"

subsection \<open>The desktop application\<close>

definition ffi_bridge_tokens :: "ustr list" where
  "ffi_bridge_tokens =
     map u [''Process.run'', ''Process.start'', ''Process.killPid'', ''dart:ffi'', ''flutter_rust_bridge'',
     ''MethodChannel('']"

definition forbidden_assignments :: "ustr list" where
  "forbidden_assignments =
     [u ''adapter_can_grant_permission: true'', u ''adapter_can_approve: true'', u ''metadata_trusted: true'',
     [39] @ u ''full_payload'' @ [39]]"

definition DESKTOP_FLUTTER_REQUIRED_FILES :: "string list" where
  "DESKTOP_FLUTTER_REQUIRED_FILES =
     [''lib/main.dart'', ''lib/screens/dashboard.dart'', ''lib/screens/trust_center.dart'',
     ''lib/screens/authority_map.dart'', ''lib/screens/setup_doctor.dart'',
     ''lib/screens/runtime_center.dart'', ''lib/screens/agent_center.dart'',
     ''lib/screens/permission_center.dart'', ''lib/screens/approval_center.dart'',
     ''lib/screens/audit_viewer.dart'', ''lib/screens/recovery_center.dart'', ''lib/screens/settings.dart'',
     ''lib/services/shell_core_client.dart'', ''lib/services/surface_semantics_export.dart'',
     ''lib/models/generated_contracts.dart'']"

definition surface_labels :: "ustr list" where
  "surface_labels =
     map u [''Dashboard'', ''NavigationRail'', ''Runtime Status'', ''Invariant Status'']"

definition test_desktop_flutter_does_not_spawn_python_or_use_ffi_authority_bridge :: "repo_texts \<Rightarrow> exn + msg list" where
  "test_desktop_flutter_does_not_spawn_python_or_use_ffi_authority_bridge tree =
     scan_each tree (desktop_lib_files tree) (forbids ''{} contains a forbidden runtime bridge token: {}'' ffi_bridge_tokens)"

definition test_desktop_flutter_required_files_exist :: "repo_texts \<Rightarrow> exn + msg list" where
  "test_desktop_flutter_required_files_exist tree =
     Inr (absent_files tree ''apps/desktop_flutter/'' DESKTOP_FLUTTER_REQUIRED_FILES)"

definition test_desktop_flutter_keeps_authority_in_shell_core_client :: "repo_texts \<Rightarrow> exn + msg list" where
  "test_desktop_flutter_keeps_authority_in_shell_core_client tree =
     bindE (scan_each tree (desktop_lib_files tree)
              (forbids ''{} contains a forbidden UI authority pattern: {}'' forbidden_assignments)) (\<lambda>errors.
     bindE (client_text tree) (\<lambda>client.
       Inr (errors
          @ needs ''the desktop mock client does not show the invariant status of the Shell Core''
              (u ''full_payload_projected_without_full_visibility'' @ 39 # u '': false'') client
          @ refuses ''the desktop local client is still an alias of the mock''
              (u ''factory ShellCoreClient.local() => ShellCoreClient.mock()'') client
          @ needs ''the desktop local client does not load the structured snapshot JSON'' (u ''ShellSnapshot.fromJson'') client)))"

text \<open>\<open>re.findall(r"SetWindowText\s*\([^;]*;", text)\<close>\<close>

definition window_text_block :: "ustr \<Rightarrow> ustr option" where
  "window_text_block s =
     Option.bind (eat (u ''SetWindowText'') s) (\<lambda>r1.
     Option.bind (eat (u ''('') (dropWhile is_space r1)) (\<lambda>r2.
     case dropWhile (\<lambda>c. c \<noteq> 59) r2 of [] \<Rightarrow> None | _ # rest \<Rightarrow> Some (take (length s - length rest) s)))"

fun set_window_text_blocks :: "ustr \<Rightarrow> ustr list" where
  "set_window_text_blocks [] = []"
| "set_window_text_blocks (c # s) =
     (case window_text_block (c # s) of
        None \<Rightarrow> set_window_text_blocks s
      | Some block \<Rightarrow> block # set_window_text_blocks (drop (length block - 1) s))"

definition block_errors :: "ustr \<Rightarrow> msg list" where
  "block_errors block =
     (let labels = found surface_labels block in
      flag (labels \<noteq> []) (Msg ''SetWindowText of the Windows runner holds required surface labels: {}'' [listing labels]))"

definition test_desktop_flutter_windows_runner_rejects_native_surface_aggregate_injection
    :: "repo_texts \<Rightarrow> exn + msg list" where
  "test_desktop_flutter_windows_runner_rejects_native_surface_aggregate_injection tree =
     (if \<not> there tree ''apps/desktop_flutter/windows/runner/flutter_window.cpp''
      then Inr [Msg ''the Windows Flutter runner does not exist'' []]
      else bindE (read_source tree ''apps/desktop_flutter/windows/runner/flutter_window.cpp'') (\<lambda>text.
        Inr (refuses ''the Windows runner holds the forbidden aggregate native surface title''
               (u ''GUI Shell Dashboard NavigationRail Runtime Status Invariant Status'') text
           @ concat (map block_errors (set_window_text_blocks text)))))"

definition surface_identifiers :: "(ustr \<times> ustr) list" where
  "surface_identifiers =
     [(u ''Dashboard'', u ''gui_shell.surface.dashboard''),
      (u ''NavigationRail'', u ''gui_shell.surface.navigation_rail''),
      (u ''Runtime Status'', u ''gui_shell.surface.runtime_status''),
      (u ''Invariant Status'', u ''gui_shell.surface.invariant_status'')]"

definition surface_errors :: "ustr \<Rightarrow> ustr \<Rightarrow> ustr \<times> ustr \<Rightarrow> msg list" where
  "surface_errors shared main entry =
     (case entry of (label, identifier) \<Rightarrow>
        flag (\<not> occurs identifier shared) (Msg ''{} has no surface semantics identifier'' [JStr label])
        @ flag (\<not> occurs label shared \<and> \<not> occurs label main) (Msg ''desktop surface label is missing: {}'' [JStr label]))"

definition test_desktop_flutter_exposes_individual_surface_semantics_identifiers :: "repo_texts \<Rightarrow> exn + msg list" where
  "test_desktop_flutter_exposes_individual_surface_semantics_identifiers tree =
     bindE (read_source tree ''apps/desktop_flutter/lib/screens/shared.dart'') (\<lambda>shared.
     bindE (read_source tree ''apps/desktop_flutter/lib/main.dart'') (\<lambda>main.
     bindE (read_source tree ''apps/desktop_flutter/test/widget_test.dart'') (\<lambda>widget_test.
       Inr (concat (map (surface_errors shared main) surface_identifiers)
          @ remark (\<not> occurs (u ''SurfaceSemantics('') main \<or> \<not> occurs (dart ''evidenceLabel: `NavigationRail`'') main)
              ''SurfaceSemantics does not show the stable evidence id of NavigationRail''
          @ remark (\<not> occurs (u ''bySemanticsIdentifier(surfaceSemanticsIdentifier(label))'') widget_test
                 \<and> (\<not> occurs (u ''surfaceSemanticsIdentifier(label)'') widget_test
                    \<or> \<not> occurs (u ''properties.identifier == identifier'') widget_test))
              ''the desktop widget test does not check the semantics identifier of each surface''))))"

definition baseline_main_tokens :: "ustr list" where
  "baseline_main_tokens =
     map u [''runZonedGuarded'', ''PlatformDispatcher.instance.onError'', ''ErrorWidget.builder'',
     ''GuiShellFatalErrorScreen'', ''themeMode: ThemeMode.system'',
     ''darkTheme: _buildShellTheme(Brightness.dark)'', ''kGuiShellProductTitle'']"

definition baseline_win32_tokens :: "ustr list" where
  "baseline_win32_tokens =
     map u [''WM_GETMINMAXINFO'', ''kMinWindowWidth = 1024'', ''kMinWindowHeight = 640'']"

definition baseline_linux_tokens :: "ustr list" where
  "baseline_linux_tokens =
     [u ''gtk_header_bar_set_title(header_bar, '' @ [34] @ u ''GUI Shell'' @ [34] @ u '')'',
     u ''gtk_window_set_title(window, '' @ [34] @ u ''GUI Shell'' @ [34] @ u '')'',
     u ''gtk_window_set_default_size(window, 1280, 800)'',
     u ''gtk_widget_set_size_request(GTK_WIDGET(window), 1024, 640)'']"

definition baseline_widget_tokens :: "ustr list" where
  "baseline_widget_tokens =
     [u ''GUI Shell'' @ [0x30C7, 0x30B9, 0x30AF, 0x30C8, 0x30C3, 0x30D7, 0x30A2, 0x30D7, 0x30EA, 0x304C,
     0x88FD, 0x54C1, 0x57FA, 0x6E96, 0x306E, 0x5916, 0x67A0, 0x3092, 0x6301, 0x3064], u ''ThemeMode.system'']"

definition operation_surfaces :: "ustr list" where
  "operation_surfaces =
     [u ''TrustCenter'', u ''AuthorityMap'', [0x30A2, 0x30C0, 0x30D7, 0x30BF, 0x30FC, 0x53F0, 0x5E33], [0x8A31,
     0x53EF, 0x5DEE, 0x5206], [0x554F, 0x984C, 0x4E00, 0x89A7], [0x8A3C, 0x62E0, 0x30BB, 0x30F3, 0x30BF,
     0x30FC], [0x30B3, 0x30DE, 0x30F3, 0x30C9, 0x30D1, 0x30EC, 0x30C3, 0x30C8], [0x4E8B, 0x8C61, 0x3092,
     0x30B3, 0x30D4, 0x30FC, 0xFF0F] @ u ''JSONL'' @ [0x3092, 0x66F8, 0x304D, 0x51FA, 0x3057, 0xFF0F, 0x9396,
     0x3092, 0x691C, 0x8A3C], [0x4E8B, 0x524D, 0x78BA, 0x8A8D], u ''ShellStatusBar'']"

definition agent_center_surfaces :: "ustr list" where
  "agent_center_surfaces =
     [[0x4F5C, 0x696D, 0x9818, 0x57DF], [0x30BF, 0x30B9, 0x30AF], [0x5909, 0x66F4, 0x30D5, 0x30A1, 0x30A4,
     0x30EB], [0x9053, 0x5177, 0x547C, 0x51FA, 0x3057], [0x30B7, 0x30A7, 0x30EB, 0x30B3, 0x30DE, 0x30F3,
     0x30C9], [0x8A66, 0x9A13, 0x72B6, 0x614B], [0x5DEE, 0x5206, 0x6982, 0x8981], [0x4FDD, 0x7559, 0x4E2D,
     0x306E, 0x627F, 0x8A8D], [0x5DFB, 0x623B, 0x3057, 0x5019, 0x88DC], [0x76E3, 0x67FB, 0x30EA, 0x30F3,
     0x30AF]]"

definition test_desktop_flutter_product_baseline_chrome_exists :: "repo_texts \<Rightarrow> exn + msg list" where
  "test_desktop_flutter_product_baseline_chrome_exists tree =
     bindE (read_source tree ''apps/desktop_flutter/lib/main.dart'') (\<lambda>main.
     bindE (read_source tree ''apps/desktop_flutter/windows/runner/main.cpp'') (\<lambda>windows_main.
     bindE (read_source tree ''apps/desktop_flutter/windows/runner/win32_window.cpp'') (\<lambda>win32.
     bindE (read_source tree ''apps/desktop_flutter/linux/runner/my_application.cc'') (\<lambda>linux.
     bindE (read_source tree ''apps/desktop_flutter/test/widget_test.dart'') (\<lambda>widget_test.
       Inr (lacks ''the desktop product baseline lacks a token: {}'' baseline_main_tokens main
          @ needs ''the product window title of the Windows runner is not GUI Shell''
              (u ''window.Create(L'' @ [34] @ u ''GUI Shell'' @ [34] @ u '', origin, size)'') windows_main
          @ needs ''the default window size of the Windows runner is not 1280x800''
              (u ''Win32Window::Size size(1280, 800)'') windows_main
          @ lacks ''the minimum size guard of the Windows runner lacks a token: {}'' baseline_win32_tokens win32
          @ lacks ''the window baseline of the Linux runner lacks a token: {}'' baseline_linux_tokens linux
          @ lacks ''the desktop widget baseline test lacks a token: {}'' baseline_widget_tokens widget_test))))))"

definition operation_files :: "string list" where
  "operation_files =
     [''main.dart'', ''screens/dashboard.dart'', ''screens/runtime_center.dart'', ''screens/settings.dart'',
      ''screens/audit_viewer.dart'', ''screens/recovery_center.dart'', ''screens/trust_center.dart'',
      ''screens/authority_map.dart'', ''screens/problems_panel.dart'', ''screens/evidence_center.dart'']"

text \<open>The files in the order given, their texts joined by line ends.\<close>

definition joined_texts :: "repo_texts \<Rightarrow> ustr list list \<Rightarrow> exn + ustr" where
  "joined_texts tree paths = bindE (concatE (\<lambda>p. bindE (read_names tree p) (\<lambda>t. Inr [t])) paths) (\<lambda>ts. Inr (join [10] ts))"

definition test_desktop_flutter_exposes_operation_surfaces :: "repo_texts \<Rightarrow> exn + msg list" where
  "test_desktop_flutter_exposes_operation_surfaces tree =
     bindE (joined_texts tree (map (\<lambda>f. names_of (''apps/desktop_flutter/lib/'' @ f)) operation_files)) (\<lambda>combined.
       Inr (lacks ''desktop operation surface is missing: {}'' operation_surfaces combined))"

definition test_desktop_agent_center_required_surface_exists :: "repo_texts \<Rightarrow> exn + msg list" where
  "test_desktop_agent_center_required_surface_exists tree =
     bindE (read_source tree ''apps/desktop_flutter/lib/screens/agent_center.dart'') (\<lambda>text.
       Inr (lacks ''the agent center lacks a surface: {}'' agent_center_surfaces text))"

subsection \<open>Mobile, installer and release documents\<close>

definition MOBILE_FLUTTER_REQUIRED_FILES :: "string list" where
  "MOBILE_FLUTTER_REQUIRED_FILES =
     [''lib/main.dart'', ''lib/screens/mobile_dashboard.dart'', ''lib/screens/approval_review.dart'',
     ''lib/screens/notifications.dart'', ''lib/screens/runtime_status.dart'',
     ''lib/screens/emergency_stop.dart'', ''lib/screens/recovery_instruction.dart'']"

definition RELEASE_HARDENING_FILES :: "string list" where
  "RELEASE_HARDENING_FILES =
     [''RELEASE_CHECKLIST.md'', ''SECURITY_REVIEW.md'', ''COMPATIBILITY_MATRIX.md'', ''CONFORMANCE_REPORT.md'',
     ''AUDIT_EVIDENCE.md'', ''INSTALLER_STATUS.md'', ''MOBILE_STATUS.md'']"

definition CLAIM_REVIEW_FILES :: "string list" where
  "CLAIM_REVIEW_FILES =
     [''README.md'', ''CLAIM.md'', ''QUICKSTART.md'', ''ROADMAP.md'', ''CONFORMANCE_REPORT.md'',
     ''docs/public/PROJECT_OVERVIEW.md'', ''docs/public/SAFETY_AND_RELEASE_GATES.md'']"

definition mobile_terms :: "ustr list" where
  "mobile_terms =
     [u ''device_id'', u ''pairing_id'', [0x64CD, 0x4F5C, 0x8005, 0x78BA, 0x8A8D], [0x76E3, 0x67FB, 0x4E8B,
     0x8C61], [0x53D6, 0x6D88, 0x3057], [0x5FA9, 0x65E7, 0x7D4C, 0x8DEF]]"

definition mobile_forbidden :: "ustr list" where
  "mobile_forbidden =
     [u ''independent authority: true'', u ''silently pair'', [39] @ u ''full_payload'' @ [39],
     u ''hidden payload available'']"

definition forbidden_claims :: "ustr list" where
  "forbidden_claims =
     map u [''production ready'', ''installer ready'', ''mobile ready'', ''stable runtime support'',
     ''security complete'']"

definition stale_patterns :: "ustr list" where
  "stale_patterns =
     map u [''23 checks'', ''49 checks'', ''51 checks'', ''53 checks'', ''55 checks'', ''Phase 0 / Phase 1'']"

definition policy_docs :: "string list" where
  "policy_docs =
     [''ROADMAP.md'', ''CLAIM.md'', ''RELEASE_CHECKLIST.md'', ''docs/public/PROJECT_OVERVIEW.md'',
     ''docs/public/SAFETY_AND_RELEASE_GATES.md'', ''docs/public/ARCHITECTURE_SUMMARY.md'']"

definition boundary_docs :: "string list" where
  "boundary_docs =
     [''FIRST_RUN.md'', ''SETUP_DOCTOR.md'', ''INSTALLER_BOUNDARY.md'']"

definition test_installer_boundary_docs_exist :: "repo_texts \<Rightarrow> exn + msg list" where
  "test_installer_boundary_docs_exist tree =
     Inr (concat (map (\<lambda>name. flag (\<not> there tree (''docs/'' @ name)) (Msg ''docs/{} does not exist'' [js name])) boundary_docs)
        @ remark (\<not> there tree ''installer/setup_doctor.py'') ''installer/setup_doctor.py does not exist'')"

definition test_mobile_flutter_required_files_exist :: "repo_texts \<Rightarrow> exn + msg list" where
  "test_mobile_flutter_required_files_exist tree =
     Inr (if \<not> there tree ''apps/mobile_flutter'' then []
          else absent_files tree ''apps/mobile_flutter/'' MOBILE_FLUTTER_REQUIRED_FILES)"

definition test_mobile_flutter_cannot_create_hidden_authority :: "repo_texts \<Rightarrow> exn + msg list" where
  "test_mobile_flutter_cannot_create_hidden_authority tree =
     (if \<not> there tree ''apps/mobile_flutter'' then Inr []
      else bindE (joined_texts tree (sort (files_below tree ''apps/mobile_flutter/lib'' ''.dart''))) (\<lambda>combined.
        Inr (lacks ''the mobile pairing contract lacks a term: {}'' mobile_terms combined
           @ has_any ''the mobile application holds a forbidden authority pattern: {}'' mobile_forbidden combined)))"

definition test_release_hardening_files_exist :: "repo_texts \<Rightarrow> exn + msg list" where
  "test_release_hardening_files_exist tree = Inr (absent_files tree [] RELEASE_HARDENING_FILES)"

definition overclaims :: "tables \<Rightarrow> string \<Rightarrow> ustr \<Rightarrow> msg list" where
  "overclaims T relative text =
     (let lower = lower_case T text in
      map (\<lambda>claim. Msg ''{} overclaims {}'' [js relative, JStr claim])
        (filter (\<lambda>claim. occurs claim lower \<and> \<not> occurs (u ''not '' @ claim) lower) forbidden_claims))"

definition test_release_hardening_does_not_overclaim_readiness :: "tables \<Rightarrow> repo_texts \<Rightarrow> exn + msg list" where
  "test_release_hardening_does_not_overclaim_readiness T tree =
     concatE (\<lambda>relative. bindE (read_source tree relative) (\<lambda>text. Inr (overclaims T relative text)))
       (sort_key u RELEASE_HARDENING_FILES)"

definition test_claim_documents_do_not_contain_stale_phase_or_check_counts :: "repo_texts \<Rightarrow> exn + msg list" where
  "test_claim_documents_do_not_contain_stale_phase_or_check_counts tree =
     concatE (\<lambda>relative. bindE (read_source tree relative) (\<lambda>text.
         Inr (map (\<lambda>pattern. Msg ''{} holds a stale claim text: {}'' [js relative, JStr pattern]) (found stale_patterns text))))
       (sort_key u CLAIM_REVIEW_FILES)"

definition required_token_groups :: "ustr list list" where
  "required_token_groups =
     [[u ''rust security broker''], [u ''release_blocker''], [u ''production ipc'', [0x88FD, 0x54C1] @ u '' ipc''],
      [u ''no-python-runtime''], [u ''no-ffi-authority'']]"

definition blocker_token_errors :: "tables \<Rightarrow> repo_texts \<Rightarrow> string \<Rightarrow> exn + msg list" where
  "blocker_token_errors T tree relative =
     bindE (read_source tree relative) (\<lambda>text.
       Inr (map (\<lambda>group. Msg ''{} lacks a language policy blocker token: {}'' [js relative, listing group])
              (filter (\<lambda>group. found group (lower_case T text) = []) required_token_groups)))"

definition test_release_docs_declare_language_policy_runtime_blockers :: "tables \<Rightarrow> repo_texts \<Rightarrow> exn + msg list" where
  "test_release_docs_declare_language_policy_runtime_blockers T tree = concatE (blocker_token_errors T tree) policy_docs"

subsection \<open>The tooling\<close>

definition validation_tokens :: "ustr list" where
  "validation_tokens =
     map u [''schema_check'', ''conformance_skeleton'', ''manifest_check'', ''release_gate_check'',
     ''rust_helper_cargo_test'', ''desktop_flutter_analyze'', ''desktop_flutter_test'',
     ''desktop_flutter_build_linux'', ''mobile_flutter_analyze'', ''strict-release'', ''desktop-platform'',
     ''windows'', ''linux'', ''macos'']"

definition command_resolution_tokens :: "ustr list" where
  "command_resolution_tokens =
     [u ''def find_tool('', u ''def resolve_step_command('', [34] @ u ''.exe'' @ [34],
     [34] @ u ''.bat'' @ [34], [34] @ u ''.cmd'' @ [34],
     u ''step_command = resolve_step_command(step.command)'', u ''find_tool(step.required_tool)'']"

definition manifest_required_paths :: "ustr list" where
  "manifest_required_paths =
     map u [''AGENTS.md'', ''ROADMAP.md'', ''CONFORMANCE_REPORT.md'', ''COMPATIBILITY_MATRIX.md'',
     ''apps/desktop_flutter/windows/runner/main.cpp'', ''docs/specs/gui-shell-spec-v1.md'',
     ''docs/LANGUAGE_POLICY.md'', ''docs/public/PROJECT_OVERVIEW.md'', ''packages/agent_runtime/contract.py'',
     ''packages/runtime_catalog/catalog.py'', ''packages/shell_contracts/schema_loader.py'',
     ''packages/blue_tanuki_adapter/adapter.py'', ''tooling/manifest.py'',
     ''tooling/conformance_tests/run_conformance_skeleton.py'']"

definition manifest_forbidden_paths :: "ustr list" where
  "manifest_forbidden_paths =
     map u [''MANIFEST.sha256.json'', ''build/out.txt'', ''target/out.txt'', ''.dart_tool/cache'',
     ''__pycache__/x.pyc'', ''apps/desktop_flutter/build/out.txt'', ''native/rust_helper/target/out.txt'',
     ''apps/mobile_flutter/pubspec.lock'', ''../outside.txt'', ''/tmp/out.txt'']"

definition manifest_allowed_paths :: "ustr list" where
  "manifest_allowed_paths =
     map u [''docs/LANGUAGE_POLICY.md'', ''packages/shell_core/runtime_state.py'', ''tooling/manifest.py'']"

definition cleanup_tokens :: "ustr list" where
  "cleanup_tokens =
     [u ''def wait_for_process_exit('', u ''process.kill()'', u ''process.wait(timeout=timeout)'',
     u ''finally:'' @ [10] @ u ''                wait_for_process_exit(broker.process)'']"

definition gitattributes_tokens :: "ustr list" where
  "gitattributes_tokens =
     map u [''* text=auto eol=lf'', ''*.ps1 text eol=lf'', ''*.exe binary'']"

definition test_validation_reporter_exists :: "repo_texts \<Rightarrow> exn + msg list" where
  "test_validation_reporter_exists tree =
     (if \<not> there tree ''tooling/validate_all.py'' then Inr [Msg ''tooling/validate_all.py does not exist'' []]
      else bindE (read_source tree ''tooling/validate_all.py'') (\<lambda>text.
        Inr (lacks ''validate_all.py lacks a validation token: {}'' validation_tokens text)))"

definition test_validate_all_resolves_windows_batch_commands :: "repo_texts \<Rightarrow> exn + msg list" where
  "test_validate_all_resolves_windows_batch_commands tree =
     bindE (read_source tree ''tooling/validate_all.py'') (\<lambda>text.
       Inr (lacks ''validate_all.py lacks a Windows command resolution token: {}'' command_resolution_tokens text))"

text \<open>\<open>{entry["path"] for entry in manifest["files"]}\<close>\<close>

definition listed_paths :: "obj \<Rightarrow> ustr list" where
  "listed_paths manifest = concat (map entry_path (files_list manifest))"

definition test_manifest_integrity_tooling_exists :: "workspace \<Rightarrow> exn + msg list" where
  "test_manifest_integrity_tooling_exists ws =
     bindE (build_manifest ws) (\<lambda>(manifest, manifest_errors).
       Inr (manifest_errors
          @ missing_from ''a source the manifest should list is not in it: {}'' manifest_required_paths (listed_paths manifest)
          @ map (\<lambda>path. Msg ''a path forbidden in the manifest was accepted: {}'' [JStr path])
              (filter (\<lambda>path. \<not> matches_forbidden path) manifest_forbidden_paths)
          @ map (\<lambda>path. Msg ''a source path of the manifest was refused: {}'' [JStr path])
              (filter matches_forbidden manifest_allowed_paths)))"

definition test_broker_parity_startup_timeout_allows_local_cold_build :: "seconds \<Rightarrow> exn + msg list" where
  "test_broker_parity_startup_timeout_allows_local_cold_build default_timeout =
     Inr (remark (case default_timeout of Finite_seconds q \<Rightarrow> q < 60 | Infinite_seconds positive \<Rightarrow> \<not> positive
                  | Not_a_number \<Rightarrow> False)
            ''the startup timeout of broker parity is too short for a cold local Rust build'')"

definition test_broker_parity_waits_after_process_kill :: "repo_texts \<Rightarrow> exn + msg list" where
  "test_broker_parity_waits_after_process_kill tree =
     bindE (read_source tree ''tooling/broker_parity/run_authority_parity.py'') (\<lambda>text.
       Inr (lacks ''the cleanup of broker parity lacks a token: {}'' cleanup_tokens text))"

text \<open>The workflow files: \<open>glob\<close> of \<open>*.yml\<close>, then of \<open>*.yaml\<close>, sorted as texts.\<close>

definition workflow_files :: "repo_texts \<Rightarrow> ustr list" where
  "workflow_files tree =
     sort (map (join_with ''/'') (filter (\<lambda>p. length p = 3)
       (files_below tree ''.github/workflows'' ''.yml'' @ files_below tree ''.github/workflows'' ''.yaml'')))"

definition test_platform_hardening_configuration_exists :: "repo_texts \<Rightarrow> exn + msg list" where
  "test_platform_hardening_configuration_exists tree =
     bindE (if \<not> there tree ''.gitattributes'' then Inr [Msg ''.gitattributes does not exist'' []]
            else bindE (read_source tree ''.gitattributes'') (\<lambda>text.
              Inr (lacks ''.gitattributes lacks a token: {}'' gitattributes_tokens text))) (\<lambda>attributes.
     bindE (read_source tree ''native/rust_helper/src/main.rs'') (\<lambda>main_rs.
       Inr (attributes
          @ map (\<lambda>f. Msg ''GitHub Actions workflows must stay absent: {}'' [JStr f]) (workflow_files tree)
          @ needs ''the dev stdin smoke of the Rust helper is not behind an explicit subcommand'' (u ''dev-stdin-smoke'') main_rs
          @ needs ''the Rust helper does not fail closed to its usage text''
              ([0x4F7F, 0x7528, 0x6CD5] @ u '': gui_shell_rust_helper broker-server'') main_rs)))"

subsection \<open>What a clean scan shows\<close>

text \<open>Every file of the list can be read, and its text holds none of the tokens anywhere.\<close>

definition clean_files :: "repo_texts \<Rightarrow> ustr list list \<Rightarrow> ustr list \<Rightarrow> bool" where
  "clean_files tree paths tokens \<longleftrightarrow>
     (\<forall>p \<in> set paths. \<exists>text. tree_text tree p = Some text
        \<and> (\<forall>token \<in> set tokens. \<nexists>a b. universal_newlines text = a @ token @ b))"

definition imports_package :: "tables \<Rightarrow> string \<Rightarrow> ustr \<Rightarrow> bool" where
  "imports_package T package line \<longleftrightarrow>
     (\<exists>rest. lower_case T (strip line) = u (''import '' @ package) @ rest
           \<or> lower_case T (strip line) = u (''from '' @ package) @ rest)"

definition free_of_imports :: "tables \<Rightarrow> repo_texts \<Rightarrow> ustr list list \<Rightarrow> string \<Rightarrow> bool" where
  "free_of_imports T tree paths package \<longleftrightarrow>
     (\<forall>p \<in> set paths. \<exists>text. tree_text tree p = Some text
        \<and> (\<forall>line \<in> set (read_text_lines text). \<not> imports_package T package line))"

lemma scan_each_Nil:
  "scan_each tree paths check = Inr [] \<longleftrightarrow>
     (\<forall>p \<in> set paths. \<exists>text. tree_text tree p = Some text \<and> check p (universal_newlines text) = [])"
  by (auto simp: scan_each_def concatE_eq_Nil read_names_def bindE_eq_Inr split: option.splits)

lemma forbids_Nil: "forbids template tokens p text = [] \<longleftrightarrow> (\<forall>token \<in> set tokens. \<nexists>a b. text = a @ token @ b)"
  by (auto simp: forbids_def list_all_iff occurs_iff)

lemma set_enumerate: "snd ` set (enumerate n xs) = set xs"
  by (metis list.set_map map_snd_enumerate)

lemma import_lines_Nil:
  "import_lines T package message p text = []
     \<longleftrightarrow> (\<forall>line \<in> set (split_lines [] text). \<not> imports_package T package line)"
proof -
  have "import_lines T package message p text = []
      \<longleftrightarrow> (\<forall>line \<in> snd ` set (enumerate 1 (split_lines [] text)). \<not> imports_package T package line)"
    by (force simp: import_lines_def Let_def starts_with_iff imports_package_def)
  then show ?thesis unfolding set_enumerate .
qed

text \<open>
  C29. The source scans of the conformance run find nothing exactly when every source of the kind they look at
  can be read and none of it, anywhere in its text, crosses the boundary: no process, FFI or channel token in a
  Dart source, no process, file or network call in a source of the Rust helper, no import of Flutter or of the
  reference runtime in a module of the Shell Core.
\<close>

theorem conformance_source_scans_exact:
  "(test_desktop_flutter_does_not_spawn_python_or_use_ffi_authority_bridge tree = Inr []
       \<longleftrightarrow> clean_files tree (desktop_lib_files tree) ffi_bridge_tokens)
   \<and> (test_rust_helper_does_not_expose_hidden_authority_paths tree = Inr []
       \<longleftrightarrow> clean_files tree (files_below tree ''native/rust_helper/src'' ''.rs'') helper_forbidden)
   \<and> (test_shell_core_has_no_flutter_imports T tree = Inr [] \<longleftrightarrow> free_of_imports T tree (shell_core_files tree) ''flutter'')
   \<and> (test_shell_core_has_no_blue_tanuki_internal_imports T tree = Inr []
       \<longleftrightarrow> free_of_imports T tree (shell_core_files tree) ''blue_tanuki'')"
  by (simp_all add: test_desktop_flutter_does_not_spawn_python_or_use_ffi_authority_bridge_def
        test_rust_helper_does_not_expose_hidden_authority_paths_def test_shell_core_has_no_flutter_imports_def
        test_shell_core_has_no_blue_tanuki_internal_imports_def scan_each_Nil forbids_Nil clean_files_def
        import_lines_Nil free_of_imports_def read_text_lines_def)

end
