(* ===== verification/Regex.thy ===== *)
theory Regex
  imports Runtime_Assertions
begin

text \<open>
  Regular expressions as \<open>re\<close> runs them: \<open>ends\<close> lists the positions where a match can end, in the order a
  backtracking matcher tries them, so that the first one is the match of \<open>re.match\<close>. A position is the character
  before it and the rest of the text. \<open>reaches\<close> is what an expression means, whatever the order; the two agree
  (\<open>ends_exact\<close>). Only the constructs the audit of the documents uses are there.
\<close>

datatype rx =
    Empty
  | Chr "nat \<Rightarrow> bool"
  | Boundary
  | Cat rx rx
  | Alt rx rx
  | Star rx

type_synonym pos = "nat option \<times> ustr"

definition at_start :: "ustr \<Rightarrow> pos" where
  "at_start s = (None, s)"

function ends :: "tables \<Rightarrow> rx \<Rightarrow> pos \<Rightarrow> pos list" where
  "ends T Empty p = [p]"
| "ends T (Chr f) p = (case snd p of [] \<Rightarrow> [] | c # s \<Rightarrow> if f c then [(Some c, s)] else [])"
| "ends T Boundary p = (if word_boundary T (fst p) (first_char (snd p)) then [p] else [])"
| "ends T (Cat r q) p = concat (map (ends T q) (ends T r p))"
| "ends T (Alt r q) p = ends T r p @ ends T q p"
| "ends T (Star r) p =
     concat (map (\<lambda>p'. if length (snd p') < length (snd p) then ends T (Star r) p' else []) (ends T r p)) @ [p]"
  by pat_completeness auto
termination
  by (relation "measures [\<lambda>(T, r, p). size r, \<lambda>(T, r, p). length (snd p)]") auto

declare ends.simps(6) [simp del]

lemma ends_Star:
  "p2 \<in> set (ends T (Star r) p)
     \<longleftrightarrow> p2 = p \<or> (\<exists>p1 \<in> set (ends T r p). length (snd p1) < length (snd p) \<and> p2 \<in> set (ends T (Star r) p1))"
  by (subst ends.simps) (auto split: if_splits)

subsection \<open>Shorthands\<close>

primrec cats :: "rx list \<Rightarrow> rx" where
  "cats [] = Empty"
| "cats (r # rs) = Cat r (cats rs)"

fun alts :: "rx list \<Rightarrow> rx" where
  "alts [r] = r"
| "alts (r # rs) = Alt r (alts rs)"
| "alts [] = Chr (\<lambda>_. False)"

definition lit :: "string \<Rightarrow> rx" where
  "lit s = cats (map (\<lambda>c. Chr (\<lambda>x. x = c)) (u s))"

definition one_of :: "string \<Rightarrow> nat \<Rightarrow> bool" where
  "one_of s c \<longleftrightarrow> c \<in> set (u s)"

definition opt :: "rx \<Rightarrow> rx" where
  "opt r = Alt r Empty"

definition plus :: "rx \<Rightarrow> rx" where
  "plus r = Cat r (Star r)"

primrec times :: "nat \<Rightarrow> rx \<Rightarrow> rx" where
  "times 0 r = Empty"
| "times (Suc n) r = Cat r (times n r)"

primrec up_to :: "nat \<Rightarrow> rx \<Rightarrow> rx" where
  "up_to 0 r = Empty"
| "up_to (Suc n) r = Alt (Cat r (up_to n r)) Empty"

text \<open>A letter under \<open>IGNORECASE\<close>: beside its two cases, \<open>i\<close>, \<open>s\<close> and \<open>k\<close> have Unicode variants.\<close>

definition same_letter :: "nat \<Rightarrow> nat \<Rightarrow> bool" where
  "same_letter c x \<longleftrightarrow>
     ascii_lower x = ascii_lower c
     \<or> ascii_lower c = 105 \<and> (x = 0x130 \<or> x = 0x131) \<or> ascii_lower c = 115 \<and> x = 0x17F \<or> ascii_lower c = 107 \<and> x = 0x212A"

definition ilit :: "string \<Rightarrow> rx" where
  "ilit s = cats (map (\<lambda>c. Chr (same_letter c)) (u s))"

definition letter :: "nat \<Rightarrow> bool" where
  "letter c \<longleftrightarrow> 65 \<le> c \<and> c \<le> 90 \<or> 97 \<le> c \<and> c \<le> 122"

definition iletter :: "nat \<Rightarrow> bool" where
  "iletter c \<longleftrightarrow> letter c \<or> c \<in> {0x130, 0x131, 0x17F, 0x212A}"

definition digit :: "nat \<Rightarrow> bool" where
  "digit c \<longleftrightarrow> 48 \<le> c \<and> c \<le> 57"

definition alnum :: "nat \<Rightarrow> bool" where
  "alnum c \<longleftrightarrow> letter c \<or> digit c"

subsection \<open>The functions of the module\<close>

definition rx_match :: "tables \<Rightarrow> rx \<Rightarrow> pos \<Rightarrow> pos option" where
  "rx_match T r p = (case ends T r p of [] \<Rightarrow> None | q # _ \<Rightarrow> Some q)"

definition rx_fullmatch :: "tables \<Rightarrow> rx \<Rightarrow> ustr \<Rightarrow> bool" where
  "rx_fullmatch T r s \<longleftrightarrow> list_ex (\<lambda>q. snd q = []) (ends T r (at_start s))"

definition next_pos :: "pos \<Rightarrow> pos" where
  "next_pos p = (case snd p of [] \<Rightarrow> p | c # s \<Rightarrow> (Some c, s))"

fun rx_search_from :: "tables \<Rightarrow> rx \<Rightarrow> nat option \<Rightarrow> ustr \<Rightarrow> bool" where
  "rx_search_from T r before [] = (ends T r (before, []) \<noteq> [])"
| "rx_search_from T r before (c # s) = (ends T r (before, c # s) \<noteq> [] \<or> rx_search_from T r (Some c) s)"

definition rx_search :: "tables \<Rightarrow> rx \<Rightarrow> ustr \<Rightarrow> bool" where
  "rx_search T r s = rx_search_from T r None s"

text \<open>
  \<open>finditer\<close> for an expression without empty matches: what stands before the match, from the start of the text,
  and the match. The first argument is the text so far, reversed.
\<close>

function rx_iter :: "tables \<Rightarrow> rx \<Rightarrow> ustr \<Rightarrow> ustr \<Rightarrow> (ustr \<times> ustr) list" where
  "rx_iter T r done_rev [] = []"
| "rx_iter T r done_rev (c # s) =
     (case rx_match T r (first_char done_rev, c # s) of
        Some (_, rest) \<Rightarrow>
          (if length rest < length (c # s) then
             (let m = take (length (c # s) - length rest) (c # s) in
              (rev done_rev, m) # rx_iter T r (rev m @ done_rev) rest)
           else rx_iter T r (c # done_rev) s)
      | None \<Rightarrow> rx_iter T r (c # done_rev) s)"
  by pat_completeness auto
termination
  by (relation "measure (\<lambda>(T, r, d, s). length s)") auto

definition rx_findall :: "tables \<Rightarrow> rx \<Rightarrow> ustr \<Rightarrow> ustr list" where
  "rx_findall T r s = map snd (rx_iter T r [] s)"

text \<open>\<open>re.sub\<close>, again without empty matches.\<close>

function rx_sub_from :: "tables \<Rightarrow> rx \<Rightarrow> (ustr \<Rightarrow> ustr) \<Rightarrow> nat option \<Rightarrow> ustr \<Rightarrow> ustr" where
  "rx_sub_from T r f before [] = []"
| "rx_sub_from T r f before (c # s) =
     (case rx_match T r (before, c # s) of
        Some (b, rest) \<Rightarrow>
          (if length rest < length (c # s)
           then f (take (length (c # s) - length rest) (c # s)) @ rx_sub_from T r f b rest
           else c # rx_sub_from T r f (Some c) s)
      | None \<Rightarrow> c # rx_sub_from T r f (Some c) s)"
  by pat_completeness auto
termination
  by (relation "measure (\<lambda>(T, r, f, b, s). length s)") auto

definition rx_sub :: "tables \<Rightarrow> rx \<Rightarrow> (ustr \<Rightarrow> ustr) \<Rightarrow> ustr \<Rightarrow> ustr" where
  "rx_sub T r f s = rx_sub_from T r f None s"

text \<open>\<open>re.sub\<close> of an expression that starts with \<open>^\<close>\<close>

definition rx_sub_start :: "tables \<Rightarrow> rx \<Rightarrow> ustr \<Rightarrow> ustr" where
  "rx_sub_start T r s = (case rx_match T r (at_start s) of Some (_, rest) \<Rightarrow> rest | None \<Rightarrow> s)"

subsection \<open>What an expression means\<close>

inductive reaches :: "tables \<Rightarrow> rx \<Rightarrow> pos \<Rightarrow> pos \<Rightarrow> bool" for T where
  "reaches T Empty p p"
| "f c \<Longrightarrow> reaches T (Chr f) (b, c # s) (Some c, s)"
| "word_boundary T (fst p) (first_char (snd p)) \<Longrightarrow> reaches T Boundary p p"
| "reaches T r p p1 \<Longrightarrow> reaches T q p1 p2 \<Longrightarrow> reaches T (Cat r q) p p2"
| "reaches T r p p1 \<Longrightarrow> reaches T (Alt r q) p p1"
| "reaches T q p p1 \<Longrightarrow> reaches T (Alt r q) p p1"
| "reaches T (Star r) p p"
| "reaches T r p p1 \<Longrightarrow> reaches T (Star r) p1 p2 \<Longrightarrow> reaches T (Star r) p p2"

text \<open>A match reads a part of the rest and stands behind its last character.\<close>

definition advance :: "pos \<Rightarrow> ustr \<Rightarrow> pos \<Rightarrow> bool" where
  "advance p w p' \<longleftrightarrow> snd p = w @ snd p' \<and> fst p' = (if w = [] then fst p else Some (last w))"

lemma advance_Nil: "advance p [] p' \<longleftrightarrow> p' = p"
  by (auto simp: advance_def prod_eq_iff)

lemma advance_append: "advance p v p1 \<Longrightarrow> advance p1 w p2 \<Longrightarrow> advance p (v @ w) p2"
  by (auto simp: advance_def split: if_splits)

lemma reaches_advance: "reaches T r p p' \<Longrightarrow> \<exists>w. advance p w p'"
proof (induction rule: reaches.induct)
  case (2 f c b s)
  have "advance (b, c # s) [c] (Some c, s)" by (simp add: advance_def)
  then show ?case ..
next
  case (4 r p p1 q p2)
  then show ?case using advance_append by blast
next
  case (8 r p p1 p2)
  then show ?case using advance_append by blast
qed (use advance_Nil in blast)+

lemma advance_length: "advance p w p' \<Longrightarrow> length (snd p) = length w + length (snd p')"
  by (simp add: advance_def)

lemma reaches_shorter: "reaches T r p p' \<Longrightarrow> p' = p \<or> length (snd p') < length (snd p)"
  using reaches_advance advance_length advance_Nil
  by (metis add_cancel_left_left length_0_conv less_add_same_cancel2 not_gr_zero)

inductive_cases reaches_EmptyE: "reaches T Empty p p'"
inductive_cases reaches_ChrE: "reaches T (Chr f) p p'"
inductive_cases reaches_BoundaryE: "reaches T Boundary p p'"
inductive_cases reaches_CatE: "reaches T (Cat r q) p p'"
inductive_cases reaches_AltE: "reaches T (Alt r q) p p'"

lemma ends_sound: "p' \<in> set (ends T r p) \<Longrightarrow> reaches T r p p'"
proof (induction T r p arbitrary: p' rule: ends.induct)
  case (4 T r q p)
  then obtain p1 where "p1 \<in> set (ends T r p)" "p' \<in> set (ends T q p1)" by auto
  with 4(1,2) show ?case by (blast intro: reaches.intros)
next
  case (6 T r p)
  from 6(3) consider "p' = p"
    | p1 where "p1 \<in> set (ends T r p)" "length (snd p1) < length (snd p)" "p' \<in> set (ends T (Star r) p1)"
    using ends_Star [THEN iffD1] by blast
  then show ?case
  proof cases
    case 1
    then show ?thesis by (auto intro: reaches.intros)
  next
    case (2 p1)
    with 6(1,2) show ?thesis by (blast intro: reaches.intros)
  qed
qed (auto split: list.splits if_splits intro: reaches.intros)

lemma ends_complete: "reaches T r p p' \<Longrightarrow> p' \<in> set (ends T r p)"
proof (induction rule: reaches.induct)
  case (7 r p)
  show ?case by (rule ends_Star [THEN iffD2]) simp
next
  case (8 r p p1 p2)
  from reaches_shorter [OF 8(1)] show ?case
  proof
    assume "p1 = p"
    with 8(4) show ?thesis by simp
  next
    assume "length (snd p1) < length (snd p)"
    with 8(3,4) show ?thesis by (intro ends_Star [THEN iffD2]) blast
  qed
qed auto

text \<open>The backtracking matcher finds exactly what the expression means.\<close>

lemma ends_exact: "p' \<in> set (ends T r p) \<longleftrightarrow> reaches T r p p'"
  using ends_sound ends_complete by blast

lemma ends_nonempty: "ends T r p \<noteq> [] \<longleftrightarrow> (\<exists>p'. reaches T r p p')"
  using ends_exact [of _ T r p] by (metis all_not_in_conv set_empty)

lemma fullmatch_iff: "rx_fullmatch T r s \<longleftrightarrow> (\<exists>b. reaches T r (None, s) (b, []))"
  by (force simp: rx_fullmatch_def list_ex_iff ends_exact at_start_def)

lemma search_iff:
  "rx_search_from T r before s
     \<longleftrightarrow> (\<exists>v w p'. s = v @ w \<and> reaches T r (if v = [] then before else Some (last v), w) p')"
proof (induction s arbitrary: before)
  case Nil
  show ?case by (simp add: ends_nonempty)
next
  case (Cons c s)
  have here: "ends T r (before, c # s) \<noteq> [] \<longleftrightarrow> (\<exists>p'. reaches T r (before, c # s) p')"
    by (rule ends_nonempty)
  show ?case
  proof
    assume "rx_search_from T r before (c # s)"
    then consider "\<exists>p'. reaches T r (before, c # s) p'" | "rx_search_from T r (Some c) s"
      unfolding rx_search_from.simps here by blast
    then show "\<exists>v w p'. c # s = v @ w \<and> reaches T r (if v = [] then before else Some (last v), w) p'"
    proof cases
      case 1
      then obtain p' where "reaches T r (before, c # s) p'" ..
      then have "c # s = [] @ c # s \<and> reaches T r (if [] = [] then before else Some (last []), c # s) p'" by simp
      then show ?thesis by blast
    next
      case 2
      then obtain v w p' where "s = v @ w" "reaches T r (if v = [] then Some c else Some (last v), w) p'"
        using Cons.IH by blast
      then have "c # s = (c # v) @ w
          \<and> reaches T r (if c # v = [] then before else Some (last (c # v)), w) p'" by (cases v) simp_all
      then show ?thesis by blast
    qed
  next
    assume "\<exists>v w p'. c # s = v @ w \<and> reaches T r (if v = [] then before else Some (last v), w) p'"
    then obtain v w p' where m: "c # s = v @ w" "reaches T r (if v = [] then before else Some (last v), w) p'"
      by blast
    show "rx_search_from T r before (c # s)"
    proof (cases v)
      case Nil
      with m have "reaches T r (before, c # s) p'" by simp
      then have "\<exists>p'. reaches T r (before, c # s) p'" ..
      then have "ends T r (before, c # s) \<noteq> []" unfolding here .
      then show ?thesis by simp
    next
      case (Cons d v')
      with m have "s = v' @ w" "reaches T r (if v' = [] then Some c else Some (last v'), w) p'"
        by (auto split: if_splits)
      then have "rx_search_from T r (Some c) s" using Cons.IH by blast
      then show ?thesis by simp
    qed
  qed
qed

end
