(* ===== verification/Prose.thy ===== *)
theory Prose
  imports Regex
begin

text \<open>
  Which texts are prose that is not Japanese (\<open>tooling/\<close>, the Japanese base audit): what counts as a machine value, what is
  cut out before words are looked for, and the scans of Markdown and of JSON. \<open>T\<close> and \<open>D\<close> are the Unicode tables
  and the decimal digits of \<open>\d\<close>.
\<close>

record finding =
  fd_path :: ustr
  fd_surface :: string
  fd_line :: nat
  fd_excerpt :: ustr

subsection \<open>Expressions\<close>

definition japanese_char :: "nat \<Rightarrow> bool" where
  "japanese_char c \<longleftrightarrow>
     0x3041 \<le> c \<and> c \<le> 0x3096 \<or> 0x30A1 \<le> c \<and> c \<le> 0x30FA \<or> 0x4E00 \<le> c \<and> c \<le> 0x9FFF
     \<or> c \<in> {0x3005, 0x3006, 0x3007, 0x30FC}"

definition has_japanese :: "ustr \<Rightarrow> bool" where
  "has_japanese s \<longleftrightarrow> list_ex japanese_char s"

definition word_part :: "nat \<Rightarrow> bool" where
  "word_part c \<longleftrightarrow> letter c \<or> c = 39 \<or> c = 45"

definition latin_word :: rx where
  "latin_word = Cat (Chr letter) (Star (Chr word_part))"

definition english_clause :: rx where
  "english_clause =
     (let w = cats [Boundary, latin_word, Boundary]; step = Cat w (plus (Chr (\<lambda>c. c = 32 \<or> c = 9))) in
      cats [times 3 step, Star step, w])"

definition space_rx :: rx where
  "space_rx = Chr is_space"

definition url_rx :: rx where
  "url_rx =
     cats [alts [Cat (ilit ''http'') (opt (ilit ''s'')), Cat (ilit ''ws'') (opt (ilit ''s''))], lit ''://'',
       plus (Chr (\<lambda>c. \<not> is_space c \<and> \<not> one_of '')>]}'' c))]"

definition hash_rx :: rx where
  "hash_rx =
     (let hex = Chr (\<lambda>c. digit c \<or> 97 \<le> ascii_lower c \<and> ascii_lower c \<le> 102) in
      cats [Boundary,
        opt (cats [ilit ''sha'', opt (Cat (opt (lit ''-'')) (lit ''256'')), opt (Chr (one_of '':=''))]),
        times 40 hex, up_to 24 hex, Boundary])"

definition inline_code_rx :: rx where
  "inline_code_rx = cats [Chr (\<lambda>c. c = 96), Star (Chr (\<lambda>c. c \<noteq> 96)), Chr (\<lambda>c. c = 96)]"

definition markdown_link_rx :: rx where
  "markdown_link_rx =
     cats [opt (lit ''!''), lit ''['', Star (Chr (\<lambda>c. c \<noteq> 93)), lit ''](''  , Star (Chr (\<lambda>c. c \<noteq> 41)), lit '')'']"

text \<open>\<open>match.group(1)\<close> of a link: what stands between the first bracket and the next closing one.\<close>

definition link_text :: "ustr \<Rightarrow> ustr" where
  "link_text m = takeWhile (\<lambda>c. c \<noteq> 93) (tl (dropWhile (\<lambda>c. c \<noteq> 91) m))"

definition html_tag_rx :: rx where
  "html_tag_rx = cats [lit ''<'', plus (Chr (\<lambda>c. c \<noteq> 62)), lit ''>'']"

definition interpolation_rx :: rx where
  "interpolation_rx =
     alts [cats [lit ''${'', Star (Chr (\<lambda>c. c \<noteq> 125)), lit ''}''],
       cats [lit ''$'', Chr (\<lambda>c. letter c \<or> c = 95), Star (Chr (\<lambda>c. alnum c \<or> c = 95))],
       cats [lit ''{'', Star (Chr (\<lambda>c. c \<noteq> 123 \<and> c \<noteq> 125)), lit ''}'']]"

subsection \<open>Machine values\<close>

definition MACHINE_VALUES :: "ustr list" where
  "MACHINE_VALUES = map u
     [''true'', ''false'', ''yes'', ''no'', ''none'', ''null'', ''root'', ''pass'', ''passed'', ''fail'', ''failed'',
      ''pending'', ''blocked'', ''unknown'', ''ok'', ''error'']"

definition json_start_rx :: rx where
  "json_start_rx =
     cats [alts [Cat (lit ''{'') (opt (lit ''{'')), lit ''[''], opt (Chr (\<lambda>c. c = 92)), Chr (\<lambda>c. c = 34 \<or> c = 39)]"

definition name_char :: "nat \<Rightarrow> bool" where
  "name_char c \<longleftrightarrow> alnum c \<or> one_of ''_.-'' c"

definition cli_command_rx :: "(nat \<Rightarrow> bool) \<Rightarrow> rx" where
  "cli_command_rx D =
     cats [alts
       [cats [alts [Cat (lit ''python'') (opt (Cat (lit ''3'') (opt (Cat (lit ''.'') (plus (Chr D)))))),
               lit ''bash'', lit ''sh'', lit ''pwsh'', lit ''powershell''], plus space_rx,
          plus (Cat (plus (Chr name_char)) (Chr (\<lambda>c. c = 47 \<or> c = 92))), plus (Chr name_char)],
        cats [lit ''cargo'', plus space_rx,
          alts (map lit [''test'', ''build'', ''check'', ''fmt'', ''clippy'', ''run''])],
        cats [lit ''flutter'', plus space_rx,
          alts (map lit [''analyze'', ''test'', ''build'', ''run'', ''doctor'', ''pub''])],
        cats [lit ''git'', plus space_rx,
          alts (map lit [''status'', ''diff'', ''show'', ''log'', ''add'', ''commit'', ''push'', ''fetch'', ''ls-files'', ''ls-remote''])]],
       Star (Cat (plus space_rx) (plus (Chr (\<lambda>c. alnum c \<or> c = 92 \<or> one_of ''-_./:=@'' c))))]"

definition assignment_rx :: rx where
  "assignment_rx =
     (let one = cats [Chr (\<lambda>c. letter c \<or> c = 95), Star (Chr name_char), Star space_rx, lit ''='', Star space_rx,
            Star (Chr (\<lambda>c. alnum c \<or> c = 92 \<or> one_of ''_.:/#@+-{}$'' c))] in
      Cat one (Star (cats [Star space_rx, Chr (one_of ''|,;''), Star space_rx, one])))"

definition lower_start :: "nat \<Rightarrow> bool" where
  "lower_start c \<longleftrightarrow> 97 \<le> c \<and> c \<le> 122 \<or> c = 95"

definition lower_name :: rx where
  "lower_name = Cat (Chr lower_start) (Star (Chr (\<lambda>c. lower_start c \<or> digit c)))"

definition keyword_argument_rx :: rx where
  "keyword_argument_rx = cats [opt (lit '':''), Star space_rx, lower_name, lit ''='']"

definition yaml_key_rx :: rx where
  "yaml_key_rx =
     cats [opt (Cat (lit ''-'') (Star space_rx)), lower_name, opt (cats [lit '':'', Star space_rx, opt (lit ''|'')])]"

definition upper :: "nat \<Rightarrow> bool" where
  "upper c \<longleftrightarrow> 65 \<le> c \<and> c \<le> 90"

definition constructor_rx :: rx where
  "constructor_rx =
     cats [Chr upper, Star (Chr (\<lambda>c. alnum c \<or> one_of ''_.'' c)), lit ''('', Chr (\<lambda>c. letter c \<or> c = 95),
       Star (Chr (\<lambda>c. alnum c \<or> c = 95)), lit '':'', Star space_rx, lit '')'']"

definition contract_id :: "ustr \<Rightarrow> bool" where
  "contract_id s \<longleftrightarrow>
     s \<noteq> [] \<and> list_all (\<lambda>c. alnum c \<or> c = 92 \<or> one_of ''_.:/#@+%$-'' c) s
     \<and> list_ex (\<lambda>c. c = 92 \<or> one_of ''_./:#@%$-'' c) s"

definition upper_code_rx :: rx where
  "upper_code_rx =
     (let c = Chr (\<lambda>c. upper c \<or> digit c \<or> one_of ''_-'' c) in cats [Chr upper, c, up_to 30 c])"

definition letters_with_digit :: "ustr \<Rightarrow> bool" where
  "letters_with_digit s \<longleftrightarrow> s \<noteq> [] \<and> letter (hd s) \<and> list_all alnum s \<and> list_ex digit s"

text \<open>\<open>str.strip(chars)\<close>\<close>

definition strip_chars :: "(nat \<Rightarrow> bool) \<Rightarrow> ustr \<Rightarrow> ustr" where
  "strip_chars f s = rev (dropWhile f (rev (dropWhile f s)))"

definition punctuation :: "nat \<Rightarrow> bool" where
  "punctuation c \<longleftrightarrow>
     c \<in> {32, 9, 13, 10, 92, 34, 0x201C, 0x201D, 0x2018, 0x2019} \<or> one_of '':;,.()[]{}<>/|=+*#@!?'' c"

definition machine_only :: "tables \<Rightarrow> (nat \<Rightarrow> bool) \<Rightarrow> ustr \<Rightarrow> bool" where
  "machine_only T D text \<longleftrightarrow>
     (let raw = strip text; stripped = strip_chars punctuation text in
      raw = []
      \<or> rx_match T json_start_rx (at_start raw) \<noteq> None
      \<or> rx_fullmatch T (cli_command_rx D) raw
      \<or> rx_fullmatch T assignment_rx raw
      \<or> rx_fullmatch T keyword_argument_rx raw
      \<or> rx_fullmatch T yaml_key_rx raw
      \<or> rx_fullmatch T constructor_rx raw
      \<or> contract_id raw
      \<or> stripped = []
      \<or> lower_case T stripped \<in> set MACHINE_VALUES
      \<or> rx_fullmatch T upper_code_rx stripped
      \<or> contract_id stripped
      \<or> letters_with_digit stripped)"

subsection \<open>Prose\<close>

definition remove_machine_exceptions :: "tables \<Rightarrow> ustr \<Rightarrow> ustr" where
  "remove_machine_exceptions T text =
     rx_sub T interpolation_rx (\<lambda>_. []) (rx_sub T hash_rx (\<lambda>_. [32]) (rx_sub T url_rx (\<lambda>_. [32]) text))"

text \<open>\<open>str.replace(term, " ")\<close>\<close>

function replace_term :: "ustr \<Rightarrow> ustr \<Rightarrow> ustr" where
  "replace_term term [] = (if term = [] then [32] else [])"
| "replace_term term (c # s) =
     (if term = [] then 32 # c # replace_term term s
      else if starts_with term (c # s) then 32 # replace_term term (drop (length term) (c # s))
      else c # replace_term term s)"
  by pat_completeness auto
termination
  by (relation "measure (\<lambda>(term, s). length s)") auto

definition remove_lexical_exceptions :: "tables \<Rightarrow> ustr \<Rightarrow> ustr list \<Rightarrow> ustr" where
  "remove_lexical_exceptions T text terms = fold replace_term terms (remove_machine_exceptions T text)"

definition is_non_japanese_prose :: "tables \<Rightarrow> (nat \<Rightarrow> bool) \<Rightarrow> ustr \<Rightarrow> ustr list \<Rightarrow> bool" where
  "is_non_japanese_prose T D text terms \<longleftrightarrow>
     (if machine_only T D text then False
      else
        (let machine_cleaned = remove_machine_exceptions T text in
         if machine_only T D machine_cleaned then False
         else
           (let cleaned = remove_lexical_exceptions T text terms in
            if has_japanese cleaned then rx_search T english_clause cleaned
            else if rx_findall T latin_word cleaned = [] then False
            else if machine_only T D cleaned
              then lower_case T (strip_chars punctuation cleaned) \<in> set MACHINE_VALUES \<and> cleaned \<noteq> machine_cleaned
            else True)))"

definition compact_excerpt :: "ustr \<Rightarrow> ustr" where
  "compact_excerpt text =
     (let collapsed = strip (collapse_spaces text) in
      if length collapsed \<le> 180 then collapsed else take 179 collapsed @ [0x2026])"

subsection \<open>Markdown\<close>

definition table_rule_rx :: rx where
  "table_rule_rx =
     cats [Star space_rx, opt (lit ''|''),
       plus (cats [Star space_rx, opt (lit '':''), times 3 (lit ''-''), Star (lit ''-''), opt (lit '':''), Star space_rx, lit ''|'']),
       Star space_rx]"

definition block_marker_rx :: "(nat \<Rightarrow> bool) \<Rightarrow> rx" where
  "block_marker_rx D =
     cats [up_to 3 space_rx,
       alts [Cat (lit ''#'') (up_to 5 (lit ''#'')), lit ''>'', Chr (one_of ''-+*''),
         Cat (plus (Chr D)) (Chr (one_of ''.)''))],
       Star space_rx]"

definition rule_rx :: rx where
  "rule_rx =
     (let c = Chr (one_of ''-:'') in cats [Star space_rx, times 3 c, Star c, Star space_rx])"

definition id_char :: "nat \<Rightarrow> bool" where
  "id_char c \<longleftrightarrow> alnum c \<or> one_of ''_.:/#@+-'' c"

fun machine_field_rx :: "ustr \<Rightarrow> rx option" where
  "machine_field_rx key =
     (if key = u ''classification''
        then Some (alts (map lit [''release_blocker'', ''post_v1_scope'', ''known_limitation'', ''required_for_v1'', ''none'']))
      else if key = u ''blocks_release'' then Some (alts (map lit [''yes'', ''no'', ''true'', ''false'']))
      else if key = u ''registry_id'' then Some (Cat (Chr alnum) (Star (Chr id_char)))
      else if key = u ''aggregate_of''
        then Some (alts [lit ''none'',
          Cat (plus (Chr id_char)) (Star (cats [Star space_rx, lit '','', Star space_rx, plus (Chr id_char)])),
          cats [lit ''['', Star (Chr (\<lambda>c. id_char c \<or> c \<in> {44, 34, 39, 32})), lit '']'']])
      else None)"

text \<open>\<open>re.fullmatch(r"\s*([a-z_]+)\s*:\s*(.*?)\s*", segment)\<close>, its two groups\<close>

definition field_match :: "ustr \<Rightarrow> (ustr \<times> ustr) option" where
  "field_match segment =
     (let s = dropWhile is_space segment; key = takeWhile lower_start s in
      case dropWhile is_space (dropWhile lower_start s) of
        c # value \<Rightarrow> if key \<noteq> [] \<and> c = 58 then Some (key, strip value) else None
      | [] \<Rightarrow> None)"

definition machine_field :: "tables \<Rightarrow> ustr \<Rightarrow> bool" where
  "machine_field T segment \<longleftrightarrow>
     (case field_match segment of
        Some (key, value) \<Rightarrow> (case machine_field_rx key of Some r \<Rightarrow> rx_fullmatch T r value | None \<Rightarrow> False)
      | None \<Rightarrow> False)"

fun split_bar :: "ustr \<Rightarrow> ustr list" where
  "split_bar [] = [[]]"
| "split_bar (c # s) = (if c = 124 then [] # split_bar s else (c # hd (split_bar s)) # tl (split_bar s))"

definition clean_segment :: "tables \<Rightarrow> (nat \<Rightarrow> bool) \<Rightarrow> ustr \<Rightarrow> ustr" where
  "clean_segment T D segment =
     (let s = rx_sub_start T (block_marker_rx D) segment in if rx_fullmatch T rule_rx s then [] else s)"

definition markdown_segments :: "tables \<Rightarrow> (nat \<Rightarrow> bool) \<Rightarrow> ustr \<Rightarrow> ustr list" where
  "markdown_segments T D line =
     (if rx_fullmatch T table_rule_rx line then []
      else
        (let cleaned = rx_sub T html_tag_rx (\<lambda>_. [32]) (rx_sub T inline_code_rx (\<lambda>_. [32])
               (rx_sub T markdown_link_rx link_text line))
         in filter (\<lambda>s. \<not> machine_field T s \<and> strip s \<noteq> []) (map (clean_segment T D) (split_bar cleaned))))"

definition is_fence :: "ustr \<Rightarrow> bool" where
  "is_fence line \<longleftrightarrow>
     (let s = dropWhile is_space line in starts_with [96, 96, 96] s \<or> starts_with [126, 126, 126] s)"

definition line_findings ::
  "tables \<Rightarrow> (nat \<Rightarrow> bool) \<Rightarrow> ustr \<Rightarrow> ustr list \<Rightarrow> nat \<Rightarrow> ustr \<Rightarrow> finding list" where
  "line_findings T D path terms number line =
     map (\<lambda>s. \<lparr>fd_path = path, fd_surface = ''active_markdown_prose'', fd_line = number, fd_excerpt = compact_excerpt s\<rparr>)
       (filter (\<lambda>s. is_non_japanese_prose T D s terms) (markdown_segments T D line))"

fun markdown_lines ::
  "tables \<Rightarrow> (nat \<Rightarrow> bool) \<Rightarrow> ustr \<Rightarrow> ustr list \<Rightarrow> bool \<Rightarrow> nat \<Rightarrow> ustr list \<Rightarrow> finding list" where
  "markdown_lines T D path terms in_fence number [] = []"
| "markdown_lines T D path terms in_fence number (line # ls) =
     (if is_fence line then markdown_lines T D path terms (\<not> in_fence) (Suc number) ls
      else if in_fence then markdown_lines T D path terms in_fence (Suc number) ls
      else line_findings T D path terms number line @ markdown_lines T D path terms in_fence (Suc number) ls)"

definition scan_markdown :: "tables \<Rightarrow> (nat \<Rightarrow> bool) \<Rightarrow> ustr \<Rightarrow> ustr \<Rightarrow> ustr list \<Rightarrow> finding list" where
  "scan_markdown T D path text terms = markdown_lines T D path terms False 1 (split_lines [] text)"

subsection \<open>JSON\<close>

definition JSON_HUMAN_KEYS :: "ustr list" where
  "JSON_HUMAN_KEYS = map u
     [''title'', ''description'', ''$comment'', ''message'', ''reason'', ''required_action'', ''recovery_instruction'',
      ''summary'', ''diagnostic_summary'', ''user_visible_message'', ''display_name'', ''window_title'', ''note'',
      ''release_ready_reason'']"

definition SCHEMA_HUMAN_KEYS :: "ustr list" where
  "SCHEMA_HUMAN_KEYS = map u [''title'', ''description'', ''$comment'']"

definition pointer_part :: "ustr \<Rightarrow> ustr" where
  "pointer_part key = concat (map (\<lambda>c. if c = 126 then [126, 48] else if c = 47 then [126, 49] else [c]) key)"

definition metadata_findings ::
  "tables \<Rightarrow> (nat \<Rightarrow> bool) \<Rightarrow> ustr list \<Rightarrow> string \<Rightarrow> ustr \<Rightarrow> ustr list \<Rightarrow> ustr \<Rightarrow> ustr \<Rightarrow> json \<Rightarrow> finding list" where
  "metadata_findings T D keys surface path terms pointer key child =
     (case child of
        JStr s \<Rightarrow>
          (if key \<in> set keys \<and> is_non_japanese_prose T D s terms
           then [\<lparr>fd_path = path, fd_surface = surface, fd_line = 1, fd_excerpt = compact_excerpt (pointer @ u '': '' @ s)\<rparr>]
           else [])
      | _ \<Rightarrow> [])"

lemma size_enumerate [termination_simp]: "(i, x) \<in> set (enumerate n xs) \<Longrightarrow> size x < Suc (size_list size xs)"
  by (auto simp: in_set_enumerate_eq intro!: le_imp_less_Suc size_list_estimation')

fun visit_json ::
  "tables \<Rightarrow> (nat \<Rightarrow> bool) \<Rightarrow> ustr list \<Rightarrow> string \<Rightarrow> ustr \<Rightarrow> ustr list \<Rightarrow> ustr \<Rightarrow> json \<Rightarrow> finding list" where
  "visit_json T D keys surface path terms pointer (JObj d) =
     concat (map (\<lambda>(key, child).
         metadata_findings T D keys surface path terms (pointer @ u ''/'' @ pointer_part key) key child
         @ visit_json T D keys surface path terms (pointer @ u ''/'' @ pointer_part key) child) d)"
| "visit_json T D keys surface path terms pointer (JArr xs) =
     concat (map (\<lambda>(i, child). visit_json T D keys surface path terms (pointer @ u ''/'' @ dec_nat i) child) (enumerate 0 xs))"
| "visit_json T D keys surface path terms pointer _ = []"

definition scan_schema :: "tables \<Rightarrow> (nat \<Rightarrow> bool) \<Rightarrow> ustr \<Rightarrow> ustr \<Rightarrow> ustr list \<Rightarrow> finding list \<times> msg list" where
  "scan_schema T D path text terms =
     (case py_loads text of
        Inl _ \<Rightarrow> ([], [Msg ''the JSON Schema cannot be parsed: {}'' [JStr path]])
      | Inr document \<Rightarrow> (visit_json T D SCHEMA_HUMAN_KEYS ''json_schema_human_metadata'' path terms [] document, []))"

definition scan_json_human_metadata ::
  "tables \<Rightarrow> (nat \<Rightarrow> bool) \<Rightarrow> ustr \<Rightarrow> ustr \<Rightarrow> ustr list \<Rightarrow> finding list \<times> msg list" where
  "scan_json_human_metadata T D path text terms =
     (case py_loads text of
        Inl _ \<Rightarrow> ([], [Msg ''the JSON cannot be parsed: {}'' [JStr path]])
      | Inr document \<Rightarrow> (visit_json T D JSON_HUMAN_KEYS ''json_human_metadata'' path terms [] document, []))"

subsection \<open>What the Markdown scan reports\<close>

definition prose_finding :: "ustr \<Rightarrow> nat \<Rightarrow> ustr \<Rightarrow> finding" where
  "prose_finding path number s =
     \<lparr>fd_path = path, fd_surface = ''active_markdown_prose'', fd_line = number, fd_excerpt = compact_excerpt s\<rparr>"

text \<open>A line is active when it is no fence and an even number of fences precedes it.\<close>

definition active_line :: "ustr list \<Rightarrow> nat \<Rightarrow> bool" where
  "active_line ls i \<longleftrightarrow> i < length ls \<and> \<not> is_fence (ls ! i) \<and> even (length (filter is_fence (take i ls)))"

definition reported :: "tables \<Rightarrow> (nat \<Rightarrow> bool) \<Rightarrow> ustr list \<Rightarrow> ustr \<Rightarrow> ustr \<Rightarrow> bool" where
  "reported T D terms line s \<longleftrightarrow> s \<in> set (markdown_segments T D line) \<and> is_non_japanese_prose T D s terms"

lemma line_findings_set:
  "set (line_findings T D path terms n line) = {prose_finding path n s | s. reported T D terms line s}"
  by (auto simp: line_findings_def prose_finding_def reported_def)

lemma markdown_lines_set:
  "set (markdown_lines T D path terms in_fence n ls) =
     {prose_finding path (n + i) s | i s.
        i < length ls \<and> \<not> is_fence (ls ! i) \<and> even (length (filter is_fence (take i ls)) + of_bool in_fence)
        \<and> reported T D terms (ls ! i) s}"
proof (induction T D path terms in_fence n ls rule: markdown_lines.induct)
  case (2 T D path terms in_fence n line ls)
  let ?here = "{prose_finding path n s | s. \<not> is_fence line \<and> \<not> in_fence \<and> reported T D terms line s}"
  have split: "{prose_finding path (n + i) s | i s. P i s}
      = {prose_finding path n s | s. P 0 s} \<union> {prose_finding path (Suc n + i) s | i s. P (Suc i) s}" for P
  proof (intro set_eqI iffI)
    fix f
    assume "f \<in> {prose_finding path (n + i) s | i s. P i s}"
    then obtain i s where "f = prose_finding path (n + i) s" "P i s" by blast
    then show "f \<in> {prose_finding path n s | s. P 0 s} \<union> {prose_finding path (Suc n + i) s | i s. P (Suc i) s}"
      by (cases i) auto
  next
    fix f
    assume "f \<in> {prose_finding path n s | s. P 0 s} \<union> {prose_finding path (Suc n + i) s | i s. P (Suc i) s}"
    then show "f \<in> {prose_finding path (n + i) s | i s. P i s}"
    proof
      assume "f \<in> {prose_finding path n s | s. P 0 s}"
      then obtain s where "f = prose_finding path (n + 0) s" "P 0 s" by auto
      then show ?thesis by blast
    next
      assume "f \<in> {prose_finding path (Suc n + i) s | i s. P (Suc i) s}"
      then obtain i s where "f = prose_finding path (n + Suc i) s" "P (Suc i) s" by auto
      then show ?thesis by blast
    qed
  qed
  show ?case
  proof (cases "is_fence line")
    case True
    with 2(1) show ?thesis by (subst split) simp
  next
    case False
    with 2(2,3) show ?thesis by (subst split) (cases in_fence; simp add: line_findings_set)
  qed
qed simp

text \<open>
  C31. The Markdown scan reports exactly the segments of active lines that are prose and not Japanese, each at its
  own line: nothing inside a fence is reported, and nothing outside one is missed.
\<close>

theorem markdown_scan_exact:
  "set (scan_markdown T D path text terms) =
     {prose_finding path (Suc i) s | i s.
        active_line (split_lines [] text) i \<and> reported T D terms (split_lines [] text ! i) s}"
  by (auto simp: scan_markdown_def markdown_lines_set active_line_def)

end
