(* ===== verification/Code_Scan.thy ===== *)
theory Code_Scan
  imports Prose
begin

text \<open>
  The scans of source code of the Japanese base audit: comments and strings of C-like languages and of Dart, quoted
  strings of shells, and Python through its syntax tree. Texts are lists of characters and the offsets of the
  source are natural numbers into them.
\<close>

definition slice :: "ustr \<Rightarrow> nat \<Rightarrow> nat \<Rightarrow> ustr" where
  "slice s a b = take (b - a) (drop a s)"

definition begins :: "ustr \<Rightarrow> ustr \<Rightarrow> nat \<Rightarrow> bool" where
  "begins token s i \<longleftrightarrow> starts_with token (drop i s)"

definition find_from :: "ustr \<Rightarrow> ustr \<Rightarrow> nat \<Rightarrow> nat option" where
  "find_from token s i = map_option (\<lambda>n. i + n) (find_sub token (drop i s))"

text \<open>\<open>bisect_right(newlines, offset) + 1\<close>\<close>

definition line_number :: "ustr \<Rightarrow> nat \<Rightarrow> nat" where
  "line_number s offset = Suc (length (filter (\<lambda>c. c = 10) (take (Suc offset) s)))"

subsection \<open>Tokens of C-like languages\<close>

datatype token_kind = Comment_token | String_token

record c_token =
  tk_kind :: token_kind
  tk_start :: nat
  tk_end :: nat
  tk_body :: ustr

definition quote_delimiter :: "ustr \<Rightarrow> nat \<Rightarrow> ustr" where
  "quote_delimiter s i = (let q = s ! i in if begins [q, q, q] s i then [q, q, q] else [q])"

function quoted_end :: "ustr \<Rightarrow> ustr \<Rightarrow> nat \<Rightarrow> nat" where
  "quoted_end delim s i =
     (if i < length s then
        (if begins delim s i then i + length delim
         else if s ! i = 92 \<and> Suc i < length s then quoted_end delim s (i + 2)
         else quoted_end delim s (Suc i))
      else length s)"
  by pat_completeness auto
termination
  by (relation "measure (\<lambda>(d, s, i). length s - i)") auto

declare quoted_end.simps [simp del]

definition skip_quoted_expression :: "ustr \<Rightarrow> nat \<Rightarrow> nat" where
  "skip_quoted_expression s i =
     (let delim = quote_delimiter s i in quoted_end delim s (i + length delim))"

lemma begins_length: "begins w s i \<Longrightarrow> w \<noteq> [] \<Longrightarrow> i + length w \<le> length s"
proof -
  assume "begins w s i" "w \<noteq> []"
  then have "w = take (length w) (drop i s)" by (simp add: begins_def starts_with_def)
  then have "length w \<le> length s - i" by (metis length_drop length_take min.cobounded1)
  with \<open>w \<noteq> []\<close> show ?thesis by (cases "i \<le> length s") auto
qed

lemma quoted_end_ge: "i \<le> length s \<Longrightarrow> i \<le> quoted_end delim s i"
proof (induction delim s i rule: quoted_end.induct)
  case (1 delim s i)
  show ?case
    by (subst quoted_end.simps) (use 1 in \<open>auto intro: Suc_leD\<close>)
qed

lemma delimiter_fits: "i < length s \<Longrightarrow> i + length (quote_delimiter s i) \<le> length s \<and> 0 < length (quote_delimiter s i)"
  using begins_length [of "[s ! i, s ! i, s ! i]" s i] by (auto simp: quote_delimiter_def Let_def)

lemma skip_quoted_gt: "i < length s \<Longrightarrow> i < skip_quoted_expression s i"
  using delimiter_fits [of i s] quoted_end_ge [of "i + length (quote_delimiter s i)" s "quote_delimiter s i"]
  by (simp add: skip_quoted_expression_def Let_def del: length_greater_0_conv)

function skip_dart_interpolation :: "ustr \<Rightarrow> nat \<Rightarrow> nat \<Rightarrow> nat" where
  "skip_dart_interpolation s i depth =
     (if i < length s \<and> 0 < depth then
        (let c = s ! i in
         if c = 39 \<or> c = 34 then skip_dart_interpolation s (skip_quoted_expression s i) depth
         else if c = 123 then skip_dart_interpolation s (Suc i) (Suc depth)
         else if c = 125 then skip_dart_interpolation s (Suc i) (depth - 1)
         else skip_dart_interpolation s (Suc i) depth)
      else i)"
  by pat_completeness auto
termination
  by (relation "measure (\<lambda>(s, i, d). length s - i)") (auto intro: diff_less_mono2 skip_quoted_gt)

declare skip_dart_interpolation.simps [simp del]

lemma skip_dart_ge: "i \<le> skip_dart_interpolation s i depth"
proof (induction s i depth rule: skip_dart_interpolation.induct)
  case (1 s i depth)
  show ?case
    by (subst skip_dart_interpolation.simps)
      (use 1 skip_quoted_gt [of i s] in \<open>auto simp: Let_def intro: Suc_leD less_imp_le le_trans\<close>)
qed

text \<open>Where the closing delimiter of a string starts; \<open>None\<close> when the text ends before.\<close>

function string_close :: "bool \<Rightarrow> ustr \<Rightarrow> bool \<Rightarrow> ustr \<Rightarrow> nat \<Rightarrow> nat option" where
  "string_close dart_interpolation delim raw s i =
     (if i < length s then
        (if dart_interpolation \<and> begins (u ''${'') s i
           then string_close dart_interpolation delim raw s (skip_dart_interpolation s (i + 2) 1)
         else if begins delim s i then Some i
         else if \<not> raw \<and> s ! i = 92 \<and> Suc i < length s then string_close dart_interpolation delim raw s (i + 2)
         else string_close dart_interpolation delim raw s (Suc i))
      else None)"
  by pat_completeness auto
termination
proof (relation "measure (\<lambda>(d, w, r, s, i). length s - i)", goal_cases)
  case (2 d w r s i)
  then show ?case using skip_dart_ge [of "i + 2" s 1] by simp
qed auto

declare string_close.simps [simp del]

lemma string_close_ge: "string_close d w r s i = Some j \<Longrightarrow> i \<le> j"
proof (induction d w r s i rule: string_close.induct)
  case (1 d w r s i)
  from 1(4) show ?case
    by (subst (asm) string_close.simps)
      (use 1(1-3) skip_dart_ge [of "i + 2" s 1] in \<open>force split: if_splits\<close>)
qed

definition comment_token :: "ustr \<Rightarrow> nat \<Rightarrow> nat \<Rightarrow> nat \<Rightarrow> c_token" where
  "comment_token s i i' body_end =
     \<lparr>tk_kind = Comment_token, tk_start = i, tk_end = i', tk_body = slice s (i + 2) body_end\<rparr>"

definition line_comment_end :: "ustr \<Rightarrow> nat \<Rightarrow> nat" where
  "line_comment_end s i = (case find_from [10] s (i + 2) of Some j \<Rightarrow> j | None \<Rightarrow> length s)"

definition block_comment :: "ustr \<Rightarrow> nat \<Rightarrow> nat \<times> nat" where
  "block_comment s i =
     (case find_from (u ''*/'') s (i + 2) of Some j \<Rightarrow> (j + 2, j) | None \<Rightarrow> (length s, length s))"

definition raw_prefix :: "ustr \<Rightarrow> nat \<Rightarrow> bool" where
  "raw_prefix s i \<longleftrightarrow> 0 < i \<and> (s ! (i - 1) = 114 \<or> s ! (i - 1) = 82)"

function c_like_tokens :: "bool \<Rightarrow> bool \<Rightarrow> ustr \<Rightarrow> nat \<Rightarrow> c_token list" where
  "c_like_tokens single dart_interpolation s i =
     (if \<not> i < length s then []
      else if begins (u ''//'') s i then
        comment_token s i (line_comment_end s i) (line_comment_end s i)
        # c_like_tokens single dart_interpolation s (line_comment_end s i)
      else if begins (u ''/*'') s i then
        comment_token s i (fst (block_comment s i)) (snd (block_comment s i))
        # c_like_tokens single dart_interpolation s (fst (block_comment s i))
      else if \<not> (s ! i = 34 \<or> single \<and> s ! i = 39) then c_like_tokens single dart_interpolation s (Suc i)
      else
        (let n = length (quote_delimiter s i) in
         case string_close dart_interpolation (quote_delimiter s i) (raw_prefix s i) s (i + n) of
           Some j \<Rightarrow>
             \<lparr>tk_kind = String_token, tk_start = i, tk_end = j + n, tk_body = slice s (i + n) j\<rparr>
             # c_like_tokens single dart_interpolation s (j + n)
         | None \<Rightarrow> c_like_tokens single dart_interpolation s (i + n)))"
  by pat_completeness auto
termination
proof (relation "measure (\<lambda>(q, d, s, i). length s - i)", goal_cases)
  case (2 q d s i)
  then have "i < line_comment_end s i"
    using begins_length [of "u ''//''" s i] by (auto simp: line_comment_end_def find_from_def split: option.splits)
  with 2 show ?case by simp
next
  case (3 q d s i)
  then have "i < fst (block_comment s i)"
    by (auto simp: block_comment_def find_from_def split: option.splits)
  with 3 show ?case by simp
next
  case (5 q d s i n)
  then have "0 < n" "i < length s" using delimiter_fits [of i s] by auto
  then show ?case by simp
next
  case (6 q d s i n j)
  then have "i + n \<le> j" "0 < n" "i < length s" using string_close_ge delimiter_fits [of i s] by auto
  then show ?case by simp
qed auto

declare c_like_tokens.simps [simp del]

definition iter_c_like_tokens :: "bool \<Rightarrow> bool \<Rightarrow> ustr \<Rightarrow> c_token list" where
  "iter_c_like_tokens single dart_interpolation s = c_like_tokens single dart_interpolation s 0"

subsection \<open>Comments\<close>

definition comment_candidate :: "ustr \<Rightarrow> ustr" where
  "comment_candidate raw_line = strip (dropWhile (one_of ''*!/'') (strip raw_line))"

definition comment_lines :: "ustr \<Rightarrow> ustr list" where
  "comment_lines body = (let ls = split_lines [] body in if ls = [] then [body] else ls)"

definition token_findings ::
  "tables \<Rightarrow> (nat \<Rightarrow> bool) \<Rightarrow> ustr \<Rightarrow> ustr \<Rightarrow> ustr list \<Rightarrow> c_token \<Rightarrow> finding list" where
  "token_findings T D path text terms token =
     concat (map (\<lambda>(offset, raw_line).
         let candidate = comment_candidate raw_line in
         if is_non_japanese_prose T D candidate terms
         then [\<lparr>fd_path = path, fd_surface = ''code_comment'', fd_line = line_number text (tk_start token) + offset,
                fd_excerpt = compact_excerpt candidate\<rparr>]
         else [])
       (enumerate 0 (comment_lines (tk_body token))))"

definition scan_c_like_comments ::
  "tables \<Rightarrow> (nat \<Rightarrow> bool) \<Rightarrow> ustr \<Rightarrow> ustr \<Rightarrow> ustr list \<Rightarrow> c_token list \<Rightarrow> finding list" where
  "scan_c_like_comments T D path text terms tokens =
     concat (map (token_findings T D path text terms) (filter (\<lambda>t. tk_kind t = Comment_token) tokens))"

subsection \<open>Dart\<close>

definition dart_context_rx :: rx where
  "dart_context_rx =
     alts [cats [Boundary, lit ''Text'', Star space_rx, lit ''(''],
       cats [Boundary, lit ''SelectableText'', Star space_rx, lit ''(''],
       cats [Boundary, lit ''Tooltip'', Star space_rx, lit ''(''],
       cats [Boundary, alts (map lit [''title'', ''subtitle'', ''label'', ''labelText'', ''hintText'', ''helperText'',
               ''errorText'', ''semanticLabel'', ''tooltip'', ''message'', ''reason'', ''requiredAction'',
               ''recoveryInstruction'', ''diagnosticSummary'', ''description'']), Star space_rx, lit '':'']]"

definition dart_diagnostic_rx :: rx where
  "dart_diagnostic_rx =
     cats [Boundary, alts (map lit [''throw'', ''return'', ''Exception'', ''Error'', ''print'', ''debugPrint'', ''log'']), Boundary]"

definition dart_machine_argument_rx :: rx where
  "dart_machine_argument_rx =
     cats [Boundary, alts (map lit [''evidenceLabel'', ''evidenceTitle'']), Star space_rx, lit '':'', Star space_rx]"

text \<open>A search for an expression that ends with \<open>$\<close>, where the spaces before it reach a final line end too.\<close>

fun search_to_end :: "tables \<Rightarrow> rx \<Rightarrow> nat option \<Rightarrow> ustr \<Rightarrow> bool" where
  "search_to_end T r before [] = list_ex (\<lambda>q. snd q = []) (ends T r (before, []))"
| "search_to_end T r before (c # s) =
     (list_ex (\<lambda>q. snd q = []) (ends T r (before, c # s)) \<or> search_to_end T r (Some c) s)"

definition directive_rx :: rx where
  "directive_rx = cats [Star space_rx, alts (map lit [''import'', ''export'', ''part'']), Boundary]"

text \<open>The start of the line an offset is in, and its end.\<close>

definition line_start :: "ustr \<Rightarrow> nat \<Rightarrow> nat" where
  "line_start s i = i - length (takeWhile (\<lambda>c. c \<noteq> 10) (rev (take i s)))"

definition line_end :: "ustr \<Rightarrow> nat \<Rightarrow> nat" where
  "line_end s i = (case find_from [10] s i of Some j \<Rightarrow> j | None \<Rightarrow> length s)"

definition last_chars :: "nat \<Rightarrow> ustr \<Rightarrow> ustr" where
  "last_chars n s = drop (length s - n) s"

definition dart_user_facing :: "tables \<Rightarrow> ustr \<Rightarrow> c_token \<Rightarrow> bool" where
  "dart_user_facing T text token \<longleftrightarrow>
     (let start = line_start text (tk_start token);
          line_text = slice text start (line_end text (tk_end token));
          after = take 12 (drop (tk_end token) text);
          before = slice text (tk_start token - 220) (tk_start token);
          ctx = before @ 10 # take (tk_start token - start) line_text
      in strip (tk_body token) \<noteq> []
         \<and> rx_match T directive_rx (at_start line_text) = None
         \<and> rx_match T (Cat (Star space_rx) (lit '':'')) (at_start after) = None
         \<and> \<not> search_to_end T dart_machine_argument_rx None before
         \<and> (rx_search T dart_context_rx ctx
            \<or> 2 \<le> length (rx_findall T latin_word (tk_body token)) \<and> rx_search T dart_diagnostic_rx (last_chars 120 ctx)))"

definition string_finding :: "ustr \<Rightarrow> string \<Rightarrow> ustr \<Rightarrow> c_token \<Rightarrow> finding" where
  "string_finding path surface text token =
     \<lparr>fd_path = path, fd_surface = surface, fd_line = line_number text (tk_start token),
      fd_excerpt = compact_excerpt (tk_body token)\<rparr>"

definition scan_dart :: "tables \<Rightarrow> (nat \<Rightarrow> bool) \<Rightarrow> ustr \<Rightarrow> ustr \<Rightarrow> ustr list \<Rightarrow> finding list" where
  "scan_dart T D path text terms =
     (let tokens = iter_c_like_tokens True True text in
      scan_c_like_comments T D path text terms tokens
      @ map (string_finding path ''dart_user_facing_string'' text)
          (filter (\<lambda>t. tk_kind t = String_token \<and> dart_user_facing T text t
                     \<and> is_non_japanese_prose T D (tk_body t) terms) tokens))"

subsection \<open>C, C++ and Rust\<close>

definition rust_diagnostic_rx :: rx where
  "rust_diagnostic_rx =
     alts (map lit [''println!'', ''eprintln!'', ''format!'', ''panic!'', ''bail!'', ''ensure!'', ''anyhow!'']
       @ map (\<lambda>w. cats [lit w, Star space_rx, lit ''('']) [''Err'', ''expect'']
       @ map (\<lambda>w. cats [lit w, Star space_rx, lit '':'']) [''message'', ''reason'', ''description''])"

definition scan_c_like_code :: "tables \<Rightarrow> (nat \<Rightarrow> bool) \<Rightarrow> ustr \<Rightarrow> ustr \<Rightarrow> ustr list \<Rightarrow> finding list" where
  "scan_c_like_code T D path text terms =
     (let tokens = iter_c_like_tokens (\<not> ends_with (u ''.rs'') path) False text in
      scan_c_like_comments T D path text terms tokens
      @ map (string_finding path ''cli_or_diagnostic_string'' text)
          (filter (\<lambda>t. tk_kind t = String_token
                     \<and> rx_search T rust_diagnostic_rx (slice text (tk_start t - 120) (tk_start t))
                     \<and> is_non_japanese_prose T D (tk_body t) terms) tokens))"

subsection \<open>Tokens lie in the text, one behind the other\<close>

definition token_in :: "ustr \<Rightarrow> c_token \<Rightarrow> bool" where
  "token_in s t \<longleftrightarrow> tk_start t < tk_end t \<and> tk_end t \<le> length s"

lemma find_sub_fits: "find_sub w s = Some n \<Longrightarrow> n + length w \<le> length s"
proof -
  assume "find_sub w s = Some n"
  from find_sub_Some [OF this] obtain b where b: "s = take n s @ w @ b" "n \<le> length s" by blast
  then have "length s = n + length w + length b"
    by (metis add.assoc length_append length_take min.absorb2)
  then show ?thesis by simp
qed

lemma find_from_fits: "find_from w s i = Some j \<Longrightarrow> i \<le> length s \<Longrightarrow> i \<le> j \<and> j + length w \<le> length s"
  using find_sub_fits [of w "drop i s"] by (fastforce simp: find_from_def)

lemma string_close_fits: "string_close d w r s i = Some j \<Longrightarrow> w \<noteq> [] \<Longrightarrow> j + length w \<le> length s"
proof (induction d w r s i rule: string_close.induct)
  case (1 d w r s i)
  from 1(4) show ?case
    by (subst (asm) string_close.simps)
      (use 1(1-3,5) begins_length [of w s i] in \<open>auto split: if_splits\<close>)
qed

lemma comment_in: "begins (u ''//'') s i \<Longrightarrow> token_in s (comment_token s i (line_comment_end s i) e)"
  and block_in: "begins (u ''/*'') s i \<Longrightarrow> token_in s (comment_token s i (fst (block_comment s i)) e)"
proof -
  assume "begins (u ''//'') s i"
  from begins_length [OF this] have "i + 2 \<le> length s" by simp
  then show "token_in s (comment_token s i (line_comment_end s i) e)"
    using find_from_fits [of "[10]" s "i + 2"]
    by (auto simp: token_in_def comment_token_def line_comment_end_def split: option.split)
next
  assume "begins (u ''/*'') s i"
  from begins_length [OF this] have "i + 2 \<le> length s" by simp
  then show "token_in s (comment_token s i (fst (block_comment s i)) e)"
    using find_from_fits [of "u ''*/''" s "i + 2"]
    by (auto simp: token_in_def comment_token_def block_comment_def split: option.split)
qed

definition tokens_from :: "ustr \<Rightarrow> nat \<Rightarrow> c_token list \<Rightarrow> bool" where
  "tokens_from s i ts \<longleftrightarrow>
     list_all (token_in s) ts \<and> sorted_wrt (\<lambda>a b. tk_end a \<le> tk_start b) ts \<and> list_all (\<lambda>t. i \<le> tk_start t) ts"

lemma tokens_from_Nil: "tokens_from s i []"
  by (simp add: tokens_from_def)

lemma tokens_from_Cons:
  "token_in s t \<Longrightarrow> i \<le> tk_start t \<Longrightarrow> tokens_from s (tk_end t) ts \<Longrightarrow> tokens_from s i (t # ts)"
  by (auto simp: tokens_from_def token_in_def list_all_iff)

lemma tokens_from_le: "tokens_from s j ts \<Longrightarrow> i \<le> j \<Longrightarrow> tokens_from s i ts"
  by (auto simp: tokens_from_def list_all_iff)

lemma tokens_from_tokens: "tokens_from s i (c_like_tokens single d s i)"
proof (induction single d s i rule: c_like_tokens.induct)
  case (1 single d s i)
  show ?case
  proof (cases "i < length s")
    case False
    then show ?thesis by (subst c_like_tokens.simps) (simp add: tokens_from_Nil)
  next
    case True
    consider (line) "begins (u ''//'') s i" | (block) "\<not> begins (u ''//'') s i" "begins (u ''/*'') s i"
      | (plain) "\<not> begins (u ''//'') s i" "\<not> begins (u ''/*'') s i" "\<not> (s ! i = 34 \<or> single \<and> s ! i = 39)"
      | (quoted) "\<not> begins (u ''//'') s i" "\<not> begins (u ''/*'') s i" "s ! i = 34 \<or> single \<and> s ! i = 39"
      by blast
    then show ?thesis
    proof cases
      case line
      with True have "tokens_from s (line_comment_end s i) (c_like_tokens single d s (line_comment_end s i))"
        by (intro 1(1)) simp_all
      with True line comment_in [OF line] show ?thesis
        by (subst c_like_tokens.simps) (auto intro!: tokens_from_Cons simp: comment_token_def)
    next
      case block
      with True have "tokens_from s (fst (block_comment s i)) (c_like_tokens single d s (fst (block_comment s i)))"
        by (intro 1(2)) simp_all
      with True block block_in [OF block(2)] show ?thesis
        by (subst c_like_tokens.simps) (auto intro!: tokens_from_Cons simp: comment_token_def)
    next
      case plain
      with True have "tokens_from s (Suc i) (c_like_tokens single d s (Suc i))"
        by (intro 1(3)) simp_all
      with True plain show ?thesis
        by (subst c_like_tokens.simps) (auto elim: tokens_from_le)
    next
      case quoted
      let ?n = "length (quote_delimiter s i)"
      from True have n: "0 < ?n" "quote_delimiter s i \<noteq> []" using delimiter_fits [of i s] by auto
      show ?thesis
      proof (cases "string_close d (quote_delimiter s i) (raw_prefix s i) s (i + ?n)")
        case None
        with True quoted have "tokens_from s (i + ?n) (c_like_tokens single d s (i + ?n))"
          by (intro 1(4)) simp_all
        with None True quoted show ?thesis
          by (subst c_like_tokens.simps) (simp add: tokens_from_le)
      next
        case (Some j)
        with True quoted have "tokens_from s (j + ?n) (c_like_tokens single d s (j + ?n))"
          by (intro 1(5)) simp_all
        moreover have "token_in s \<lparr>tk_kind = String_token, tk_start = i, tk_end = j + ?n, tk_body = slice s (i + ?n) j\<rparr>"
          using string_close_ge [OF Some] string_close_fits [OF Some n(2)] n(1)
          by (simp add: token_in_def del: length_greater_0_conv)
        ultimately show ?thesis using Some True quoted
          by (subst c_like_tokens.simps) (simp add: tokens_from_Cons Let_def)
      qed
    qed
  qed
qed

text \<open>
  C32. The tokenizer of the C-like languages ends on every text, and its comments and strings are ranges of the
  text that do not overlap, in order.
\<close>

theorem c_like_tokens_in_text:
  "list_all (\<lambda>t. tk_start t < tk_end t \<and> tk_end t \<le> length s) (iter_c_like_tokens single dart_interpolation s)
   \<and> sorted_wrt (\<lambda>a b. tk_end a \<le> tk_start b) (iter_c_like_tokens single dart_interpolation s)"
  using tokens_from_tokens [of s 0 single dart_interpolation]
  by (simp add: tokens_from_def iter_c_like_tokens_def token_in_def [abs_def])

end
