(* ===== verification/Script_Scan.thy ===== *)
theory Script_Scan
  imports Code_Scan
begin

text \<open>
  The scans of shell and PowerShell scripts, line by line, and of Python, of the Japanese base audit. What the
  modules \<open>tokenize\<close> and \<open>ast\<close> make of a Python source is a parameter: the comments read before the tokenizer
  stops, whether it stopped with an error, and the syntax tree, if there is one. A tree is made of nodes with the
  name of their class, their line and their fields in the order of the class.
\<close>

subsection \<open>Quoted strings of a line\<close>

text \<open>\<open>(['"])(.*?)(?<!\\)\1\<close> behind its opening quote: up to the first quote of the kind that no backslash precedes.\<close>

fun close_quote :: "nat \<Rightarrow> nat \<Rightarrow> ustr \<Rightarrow> ustr option" where
  "close_quote q before [] = None"
| "close_quote q before (c # s) =
     (if c = q \<and> before \<noteq> 92 then Some []
      else if c = 10 then None
      else map_option (Cons c) (close_quote q c s))"

lemma close_quote_length: "close_quote q b s = Some m \<Longrightarrow> length m < length s"
  by (induction s arbitrary: b m) (auto split: if_splits)

text \<open>\<open>QUOTED_RE.finditer(line)\<close>: what stands before the match, and its body.\<close>

function quoted_strings :: "ustr \<Rightarrow> ustr \<Rightarrow> (ustr \<times> ustr) list" where
  "quoted_strings done_rev [] = []"
| "quoted_strings done_rev (c # s) =
     (case if c = 39 \<or> c = 34 then close_quote c c s else None of
        Some m \<Rightarrow>
          (rev done_rev, m)
          # quoted_strings (rev (c # m @ [c]) @ done_rev) (drop (Suc (length m)) s)
      | None \<Rightarrow> quoted_strings (c # done_rev) s)"
  by pat_completeness auto
termination
  by (relation "measure (\<lambda>(d, s). length s)") (auto simp: less_Suc_eq_le)

definition shell_diagnostic_rx :: rx where
  "shell_diagnostic_rx =
     cats [Boundary,
       alts [ilit ''echo'', ilit ''printf'', ilit ''throw'',
         Cat (ilit ''Write-'') (alts (map ilit [''Host'', ''Output'', ''Error'', ''Warning'', ''Verbose''])),
         ilit ''System.out.print''], Boundary]"

definition powershell_human_rx :: rx where
  "powershell_human_rx =
     alts [cats [lit ''-'', alts (map ilit [''Message'', ''Reason'', ''RequiredAction'', ''RecoveryInstruction'']), Boundary],
       cats [Boundary, alts (map ilit [''message'', ''reason'', ''required_action'', ''recovery_instruction'',
               ''reason_not_formal_product_evidence'']), Star space_rx, lit ''=''],
       cats [lit ''$'', alts (map ilit [''errors'', ''failures'', ''warnings'', ''issues'', ''violations'', ''diagnostics'']),
         Star space_rx, alts [lit ''+='', cats [ilit ''.Add'', Star space_rx, lit ''('']]]]"

definition powershell_machine_rx :: rx where
  "powershell_machine_rx =
     alts [cats [lit ''-'', Chr iletter, Star (Chr (\<lambda>c. iletter c \<or> digit c \<or> c = 45)), Boundary],
       cats [Boundary, Chr (\<lambda>c. iletter c \<or> c = 95), Star (Chr (\<lambda>c. iletter c \<or> digit c \<or> c = 95)), Star space_rx, lit ''='']]"

text \<open>The last context before the string is one of the human ones.\<close>

definition powershell_human_value :: "tables \<Rightarrow> ustr \<Rightarrow> bool" where
  "powershell_human_value T before \<longleftrightarrow>
     (case rev (rx_iter T (Alt powershell_human_rx powershell_machine_rx) [] before) of
        [] \<Rightarrow> False
      | (v, m) # _ \<Rightarrow> rx_match T powershell_human_rx (first_char (rev v), drop (length v) before) \<noteq> None)"

definition script_finding :: "ustr \<Rightarrow> string \<Rightarrow> nat \<Rightarrow> ustr \<Rightarrow> finding" where
  "script_finding path surface number text =
     \<lparr>fd_path = path, fd_surface = surface, fd_line = number, fd_excerpt = compact_excerpt text\<rparr>"

definition shell_comment_findings ::
  "tables \<Rightarrow> (nat \<Rightarrow> bool) \<Rightarrow> ustr \<Rightarrow> ustr list \<Rightarrow> nat \<Rightarrow> ustr \<Rightarrow> finding list" where
  "shell_comment_findings T D path terms number line =
     (let stripped = strip line; comment = strip (tl stripped) in
      if starts_with (u ''#'') stripped \<and> \<not> starts_with (u ''#!'') stripped \<and> is_non_japanese_prose T D comment terms
      then [script_finding path ''code_comment'' number comment] else [])"

definition shell_line_findings ::
  "tables \<Rightarrow> (nat \<Rightarrow> bool) \<Rightarrow> ustr \<Rightarrow> ustr list \<Rightarrow> nat \<times> ustr \<Rightarrow> finding list" where
  "shell_line_findings T D path terms entry =
     (case entry of (number, line) \<Rightarrow>
        shell_comment_findings T D path terms number line
        @ map (\<lambda>(before, body). script_finding path ''cli_or_diagnostic_string'' number body)
            (filter (\<lambda>(before, body).
                (rx_search T shell_diagnostic_rx before
                 \<or> ends_with (u ''.ps1'') (lower_case T path) \<and> powershell_human_value T before)
                \<and> is_non_japanese_prose T D body terms)
              (quoted_strings [] line)))"

definition scan_shell_like :: "tables \<Rightarrow> (nat \<Rightarrow> bool) \<Rightarrow> ustr \<Rightarrow> ustr \<Rightarrow> ustr list \<Rightarrow> finding list" where
  "scan_shell_like T D path text terms =
     concat (map (shell_line_findings T D path terms) (enumerate 1 (split_lines [] text)))"

subsection \<open>Python syntax trees\<close>

datatype node = Node string nat "(string \<times> node_field) list"
  and node_field = Child node | Children "node option list" | Text_value ustr | Other_value

fun node_class :: "node \<Rightarrow> string" where
  "node_class (Node cls line fs) = cls"

fun node_line :: "node \<Rightarrow> nat" where
  "node_line (Node cls line fs) = line"

fun node_field_of :: "node \<Rightarrow> string \<Rightarrow> node_field" where
  "node_field_of (Node cls line fs) name = (case map_of fs name of Some f \<Rightarrow> f | None \<Rightarrow> Other_value)"

fun field_nodes :: "node_field \<Rightarrow> node list" where
  "field_nodes (Child n) = [n]"
| "field_nodes (Children ns) = concat (map (\<lambda>n. case n of Some m \<Rightarrow> [m] | None \<Rightarrow> []) ns)"
| "field_nodes _ = []"

text \<open>\<open>ast.iter_child_nodes\<close> and \<open>ast.walk\<close>, which goes through the tree level by level\<close>

fun child_nodes :: "node \<Rightarrow> node list" where
  "child_nodes (Node cls line fs) = concat (map (\<lambda>(name, f). field_nodes f) fs)"

lemma field_nodes_size: "sum_list (map size (field_nodes f)) \<le> size f"
proof (cases f)
  case (Children ns)
  have "sum_list (map size (concat (map (\<lambda>n. case n of Some m \<Rightarrow> [m] | None \<Rightarrow> []) ns))) \<le> size_list (size_option size) ns"
    by (induction ns) (auto split: option.splits)
  with Children show ?thesis by simp
qed auto

lemma child_nodes_size: "sum_list (map size (child_nodes n)) < size n"
proof (cases n)
  case (Node cls line fs)
  have "sum_list (map size (concat (map (\<lambda>(name, f). field_nodes f) fs)))
      \<le> size_list (size_prod (\<lambda>_. 0) size) fs" for fs :: "(string \<times> node_field) list"
  proof (induction fs)
    case (Cons x fs)
    then show ?case using field_nodes_size [of "snd x"] by (cases x) auto
  qed simp
  from this [of fs] Node show ?thesis by simp
qed

function walk_nodes :: "node list \<Rightarrow> node list" where
  "walk_nodes [] = []"
| "walk_nodes (n # queue) = n # walk_nodes (queue @ child_nodes n)"
  by pat_completeness auto
termination
proof (relation "measure (\<lambda>ns. sum_list (map size ns))", goal_cases)
  case (2 n queue)
  then show ?case using child_nodes_size [of n] by simp
qed simp

definition ast_walk :: "node \<Rightarrow> node list" where
  "ast_walk tree = walk_nodes [tree]"

subsection \<open>The texts a reader sees\<close>

type_synonym located = "nat \<times> ustr"

fun constant_text :: "node \<Rightarrow> ustr option" where
  "constant_text n =
     (if node_class n = ''Constant'' then (case node_field_of n ''value'' of Text_value s \<Rightarrow> Some s | _ \<Rightarrow> None) else None)"

definition constants :: "node list \<Rightarrow> ustr list" where
  "constants ns = concat (map (\<lambda>n. case constant_text n of Some s \<Rightarrow> [s] | None \<Rightarrow> []) ns)"

text \<open>The size of the tree bounds the recursion, so it is the fuel.\<close>

fun visible_within :: "nat \<Rightarrow> node \<Rightarrow> located list" where
  "visible_within 0 n = []"
| "visible_within (Suc k) n =
     (if node_class n = ''Constant'' then (case constant_text n of Some s \<Rightarrow> [(node_line n, s)] | None \<Rightarrow> [])
      else if node_class n = ''JoinedStr'' then
        (let visible = join_with '' '' (constants (field_nodes (node_field_of n ''values''))) in
         if visible = [] then [] else [(node_line n, visible)])
      else if node_class n \<in> {''Subscript'', ''Attribute'', ''Name''} then []
      else concat (map (visible_within k) (child_nodes n)))"

lemma child_size: "c \<in> set (child_nodes n) \<Longrightarrow> size c < size n"
  using child_nodes_size [of n] member_le_sum_list [of "size c" "map size (child_nodes n)"] by simp

lemma visible_fuel: "size n \<le> k \<Longrightarrow> size n \<le> m \<Longrightarrow> visible_within k n = visible_within m n"
proof (induction k arbitrary: n m)
  case 0
  then show ?case by (cases n) simp
next
  case (Suc k)
  have "0 < size n" by (cases n) simp
  with Suc.prems obtain m' where m: "m = Suc m'" by (metis Suc_le_D Suc_leI)
  have "map (visible_within k) (child_nodes n) = map (visible_within m') (child_nodes n)"
  proof (rule map_cong [OF refl])
    fix c
    assume "c \<in> set (child_nodes n)"
    from child_size [OF this] Suc.prems m have "size c \<le> k" "size c \<le> m'" by linarith+
    then show "visible_within k c = visible_within m' c" by (rule Suc.IH)
  qed
  then have "concat (map (visible_within k) (child_nodes n)) = concat (map (visible_within m') (child_nodes n))"
    by (rule arg_cong)
  then show ?case unfolding m visible_within.simps by (rule arg_cong)
qed

definition visible_string_constants :: "node \<Rightarrow> located list" where
  "visible_string_constants n = visible_within (size n) n"

fun returned_within :: "nat \<Rightarrow> node \<Rightarrow> located list" where
  "returned_within 0 n = []"
| "returned_within (Suc k) n =
     (if node_class n \<in> {''Constant'', ''JoinedStr''} then visible_string_constants n
      else if node_class n \<in> {''List'', ''Tuple'', ''Set''} then
        concat (map (returned_within k) (field_nodes (node_field_of n ''elts'')))
      else if node_class n = ''IfExp'' then
        concat (map (returned_within k) (field_nodes (node_field_of n ''body'') @ field_nodes (node_field_of n ''orelse'')))
      else [])"

definition returned_string_constants :: "node \<Rightarrow> located list" where
  "returned_string_constants n = returned_within (size n) n"

fun text_of_field :: "node_field \<Rightarrow> ustr" where
  "text_of_field (Text_value s) = s"
| "text_of_field _ = []"

definition child_of :: "node \<Rightarrow> string \<Rightarrow> node option" where
  "child_of n name = (case node_field_of n name of Child m \<Rightarrow> Some m | _ \<Rightarrow> None)"

definition python_call_name :: "node \<Rightarrow> ustr" where
  "python_call_name n =
     (case child_of n ''func'' of
        Some f \<Rightarrow>
          (if node_class f = ''Name'' then text_of_field (node_field_of f ''id'')
           else if node_class f = ''Attribute'' then text_of_field (node_field_of f ''attr'') else [])
      | None \<Rightarrow> [])"

definition DIAGNOSTIC_LISTS :: "ustr list" where
  "DIAGNOSTIC_LISTS = map u [''errors'', ''failures'', ''warnings'', ''issues'', ''violations'', ''diagnostics'']"

definition DIAGNOSTIC_CALLS :: "ustr list" where
  "DIAGNOSTIC_CALLS = map u
     [''print'', ''echo'', ''exit'', ''info'', ''debug'', ''log'', ''warning'', ''error'', ''exception'', ''critical'',
      ''ValueError'', ''RuntimeError'', ''AssertionError'', ''SystemExit'', ''ArgumentParser'', ''_failed'', ''_passed'']"

definition HUMAN_KEYWORDS :: "ustr list" where
  "HUMAN_KEYWORDS = map u [''help'', ''description'', ''reason'', ''required_action'', ''message'', ''post_v1_reason'']"

definition HUMAN_DICT_KEYS :: "ustr list" where
  "HUMAN_DICT_KEYS = map u [''message'', ''reason'', ''required_action'', ''description'']"

definition diagnostic_append :: "node \<Rightarrow> bool" where
  "diagnostic_append n \<longleftrightarrow>
     (case child_of n ''func'' of
        Some f \<Rightarrow>
          node_class f = ''Attribute'' \<and> text_of_field (node_field_of f ''attr'') = u ''append''
          \<and> (case child_of f ''value'' of
               Some v \<Rightarrow> node_class v = ''Name'' \<and> text_of_field (node_field_of v ''id'') \<in> set DIAGNOSTIC_LISTS
             | None \<Rightarrow> False)
      | None \<Rightarrow> False)"

definition call_candidates :: "node \<Rightarrow> located list" where
  "call_candidates n =
     (let args = field_nodes (node_field_of n ''args'');
          keywords = field_nodes (node_field_of n ''keywords'') in
      (if python_call_name n \<in> set DIAGNOSTIC_CALLS \<or> diagnostic_append n
       then concat (map visible_string_constants args) else [])
      @ (if python_call_name n = u ''EvidenceCheck'' \<and> 6 \<le> length args
         then concat (map visible_string_constants (take 2 (drop 4 args))) else [])
      @ concat (map (\<lambda>k. case (node_field_of k ''arg'', child_of k ''value'') of
            (Text_value a, Some v) \<Rightarrow> if a \<in> set HUMAN_KEYWORDS then visible_string_constants v else []
          | _ \<Rightarrow> []) keywords))"

fun option_nodes :: "node_field \<Rightarrow> node option list" where
  "option_nodes (Children ns) = ns"
| "option_nodes _ = []"

definition dict_candidates :: "node \<Rightarrow> located list" where
  "dict_candidates n =
     concat (map (\<lambda>(k, v). case (k, v) of
         (Some key, Some value) \<Rightarrow>
           (case constant_text key of
              Some s \<Rightarrow> if s \<in> set HUMAN_DICT_KEYS then visible_string_constants value else []
            | None \<Rightarrow> [])
       | _ \<Rightarrow> [])
       (zip (option_nodes (node_field_of n ''keys'')) (option_nodes (node_field_of n ''values''))))"

definition docstring_candidates :: "node \<Rightarrow> located list" where
  "docstring_candidates n =
     (case field_nodes (node_field_of n ''body'') of
        e # _ \<Rightarrow>
          (if node_class e = ''Expr'' then
             (case child_of e ''value'' of
                Some v \<Rightarrow> (case constant_text v of Some s \<Rightarrow> [(node_line v, s)] | None \<Rightarrow> [])
              | None \<Rightarrow> [])
           else [])
      | [] \<Rightarrow> [])"

definition visible_child :: "node \<Rightarrow> string \<Rightarrow> located list" where
  "visible_child n name = (case child_of n name of Some m \<Rightarrow> visible_string_constants m | None \<Rightarrow> [])"

definition returned_candidates :: "tables \<Rightarrow> node \<Rightarrow> located list" where
  "returned_candidates T n =
     (case child_of n ''value'' of
        Some m \<Rightarrow> filter (\<lambda>(line, s). 2 \<le> length (rx_findall T latin_word s)) (returned_string_constants m)
      | None \<Rightarrow> [])"

text \<open>A node is of one class, so one of the branches of the loop applies.\<close>

definition node_candidates :: "tables \<Rightarrow> node \<Rightarrow> string \<times> located list" where
  "node_candidates T n =
     (let cls = node_class n in
      if cls \<in> {''Module'', ''FunctionDef'', ''AsyncFunctionDef'', ''ClassDef''} then (''code_docstring'', docstring_candidates n)
      else (''cli_or_diagnostic_string'',
        if cls = ''Call'' then call_candidates n
        else if cls = ''Dict'' then dict_candidates n
        else if cls = ''Raise'' then visible_child n ''exc''
        else if cls = ''Assert'' then visible_child n ''msg''
        else if cls = ''Return'' then returned_candidates T n
        else []))"

subsection \<open>The scan of a Python source\<close>

text \<open>\<open>seen\<close> holds the lines and texts reported so far; a text is reported once per line, whatever its surface.\<close>

type_synonym python_findings = "located list \<times> finding list"

definition report_text ::
  "tables \<Rightarrow> (nat \<Rightarrow> bool) \<Rightarrow> ustr \<Rightarrow> ustr list \<Rightarrow> string \<Rightarrow> located \<Rightarrow> python_findings \<Rightarrow> python_findings" where
  "report_text T D path terms surface entry state =
     (case (entry, state) of ((number, s), (seen, findings)) \<Rightarrow>
        if is_non_japanese_prose T D s terms \<and> (number, s) \<notin> set seen
        then ((number, s) # seen, findings @ [script_finding path surface number s])
        else state)"

record python_source =
  ps_comments :: "located list"
  ps_tokens_ok :: bool
  ps_tree :: "node option"

definition comment_texts :: "python_source \<Rightarrow> located list" where
  "comment_texts ps =
     filter (\<lambda>(number, s). \<not> starts_with (u ''!'') s \<and> \<not> occurs (u ''coding:'') s \<and> \<not> occurs (u ''coding='') s)
       (map (\<lambda>(number, s). (number, strip (tl s))) (ps_comments ps))"

definition scan_node ::
  "tables \<Rightarrow> (nat \<Rightarrow> bool) \<Rightarrow> ustr \<Rightarrow> ustr list \<Rightarrow> node \<Rightarrow> python_findings \<Rightarrow> python_findings" where
  "scan_node T D path terms n state =
     (case node_candidates T n of (surface, texts) \<Rightarrow> fold (report_text T D path terms surface) texts state)"

definition scan_python ::
  "tables \<Rightarrow> (nat \<Rightarrow> bool) \<Rightarrow> (ustr \<Rightarrow> python_source) \<Rightarrow> ustr \<Rightarrow> ustr \<Rightarrow> ustr list \<Rightarrow> finding list \<times> msg list" where
  "scan_python T D parse path text terms =
     (let ps = parse text;
          commented = fold (report_text T D path terms ''code_comment'') (comment_texts ps) ([], []);
          token_failures = flag (\<not> ps_tokens_ok ps) (Msg ''the Python tokens cannot be read: {}'' [JStr path]) in
      case ps_tree ps of
        None \<Rightarrow> (snd commented, token_failures @ [Msg ''the Python syntax tree cannot be read: {}'' [JStr path]])
      | Some tree \<Rightarrow> (snd (fold (scan_node T D path terms) (ast_walk tree) commented), token_failures))"

end
