(* ===== verification/Exception_Registry.thy ===== *)
theory Exception_Registry
  imports Script_Scan Conformance_Scans
begin

text \<open>
  The registry of exceptions of the Japanese base audit: which scopes an exception may have, how the registry is
  read and checked against the repository, and what it excludes from the scans. The repository is a record: what
  \<open>git ls-files\<close> gives, where a path resolves to, and the regular files with their bytes and, when they are UTF-8
  that can be read, their text.
\<close>

datatype listing_outcome = Not_runnable msg | Git_error ustr | Undecodable | Listed ustr

record base_repo =
  br_listing :: listing_outcome
  br_root :: ppath
  br_resolve :: "ustr \<Rightarrow> ppath option"
  br_file :: "ustr \<Rightarrow> (byte list \<times> ustr option) option"

definition POLICY_PATH :: ustr where
  "POLICY_PATH = [0x898F, 0x5B9A] @ u ''/00_'' @ [0x65E5, 0x672C, 0x8A9E, 0x57FA, 0x5E95, 0x898F, 0x5B9A] @ u ''.md''"

definition INDEX_PATH :: ustr where
  "INDEX_PATH = [0x898F, 0x5B9A] @ u ''/'' @ [0x6B63, 0x672C, 0x7D22, 0x5F15] @ u ''.json''"

definition REGISTRY_PATH :: ustr where
  "REGISTRY_PATH = [0x898F, 0x5B9A] @ u ''/'' @ [0x65E5, 0x672C, 0x8A9E, 0x57FA, 0x5E95, 0x4F8B, 0x5916] @ u ''.json''"

definition AUDITOR_PATH :: ustr where
  "AUDITOR_PATH = u ''tooling/'' @ [0x65E5, 0x672C, 0x8A9E, 0x57FA, 0x5E95, 0x76E3, 0x67FB] @ u ''.py''"

definition WINDOWS_PROOF_PACK_SCOPE :: ustr where
  "WINDOWS_PROOF_PACK_SCOPE = u ''public_assets/windows_proof_pack/**''"

subsection \<open>Scopes\<close>

text \<open>
  \<open>fnmatch.fnmatchcase\<close>: a star is any text, a question mark any character, brackets a class. A class ends at
  the first closing bracket that is not its first character; without one the bracket stands for itself.
\<close>

fun class_items :: "ustr \<Rightarrow> nat \<Rightarrow> bool" where
  "class_items (a # d # b # cs) c = (if d = 45 then a \<le> c \<and> c \<le> b \<or> class_items cs c else c = a \<or> class_items (d # b # cs) c)"
| "class_items (a # cs) c = (c = a \<or> class_items cs c)"
| "class_items [] c = False"

definition class_end :: "ustr \<Rightarrow> nat option" where
  "class_end s =
     (let j0 = (if starts_with (u ''!'') s then 1 else 0);
          j1 = (if starts_with (u '']'') (drop j0 s) then Suc j0 else j0);
          n = length (takeWhile (\<lambda>c. c \<noteq> 93) (drop j1 s))
      in if j1 + n < length s then Some (j1 + n) else None)"

definition class_matches :: "ustr \<Rightarrow> nat \<Rightarrow> bool" where
  "class_matches stuff c \<longleftrightarrow>
     (if starts_with (u ''!'') stuff then \<not> class_items (tl stuff) c else class_items stuff c)"

lemma class_end_length: "class_end s = Some n \<Longrightarrow> n < length s"
  by (auto simp: class_end_def Let_def split: if_splits)

function fnmatch :: "ustr \<Rightarrow> ustr \<Rightarrow> bool" where
  "fnmatch [] s = (s = [])"
| "fnmatch (p # ps) s =
     (if p = 42 then fnmatch ps s \<or> (case s of [] \<Rightarrow> False | c # s' \<Rightarrow> fnmatch (p # ps) s')
      else
        (case s of
           [] \<Rightarrow> False
         | c # s' \<Rightarrow>
             (if p = 63 then fnmatch ps s'
              else if p = 91 then
                (case class_end ps of
                   Some n \<Rightarrow> class_matches (take n ps) c \<and> fnmatch (drop (Suc n) ps) s'
                 | None \<Rightarrow> c = p \<and> fnmatch ps s')
              else c = p \<and> fnmatch ps s')))"
  by pat_completeness auto
termination
  by (relation "measures [\<lambda>(p, s). length p + length s]") auto

declare fnmatch.simps(2) [simp del]

definition path_matches :: "ustr \<Rightarrow> ustr list \<Rightarrow> bool" where
  "path_matches path scopes \<longleftrightarrow>
     list_ex (\<lambda>scope. fnmatch scope path \<or> starts_with (u ''**/'') scope \<and> fnmatch (drop 3 scope) path) scopes"

fun valid_relative_scope :: "json \<Rightarrow> bool" where
  "valid_relative_scope (JStr s) \<longleftrightarrow> s \<noteq> [] \<and> \<not> is_absolute (path_of s) \<and> u ''..'' \<notin> set (path_parts (path_of s))"
| "valid_relative_scope _ \<longleftrightarrow> False"

definition scope_has_wildcard :: "ustr \<Rightarrow> bool" where
  "scope_has_wildcard scope \<longleftrightarrow> list_ex (one_of ''*?['') scope"

text \<open>\<open>Path(scope).name\<close>\<close>

definition file_name :: "ustr \<Rightarrow> ustr" where
  "file_name s = (let names = path_names (path_of s) in if names = [] then [] else last names)"

definition legal_name_rx :: rx where
  "legal_name_rx =
     Cat (alts (map ilit [''LICENSE'', ''LICENCE'', ''COPYING'', ''NOTICE'']))
       (opt (cats [Chr (one_of ''-.''), Chr (\<lambda>c. iletter c \<or> digit c), Star (Chr (\<lambda>c. iletter c \<or> digit c \<or> one_of ''.+-'' c))]))"

definition allowed_legal_text_scope :: "tables \<Rightarrow> ustr \<Rightarrow> bool" where
  "allowed_legal_text_scope T scope \<longleftrightarrow> rx_fullmatch T legal_name_rx (file_name scope)"

definition platform_scope_rx :: rx where
  "platform_scope_rx =
     cats [lit ''apps/'', plus (Chr name_char), lit ''/'', alts (map lit [''linux'', ''windows'', ''macos'']), lit ''/**'']"

definition allowed_generated_scope :: "tables \<Rightarrow> ustr \<Rightarrow> bool" where
  "allowed_generated_scope T scope \<longleftrightarrow>
     (let name = lower_case T (file_name scope) in
      ends_with (u ''.lock'') scope \<or> name = u ''.metadata'' \<or> occurs (u ''generated'') name
      \<or> scope = u ''MANIFEST.sha256.json'' \<or> rx_fullmatch T platform_scope_rx scope)"

definition allowed_evidence_scope :: "tables \<Rightarrow> ustr \<Rightarrow> bool" where
  "allowed_evidence_scope T scope \<longleftrightarrow>
     (let lowered = lower_case T scope in
      list_ex (\<lambda>p. starts_with (u p) lowered) [''docs/evidence/'', ''docs/source/'', ''docs/reports/'', ''docs/history/'']
      \<or> starts_with (u ''public_assets/windows_proof_pack/'') lowered
      \<or> occurs (u ''ledger'') (file_name lowered))"

subsection \<open>Categories\<close>

definition LEGAL_TEXT :: ustr where
  "LEGAL_TEXT = [0x6CD5, 0x7684, 0x539F, 0x6587]"

definition GENERATED :: ustr where
  "GENERATED = [0x751F, 0x6210, 0x7269, 0x30FB, 0x4F9D, 0x5B58, 0x56FA, 0x5B9A]"

definition EVIDENCE :: ustr where
  "EVIDENCE = [0x4FDD, 0x5B58, 0x8A3C, 0x62E0]"

definition MACHINE_SYNTAX :: ustr where
  "MACHINE_SYNTAX = [0x6A5F, 0x68B0, 0x69CB, 0x6587, 0x30FB, 0x5916, 0x90E8, 0x4E92, 0x63DB]"

definition PROPER_NAMES :: ustr where
  "PROPER_NAMES = [0x56FA, 0x6709, 0x540D, 0x30FB, 0x56FA, 0x5B9A, 0x8868, 0x8A18]"

definition REQUIRED_EXCEPTION_CATEGORIES :: "ustr list" where
  "REQUIRED_EXCEPTION_CATEGORIES = [LEGAL_TEXT, GENERATED, EVIDENCE, MACHINE_SYNTAX, PROPER_NAMES]"

definition LEXICAL_EXCEPTION_CATEGORIES :: "ustr list" where
  "LEXICAL_EXCEPTION_CATEGORIES = [MACHINE_SYNTAX, PROPER_NAMES]"

definition FILE_EXCEPTION_CATEGORIES :: "ustr list" where
  "FILE_EXCEPTION_CATEGORIES = [LEGAL_TEXT, GENERATED, EVIDENCE]"

subsection \<open>Entries\<close>

record exception_entry =
  ex_id :: ustr
  ex_scopes :: "ustr list"
  ex_region :: ustr
  ex_category :: ustr
  ex_handling :: ustr
  ex_integrity :: ustr
  ex_terms :: "ustr list"

record frozen_asset =
  fz_path :: ustr
  fz_sha256 :: ustr
  fz_exception :: ustr

record registry =
  rg_entries :: "exception_entry list"
  rg_frozen :: "frozen_asset list"

definition repository_paths :: "base_repo \<Rightarrow> ustr list \<times> msg list" where
  "repository_paths repo =
     (case br_listing repo of
        Not_runnable m \<Rightarrow> ([], [Within ''the repository files cannot be listed: {}'' [] m])
      | Git_error err \<Rightarrow> ([], [Msg ''git ls-files failed: {}'' [JStr err]])
      | Undecodable \<Rightarrow> ([], [Msg ''the repository files cannot be read as UTF-8'' []])
      | Listed text \<Rightarrow>
          (let paths = sort (filter (\<lambda>p. p \<noteq> []) (split_nul [] text)) in
           (paths,
            concat (map (\<lambda>rel. case br_resolve repo rel of
                None \<Rightarrow> [Msg ''the repository path cannot be resolved: {}'' [JStr rel]]
              | Some p \<Rightarrow> flag (\<not> below p (br_root repo)) (Msg ''the repository path points outside: {}'' [JStr rel])) paths))))"

definition read_utf8 :: "base_repo \<Rightarrow> ustr \<Rightarrow> ustr option" where
  "read_utf8 repo rel =
     (case br_file repo rel of Some (_, Some text) \<Rightarrow> Some (universal_newlines text) | _ \<Rightarrow> None)"

fun all_texts :: "json \<Rightarrow> ustr list option" where
  "all_texts (JArr xs) =
     (if list_all is_str xs then Some (map (\<lambda>x. case x of JStr s \<Rightarrow> s | _ \<Rightarrow> []) xs) else None)"
| "all_texts _ = None"

text \<open>\<open>scopes_raw\<close> and \<open>terms_raw\<close> after their checks: empty when a check fails.\<close>

definition scopes_of :: "obj \<Rightarrow> ustr list option" where
  "scopes_of item =
     (case dget item ''scopes'' of
        JArr xs \<Rightarrow> if xs \<noteq> [] \<and> list_all valid_relative_scope xs then all_texts (JArr xs) else None
      | _ \<Rightarrow> None)"

definition terms_of :: "obj \<Rightarrow> ustr list option" where
  "terms_of item =
     (case all_texts (dget_or item ''terms'' (JArr [])) of
        Some ts \<Rightarrow> if [] \<in> set ts then None else Some ts
      | None \<Rightarrow> None)"

definition given :: "'a list option \<Rightarrow> 'a list" where
  "given x = (case x of Some xs \<Rightarrow> xs | None \<Rightarrow> [])"

fun japanese_text :: "json \<Rightarrow> bool" where
  "japanese_text (JStr s) = has_japanese s"
| "japanese_text _ = False"

definition is_text :: "json \<Rightarrow> ustr \<Rightarrow> bool" where
  "is_text v s \<longleftrightarrow> v = JStr s"

text \<open>\<open>v in {...}\<close> for a set of texts: a list or an object has no hash.\<close>

definition in_texts :: "json \<Rightarrow> ustr list \<Rightarrow> exn + bool" where
  "in_texts v xs = (if hashable v then Inr (v \<in> JStr ` set xs) else Inl TypeError)"

text \<open>\<open>len(term.split())\<close>\<close>

definition word_count :: "ustr \<Rightarrow> nat" where
  "word_count s = length (filter (\<lambda>(b, c). is_space b \<and> \<not> is_space c) (zip (32 # s) s))"

definition entry_field_errors :: "(string \<Rightarrow> msg) \<Rightarrow> obj \<Rightarrow> msg list" where
  "entry_field_errors says item =
     concat (map (\<lambda>name. flag (\<not> japanese_text (dget item name)) (says (name @ '' must be Japanese'')))
       [''region'', ''unavoidable_reason_japanese'', ''japanese_reference'', ''review_trigger''])
     @ flag (\<not> is_text (dget item ''japanese_reference'') POLICY_PATH) (says ''japanese_reference must be the policy'')"

text \<open>What an entry may be, given its category, handling and integrity.\<close>

definition kind_errors :: "(string \<Rightarrow> msg) \<Rightarrow> json \<Rightarrow> json \<Rightarrow> json \<Rightarrow> exn + msg list" where
  "kind_errors says category handling integrity =
     bindE (in_texts category REQUIRED_EXCEPTION_CATEGORIES) (\<lambda>known.
     bindE (in_texts handling [u ''exclude_file'', u ''lexical_only'']) (\<lambda>handled.
     bindE (in_texts integrity [u ''sha256'', u ''review_on_change'']) (\<lambda>kept.
       Inr (flag (\<not> known) (says ''category is not defined'')
          @ flag (\<not> handled) (says ''handling is invalid'')
          @ flag (\<not> kept) (says ''integrity is invalid'')))))"

definition handling_errors :: "(string \<Rightarrow> msg) \<Rightarrow> json \<Rightarrow> json \<Rightarrow> json \<Rightarrow> msg list" where
  "handling_errors says category handling integrity =
     (let excluded = is_text handling (u ''exclude_file'') in
      flag (excluded \<and> category \<notin> JStr ` set FILE_EXCEPTION_CATEGORIES) (says ''only legal texts, generated files and evidence are excluded'')
      @ flag (is_text handling (u ''lexical_only'') \<and> category \<notin> JStr ` set LEXICAL_EXCEPTION_CATEGORIES)
          (says ''lexical exceptions are machine syntax or proper names'')
      @ flag ((is_text category LEGAL_TEXT \<or> is_text category EVIDENCE) \<and> \<not> (excluded \<and> is_text integrity (u ''sha256'')))
          (says ''legal texts and evidence are excluded files with a fixed hash''))"

definition scope_errors :: "tables \<Rightarrow> (string \<Rightarrow> msg) \<Rightarrow> ustr list \<Rightarrow> json \<Rightarrow> json \<Rightarrow> json \<Rightarrow> ustr list \<Rightarrow> msg list" where
  "scope_errors T says repository_files category handling integrity scopes =
     (let each = (\<lambda>bad what. concat (map (\<lambda>s. flag (bad s) (Within ''{}: {}'' [JStr s] (says what))) scopes)) in
      flag (is_text category LEGAL_TEXT \<and> list_ex scope_has_wildcard scopes) (says ''a legal text has a wildcard scope'')
      @ (if is_text category EVIDENCE
         then each (\<lambda>s. scope_has_wildcard s \<and> s \<noteq> WINDOWS_PROOF_PACK_SCOPE) ''a wildcard scope of evidence is not the proof pack''
         else [])
      @ (if is_text category LEGAL_TEXT then each (\<lambda>s. \<not> allowed_legal_text_scope T s) ''the scope is no legal text'' else [])
      @ (if is_text category EVIDENCE then each (\<lambda>s. \<not> allowed_evidence_scope T s) ''the scope is not local evidence'' else [])
      @ (if is_text category GENERATED
         then flag (\<not> (is_text handling (u ''exclude_file'') \<and> is_text integrity (u ''review_on_change'')))
                (says ''generated files are excluded and audited on change'')
              @ each (\<lambda>s. \<not> allowed_generated_scope T s) ''the scope is not known to be generated''
         else [])
      @ (if is_text handling (u ''exclude_file'')
         then each (\<lambda>s. \<not> list_ex (\<lambda>rel. path_matches rel [s]) repository_files) ''the scope excludes no file'' else []))"

definition broad_term :: "ustr \<Rightarrow> bool" where
  "broad_term term \<longleftrightarrow> 64 < length term \<or> 4 < word_count term \<or> 10 \<in> set term"

definition term_errors :: "(string \<Rightarrow> msg) \<Rightarrow> json \<Rightarrow> ustr list \<Rightarrow> msg list" where
  "term_errors says category terms =
     flag (is_text category MACHINE_SYNTAX \<and> terms \<noteq> []) (says ''machine syntax has no terms'')
     @ (if is_text category PROPER_NAMES
        then flag (terms = []) (says ''proper names need terms'')
             @ map (\<lambda>t. Within ''{}: {}'' [JStr t] (says ''the term is too broad'')) (filter broad_term terms)
        else [])"

text \<open>\<open>str(value or "")\<close>\<close>

definition entry_text :: "tables \<Rightarrow> json \<Rightarrow> ustr" where
  "entry_text T v = text_of T v"

definition read_entry ::
  "tables \<Rightarrow> ustr list \<Rightarrow> (string \<Rightarrow> msg) \<Rightarrow> ustr \<Rightarrow> obj \<Rightarrow> exn + exception_entry \<times> msg list" where
  "read_entry T repository_files says exception_id item =
     (let category = dget item ''category''; handling = dget item ''handling''; integrity = dget item ''integrity'';
          scopes = scopes_of item; terms = terms_of item in
      bindE (kind_errors says category handling integrity) (\<lambda>kinds.
        Inr (\<lparr>ex_id = exception_id, ex_scopes = given scopes, ex_region = entry_text T (dget item ''region''),
              ex_category = entry_text T category,
              ex_handling = entry_text T handling, ex_integrity = entry_text T integrity, ex_terms = given terms\<rparr>,
           flag (scopes = None) (says ''scopes must be relative scopes of the repository'')
           @ entry_field_errors says item @ kinds
           @ flag (\<not> is_text (dget item ''authority_effect'') (u ''none'')) (says ''authority_effect must be none'')
           @ flag (terms = None) (says ''terms must be texts'')
           @ handling_errors says category handling integrity
           @ scope_errors T says repository_files category handling integrity (given scopes)
           @ term_errors says category (given terms))))"

definition exception_id_rx :: rx where
  "exception_id_rx = cats [lit ''JBE-'', Chr digit, Chr digit, Chr digit]"

definition entry_id :: "tables \<Rightarrow> json \<Rightarrow> ustr option" where
  "entry_id T v = (case v of JStr s \<Rightarrow> if rx_fullmatch T exception_id_rx s then Some s else None | _ \<Rightarrow> None)"

definition at_exception :: "nat \<Rightarrow> string \<Rightarrow> msg" where
  "at_exception index what = Within ''exceptions[{}]: {}'' [JInt (int index)] (Msg what [])"

fun read_entries ::
  "tables \<Rightarrow> ustr list \<Rightarrow> nat \<Rightarrow> ustr list \<Rightarrow> json list \<Rightarrow> exn + exception_entry list \<times> msg list" where
  "read_entries T repository_files index seen [] = Inr ([], [])"
| "read_entries T repository_files index seen (JObj item # items) =
     (case entry_id T (dget item ''id'') of
        None \<Rightarrow>
          bindE (read_entries T repository_files (Suc index) seen items) (\<lambda>(es, ms).
            Inr (es, at_exception index ''id must be JBE-NNN'' # ms))
      | Some i \<Rightarrow>
          bindE (read_entry T repository_files (at_exception index) i item) (\<lambda>(e, m).
          bindE (read_entries T repository_files (Suc index) (i # seen) items) (\<lambda>(es, ms).
            Inr (e # es, flag (i \<in> set seen) (at_exception index ''id is duplicated'') @ m @ ms))))"
| "read_entries T repository_files index seen (_ # items) =
     bindE (read_entries T repository_files (Suc index) seen items) (\<lambda>(es, ms).
       Inr (es, at_exception index ''the entry must be an object'' # ms))"

subsection \<open>Frozen assets\<close>

definition at_asset :: "nat \<Rightarrow> string \<Rightarrow> msg" where
  "at_asset index what = Within ''frozen_assets[{}]: {}'' [JInt (int index)] (Msg what [])"

fun fixed_path :: "json \<Rightarrow> ustr option" where
  "fixed_path (JStr s) = (if valid_relative_scope (JStr s) \<and> \<not> scope_has_wildcard s then Some s else None)"
| "fixed_path _ = None"

fun fixed_hash :: "json \<Rightarrow> ustr option" where
  "fixed_hash (JStr s) = (if length s = 64 \<and> list_all is_lower_hex s then Some s else None)"
| "fixed_hash _ = None"

text \<open>\<open>by_id\<close>: the last entry with the id.\<close>

definition entry_by_id :: "exception_entry list \<Rightarrow> ustr \<Rightarrow> exception_entry option" where
  "entry_by_id entries i = find (\<lambda>e. ex_id e = i) (rev entries)"

definition sha256_file :: "byte list \<Rightarrow> ustr" where
  "sha256_file bs = hexdigest (sha256 bs)"

definition asset_errors :: "base_repo \<Rightarrow> nat \<Rightarrow> ustr \<Rightarrow> ustr \<Rightarrow> msg list" where
  "asset_errors repo index rel expected =
     (case br_file repo rel of
        None \<Rightarrow> [at_asset index ''the fixed asset does not exist'']
      | Some (bs, _) \<Rightarrow> flag (sha256_file bs \<noteq> expected) (at_asset index ''the hash of the fixed asset changed''))"

definition read_asset ::
  "tables \<Rightarrow> base_repo \<Rightarrow> exception_entry list \<Rightarrow> nat \<Rightarrow> ustr \<Rightarrow> obj \<Rightarrow> frozen_asset list \<times> msg list" where
  "read_asset T repo entries index rel item =
     (case fixed_hash (dget item ''sha256'') of
        None \<Rightarrow> ([], [at_asset index ''sha256 is invalid''])
      | Some expected \<Rightarrow>
          (let i = py_str T (dget item ''exception_id'') in
           case entry_by_id entries i of
             Some e \<Rightarrow>
               (if ex_integrity e \<noteq> u ''sha256'' \<or> \<not> path_matches rel (ex_scopes e)
                then ([], [at_asset index ''exception_id names no fixed exception with the scope''])
                else ([\<lparr>fz_path = rel, fz_sha256 = expected, fz_exception = i\<rparr>], asset_errors repo index rel expected))
           | None \<Rightarrow> ([], [at_asset index ''exception_id names no fixed exception with the scope''])))"

text \<open>The paths seen so far grow also when the rest of the asset is refused.\<close>

fun read_assets ::
  "tables \<Rightarrow> base_repo \<Rightarrow> exception_entry list \<Rightarrow> nat \<Rightarrow> ustr list \<Rightarrow> json list
     \<Rightarrow> ustr list \<times> frozen_asset list \<times> msg list" where
  "read_assets T repo entries index paths [] = (paths, [], [])"
| "read_assets T repo entries index paths (JObj item # items) =
     (case fixed_path (dget item ''path'') of
        None \<Rightarrow>
          (case read_assets T repo entries (Suc index) paths items of (ps, fs, ms) \<Rightarrow>
            (ps, fs, at_asset index ''path must be a fixed relative path'' # ms))
      | Some rel \<Rightarrow>
          (case read_asset T repo entries index rel item of (f, m) \<Rightarrow>
          (case read_assets T repo entries (Suc index) (rel # paths) items of (ps, fs, ms) \<Rightarrow>
            (ps, f @ fs, flag (rel \<in> set paths) (at_asset index ''path is duplicated'') @ m @ ms))))"
| "read_assets T repo entries index paths (_ # items) =
     (case read_assets T repo entries (Suc index) paths items of (ps, fs, ms) \<Rightarrow>
       (ps, fs, at_asset index ''the asset must be an object'' # ms))"

definition fixed_exception :: "exception_entry \<Rightarrow> bool" where
  "fixed_exception e \<longleftrightarrow> ex_handling e = u ''exclude_file'' \<and> ex_integrity e = u ''sha256''"

definition unfrozen_errors :: "ustr list \<Rightarrow> ustr list \<Rightarrow> exception_entry \<Rightarrow> msg list" where
  "unfrozen_errors repository_files frozen_paths e =
     (if fixed_exception e
      then map (\<lambda>rel. Msg ''{}: an asset of a fixed scope is not frozen: {}'' [JStr (ex_id e), JStr rel])
             (filter (\<lambda>rel. path_matches rel (ex_scopes e) \<and> rel \<notin> set frozen_paths) repository_files)
      else [])"

fun list_or_empty :: "json \<Rightarrow> json list option" where
  "list_or_empty (JArr xs) = Some xs"
| "list_or_empty _ = None"

definition header_errors :: "obj \<Rightarrow> msg list" where
  "header_errors raw =
     remark (\<not> py_eq (dget raw ''schema_version'') (JInt 1)) ''the schema_version of the registry must be 1''
     @ remark (\<not> is_text (dget raw ''policy'') POLICY_PATH) ''the registry must name the policy''
     @ remark (\<not> japanese_text (dget raw ''purpose_japanese'')) ''purpose_japanese must be Japanese''"

definition missing_categories :: "exception_entry list \<Rightarrow> ustr list" where
  "missing_categories entries = sort (filter (\<lambda>c. c \<notin> ex_category ` set entries) REQUIRED_EXCEPTION_CATEGORIES)"

definition empty_registry :: registry where
  "empty_registry = \<lparr>rg_entries = [], rg_frozen = []\<rparr>"

definition registry_of ::
  "tables \<Rightarrow> base_repo \<Rightarrow> ustr list \<Rightarrow> obj \<Rightarrow> exn + registry \<times> msg list" where
  "registry_of T repo repository_files raw =
     bindE (read_entries T repository_files 0 [] (given (list_or_empty (dget raw ''exceptions'')))) (\<lambda>(entries, entry_messages).
     case read_assets T repo entries 0 [] (given (list_or_empty (dget raw ''frozen_assets''))) of
       (frozen_paths, frozen, asset_messages) \<Rightarrow>
         Inr (\<lparr>rg_entries = entries, rg_frozen = frozen\<rparr>,
           header_errors raw
           @ remark (list_or_empty (dget raw ''exceptions'') = None) ''exceptions must be an array''
           @ entry_messages
           @ flag (missing_categories entries \<noteq> [])
               (Msg ''the registry lacks required categories: {}'' [listing (missing_categories entries)])
           @ remark (list_or_empty (dget raw ''frozen_assets'') = None) ''frozen_assets must be an array''
           @ asset_messages
           @ concat (map (unfrozen_errors repository_files frozen_paths) entries)))"

definition load_registry :: "tables \<Rightarrow> base_repo \<Rightarrow> ustr list \<Rightarrow> exn + registry \<times> msg list" where
  "load_registry T repo repository_files =
     (case map_option py_loads (read_utf8 repo REGISTRY_PATH) of
        Some (Inr (JObj raw)) \<Rightarrow> registry_of T repo repository_files raw
      | Some (Inr _) \<Rightarrow> Inl AttributeError
      | _ \<Rightarrow> Inr (empty_registry, [Msg ''the registry of exceptions cannot be read'' []]))"

subsection \<open>Governance\<close>

definition policy_phrases :: "ustr list" where
  "policy_phrases = [[0x65E5, 0x672C, 0x8A9E], [0x57FA, 0x5E95], [0x5C40, 0x6240, 0x4F8B, 0x5916], [0x76E3, 0x67FB]]"

definition policy_errors :: "base_repo \<Rightarrow> msg list" where
  "policy_errors repo =
     (if br_file repo POLICY_PATH = None then [Msg ''the policy does not exist'' []]
      else
        (case read_utf8 repo POLICY_PATH of
           None \<Rightarrow> [Msg ''the policy cannot be read as UTF-8'' []]
         | Some policy \<Rightarrow> lacks ''the policy lacks a required phrase: {}'' policy_phrases policy))"

text \<open>\<open>json.dumps(index, ensure_ascii=False, sort_keys=True)\<close>, with its default separators\<close>

fun render_spaced :: "json \<Rightarrow> ustr" where
  "render_spaced (JArr xs) = 91 # join [44, 32] (map render_spaced xs) @ [93]"
| "render_spaced (JObj d) = 123 # join [44, 32] (map (\<lambda>(k, v). raw_quote k @ [58, 32] @ render_spaced v) d) @ [125]"
| "render_spaced v = render_raw v"

definition index_errors :: "base_repo \<Rightarrow> msg list" where
  "index_errors repo =
     (case map_option py_loads (read_utf8 repo INDEX_PATH) of
        Some (Inr index) \<Rightarrow>
          lacks ''the index of originals lacks a connection: {}'' [[0x65E5, 0x672C, 0x8A9E], POLICY_PATH, REGISTRY_PATH, AUDITOR_PATH]
            (render_spaced (sort_keys index))
      | _ \<Rightarrow> [Msg ''the index of originals cannot be read'' []])"

definition validate_governance :: "base_repo \<Rightarrow> msg list" where
  "validate_governance repo = policy_errors repo @ index_errors repo"

subsection \<open>What the registry excludes\<close>

definition exception_for_path :: "ustr \<Rightarrow> registry \<Rightarrow> exception_entry option" where
  "exception_for_path path rg =
     find (\<lambda>e. ex_handling e = u ''exclude_file'' \<and> path_matches path (ex_scopes e)) (rg_entries rg)"

text \<open>The terms of all lexical exceptions of a path, the longest first; the order of equally long ones is that of
  the set in the source, which the language leaves open, and here that of the texts.\<close>

definition lexical_terms_for_path :: "ustr \<Rightarrow> registry \<Rightarrow> ustr list" where
  "lexical_terms_for_path path rg =
     sort_key (\<lambda>t. - int (length t)) (sort (remdups (concat (map ex_terms
       (filter (\<lambda>e. ex_handling e = u ''lexical_only'' \<and> path_matches path (ex_scopes e)) (rg_entries rg))))))"

end
