(* ===== verification/Base_Audit.thy ===== *)
theory Base_Audit
  imports Exception_Registry
begin

text \<open>
  The Japanese base audit itself: which files are scanned and how, the result of an audit, its exit status, and
  what a passing strict audit shows. The printed report is not modelled; counts and messages are the result's.
\<close>

subsection \<open>Kinds of files\<close>

datatype file_kind = Markdown | Dart | Json_schema | Json_human | Python_code | C_like_code | Shell_code

text \<open>\<open>Path(rel).suffix\<close>: from the last dot of the name, unless it starts or ends the name.\<close>

definition path_suffix :: "ustr \<Rightarrow> ustr" where
  "path_suffix rel =
     (let name = file_name rel; tail = rev (takeWhile (\<lambda>c. c \<noteq> 46) (rev name)) in
      if tail = [] \<or> length name \<le> length tail + 1 then [] else 46 # tail)"

definition kind_of :: "tables \<Rightarrow> ustr \<Rightarrow> file_kind option" where
  "kind_of T rel =
     (let suffix' = lower_case T (path_suffix rel) in
      if suffix' = u ''.md'' then Some Markdown
      else if suffix' = u ''.dart'' then Some Dart
      else if suffix' = u ''.json'' then Some (if ends_with (u ''.schema.json'') rel then Json_schema else Json_human)
      else if suffix' = u ''.py'' then Some Python_code
      else if suffix' \<in> {u ''.rs'', u ''.cpp'', u ''.cc'', u ''.h''} then Some C_like_code
      else if suffix' \<in> {u ''.sh'', u ''.ps1''} then Some Shell_code
      else None)"

definition scan_text ::
  "tables \<Rightarrow> (nat \<Rightarrow> bool) \<Rightarrow> (ustr \<Rightarrow> python_source) \<Rightarrow> file_kind \<Rightarrow> ustr \<Rightarrow> ustr \<Rightarrow> ustr list \<Rightarrow> finding list \<times> msg list" where
  "scan_text T D parse kind rel text terms =
     (case kind of
        Markdown \<Rightarrow> (scan_markdown T D rel text terms, [])
      | Dart \<Rightarrow> (scan_dart T D rel text terms, [])
      | Json_schema \<Rightarrow> scan_schema T D rel text terms
      | Json_human \<Rightarrow> scan_json_human_metadata T D rel text terms
      | Python_code \<Rightarrow> scan_python T D parse rel text terms
      | C_like_code \<Rightarrow> (scan_c_like_code T D rel text terms, [])
      | Shell_code \<Rightarrow> (scan_shell_like T D rel text terms, []))"

subsection \<open>The audit\<close>

text \<open>What one file adds: a line of the excluded files, the kind it was scanned as, findings and failures.\<close>

record file_outcome =
  fo_excluded :: "ustr list"
  fo_scanned :: "file_kind list"
  fo_findings :: "finding list"
  fo_failures :: "msg list"

definition no_outcome :: file_outcome where
  "no_outcome = \<lparr>fo_excluded = [], fo_scanned = [], fo_findings = [], fo_failures = []\<rparr>"

definition audit_file ::
  "tables \<Rightarrow> (nat \<Rightarrow> bool) \<Rightarrow> (ustr \<Rightarrow> python_source) \<Rightarrow> base_repo \<Rightarrow> registry \<Rightarrow> ustr \<Rightarrow> file_outcome" where
  "audit_file T D parse repo rg rel =
     (case exception_for_path rel rg of
        Some e \<Rightarrow> no_outcome\<lparr>fo_excluded := [rel @ u '' ('' @ ex_id e @ u '')'']\<rparr>
      | None \<Rightarrow>
          (case kind_of T rel of
             None \<Rightarrow> no_outcome
           | Some kind \<Rightarrow>
               (if br_file repo rel = None
                then no_outcome\<lparr>fo_failures := [Msg ''a file to scan does not exist: {}'' [JStr rel]]\<rparr>
                else
                  (case read_utf8 repo rel of
                     None \<Rightarrow> no_outcome\<lparr>fo_failures := [Msg ''a file to scan cannot be read as UTF-8: {}'' [JStr rel]]\<rparr>
                   | Some text \<Rightarrow>
                       (case scan_text T D parse kind rel text (lexical_terms_for_path rel rg) of
                          (findings, failures) \<Rightarrow>
                            \<lparr>fo_excluded = [], fo_scanned = [kind], fo_findings = findings, fo_failures = failures\<rparr>)))))"

text \<open>Sorted by path, line, surface and excerpt (by stable sorts, the last key first), each finding once.\<close>

definition sorted_findings :: "finding list \<Rightarrow> finding list" where
  "sorted_findings fs =
     rev (remdups (rev
       (sort_key fd_path (sort_key fd_line (sort_key (\<lambda>f. u (fd_surface f)) (sort_key fd_excerpt fs))))))"

record audit_result =
  au_ok :: bool
  au_state :: string
  au_strict :: bool
  au_repository_files :: nat
  au_scanned :: "file_kind list"
  au_excluded :: "ustr list"
  au_debt_files :: nat
  au_findings :: "finding list"
  au_failures :: "msg list"
  au_warnings :: "msg list"

definition debt_message :: "string \<Rightarrow> finding list \<Rightarrow> msg" where
  "debt_message template fs =
     Msg template [JInt (int (length (remdups (map fd_path fs)))), JInt (int (length fs))]"

definition audit_repository ::
  "tables \<Rightarrow> (nat \<Rightarrow> bool) \<Rightarrow> (ustr \<Rightarrow> python_source) \<Rightarrow> bool \<Rightarrow> base_repo \<Rightarrow> exn + audit_result" where
  "audit_repository T D parse strict repo =
     (case repository_paths repo of (repository_files, git_failures) \<Rightarrow>
      bindE (load_registry T repo repository_files) (\<lambda>(rg, registry_failures).
      let outcomes = map (audit_file T D parse repo rg) repository_files;
          findings = sorted_findings (concat (map fo_findings outcomes));
          failures = git_failures @ registry_failures @ validate_governance repo @ concat (map fo_failures outcomes)
            @ flag (strict \<and> findings \<noteq> [])
                (debt_message ''strict audit: {} files with {} findings are unresolved'' findings)
      in Inr \<lparr>au_ok = (failures = []),
            au_state = (if failures \<noteq> [] then ''inconsistent''
                        else if findings \<noteq> [] then ''reported with debt'' else ''strictly established''),
            au_strict = strict, au_repository_files = length repository_files,
            au_scanned = concat (map fo_scanned outcomes), au_excluded = sort (concat (map fo_excluded outcomes)),
            au_debt_files = length (remdups (map fd_path findings)), au_findings = findings, au_failures = failures,
            au_warnings = flag (findings \<noteq> []) (debt_message ''{} files with {} findings remain'' findings)\<rparr>))"

definition base_audit_exit ::
  "tables \<Rightarrow> (nat \<Rightarrow> bool) \<Rightarrow> (ustr \<Rightarrow> python_source) \<Rightarrow> bool \<Rightarrow> base_repo \<Rightarrow> exn + nat" where
  "base_audit_exit T D parse strict repo =
     bindE (audit_repository T D parse strict repo) (\<lambda>r. Inr (if au_ok r then 0 else 1))"

subsection \<open>Globs without wildcards\<close>

lemma fnmatch_plain: "\<not> scope_has_wildcard scope \<Longrightarrow> fnmatch scope s \<longleftrightarrow> s = scope"
proof (induction scope arbitrary: s)
  case (Cons p ps)
  then have "p \<noteq> 42" "p \<noteq> 63" "p \<noteq> 91" "\<not> scope_has_wildcard ps"
    by (auto simp: scope_has_wildcard_def one_of_def u_def)
  with Cons.IH show ?case by (subst fnmatch.simps) (auto split: list.splits)
qed simp

lemma path_matches_plain: "\<not> list_ex scope_has_wildcard scopes \<Longrightarrow> path_matches path scopes \<Longrightarrow> path \<in> set scopes"
proof -
  assume plain: "\<not> list_ex scope_has_wildcard scopes" and "path_matches path scopes"
  then obtain scope where s: "scope \<in> set scopes"
    "fnmatch scope path \<or> starts_with (u ''**/'') scope \<and> fnmatch (drop 3 scope) path"
    by (auto simp: path_matches_def list_ex_iff)
  with plain have "\<not> scope_has_wildcard scope" by (auto simp: list_ex_iff)
  moreover from this have "\<not> starts_with (u ''**/'') scope"
    by (cases scope) (auto simp: starts_with_def scope_has_wildcard_def one_of_def u_def)
  ultimately show ?thesis using s fnmatch_plain by auto
qed

subsection \<open>A registry read without failures\<close>

definition entry_ok :: "tables \<Rightarrow> exception_entry \<Rightarrow> bool" where
  "entry_ok T e \<longleftrightarrow>
     (ex_handling e = u ''exclude_file'' \<longrightarrow> ex_category e \<in> set FILE_EXCEPTION_CATEGORIES)
     \<and> (ex_category e = LEGAL_TEXT \<or> ex_category e = EVIDENCE \<longrightarrow> fixed_exception e)
     \<and> (ex_category e = LEGAL_TEXT \<longrightarrow>
          \<not> list_ex scope_has_wildcard (ex_scopes e) \<and> list_all (allowed_legal_text_scope T) (ex_scopes e))
     \<and> (ex_category e = EVIDENCE \<longrightarrow> list_all (allowed_evidence_scope T) (ex_scopes e))
     \<and> (ex_category e = GENERATED \<longrightarrow> list_all (allowed_generated_scope T) (ex_scopes e))"

lemma categories_nonempty: "c \<in> set REQUIRED_EXCEPTION_CATEGORIES \<Longrightarrow> c \<noteq> []"
  by (auto simp: REQUIRED_EXCEPTION_CATEGORIES_def LEGAL_TEXT_def GENERATED_def EVIDENCE_def MACHINE_SYNTAX_def PROPER_NAMES_def)

lemma known_text: "in_texts v xs = Inr True \<Longrightarrow> \<exists>s \<in> set xs. v = JStr s"
  by (auto simp: in_texts_def split: if_splits)

lemma entry_text_JStr: "entry_text T (JStr s) = s"
  by (simp add: entry_text_def)

lemma kinds_clean:
  "kind_errors says category handling integrity = Inr [] \<Longrightarrow>
     \<exists>c h i. category = JStr c \<and> handling = JStr h \<and> integrity = JStr i \<and> c \<in> set REQUIRED_EXCEPTION_CATEGORIES"
  by (auto simp: kind_errors_def bindE_eq_Inr flag_def dest!: known_text split: if_splits)

lemma each_Nil: "concat (map (\<lambda>s. flag (bad s) (m s)) xs) = [] \<longleftrightarrow> list_all (\<lambda>s. \<not> bad s) xs"
  by (auto simp: list_all_iff)

lemma read_entry_ok:
  assumes "read_entry T files says i item = Inr (e, [])"
  shows "entry_ok T e"
proof -
  let ?c = "dget item ''category''" and ?h = "dget item ''handling''" and ?i = "dget item ''integrity''"
  from assms have k: "kind_errors says ?c ?h ?i = Inr []" and h: "handling_errors says ?c ?h ?i = []"
    and s: "scope_errors T says files ?c ?h ?i (given (scopes_of item)) = []"
    and e: "ex_category e = entry_text T ?c" "ex_handling e = entry_text T ?h" "ex_integrity e = entry_text T ?i"
      "ex_scopes e = given (scopes_of item)"
    by (auto simp: read_entry_def Let_def bindE_eq_Inr)
  from kinds_clean [OF k] obtain c hd ig where v: "?c = JStr c" "?h = JStr hd" "?i = JStr ig" by blast
  from e v have e': "ex_category e = c" "ex_handling e = hd" "ex_integrity e = ig" by (simp_all add: entry_text_JStr)
  show ?thesis
    using h s unfolding entry_ok_def e' e(4) fixed_exception_def v handling_errors_def scope_errors_def Let_def is_text_def
    by (auto simp: each_Nil list_all_iff split: if_splits)
qed

lemma read_entries_ok:
  "read_entries T files index seen items = Inr (es, []) \<Longrightarrow> e \<in> set es \<Longrightarrow> entry_ok T e"
proof (induction T files index seen items arbitrary: es rule: read_entries.induct)
  case (2 T files index seen item items)
  show ?case
  proof (cases "entry_id T (dget item ''id'')")
    case None
    with 2 show ?thesis by (auto simp: bindE_eq_Inr)
  next
    case (Some i)
    with 2(3) obtain e0 es0 where r: "read_entry T files (at_exception index) i item = Inr (e0, [])"
      "read_entries T files (Suc index) (i # seen) items = Inr (es0, [])" "es = e0 # es0"
      by (auto simp: bindE_eq_Inr)
    with 2(2) [OF Some] 2(4) read_entry_ok [OF r(1)] show ?thesis by auto
  qed
qed (auto simp: bindE_eq_Inr)

text \<open>Without messages every path named by an asset is a file with the recorded hash.\<close>

definition frozen_file :: "base_repo \<Rightarrow> frozen_asset list \<Rightarrow> ustr \<Rightarrow> bool" where
  "frozen_file repo frozen rel \<longleftrightarrow>
     (\<exists>f bs text. f \<in> set frozen \<and> fz_path f = rel \<and> br_file repo rel = Some (bs, text) \<and> sha256_file bs = fz_sha256 f)"

lemma read_asset_ok: "read_asset T repo entries index rel item = (fs, []) \<Longrightarrow> frozen_file repo fs rel"
  by (auto simp: read_asset_def asset_errors_def frozen_file_def Let_def split: option.splits if_splits)

lemma frozen_file_mono: "frozen_file repo fs rel \<Longrightarrow> set fs \<subseteq> set fs' \<Longrightarrow> frozen_file repo fs' rel"
  unfolding frozen_file_def by blast

lemma read_assets_ok:
  "read_assets T repo entries index paths items = (ps, fs, []) \<Longrightarrow> rel \<in> set ps \<Longrightarrow> rel \<in> set paths \<or> frozen_file repo fs rel"
proof (induction T repo entries index paths items arbitrary: ps fs rule: read_assets.induct)
  case (2 T repo entries index paths item items)
  show ?case
  proof (cases "fixed_path (dget item ''path'')")
    case None
    with 2 show ?thesis by (auto split: prod.splits)
  next
    case (Some r)
    with 2(3) obtain f fs0 where a: "read_asset T repo entries index r item = (f, [])"
      "read_assets T repo entries (Suc index) (r # paths) items = (ps, fs0, [])" "fs = f @ fs0"
      by (auto split: prod.splits)
    from 2(2) [OF Some a(1) [symmetric] a(2) 2(4)] show ?thesis
      using read_asset_ok [OF a(1)] frozen_file_mono [of repo _ rel fs] a(3) by auto
  qed
qed (auto split: prod.splits)

lemma load_registry_ok:
  assumes "load_registry T repo files = Inr (rg, [])" and "e \<in> set (rg_entries rg)"
  shows "entry_ok T e"
    and "fixed_exception e \<Longrightarrow> rel \<in> set files \<Longrightarrow> path_matches rel (ex_scopes e) \<Longrightarrow> frozen_file repo (rg_frozen rg) rel"
proof -
  from assms(1) obtain raw where "registry_of T repo files raw = Inr (rg, [])"
    by (auto simp: load_registry_def split: option.splits sum.splits json.splits)
  then obtain es m where re: "read_entries T files 0 [] (given (list_or_empty (dget raw ''exceptions''))) = Inr (es, m)"
    and rest: "(case read_assets T repo es 0 [] (given (list_or_empty (dget raw ''frozen_assets''))) of
       (frozen_paths, frozen, asset_messages) \<Rightarrow>
         Inr (\<lparr>rg_entries = es, rg_frozen = frozen\<rparr>,
           header_errors raw
           @ remark (list_or_empty (dget raw ''exceptions'') = None) ''exceptions must be an array''
           @ m
           @ flag (missing_categories es \<noteq> [])
               (Msg ''the registry lacks required categories: {}'' [listing (missing_categories es)])
           @ remark (list_or_empty (dget raw ''frozen_assets'') = None) ''frozen_assets must be an array''
           @ asset_messages
           @ concat (map (unfrozen_errors files frozen_paths) es))) = (Inr (rg, []) :: exn + registry \<times> msg list)"
    unfolding registry_of_def bindE_eq_Inr by auto
  obtain ps fs ma where ra: "read_assets T repo es 0 [] (given (list_or_empty (dget raw ''frozen_assets''))) = (ps, fs, ma)"
    by (rule prod_cases3)
  from rest have "m = []" "ma = []" "\<forall>e \<in> set es. unfrozen_errors files ps e = []" "rg = \<lparr>rg_entries = es, rg_frozen = fs\<rparr>"
    by (auto simp: ra)
  with re ra have r: "read_entries T files 0 [] (given (list_or_empty (dget raw ''exceptions''))) = Inr (es, [])"
    "read_assets T repo es 0 [] (given (list_or_empty (dget raw ''frozen_assets''))) = (ps, fs, [])"
    "\<forall>e \<in> set es. unfrozen_errors files ps e = []" "rg = \<lparr>rg_entries = es, rg_frozen = fs\<rparr>"
    by simp_all
  show "entry_ok T e" using read_entries_ok [OF r(1)] assms(2) r(4) by simp
  assume f: "fixed_exception e" "rel \<in> set files" "path_matches rel (ex_scopes e)"
  have "unfrozen_errors files ps e = []" using r(3,4) assms(2) by simp
  with f have "rel \<in> set ps" by (auto simp: unfrozen_errors_def filter_empty_conv)
  from read_assets_ok [OF r(2) this] r(4) show "frozen_file repo (rg_frozen rg) rel" by simp
qed

subsection \<open>A passing strict audit\<close>

text \<open>
  A file left out of the scan is generated, or it is a legal text or evidence whose bytes have the hash the registry
  records; a legal text is named itself and has the name of one.
\<close>

definition left_out :: "tables \<Rightarrow> base_repo \<Rightarrow> registry \<Rightarrow> exception_entry \<Rightarrow> ustr \<Rightarrow> bool" where
  "left_out T repo rg e rel \<longleftrightarrow>
     e \<in> set (rg_entries rg) \<and> path_matches rel (ex_scopes e)
     \<and> (ex_category e = GENERATED
        \<or> ex_category e = EVIDENCE \<and> frozen_file repo (rg_frozen rg) rel
        \<or> ex_category e = LEGAL_TEXT \<and> frozen_file repo (rg_frozen rg) rel
            \<and> rel \<in> set (ex_scopes e) \<and> allowed_legal_text_scope T rel)"

text \<open>A file of a scanned kind was read and its scan found nothing.\<close>

definition clean_file ::
  "tables \<Rightarrow> (nat \<Rightarrow> bool) \<Rightarrow> (ustr \<Rightarrow> python_source) \<Rightarrow> base_repo \<Rightarrow> registry \<Rightarrow> ustr \<Rightarrow> bool" where
  "clean_file T D parse repo rg rel \<longleftrightarrow>
     (case kind_of T rel of
        None \<Rightarrow> True
      | Some kind \<Rightarrow>
          (\<exists>text. read_utf8 repo rel = Some text
             \<and> scan_text T D parse kind rel text (lexical_terms_for_path rel rg) = ([], [])))"

lemma sorted_findings_Nil: "sorted_findings fs = [] \<longleftrightarrow> fs = []"
  by (metis empty_set rev_rev_ident set_empty set_remdups set_rev set_sort sorted_findings_def)

lemma audit_file_clean:
  "exception_for_path rel rg = None \<Longrightarrow> fo_findings (audit_file T D parse repo rg rel) = [] \<Longrightarrow>
     fo_failures (audit_file T D parse repo rg rel) = [] \<Longrightarrow> clean_file T D parse repo rg rel"
  by (auto simp: audit_file_def clean_file_def no_outcome_def split: option.splits if_splits prod.splits)

lemma excluded_left_out:
  assumes "load_registry T repo files = Inr (rg, [])" and "rel \<in> set files" and "exception_for_path rel rg = Some e"
  shows "left_out T repo rg e rel"
proof -
  from assms(3) have e: "e \<in> set (rg_entries rg)" "ex_handling e = u ''exclude_file''" "path_matches rel (ex_scopes e)"
    by (auto simp: exception_for_path_def find_Some_iff)
  note ok = load_registry_ok(1) [OF assms(1) e(1)] and frozen = load_registry_ok(2) [OF assms(1) e(1) _ assms(2) e(3)]
  from ok e(2) consider "ex_category e = GENERATED" | "ex_category e = EVIDENCE" | "ex_category e = LEGAL_TEXT"
    by (auto simp: entry_ok_def FILE_EXCEPTION_CATEGORIES_def)
  then show ?thesis
  proof cases
    case 3
    with ok have "\<not> list_ex scope_has_wildcard (ex_scopes e)" "list_all (allowed_legal_text_scope T) (ex_scopes e)"
      "fixed_exception e" by (auto simp: entry_ok_def)
    with 3 e frozen path_matches_plain [OF _ e(3)] show ?thesis by (auto simp: left_out_def list_all_iff)
  qed (use ok e frozen in \<open>auto simp: left_out_def entry_ok_def\<close>)
qed


end
