(* ===== verification/Audit_Sample.thy ===== *)
theory Audit_Sample
  imports Base_Audit
begin

text \<open>
  A repository that passes the strict Japanese base audit: a licence and a piece of evidence with fixed hashes, a
  generated manifest, and a document that is scanned, with English text in a fence. It shows that the hypotheses of
  \<open>base_audit_sound\<close> can hold.
\<close>

definition sample_paths :: "ustr list" where
  "sample_paths = map u [''LICENSE'', ''MANIFEST.sha256.json'', ''README.md'', ''docs/evidence/run.txt'']"

definition some_japanese :: json where
  "some_japanese = JStr [0x65E5, 0x672C]"

definition sample_exception :: "string \<Rightarrow> string \<Rightarrow> ustr \<Rightarrow> string \<Rightarrow> string \<Rightarrow> json list \<Rightarrow> json" where
  "sample_exception i scope category handling integrity terms =
     JObj [(u ''id'', js i), (u ''scopes'', JArr [js scope]), (u ''region'', some_japanese), (u ''category'', JStr category),
       (u ''handling'', js handling), (u ''integrity'', js integrity), (u ''unavoidable_reason_japanese'', some_japanese),
       (u ''japanese_reference'', JStr POLICY_PATH), (u ''authority_effect'', js ''none''), (u ''review_trigger'', some_japanese),
       (u ''terms'', JArr terms)]"

definition sample_asset :: "string \<Rightarrow> string \<Rightarrow> json" where
  "sample_asset path i =
     JObj [(u ''path'', js path), (u ''sha256'', JStr (sha256_file [])), (u ''exception_id'', js i)]"

definition sample_exceptions :: "json list" where
  "sample_exceptions =
     [sample_exception ''JBE-001'' ''LICENSE'' LEGAL_TEXT ''exclude_file'' ''sha256'' [],
      sample_exception ''JBE-002'' ''MANIFEST.sha256.json'' GENERATED ''exclude_file'' ''review_on_change'' [],
      sample_exception ''JBE-003'' ''docs/evidence/run.txt'' EVIDENCE ''exclude_file'' ''sha256'' [],
      sample_exception ''JBE-004'' ''specs/**'' MACHINE_SYNTAX ''lexical_only'' ''review_on_change'' [],
      sample_exception ''JBE-005'' ''README.md'' PROPER_NAMES ''lexical_only'' ''review_on_change'' [js ''GUI Shell'']]"

definition sample_raw :: obj where
  "sample_raw =
     [(u ''schema_version'', JInt 1), (u ''policy'', JStr POLICY_PATH), (u ''purpose_japanese'', some_japanese),
      (u ''exceptions'', JArr sample_exceptions),
      (u ''frozen_assets'', JArr [sample_asset ''LICENSE'' ''JBE-001'', sample_asset ''docs/evidence/run.txt'' ''JBE-003''])]"

definition sample_index :: json where
  "sample_index = JArr (map JStr [[0x65E5, 0x672C, 0x8A9E], POLICY_PATH, REGISTRY_PATH, AUDITOR_PATH])"

definition sample_policy :: ustr where
  "sample_policy = concat policy_phrases"

definition sample_document :: ustr where
  "sample_document = [96, 96, 96, 10] @ u ''English'' @ [10, 96, 96, 96, 10]"

definition sample_file :: "ustr \<Rightarrow> (byte list \<times> ustr option) option" where
  "sample_file path =
     (if path = POLICY_PATH then Some ([], Some sample_policy)
      else if path = INDEX_PATH then Some ([], Some (render None 0 sample_index))
      else if path = REGISTRY_PATH then Some ([], Some (render None 0 (JObj sample_raw)))
      else if path = u ''README.md'' then Some ([], Some sample_document)
      else if path \<in> set sample_paths then Some ([], None)
      else None)"

definition sample_repo :: base_repo where
  "sample_repo =
     \<lparr>br_listing = Listed (join [0] sample_paths @ [0]), br_root = path_of (u ''/repo''),
      br_resolve = (\<lambda>rel. Some (path_join (path_of (u ''/repo'')) (path_of rel))), br_file = sample_file\<rparr>"

subsection \<open>Its files\<close>

lemma sample_listing: "repository_paths sample_repo = (sample_paths, [])"
proof -
  have "split_nul [] (join [0] sample_paths @ [0]) = sample_paths @ [[]]"
    by (simp add: sample_paths_def u_def)
  moreover have "sort sample_paths = sample_paths"
    by (rule sorted_sort_id) (simp add: sample_paths_def u_def)
  moreover have "filter (\<lambda>p. p \<noteq> []) sample_paths = sample_paths"
    by (simp add: sample_paths_def u_def)
  moreover have "below (path_join (path_of (u ''/repo'')) (path_of rel)) (path_of (u ''/repo''))"
    if "rel \<in> set sample_paths" for rel
    using that by (auto simp: sample_paths_def below_def path_join_def path_of_def root_of_def u_def)
  ultimately show ?thesis
    by (simp add: repository_paths_def sample_repo_def Let_def filter_append)
qed

lemma paths_apart:
  "POLICY_PATH \<noteq> INDEX_PATH" "POLICY_PATH \<noteq> REGISTRY_PATH" "INDEX_PATH \<noteq> REGISTRY_PATH"
  "INDEX_PATH \<noteq> POLICY_PATH" "REGISTRY_PATH \<noteq> POLICY_PATH" "REGISTRY_PATH \<noteq> INDEX_PATH"
  by (simp_all add: POLICY_PATH_def INDEX_PATH_def REGISTRY_PATH_def u_def)

lemma ascii_apart: "u s \<noteq> POLICY_PATH" "u s \<noteq> INDEX_PATH" "u s \<noteq> REGISTRY_PATH"
proof -
  have "n < 256" if "n \<in> set (u s)" for n using that by (auto simp: u_def)
  then show "u s \<noteq> POLICY_PATH" "u s \<noteq> INDEX_PATH" "u s \<noteq> REGISTRY_PATH"
    by (force simp: POLICY_PATH_def INDEX_PATH_def REGISTRY_PATH_def)+
qed

lemma sample_reads:
  "read_utf8 sample_repo POLICY_PATH = Some (universal_newlines sample_policy)"
  "read_utf8 sample_repo INDEX_PATH = Some (universal_newlines (render None 0 sample_index))"
  "read_utf8 sample_repo REGISTRY_PATH = Some (universal_newlines (render None 0 (JObj sample_raw)))"
  "read_utf8 sample_repo (u ''README.md'') = Some (universal_newlines sample_document)"
  "br_file sample_repo POLICY_PATH \<noteq> None"
  "br_file sample_repo (u ''README.md'') \<noteq> None"
  "br_file sample_repo (u ''LICENSE'') = Some ([], None)"
  "br_file sample_repo (u ''docs/evidence/run.txt'') = Some ([], None)"
  by (simp_all add: read_utf8_def sample_repo_def sample_file_def paths_apart ascii_apart sample_paths_def)

subsection \<open>Its registry\<close>

lemma sample_japanese: "japanese_text some_japanese" "has_japanese POLICY_PATH"
  by (simp_all add: some_japanese_def POLICY_PATH_def has_japanese_def japanese_char_def)

lemma sample_ids:
  "entry_id T (js ''JBE-001'') = Some (u ''JBE-001'')" "entry_id T (js ''JBE-002'') = Some (u ''JBE-002'')"
  "entry_id T (js ''JBE-003'') = Some (u ''JBE-003'')" "entry_id T (js ''JBE-004'') = Some (u ''JBE-004'')"
  "entry_id T (js ''JBE-005'') = Some (u ''JBE-005'')"
  by (simp_all add: entry_id_def rx_fullmatch_def at_start_def exception_id_rx_def lit_def digit_def u_def)

lemma sample_fields:
  "dget [(u ''id'', a), (u ''scopes'', b), (u ''region'', c), (u ''category'', d), (u ''handling'', e), (u ''integrity'', f),
     (u ''unavoidable_reason_japanese'', g), (u ''japanese_reference'', h), (u ''authority_effect'', k), (u ''review_trigger'', l),
     (u ''terms'', m)] n =
   (if n = ''id'' then a else if n = ''scopes'' then b else if n = ''region'' then c else if n = ''category'' then d
    else if n = ''handling'' then e else if n = ''integrity'' then f else if n = ''unavoidable_reason_japanese'' then g
    else if n = ''japanese_reference'' then h else if n = ''authority_effect'' then k else if n = ''review_trigger'' then l
    else if n = ''terms'' then m else JNull)"
  by (simp add: dget_def dget_or_def)

lemma sample_kinds:
  "c \<in> set REQUIRED_EXCEPTION_CATEGORIES \<Longrightarrow> h \<in> {u ''exclude_file'', u ''lexical_only''}
     \<Longrightarrow> i \<in> {u ''sha256'', u ''review_on_change''} \<Longrightarrow> kind_errors says (JStr c) (JStr h) (JStr i) = Inr []"
  by (auto simp: kind_errors_def in_texts_def)

lemma sample_scope: "valid_relative_scope (js ''LICENSE'')" "valid_relative_scope (js ''MANIFEST.sha256.json'')"
  "valid_relative_scope (js ''docs/evidence/run.txt'')" "valid_relative_scope (js ''specs/**'')"
  "valid_relative_scope (js ''README.md'')"
  by (simp_all add: path_of_def root_of_def is_absolute_def path_parts_def u_def)

definition sample_entry :: "string \<Rightarrow> string \<Rightarrow> ustr \<Rightarrow> string \<Rightarrow> string \<Rightarrow> ustr list \<Rightarrow> exception_entry" where
  "sample_entry i scope category handling integrity terms =
     \<lparr>ex_id = u i, ex_scopes = [u scope], ex_region = [0x65E5, 0x672C], ex_category = category, ex_handling = u handling, ex_integrity = u integrity,
      ex_terms = terms\<rparr>"

lemma categories_apart:
  "LEGAL_TEXT \<noteq> GENERATED" "LEGAL_TEXT \<noteq> EVIDENCE" "LEGAL_TEXT \<noteq> MACHINE_SYNTAX" "LEGAL_TEXT \<noteq> PROPER_NAMES"
  "GENERATED \<noteq> LEGAL_TEXT" "GENERATED \<noteq> EVIDENCE" "GENERATED \<noteq> MACHINE_SYNTAX" "GENERATED \<noteq> PROPER_NAMES"
  "EVIDENCE \<noteq> LEGAL_TEXT" "EVIDENCE \<noteq> GENERATED" "EVIDENCE \<noteq> MACHINE_SYNTAX" "EVIDENCE \<noteq> PROPER_NAMES"
  "MACHINE_SYNTAX \<noteq> LEGAL_TEXT" "MACHINE_SYNTAX \<noteq> GENERATED" "MACHINE_SYNTAX \<noteq> EVIDENCE" "MACHINE_SYNTAX \<noteq> PROPER_NAMES"
  "PROPER_NAMES \<noteq> LEGAL_TEXT" "PROPER_NAMES \<noteq> GENERATED" "PROPER_NAMES \<noteq> EVIDENCE" "PROPER_NAMES \<noteq> MACHINE_SYNTAX"
  by (simp_all add: LEGAL_TEXT_def GENERATED_def EVIDENCE_def MACHINE_SYNTAX_def PROPER_NAMES_def)

text \<open>What makes a sample entry read without messages.\<close>

lemma sample_entry_reads:
  assumes "valid_relative_scope (js scope)" and "set terms \<subseteq> JStr ` ts" and "[] \<notin> ts" and "all_texts (JArr terms) = Some tx"
    and "category \<in> set REQUIRED_EXCEPTION_CATEGORIES" and "handling \<in> {''exclude_file'', ''lexical_only''}"
    and "integrity \<in> {''sha256'', ''review_on_change''}"
    and "handling_errors says (JStr category) (js handling) (js integrity) = []"
    and "scope_errors T says files (JStr category) (js handling) (js integrity) [u scope] = []"
    and "term_errors says (JStr category) tx = []" and "[] \<notin> set tx"
    and "sample_exception i scope category handling integrity terms = JObj item"
  shows "read_entry T files says (u i) item = Inr (sample_entry i scope category handling integrity tx, [])"
proof -
  have item: "item = [(u ''id'', js i), (u ''scopes'', JArr [js scope]), (u ''region'', some_japanese),
       (u ''category'', JStr category), (u ''handling'', js handling), (u ''integrity'', js integrity),
       (u ''unavoidable_reason_japanese'', some_japanese), (u ''japanese_reference'', JStr POLICY_PATH),
       (u ''authority_effect'', js ''none''), (u ''review_trigger'', some_japanese), (u ''terms'', JArr terms)]"
    using assms(12) by (simp add: sample_exception_def)
  have scopes: "scopes_of item = Some [u scope]"
    unfolding item scopes_of_def sample_fields using assms(1) by simp
  have terms: "terms_of item = Some tx"
    unfolding item terms_of_def using assms(4,11) by (simp add: dget_or_def)
  have kinds: "kind_errors says (JStr category) (js handling) (js integrity) = Inr []"
    using assms(5-7) by (intro sample_kinds) auto
  have fields: "dget item ''category'' = JStr category" "dget item ''handling'' = js handling"
    "dget item ''integrity'' = js integrity" "dget item ''authority_effect'' = js ''none''"
    "entry_field_errors says item = []"
    "entry_text T (dget item ''region'') = [0x65E5, 0x672C]"
    unfolding item entry_field_errors_def sample_fields
    by (simp_all add: sample_japanese is_text_def) (simp add: some_japanese_def entry_text_JStr)
  show ?thesis
    unfolding read_entry_def Let_def scopes terms fields kinds
    using assms(8-10) by (simp add: sample_entry_def given_def entry_text_JStr is_text_def)
qed

lemma sample_excludes: "list_ex (\<lambda>rel. path_matches rel [p]) sample_paths" if "p \<in> set sample_paths" "\<not> scope_has_wildcard p"
  using that by (auto simp: list_ex_iff path_matches_def fnmatch_plain intro!: bexI [of _ p])

lemma sample_plain: "\<not> scope_has_wildcard (u ''LICENSE'')" "\<not> scope_has_wildcard (u ''MANIFEST.sha256.json'')"
  "\<not> scope_has_wildcard (u ''docs/evidence/run.txt'')"
  by (simp_all add: scope_has_wildcard_def one_of_def u_def)

lemma sample_member: "u ''LICENSE'' \<in> set sample_paths" "u ''MANIFEST.sha256.json'' \<in> set sample_paths"
  "u ''docs/evidence/run.txt'' \<in> set sample_paths"
  by (simp_all add: sample_paths_def)

lemma sample_licence: "allowed_legal_text_scope T (u ''LICENSE'')"
  by (simp add: allowed_legal_text_scope_def legal_name_rx_def file_name_def path_of_def root_of_def rx_fullmatch_def
      at_start_def ilit_def opt_def same_letter_def ascii_lower_def u_def Let_def)

lemma sample_evidence: "allowed_evidence_scope ascii_tables (u ''docs/evidence/run.txt'')"
  by (simp add: allowed_evidence_scope_def starts_with_def ascii_lower_def u_def Let_def)

lemmas sample_checks = handling_errors_def scope_errors_def term_errors_def is_text_def categories_apart
  sample_plain sample_licence sample_evidence sample_excludes [OF sample_member(1) sample_plain(1)]
  sample_excludes [OF sample_member(2) sample_plain(2)] sample_excludes [OF sample_member(3) sample_plain(3)]
  FILE_EXCEPTION_CATEGORIES_def LEXICAL_EXCEPTION_CATEGORIES_def allowed_generated_scope_def Let_def

lemma sample_name: "\<not> broad_term (u ''GUI Shell'')"
  by (simp add: broad_term_def word_count_def is_space_def u_def)

definition sample_entries :: "exception_entry list" where
  "sample_entries =
     [sample_entry ''JBE-001'' ''LICENSE'' LEGAL_TEXT ''exclude_file'' ''sha256'' [],
      sample_entry ''JBE-002'' ''MANIFEST.sha256.json'' GENERATED ''exclude_file'' ''review_on_change'' [],
      sample_entry ''JBE-003'' ''docs/evidence/run.txt'' EVIDENCE ''exclude_file'' ''sha256'' [],
      sample_entry ''JBE-004'' ''specs/**'' MACHINE_SYNTAX ''lexical_only'' ''review_on_change'' [],
      sample_entry ''JBE-005'' ''README.md'' PROPER_NAMES ''lexical_only'' ''review_on_change'' [u ''GUI Shell'']]"

definition sample_registry :: registry where
  "sample_registry =
     \<lparr>rg_entries = sample_entries,
      rg_frozen = [\<lparr>fz_path = u ''LICENSE'', fz_sha256 = sha256_file [], fz_exception = u ''JBE-001''\<rparr>,
        \<lparr>fz_path = u ''docs/evidence/run.txt'', fz_sha256 = sha256_file [], fz_exception = u ''JBE-003''\<rparr>]\<rparr>"

fun entry_object :: "json \<Rightarrow> obj" where
  "entry_object (JObj d) = d"
| "entry_object _ = []"

lemma sample_item:
  "sample_exception i scope category handling integrity terms = JObj (entry_object (sample_exception i scope category handling integrity terms))"
  "dget (entry_object (sample_exception i scope category handling integrity terms)) ''id'' = js i"
  by (simp_all add: sample_exception_def sample_fields)

lemmas sample_read = sample_entry_reads [OF _ _ _ _ _ _ _ _ _ _ _ sample_item(1), where ?ts = "{u ''GUI Shell''}"]

lemma sample_read_1:
  "read_entry ascii_tables sample_paths says (u ''JBE-001'')
     (entry_object (sample_exception ''JBE-001'' ''LICENSE'' LEGAL_TEXT ''exclude_file'' ''sha256'' []))
     = Inr (sample_entry ''JBE-001'' ''LICENSE'' LEGAL_TEXT ''exclude_file'' ''sha256'' [], [])"
  by (rule sample_read) (simp_all add: sample_scope sample_checks REQUIRED_EXCEPTION_CATEGORIES_def del: valid_relative_scope.simps)

lemma sample_read_2:
  "read_entry ascii_tables sample_paths says (u ''JBE-002'')
     (entry_object (sample_exception ''JBE-002'' ''MANIFEST.sha256.json'' GENERATED ''exclude_file'' ''review_on_change'' []))
     = Inr (sample_entry ''JBE-002'' ''MANIFEST.sha256.json'' GENERATED ''exclude_file'' ''review_on_change'' [], [])"
  by (rule sample_read) (simp_all add: sample_scope sample_checks REQUIRED_EXCEPTION_CATEGORIES_def del: valid_relative_scope.simps)

lemma sample_read_3:
  "read_entry ascii_tables sample_paths says (u ''JBE-003'')
     (entry_object (sample_exception ''JBE-003'' ''docs/evidence/run.txt'' EVIDENCE ''exclude_file'' ''sha256'' []))
     = Inr (sample_entry ''JBE-003'' ''docs/evidence/run.txt'' EVIDENCE ''exclude_file'' ''sha256'' [], [])"
  by (rule sample_read) (simp_all add: sample_scope sample_checks REQUIRED_EXCEPTION_CATEGORIES_def del: valid_relative_scope.simps)

lemma sample_read_4:
  "read_entry ascii_tables sample_paths says (u ''JBE-004'')
     (entry_object (sample_exception ''JBE-004'' ''specs/**'' MACHINE_SYNTAX ''lexical_only'' ''review_on_change'' []))
     = Inr (sample_entry ''JBE-004'' ''specs/**'' MACHINE_SYNTAX ''lexical_only'' ''review_on_change'' [], [])"
  by (rule sample_read) (simp_all add: sample_scope sample_checks REQUIRED_EXCEPTION_CATEGORIES_def del: valid_relative_scope.simps)

lemma sample_read_5:
  "read_entry ascii_tables sample_paths says (u ''JBE-005'')
     (entry_object (sample_exception ''JBE-005'' ''README.md'' PROPER_NAMES ''lexical_only'' ''review_on_change'' [js ''GUI Shell'']))
     = Inr (sample_entry ''JBE-005'' ''README.md'' PROPER_NAMES ''lexical_only'' ''review_on_change'' [u ''GUI Shell''], [])"
  by (rule sample_read)
    (simp_all add: sample_scope sample_checks sample_name REQUIRED_EXCEPTION_CATEGORIES_def del: valid_relative_scope.simps)

text \<open>One step of the loop over the entries.\<close>

lemma read_entries_step:
  assumes "entry_id T (js i) = Some (u i)" and "u i \<notin> set seen"
    and "\<And>says. read_entry T files says (u i) (entry_object (sample_exception i scope category handling integrity terms)) = Inr (e, [])"
    and "read_entries T files (Suc n) (u i # seen) items = Inr (es, [])"
  shows "read_entries T files n seen (sample_exception i scope category handling integrity terms # items) = Inr (e # es, [])"
  using assms by (subst sample_item(1)) (simp add: sample_item(2))

lemma sample_entries_read: "read_entries ascii_tables sample_paths 0 [] sample_exceptions = Inr (sample_entries, [])"
  unfolding sample_exceptions_def sample_entries_def
  by (intro read_entries_step sample_read_1 sample_read_2 sample_read_3 sample_read_4 sample_read_5 sample_ids) simp_all

lemma sample_hash: "fixed_hash (JStr (sha256_file bs)) = Some (sha256_file bs)"
  by (simp add: sha256_file_def hexdigest_chars)

lemma sample_assets_read:
  "read_assets ascii_tables sample_repo sample_entries 0 []
     [sample_asset ''LICENSE'' ''JBE-001'', sample_asset ''docs/evidence/run.txt'' ''JBE-003'']
   = ([u ''docs/evidence/run.txt'', u ''LICENSE''], rg_frozen sample_registry, [])"
proof -
  have path: "fixed_path (js ''LICENSE'') = Some (u ''LICENSE'')"
    "fixed_path (js ''docs/evidence/run.txt'') = Some (u ''docs/evidence/run.txt'')"
    using sample_scope(1,3) sample_plain(1,3) by (simp_all del: valid_relative_scope.simps)
  have entry: "entry_by_id sample_entries (u ''JBE-001'') = Some (sample_entry ''JBE-001'' ''LICENSE'' LEGAL_TEXT ''exclude_file'' ''sha256'' [])"
    "entry_by_id sample_entries (u ''JBE-003'') = Some (sample_entry ''JBE-003'' ''docs/evidence/run.txt'' EVIDENCE ''exclude_file'' ''sha256'' [])"
    by (simp_all add: entry_by_id_def sample_entries_def sample_entry_def)
  have match: "path_matches (u p) [u p]" if "\<not> scope_has_wildcard (u p)" for p
    using that by (simp add: path_matches_def fnmatch_plain)
  have asset: "dget [(u ''path'', a), (u ''sha256'', b), (u ''exception_id'', c)] n
      = (if n = ''path'' then a else if n = ''sha256'' then b else if n = ''exception_id'' then c else JNull)" for a b c n
    by (simp add: dget_def dget_or_def)
  show ?thesis
    by (simp add: sample_asset_def asset path sample_hash read_asset_def entry sample_entry_def match sample_plain
        asset_errors_def sample_reads sample_registry_def del: fixed_path.simps fixed_hash.simps)
qed

lemma sample_unfrozen: "e \<in> set sample_entries \<Longrightarrow>
    unfrozen_errors sample_paths [u ''docs/evidence/run.txt'', u ''LICENSE''] e = []"
  using path_matches_plain [of "[u ''LICENSE'']"] path_matches_plain [of "[u ''docs/evidence/run.txt'']"] sample_plain
  by (auto simp: sample_entries_def sample_entry_def unfrozen_errors_def fixed_exception_def filter_empty_conv)

lemma sample_categories: "missing_categories sample_entries = []"
  by (simp add: missing_categories_def sample_entries_def sample_entry_def REQUIRED_EXCEPTION_CATEGORIES_def)

lemma sample_raw_fields:
  "dget sample_raw ''schema_version'' = JInt 1" "dget sample_raw ''policy'' = JStr POLICY_PATH"
  "dget sample_raw ''purpose_japanese'' = some_japanese" "dget sample_raw ''exceptions'' = JArr sample_exceptions"
  "dget sample_raw ''frozen_assets'' = JArr [sample_asset ''LICENSE'' ''JBE-001'', sample_asset ''docs/evidence/run.txt'' ''JBE-003'']"
  by (simp_all add: sample_raw_def dget_def dget_or_def)

lemma sample_registry_of: "registry_of ascii_tables sample_repo sample_paths sample_raw = Inr (sample_registry, [])"
  by (simp add: registry_of_def sample_raw_fields given_def sample_entries_read sample_assets_read header_errors_def
      sample_japanese is_text_def sample_categories sample_unfrozen)
    (simp add: sample_registry_def)

subsection \<open>It passes\<close>

lemma scalar_texts: "list_all scalar (u s)" "list_all scalar POLICY_PATH" "list_all scalar INDEX_PATH" "list_all scalar REGISTRY_PATH"
  "list_all scalar AUDITOR_PATH" "list_all scalar (sha256_file bs)"
  "list_all scalar LEGAL_TEXT" "list_all scalar GENERATED" "list_all scalar EVIDENCE" "list_all scalar MACHINE_SYNTAX"
  "list_all scalar PROPER_NAMES"
proof -
  show "list_all scalar (u s)" by (rule list_all_scalar_u)
  show "list_all scalar (sha256_file bs)"
    using hexdigest_chars [of "sha256 bs"] by (auto simp: sha256_file_def list_all_iff is_lower_hex_def scalar_def)
qed (simp_all add: POLICY_PATH_def INDEX_PATH_def REGISTRY_PATH_def AUDITOR_PATH_def LEGAL_TEXT_def GENERATED_def
    EVIDENCE_def MACHINE_SYNTAX_def PROPER_NAMES_def scalar_def u_def)

lemma sample_wf: "wf_json (JObj sample_raw)" "wf_json sample_index"
  by (simp_all add: sample_raw_def sample_exceptions_def sample_exception_def sample_asset_def some_japanese_def
      sample_index_def scalar_texts scalar_def)

lemma sample_load: "load_registry ascii_tables sample_repo sample_paths = Inr (sample_registry, [])"
  unfolding load_registry_def sample_reads(3) option.map loads_written [OF sample_wf(1)] by (simp add: sample_registry_of)

lemma sample_governed: "validate_governance sample_repo = []"
proof -
  have "policy_errors sample_repo = []"
    using sample_reads(5) by (simp add: policy_errors_def sample_reads(1) lacks_def)
      (simp add: sample_policy_def policy_phrases_def occurs_def starts_with_def)
  moreover have "index_errors sample_repo = []"
    unfolding index_errors_def sample_reads(2) option.map loads_written [OF sample_wf(2)] lacks_def
    by (simp add: sample_index_def occurs_def starts_with_def POLICY_PATH_def REGISTRY_PATH_def AUDITOR_PATH_def
        raw_quote_def raw_char_def u_def)
  ultimately show ?thesis by (simp add: validate_governance_def)
qed

lemma sample_matches: "\<not> scope_has_wildcard (u p) \<Longrightarrow> path_matches q [u p] \<longleftrightarrow> q = u p"
  using path_matches_plain [of "[u p]" q] by (auto simp: path_matches_def fnmatch_plain)

lemma sample_exceptions_for:
  "exception_for_path q sample_registry =
     (if q = u ''LICENSE'' then Some (sample_entries ! 0) else if q = u ''MANIFEST.sha256.json'' then Some (sample_entries ! 1)
      else if q = u ''docs/evidence/run.txt'' then Some (sample_entries ! 2) else None)"
  by (simp add: exception_for_path_def sample_registry_def sample_entries_def sample_entry_def sample_matches sample_plain)

lemma sample_kind: "kind_of ascii_tables (u ''README.md'') = Some Markdown"
  by (simp add: kind_of_def path_suffix_def file_name_def path_of_def root_of_def ascii_lower_def u_def Let_def)

lemma sample_scan: "scan_markdown T D path (universal_newlines sample_document) terms = []"
  by (simp add: scan_markdown_def sample_document_def is_fence_def is_space_def line_break_def starts_with_def u_def)

lemma sample_outcomes:
  "rel \<in> set sample_paths \<Longrightarrow> fo_findings (audit_file ascii_tables D parse sample_repo sample_registry rel) = []
     \<and> fo_failures (audit_file ascii_tables D parse sample_repo sample_registry rel) = []"
  using sample_reads(6)
  by (auto simp: sample_paths_def audit_file_def sample_exceptions_for no_outcome_def sample_kind sample_reads
      scan_text_def sample_scan)

lemma sample_passes: "base_audit_exit ascii_tables D parse True sample_repo = Inr 0"
proof -
  have "concat (map fo_findings (map (audit_file ascii_tables D parse sample_repo sample_registry) sample_paths)) = []"
    "concat (map fo_failures (map (audit_file ascii_tables D parse sample_repo sample_registry) sample_paths)) = []"
    using sample_outcomes by auto
  then show ?thesis
    by (simp only: base_audit_exit_def audit_repository_def sample_listing sample_load prod.case bindE.simps Let_def
        sample_governed) (simp add: sorted_findings_def)
qed


end
