(* ===== verification/Codegen.thy ===== *)
theory Codegen
  imports Schema_Gate
begin

text \<open>
  The contract index generator (\<open>tooling/codegen/generate_contracts.py\<close>). The schemas directory is a list of files
  with their texts, as for the schema gate; the result is the text of \<open>schema_index.json\<close>. A file that cannot be
  read raises, unlike in the gate.
\<close>

definition path_stem :: "ustr \<Rightarrow> ustr" where
  "path_stem name = remove_suffix (u ''.json'') name"

definition index_entry :: "ustr \<Rightarrow> json \<Rightarrow> exn + json" where
  "index_entry name data =
     (case data of
        JObj d \<Rightarrow>
          Inr (JObj
            [(u ''file'', JStr name),
             (u ''title'', dget_or d ''title'' (JStr (path_stem name))),
             (u ''id'', dget_or d ''$id'' (js ''''))])
      | _ \<Rightarrow> Inl AttributeError)"

fun index_entries :: "(ustr \<times> ustr option) list \<Rightarrow> exn + json list" where
  "index_entries [] = Inr []"
| "index_entries ((name, text) # files) =
     bindE (case text of None \<Rightarrow> Inl OSError | Some s \<Rightarrow> py_loads (universal_newlines s)) (\<lambda>data.
     bindE (index_entry name data) (\<lambda>entry.
     bindE (index_entries files) (\<lambda>entries. Inr (entry # entries))))"

definition generate_contracts :: "(ustr \<times> ustr option) list \<Rightarrow> exn + ustr" where
  "generate_contracts specs =
     bindE (index_entries (with_suffix ''.schema.json'' specs)) (\<lambda>index.
       Inr (render (Some 2) 0 (JArr index) @ [10]))"

text \<open>The index names each schema of the directory once per file, in the order of their names.\<close>

definition entry_file :: "json \<Rightarrow> json" where
  "entry_file entry = (case entry of JObj d \<Rightarrow> dget d ''file'' | _ \<Rightarrow> JNull)"

lemma index_entry_file: "index_entry name data = Inr entry \<Longrightarrow> entry_file entry = JStr name"
  by (auto simp: index_entry_def entry_file_def dget_def dget_or_def split: json.splits)

lemma index_entries_files: "index_entries files = Inr index \<Longrightarrow> map entry_file index = map (JStr \<circ> fst) files"
  by (induction files arbitrary: index rule: index_entries.induct) (auto simp: bindE_eq_Inr dest: index_entry_file)

lemma generated_index_reads_back:
  assumes "generate_contracts specs = Inr text"
  shows "\<exists>index. index_entries (with_suffix ''.schema.json'' specs) = Inr index
    \<and> map entry_file index = map (JStr \<circ> fst) (with_suffix ''.schema.json'' specs)
    \<and> (wf_json (JArr index) \<longrightarrow> loads text = Inr (JArr index))"
proof -
  from assms obtain index where i: "index_entries (with_suffix ''.schema.json'' specs) = Inr index"
    "text = render (Some 2) 0 (JArr index) @ [10]" by (auto simp: generate_contracts_def bindE_eq_Inr)
  then show ?thesis using index_entries_files loads_render_space [of "JArr index" "[10]" "Some 2" 0] by auto
qed

end
