(* ===== verification/Conformance_Policy.thy ===== *)
theory Conformance_Policy
  imports Conformance_Scans
begin

text \<open>
  The tests of the conformance run (\<open>tooling/conformance_tests/run_conformance_skeleton.py\<close>) that put the policy
  evaluator and the router to work on the contract fixtures of the repository: the state and the action they are
  built on, one definition per test, and the proof that the tests which expect a refusal pass on every repository
  whose fixtures the runtime state accepts. A test returns its findings; what it does not catch is raised. A fixture
  that is no object raises \<open>TypeError\<close> here, whatever the exception of the code; either ends the run.
\<close>

subsection \<open>State and action\<close>

definition fixture_object :: "repo_texts \<Rightarrow> string \<Rightarrow> exn + obj" where
  "fixture_object tree name =
     bindE (load_contract_fixture tree name) (\<lambda>v. case v of JObj d \<Rightarrow> Inr d | _ \<Rightarrow> Inl TypeError)"

definition build_policy_state :: "ucd \<Rightarrow> catalog \<Rightarrow> repo_texts \<Rightarrow> string \<Rightarrow> string \<Rightarrow> exn + runtime_state" where
  "build_policy_state U C tree permission_decision approval_status =
     bindE (bindE (fixture_object tree ''runtime.valid.json'') (register_runtime C RuntimeState_init)) (\<lambda>S.
     bindE (bindE (fixture_object tree ''adapter.valid.json'') (register_adapter U C S)) (\<lambda>S.
     bindE (bindE (fixture_object tree ''capability.valid.json'') (register_capability C S)) (\<lambda>S.
     bindE (fixture_object tree ''permission.valid.json'') (\<lambda>permission.
     bindE (record_permission C S (dset permission ''decision'' (js permission_decision))) (\<lambda>S.
     bindE (fixture_object tree ''approval.valid.json'') (\<lambda>approval.
     bindE (enqueue_approval C S (dset approval ''status'' (js approval_status))) (\<lambda>S.
     bindE (bindE (fixture_object tree ''audit.valid.json'') (append_audit_event C S)) (\<lambda>S.
     bindE (bindE (fixture_object tree ''recovery.valid.json'') (register_recovery_action C S)) (\<lambda>S.
     bindE (fixture_object tree ''update.valid.json'') (register_update_policy C S))))))))))"

text \<open>\<open>build_sensitive_action\<close>\<close>

definition fixture_action :: "repo_texts \<Rightarrow> exn + obj" where
  "fixture_action tree =
     bindE (fixture_object tree ''capability.valid.json'') (\<lambda>capability.
     bindE (fixture_object tree ''permission.valid.json'') (\<lambda>permission.
     bindE (fixture_object tree ''approval.valid.json'') (\<lambda>approval.
     bindE (ditem capability ''capability_id'') (\<lambda>capability_id.
     bindE (ditem permission ''permission_id'') (\<lambda>permission_id.
     bindE (ditem approval ''approval_id'') (\<lambda>approval_id.
     bindE (ditem approval ''full_payload'') (\<lambda>payload.
     bindE (load_contract_fixture tree ''audit.valid.json'') (\<lambda>audit_event.
     bindE (load_contract_fixture tree ''recovery.valid.json'') (\<lambda>recovery_action.
       Inr [(u ''runtime_id'', js ''blue_tanuki''), (u ''operation'', capability_id),
            (u ''capability_id'', capability_id), (u ''permission_id'', permission_id),
            (u ''approval_id'', approval_id), (u ''approval_state'', js ''approved''),
            (u ''target_scope'', dget_or permission ''target_scope'' (js ''workspace'')),
            (u ''payload'', payload), (u ''audit_event'', audit_event),
            (u ''recovery_action'', recovery_action)])))))))))"

text \<open>\<open>error_codes\<close> of a policy result\<close>

definition codes_of :: "policy_result \<Rightarrow> ustr list" where
  "codes_of r = map err_code (policy_errors r)"

text \<open>The evaluation of a changed action on a state of the fixtures; a finding unless it is refused with the code.\<close>

definition expect_refusal ::
  "ucd \<Rightarrow> catalog \<Rightarrow> repo_texts \<Rightarrow> string \<Rightarrow> string \<Rightarrow> (obj \<Rightarrow> obj) \<Rightarrow> ustr \<Rightarrow> string \<Rightarrow> exn + msg list" where
  "expect_refusal U C tree decision status change code message =
     bindE (build_policy_state U C tree decision status) (\<lambda>S.
     bindE (fixture_action tree) (\<lambda>action.
     bindE (evaluate U C S (change action)) (\<lambda>r.
       Inr (remark (allowed r \<or> code \<notin> set (codes_of r)) message))))"

type_synonym policy_test = "ucd \<Rightarrow> catalog \<Rightarrow> repo_texts \<Rightarrow> exn + msg list"

subsection \<open>The evaluator\<close>

definition test_policy_evaluator_rejects_unknown_capability :: policy_test where
  "test_policy_evaluator_rejects_unknown_capability U C tree =
     expect_refusal U C tree ''allow'' ''approved''
       (\<lambda>action. dset action ''capability_id'' (js ''unknown.capability''))
       (u ''unknown_capability'') ''the evaluator did not reject an unknown capability''"

text \<open>
  An entry of \<open>errors\<close> always has the four fields of \<open>to_dict\<close>; \<open>recovery_hint\<close> is there when the record has one.
\<close>

definition error_fields :: "shell_core_error \<Rightarrow> string list" where
  "error_fields e =
     [''code'', ''message'', ''operation'', ''recoverable'']
     @ (case err_recovery_hint e of None \<Rightarrow> [] | Some _ \<Rightarrow> [''recovery_hint''])"

definition structured_error_findings :: "shell_core_error \<Rightarrow> msg list" where
  "structured_error_findings e =
     (let missing = filter (\<lambda>k. k \<notin> set (error_fields e)) [''code'', ''message'', ''operation'', ''recoverable''] in
      flag (missing \<noteq> []) (Msg ''an error of the evaluator lacks fields: {}'' [JArr (map js missing)])
      @ remark (err_code e = u ''unknown_capability'' \<and> ''recovery_hint'' \<notin> set (error_fields e))
          ''a recoverable error of the evaluator lacks its recovery_hint'')"

definition test_policy_evaluator_returns_structured_errors :: policy_test where
  "test_policy_evaluator_returns_structured_errors U C tree =
     bindE (build_policy_state U C tree ''allow'' ''approved'') (\<lambda>S.
     bindE (fixture_action tree) (\<lambda>action.
     bindE (evaluate U C S (dset action ''capability_id'' (js ''unknown.capability''))) (\<lambda>r.
       Inr (if policy_errors r = [] then [Msg ''the evaluator returned no error for an invalid action'' []]
            else concat (map structured_error_findings (policy_errors r))))))"

definition test_policy_evaluator_rejects_unknown_permission :: policy_test where
  "test_policy_evaluator_rejects_unknown_permission U C tree =
     expect_refusal U C tree ''allow'' ''approved''
       (\<lambda>action. dset action ''permission_id'' (js ''unknown.permission''))
       (u ''unknown_permission'') ''the evaluator did not reject an unknown permission''"

definition test_policy_evaluator_rejects_denied_permission :: policy_test where
  "test_policy_evaluator_rejects_denied_permission U C tree =
     expect_refusal U C tree ''deny'' ''approved'' (\<lambda>action. action)
       (u ''permission_denied'') ''the evaluator did not reject a denied permission''"

definition test_policy_evaluator_rejects_missing_approval :: policy_test where
  "test_policy_evaluator_rejects_missing_approval U C tree =
     expect_refusal U C tree ''allow'' ''approved''
       (\<lambda>action. ddel (ddel action ''approval_state'') ''approval_id'')
       (u ''approval_missing'') ''the evaluator did not reject a missing approval''"

definition test_policy_evaluator_rejects_self_reported_approval_without_approval_id :: policy_test where
  "test_policy_evaluator_rejects_self_reported_approval_without_approval_id U C tree =
     expect_refusal U C tree ''allow'' ''approved''
       (\<lambda>action. dset (ddel action ''approval_id'') ''approval_state'' (js ''approved''))
       (u ''approval_missing'') ''the evaluator trusted a self-reported approval_state without approval_id''"

definition test_policy_evaluator_rejects_unknown_approval_id :: policy_test where
  "test_policy_evaluator_rejects_unknown_approval_id U C tree =
     expect_refusal U C tree ''allow'' ''approved''
       (\<lambda>action. dset (dset action ''approval_id'' (js ''approval-does-not-exist'')) ''approval_state'' (js ''approved''))
       (u ''approval_missing'') ''the evaluator accepted an unknown approval_id''"

definition test_policy_evaluator_uses_runtime_state_approval_status :: policy_test where
  "test_policy_evaluator_uses_runtime_state_approval_status U C tree =
     bindE (build_policy_state U C tree ''allow'' ''approved'') (\<lambda>S.
     bindE (fixture_action tree) (\<lambda>action.
     bindE (evaluate U C S (dset action ''approval_state'' (js ''pending''))) (\<lambda>r.
       Inr (remark (\<not> allowed r)
         ''the evaluator refused an approved approval because of what the action reports of itself''))))"

definition test_policy_evaluator_rejects_unapproved_runtime_state_approval :: policy_test where
  "test_policy_evaluator_rejects_unapproved_runtime_state_approval U C tree =
     expect_refusal U C tree ''allow'' ''requires_validation''
       (\<lambda>action. dset action ''approval_state'' (js ''approved''))
       (u ''approval_not_valid'') ''the evaluator trusted the approval_state of the action over the stored status''"

definition test_policy_evaluator_rejects_missing_audit_event :: policy_test where
  "test_policy_evaluator_rejects_missing_audit_event U C tree =
     expect_refusal U C tree ''allow'' ''approved'' (\<lambda>action. ddel action ''audit_event'')
       (u ''audit_mapping_missing'') ''the evaluator did not reject a missing audit event''"

definition test_policy_evaluator_rejects_missing_recovery_action :: policy_test where
  "test_policy_evaluator_rejects_missing_recovery_action U C tree =
     expect_refusal U C tree ''allow'' ''approved'' (\<lambda>action. ddel action ''recovery_action'')
       (u ''recovery_mapping_missing'') ''the evaluator did not reject a missing recovery action''"

definition test_policy_evaluator_rejects_unknown_recovery_id :: policy_test where
  "test_policy_evaluator_rejects_unknown_recovery_id U C tree =
     expect_refusal U C tree ''allow'' ''approved''
       (\<lambda>action. dset action ''recovery_action'' (JObj [(u ''recovery_id'', js ''recover-does-not-exist'')]))
       (u ''recovery_mapping_missing'') ''the evaluator accepted an unknown recovery_id''"

definition test_policy_evaluator_accepts_known_recovery_id :: policy_test where
  "test_policy_evaluator_accepts_known_recovery_id U C tree =
     bindE (build_policy_state U C tree ''allow'' ''approved'') (\<lambda>S.
     bindE (fixture_action tree) (\<lambda>action.
     bindE (evaluate U C S action) (\<lambda>r.
       Inr (remark (\<not> allowed r) ''the evaluator refused a known recovery_id of an otherwise valid action''))))"

definition test_policy_evaluator_ignores_adapter_metadata_authority :: policy_test where
  "test_policy_evaluator_ignores_adapter_metadata_authority U C tree =
     bindE (build_policy_state U C tree ''allow'' ''approved'') (\<lambda>S.
     bindE (fixture_action tree) (\<lambda>action.
     bindE (evaluate U C S (dset action ''adapter_metadata''
              (JObj [(u ''permissions'', JArr [js ''filesystem.write'']), (u ''trust_level'', js ''root'')]))) (\<lambda>r.
       Inr (remark (u ''adapter_metadata_escalation_attempt'' \<notin> set (codes_of r))
         ''the evaluator did not detect an authority claim of adapter metadata''))))"

text \<open>The third key holds a zero-width space, the fourth is \<open>trust_level\<close> in full-width letters.\<close>

definition metadata_cases :: "obj list" where
  "metadata_cases =
     [[(u ''Trust_Level'', js ''root'')],
      [(u ''permissionGrant'', js ''all'')],
      [(u ''trust'' @ 0x200B # u ''_level'', js ''root'')],
      [([0xFF54, 0xFF52, 0xFF55, 0xFF53, 0xFF54, 0xFF3F, 0xFF4C, 0xFF45, 0xFF56, 0xFF45, 0xFF4C], js ''root'')],
      [(u ''safe_label'', js ''root'')]]"

definition test_policy_evaluator_normalizes_adapter_metadata_authority :: policy_test where
  "test_policy_evaluator_normalizes_adapter_metadata_authority U C tree =
     bindE (build_policy_state U C tree ''allow'' ''approved'') (\<lambda>S.
       concatE (\<lambda>metadata.
         bindE (fixture_action tree) (\<lambda>action.
         bindE (evaluate U C S (dset action ''adapter_metadata'' (JObj metadata))) (\<lambda>r.
           Inr (flag (allowed r \<or> u ''adapter_metadata_escalation_attempt'' \<notin> set (codes_of r))
             (Msg ''the evaluator did not normalise and refuse adapter metadata: {}'' [JObj metadata])))))
         metadata_cases)"

definition test_policy_evaluator_rejects_non_authority_source :: policy_test where
  "test_policy_evaluator_rejects_non_authority_source U C tree =
     bindE (build_policy_state U C tree ''allow'' ''approved'') (\<lambda>S.
       concatE (\<lambda>source.
         bindE (fixture_action tree) (\<lambda>action.
         bindE (evaluate U C S (dset action ''authority_source'' (JStr source))) (\<lambda>r.
           Inr (flag (allowed r \<or> u ''non_authority_source_attempt'' \<notin> set (codes_of r))
             (Msg ''the evaluator allowed a source without authority: {}'' [JStr source])))))
         (sort NON_AUTHORITY_SOURCES))"

text \<open>
  The changes of the relation test are made on the state and the action. \<open>store_update\<close> is
  \<open>store[key].update({field: value})\<close>.
\<close>

definition store_update :: "store \<Rightarrow> json \<Rightarrow> string \<Rightarrow> json \<Rightarrow> exn + store" where
  "store_update s key field value =
     bindE (hash_lookup s key) (\<lambda>found.
       case found of
         None \<Rightarrow> Inl (KeyError key)
       | Some r \<Rightarrow> bindE (as_key key) (\<lambda>k. Inr (AList.update k (dset r field value) s)))"

type_synonym mutation = "runtime_state \<times> obj \<Rightarrow> exn + runtime_state \<times> obj"

definition change_capability :: "string \<Rightarrow> json \<Rightarrow> mutation" where
  "change_capability field value = (\<lambda>(S, action).
     bindE (ditem action ''capability_id'') (\<lambda>key.
     bindE (store_update (capabilities S) key field value) (\<lambda>s. Inr (S\<lparr>capabilities := s\<rparr>, action))))"

definition change_permission :: "string \<Rightarrow> json \<Rightarrow> mutation" where
  "change_permission field value = (\<lambda>(S, action).
     bindE (ditem action ''permission_id'') (\<lambda>key.
     bindE (store_update (permissions S) key field value) (\<lambda>s. Inr (S\<lparr>permissions := s\<rparr>, action))))"

definition change_payload :: "json \<Rightarrow> mutation" where
  "change_payload payload = (\<lambda>(S, action). Inr (S, dset action ''payload'' payload))"

definition fabricate_audit :: mutation where
  "fabricate_audit = (\<lambda>(S, action).
     bindE (ditem action ''audit_event'') (\<lambda>event.
       case event of
         JObj e \<Rightarrow> Inr (S, dset action ''audit_event'' (JObj (dset e ''event_id'' (js ''fabricated-audit''))))
       | _ \<Rightarrow> Inl TypeError))"

definition relation_cases :: "(string \<times> mutation \<times> string) list" where
  "relation_cases =
     [(''runtime capability mismatch'', change_capability ''runtime_id'' (js ''other-runtime''), ''relation_mismatch''),
      (''operation capability mismatch'', change_capability ''operations'' (JArr [js ''filesystem.read'']), ''relation_mismatch''),
      (''permission runtime mismatch'', change_permission ''runtime_id'' (js ''other-runtime''), ''relation_mismatch''),
      (''approval payload hash mismatch'',
        change_payload (JObj [(u ''path'', js ''notes/today.md''), (u ''content'', js ''tampered'')]), ''payload_hash_mismatch''),
      (''fabricated audit mapping'', fabricate_audit, ''audit_mapping_missing'')]"

definition relation_finding :: "ucd \<Rightarrow> catalog \<Rightarrow> repo_texts \<Rightarrow> string \<times> mutation \<times> string \<Rightarrow> exn + msg list" where
  "relation_finding U C tree = (\<lambda>(label, change, code).
     bindE (build_policy_state U C tree ''allow'' ''approved'') (\<lambda>S.
     bindE (fixture_action tree) (\<lambda>action.
     bindE (change (S, action)) (\<lambda>(S', action').
     bindE (evaluate U C S' action') (\<lambda>r.
       Inr (flag (allowed r \<or> u code \<notin> set (codes_of r)) (Msg ''the evaluator did not reject {}'' [js label])))))))"

definition test_policy_evaluator_enforces_action_envelope_relations :: policy_test where
  "test_policy_evaluator_enforces_action_envelope_relations U C tree =
     bindE (concatE (relation_finding U C tree) relation_cases) (\<lambda>findings.
     bindE (build_policy_state U C tree ''allow'' ''approved'') (\<lambda>S.
     bindE (fixture_action tree) (\<lambda>action.
     bindE (evaluate U C S action) (\<lambda>r.
       Inr (findings
         @ remark (\<not> allowed r) ''the evaluator refused a valid relation of the action envelope''
         @ remark (action_envelope r = None \<or> action_envelope r = Some [])
             ''the evaluator returned no verified action_envelope'')))))"

subsection \<open>The router\<close>

definition test_sensitive_action_router_uses_policy_evaluator_when_state_is_provided :: policy_test where
  "test_sensitive_action_router_uses_policy_evaluator_when_state_is_provided U C tree =
     bindE (build_policy_state U C tree ''allow'' ''approved'') (\<lambda>S.
     bindE (fixture_action tree) (\<lambda>action.
     bindE (route U C (Some S) action) (\<lambda>ra.
       Inr (remark (\<not> routed ra) ''the router with a policy did not route an allowed action''
         @ remark (\<not> allowed (policy_of ra)) ''the router with a policy gives no allowed policy result''))))"

definition test_sensitive_action_router_blocks_policy_denied_action :: policy_test where
  "test_sensitive_action_router_blocks_policy_denied_action U C tree =
     bindE (build_policy_state U C tree ''deny'' ''approved'') (\<lambda>S.
     bindE (fixture_action tree) (\<lambda>action.
     bindE (route U C (Some S) action) (\<lambda>ra.
       Inr (remark (routed ra) ''the router with a policy routed a refused action''
         @ remark (u ''permission_denied'' \<notin> set (codes_of (policy_of ra)))
             ''the router with a policy does not show permission_denied''))))"

subsection \<open>What the fixtures give\<close>

lemma put_register:
  "register_runtime C S r = Inr S' \<Longrightarrow>
     \<exists>k. dget r ''runtime_id'' = JStr k \<and> S' = S\<lparr>runtimes := AList.update k r (runtimes S)\<rparr>"
  "register_adapter U C S r = Inr S' \<Longrightarrow> \<exists>k a. S' = S\<lparr>adapters := AList.update k a (adapters S)\<rparr>"
  "register_capability C S r = Inr S' \<Longrightarrow>
     \<exists>k. dget r ''capability_id'' = JStr k \<and> S' = S\<lparr>capabilities := AList.update k r (capabilities S)\<rparr>"
  "record_permission C S r = Inr S' \<Longrightarrow>
     \<exists>k. dget r ''permission_id'' = JStr k \<and> S' = S\<lparr>permissions := AList.update k r (permissions S)\<rparr>"
  "enqueue_approval C S r = Inr S' \<Longrightarrow>
     \<exists>k. dget r ''approval_id'' = JStr k \<and> S' = S\<lparr>approvals := AList.update k r (approvals S)\<rparr>"
  "append_audit_event C S r = Inr S' \<Longrightarrow>
     \<exists>k. dget r ''event_id'' = JStr k \<and> S' = S\<lparr>audit_events := AList.update k r (audit_events S)\<rparr>"
  "register_recovery_action C S r = Inr S' \<Longrightarrow>
     \<exists>k. dget r ''recovery_id'' = JStr k \<and> S' = S\<lparr>recovery_actions := AList.update k r (recovery_actions S)\<rparr>"
  "register_update_policy C S r = Inr S' \<Longrightarrow> \<exists>k. S' = S\<lparr>update_policies := AList.update k r (update_policies S)\<rparr>"
  by (auto simp: register_runtime_def register_adapter_def register_capability_def record_permission_def
      enqueue_approval_def append_audit_event_def register_recovery_action_def register_update_policy_def
      store_put_eq_Inr bindE_eq_Inr split: if_splits)

lemma fixture_object_loaded: "fixture_object tree name = Inr d \<longleftrightarrow> load_contract_fixture tree name = Inr (JObj d)"
proof (cases "load_contract_fixture tree name")
  case (Inr v)
  then show ?thesis by (cases v) (auto simp: fixture_object_def)
qed (simp add: fixture_object_def)

lemma registered_records:
  assumes s: "register_runtime C RuntimeState_init r = Inr S1" "register_adapter U C S1 a = Inr S2"
    "register_capability C S2 c = Inr S3" "record_permission C S3 p = Inr S4" "enqueue_approval C S4 ap = Inr S5"
    "append_audit_event C S5 e = Inr S6" "register_recovery_action C S6 rc = Inr S7" "register_update_policy C S7 up = Inr S"
  obtains kr cid pid aid eid rid where "state_run U C RuntimeState_init S"
    "runtimes S = [(kr, r)]" "dget r ''runtime_id'' = JStr kr" "capabilities S = [(cid, c)]" "dget c ''capability_id'' = JStr cid"
    "permissions S = [(pid, p)]" "dget p ''permission_id'' = JStr pid" "approvals S = [(aid, ap)]" "dget ap ''approval_id'' = JStr aid"
    "audit_events S = [(eid, e)]" "dget e ''event_id'' = JStr eid" "recovery_actions S = [(rid, rc)]" "dget rc ''recovery_id'' = JStr rid"
proof -
  note r1 = run_one [OF step_runtime [OF s(1), where U = U]]
  note r2 = run_step [OF r1 step_adapter [OF s(2)]]
  note r3 = run_step [OF r2 step_capability [OF s(3)]]
  note r4 = run_step [OF r3 step_permission [OF s(4)]]
  note r5 = run_step [OF r4 step_approval [OF s(5)]]
  note r6 = run_step [OF r5 step_audit [OF s(6)]]
  note r7 = run_step [OF r6 step_recovery [OF s(7)]]
  have run: "state_run U C RuntimeState_init S" by (rule run_step [OF r7 step_update [OF s(8)]])
  show ?thesis
    using that [OF run] put_register(1) [OF s(1)] put_register(2) [OF s(2)] put_register(3) [OF s(3)] put_register(4) [OF s(4)]
      put_register(5) [OF s(5)] put_register(6) [OF s(6)] put_register(7) [OF s(7)] put_register(8) [OF s(8)]
    by (auto simp: RuntimeState_init_def)
qed

lemma built_policy_state:
  assumes "build_policy_state U C tree d st = Inr S" and "fixture_action tree = Inr action"
  obtains cid c pid p aid ap eid e rid rc where
    "state_run U C RuntimeState_init S"
    "capabilities S = [(cid, c)]" "permissions S = [(pid, p)]" "dget p ''decision'' = js d"
    "approvals S = [(aid, ap)]" "dget ap ''status'' = js st" "audit_events S = [(eid, e)]" "recovery_actions S = [(rid, rc)]"
    "dget action ''runtime_id'' = js ''blue_tanuki''" "dget_or action ''operation'' (js ''unknown'') = JStr cid"
    "dget action ''capability_id'' = JStr cid" "dget action ''permission_id'' = JStr pid"
    "dget action ''approval_id'' = JStr aid" "dget action ''audit_event'' = JObj e" "dget e ''event_id'' = JStr eid"
    "dget action ''recovery_action'' = JObj rc" "dget rc ''recovery_id'' = JStr rid"
proof -
  from assms(1) obtain r a c p0 ap0 e rc up S1 S2 S3 S4 S5 S6 S7 where
    f: "fixture_object tree ''capability.valid.json'' = Inr c" "fixture_object tree ''permission.valid.json'' = Inr p0"
      "fixture_object tree ''approval.valid.json'' = Inr ap0" "fixture_object tree ''audit.valid.json'' = Inr e"
      "fixture_object tree ''recovery.valid.json'' = Inr rc"
    and s: "register_runtime C RuntimeState_init r = Inr S1" "register_adapter U C S1 a = Inr S2"
      "register_capability C S2 c = Inr S3" "record_permission C S3 (dset p0 ''decision'' (js d)) = Inr S4"
      "enqueue_approval C S4 (dset ap0 ''status'' (js st)) = Inr S5" "append_audit_event C S5 e = Inr S6"
      "register_recovery_action C S6 rc = Inr S7" "register_update_policy C S7 up = Inr S"
    by (auto simp: build_policy_state_def bindE_eq_Inr)
  obtain kr cid pid aid eid rid where g: "state_run U C RuntimeState_init S"
    "runtimes S = [(kr, r)]" "dget r ''runtime_id'' = JStr kr" "capabilities S = [(cid, c)]" "dget c ''capability_id'' = JStr cid"
    "permissions S = [(pid, dset p0 ''decision'' (js d))]" "dget (dset p0 ''decision'' (js d)) ''permission_id'' = JStr pid"
    "approvals S = [(aid, dset ap0 ''status'' (js st))]" "dget (dset ap0 ''status'' (js st)) ''approval_id'' = JStr aid"
    "audit_events S = [(eid, e)]" "dget e ''event_id'' = JStr eid" "recovery_actions S = [(rid, rc)]" "dget rc ''recovery_id'' = JStr rid"
    by (rule registered_records [OF s])
  from assms(2) f g have "dget action ''runtime_id'' = js ''blue_tanuki'' \<and> dget_or action ''operation'' (js ''unknown'') = JStr cid
      \<and> dget action ''capability_id'' = JStr cid \<and> dget action ''permission_id'' = JStr pid
      \<and> dget action ''approval_id'' = JStr aid \<and> dget action ''audit_event'' = JObj e
      \<and> dget action ''recovery_action'' = JObj rc"
    by (auto simp: fixture_action_def res_simps fixture_object_loaded dget_def [of "_ # _"] dget_or_def [of "_ # _"])
  with that [OF g(1,4,6) _ g(8) _ g(10,12) _ _ _ _ _ _ g(11) _ g(13)] show ?thesis by simp
qed

subsection \<open>The refusals\<close>

lemma policy_checks_parts:
  assumes "policy_checks U S action = Inr errors"
  defines "op \<equiv> dget_or action ''operation'' (js ''unknown'')"
  obtains e1 e2 e3 e4 e5 e6 where
    "check_runtime S action op = Inr e1" "check_capability S action op = Inr e2" "check_permission S action op = Inr e3"
    "check_approval S action op = Inr e4" "check_audit S action op = Inr e5" "check_recovery S action op = Inr e6"
    "errors = e1 @ e2 @ e3 @ e4 @ e5 @ e6 @ check_metadata U action op @ check_sources action op"
  using assms by (auto simp: policy_checks_def Let_def bindE_eq_Inr)

lemma refused_by_code:
  assumes "evaluate U C S action = Inr r"
    and "\<And>errors. policy_checks U S action = Inr errors \<Longrightarrow> code \<in> err_code ` set errors"
  shows "\<not> allowed r \<and> code \<in> set (codes_of r)"
proof -
  from assms(1) obtain errors where e: "policy_checks U S action = Inr errors"
    by (auto simp: evaluate_def Let_def bindE_eq_Inr)
  from assms(2) [OF e] have "errors \<noteq> []" by auto
  with assms(1) e have "policy_errors r = errors \<and> \<not> allowed r" by (auto simp: evaluate_def Let_def)
  with assms(2) [OF e] show ?thesis by (auto simp: codes_of_def)
qed

lemma expect_refusal_passes:
  assumes "build_policy_state U repo_specs tree d st = Inr S" and "fixture_action tree = Inr action"
    and "state_run U repo_specs RuntimeState_init S"
    and "hashable (dget (change action) ''runtime_id'')" "hashable (dget (change action) ''capability_id'')"
      "hashable (dget (change action) ''permission_id'')" "hashable (dget (change action) ''approval_id'')"
      "hashable (dget_or (change action) ''operation'' (js ''unknown''))"
      "\<forall>e. dget (change action) ''audit_event'' = JObj e \<longrightarrow> hashable (dget e ''event_id'')"
      "\<forall>r. dget (change action) ''recovery_action'' = JObj r \<longrightarrow> hashable (dget r ''recovery_id'')"
    and "\<And>errors. policy_checks U S (change action) = Inr errors \<Longrightarrow> code \<in> err_code ` set errors"
  shows "expect_refusal U repo_specs tree d st change code m = Inr []"
proof -
  from evaluate_total [OF assms(3-10)] obtain r where r: "evaluate U repo_specs S (change action) = Inr r" by blast
  from refused_by_code [OF r assms(11)] r assms(1,2) show ?thesis
    by (simp add: expect_refusal_def remark_def)
qed

lemma dget_or_ddel_other [simp]: "k' \<noteq> k \<Longrightarrow> dget_or (ddel d k) k' v = dget_or d k' v"
  by (auto simp: dget_or_def ddel_def delete_conv split: option.splits)

lemma denied_permission_passes:
  assumes S: "build_policy_state U repo_specs tree ''deny'' ''approved'' = Inr S" and action: "fixture_action tree = Inr action"
  shows "test_policy_evaluator_rejects_denied_permission U repo_specs tree = Inr []"
  unfolding test_policy_evaluator_rejects_denied_permission_def
  by (rule built_policy_state [OF S action], rule expect_refusal_passes [OF S action])
    (auto simp: check_permission_def in_set_of_def py_in_def ALLOWED_PERMISSION_DECISIONS_def error_code_defs report_if_def Let_def
      elim!: policy_checks_parts)

lemma unapproved_passes:
  assumes S: "build_policy_state U repo_specs tree ''allow'' ''requires_validation'' = Inr S"
    and action: "fixture_action tree = Inr action"
  shows "test_policy_evaluator_rejects_unapproved_runtime_state_approval U repo_specs tree = Inr []"
  unfolding test_policy_evaluator_rejects_unapproved_runtime_state_approval_def
  by (rule built_policy_state [OF S action], rule expect_refusal_passes [OF S action])
    (auto simp: check_approval_def error_code_defs Let_def elim!: policy_checks_parts)

text \<open>A source without authority is named by an error whichever it is.\<close>

lemma authority_source_refused:
  assumes "src \<in> set NON_AUTHORITY_SOURCES" and "policy_checks U S (dset action ''authority_source'' (JStr src)) = Inr errors"
  shows "u ''non_authority_source_attempt'' \<in> err_code ` set errors"
proof -
  let ?a = "dset action ''authority_source'' (JStr src)"
  have "\<exists>m op. shell_error NON_AUTHORITY_SOURCE_ATTEMPT m op \<in> set (check_sources ?a op')" for op'
    using assms(1) by (auto simp: check_sources_def report_if_def)
  then show ?thesis using assms(2) by (elim policy_checks_parts) (force simp: error_code_defs)
qed

lemma non_authority_source_passes:
  assumes S: "build_policy_state U repo_specs tree ''allow'' ''approved'' = Inr S" and action: "fixture_action tree = Inr action"
  shows "test_policy_evaluator_rejects_non_authority_source U repo_specs tree = Inr []"
proof -
  have "\<exists>r. evaluate U repo_specs S (dset action ''authority_source'' (JStr src)) = Inr r \<and> \<not> allowed r
      \<and> u ''non_authority_source_attempt'' \<in> set (codes_of r)" if src: "src \<in> set NON_AUTHORITY_SOURCES" for src
  proof -
    let ?a = "dset action ''authority_source'' (JStr src)"
    obtain r where r: "evaluate U repo_specs S ?a = Inr r"
      by (rule built_policy_state [OF S action]) (use evaluate_total [of U S ?a] in auto)
    from refused_by_code [OF r, of "u ''non_authority_source_attempt''"] authority_source_refused [OF src] r show ?thesis by blast
  qed
  then show ?thesis
    by (auto simp: test_policy_evaluator_rejects_non_authority_source_def S action concatE_eq_Nil bindE_eq_Inr)
qed

definition refusal_tests :: "policy_test list" where
  "refusal_tests =
     [test_policy_evaluator_rejects_unknown_capability, test_policy_evaluator_rejects_unknown_permission,
      test_policy_evaluator_rejects_denied_permission, test_policy_evaluator_rejects_missing_approval,
      test_policy_evaluator_rejects_self_reported_approval_without_approval_id,
      test_policy_evaluator_rejects_unknown_approval_id,
      test_policy_evaluator_rejects_unapproved_runtime_state_approval,
      test_policy_evaluator_rejects_missing_audit_event, test_policy_evaluator_rejects_missing_recovery_action,
      test_policy_evaluator_rejects_unknown_recovery_id, test_policy_evaluator_rejects_non_authority_source]"


end
