(* ===== verification/Policy_Fixtures.thy ===== *)
theory Policy_Fixtures
  imports Conformance_Policy Reference_State
begin

text \<open>
  A repository whose contract fixtures are the records of the reference state: the states and the action of the
  policy tests are built on it, and the refusal tests pass.
\<close>

definition sample_update_policy :: obj where
  "sample_update_policy =
     [(u ''policy_id'', js ''updates-default''), (u ''channel'', js ''stable''), (u ''auto_update'', JBool False),
      (u ''signature_required'', JBool True), (u ''rollback_enabled'', JBool True)]"

definition fixture_records :: "(string \<times> obj) list" where
  "fixture_records =
     [(''runtime.valid.json'', reference_runtime), (''adapter.valid.json'', reference_adapter),
      (''capability.valid.json'', reference_capability), (''permission.valid.json'', reference_permission),
      (''approval.valid.json'', reference_approval), (''audit.valid.json'', reference_audit_event),
      (''recovery.valid.json'', reference_recovery), (''update.valid.json'', sample_update_policy)]"

definition fixture_text :: "obj \<Rightarrow> ustr" where
  "fixture_text d = render None 0 (JObj d)"

definition fixture_tree :: repo_texts where
  "fixture_tree =
     \<lparr>tree_walk = [],
      tree_text = (\<lambda>names.
        map_option (fixture_text \<circ> snd)
          (List.find (\<lambda>(name, _). names = names_of (''examples/contracts/'' @ name)) fixture_records))\<rparr>"

lemma loaded_text:
  assumes "wf_json (JObj d)" and "tree_text tree (names_of (''examples/contracts/'' @ name)) = Some (fixture_text d)"
  shows "fixture_object tree name = Inr d"
proof -
  have "printable (fixture_text d)" unfolding fixture_text_def by (rule printable_render)
  then have "13 \<notin> set (fixture_text d)" by (auto simp: printable_def list_all_iff)
  moreover obtain t where "fixture_text d = 123 # t" by (cases "d = []") (simp_all add: fixture_text_def)
  moreover have "py_loads (fixture_text d) = Inr (JObj d)"
    using loads_render_space [OF assms(1), of "[]" None 0] by (simp add: fixture_text_def py_loads_def)
  ultimately show ?thesis using assms(2)
    by (simp add: fixture_object_loaded load_contract_fixture_def read_source_def read_names_def universal_newlines_id)
qed

lemma wf_fixture_records: "list_all (\<lambda>(_, d). wf_json (JObj d)) fixture_records"
  by (simp add: fixture_records_def reference_defs sample_update_policy_def reference_payload_def scalar_def cong: u_cong)

lemma fixture_paths: "distinct (map (\<lambda>(name, _). names_of (''examples/contracts/'' @ name)) fixture_records)"
  by (simp add: fixture_records_def names_of_def path_of_def u_def)

lemma find_distinct:
  "distinct (map f xs) \<Longrightarrow> x \<in> set xs \<Longrightarrow> List.find (\<lambda>y. f x = f y) xs = Some x"
  by (induction xs) (auto simp: image_iff)

lemma fixture_lookup:
  assumes "(name, d) \<in> set fixture_records"
  shows "fixture_object fixture_tree name = Inr d"
proof (rule loaded_text)
  show "wf_json (JObj d)" using wf_fixture_records assms unfolding list_all_iff by fast
  show "tree_text fixture_tree (names_of (''examples/contracts/'' @ name)) = Some (fixture_text d)"
    using find_distinct [OF fixture_paths assms] by (simp add: fixture_tree_def case_prod_unfold)
qed

lemma loaded_fixtures:
  "fixture_object fixture_tree ''runtime.valid.json'' = Inr reference_runtime"
  "fixture_object fixture_tree ''adapter.valid.json'' = Inr reference_adapter"
  "fixture_object fixture_tree ''capability.valid.json'' = Inr reference_capability"
  "fixture_object fixture_tree ''permission.valid.json'' = Inr reference_permission"
  "fixture_object fixture_tree ''approval.valid.json'' = Inr reference_approval"
  "fixture_object fixture_tree ''audit.valid.json'' = Inr reference_audit_event"
  "fixture_object fixture_tree ''recovery.valid.json'' = Inr reference_recovery"
  "fixture_object fixture_tree ''update.valid.json'' = Inr sample_update_policy"
  by (rule fixture_lookup; simp add: fixture_records_def)+

subsection \<open>The states\<close>

lemma fixture_permission_accepted:
  "d = ''allow'' \<or> d = ''deny'' \<Longrightarrow>
     validate_contract repo_specs (dset reference_permission ''decision'' (js d)) ''permission.schema.json'' = Inr ()"
  by (elim disjE; simp add: reference_eval schema_defs reference_permission_def dset_def cong: u_cong)

lemma approval_with_status:
  "dset reference_approval ''status'' v =
    [(u ''approval_id'', js ''approval-1''), (u ''runtime_id'', js ''blue_tanuki''), (u ''operation'', js ''filesystem.write''),
     (u ''target_scope'', js ''workspace''), (u ''status'', v), (u ''content_visibility'', js ''redacted''),
     (u ''payload_hash'', JStr (canonical_hash reference_payload)), (u ''full_payload'', reference_payload),
     (u ''redacted_payload'', JObj [(u ''path'', js ''notes/today.md''), (u ''content'', js ''[redacted]'')]),
     (u ''editable_fields'', JArr [js ''path'']), (u ''authority_fields'', JArr [js ''permission_id'']),
     (u ''sealed_fields'', JArr [js ''runtime_id'']), (u ''hidden_fields'', JArr [js ''credential'']),
     (u ''sacred_fields'', JArr [js ''authority_context''])]"
  by (simp add: reference_approval_def dset_def)

lemma fixture_approval_accepted:
  assumes "st = ''approved'' \<or> st = ''requires_validation''"
  shows "validate_contract repo_specs (dset reference_approval ''status'' (js st)) ''approval.schema.json'' = Inr ()"
proof -
  have "validate_contract repo_specs (dset reference_approval ''status'' (js ''approved'')) ''approval.schema.json'' = Inr ()"
    unfolding approval_with_status by (simp add: reference_eval schema_defs cong: u_cong)
  moreover have "validate_contract repo_specs (dset reference_approval ''status'' (js ''requires_validation''))
      ''approval.schema.json'' = Inr ()"
    unfolding approval_with_status by (simp add: reference_eval schema_defs cong: u_cong)
  ultimately show ?thesis using assms by blast
qed

lemma sample_update_accepted:
  "validate_contract repo_specs sample_update_policy ''update.schema.json'' = Inr ()"
  by (simp add: reference_eval schema_defs sample_update_policy_def cong: u_cong)

definition fixture_state :: "string \<Rightarrow> string \<Rightarrow> runtime_state" where
  "fixture_state d st = reference_state
     \<lparr>permissions := [(u ''permission.fs.write.workspace'', dset reference_permission ''decision'' (js d))],
      approvals := [(u ''approval-1'', dset reference_approval ''status'' (js st))],
      update_policies := [(u ''updates-default'', sample_update_policy)]\<rparr>"

lemma fixture_ids:
  "ditem (dset reference_permission ''decision'' v) ''permission_id'' = Inr (js ''permission.fs.write.workspace'')"
  "ditem (dset reference_approval ''status'' v) ''approval_id'' = Inr (js ''approval-1'')"
  "ditem sample_update_policy ''policy_id'' = Inr (js ''updates-default'')"
  by (simp_all add: ditem_def dset_def reference_defs sample_update_policy_def cong: u_cong)

lemma build_fixture_state:
  assumes "d = ''allow'' \<or> d = ''deny''" and "st = ''approved'' \<or> st = ''requires_validation''"
  shows "build_policy_state U repo_specs fixture_tree d st = Inr (fixture_state d st)"
  by (simp add: build_policy_state_def loaded_fixtures register_runtime_def register_adapter_def register_capability_def
      record_permission_def enqueue_approval_def register_recovery_action_def append_audit_event_def
      register_update_policy_def reference_accepted reference_ids load_reference_adapter store_put_def
      fixture_permission_accepted [OF assms(1)] fixture_approval_accepted [OF assms(2)] sample_update_accepted fixture_ids
      RuntimeState_init_def reference_state_def fixture_state_def)

lemma build_fixture_action: "\<exists>action. fixture_action fixture_tree = Inr action"
proof -
  note l = loaded_fixtures [unfolded fixture_object_loaded]
  show ?thesis
    by (simp add: fixture_action_def loaded_fixtures l reference_ids) (simp add: ditem_def reference_approval_def)
qed


end
