(* ===== verification/Bounded_Extension.thy ===== *)
theory Bounded_Extension
  imports Conformance_Policy
begin

text \<open>
  The bounded reference extension of the conformance run
  (\<open>tooling/conformance_tests/run_conformance_skeleton.py\<close>): the validation of an extension against the contracts, the
  state and the action built from its records, and the three tests on the extension of the repository. What the
  validation leaves open for the policy is the definition \<open>governed\<close>; the last property proves it exact. A record that
  is no object raises \<open>TypeError\<close> where it is registered, whatever the exception of the code.
\<close>

subsection \<open>Validation\<close>

definition BOUNDED_EXTENSION_RECORD_SCHEMAS :: "(string \<times> string) list" where
  "BOUNDED_EXTENSION_RECORD_SCHEMAS =
     [(''runtime'', ''runtime.schema.json''), (''adapter'', ''adapter.schema.json''),
      (''runtime_manifest'', ''runtime_manifest.schema.json''), (''adapter_manifest'', ''adapter_manifest.schema.json''),
      (''capability'', ''capability.schema.json''), (''permission'', ''permission.schema.json''),
      (''approval'', ''approval.schema.json''), (''audit_event'', ''audit.schema.json''),
      (''recovery_action'', ''recovery.schema.json''),
      (''content_exposure_policy'', ''content_exposure.schema.json''), (''update_policy'', ''update.schema.json'')]"

definition extension_record_errors :: "repo_texts \<Rightarrow> obj \<Rightarrow> string \<times> string \<Rightarrow> exn + msg list" where
  "extension_record_errors tree extension = (\<lambda>(key, schema_name).
     case dget extension key of
       JObj record \<Rightarrow>
         bindE (load_schema tree schema_name) (\<lambda>schema.
         bindE (check_schemas_validate_instance (JObj record) schema (u ''$'')) (\<lambda>failures.
           Inr (map (Within ''the bounded extension {} fails {}'' [js key, js schema_name]) failures)))
     | _ \<Rightarrow> Inr [Msg ''the bounded extension lacks the object record {}'' [js key]])"

definition REQUIRED_NON_CLAIMS :: "string list" where
  "REQUIRED_NON_CLAIMS =
     [''not_installed_product_evidence'', ''not_windows_release_evidence'',
      ''not_cross_agent_reproduction_evidence'', ''not_public_standard_adoption_evidence'']"

definition claim_errors :: "obj \<Rightarrow> exn + msg list" where
  "claim_errors extension =
     bindE (py_set (dget_or extension ''non_claims'' (JArr []))) (\<lambda>claims.
       Inr (let missing = sort (filter (\<lambda>c. JStr c \<notin> set claims) (map u REQUIRED_NON_CLAIMS)) in
            remark (\<not> py_eq (dget extension ''evidence_classification'') (js ''contract_conformance''))
              ''the bounded extension must be classified contract_conformance''
            @ flag (missing \<noteq> []) (Msg ''the bounded extension lacks the non-claims {}'' [JArr (map JStr missing)])))"

definition link_errors :: "obj \<Rightarrow> obj \<Rightarrow> obj \<Rightarrow> obj \<Rightarrow> msg list" where
  "link_errors runtime adapter runtime_manifest adapter_manifest =
     (let runtime_id = dget runtime ''runtime_id''; adapter_id = dget adapter ''adapter_id'' in
      remark (\<not> py_eq runtime_id (dget runtime_manifest ''runtime_id''))
        ''the runtime_id of the runtime_manifest differs from the runtime''
      @ remark (\<not> py_eq runtime_id (dget adapter ''runtime_id'') \<or> \<not> py_eq runtime_id (dget adapter_manifest ''runtime_id''))
          ''the runtime_id of the adapter differs from the runtime''
      @ remark (\<not> py_eq (dget runtime ''adapter_id'') adapter_id \<or> \<not> py_eq (dget adapter_manifest ''adapter_id'') adapter_id)
          ''the linkage of adapter_id is inconsistent''
      @ remark (\<not> py_eq (dget runtime_manifest ''runtime_type'') (js ''tool_runtime'')
               \<or> \<not> py_eq (dget runtime ''kind'') (js ''tool''))
          ''the reference must remain a tool runtime''
      @ remark (\<not> py_eq (dget adapter ''transport'') (js ''mock'') \<or> \<not> py_eq (dget adapter_manifest ''transport'') (js ''mock''))
          ''the reference must not require a privileged transport''
      @ remark (\<not> is_true (dget adapter ''authority_strip'') \<or> \<not> is_true (dget adapter_manifest ''authority_strip''))
          ''the adapter must require authority_strip=true''
      @ remark (\<not> is_true (dget runtime_manifest ''signed_manifest'') \<or> \<not> is_true (dget adapter_manifest ''signed_manifest''))
          ''the manifests must be signed'')"

definition declaration_errors_of :: "json \<Rightarrow> obj \<Rightarrow> obj \<Rightarrow> obj \<Rightarrow> obj \<Rightarrow> exn + msg list" where
  "declaration_errors_of capability_id runtime runtime_manifest adapter adapter_manifest =
     concatE (\<lambda>(record_name, capabilities).
         lacking capability_id capabilities (Msg ''{} does not declare the capability {}'' [js record_name, capability_id]))
       [(''runtime'', dget_or runtime ''capabilities'' (JArr [])),
        (''runtime_manifest'', dget_or runtime_manifest ''capabilities'' (JArr [])),
        (''adapter'', dget_or adapter ''declared_capabilities'' (JArr [])),
        (''adapter_manifest'', dget_or adapter_manifest ''declared_capabilities'' (JArr []))]"

definition grant_errors :: "json \<Rightarrow> obj \<Rightarrow> msg list" where
  "grant_errors capability_id permission =
     remark (\<not> py_eq (dget permission ''capability_id'') capability_id) ''the permission is not mapped to the capability''
     @ remark (\<not> py_eq (dget permission ''source'') (js ''policy'')) ''the source of the permission must be policy''
     @ remark (\<not> py_eq (dget permission ''decision'') (js ''allow'')) ''the permission of the positive fixture must be allow''"

definition binding_errors :: "json \<Rightarrow> json \<Rightarrow> obj \<Rightarrow> obj \<Rightarrow> obj \<Rightarrow> msg list" where
  "binding_errors runtime_id capability_id approval audit_event recovery_action =
     remark (\<not> py_eq (dget approval ''runtime_id'') runtime_id \<or> \<not> py_eq (dget approval ''operation'') capability_id)
       ''the approval is not mapped to the runtime capability''
     @ remark (\<not> py_eq (dget approval ''status'') (js ''approved'')) ''the approval of the positive fixture must be approved''
     @ remark (\<not> py_eq (dget audit_event ''payload_hash'') (dget approval ''payload_hash''))
         ''the payload_hash of the audit event differs from that of the approval''
     @ remark (\<not> py_eq (dget audit_event ''action'') capability_id \<or> \<not> py_eq (dget audit_event ''target'') runtime_id)
         ''target and action of the audit event are not mapped to the runtime capability''
     @ remark (\<not> truthy (dget recovery_action ''recovery_id'')) ''there is no recovery mapping''"

definition exposure_errors :: "obj \<Rightarrow> obj \<Rightarrow> exn + msg list" where
  "exposure_errors approval content_policy =
     (let allowed_visibility = dget_or content_policy ''allowed_visibility'' (JArr []) in
      bindE (py_contains (js ''full'') allowed_visibility) (\<lambda>full.
      bindE (py_contains (dget approval ''content_visibility'') allowed_visibility) (\<lambda>inside.
        Inr (remark (\<not> py_eq (dget content_policy ''default_visibility'') (js ''none''))
               ''the default of the content exposure must be none''
             @ remark full ''the content exposure policy must not allow the full payload''
             @ remark (\<not> inside) ''the visibility of the approval is outside the content policy''))))"

definition bounded_extension_validation_errors :: "repo_texts \<Rightarrow> obj \<Rightarrow> exn + msg list" where
  "bounded_extension_validation_errors tree extension =
     (let record = (\<lambda>key. as_dict (dget_or extension key (JObj []))) in
      bindE (concatE (extension_record_errors tree extension) BOUNDED_EXTENSION_RECORD_SCHEMAS) (\<lambda>e1.
      bindE (record ''runtime'') (\<lambda>runtime.
      bindE (record ''adapter'') (\<lambda>adapter.
      bindE (record ''capability'') (\<lambda>capability.
      bindE (record ''permission'') (\<lambda>permission.
      bindE (claim_errors extension) (\<lambda>e2.
      bindE (record ''runtime_manifest'') (\<lambda>runtime_manifest.
      bindE (record ''adapter_manifest'') (\<lambda>adapter_manifest.
      let runtime_id = dget runtime ''runtime_id''; capability_id = dget capability ''capability_id'' in
      bindE (declaration_errors_of capability_id runtime runtime_manifest adapter adapter_manifest) (\<lambda>e4.
      bindE (lacking (dget permission ''permission_id'') (dget_or runtime_manifest ''permissions'' (JArr []))
               (Msg ''the runtime_manifest does not declare the permission'' [])) (\<lambda>e5.
      bindE (record ''approval'') (\<lambda>approval.
      bindE (record ''audit_event'') (\<lambda>audit_event.
      bindE (record ''recovery_action'') (\<lambda>recovery_action.
      bindE (record ''content_exposure_policy'') (\<lambda>content_policy.
      bindE (exposure_errors approval content_policy) (\<lambda>e8.
        Inr (e1 @ e2 @ link_errors runtime adapter runtime_manifest adapter_manifest @ e4 @ e5
             @ grant_errors capability_id permission
             @ binding_errors runtime_id capability_id approval audit_event recovery_action @ e8)))))))))))))))))"

subsection \<open>State and action\<close>

definition extension_record :: "obj \<Rightarrow> string \<Rightarrow> exn + obj" where
  "extension_record extension key =
     bindE (ditem extension key) (\<lambda>v. case v of JObj d \<Rightarrow> Inr d | _ \<Rightarrow> Inl TypeError)"

definition build_bounded_extension_state :: "ucd \<Rightarrow> catalog \<Rightarrow> obj \<Rightarrow> exn + runtime_state" where
  "build_bounded_extension_state U C extension =
     bindE (bindE (extension_record extension ''runtime'') (register_runtime C RuntimeState_init)) (\<lambda>S.
     bindE (bindE (extension_record extension ''adapter'') (register_adapter U C S)) (\<lambda>S.
     bindE (bindE (extension_record extension ''capability'') (register_capability C S)) (\<lambda>S.
     bindE (bindE (extension_record extension ''permission'') (record_permission C S)) (\<lambda>S.
     bindE (bindE (extension_record extension ''approval'') (enqueue_approval C S)) (\<lambda>S.
     bindE (bindE (extension_record extension ''audit_event'') (append_audit_event C S)) (\<lambda>S.
     bindE (bindE (extension_record extension ''recovery_action'') (register_recovery_action C S)) (\<lambda>S.
     bindE (extension_record extension ''update_policy'') (register_update_policy C S))))))))"

definition build_bounded_extension_action :: "obj \<Rightarrow> exn + obj" where
  "build_bounded_extension_action extension =
     bindE (ditem extension ''approval'') (\<lambda>approval.
     bindE (bindE (ditem extension ''runtime'') (\<lambda>r. jitem r ''runtime_id'')) (\<lambda>runtime_id.
     bindE (bindE (ditem extension ''capability'') (\<lambda>r. jitem r ''capability_id'')) (\<lambda>capability_id.
     bindE (bindE (ditem extension ''permission'') (\<lambda>r. jitem r ''permission_id'')) (\<lambda>permission_id.
     bindE (jitem approval ''approval_id'') (\<lambda>approval_id.
     bindE (bindE (ditem extension ''permission'') as_dict) (\<lambda>permission.
     bindE (jitem approval ''redacted_payload'') (\<lambda>payload.
     bindE (ditem extension ''audit_event'') (\<lambda>audit_event.
     bindE (ditem extension ''recovery_action'') (\<lambda>recovery_action.
     bindE (bindE (ditem extension ''adapter'') as_dict) (\<lambda>adapter.
       Inr [(u ''runtime_id'', runtime_id), (u ''operation'', capability_id), (u ''capability_id'', capability_id),
            (u ''permission_id'', permission_id), (u ''approval_id'', approval_id), (u ''approval_state'', js ''approved''),
            (u ''target_scope'', dget_or permission ''target_scope'' (js ''diagnostic_summary'')),
            (u ''payload'', payload), (u ''audit_event'', audit_event), (u ''recovery_action'', recovery_action),
            (u ''adapter_metadata'', dget_or adapter ''metadata'' (JObj []))]))))))))))"

subsection \<open>The tests\<close>

definition load_bounded_extension_fixture :: "repo_texts \<Rightarrow> exn + obj" where
  "load_bounded_extension_fixture tree = fixture_object tree ''llm_bounded_extension.valid.json''"

text \<open>\<open>try: computation except ValueError\<close>, the finding of a caught error being the list on the left\<close>

definition value_error_or :: "(exn + 'a) \<Rightarrow> string \<Rightarrow> ('a \<Rightarrow> exn + msg list) \<Rightarrow> exn + msg list" where
  "value_error_or r message continue =
     (case r of Inr x \<Rightarrow> continue x | Inl (ValueError m) \<Rightarrow> Inr [Within message [] m] | Inl e \<Rightarrow> Inl e)"

definition marker_errors :: "repo_texts \<Rightarrow> json \<Rightarrow> exn + msg list" where
  "marker_errors tree marker =
     concatE (\<lambda>path. bindE (read_names tree path) (\<lambda>text.
         case marker of
           JStr m \<Rightarrow> Inr (flag (occurs m text) (Msg ''a marker of the runtime leaked into {}'' [JStr (join_with ''/'' path)]))
         | _ \<Rightarrow> Inl TypeError))
       (sort (filter (\<lambda>p. length p = Suc (length (names_of ''packages/shell_core'')))
         (files_below tree ''packages/shell_core'' ''.py'')))"

definition manifest_of :: "obj \<Rightarrow> string \<Rightarrow> exn + obj" where
  "manifest_of extension key = bindE (ditem extension key) as_dict"

definition manifests_registered :: "obj \<Rightarrow> exn + runtime_catalog" where
  "manifests_registered extension =
     bindE (bindE (manifest_of extension ''runtime_manifest'') (register_runtime_manifest RuntimeCatalog_init)) (\<lambda>c.
     bindE (manifest_of extension ''adapter_manifest'') (register_adapter_manifest c))"

definition test_l3_bounded_reference_extension_uses_existing_contracts :: "ucd \<Rightarrow> repo_texts \<Rightarrow> exn + msg list" where
  "test_l3_bounded_reference_extension_uses_existing_contracts U tree =
     bindE (load_bounded_extension_fixture tree) (\<lambda>extension.
     bindE (bounded_extension_validation_errors tree extension) (\<lambda>e1.
     bindE (value_error_or (manifests_registered extension) ''a manifest of the bounded extension is rejected: {}''
              (\<lambda>_. Inr [])) (\<lambda>e2.
     bindE (manifest_of extension ''runtime_manifest'') (\<lambda>runtime_manifest.
     bindE (manifest_of extension ''adapter_manifest'') (\<lambda>adapter_manifest.
     bindE (manifest_of extension ''adapter'') (\<lambda>adapter.
     bindE (value_error_or (load_adapter U adapter) ''the adapter of the bounded extension is not loaded: {}'' (\<lambda>r.
         bindE (bindE (ditem adapter ''declared_capabilities'') iter_values) (\<lambda>declared.
           Inr (remark (\<not> py_eq (JArr (effective_capabilities r)) (JArr declared))
             ''the metadata of the adapter changed its effective capabilities'')))) (\<lambda>e5.
     bindE (bindE (ditem extension ''runtime'') (\<lambda>r. jitem r ''runtime_id'')) (\<lambda>marker.
     bindE (marker_errors tree marker) (\<lambda>e6.
       Inr (e1 @ e2
            @ remark (catalog_can_grant_authority RuntimeCatalog_init runtime_manifest)
                ''the runtime manifest of the bounded extension granted authority''
            @ remark (metadata_attempts_authority U (dget_or adapter_manifest ''metadata'' (JObj [])))
                ''the metadata of the adapter manifest tried to claim authority''
            @ e5 @ e6))))))))))"

definition projected_has :: "projection \<Rightarrow> string \<Rightarrow> bool" where
  "projected_has p k = (case p of Content d \<Rightarrow> dhas d k | Violation _ \<Rightarrow> False)"

definition test_l3_bounded_reference_extension_governed_path_accepts_declared_mapping :: policy_test where
  "test_l3_bounded_reference_extension_governed_path_accepts_declared_mapping U C tree =
     bindE (load_bounded_extension_fixture tree) (\<lambda>extension.
     bindE (build_bounded_extension_state U C extension) (\<lambda>S.
     bindE (build_bounded_extension_action extension) (\<lambda>action.
     bindE (evaluate U C S action) (\<lambda>r.
     bindE (bindE (manifest_of extension ''approval'') project_approval_content) (\<lambda>projected.
       Inr (remark (\<not> allowed r) ''the declared mapping of the bounded extension was refused''
            @ remark (\<not> audit_required r) ''the policy result of the bounded extension does not require an audit''
            @ remark (projected_has projected ''full_payload'') ''the full payload was projected without full visibility''
            @ remark (\<not> projected_has projected ''redacted_payload'') ''the declared redacted payload was not projected''))))))"

definition extension_case :: "ucd \<Rightarrow> catalog \<Rightarrow> obj \<Rightarrow> string \<times> (obj \<Rightarrow> obj) \<times> string \<Rightarrow> exn + msg list" where
  "extension_case U C extension = (\<lambda>(label, change, code).
     bindE (build_bounded_extension_state U C extension) (\<lambda>S.
     bindE (build_bounded_extension_action extension) (\<lambda>action.
     bindE (evaluate U C S (change action)) (\<lambda>r.
       Inr (flag (allowed r \<or> u code \<notin> set (codes_of r))
         (Msg ''the negative case does not fail closed: {}'' [js label]))))))"

definition extension_cases :: "(string \<times> (obj \<Rightarrow> obj) \<times> string) list" where
  "extension_cases =
     [(''adapter metadata authority escalation'',
       \<lambda>action. dset action ''adapter_metadata'' (JObj [(u ''generated_config'', JObj [(u ''permissionGrant'', js ''all'')])]),
       ''adapter_metadata_escalation_attempt''),
      (''undeclared capability'', \<lambda>action. dset action ''capability_id'' (js ''diagnostic.write.undeclared''), ''unknown_capability''),
      (''undeclared permission'', \<lambda>action. dset action ''permission_id'' (js ''permission.diagnostic.write.undeclared''),
       ''unknown_permission''),
      (''self-approved action without approval id'', \<lambda>action. ddel action ''approval_id'', ''approval_missing''),
      (''missing audit mapping'', \<lambda>action. ddel action ''audit_event'', ''audit_mapping_missing''),
      (''missing recovery mapping'', \<lambda>action. ddel action ''recovery_action'', ''recovery_mapping_missing'')]"

definition extension_source_case :: "ucd \<Rightarrow> catalog \<Rightarrow> obj \<Rightarrow> ustr \<Rightarrow> exn + msg list" where
  "extension_source_case U C extension src =
     bindE (build_bounded_extension_state U C extension) (\<lambda>S.
     bindE (build_bounded_extension_action extension) (\<lambda>action.
     bindE (evaluate U C S (dset action ''authority_source'' (JStr src))) (\<lambda>r.
       Inr (flag (allowed r \<or> u ''non_authority_source_attempt'' \<notin> set (codes_of r))
         (Msg ''the negative case does not fail closed: {} authority source'' [JStr src])))))"

definition test_l3_bounded_reference_extension_negative_cases_fail_closed :: policy_test where
  "test_l3_bounded_reference_extension_negative_cases_fail_closed U C tree =
     bindE (load_bounded_extension_fixture tree) (\<lambda>extension.
     bindE (concatE (extension_case U C extension) extension_cases) (\<lambda>e1.
     bindE (concatE (extension_source_case U C extension) (sort NON_AUTHORITY_SOURCES)) (\<lambda>e2.
     bindE (extension_record extension ''approval'') (\<lambda>approval.
     bindE (ditem extension ''content_exposure_policy'') (\<lambda>policy.
     bindE (project_approval_content (dset approval ''content_visibility'' (js ''full''))) (\<lambda>projected.
     bindE (bindE (jitem policy ''allowed_visibility'') (py_contains (js ''full''))) (\<lambda>full.
       Inr (e1 @ e2
            @ remark full ''the content policy of the bounded extension allowed full visibility''
            @ remark (\<not> projected_has projected ''full_payload'')
                ''changing to full visibility does not show why the policy must refuse it''))))))))"

subsection \<open>What the validation leaves to the policy\<close>

definition record_of :: "obj \<Rightarrow> string \<Rightarrow> obj" where
  "record_of extension key = (case dget extension key of JObj d \<Rightarrow> d | _ \<Rightarrow> [])"

text \<open>
  The relations between the records that no line of the validation reads but the evaluator demands: the capability
  belongs to the runtime and offers its own id as an operation, permission, approval and recovery action agree with
  it, and the hash the approval holds is that of the redacted payload.
\<close>

definition governed :: "ucd \<Rightarrow> obj \<Rightarrow> bool" where
  "governed U extension \<longleftrightarrow>
     (let runtime_id = dget (record_of extension ''runtime'') ''runtime_id'';
          capability = record_of extension ''capability''; capability_id = dget capability ''capability_id'';
          permission = record_of extension ''permission''; approval = record_of extension ''approval'';
          recovery = record_of extension ''recovery_action'' in
      dget capability ''runtime_id'' = runtime_id
      \<and> (case dget capability ''operations'' of JArr ops \<Rightarrow> capability_id \<in> set ops | _ \<Rightarrow> False)
      \<and> dget permission ''runtime_id'' = runtime_id \<and> dget permission ''operation'' = capability_id
      \<and> dget approval ''target_scope'' = dget permission ''target_scope''
      \<and> dget approval ''payload_hash'' = JStr (canonical_hash (dget approval ''redacted_payload''))
      \<and> dget recovery ''runtime_id'' = runtime_id \<and> dget recovery ''operation'' = capability_id
      \<and> \<not> metadata_attempts_authority U (dget_or (record_of extension ''adapter'') ''metadata'' (JObj [])))"

lemma record_of_dget_or: "dget_or extension key (JObj []) = JObj d \<Longrightarrow> record_of extension key = d"
  by (auto simp: record_of_def dget_def dget_or_def split: option.splits)

lemma extension_record_Inr: "extension_record extension key = Inr d \<longleftrightarrow> dget extension key = JObj d \<and> dhas extension key"
  by (cases "dget extension key") (auto simp: extension_record_def res_simps split: json.splits)

lemma envelope_accepted:
  assumes "rid \<noteq> []" "op \<noteq> []" "cid \<noteq> []" "pid \<noteq> []" "aid \<noteq> []" "kid \<noteq> []" "scope \<noteq> []"
  shows "validate_contract repo_specs
     [(u ''envelope_id'', js ''action-envelope-evaluated''), (u ''runtime_id'', JStr rid), (u ''operation'', JStr op),
      (u ''capability_id'', JStr cid), (u ''permission_id'', JStr pid), (u ''approval_id'', JStr aid),
      (u ''recovery_id'', JStr kid), (u ''target_scope'', JStr scope), (u ''payload_hash'', JStr (canonical_hash payload)),
      (u ''authority_source'', js ''broker_internal''), (u ''audit_event_required'', JBool True),
      (u ''metadata'', JObj [(u ''evidence_class'', js ''INTERNAL_STATE'')])] ''action_envelope.schema.json'' = Inr ()"
  using assms by (simp add: schema_eval schema_defs re_match_eval canonical_hash_matches cong: u_cong)

lemma valid_parts:
  assumes "bounded_extension_validation_errors tree extension = Inr []"
    and "dget_or extension ''runtime'' (JObj []) = JObj r" "dget_or extension ''capability'' (JObj []) = JObj c"
      "dget_or extension ''permission'' (JObj []) = JObj p" "dget_or extension ''approval'' (JObj []) = JObj ap"
      "dget_or extension ''audit_event'' (JObj []) = JObj e" "dget_or extension ''recovery_action'' (JObj []) = JObj rc"
  shows "grant_errors (dget c ''capability_id'') p = []"
    and "binding_errors (dget r ''runtime_id'') (dget c ''capability_id'') ap e rc = []"
  using assms by (auto simp: bounded_extension_validation_errors_def Let_def bindE_eq_Inr)

text \<open>The action built from records whose ids are the given texts.\<close>

definition declared_action :: "ustr \<Rightarrow> ustr \<Rightarrow> ustr \<Rightarrow> ustr \<Rightarrow> obj \<Rightarrow> obj \<Rightarrow> obj \<Rightarrow> obj \<Rightarrow> obj \<Rightarrow> obj" where
  "declared_action rid cid pid aid a p ap e rc =
     [(u ''runtime_id'', JStr rid), (u ''operation'', JStr cid), (u ''capability_id'', JStr cid),
       (u ''permission_id'', JStr pid), (u ''approval_id'', JStr aid), (u ''approval_state'', js ''approved''),
       (u ''target_scope'', dget_or p ''target_scope'' (js ''diagnostic_summary'')),
       (u ''payload'', dget ap ''redacted_payload''), (u ''audit_event'', JObj e), (u ''recovery_action'', JObj rc),
       (u ''adapter_metadata'', dget_or a ''metadata'' (JObj []))]"

lemma declared_fields:
  assumes "action = declared_action rid cid pid aid a p ap e rc"
  shows "dget action ''runtime_id'' = JStr rid" "dget action ''operation'' = JStr cid"
    "dget_or action ''operation'' w = JStr cid" "dget action ''capability_id'' = JStr cid"
    "dget action ''permission_id'' = JStr pid" "dget action ''approval_id'' = JStr aid"
    "dget action ''target_scope'' = dget_or p ''target_scope'' (js ''diagnostic_summary'')"
    "dget action ''payload'' = dget ap ''redacted_payload''"
    "dget action ''audit_event'' = JObj e" "dget action ''recovery_action'' = JObj rc"
    "dget_or action ''adapter_metadata'' w = dget_or a ''metadata'' (JObj [])" "dget action ''authority_source'' = JNull"
    "has_payload action"
  by (simp_all add: assms declared_action_def has_payload_def dget_def dget_or_def dhas_def)

lemma declared_flags: "map_of (declared_action rid cid pid aid a p ap e rc) (src @ u ''_grants_authority'') = None"
proof -
  have "list_all (\<lambda>k. last k \<noteq> last (u ''y'')) (map fst (declared_action rid cid pid aid a p ap e rc))"
    by (simp add: declared_action_def u_def)
  then have "src @ u ''_grants_authority'' \<notin> set (map fst (declared_action rid cid pid aid a p ap e rc))"
    by (force simp: u_def list_all_iff)
  then show ?thesis by (simp add: map_of_eq_None_iff)
qed

lemma declared_envelope:
  assumes "rid \<noteq> []" "cid \<noteq> []" "pid \<noteq> []" "aid \<noteq> []" "kid \<noteq> []" "scope \<noteq> []"
    and "dget rc ''recovery_id'' = JStr kid" and "dget p ''target_scope'' = JStr scope"
  shows "\<exists>env. build_action_envelope repo_specs (declared_action rid cid pid aid a p ap e rc) default_envelope_id = Inr env"
proof -
  have "map_of rc (u ''recovery_id'') = Some (JStr kid)" "map_of p (u ''target_scope'') = Some (JStr scope)"
    using assms(7,8) by (auto simp: dget_def dget_or_def split: option.splits)
  with envelope_accepted [of rid cid cid pid aid kid scope "dget ap ''redacted_payload''"] assms(1-6) show ?thesis
    by (simp add: build_action_envelope_def declared_action_def ditem_def dget_def [of "_ # _"] dget_or_def default_envelope_id_def
        Let_def)
qed

lemma built_extension:
  assumes "build_bounded_extension_state U C extension = Inr S" and "build_bounded_extension_action extension = Inr action"
  obtains r a c p ap e rc rid cid pid aid eid kid where "state_run U C RuntimeState_init S"
    "dget_or extension ''runtime'' (JObj []) = JObj r" "dget_or extension ''adapter'' (JObj []) = JObj a"
    "dget_or extension ''capability'' (JObj []) = JObj c" "dget_or extension ''permission'' (JObj []) = JObj p"
    "dget_or extension ''approval'' (JObj []) = JObj ap" "dget_or extension ''audit_event'' (JObj []) = JObj e"
    "dget_or extension ''recovery_action'' (JObj []) = JObj rc"
    "runtimes S = [(rid, r)]" "dget r ''runtime_id'' = JStr rid" "capabilities S = [(cid, c)]" "dget c ''capability_id'' = JStr cid"
    "permissions S = [(pid, p)]" "dget p ''permission_id'' = JStr pid" "approvals S = [(aid, ap)]" "dget ap ''approval_id'' = JStr aid"
    "audit_events S = [(eid, e)]" "dget e ''event_id'' = JStr eid" "recovery_actions S = [(kid, rc)]" "dget rc ''recovery_id'' = JStr kid"
    "action = declared_action rid cid pid aid a p ap e rc"
proof -
  from assms(1) obtain r a c p ap e rc up S1 S2 S3 S4 S5 S6 S7 where
    f: "extension_record extension ''runtime'' = Inr r" "extension_record extension ''adapter'' = Inr a"
      "extension_record extension ''capability'' = Inr c" "extension_record extension ''permission'' = Inr p"
      "extension_record extension ''approval'' = Inr ap" "extension_record extension ''audit_event'' = Inr e"
      "extension_record extension ''recovery_action'' = Inr rc"
    and s: "register_runtime C RuntimeState_init r = Inr S1" "register_adapter U C S1 a = Inr S2"
      "register_capability C S2 c = Inr S3" "record_permission C S3 p = Inr S4" "enqueue_approval C S4 ap = Inr S5"
      "append_audit_event C S5 e = Inr S6" "register_recovery_action C S6 rc = Inr S7" "register_update_policy C S7 up = Inr S"
    by (auto simp: build_bounded_extension_state_def bindE_eq_Inr)
  obtain rid cid pid aid eid kid where g: "state_run U C RuntimeState_init S"
    "runtimes S = [(rid, r)]" "dget r ''runtime_id'' = JStr rid" "capabilities S = [(cid, c)]" "dget c ''capability_id'' = JStr cid"
    "permissions S = [(pid, p)]" "dget p ''permission_id'' = JStr pid" "approvals S = [(aid, ap)]" "dget ap ''approval_id'' = JStr aid"
    "audit_events S = [(eid, e)]" "dget e ''event_id'' = JStr eid" "recovery_actions S = [(kid, rc)]" "dget rc ''recovery_id'' = JStr kid"
    by (rule registered_records [OF s])
  note f = f [unfolded extension_record_Inr]
  have "dget_or extension k (JObj []) = v" if "dget extension k = v \<and> dhas extension k" for k v
    using that by (auto simp: dget_or_dhas)
  note d = this [OF f(1)] this [OF f(2)] this [OF f(3)] this [OF f(4)] this [OF f(5)] this [OF f(6)] this [OF f(7)]
  show ?thesis
    by (rule that [OF g(1) d g(2-13)]) (use assms(2) f g in \<open>auto simp: build_bounded_extension_action_def declared_action_def res_simps\<close>)
qed

text \<open>
  C33. The validation of a bounded extension and the policy together decide the declared mapping: for every extension
  without validation errors whose state and action can be built, the evaluator returns, and it allows the action exactly
  when the extension is \<open>governed\<close>, that is when the relations hold that no line of the validation looks at.
\<close>

theorem governed_path_exact:
  assumes valid: "bounded_extension_validation_errors tree extension = Inr []"
    and state: "build_bounded_extension_state U repo_specs extension = Inr S"
    and act: "build_bounded_extension_action extension = Inr action"
  shows "\<exists>r. evaluate U repo_specs S action = Inr r \<and> (allowed r \<longleftrightarrow> governed U extension)"
proof -
  obtain r a c p ap e rc rid cid pid aid eid kid where run: "state_run U repo_specs RuntimeState_init S"
    and d: "dget_or extension ''runtime'' (JObj []) = JObj r" "dget_or extension ''adapter'' (JObj []) = JObj a"
      "dget_or extension ''capability'' (JObj []) = JObj c" "dget_or extension ''permission'' (JObj []) = JObj p"
      "dget_or extension ''approval'' (JObj []) = JObj ap" "dget_or extension ''audit_event'' (JObj []) = JObj e"
      "dget_or extension ''recovery_action'' (JObj []) = JObj rc"
    and g: "runtimes S = [(rid, r)]" "dget r ''runtime_id'' = JStr rid" "capabilities S = [(cid, c)]" "dget c ''capability_id'' = JStr cid"
      "permissions S = [(pid, p)]" "dget p ''permission_id'' = JStr pid" "approvals S = [(aid, ap)]" "dget ap ''approval_id'' = JStr aid"
      "audit_events S = [(eid, e)]" "dget e ''event_id'' = JStr eid" "recovery_actions S = [(kid, rc)]" "dget rc ''recovery_id'' = JStr kid"
    and action: "action = declared_action rid cid pid aid a p ap e rc"
    by (rule built_extension [OF state act])
  have ok: "state_ok U S" using run by (rule state_ok_run) (rule state_ok_init)
  obtain scope where scope: "dget p ''target_scope'' = JStr scope" "scope \<noteq> []"
    using stored_id [of _ _ _ pid p "''target_scope''"] ok g contract_ids by (fastforce simp: state_ok_def)
  then have scope': "dget_or p ''target_scope'' v = JStr scope" for v by (metis dget_or_dhas dhas_dget json.distinct(5))
  have ids: "rid \<noteq> [] \<and> cid \<noteq> [] \<and> pid \<noteq> [] \<and> aid \<noteq> [] \<and> kid \<noteq> [] \<and> eid \<noteq> []"
    using stored_id [of _ _ _ eid e "''event_id''"] stored_id [of _ _ _ rid r "''runtime_id''"] stored_id [of _ _ _ cid c "''capability_id''"]
      stored_id [of _ _ _ pid p "''permission_id''"] stored_id [of _ _ _ aid ap "''approval_id''"]
      stored_id [of _ _ _ kid rc "''recovery_id''"] ok g contract_ids by (fastforce simp: state_ok_def)
  have "accepts capability_schema (JObj c)" using ok g(3) accepted_storeD by (fastforce simp: state_ok_def)
  then obtain ops where ops: "dget c ''operations'' = JArr ops" using accepted_operations by blast
  from valid_parts [OF valid d(1,3-7)] g have v: "dget p ''capability_id'' = JStr cid" "dget p ''decision'' = js ''allow''"
    "dget ap ''runtime_id'' = JStr rid" "dget ap ''operation'' = JStr cid" "dget ap ''status'' = js ''approved''"
    "py_eq (dget e ''payload_hash'') (dget ap ''payload_hash'')" "dget e ''action'' = JStr cid"
    by (auto simp: grant_errors_def binding_errors_def)
  note f = declared_fields [OF action] and flags = declared_flags [of rid cid pid aid a p ap e rc, folded action]
  have total: "\<exists>r. evaluate U repo_specs S action = Inr r"
    using evaluate_total [OF run, of action] by (auto simp: f g)
  have env: "\<exists>env. build_action_envelope repo_specs action default_envelope_id = Inr env"
    unfolding action using ids scope g(12) by (intro declared_envelope) auto
  have "check_runtime S action (JStr cid) = Inr []" using ids by (simp add: check_runtime_def Let_def f g)
  moreover have "check_capability S action (JStr cid) = Inr [] \<longleftrightarrow> dget c ''runtime_id'' = JStr rid \<and> JStr cid \<in> set ops"
    using ids by (auto simp: check_capability_def Let_def f g ops py_in_def list_ex_iff)
  moreover have "check_permission S action (JStr cid) = Inr [] \<longleftrightarrow> dget p ''runtime_id'' = JStr rid \<and> dget p ''operation'' = JStr cid"
    by (auto simp: check_permission_def Let_def f g v scope scope' mismatches_Nil in_set_of_def py_in_def ALLOWED_PERMISSION_DECISIONS_def)
  moreover have "check_approval S action (JStr cid) = Inr [] \<longleftrightarrow>
      dget ap ''target_scope'' = JStr scope \<and> dget ap ''payload_hash'' = JStr (canonical_hash (dget ap ''redacted_payload''))"
    by (auto simp: check_approval_def Let_def f g v scope' mismatches_Nil)
  moreover have "check_audit S action (JStr cid) = Inr [] \<longleftrightarrow>
      dget e ''payload_hash'' = JStr (canonical_hash (dget ap ''redacted_payload''))"
    using ids by (auto simp: check_audit_def f g v Let_def in_set_of_def py_in_def)
  moreover have "check_recovery S action (JStr cid) = Inr [] \<longleftrightarrow> dget rc ''runtime_id'' = JStr rid \<and> dget rc ''operation'' = JStr cid"
    using ids by (auto simp: check_recovery_def Let_def f g mismatches_Nil)
  moreover have "check_metadata U action (JStr cid) = [] \<longleftrightarrow> \<not> metadata_attempts_authority U (dget_or a ''metadata'' (JObj []))"
    by (simp add: check_metadata_def f)
  moreover have "check_sources action (JStr cid) = []" by (simp add: check_sources_def f flags)
  moreover have "record_of extension ''runtime'' = r" "record_of extension ''adapter'' = a" "record_of extension ''capability'' = c"
    "record_of extension ''permission'' = p" "record_of extension ''approval'' = ap" "record_of extension ''recovery_action'' = rc"
    using d by (simp_all add: record_of_dget_or)
  ultimately have "policy_checks U S action = Inr [] \<longleftrightarrow> governed U extension"
    using v(6) by (auto simp: policy_checks_clean f governed_def Let_def g ops scope)
  with total env show ?thesis using evaluate_allowed [of U repo_specs S action]
    by (fastforce simp: evaluate_def Let_def)
qed

end
