(* ===== verification/Extension_Sample.thy ===== *)
theory Extension_Sample
  imports Bounded_Extension Policy_Fixtures
begin

text \<open>
  A bounded extension after \<open>examples/contracts/llm_bounded_extension.valid.json\<close>, with shorter texts and the payload
  hash as a term: the validation accepts it (over schemas without demands; the runtime state validates against the
  contracts themselves), the state and the action are built, and the policy allows the action.
\<close>

definition bounded_redacted :: json where
  "bounded_redacted = JObj [(u ''diagnostic'', js ''[redacted]''), (u ''status'', js ''ready'')]"

definition bounded_runtime :: obj where
  "bounded_runtime =
     [(u ''runtime_id'', js ''llm_bounded''), (u ''name'', js ''bounded''), (u ''kind'', js ''tool''), (u ''status'', js ''ready''),
      (u ''adapter_id'', js ''llm_adapter''), (u ''capabilities'', JArr [js ''diagnostic.read''])]"

definition bounded_adapter :: obj where
  "bounded_adapter =
     [(u ''adapter_id'', js ''llm_adapter''), (u ''runtime_id'', js ''llm_bounded''), (u ''contract_version'', js ''v1.0''),
      (u ''transport'', js ''mock''), (u ''authority_strip'', JBool True),
      (u ''declared_capabilities'', JArr [js ''diagnostic.read''])]"

definition bounded_runtime_manifest :: obj where
  "bounded_runtime_manifest =
     [(u ''runtime_id'', js ''llm_bounded''), (u ''runtime_type'', js ''tool_runtime''),
      (u ''capabilities'', JArr [js ''diagnostic.read'']), (u ''permissions'', JArr [js ''permission.read'']),
      (u ''signed_manifest'', JBool True)]"

definition bounded_adapter_manifest :: obj where
  "bounded_adapter_manifest =
     [(u ''adapter_id'', js ''llm_adapter''), (u ''runtime_id'', js ''llm_bounded''), (u ''transport'', js ''mock''),
      (u ''authority_strip'', JBool True), (u ''declared_capabilities'', JArr [js ''diagnostic.read'']),
      (u ''signed_manifest'', JBool True)]"

definition bounded_capability :: obj where
  "bounded_capability =
     [(u ''capability_id'', js ''diagnostic.read''), (u ''runtime_id'', js ''llm_bounded''), (u ''name'', js ''read''),
      (u ''risk_level'', js ''low''), (u ''default_permission'', js ''ask''), (u ''requires_approval'', JBool True),
      (u ''operations'', JArr [js ''diagnostic.read''])]"

definition bounded_permission :: obj where
  "bounded_permission =
     [(u ''permission_id'', js ''permission.read''), (u ''runtime_id'', js ''llm_bounded''),
      (u ''capability_id'', js ''diagnostic.read''), (u ''operation'', js ''diagnostic.read''),
      (u ''target_scope'', js ''summary''), (u ''scope'', js ''operation''), (u ''decision'', js ''allow''),
      (u ''source'', js ''policy''), (u ''expires_at'', JNull), (u ''constraints'', JObj [])]"

definition bounded_approval :: obj where
  "bounded_approval =
     [(u ''approval_id'', js ''approval-llm''), (u ''runtime_id'', js ''llm_bounded''), (u ''operation'', js ''diagnostic.read''),
      (u ''target_scope'', js ''summary''), (u ''status'', js ''approved''), (u ''content_visibility'', js ''redacted''),
      (u ''payload_hash'', JStr (canonical_hash bounded_redacted)), (u ''redacted_payload'', bounded_redacted),
      (u ''editable_fields'', JArr [js ''note'']), (u ''authority_fields'', JArr [js ''permission_id'']),
      (u ''sealed_fields'', JArr [js ''runtime_id'']), (u ''hidden_fields'', JArr [js ''credential'']),
      (u ''sacred_fields'', JArr [js ''authority_context''])]"

definition bounded_audit_event :: obj where
  "bounded_audit_event =
     [(u ''event_id'', js ''audit-llm''), (u ''timestamp'', js ''2026-06-04T00:00:00Z''), (u ''actor'', js ''adapter''),
      (u ''action'', js ''diagnostic.read''), (u ''target'', js ''llm_bounded''), (u ''result'', js ''success''),
      (u ''payload_hash'', JStr (canonical_hash bounded_redacted))]"

definition bounded_recovery :: obj where
  "bounded_recovery =
     [(u ''recovery_id'', js ''recover-llm''), (u ''runtime_id'', js ''llm_bounded''), (u ''operation'', js ''diagnostic.read''),
      (u ''class'', js ''permission_denied''), (u ''severity'', js ''warning''), (u ''safe_to_retry'', JBool True),
      (u ''user_visible_message'', js ''check the permission'')]"

definition bounded_exposure :: obj where
  "bounded_exposure =
     [(u ''default_visibility'', js ''none''), (u ''allowed_visibility'', JArr [js ''none'', js ''redacted''])]"

definition bounded_extension :: obj where
  "bounded_extension =
     [(u ''evidence_classification'', js ''contract_conformance''),
      (u ''non_claims'', JArr (map js REQUIRED_NON_CLAIMS)),
      (u ''runtime'', JObj bounded_runtime), (u ''adapter'', JObj bounded_adapter),
      (u ''runtime_manifest'', JObj bounded_runtime_manifest), (u ''adapter_manifest'', JObj bounded_adapter_manifest),
      (u ''capability'', JObj bounded_capability), (u ''permission'', JObj bounded_permission),
      (u ''approval'', JObj bounded_approval), (u ''audit_event'', JObj bounded_audit_event),
      (u ''recovery_action'', JObj bounded_recovery), (u ''content_exposure_policy'', JObj bounded_exposure),
      (u ''update_policy'', JObj sample_update_policy)]"

text \<open>Every file is the empty object.\<close>

definition open_tree :: repo_texts where
  "open_tree = \<lparr>tree_walk = [], tree_text = (\<lambda>_. Some (fixture_text []))\<rparr>"

lemma open_schema: "load_schema open_tree name = Inr (JObj [])"
proof -
  have "py_loads (fixture_text []) = Inr (JObj [])"
    using loads_render_space [of "JObj []" "[]" None 0] by (simp add: fixture_text_def py_loads_def)
  then show ?thesis
    by (simp add: load_schema_def read_source_def read_names_def open_tree_def universal_newlines_id) (simp add: fixture_text_def)
qed

lemma open_members: "validate_members mn d [] path = Inr []"
  by (induction d) (auto simp: member_schema_def dget_or_def)

lemma open_schema_accepts: "check_schemas_validate_instance v (JObj []) path = Inr []"
  by (cases v) (simp_all add: check_schemas_validate_instance_def open_members validate_with.simps type_accepts_def check_value_def check_const_def
      check_enum_def check_string_def check_minimum_def check_min_items_def check_required_def check_additional_def
      when_key_def dget_def dget_or_def is_false_def)

lemmas bounded_defs = bounded_runtime_def bounded_adapter_def bounded_runtime_manifest_def bounded_adapter_manifest_def
  bounded_capability_def bounded_permission_def bounded_approval_def bounded_audit_event_def bounded_recovery_def
  bounded_exposure_def

lemma bounded_records:
  "dget_or bounded_extension ''runtime'' w = JObj bounded_runtime" "dget_or bounded_extension ''adapter'' w = JObj bounded_adapter"
  "dget_or bounded_extension ''runtime_manifest'' w = JObj bounded_runtime_manifest"
  "dget_or bounded_extension ''adapter_manifest'' w = JObj bounded_adapter_manifest"
  "dget_or bounded_extension ''capability'' w = JObj bounded_capability"
  "dget_or bounded_extension ''permission'' w = JObj bounded_permission"
  "dget_or bounded_extension ''approval'' w = JObj bounded_approval"
  "dget_or bounded_extension ''audit_event'' w = JObj bounded_audit_event"
  "dget_or bounded_extension ''recovery_action'' w = JObj bounded_recovery"
  "dget_or bounded_extension ''content_exposure_policy'' w = JObj bounded_exposure"
  "dget_or bounded_extension ''update_policy'' w = JObj sample_update_policy"
  "dget_or bounded_extension ''non_claims'' w = JArr (map js REQUIRED_NON_CLAIMS)"
  "dget_or bounded_extension ''evidence_classification'' w = js ''contract_conformance''"
  by (simp_all add: bounded_extension_def dget_or_def)

lemma bounded_claims: "claim_errors bounded_extension = Inr []"
  by (simp add: claim_errors_def bounded_records dget_def py_set_def REQUIRED_NON_CLAIMS_def)

lemma bounded_valid: "bounded_extension_validation_errors open_tree bounded_extension = Inr []"
proof -
  have "concatE (extension_record_errors open_tree bounded_extension) BOUNDED_EXTENSION_RECORD_SCHEMAS = Inr []"
    by (simp add: BOUNDED_EXTENSION_RECORD_SCHEMAS_def extension_record_errors_def dget_def bounded_records open_schema
        open_schema_accepts)
  moreover have "link_errors bounded_runtime bounded_adapter bounded_runtime_manifest bounded_adapter_manifest = []"
    by (simp add: link_errors_def dget_def dget_or_def bounded_defs is_true_def cong: u_cong)
  moreover have "declaration_errors_of (dget bounded_capability ''capability_id'') bounded_runtime bounded_runtime_manifest
      bounded_adapter bounded_adapter_manifest = Inr []"
    by (simp add: declaration_errors_of_def lacking_def dget_def dget_or_def bounded_defs py_in_def cong: u_cong)
  moreover have "lacking (dget bounded_permission ''permission_id'') (dget_or bounded_runtime_manifest ''permissions'' (JArr [])) m = Inr []" for m
    by (simp add: lacking_def dget_def dget_or_def bounded_defs py_in_def cong: u_cong)
  moreover have "grant_errors (dget bounded_capability ''capability_id'') bounded_permission = []"
    by (simp add: grant_errors_def dget_def dget_or_def bounded_defs cong: u_cong)
  moreover have "binding_errors (dget bounded_runtime ''runtime_id'') (dget bounded_capability ''capability_id'') bounded_approval
      bounded_audit_event bounded_recovery = []"
    by (simp add: binding_errors_def dget_def dget_or_def bounded_defs cong: u_cong)
  moreover have "exposure_errors bounded_approval bounded_exposure = Inr []"
    by (simp add: exposure_errors_def Let_def dget_def dget_or_def bounded_defs py_in_def cong: u_cong)
  ultimately show ?thesis
    by (simp add: bounded_extension_validation_errors_def bounded_records bounded_claims Let_def)
qed

subsection \<open>State, action and decision\<close>

lemmas bounded_eval = schema_eval schema_defs re_match_eval canonical_hash_matches version_pattern_v1 bounded_redacted_def

lemma bounded_runtime_accepted: "validate_contract repo_specs bounded_runtime ''runtime.schema.json'' = Inr ()"
  by (simp add: bounded_eval bounded_runtime_def cong: u_cong)

lemma bounded_adapter_accepted: "validate_contract repo_specs bounded_adapter ''adapter.schema.json'' = Inr ()"
  by (simp add: bounded_eval bounded_adapter_def cong: u_cong)

lemma bounded_capability_accepted: "validate_contract repo_specs bounded_capability ''capability.schema.json'' = Inr ()"
  by (simp add: bounded_eval bounded_capability_def cong: u_cong)

lemma bounded_permission_accepted: "validate_contract repo_specs bounded_permission ''permission.schema.json'' = Inr ()"
  by (simp add: bounded_eval bounded_permission_def cong: u_cong)

lemma bounded_approval_accepted: "validate_contract repo_specs bounded_approval ''approval.schema.json'' = Inr ()"
  by (simp add: bounded_eval bounded_approval_def cong: u_cong)

lemma bounded_audit_event_accepted: "validate_contract repo_specs bounded_audit_event ''audit.schema.json'' = Inr ()"
  by (simp add: bounded_eval bounded_audit_event_def cong: u_cong)

lemma bounded_recovery_accepted: "validate_contract repo_specs bounded_recovery ''recovery.schema.json'' = Inr ()"
  by (simp add: bounded_eval bounded_recovery_def cong: u_cong)

lemmas bounded_all_accepted = bounded_runtime_accepted bounded_adapter_accepted bounded_capability_accepted
  bounded_permission_accepted bounded_approval_accepted bounded_audit_event_accepted bounded_recovery_accepted
  sample_update_accepted

lemma bounded_ids:
  "ditem bounded_runtime ''runtime_id'' = Inr (js ''llm_bounded'')"
  "ditem bounded_capability ''capability_id'' = Inr (js ''diagnostic.read'')"
  "ditem bounded_permission ''permission_id'' = Inr (js ''permission.read'')"
  "ditem bounded_approval ''approval_id'' = Inr (js ''approval-llm'')"
  "ditem bounded_approval ''redacted_payload'' = Inr bounded_redacted"
  "ditem bounded_audit_event ''event_id'' = Inr (js ''audit-llm'')"
  "ditem bounded_recovery ''recovery_id'' = Inr (js ''recover-llm'')"
  by (simp_all add: ditem_def bounded_defs cong: u_cong)

lemma bounded_items:
  "ditem bounded_extension ''runtime'' = Inr (JObj bounded_runtime)" "ditem bounded_extension ''adapter'' = Inr (JObj bounded_adapter)"
  "ditem bounded_extension ''capability'' = Inr (JObj bounded_capability)"
  "ditem bounded_extension ''permission'' = Inr (JObj bounded_permission)"
  "ditem bounded_extension ''approval'' = Inr (JObj bounded_approval)"
  "ditem bounded_extension ''audit_event'' = Inr (JObj bounded_audit_event)"
  "ditem bounded_extension ''recovery_action'' = Inr (JObj bounded_recovery)"
  "ditem bounded_extension ''update_policy'' = Inr (JObj sample_update_policy)"
  by (simp_all add: ditem_def bounded_extension_def)

lemma load_bounded_adapter: "\<exists>r. load_adapter U bounded_adapter = Inr r \<and> adp_id r = js ''llm_adapter''"
  by (simp add: load_adapter_def bounded_adapter_def is_true_def dget_def dget_or_def ditem_def dict_of_def)

lemma bounded_state: "\<exists>S. build_bounded_extension_state U repo_specs bounded_extension = Inr S"
proof -
  obtain r where "load_adapter U bounded_adapter = Inr r" "adp_id r = js ''llm_adapter''" using load_bounded_adapter by blast
  then show ?thesis
    by (simp add: build_bounded_extension_state_def extension_record_def bounded_items register_runtime_def register_adapter_def
        register_capability_def record_permission_def enqueue_approval_def register_recovery_action_def append_audit_event_def
        register_update_policy_def bounded_all_accepted bounded_ids fixture_ids store_put_def RuntimeState_init_def)
qed

lemma bounded_action: "\<exists>action. build_bounded_extension_action bounded_extension = Inr action"
  by (simp add: build_bounded_extension_action_def bounded_items bounded_ids)

lemma bounded_governed: "governed ascii_ucd bounded_extension"
proof -
  have r: "record_of bounded_extension ''runtime'' = bounded_runtime" "record_of bounded_extension ''adapter'' = bounded_adapter"
    "record_of bounded_extension ''capability'' = bounded_capability" "record_of bounded_extension ''permission'' = bounded_permission"
    "record_of bounded_extension ''approval'' = bounded_approval" "record_of bounded_extension ''recovery_action'' = bounded_recovery"
    by (simp_all add: record_of_def dget_def bounded_records)
  have "dget_or bounded_adapter ''metadata'' (JObj []) = JObj []" by (simp add: bounded_adapter_def dget_or_def)
  then show ?thesis by (simp add: governed_def Let_def r) (simp add: dget_def dget_or_def bounded_defs cong: u_cong)
qed

theorem governed_path_exact_witness:
  "\<exists>S action r. build_bounded_extension_state ascii_ucd repo_specs bounded_extension = Inr S
     \<and> build_bounded_extension_action bounded_extension = Inr action
     \<and> evaluate ascii_ucd repo_specs S action = Inr r \<and> allowed r"
proof -
  obtain S action where b: "build_bounded_extension_state ascii_ucd repo_specs bounded_extension = Inr S"
    "build_bounded_extension_action bounded_extension = Inr action" using bounded_state bounded_action by blast
  from governed_path_exact [OF bounded_valid b] bounded_governed b show ?thesis by blast
qed

end
