(* ===== verification/Spec2Isabelle.thy ===== *)
theory Spec2Isabelle
  imports Normalization Error_Taxonomy Stores Approval_Queue Audit_Chain Json_Roundtrip
    Schema_Validation Contracts Runtime_State Policy Reference_State Persistence
    Windows_Evidence Evidence_Sample Release_Gate
    Setup_Doctor State_Snapshot Agent_Runtime Blue_Tanuki Release_Smoke
    Schema_Gate Manifest Runtime_Assertions Shell_Snapshot Evidence_Bundle Validate_All Packaging
    Broker_Parity Parity_Cases Parity_Reference Conformance_Scans
    Regex Prose Code_Scan Script_Scan Exception_Registry Base_Audit Audit_Sample Codegen
    Conformance_Policy Policy_Fixtures Bounded_Extension Extension_Sample
begin

text \<open>
  A verification development of GUI-Shell, the operator shell whose Python core lives under \<open>packages/\<close>,
  \<open>installer/\<close> and \<open>tooling/\<close>.

  The program. A broker keeps a \<open>RuntimeState\<close> (runtimes, adapters, capabilities, permissions, approvals,
  audit events, recovery actions, update policies). Every record is validated against a JSON schema before it
  is stored. A sensitive action passes the \<open>SensitiveActionRouter\<close>, which asks the \<open>PolicyEvaluator\<close> whether
  the records of the state agree with the action, and builds an action envelope bound to the payload by its
  canonical SHA-256 hash. Payloads from outside are normalised and quarantined when they carry authority.
  Approvals can be edited in a queue that re-hashes them, audit events go to a hash chain, in memory and in a
  JSON-lines file with a signed anchor, and a snapshot of the state is written to a file. Around the core stand
  the agent runtime contract, the reference adapter, the setup doctor, the release smokes that drive all of it
  end to end, and the release gate with the Windows evidence it rests on.

  Values and effects. A Python value is a \<open>json\<close>, a dictionary the association list of its items in insertion
  order, a string the list of its code points; \<open>==\<close> is \<open>py_eq\<close> (dictionaries up to order, \<open>True == 1\<close>). Code
  that can raise returns \<open>exn + 'a\<close>; code with files returns its result together with the files it leaves, so
  that what was written before an exception stays. Messages are templates with their arguments, the templates
  being the English reading of the Japanese texts of the source. Floats are not values of the model: no schema
  of the repository has one, and a float in a text is an explicit error branch.

  The theories, in the order of their dependence.
    \<^item> \<open>Prelude\<close>: results, association lists, sorting. \<open>Py_Value\<close>: values, dictionaries, order, equality.
    \<^item> \<open>Json_Text\<close>, \<open>Json_Roundtrip\<close>: \<open>json.dumps\<close> and \<open>json.loads\<close>, and that reading undoes printing, which
      hashes, the file log, the anchor, snapshots and the release gate rest on. \<open>Digest\<close>: UTF-8, SHA-256, HMAC
      and \<open>canonical_hash\<close> (\<open>packages/shell_core/approval_queue.py\<close>), injective up to an exhibited collision.
    \<^item> \<open>Normalization\<close> (\<open>normalization.py\<close>, \<open>authority_keys.py\<close>): the Unicode tables are the parameter \<open>ucd\<close>.
      \<open>Error_Taxonomy\<close> (\<open>error_taxonomy.py\<close>, \<open>content_exposure.py\<close>).
    \<^item> \<open>Stores\<close>: the keyed stores (\<open>recovery_catalog.py\<close>, \<open>runtime_registry.py\<close>, \<open>update_policy_store.py\<close>,
      \<open>permission_ledger.py\<close>, \<open>runtime_catalog/catalog.py\<close>) as instances of the locales \<open>keyed_store\<close> and
      \<open>checked_store\<close>. \<open>Approval_Queue\<close> (\<open>approval_queue.py\<close>).
    \<^item> \<open>Audit_Chain\<close> (\<open>audit_chain.py\<close>, \<open>audit_store.py\<close>): the locale \<open>audit_log\<close> is the contract of a log,
      implemented by the store in memory here and by the files in \<open>Persistence\<close> (\<open>persistence.py\<close>).
    \<^item> \<open>Schema_Validation\<close> (\<open>schema_validation.py\<close>, \<open>schema_loader.py\<close> and the copy in
      \<open>tooling/schema_check\<close>), \<open>Contracts\<close>: the schemas of \<open>specs/\<close> the core validates with.
    \<^item> \<open>Runtime_State\<close> (\<open>runtime_state.py\<close>, \<open>adapter_loader.py\<close>): \<open>state_step\<close> is one operation, \<open>state_run\<close>
      any history. \<open>Policy\<close> (\<open>policy_evaluator.py\<close>, \<open>action_envelope.py\<close>, \<open>sensitive_action_router.py\<close>).
      \<open>Reference_State\<close>: the reference state and action of the smoke run, evaluated.
    \<^item> \<open>Py_Text\<close>, \<open>Py_Path\<close>: lines, \<open>str\<close>, \<open>repr\<close>, paths; the locale \<open>resolver\<close> is what is relied on of
      \<open>Path.resolve\<close>. \<open>Agent_Runtime\<close> (\<open>agent_runtime/contract.py\<close>), \<open>Blue_Tanuki\<close>
      (\<open>blue_tanuki_adapter/\<close>), \<open>Setup_Doctor\<close> (\<open>installer/\<close>), \<open>State_Snapshot\<close> (\<open>state_snapshot.py\<close>,
      \<open>state_store.py\<close>, \<open>invariant_evaluator.py\<close>), \<open>Release_Smoke\<close> (both \<open>release_smoke.py\<close>).
    \<^item> \<open>Windows_Evidence\<close> (\<open>tooling/windows_release_evidence.py\<close>), \<open>Evidence_Sample\<close>: the evidence fixture of
      the conformance run, \<open>Release_Gate\<close> (\<open>tooling/release_gate_check.py\<close>).
    \<^item> \<open>Schema_Gate\<close> (\<open>tooling/schema_check/check_schemas.py\<close>, the run over the three directories), \<open>Manifest\<close>
      (\<open>tooling/manifest.py\<close>, over a \<open>workspace\<close> record that stands for the file system and git),
      \<open>Runtime_Assertions\<close> (\<open>tooling/release_runtime_assertions.py\<close>, with \<open>release_contract\<close> as the abstract
      specification its exit code is proved equal to), \<open>Shell_Snapshot\<close> (\<open>tooling/shell_snapshot.py\<close>, for any
      runtime state), \<open>Evidence_Bundle\<close> (\<open>tooling/evidence_bundle.py\<close>, which composes the Windows evidence,
      the runtime assertions, the release smokes, the setup doctor and the shell snapshot),
      \<open>Validate_All\<close> (\<open>tooling/validate_all.py\<close>, over a \<open>toolbox\<close> that stands for the programs and the machine) and
      \<open>Packaging\<close> (\<open>tooling/packaging_portability_check.py\<close>, over a \<open>pack_host\<close>).
    \<^item> \<open>Broker_Parity\<close>, \<open>Parity_Cases\<close>, \<open>Parity_Reference\<close> (\<open>tooling/broker_parity/run_authority_parity.py\<close>): the
      Rust broker is any function from the requests sent so far to a line; what a passing run shows of it, and a
      broker that decides with the functions of the core, which passes.
    \<^item> \<open>Conformance_Scans\<close> (\<open>tooling/conformance_tests/run_conformance_skeleton.py\<close>): the tests that read the
      repository, with the exact reading of the source scans.
    \<^item> \<open>Regex\<close> (a backtracking matcher for the patterns of the audit, with \<open>ends\<close> proved exact against the relation
      \<open>reaches\<close>), \<open>Prose\<close> (what counts as prose that is not Japanese; Markdown and JSON metadata), \<open>Code_Scan\<close>
      (the tokenizer of the C-like languages; Dart, C and Rust), \<open>Script_Scan\<close> (shell, PowerShell and the Python syntax
      tree), \<open>Exception_Registry\<close> (the registry, its globs and frozen assets, the governance documents),
      \<open>Base_Audit\<close> (the run over the repository and what a strict exit with 0 means) and \<open>Audit_Sample\<close> (a repository
      that passes): the audit of the repository's own texts, \<open>audit_repository\<close> and its helpers under \<open>tooling/\<close>.
      The Unicode tables are the record \<open>tables\<close>, Python's tokenizer and parser the parameter \<open>parse\<close>.
    \<^item> \<open>Codegen\<close> (\<open>tooling/codegen/generate_contracts.py\<close>): the index of the schemas, which reads back.
    \<^item> \<open>Conformance_Policy\<close> and \<open>Bounded_Extension\<close> (\<open>run_conformance_skeleton.py\<close>): the tests of the policy evaluator
      and the router on the contract fixtures, and the bounded reference extension with its validation, state, action
      and tests; the refusal tests pass on every usable repository, and \<open>governed\<close> is exactly what the validation of an
      extension leaves to the policy. \<open>Policy_Fixtures\<close> and \<open>Extension_Sample\<close> hold a repository and an extension on
      which both are evaluated.
  What is shown. An allowed action refers only to registered records that agree with it and is bound to its
  payload; adapter metadata never grants; the router routes exactly what the evaluator allows. Every reachable
  state keys its records by id and holds only records its schemas accept; the audit log only grows. The
  quarantine verdict is exact. Both audit logs verify after any accepted history, and a rewritten log that
  still verifies exhibits a SHA-256 collision. The validator, the evaluator and the evidence validation return
  (the first on well-formed schemas, the second on reachable states, the third exactly when stated), and the
  release smokes return and pass on a new directory. A release the strict gate lets through has no active
  blocker that is not settled by hand or by passing evidence. Snapshots load back and are deterministic.
  A written manifest checks clean, and one that still checks clean later witnesses unchanged files; the
  runtime assertions exit with 0 exactly when their contract holds; a passing schema gate witnesses an
  accepted example and a rejected fixture for every required schema; an evidence bundle validates exactly
  when its reports are ok and never claims a release. A development validation exits with 0 exactly when no
  step failed, a strict one never does; the packaging check exits with 0 exactly when every check passed.

  Bounds and fuel. The reader of JSON text takes as fuel the length of the text; \<open>loads_fuel\<close> shows that it
  never runs out. The search for a classification line takes as fuel the length of the block plus one, one more
  than its lines. Every other function is total by structural recursion or a measure.

  Not modelled: writes that fail (except where a definition says so) and concurrent writers; printed reports;
  the Flutter, Rust and PowerShell parts; the other conformance tests that exercise the Shell Core and the tools on values of their own, whose subjects are
  modelled and verified here, and \<open>main\<close> of that run; the printed report and the self tests of the text audit.
\<close>

end
